(* ===== verification/Sas_Prelude.thy ===== *)
theory Sas_Prelude
  imports Complex_Main
begin

text \<open>
  Prelude of the development: the Python values and exceptions every component of the SAS
  works with, and the generic facts the component proofs share.

  \<^item> Python values (\<open>pyval\<close>) are what \<open>json.loads\<close> and the request dictionaries
    hold. Integers are unbounded, floats are idealised as reals (finite floats, no rounding),
    strings are lists of characters, a dictionary is an association list in insertion order
    in which the first entry of a key counts.
  \<^item> A raise is a value: \<open>'a res\<close> is \<open>Inl\<close> of the exception or \<open>Inr\<close> of the
    result, sequenced by \<open>rbind\<close>.
  \<^item> A text column that holds JSON is represented by what \<open>json.loads\<close> does with it
    (\<open>jtext\<close>): it is empty, malformed, or a document. \<open>json.dumps\<close> of a value is
    the document that holds it.
  \<^item> Instants are integers, in microseconds since the epoch in UTC. \<open>ensure_utc\<close> of
    services/clock.py is the identity on them.
\<close>

subsection \<open>Exceptions and results\<close>

datatype exn =
    TypeError
  | ValueError
  | KeyError
  | IndexError
  | AttributeError
  | JSONDecodeError
  | IntegrityError
  | RuntimeError
  | ExclusionZoneError
  | ExclusionZoneUnavailable
  | GwpzProtectionError
  | TerrainError
  | ZeroDivisionError
  | ProtectionEntityError
  | IapCouplingUnavailable
  | IapAdmissionError
  | CpasRfEvaluationError
  | CpasGenerationDriftError
  | PropagationUnavailableError
  | FileNotFoundError
  | FadPublicationError
  | FadClientError
  | BorderGeometryUnavailable
  | BorderProtectionUnavailable
  | NoReturn

text \<open>
  \<open>NoReturn\<close> is not an exception of the code: it is the outcome of a call whose loop never ends.
  No handler of the code that can meet it catches it.
\<close>

type_synonym 'a res = "exn + 'a"

definition rbind :: "'a res \<Rightarrow> ('a \<Rightarrow> 'b res) \<Rightarrow> 'b res" where
  "rbind m f = (case m of Inl e \<Rightarrow> Inl e | Inr x \<Rightarrow> f x)"

lemma rbind_Inl [simp]: "rbind (Inl e) f = Inl e"
  by (simp add: rbind_def)

lemma rbind_Inr [simp]: "rbind (Inr x) f = f x"
  by (simp add: rbind_def)

lemma rbind_eq_Inr: "(rbind m f = Inr y) = (\<exists>x. m = Inr x \<and> f x = Inr y)"
  by (cases m) auto

lemma rbind_eq_Inl:
  "(rbind m f = Inl e) = (m = Inl e \<or> (\<exists>x. m = Inr x \<and> f x = Inl e))"
  by (cases m) auto

lemma rbind_split:
  "P (rbind m f) = ((\<forall>e. m = Inl e \<longrightarrow> P (Inl e)) \<and> (\<forall>x. m = Inr x \<longrightarrow> P (f x)))"
  by (cases m) auto

definition is_ok :: "'a res \<Rightarrow> bool" where
  "is_ok r = (case r of Inl _ \<Rightarrow> False | Inr _ \<Rightarrow> True)"

lemma is_ok_Inl [simp]: "\<not> is_ok (Inl e)"
  by (simp add: is_ok_def)

lemma is_ok_Inr [simp]: "is_ok (Inr x)"
  by (simp add: is_ok_def)

text \<open>A loop that appends one result per element and stops at the first raise.\<close>

fun rmap :: "('a \<Rightarrow> 'b res) \<Rightarrow> 'a list \<Rightarrow> 'b list res" where
  "rmap f [] = Inr []"
| "rmap f (x # xs) = rbind (f x) (\<lambda>y. rbind (rmap f xs) (\<lambda>ys. Inr (y # ys)))"

text \<open>\<open>any\<close> over a loop whose test may raise: later elements are not looked at.\<close>

fun rany :: "('a \<Rightarrow> bool res) \<Rightarrow> 'a list \<Rightarrow> bool res" where
  "rany f [] = Inr False"
| "rany f (x # xs) = rbind (f x) (\<lambda>b. if b then Inr True else rany f xs)"

text \<open>A left fold whose step may raise.\<close>

fun rfold :: "('s \<Rightarrow> 'a \<Rightarrow> 's res) \<Rightarrow> 's \<Rightarrow> 'a list \<Rightarrow> 's res" where
  "rfold f s [] = Inr s"
| "rfold f s (x # xs) = rbind (f s x) (\<lambda>s'. rfold f s' xs)"

lemma rmap_length: "rmap f xs = Inr ys \<Longrightarrow> length ys = length xs"
  by (induction xs arbitrary: ys) (auto simp: rbind_eq_Inr)

lemma rmap_nth: "rmap f xs = Inr ys \<Longrightarrow> i < length xs \<Longrightarrow> f (xs ! i) = Inr (ys ! i)"
proof (induction xs arbitrary: ys i)
  case Nil
  then show ?case by simp
next
  case (Cons x xs)
  then show ?case by (cases i) (auto simp: rbind_eq_Inr)
qed

lemma rany_False: "rany f xs = Inr False \<Longrightarrow> x \<in> set xs \<Longrightarrow> f x = Inr False"
  by (induction xs) (auto simp: rbind_eq_Inr split: if_splits)

lemma rany_True: "rany f xs = Inr True \<Longrightarrow> \<exists>x\<in>set xs. f x = Inr True"
  by (induction xs) (auto simp: rbind_eq_Inr split: if_splits)

lemma rfold_append: "rfold f s (xs @ ys) = rbind (rfold f s xs) (\<lambda>s'. rfold f s' ys)"
proof (induction xs arbitrary: s)
  case Nil
  then show ?case by simp
next
  case (Cons x xs)
  then show ?case by (cases "f s x") auto
qed

lemma rfold_inv:
  assumes step: "\<And>s x s'. P s \<Longrightarrow> f s x = Inr s' \<Longrightarrow> P s'"
  shows "P s \<Longrightarrow> rfold f s xs = Inr t \<Longrightarrow> P t"
  by (induction xs arbitrary: s) (auto simp: rbind_eq_Inr intro: step)

text \<open>A set no step enlarges is not enlarged by the fold.\<close>

lemma rfold_shrinks:
  assumes "\<And>s x s'. f s x = Inr s' \<Longrightarrow> m s' \<subseteq> m s"
  shows "rfold f s xs = Inr t \<Longrightarrow> m t \<subseteq> m s"
proof (induction xs arbitrary: s)
  case Nil
  then show ?case by simp
next
  case (Cons x xs)
  then show ?case using assms by (fastforce simp: rbind_eq_Inr)
qed

text \<open>What one element's step brings about and every later step keeps holds at the end.\<close>

lemma rfold_establish:
  assumes keep: "\<And>s y s'. P s \<Longrightarrow> f s y = Inr s' \<Longrightarrow> P s'"
    and at: "\<And>s s'. f s x = Inr s' \<Longrightarrow> P s'"
  shows "x \<in> set xs \<Longrightarrow> rfold f s xs = Inr t \<Longrightarrow> P t"
proof (induction xs arbitrary: s)
  case Nil
  then show ?case by simp
next
  case (Cons y ys)
  from Cons.prems(2) obtain s' where s': "f s y = Inr s'" "rfold f s' ys = Inr t"
    by (auto simp: rbind_eq_Inr)
  show ?case
  proof (cases "x \<in> set ys")
    case True
    with Cons.IH s' show ?thesis by blast
  next
    case False
    with Cons.prems(1) s' at have "P s'" by auto
    from rfold_inv [of P f s' ys t, OF keep this s'(2)] show ?thesis .
  qed
qed

lemma find_SomeD: "List.find P xs = Some x \<Longrightarrow> P x"
  by (induction xs) (auto split: if_splits)

subsection \<open>Python values\<close>

datatype pyval =
    PNone
  | PBool bool
  | PInt int
  | PFloat real
  | PStr string
  | PList "pyval list"
  | PDict "(string \<times> pyval) list"

type_synonym pydict = "(string \<times> pyval) list"

text \<open>\<open>d.get(k)\<close> on a dictionary: a missing key gives \<open>None\<close>.\<close>

definition dget :: "pydict \<Rightarrow> string \<Rightarrow> pyval" where
  "dget d k = (case map_of d k of None \<Rightarrow> PNone | Some v \<Rightarrow> v)"

definition dhas :: "pydict \<Rightarrow> string \<Rightarrow> bool" where
  "dhas d k = (map_of d k \<noteq> None)"

text \<open>\<open>d[k] = v\<close>: the entry keeps its place, a new key goes last.\<close>

fun dset :: "pydict \<Rightarrow> string \<Rightarrow> pyval \<Rightarrow> pydict" where
  "dset [] k v = [(k, v)]"
| "dset ((a, b) # d) k v = (if a = k then (a, v) # d else (a, b) # dset d k v)"

lemma dget_Nil [simp]: "dget [] k = PNone"
  by (simp add: dget_def)

lemma dget_Cons [simp]: "dget ((a, v) # d) k = (if a = k then v else dget d k)"
  by (simp add: dget_def)

lemma dhas_Nil [simp]: "\<not> dhas [] k"
  by (simp add: dhas_def)

lemma dhas_Cons [simp]: "dhas ((a, v) # d) k = (a = k \<or> dhas d k)"
  by (auto simp: dhas_def)

lemma map_of_dset: "map_of (dset d k v) = (map_of d)(k \<mapsto> v)"
  by (induction d k v rule: dset.induct) auto

lemma dget_dset [simp]: "dget (dset d k v) k' = (if k' = k then v else dget d k')"
  by (simp add: dget_def map_of_dset)

lemma dhas_dset [simp]: "dhas (dset d k v) k' = (k' = k \<or> dhas d k')"
  by (simp add: dhas_def map_of_dset)

text \<open>Truth value testing.\<close>

fun truthy :: "pyval \<Rightarrow> bool" where
  "truthy PNone = False"
| "truthy (PBool b) = b"
| "truthy (PInt i) = (i \<noteq> 0)"
| "truthy (PFloat r) = (r \<noteq> 0)"
| "truthy (PStr s) = (s \<noteq> [])"
| "truthy (PList xs) = (xs \<noteq> [])"
| "truthy (PDict d) = (d \<noteq> [])"

text \<open>\<open>x or y\<close>.\<close>

definition por :: "pyval \<Rightarrow> pyval \<Rightarrow> pyval" where
  "por x y = (if truthy x then x else y)"

text \<open>\<open>v.get(k)\<close> on an arbitrary value: only a dictionary has the attribute.\<close>

fun pget :: "pyval \<Rightarrow> string \<Rightarrow> pyval res" where
  "pget (PDict d) k = Inr (dget d k)"
| "pget _ k = Inl AttributeError"

text \<open>\<open>(v.get(k) or {})\<close>, the idiom for optional nested objects.\<close>

definition pget_or_empty :: "pyval \<Rightarrow> string \<Rightarrow> pyval res" where
  "pget_or_empty v k = rbind (pget v k) (\<lambda>x. Inr (por x (PDict [])))"

fun is_dict :: "pyval \<Rightarrow> bool" where
  "is_dict (PDict d) = True"
| "is_dict _ = False"

text \<open>
  Iterating over a value: a list yields its elements, a dictionary its keys, a string its
  characters; anything else is not iterable.
\<close>

fun pyiter :: "pyval \<Rightarrow> pyval list res" where
  "pyiter (PList xs) = Inr xs"
| "pyiter (PDict d) = Inr (map (\<lambda>(k, v). PStr k) d)"
| "pyiter (PStr s) = Inr (map (\<lambda>c. PStr [c]) s)"
| "pyiter _ = Inl TypeError"

subsection \<open>Strings\<close>

text \<open>
  Strings are ASCII. \<open>str.upper\<close>, \<open>str.strip\<close> and the reading of numbers are written
  for the ASCII characters.
\<close>

definition is_digit :: "char \<Rightarrow> bool" where
  "is_digit c = (48 \<le> (of_char c :: nat) \<and> (of_char c :: nat) \<le> 57)"

definition digit_val :: "char \<Rightarrow> int" where
  "digit_val c = (of_char c :: int) - 48"

definition is_space :: "char \<Rightarrow> bool" where
  "is_space c = (let n = (of_char c :: nat) in
     (9 \<le> n \<and> n \<le> 13) \<or> (28 \<le> n \<and> n \<le> 32))"

definition upper_char :: "char \<Rightarrow> char" where
  "upper_char c = (let n = (of_char c :: nat) in
     if 97 \<le> n \<and> n \<le> 122 then char_of (n - 32) else c)"

definition py_upper :: "string \<Rightarrow> string" where
  "py_upper s = map upper_char s"

definition lower_char :: "char \<Rightarrow> char" where
  "lower_char c = (let n = of_char c :: nat in if 65 \<le> n \<and> n \<le> 90 then char_of (n + 32) else c)"

definition py_lower :: "string \<Rightarrow> string" where
  "py_lower s = map lower_char s"

definition py_strip :: "string \<Rightarrow> string" where
  "py_strip s = rev (dropWhile is_space (rev (dropWhile is_space s)))"

lemma upper_char_idem [simp]: "upper_char (upper_char c) = upper_char c"
proof (cases "97 \<le> (of_char c :: nat) \<and> (of_char c :: nat) \<le> 122")
  case True
  then have "((of_char c :: nat) - 32) mod 256 = of_char c - 32"
    by (intro mod_less) linarith
  then have "(of_char (char_of (of_char c - 32 :: nat)) :: nat) = of_char c - 32"
    by simp
  with True show ?thesis by (simp add: upper_char_def Let_def) arith
next
  case False
  then have "upper_char c = c"
    unfolding upper_char_def Let_def by (simp only: if_False)
  then show ?thesis by simp
qed

lemma py_upper_idem [simp]: "py_upper (py_upper s) = py_upper s"
  by (simp add: py_upper_def)

lemma py_upper_Nil [simp]: "py_upper [] = []" "(py_upper s = []) = (s = [])"
  by (simp_all add: py_upper_def)

text \<open>Digits, with single underscores allowed between them, as \<open>int\<close> accepts them.\<close>

fun read_digits :: "int \<Rightarrow> string \<Rightarrow> int option" where
  "read_digits acc [] = Some acc"
| "read_digits acc (c # cs) =
     (if is_digit c then read_digits (acc * 10 + digit_val c) cs
      else if c = CHR ''_'' then
        (case cs of [] \<Rightarrow> None
         | d # ds \<Rightarrow> if is_digit d then read_digits (acc * 10 + digit_val d) ds else None)
      else None)"

definition read_nat :: "string \<Rightarrow> int option" where
  "read_nat s = (case s of [] \<Rightarrow> None
     | c # cs \<Rightarrow> if is_digit c then read_digits (digit_val c) cs else None)"

definition read_int :: "string \<Rightarrow> int option" where
  "read_int s = (case py_strip s of [] \<Rightarrow> None
     | c # cs \<Rightarrow> if c = CHR ''-'' then map_option uminus (read_nat cs)
                else if c = CHR ''+'' then read_nat cs
                else read_nat (c # cs))"

text \<open>\<open>s.split(c)\<close> and \<open>sep.join(parts)\<close>.\<close>

fun split_on :: "char \<Rightarrow> string \<Rightarrow> string list" where
  "split_on c [] = [[]]"
| "split_on c (x # xs) = (if x = c then [] # split_on c xs
     else (case split_on c xs of [] \<Rightarrow> [[x]] | p # ps \<Rightarrow> (x # p) # ps))"

fun join_with :: "string \<Rightarrow> string list \<Rightarrow> string" where
  "join_with sep [] = []"
| "join_with sep [p] = p"
| "join_with sep (p # q # ps) = p @ sep @ join_with sep (q # ps)"

text \<open>Decimal text of an integer.\<close>

definition digit_char :: "nat \<Rightarrow> char" where
  "digit_char n = char_of (48 + n)"

fun show_nat :: "nat \<Rightarrow> string" where
  "show_nat n = (if n < 10 then [digit_char n] else show_nat (n div 10) @ [digit_char (n mod 10)])"

declare show_nat.simps [simp del]

definition show_int :: "int \<Rightarrow> string" where
  "show_int i = (if i < 0 then CHR ''-'' # show_nat (nat (- i)) else show_nat (nat i))"

text \<open>A finite decimal: digits, an optional fraction, an optional exponent.\<close>

definition pow10 :: "int \<Rightarrow> real" where
  "pow10 e = (if 0 \<le> e then 10 ^ nat e else 1 / 10 ^ nat (- e))"

definition read_mantissa :: "string \<Rightarrow> real option" where
  "read_mantissa s =
     (let w = takeWhile (\<lambda>c. c \<noteq> CHR ''.'') s; r = dropWhile (\<lambda>c. c \<noteq> CHR ''.'') s in
      case r of
        [] \<Rightarrow> map_option of_int (read_nat w)
      | _ # f \<Rightarrow>
          (case (if w = [] then Some 0 else read_nat w, if f = [] then Some 0 else read_nat f) of
             (Some i, Some j) \<Rightarrow>
               if w = [] \<and> f = [] then None
               else Some (of_int i + of_int j * pow10 (- int (length (filter is_digit f))))
           | _ \<Rightarrow> None))"

definition read_unsigned_real :: "string \<Rightarrow> real option" where
  "read_unsigned_real s =
     (let isE = (\<lambda>c. c = CHR ''e'' \<or> c = CHR ''E'');
          m = takeWhile (\<lambda>c. \<not> isE c) s; r = dropWhile (\<lambda>c. \<not> isE c) s in
      case r of
        [] \<Rightarrow> read_mantissa m
      | _ # x \<Rightarrow>
          (let ev = (case x of
                 [] \<Rightarrow> None
               | c # cs \<Rightarrow> if c = CHR ''-'' then map_option uminus (read_nat cs)
                          else if c = CHR ''+'' then read_nat cs
                          else read_nat (c # cs)) in
           case (read_mantissa m, ev) of
             (Some a, Some e) \<Rightarrow> Some (a * pow10 e)
           | _ \<Rightarrow> None))"

definition read_real :: "string \<Rightarrow> real option" where
  "read_real s = (case py_strip s of [] \<Rightarrow> None
     | c # cs \<Rightarrow> if c = CHR ''-'' then map_option uminus (read_unsigned_real cs)
                else if c = CHR ''+'' then read_unsigned_real cs
                else read_unsigned_real (c # cs))"

subsection \<open>Conversions\<close>

text \<open>\<open>int(v)\<close>: a float is truncated towards zero.\<close>

definition trunc_real :: "real \<Rightarrow> int" where
  "trunc_real r = (if 0 \<le> r then \<lfloor>r\<rfloor> else \<lceil>r\<rceil>)"

fun py_int :: "pyval \<Rightarrow> int res" where
  "py_int (PBool b) = Inr (if b then 1 else 0)"
| "py_int (PInt i) = Inr i"
| "py_int (PFloat r) = Inr (trunc_real r)"
| "py_int (PStr s) = (case read_int s of None \<Rightarrow> Inl ValueError | Some i \<Rightarrow> Inr i)"
| "py_int _ = Inl TypeError"

fun py_float :: "pyval \<Rightarrow> real res" where
  "py_float (PBool b) = Inr (if b then 1 else 0)"
| "py_float (PInt i) = Inr (of_int i)"
| "py_float (PFloat r) = Inr r"
| "py_float (PStr s) = (case read_real s of None \<Rightarrow> Inl ValueError | Some r \<Rightarrow> Inr r)"
| "py_float _ = Inl TypeError"

text \<open>The only exceptions of a conversion are the two the callers catch.\<close>

lemma py_int_exn: "py_int v = Inl e \<Longrightarrow> e = TypeError \<or> e = ValueError"
  by (cases v) (auto split: option.splits)

lemma py_float_exn: "py_float v = Inl e \<Longrightarrow> e = TypeError \<or> e = ValueError"
  by (cases v) (auto split: option.splits)

text \<open>\<open>len(v)\<close> and \<open>v[n]\<close> for a natural index.\<close>

fun pylen :: "pyval \<Rightarrow> nat res" where
  "pylen (PList xs) = Inr (length xs)"
| "pylen (PStr s) = Inr (length s)"
| "pylen (PDict d) = Inr (length (remdups (map fst d)))"
| "pylen _ = Inl TypeError"

fun pyidx :: "pyval \<Rightarrow> nat \<Rightarrow> pyval res" where
  "pyidx (PList xs) n = (if n < length xs then Inr (xs ! n) else Inl IndexError)"
| "pyidx (PStr s) n = (if n < length s then Inr (PStr [s ! n]) else Inl IndexError)"
| "pyidx (PDict d) n = Inl KeyError"
| "pyidx _ n = Inl TypeError"

text \<open>\<open>v[k]\<close> for a string key.\<close>

fun pykey :: "pyval \<Rightarrow> string \<Rightarrow> pyval res" where
  "pykey (PDict d) k = (if dhas d k then Inr (dget d k) else Inl KeyError)"
| "pykey _ k = Inl TypeError"

text \<open>
  Equality of scalars (numbers compare by value), hashing, and the membership test of a set
  built from a list of values.
\<close>

fun num_of :: "pyval \<Rightarrow> real option" where
  "num_of (PBool b) = Some (if b then 1 else 0)"
| "num_of (PInt i) = Some (of_int i)"
| "num_of (PFloat r) = Some r"
| "num_of _ = None"

definition py_eq :: "pyval \<Rightarrow> pyval \<Rightarrow> bool" where
  "py_eq a b = (case num_of a of
     Some x \<Rightarrow> (case num_of b of Some y \<Rightarrow> x = y | None \<Rightarrow> False)
   | None \<Rightarrow> a = b)"

lemma py_eq_refl [simp]: "py_eq a a"
  by (cases a) (simp_all add: py_eq_def)

lemma py_eq_str [simp]: "py_eq (PStr s) v = (v = PStr s)" "py_eq v (PStr s) = (v = PStr s)"
  by (cases v; auto simp: py_eq_def)+

fun hashable :: "pyval \<Rightarrow> bool" where
  "hashable (PList xs) = False"
| "hashable (PDict d) = False"
| "hashable _ = True"

definition check_hash :: "pyval \<Rightarrow> pyval res" where
  "check_hash v = (if hashable v then Inr v else Inl TypeError)"

definition py_set :: "pyval \<Rightarrow> pyval list res" where
  "py_set v = rbind (pyiter v) (rmap check_hash)"

definition py_in :: "pyval \<Rightarrow> pyval list \<Rightarrow> bool" where
  "py_in v xs = (\<exists>x\<in>set xs. py_eq x v)"

fun is_str :: "pyval \<Rightarrow> bool" where
  "is_str (PStr s) = True"
| "is_str _ = False"

fun is_num :: "pyval \<Rightarrow> bool" where
  "is_num (PBool b) = True"
| "is_num (PInt i) = True"
| "is_num (PFloat r) = True"
| "is_num _ = False"

text \<open>The text of an optional string column or argument: \<open>None\<close> and non-strings have none.\<close>

fun str_of :: "pyval \<Rightarrow> string option" where
  "str_of (PStr s) = Some s"
| "str_of _ = None"

subsection \<open>JSON text columns\<close>

datatype jtext = JEmpty | JBad | JDoc pyval

fun json_loads :: "jtext \<Rightarrow> pyval res" where
  "json_loads (JDoc v) = Inr v"
| "json_loads _ = Inl JSONDecodeError"

text \<open>\<open>json.loads(column or "{}")\<close>.\<close>

fun json_loads_or_empty :: "jtext \<Rightarrow> pyval res" where
  "json_loads_or_empty (JDoc v) = Inr v"
| "json_loads_or_empty JEmpty = Inr (PDict [])"
| "json_loads_or_empty JBad = Inl JSONDecodeError"

definition json_dumps :: "pyval \<Rightarrow> jtext" where
  "json_dumps v = JDoc v"

lemma loads_dumps [simp]:
  "json_loads (json_dumps v) = Inr v" "json_loads_or_empty (json_dumps v) = Inr v"
  by (simp_all add: json_dumps_def)

subsection \<open>Instants\<close>

type_synonym time = int

text \<open>\<open>timedelta(seconds=n)\<close>.\<close>

definition seconds :: "int \<Rightarrow> time" where
  "seconds n = n * 1000000"

text \<open>\<open>t.replace(microsecond=0)\<close>.\<close>

definition trunc_sec :: "time \<Rightarrow> time" where
  "trunc_sec t = t - t mod 1000000"

lemma trunc_sec_le: "trunc_sec t \<le> t"
  by (simp add: trunc_sec_def)

lemma trunc_sec_gt: "t < trunc_sec t + 1000000"
  unfolding trunc_sec_def using pos_mod_bound [of 1000000 t] by linarith

lemma trunc_sec_div: "trunc_sec t = (t div 1000000) * 1000000"
  by (simp add: trunc_sec_def minus_mod_eq_div_mult)

lemma trunc_sec_idem [simp]: "trunc_sec (trunc_sec t) = trunc_sec t"
  by (simp add: trunc_sec_div)

lemma trunc_sec_mono: "s \<le> t \<Longrightarrow> trunc_sec s \<le> trunc_sec t"
  by (simp add: trunc_sec_div zdiv_mono1)

lemma trunc_sec_seconds [simp]: "trunc_sec (t + seconds n) = trunc_sec t + seconds n"
  by (simp add: trunc_sec_def seconds_def)

lemma trunc_sec_min: "trunc_sec (min s t) = min (trunc_sec s) (trunc_sec t)"
  using trunc_sec_mono [of s t] trunc_sec_mono [of t s] by (auto simp: min_def)

text \<open>Calendar dates, as \<open>datetime.toordinal\<close> counts them (the first of January 1970 is day 0).\<close>

definition leap :: "int \<Rightarrow> bool" where
  "leap y = (y mod 4 = 0 \<and> (y mod 100 \<noteq> 0 \<or> y mod 400 = 0))"

definition days_before_year :: "int \<Rightarrow> int" where
  "days_before_year y = (let z = y - 1 in z * 365 + z div 4 - z div 100 + z div 400)"

definition month_lengths :: "int \<Rightarrow> int list" where
  "month_lengths y = [31, if leap y then 29 else 28, 31, 30, 31, 30, 31, 31, 30, 31, 30, 31]"

definition days_in_month :: "int \<Rightarrow> int \<Rightarrow> int" where
  "days_in_month y m = month_lengths y ! nat (m - 1)"

definition days_before_month :: "int \<Rightarrow> int \<Rightarrow> int" where
  "days_before_month y m = sum_list (take (nat (m - 1)) (month_lengths y))"

definition make_time :: "int \<Rightarrow> int \<Rightarrow> int \<Rightarrow> int \<Rightarrow> int \<Rightarrow> int \<Rightarrow> time option" where
  "make_time y mo d h mi s =
     (if 1 \<le> y \<and> y \<le> 9999 \<and> 1 \<le> mo \<and> mo \<le> 12 \<and> 1 \<le> d \<and> d \<le> days_in_month y mo
         \<and> 0 \<le> h \<and> h \<le> 23 \<and> 0 \<le> mi \<and> mi \<le> 59 \<and> 0 \<le> s \<and> s \<le> 59
      then Some (seconds
        ((days_before_year y + days_before_month y mo + d - 719163) * 86400
          + h * 3600 + mi * 60 + s))
      else None)"

text \<open>
  \<open>datetime.strptime(s, "%Y-%m-%dT%H:%M:%SZ")\<close>: four digits of year, one or two digits of
  the other fields, the letters in either case.
\<close>

definition read_field :: "nat \<Rightarrow> nat \<Rightarrow> string \<Rightarrow> (int \<times> string) option" where
  "read_field lo hi s =
     (let ds = takeWhile is_digit s in
      if lo \<le> length ds \<and> length ds \<le> hi
      then map_option (\<lambda>i. (i, dropWhile is_digit s)) (read_nat ds) else None)"

definition read_sep :: "char \<Rightarrow> string \<Rightarrow> string option" where
  "read_sep c s = (case s of [] \<Rightarrow> None
     | d # ds \<Rightarrow> if upper_char d = c then Some ds else None)"

definition strptime_z :: "string \<Rightarrow> time option" where
  "strptime_z s =
     Option.bind (read_field 4 4 s) (\<lambda>(y, s).
     Option.bind (read_sep CHR ''-'' s) (\<lambda>s.
     Option.bind (read_field 1 2 s) (\<lambda>(mo, s).
     Option.bind (read_sep CHR ''-'' s) (\<lambda>s.
     Option.bind (read_field 1 2 s) (\<lambda>(d, s).
     Option.bind (read_sep CHR ''T'' s) (\<lambda>s.
     Option.bind (read_field 1 2 s) (\<lambda>(h, s).
     Option.bind (read_sep CHR '':'' s) (\<lambda>s.
     Option.bind (read_field 1 2 s) (\<lambda>(mi, s).
     Option.bind (read_sep CHR '':'' s) (\<lambda>s.
     Option.bind (read_field 1 2 s) (\<lambda>(sec, s).
     Option.bind (read_sep CHR ''Z'' s) (\<lambda>s.
       if s = [] then make_time y mo d h mi sec else None))))))))))))"

subsection \<open>Batches\<close>

text \<open>
  Every CBSD procedure processes the items of a batch in order, each item reading and writing
  the database, and appends one response per item. An item that raises ends the batch: the
  items before it stay committed.
\<close>

fun run_items :: "('s \<Rightarrow> 'a \<Rightarrow> 'r res \<times> 's) \<Rightarrow> 's \<Rightarrow> 'a list \<Rightarrow> 'r list res \<times> 's" where
  "run_items f s [] = (Inr [], s)"
| "run_items f s (x # xs) =
     (case f s x of
        (Inl e, s') \<Rightarrow> (Inl e, s')
      | (Inr r, s') \<Rightarrow>
          (case run_items f s' xs of
             (Inl e, t) \<Rightarrow> (Inl e, t)
           | (Inr rs, t) \<Rightarrow> (Inr (r # rs), t)))"

lemma run_items_length: "run_items f s xs = (Inr rs, t) \<Longrightarrow> length rs = length xs"
  by (induction f s xs arbitrary: rs t rule: run_items.induct)
    (auto split: prod.splits sum.splits)

locale batch_service =
  fixes item :: "'s \<Rightarrow> 'a \<Rightarrow> 'r res \<times> 's"
    and inv :: "'s \<Rightarrow> bool"
  assumes item_inv: "inv s \<Longrightarrow> inv (snd (item s x))"
begin

lemma batch_inv: "inv s \<Longrightarrow> inv (snd (run_items item s xs))"
proof (induction xs arbitrary: s)
  case Nil
  then show ?case by simp
next
  case (Cons x xs)
  show ?case
  proof (cases "item s x")
    case (Pair a s')
    then have "inv s'" using item_inv [OF Cons.prems, of x] by simp
    with Pair Cons.IH [of s'] show ?thesis
      by (auto split: prod.splits sum.splits)
  qed
qed

end

end
