(* ===== verification/Models.thy ===== *)
theory Models
  imports Sas_Prelude
begin

text \<open>
  The tables of models/models.py and the row access of services/concurrency.py.

  A table is the list of its rows in primary-key order, a row a record with one field per
  column the services read or write. \<open>filter_by(..).first()\<close> is \<open>List.find\<close>,
  \<open>.all()\<close> is \<open>filter\<close>. A mutated ORM object is written back with \<open>put_cbsd\<close> or
  \<open>put_grant\<close>, which replace the row that has its primary key. Primary keys come from a
  counter (AUTOINCREMENT). An argument of \<open>filter_by\<close> that is not a string matches no
  row: the pydantic schemas let only strings and null through as identifiers.

  The lock functions take locks and read a row. The locks serialise whole items (a
  transaction per item, committed while the lock is held), which is what makes an item one
  step of the model; the row they read is modelled here.
\<close>

subsection \<open>Rows\<close>

record cbsd_row =
  cb_pk :: nat
  cb_id :: string
  cb_fcc_id :: string
  cb_user_id :: string
  cb_serial :: string
  cb_category :: pyval
  cb_cert :: "string option"
  cb_state :: string
  cb_reg :: jtext

record grant_row =
  gr_pk :: nat
  gr_id :: string
  gr_cbsd_pk :: nat
  gr_cbsd_id :: string
  gr_channel :: string
  gr_low :: int
  gr_high :: int
  gr_eirp :: "real option"
  gr_expire :: time
  gr_interval :: int
  gr_tx :: "time option"
  gr_auth :: bool
  gr_meas :: bool
  gr_term :: bool
  gr_state :: string
  gr_json :: jtext

record pal_row =
  pa_id :: string
  pa_user :: string
  pa_low :: int
  pa_high :: int
  pa_status :: string
  pa_expiration :: "string option"
  pa_record :: jtext

record peer_row =
  pe_pk :: nat
  pe_cert :: string
  pe_url :: string
  pe_last_gen :: "string option"

record peer_fad_row =
  pf_peer :: nat
  pf_type :: string
  pf_record_id :: string
  pf_data :: jtext

record db =
  db_fcc_ids :: "(string \<times> real) list"
  db_user_ids :: "string list"
  db_black_fcc :: "string list"
  db_black_serial :: "(string \<times> string) list"
  db_conditionals :: "(string \<times> string \<times> jtext) list"
  db_cpi_users :: "(string \<times> string) list"
  db_cbsds :: "cbsd_row list"
  db_grants :: "grant_row list"
  db_pals :: "pal_row list"
  db_injected :: "(string \<times> jtext) list"
  db_peers :: "peer_row list"
  db_esc :: "(string \<times> jtext) list"
  db_peer_fad :: "peer_fad_row list"
  db_next_cbsd :: nat
  db_next_grant :: nat

definition empty_db :: db where
  "empty_db = \<lparr>db_fcc_ids = [], db_user_ids = [], db_black_fcc = [], db_black_serial = [],
     db_conditionals = [], db_cpi_users = [], db_cbsds = [], db_grants = [], db_pals = [],
     db_injected = [], db_peers = [], db_esc = [], db_peer_fad = [], db_next_cbsd = 0,
     db_next_grant = 0\<rparr>"

subsection \<open>Row access\<close>

definition lock_cbsd_row :: "db \<Rightarrow> pyval \<Rightarrow> cbsd_row option" where
  "lock_cbsd_row d v = List.find (\<lambda>c. PStr (cb_id c) = v) (db_cbsds d)"

definition lock_grant_row :: "db \<Rightarrow> pyval \<Rightarrow> pyval \<Rightarrow> grant_row option" where
  "lock_grant_row d gid cid =
     List.find (\<lambda>g. PStr (gr_id g) = gid \<and> PStr (gr_cbsd_id g) = cid) (db_grants d)"

definition lock_grants_for_cbsd :: "db \<Rightarrow> pyval \<Rightarrow> grant_row list" where
  "lock_grants_for_cbsd d cid = filter (\<lambda>g. PStr (gr_cbsd_id g) = cid) (db_grants d)"

definition put_cbsd :: "db \<Rightarrow> cbsd_row \<Rightarrow> db" where
  "put_cbsd d c = d\<lparr>db_cbsds := map (\<lambda>r. if cb_pk r = cb_pk c then c else r) (db_cbsds d)\<rparr>"

definition put_grant :: "db \<Rightarrow> grant_row \<Rightarrow> db" where
  "put_grant d g = d\<lparr>db_grants := map (\<lambda>r. if gr_pk r = gr_pk g then g else r) (db_grants d)\<rparr>"

text \<open>\<open>db.add\<close> of a new row: the primary key is the next one of the table's sequence.\<close>

definition add_cbsd :: "db \<Rightarrow> cbsd_row \<Rightarrow> db" where
  "add_cbsd d c = d\<lparr>db_cbsds := db_cbsds d @ [c\<lparr>cb_pk := db_next_cbsd d\<rparr>],
                    db_next_cbsd := Suc (db_next_cbsd d)\<rparr>"

definition add_grant :: "db \<Rightarrow> grant_row \<Rightarrow> db" where
  "add_grant d g = d\<lparr>db_grants := db_grants d @ [g\<lparr>gr_pk := db_next_grant d\<rparr>],
                     db_next_grant := Suc (db_next_grant d)\<rparr>"

text \<open>\<open>db.delete(cbsd)\<close> with the \<open>delete-orphan\<close> cascade of the \<open>grants\<close> relationship.\<close>

definition delete_cbsd :: "db \<Rightarrow> cbsd_row \<Rightarrow> db" where
  "delete_cbsd d c = d\<lparr>db_cbsds := filter (\<lambda>r. cb_pk r \<noteq> cb_pk c) (db_cbsds d),
                       db_grants := filter (\<lambda>g. gr_cbsd_pk g \<noteq> cb_pk c) (db_grants d)\<rparr>"

subsection \<open>Tables keyed by a primary key\<close>

text \<open>
  What the services rely on when they write a mutated row back: only the row with its key
  changes, and the keys stay as they were.
\<close>

locale keyed_table =
  fixes rows :: "'d \<Rightarrow> 'r list"
    and pk :: "'r \<Rightarrow> nat"
    and put :: "'d \<Rightarrow> 'r \<Rightarrow> 'd"
  assumes rows_put: "rows (put d r) = map (\<lambda>x. if pk x = pk r then r else x) (rows d)"
begin

lemma keys_put: "map pk (rows (put d r)) = map pk (rows d)"
  by (simp add: rows_put comp_def cong: map_cong)

lemma mem_put:
  assumes "x \<in> set (rows (put d r))"
  shows "x = r \<or> (x \<in> set (rows d) \<and> pk x \<noteq> pk r)"
  using assms by (auto simp: rows_put split: if_splits)

lemma mem_put_new: "s \<in> set (rows d) \<Longrightarrow> pk s = pk r \<Longrightarrow> r \<in> set (rows (put d r))"
  by (force simp: rows_put)

lemma mem_put_old: "x \<in> set (rows d) \<Longrightarrow> pk x \<noteq> pk r \<Longrightarrow> x \<in> set (rows (put d r))"
  by (force simp: rows_put)

lemma all_put:
  assumes "\<forall>x\<in>set (rows d). P x" and "P r"
  shows "\<forall>x\<in>set (rows (put d r)). P x"
  using assms mem_put by blast

lemma put_absent: "pk r \<notin> pk ` set (rows d) \<Longrightarrow> rows (put d r) = rows d"
  by (induction "rows d") (auto simp: rows_put image_iff intro!: map_idI)

lemma unique_key:
  "distinct (map pk (rows d)) \<Longrightarrow> x \<in> set (rows d) \<Longrightarrow> y \<in> set (rows d) \<Longrightarrow> pk x = pk y \<Longrightarrow> x = y"
  by (auto simp: distinct_map inj_on_def)

text \<open>A column the write leaves alone keeps its values, in order.\<close>

lemma column_put:
  assumes "distinct (map pk (rows d))" and "s \<in> set (rows d)" and "pk s = pk r"
    and "f s = f r"
  shows "map f (rows (put d r)) = map f (rows d)"
proof -
  have "f (if pk x = pk r then r else x) = f x" if "x \<in> set (rows d)" for x
    using that assms unique_key [of d x s] by auto
  then show ?thesis by (simp add: rows_put)
qed

end

interpretation cbsd_table: keyed_table db_cbsds cb_pk put_cbsd
  by unfold_locales (simp add: put_cbsd_def)

interpretation grant_table: keyed_table db_grants gr_pk put_grant
  by unfold_locales (simp add: put_grant_def)

lemma put_grant_frame [simp]:
  "db_cbsds (put_grant d g) = db_cbsds d"
  "db_next_grant (put_grant d g) = db_next_grant d"
  "db_next_cbsd (put_grant d g) = db_next_cbsd d"
  "db_injected (put_grant d g) = db_injected d"
  "db_pals (put_grant d g) = db_pals d"
  "db_peers (put_grant d g) = db_peers d"
  "db_peer_fad (put_grant d g) = db_peer_fad d"
  "db_black_fcc (put_grant d g) = db_black_fcc d"
  "db_black_serial (put_grant d g) = db_black_serial d"
  by (simp_all add: put_grant_def)

lemma put_cbsd_frame [simp]:
  "db_grants (put_cbsd d c) = db_grants d"
  "db_next_grant (put_cbsd d c) = db_next_grant d"
  "db_next_cbsd (put_cbsd d c) = db_next_cbsd d"
  by (simp_all add: put_cbsd_def)

lemma lock_cbsd_rowD:
  "lock_cbsd_row d v = Some c \<Longrightarrow> c \<in> set (db_cbsds d) \<and> v = PStr (cb_id c)"
  by (auto simp: lock_cbsd_row_def find_Some_iff)

lemma lock_cbsd_row_None:
  "lock_cbsd_row d v = None \<Longrightarrow> c \<in> set (db_cbsds d) \<Longrightarrow> PStr (cb_id c) \<noteq> v"
  by (auto simp: lock_cbsd_row_def find_None_iff)

lemma lock_grant_rowD:
  "lock_grant_row d gid cid = Some g \<Longrightarrow>
     g \<in> set (db_grants d) \<and> gid = PStr (gr_id g) \<and> cid = PStr (gr_cbsd_id g)"
  by (auto simp: lock_grant_row_def find_Some_iff)

lemma mem_lock_grants_for_cbsd:
  "(g \<in> set (lock_grants_for_cbsd d v)) = (g \<in> set (db_grants d) \<and> v = PStr (gr_cbsd_id g))"
  by (auto simp: lock_grants_for_cbsd_def)

subsection \<open>Blacklist (services/blacklist_service.py)\<close>

definition is_fcc_id_blacklisted :: "db \<Rightarrow> pyval \<Rightarrow> bool" where
  "is_fcc_id_blacklisted d fcc = (\<exists>b\<in>set (db_black_fcc d). PStr b = fcc)"

definition is_cbsd_blacklisted :: "db \<Rightarrow> pyval \<Rightarrow> pyval \<Rightarrow> bool" where
  "is_cbsd_blacklisted d fcc serial =
     (is_fcc_id_blacklisted d fcc \<or>
      (\<exists>(b, s)\<in>set (db_black_serial d). PStr b = fcc \<and> PStr s = serial))"

definition add_fcc_id_blacklist :: "db \<Rightarrow> string \<Rightarrow> db" where
  "add_fcc_id_blacklist d fcc =
     (if is_fcc_id_blacklisted d (PStr fcc) then d
      else d\<lparr>db_black_fcc := db_black_fcc d @ [fcc]\<rparr>)"

definition add_fcc_id_serial_blacklist :: "db \<Rightarrow> string \<Rightarrow> string \<Rightarrow> db" where
  "add_fcc_id_serial_blacklist d fcc serial =
     (if (fcc, serial) \<in> set (db_black_serial d) then d
      else d\<lparr>db_black_serial := db_black_serial d @ [(fcc, serial)]\<rparr>)"

lemma blacklist_after_add_fcc:
  "is_cbsd_blacklisted (add_fcc_id_blacklist d fcc) f s =
     (f = PStr fcc \<or> is_cbsd_blacklisted d f s)"
  by (auto simp: is_cbsd_blacklisted_def is_fcc_id_blacklisted_def add_fcc_id_blacklist_def)

lemma blacklist_after_add_serial:
  "is_cbsd_blacklisted (add_fcc_id_serial_blacklist d fcc serial) f s =
     ((f = PStr fcc \<and> s = PStr serial) \<or> is_cbsd_blacklisted d f s)"
  by (auto simp: is_cbsd_blacklisted_def is_fcc_id_blacklisted_def
      add_fcc_id_serial_blacklist_def)

subsection \<open>Client certificate binding (services/cbsd_auth.py)\<close>

definition cbsd_certificate_mismatch :: "cbsd_row \<Rightarrow> string option \<Rightarrow> bool" where
  "cbsd_certificate_mismatch c hash =
     (case cb_cert c of
        None \<Rightarrow> False
      | Some stored \<Rightarrow>
          if stored = [] then False
          else (case hash of
                  None \<Rightarrow> True
                | Some h \<Rightarrow> h = [] \<or> py_upper stored \<noteq> py_upper h))"

subsection \<open>Admin flags (services/meas_report.py)\<close>

definition admin_flag_set :: "db \<Rightarrow> string \<Rightarrow> bool" where
  "admin_flag_set d kind = (\<exists>(k, j)\<in>set (db_injected d). k = kind)"

fun update_first :: "('a \<Rightarrow> bool) \<Rightarrow> ('a \<Rightarrow> 'a) \<Rightarrow> 'a list \<Rightarrow> 'a list" where
  "update_first p f [] = []"
| "update_first p f (x # xs) = (if p x then f x # xs else x # update_first p f xs)"

definition set_admin_flag :: "db \<Rightarrow> string \<Rightarrow> pyval \<Rightarrow> db" where
  "set_admin_flag d kind payload =
     (if admin_flag_set d kind
      then d\<lparr>db_injected := update_first (\<lambda>(k, j). k = kind)
                (\<lambda>(k, j). (k, json_dumps (por payload (PDict [])))) (db_injected d)\<rparr>
      else d\<lparr>db_injected := db_injected d @ [(kind, json_dumps (por payload (PDict [])))]\<rparr>)"

definition clear_admin_flags :: "db \<Rightarrow> string \<Rightarrow> db" where
  "clear_admin_flags d kind = d\<lparr>db_injected := filter (\<lambda>(k, j). k \<noteq> kind) (db_injected d)\<rparr>"

lemma update_first_keys:
  "(\<And>x. p x \<Longrightarrow> fst (f x) = fst x) \<Longrightarrow> map fst (update_first p f xs) = map fst xs"
  by (induction xs) auto

lemma admin_flag_set_keys: "admin_flag_set d kind = (kind \<in> set (map fst (db_injected d)))"
  by (force simp: admin_flag_set_def)

lemma admin_flag_after_set:
  "admin_flag_set (set_admin_flag d kind p) k = (k = kind \<or> admin_flag_set d k)"
proof (cases "admin_flag_set d kind")
  case True
  have "map fst (db_injected (set_admin_flag d kind p)) = map fst (db_injected d)"
    using True by (auto simp: set_admin_flag_def intro!: update_first_keys)
  with True show ?thesis unfolding admin_flag_set_keys by auto
next
  case False
  then show ?thesis by (auto simp: set_admin_flag_def admin_flag_set_def)
qed

lemma admin_flag_after_clear:
  "admin_flag_set (clear_admin_flags d kind) k = (k \<noteq> kind \<and> admin_flag_set d k)"
  by (auto simp: clear_admin_flags_def admin_flag_set_def)

subsection \<open>The environment of the services\<close>

text \<open>
  What the services read that is neither a request nor the database: the injectable clock
  (services/clock.py; one reading per item), the random part of fresh identifiers
  (\<open>uuid.uuid4().hex\<close>, indexed by how many grants were created before), the readings of
  \<open>datetime.fromisoformat\<close> and \<open>hashlib.sha1\<close>, the terrain elevations, and the rows of
  the FCC field office data file. The properties hold whatever these are; the ones that need
  fresh identifiers to differ say so.
\<close>

record env =
  env_now :: time
  env_uuid :: "nat \<Rightarrow> string"
  env_isoformat :: "string \<Rightarrow> time option"
  env_sha1_hex :: "string \<Rightarrow> string"
  env_elevation :: "real \<Rightarrow> real \<Rightarrow> real res"
  env_fcc_offices :: "(real \<times> real) list"
  env_repr :: "pyval \<Rightarrow> string"

text \<open>
  \<open>str(v)\<close>; the text of a float or a container is that of \<open>repr\<close>, left to the
  environment.
\<close>

definition py_str :: "env \<Rightarrow> pyval \<Rightarrow> string" where
  "py_str en v = (case v of
     PStr s \<Rightarrow> s
   | PNone \<Rightarrow> ''None''
   | PBool b \<Rightarrow> (if b then ''True'' else ''False'')
   | PInt i \<Rightarrow> show_int i
   | _ \<Rightarrow> env_repr en v)"

lemma py_str_PStr [simp]: "py_str en (PStr s) = s"
  by (simp add: py_str_def)

end
