(* ===== verification/Intervals.thy ===== *)
theory Intervals
  imports Sas_Prelude
begin

text \<open>
  Frequency intervals in Hz, half open, as the services split, subtract and compare them:
  \<open>_overlaps\<close>, \<open>_subtract_range\<close> and \<open>_split_10mhz\<close> of
  services/spectrum_inquiry_service.py and \<open>channelize\<close> of services/dpa_service.py. The
  abstraction of a list of intervals is the set of frequencies it covers (\<open>freqs\<close>); the
  interface \<open>half_open_overlap\<close> is what the five copies of the overlap test promise.
\<close>

definition CBRS_LOW_HZ :: int where "CBRS_LOW_HZ = 3550000000"
definition CBRS_HIGH_HZ :: int where "CBRS_HIGH_HZ = 3700000000"
definition CHANNEL_HZ :: int where "CHANNEL_HZ = 10000000"

lemmas band_defs = CBRS_LOW_HZ_def CBRS_HIGH_HZ_def CHANNEL_HZ_def

definition overlaps :: "int \<Rightarrow> int \<Rightarrow> int \<Rightarrow> int \<Rightarrow> bool" where
  "overlaps a_low a_high b_low b_high = (a_low < b_high \<and> a_high > b_low)"

locale half_open_overlap =
  fixes ov :: "int \<Rightarrow> int \<Rightarrow> int \<Rightarrow> int \<Rightarrow> bool"
  assumes ov_iff: "ov a b c d = (a < d \<and> c < b)"
begin

lemma ov_sym: "ov a b c d = ov c d a b"
  by (auto simp: ov_iff)

lemma ov_meets: "a < b \<Longrightarrow> c < d \<Longrightarrow> ov a b c d = ({a..<b} \<inter> {c..<d} \<noteq> {})"
  by (auto simp: ov_iff max_def min_def)

lemma not_ov_disjoint: "\<not> ov a b c d \<Longrightarrow> {a..<b} \<inter> {c..<d} = {}"
  by (auto simp: ov_iff)

lemma ov_mono: "ov a b c d \<Longrightarrow> a' \<le> a \<Longrightarrow> b \<le> b' \<Longrightarrow> ov a' b' c d"
  by (auto simp: ov_iff)

end

interpretation siq_overlap: half_open_overlap overlaps
  by unfold_locales (auto simp: overlaps_def)

definition freqs :: "(int \<times> int) list \<Rightarrow> int set" where
  "freqs segs = (\<Union>(l, h)\<in>set segs. {l..<h})"

lemma freqs_simps [simp]:
  "freqs [] = {}" "freqs ((l, h) # segs) = {l..<h} \<union> freqs segs"
  "freqs (xs @ ys) = freqs xs \<union> freqs ys"
  by (auto simp: freqs_def)

lemma freqs_filter_nonempty: "freqs (filter (\<lambda>(lo, hi). lo < hi) segs) = freqs segs"
proof (induction segs)
  case (Cons s segs)
  then show ?case by (cases s) (simp add: atLeastLessThan_empty_iff)
qed simp

text \<open>Consecutive intervals from \<open>a\<close> to \<open>b\<close>, each non-empty and starting where the last ended.\<close>

fun tiles :: "int \<Rightarrow> int \<Rightarrow> (int \<times> int) list \<Rightarrow> bool" where
  "tiles a b [] = (a = b)"
| "tiles a b ((l, h) # segs) = (l = a \<and> l < h \<and> tiles h b segs)"

lemma tiles_le: "tiles a b segs \<Longrightarrow> a \<le> b"
  by (induction a b segs rule: tiles.induct) auto

lemma tiles_freqs: "tiles a b segs \<Longrightarrow> freqs segs = {a..<b}"
proof (induction a b segs rule: tiles.induct)
  case (1 a b)
  then show ?case by simp
next
  case (2 a b l h segs)
  then have "h \<le> b" and "l \<le> h" by (auto dest: tiles_le)
  then have "{l..<h} \<union> {h..<b} = {l..<b}" by (rule ivl_disj_un_two(3) [rotated])
  with 2 show ?case by simp
qed

lemma tiles_append: "tiles a b xs \<Longrightarrow> tiles b c ys \<Longrightarrow> tiles a c (xs @ ys)"
  by (induction a b xs rule: tiles.induct) auto

lemma tiles_mem: "tiles a b segs \<Longrightarrow> (l, h) \<in> set segs \<Longrightarrow> a \<le> l \<and> l < h \<and> h \<le> b"
proof (induction a b segs rule: tiles.induct)
  case (1 a b)
  then show ?case by simp
next
  case (2 a b l' h' segs)
  then show ?case by (auto dest: tiles_le)
qed

text \<open>Tiles do not meet: any two of them, at different places, are apart.\<close>

lemma tiles_disjoint:
  assumes "tiles a b segs" and "i < j" and "j < length segs"
  shows "snd (segs ! i) \<le> fst (segs ! j)"
  using assms
proof (induction a b segs arbitrary: i j rule: tiles.induct)
  case (1 a b)
  then show ?case by simp
next
  case (2 a b l h segs)
  obtain j' where j: "j = Suc j'" using 2(3) by (cases j) auto
  with 2 have j': "j' < length segs" by simp
  show ?case
  proof (cases i)
    case 0
    have "segs ! j' \<in> set segs" using j' by simp
    then have "h \<le> fst (segs ! j')"
      using 2(2) tiles_mem [of h b segs "fst (segs ! j')" "snd (segs ! j')"] by auto
    with 0 j show ?thesis by simp
  next
    case (Suc i')
    with 2 j j' show ?thesis by auto
  qed
qed

subsection \<open>Subtraction\<close>

definition subtract_one :: "int \<Rightarrow> int \<Rightarrow> int \<times> int \<Rightarrow> (int \<times> int) list" where
  "subtract_one ex_low ex_high seg = (case seg of (low, high) \<Rightarrow>
     if \<not> overlaps low high ex_low ex_high then [(low, high)]
     else (if low < ex_low then [(low, min high ex_low)] else [])
        @ (if high > ex_high then [(max low ex_high, high)] else []))"

definition subtract_range :: "(int \<times> int) list \<Rightarrow> int \<Rightarrow> int \<Rightarrow> (int \<times> int) list" where
  "subtract_range segs ex_low ex_high =
     filter (\<lambda>(lo, hi). lo < hi) (concat (map (subtract_one ex_low ex_high) segs))"

lemma subtract_one_freqs: "freqs (subtract_one a b (l, h)) = {l..<h} - {a..<b}"
  by (auto simp: subtract_one_def overlaps_def)

lemma subtract_range_freqs_eq: "freqs (subtract_range segs a b) = freqs segs - {a..<b}"
proof -
  have "freqs (concat (map (subtract_one a b) segs)) = freqs segs - {a..<b}"
  proof (induction segs)
    case (Cons s segs)
    then show ?case by (cases s) (auto simp: subtract_one_freqs)
  qed simp
  then show ?thesis by (simp add: subtract_range_def freqs_filter_nonempty)
qed

lemma subtract_range_nonempty: "(l, h) \<in> set (subtract_range segs a b) \<Longrightarrow> l < h"
  by (auto simp: subtract_range_def)

lemma subtract_range_within:
  assumes "(l, h) \<in> set (subtract_range segs a b)"
  obtains l' h' where "(l', h') \<in> set segs" and "l' \<le> l" and "h \<le> h'"
  using assms unfolding subtract_range_def subtract_one_def
  by (force split: if_splits)

subsection \<open>The 10 MHz grid\<close>

text \<open>The \<open>while\<close> loop both routines share: full channels from \<open>cur\<close>, then the tail.\<close>

function channel_loop :: "int \<Rightarrow> int \<Rightarrow> int \<Rightarrow> (int \<times> int) list" where
  "channel_loop step cur end =
     (if 0 < step \<and> cur + step \<le> end then (cur, cur + step) # channel_loop step (cur + step) end
      else if cur < end then [(cur, end)] else [])"
  by pat_completeness auto
termination
  by (relation "measure (\<lambda>(step, cur, end). nat (end - cur))") auto

declare channel_loop.simps [simp del]

lemma channel_loop_tiles: "cur \<le> end \<Longrightarrow> tiles cur end (channel_loop step cur end)"
proof (induction step cur "end" rule: channel_loop.induct)
  case (1 step cur "end")
  then show ?case by (subst channel_loop.simps) auto
qed

lemma channel_loop_width:
  "0 < step \<Longrightarrow> (l, h) \<in> set (channel_loop step cur end) \<Longrightarrow> h - l \<le> step"
proof (induction step cur "end" rule: channel_loop.induct)
  case (1 step cur "end")
  from 1(3) show ?case
    using 1(1,2) by (subst (asm) channel_loop.simps) (auto split: if_splits)
qed

text \<open>Every interval starts on the grid when the loop does.\<close>

lemma channel_loop_grid:
  "cur mod step = 0 \<Longrightarrow> (l, h) \<in> set (channel_loop step cur end) \<Longrightarrow> l mod step = 0"
proof (induction step cur "end" rule: channel_loop.induct)
  case (1 step cur "end")
  from 1(3) show ?case
    using 1(1,2) by (subst (asm) channel_loop.simps) (auto split: if_splits)
qed

definition split_10mhz :: "int \<Rightarrow> int \<Rightarrow> (int \<times> int) list" where
  "split_10mhz low high =
     (let start = max low CBRS_LOW_HZ; end = min high CBRS_HIGH_HZ in
      if end \<le> start then []
      else (let a0 = ((start + CHANNEL_HZ - 1) div CHANNEL_HZ) * CHANNEL_HZ;
                aligned =
                  (if start mod CHANNEL_HZ = 0 then start
                   else if a0 - CHANNEL_HZ \<ge> start \<and> a0 - CHANNEL_HZ \<ge> CBRS_LOW_HZ
                   then a0 - CHANNEL_HZ else a0);
                head_end = min aligned end in
            (if start < aligned \<and> head_end > start then [(start, head_end)] else [])
            @ channel_loop CHANNEL_HZ aligned end))"

definition channelize :: "int \<Rightarrow> int \<Rightarrow> int \<Rightarrow> (int \<times> int) list" where
  "channelize low_hz high_hz step_hz =
     (if high_hz \<le> low_hz \<or> step_hz \<le> 0 then []
      else (let s0 = (if low_hz mod step_hz \<noteq> 0 then low_hz - low_hz mod step_hz else low_hz);
                start = (if s0 < low_hz then s0 + step_hz else s0) in
            if start \<ge> high_hz then [(low_hz, high_hz)]
            else (if start > low_hz then [(low_hz, start)] else [])
                 @ channel_loop step_hz start high_hz))"

lemma ceil_grid:
  fixes x s :: int
  assumes "0 < s"
  shows "x \<le> ((x + s - 1) div s) * s" and "((x + s - 1) div s) * s < x + s"
proof -
  have m: "(x + s - 1) div s * s = (x + s - 1) - (x + s - 1) mod s"
    by (simp add: minus_mod_eq_div_mult)
  have "(x + s - 1) mod s < s" "0 \<le> (x + s - 1) mod s"
    using assms by simp_all
  with m show "x \<le> ((x + s - 1) div s) * s" "((x + s - 1) div s) * s < x + s"
    by linarith+
qed

text \<open>
  The start of the grid part of the two routines: on the grid, not below the start of the
  range, less than one channel above it.
\<close>

definition grid_start :: "int \<Rightarrow> int \<Rightarrow> int" where
  "grid_start step x = ((x + step - 1) div step) * step"

lemma grid_start_bounds: "0 < step \<Longrightarrow> x \<le> grid_start step x \<and> grid_start step x < x + step"
  using ceil_grid [of step x] by (simp add: grid_start_def)

lemma grid_start_mod: "grid_start step x mod step = 0"
  by (simp add: grid_start_def)

lemma grid_start_fixed:
  assumes "0 < step" and "x mod step = 0"
  shows "grid_start step x = x"
proof -
  obtain k where x: "x = step * k" using assms(2) by (auto simp: mod_eq_0_iff_dvd)
  have "(step * k + (step - 1)) div step = k + (step - 1) div step"
    using assms(1) div_mult_self4 by simp
  also have "(step - 1) div step = 0" using assms(1) by (simp add: div_pos_pos_trivial)
  finally show ?thesis
    using x by (simp add: grid_start_def algebra_simps)
qed

lemma grid_start_up:
  assumes "0 < step" and "x mod step \<noteq> 0"
  shows "grid_start step x = x - x mod step + step"
proof -
  have x: "x = step * (x div step) + x mod step" by simp
  have m: "0 < x mod step" "x mod step < step"
    using assms by (simp_all add: order_neq_le_trans)
  have "(x + step - 1) div step = (step * (x div step) + (x mod step - 1 + step)) div step"
    using x by (simp add: algebra_simps)
  also have "\<dots> = x div step + (x mod step - 1 + step) div step"
    using assms(1) by simp
  also have "(x mod step - 1 + step) div step = 1"
  proof -
    have "(x mod step - 1) div step = 0"
      using m by (intro div_pos_pos_trivial) linarith+
    then show ?thesis using assms(1) by simp
  qed
  finally show ?thesis
    using x by (simp add: grid_start_def algebra_simps)
qed

text \<open>Both routines are: the part below the grid, then the channels.\<close>

definition grid_split :: "int \<Rightarrow> int \<Rightarrow> int \<Rightarrow> (int \<times> int) list" where
  "grid_split step low high =
     (let g = min (grid_start step low) high in
      (if low < g then [(low, g)] else []) @ channel_loop step (grid_start step low) high)"

lemma split_10mhz_grid:
  "split_10mhz low high =
     (if min high CBRS_HIGH_HZ \<le> max low CBRS_LOW_HZ then []
      else grid_split CHANNEL_HZ (max low CBRS_LOW_HZ) (min high CBRS_HIGH_HZ))"
proof -
  define s where "s = max low CBRS_LOW_HZ"
  have c: "0 < CHANNEL_HZ" by (simp add: CHANNEL_HZ_def)
  have g: "((s + CHANNEL_HZ - 1) div CHANNEL_HZ) * CHANNEL_HZ = grid_start CHANNEL_HZ s"
    by (simp add: grid_start_def)
  show ?thesis
    using grid_start_bounds [OF c, of s] grid_start_fixed [OF c, of s]
    unfolding split_10mhz_def grid_split_def Let_def s_def [symmetric] g
    by auto
qed

lemma channel_loop_past: "end \<le> cur \<Longrightarrow> 0 < step \<Longrightarrow> channel_loop step cur end = []"
  by (subst channel_loop.simps) auto

lemma channelize_grid:
  "channelize low high step = (if high \<le> low \<or> step \<le> 0 then [] else grid_split step low high)"
proof (cases "high \<le> low \<or> step \<le> 0")
  case True
  then show ?thesis by (simp add: channelize_def)
next
  case False
  then have s: "0 < step" and lh: "low < high" by auto
  define g where "g = grid_start step low"
  have start: "(let s0 = (if low mod step \<noteq> 0 then low - low mod step else low) in
      if s0 < low then s0 + step else s0) = g"
    using s grid_start_fixed [of step low] grid_start_up [of step low]
      pos_mod_sign [OF s, of low] order_neq_le_trans [of 0 "low mod step"]
    by (auto simp: g_def Let_def)
  have b: "low \<le> g" using grid_start_bounds [OF s] by (simp add: g_def)
  show ?thesis
    using False b lh start channel_loop_past [of high g step] s
    unfolding channelize_def grid_split_def g_def [symmetric] Let_def
    by (auto simp: min_def)
qed

lemma grid_split_tiles:
  assumes "0 < step" and "low < high"
  shows "tiles low high (grid_split step low high)"
proof -
  define g where "g = grid_start step low"
  have "low \<le> g" using grid_start_bounds [OF assms(1)] by (simp add: g_def)
  then show ?thesis
    using assms channel_loop_tiles [of g high step] channel_loop_past [of high g step]
    by (cases "g \<le> high") (auto simp: grid_split_def Let_def g_def [symmetric] min_def)
qed

text \<open>One interval is at most one step wide and starts at the range's start or on the grid.\<close>

lemma grid_split_cell:
  assumes "0 < step" and "(l, h) \<in> set (grid_split step low high)"
  shows "h - l \<le> step \<and> (l = low \<or> l mod step = 0)"
  using assms grid_start_bounds [OF assms(1), of low] channel_loop_width [OF assms(1)]
    channel_loop_grid [OF grid_start_mod]
  by (auto simp: grid_split_def Let_def split: if_splits)

subsection \<open>Properties\<close>

text \<open>
  Taking a range out of a list of segments takes out exactly its frequencies: the
  segments returned cover what the old ones covered minus the range, none of them is empty,
  and each lies inside one of the old segments. This holds for every input, reversed or empty
  ranges included.
\<close>

theorem subtract_range_exact:
  "freqs (subtract_range segs ex_low ex_high) = freqs segs - {ex_low..<ex_high}
   \<and> (\<forall>(l, h)\<in>set (subtract_range segs ex_low ex_high).
        l < h \<and> (\<exists>(l', h')\<in>set segs. l' \<le> l \<and> h \<le> h'))"
proof -
  have "l < h \<and> (\<exists>(l', h')\<in>set segs. l' \<le> l \<and> h \<le> h')"
    if "(l, h) \<in> set (subtract_range segs ex_low ex_high)" for l h
    using that subtract_range_nonempty [OF that] by (fastforce elim: subtract_range_within)
  then show ?thesis by (auto simp: subtract_range_freqs_eq)
qed

theorem subtract_range_exact_witness:
  "freqs (subtract_range [(0, 10), (20, 30)] 5 25) = freqs [(0, 10), (20, 30)] - {5..<25}"
  using subtract_range_exact [of "[(0, 10), (20, 30)]" 5 25] by blast

text \<open>
  The split of a range into 10 MHz channels covers exactly the part of the range that
  lies in the CBRS band, with channels that follow one another without gap or overlap, are
  never empty and never wider than 10 MHz, and start on the 10 MHz grid, except for the first
  one, which starts where the range does.
\<close>

theorem split_10mhz_exact:
  "let s = max low CBRS_LOW_HZ; e = min high CBRS_HIGH_HZ; chs = split_10mhz low high in
   (if e \<le> s then chs = [] else tiles s e chs)
   \<and> freqs chs = {low..<high} \<inter> {CBRS_LOW_HZ..<CBRS_HIGH_HZ}
   \<and> (\<forall>(l, h)\<in>set chs. h - l \<le> CHANNEL_HZ \<and> (l = s \<or> l mod CHANNEL_HZ = 0))"
proof -
  have c: "0 < CHANNEL_HZ" by (simp add: CHANNEL_HZ_def)
  show ?thesis
  proof (cases "min high CBRS_HIGH_HZ \<le> max low CBRS_LOW_HZ")
    case True
    then show ?thesis by (auto simp: split_10mhz_grid Let_def)
  next
    case False
    then have t: "tiles (max low CBRS_LOW_HZ) (min high CBRS_HIGH_HZ) (split_10mhz low high)"
      using grid_split_tiles [OF c, of "max low CBRS_LOW_HZ" "min high CBRS_HIGH_HZ"]
      by (simp add: split_10mhz_grid del: min_less_iff_conj max_less_iff_conj)
    have "freqs (split_10mhz low high) = {low..<high} \<inter> {CBRS_LOW_HZ..<CBRS_HIGH_HZ}"
      using tiles_freqs [OF t] by (auto simp: max_def min_def)
    moreover have "h - l \<le> CHANNEL_HZ \<and> (l = max low CBRS_LOW_HZ \<or> l mod CHANNEL_HZ = 0)"
      if "(l, h) \<in> set (split_10mhz low high)" for l h
      using that False grid_split_cell [OF c] by (simp add: split_10mhz_grid)
    ultimately show ?thesis using False t by (auto simp: Let_def)
  qed
qed

theorem split_10mhz_exact_witness:
  "freqs (split_10mhz 3555000000 3575000000)
     = {3555000000..<3575000000} \<inter> {CBRS_LOW_HZ..<CBRS_HIGH_HZ}"
  using split_10mhz_exact [of 3555000000 3575000000] by (simp add: Let_def)

text \<open>
  The channels a DPA protects tile its declared range: they cover it exactly, in order,
  without gap or overlap, and none is wider than the step; an empty range or a step that is
  not positive has no channels.
\<close>

theorem channelize_exact:
  "if high \<le> low \<or> step \<le> 0 then channelize low high step = []
   else tiles low high (channelize low high step)
        \<and> freqs (channelize low high step) = {low..<high}
        \<and> (\<forall>(l, h)\<in>set (channelize low high step). h - l \<le> step)"
proof (cases "high \<le> low \<or> step \<le> 0")
  case True
  then show ?thesis by (simp add: channelize_grid)
next
  case False
  then have "tiles low high (channelize low high step)"
    using grid_split_tiles by (simp add: channelize_grid)
  moreover have "h - l \<le> step" if "(l, h) \<in> set (channelize low high step)" for l h
    using that False grid_split_cell by (simp add: channelize_grid)
  ultimately show ?thesis using False tiles_freqs by auto
qed

theorem channelize_exact_witness:
  "freqs (channelize 3555 3589 10) = {3555..<3589}"
  using channelize_exact [of 3589 3555 10] by simp

end
