(* ===== verification/Injected.thy ===== *)
theory Injected
  imports Models Intervals
begin

text \<open>
  What the administration interface injected and how the services read it back: the
  \<open>admin_injected_data\<close> rows by kind (\<open>_load_injected\<close>, \<open>_load_kind\<close>), the PAL
  records with their legacy rows (services/pal_service.py), the generation counters of the
  federal databases (services/federal_db_service.py), and the DPA catalogue and activations
  with their operations (services/dpa_service.py).
\<close>

subsection \<open>Rows of one kind\<close>

definition rows_of_kind :: "db \<Rightarrow> string \<Rightarrow> jtext list" where
  "rows_of_kind d kind = map snd (filter (\<lambda>(k, j). k = kind) (db_injected d))"

text \<open>Rows whose text is not JSON are skipped.\<close>

definition load_injected :: "db \<Rightarrow> string \<Rightarrow> pyval list" where
  "load_injected d kind =
     concat (map (\<lambda>j. case json_loads j of Inr v \<Rightarrow> [v] | Inl _ \<Rightarrow> []) (rows_of_kind d kind))"

definition load_kind :: "db \<Rightarrow> string \<Rightarrow> pyval list" where
  "load_kind d kind =
     concat (map (\<lambda>j. case json_loads_or_empty j of Inr v \<Rightarrow> [v] | Inl _ \<Rightarrow> [])
       (rows_of_kind d kind))"

definition delete_kind :: "db \<Rightarrow> string \<Rightarrow> db" where
  "delete_kind d kind = d\<lparr>db_injected := filter (\<lambda>(k, j). k \<noteq> kind) (db_injected d)\<rparr>"

definition add_injected :: "db \<Rightarrow> string \<Rightarrow> pyval \<Rightarrow> db" where
  "add_injected d kind v = d\<lparr>db_injected := db_injected d @ [(kind, json_dumps v)]\<rparr>"

lemma rows_of_kind_delete [simp]:
  "rows_of_kind (delete_kind d kind) k = (if k = kind then [] else rows_of_kind d k)"
proof -
  have "filter (\<lambda>x. fst x = k \<and> fst x \<noteq> kind) xs
      = (if k = kind then [] else filter (\<lambda>x. fst x = k) xs)"
    for xs :: "(string \<times> jtext) list"
    by (induction xs) auto
  then show ?thesis
    by (simp add: rows_of_kind_def delete_kind_def case_prod_unfold conj_commute)
qed

lemma rows_of_kind_add [simp]:
  "rows_of_kind (add_injected d kind v) k =
     rows_of_kind d k @ (if k = kind then [json_dumps v] else [])"
  by (simp add: rows_of_kind_def add_injected_def)

lemma rows_of_kind_empty [simp]: "rows_of_kind empty_db k = []"
  by (simp add: rows_of_kind_def empty_db_def)

lemma injected_frame [simp]:
  "db_grants (delete_kind d k) = db_grants d" "db_cbsds (delete_kind d k) = db_cbsds d"
  "db_next_grant (delete_kind d k) = db_next_grant d"
  "db_next_cbsd (delete_kind d k) = db_next_cbsd d"
  "db_grants (add_injected d k v) = db_grants d" "db_cbsds (add_injected d k v) = db_cbsds d"
  "db_next_grant (add_injected d k v) = db_next_grant d"
  "db_next_cbsd (add_injected d k v) = db_next_cbsd d"
  by (simp_all add: delete_kind_def add_injected_def)

subsection \<open>PAL records (services/pal_service.py)\<close>

definition setdefault :: "pydict \<Rightarrow> string \<Rightarrow> pyval \<Rightarrow> pydict" where
  "setdefault d k v = (if dhas d k then d else dset d k v)"

definition pal_frequencies :: "pydict \<Rightarrow> (int \<times> int) option res" where
  "pal_frequencies record =
     rbind (pget_or_empty (PDict record) ''channelAssignment'') (\<lambda>ca.
     rbind (pget_or_empty ca ''primaryAssignment'') (\<lambda>a.
     rbind (pget a ''lowFrequency'') (\<lambda>low0.
     rbind (pget a ''highFrequency'') (\<lambda>high0.
     rbind (if low0 = PNone \<or> high0 = PNone
            then rbind (pget_or_empty (PDict record) ''palBlock'') (\<lambda>block.
                 rbind (pget block ''lowFrequency'') (\<lambda>l.
                 rbind (pget block ''highFrequency'') (\<lambda>h. Inr (l, h))))
            else Inr (low0, high0)) (\<lambda>(low, high).
       if low = PNone \<or> high = PNone then Inr None
       else rbind (py_int low) (\<lambda>l. rbind (py_int high) (\<lambda>h. Inr (Some (l, h)))))))))"

text \<open>\<open>v.upper()\<close> of a value: only strings have it.\<close>

definition pupper :: "pyval \<Rightarrow> string res" where
  "pupper v = (case v of PStr s \<Rightarrow> Inr (py_upper s) | _ \<Rightarrow> Inl AttributeError)"

definition is_active_pal :: "pydict \<Rightarrow> bool res" where
  "is_active_pal record =
     rbind (pupper (por (dget record ''licenseStatus'') (PStr ''VALID''))) (\<lambda>s.
       Inr (s = ''VALID''))"

definition pal_record_to_dict :: "pal_row \<Rightarrow> pydict" where
  "pal_record_to_dict row =
     (let data0 = (case json_loads_or_empty (pa_record row) of Inr (PDict d) \<Rightarrow> d | _ \<Rightarrow> []);
          data1 = setdefault data0 ''palId'' (PStr (pa_id row));
          data2 = setdefault data1 ''userId'' (PStr (pa_user row));
          data3 = (if dhas data2 ''channelAssignment'' then data2
                   else dset data2 ''channelAssignment''
                     (PDict [(''primaryAssignment'',
                        PDict [(''lowFrequency'', PInt (pa_low row)),
                               (''highFrequency'', PInt (pa_high row))])]));
          data4 = setdefault data3 ''licenseStatus'' (PStr (pa_status row)) in
      case pa_expiration row of
        None \<Rightarrow> data4
      | Some e \<Rightarrow>
          if e = [] then data4
          else if \<not> dhas data4 ''license''
          then dset data4 ''license'' (PDict [(''licenseExpiration'', PStr e)])
          else (case dget data4 ''license'' of
                  PDict lic \<Rightarrow>
                    dset data4 ''license'' (PDict (setdefault lic ''licenseExpiration'' (PStr e)))
                | _ \<Rightarrow> data4))"

text \<open>The table rows first, then the legacy rows whose \<open>palId\<close> the table does not have.\<close>

definition load_pal_table :: "db \<Rightarrow> bool \<Rightarrow> (pyval list \<times> pyval list) res" where
  "load_pal_table d active_only =
     rfold (\<lambda>(pals, seen) row.
       let r = pal_record_to_dict row; pal_id = dget r ''palId'' in
       if \<not> truthy pal_id then Inr (pals, seen)
       else rbind (if active_only then is_active_pal r else Inr True) (\<lambda>active.
         if \<not> active then Inr (pals, seen)
         else rbind (check_hash pal_id) (\<lambda>k. Inr (pals @ [PDict r], k # seen))))
       ([], []) (db_pals d)"

definition load_pal_records :: "db \<Rightarrow> bool \<Rightarrow> pyval list res" where
  "load_pal_records d active_only =
     rbind (load_pal_table d active_only) (\<lambda>(pals0, seen).
       rfold (\<lambda>pals j.
         case json_loads_or_empty j of
           Inr (PDict r) \<Rightarrow>
             (let pal_id = dget r ''palId'' in
              if \<not> truthy pal_id then Inr pals
              else rbind (check_hash pal_id) (\<lambda>k.
                if py_in k seen then Inr pals
                else rbind (if active_only then is_active_pal r else Inr True) (\<lambda>active.
                  Inr (if active then pals @ [PDict r] else pals))))
         | _ \<Rightarrow> Inr pals) pals0 (rows_of_kind d ''pal''))"

subsection \<open>Generation counters of the federal databases\<close>

record sync_meta =
  sm_fss :: int
  sm_gwbl :: int
  sm_exz :: int
  sm_dpa :: int

text \<open>\<open>int(meta.get(key) or 0)\<close>.\<close>

definition meta_int :: "pyval \<Rightarrow> string \<Rightarrow> int res" where
  "meta_int meta k = rbind (pget meta k) (\<lambda>v. py_int (por v (PInt 0)))"

definition get_sync_meta :: "db \<Rightarrow> sync_meta res" where
  "get_sync_meta d =
     (let rows = load_kind d ''federal_sync_meta'' in
      if rows = [] then Inr \<lparr>sm_fss = 0, sm_gwbl = 0, sm_exz = 0, sm_dpa = 0\<rparr>
      else (let meta = last rows in
        rbind (meta_int meta ''fss'') (\<lambda>a. rbind (meta_int meta ''gwbl'') (\<lambda>b.
        rbind (meta_int meta ''exz'') (\<lambda>c. rbind (meta_int meta ''dpa'') (\<lambda>e.
          Inr \<lparr>sm_fss = a, sm_gwbl = b, sm_exz = c, sm_dpa = e\<rparr>))))))"

definition meta_dict :: "sync_meta \<Rightarrow> pydict" where
  "meta_dict m = [(''fss'', PInt (sm_fss m)), (''gwbl'', PInt (sm_gwbl m)),
                  (''exz'', PInt (sm_exz m)), (''dpa'', PInt (sm_dpa m))]"

text \<open>\<open>bump_sync_meta\<close>: \<open>(new value, database)\<close>, or the exception of reading the counters.\<close>

definition bump_sync_meta :: "db \<Rightarrow> string \<Rightarrow> (int \<times> db) res" where
  "bump_sync_meta d key =
     rbind (get_sync_meta d) (\<lambda>m.
     rbind (meta_int (PDict (meta_dict m)) key) (\<lambda>old.
       let meta = dset (meta_dict m) key (PInt (old + 1)) in
       Inr (old + 1, add_injected (delete_kind d ''federal_sync_meta'') ''federal_sync_meta''
                       (PDict meta))))"

subsection \<open>DPA catalogue and activations (services/dpa_service.py)\<close>

abbreviation KIND_CATALOGUE :: string where "KIND_CATALOGUE \<equiv> ''dpa_catalogue''"
abbreviation FLAG_DPA_ACTIVE :: string where "FLAG_DPA_ACTIVE \<equiv> ''dpa_active''"

definition list_catalogue :: "db \<Rightarrow> pyval list" where
  "list_catalogue d =
     (case rows_of_kind d KIND_CATALOGUE of
        [] \<Rightarrow> []
      | j # _ \<Rightarrow>
          (case json_loads_or_empty j of
             Inr (PDict payload) \<Rightarrow>
               (case dget payload ''dpas'' of PList items \<Rightarrow> items | _ \<Rightarrow> [])
           | _ \<Rightarrow> []))"

definition get_catalogue_definition :: "db \<Rightarrow> string \<Rightarrow> pyval option" where
  "get_catalogue_definition d dpa_id =
     List.find (\<lambda>item. case item of PDict r \<Rightarrow> dget r ''dpaId'' = PStr dpa_id | _ \<Rightarrow> False)
       (list_catalogue d)"

text \<open>\<open>_parse_activation_row\<close> and the \<open>if data\<close> of its callers: a non-empty dictionary.\<close>

definition activation_of :: "jtext \<Rightarrow> pydict option" where
  "activation_of j = (case json_loads_or_empty j of
     Inr (PDict data) \<Rightarrow> if data = [] then None else Some data
   | _ \<Rightarrow> None)"

definition list_active_activations :: "db \<Rightarrow> pydict list" where
  "list_active_activations d = List.map_filter activation_of (rows_of_kind d FLAG_DPA_ACTIVE)"

definition clear_activations :: "db \<Rightarrow> int \<times> db" where
  "clear_activations d =
     (int (length (rows_of_kind d FLAG_DPA_ACTIVE)), delete_kind d FLAG_DPA_ACTIVE)"

text \<open>
  \<open>int(fr["lowFrequency"]), int(fr["highFrequency"])\<close> under the handler
  \<open>except (KeyError, TypeError, ValueError)\<close>, the idiom of every reader of a range.
\<close>

definition read_range :: "pyval \<Rightarrow> (int \<times> int) option" where
  "read_range fr =
     (case rbind (pykey fr ''lowFrequency'') (\<lambda>l. rbind (py_int l) (\<lambda>low.
           rbind (pykey fr ''highFrequency'') (\<lambda>h. rbind (py_int h) (\<lambda>high. Inr (low, high))))) of
        Inr r \<Rightarrow> Some r | Inl _ \<Rightarrow> None)"

lemma read_range_exn:
  assumes "rbind (pykey fr ''lowFrequency'') (\<lambda>l. rbind (py_int l) (\<lambda>low.
           rbind (pykey fr ''highFrequency'') (\<lambda>h. rbind (py_int h) (\<lambda>high. Inr (low, high)))))
         = Inl e"
  shows "e = KeyError \<or> e = TypeError \<or> e = ValueError"
proof -
  have k: "pykey v s = Inl e' \<Longrightarrow> e' = KeyError \<or> e' = TypeError" for v s e'
    by (cases v) (auto split: if_splits)
  show ?thesis
    using assms k py_int_exn by (fastforce simp: rbind_eq_Inl)
qed

definition frequency_range_overlaps :: "int \<Rightarrow> int \<Rightarrow> int \<Rightarrow> int \<Rightarrow> bool" where
  "frequency_range_overlaps low_hz high_hz other_low other_high =
     (low_hz < other_high \<and> high_hz > other_low)"

interpretation dpa_overlap: half_open_overlap frequency_range_overlaps
  by unfold_locales (auto simp: frequency_range_overlaps_def)

definition grant_overlaps_active_dpa :: "db \<Rightarrow> int \<Rightarrow> int \<Rightarrow> bool" where
  "grant_overlaps_active_dpa d low_hz high_hz =
     (\<exists>data\<in>set (list_active_activations d).
        case read_range (por (dget data ''frequencyRange'') (PDict [])) of
          None \<Rightarrow> False
        | Some (a_low, a_high) \<Rightarrow> low_hz < a_high \<and> high_hz > a_low)"

text \<open>
  \<open>item.get("escMonitored", True)\<close>: the default only fills a missing key. The scan of the
  channels raises when \<open>channels\<close> is not iterable.
\<close>

definition esc_monitored :: "pydict \<Rightarrow> bool" where
  "esc_monitored item = (if dhas item ''escMonitored'' then truthy (dget item ''escMonitored'') else True)"

definition channel_overlaps :: "int \<Rightarrow> int \<Rightarrow> pyval \<Rightarrow> bool" where
  "channel_overlaps low_hz high_hz ch =
     (is_dict ch \<and> (case read_range ch of
        None \<Rightarrow> False | Some (a_low, a_high) \<Rightarrow> low_hz < a_high \<and> high_hz > a_low))"

definition grant_overlaps_esc_monitored_catalogue :: "db \<Rightarrow> int \<Rightarrow> int \<Rightarrow> bool res" where
  "grant_overlaps_esc_monitored_catalogue d low_hz high_hz =
     rany (\<lambda>item. case item of
         PDict r \<Rightarrow>
           if \<not> esc_monitored r then Inr False
           else rbind (pyiter (por (dget r ''channels'') (PList []))) (\<lambda>chs.
                  Inr (\<exists>ch\<in>set chs. channel_overlaps low_hz high_hz ch))
       | _ \<Rightarrow> Inr False) (list_catalogue d)"

end
