(* ===== verification/Geometry.thy ===== *)
theory Geometry
  imports Sas_Prelude
begin

text \<open>
  services/geometry.py: GeoJSON rings, ray casting, distances on the sphere and the
  buffer test the protection services share. Coordinates are Python values as
  \<open>json.loads\<close> left them, so every conversion can raise; floats are reals, \<open>inf\<close> is
  \<open>None\<close> of an optional distance. The area overlap of two polygons
  (\<open>geojson_areas_overlap\<close>) is not modelled here.
\<close>

definition EARTH_RADIUS_M :: real where
  "EARTH_RADIUS_M = 6371000"

definition radians :: "real \<Rightarrow> real" where
  "radians x = x * pi / 180"

text \<open>\<open>(float(p[0]), float(p[1]))\<close> of a position.\<close>

definition lonlat :: "pyval \<Rightarrow> (real \<times> real) res" where
  "lonlat p = rbind (pyidx p 0) (\<lambda>a. rbind (py_float a) (\<lambda>x.
              rbind (pyidx p 1) (\<lambda>b. rbind (py_float b) (\<lambda>y. Inr (x, y)))))"

text \<open>One edge of the ray-casting loop, from vertex \<open>j\<close> to vertex \<open>i\<close>.\<close>

definition crosses :: "real \<Rightarrow> real \<Rightarrow> real \<times> real \<Rightarrow> real \<times> real \<Rightarrow> bool" where
  "crosses lon lat vi vj =
     (case (vi, vj) of ((xi, yi), (xj, yj)) \<Rightarrow>
        ((lat < yi) \<noteq> (lat < yj)) \<and>
        lon < (xj - xi) * (lat - yi) / (yj - yi + 1 / 10 ^ 30) + xi)"

definition point_in_ring :: "real \<Rightarrow> real \<Rightarrow> pyval \<Rightarrow> bool res" where
  "point_in_ring lon lat ring =
     rbind (pylen ring) (\<lambda>n.
       if n < 3 then Inr False
       else rbind
         (rfold (\<lambda>(inside, j) i.
            rbind (pyidx ring i) (\<lambda>pi'. rbind (lonlat pi') (\<lambda>vi.
            rbind (pyidx ring j) (\<lambda>pj. rbind (lonlat pj) (\<lambda>vj.
              Inr (if crosses lon lat vi vj then \<not> inside else inside, i))))))
            (False, n - 1) [0..<n])
         (\<lambda>(inside, j). Inr inside))"

definition is_point_in_polygon :: "real \<Rightarrow> real \<Rightarrow> pyval \<Rightarrow> bool res" where
  "is_point_in_polygon lat lng polygon = point_in_ring lng lat polygon"

definition haversine_m :: "real \<Rightarrow> real \<Rightarrow> real \<Rightarrow> real \<Rightarrow> real" where
  "haversine_m lat1 lon1 lat2 lon2 =
     (let p1 = radians lat1; p2 = radians lat2;
          dphi = radians (lat2 - lat1); dlmb = radians (lon2 - lon1);
          a = sin (dphi / 2) ^ 2 + cos p1 * cos p2 * sin (dlmb / 2) ^ 2 in
      2 * EARTH_RADIUS_M * arcsin (sqrt a))"

definition hypot :: "real \<Rightarrow> real \<Rightarrow> real" where
  "hypot x y = sqrt (x ^ 2 + y ^ 2)"

definition dist_point_segment_m ::
    "real \<Rightarrow> real \<Rightarrow> real \<Rightarrow> real \<Rightarrow> real \<Rightarrow> real \<Rightarrow> real" where
  "dist_point_segment_m lat lon lat1 lon1 lat2 lon2 =
     (let lat0 = radians lat;
          to_xy = (\<lambda>la lo. ((radians lo - radians lon) * cos lat0 * EARTH_RADIUS_M,
                           (radians la - radians lat) * EARTH_RADIUS_M));
          (ax, ay) = to_xy lat1 lon1; (bx, by') = to_xy lat2 lon2;
          abx = bx - ax; aby = by' - ay; denom = abx * abx + aby * aby in
      if denom = 0 then hypot ax ay
      else (let t = max 0 (min 1 ((- ax * abx + - ay * aby) / denom)) in
            hypot (ax + t * abx) (ay + t * aby)))"

text \<open>\<open>d < best\<close> with \<open>best = inf\<close> as \<open>None\<close>.\<close>

definition less_best :: "real \<Rightarrow> real option \<Rightarrow> bool" where
  "less_best d best = (case best of None \<Rightarrow> True | Some b \<Rightarrow> d < b)"

definition distance_to_ring_m :: "real \<Rightarrow> real \<Rightarrow> pyval \<Rightarrow> real option res" where
  "distance_to_ring_m lat lon ring =
     rbind (point_in_ring lon lat ring) (\<lambda>inside.
       if inside then Inr (Some 0)
       else rbind (pylen ring) (\<lambda>n.
         if n < 2 then Inr None
         else rfold (\<lambda>best i.
            rbind (pyidx ring i) (\<lambda>a. rbind (pyidx ring (i + 1)) (\<lambda>b.
            rbind (pyidx a 1) (\<lambda>a1. rbind (py_float a1) (\<lambda>la.
            rbind (pyidx a 0) (\<lambda>a0. rbind (py_float a0) (\<lambda>lo.
            rbind (pyidx b 1) (\<lambda>b1. rbind (py_float b1) (\<lambda>lb.
            rbind (pyidx b 0) (\<lambda>b0. rbind (py_float b0) (\<lambda>lob.
              (let d = dist_point_segment_m lat lon la lo lb lob in
               Inr (if less_best d best then Some d else best)))))))))))))
            None [0..<n - 1]))"

text \<open>\<open>_ring_bbox\<close>: \<open>(min lon, min lat, max lon, max lat)\<close>; \<open>None\<close> of an empty ring.\<close>

definition ring_bbox :: "pyval \<Rightarrow> (real \<times> real \<times> real \<times> real) option res" where
  "ring_bbox ring =
     (if \<not> truthy ring then Inr None
      else rbind (pyiter ring) (\<lambda>ps.
        rbind (rmap (\<lambda>p. rbind (pyidx p 0) py_float) ps) (\<lambda>lons.
        rbind (rmap (\<lambda>p. rbind (pyidx p 1) py_float) ps) (\<lambda>lats.
          Inr (Some (Min (set lons), Min (set lats), Max (set lons), Max (set lats)))))))"

definition expand_bbox_m ::
    "real \<times> real \<times> real \<times> real \<Rightarrow> real \<Rightarrow> real \<Rightarrow> real \<times> real \<times> real \<times> real" where
  "expand_bbox_m bbox meters lat_ref =
     (case bbox of (min_lon, min_lat, max_lon, max_lat) \<Rightarrow>
       (let dlat = meters / 111320;
            cos_lat = max (1 / 5) \<bar>cos (radians lat_ref)\<bar>;
            dlon = meters / (111320 * cos_lat) in
        (min_lon - dlon, min_lat - dlat, max_lon + dlon, max_lat + dlat)))"

definition in_bbox :: "real \<Rightarrow> real \<Rightarrow> real \<times> real \<times> real \<times> real \<Rightarrow> bool" where
  "in_bbox lon lat bbox = (case bbox of (x0, y0, x1, y1) \<Rightarrow>
     x0 \<le> lon \<and> lon \<le> x1 \<and> y0 \<le> lat \<and> lat \<le> y1)"

text \<open>The nested \<open>_from_geom\<close> of \<open>iter_geojson_rings\<close>: the rings one geometry adds.\<close>

definition rings_from_geom :: "pyval \<Rightarrow> pyval list res" where
  "rings_from_geom geom =
     rbind (pget geom ''type'') (\<lambda>gtype.
     rbind (pget geom ''coordinates'') (\<lambda>c0.
       let coords = por c0 (PList []) in
       if gtype = PStr ''Polygon'' \<and> truthy coords
       then rbind (pyidx coords 0) (\<lambda>r. Inr [r])
       else if gtype = PStr ''MultiPolygon''
       then rbind (pyiter coords) (\<lambda>polys.
              rmap (\<lambda>poly. pyidx poly 0) (filter truthy polys))
       else Inr []))"

definition iter_geojson_rings :: "pyval \<Rightarrow> pyval list res" where
  "iter_geojson_rings zone =
     (if \<not> truthy zone then Inr []
      else rbind (pget zone ''type'') (\<lambda>ztype.
        if ztype = PStr ''FeatureCollection'' then
          rbind (pget zone ''features'') (\<lambda>f.
          rbind (pyiter (por f (PList []))) (\<lambda>features.
            rfold (\<lambda>rings feature.
              rbind (pget_or_empty feature ''geometry'') (\<lambda>geom.
                if is_dict geom
                then rbind (rings_from_geom geom) (\<lambda>rs. Inr (rings @ rs))
                else Inr rings)) [] features))
        else if ztype = PStr ''Feature'' then
          rbind (pget_or_empty zone ''geometry'') (\<lambda>geom.
            if is_dict geom then rings_from_geom geom else Inr [])
        else if ztype = PStr ''Polygon'' \<or> ztype = PStr ''MultiPolygon''
        then rings_from_geom zone
        else Inr []))"

definition point_in_geojson :: "real \<Rightarrow> real \<Rightarrow> pyval \<Rightarrow> bool res" where
  "point_in_geojson lat lon zone =
     rbind (iter_geojson_rings zone) (rany (\<lambda>ring. point_in_ring lon lat ring))"

text \<open>
  \<open>round(x, 12)\<close>, half to even, and the vertices of a ring if it is valid: closed, at least
  four positions, at least three different vertices. The exceptions \<open>_ring_is_valid\<close> catches
  are exactly those of the conversion.
\<close>

definition round12 :: "real \<Rightarrow> int" where
  "round12 x = (let y = x * 10 ^ 12; f = \<lfloor>y\<rfloor> in
     if y - of_int f < 1 / 2 \<or> (y - of_int f = 1 / 2 \<and> even f) then f else f + 1)"

definition ring_is_valid :: "pyval \<Rightarrow> bool res" where
  "ring_is_valid ring =
     rbind (pylen ring) (\<lambda>n.
       if n < 4 then Inr False
       else (case rbind (pyiter ring) (rmap lonlat) of
          Inl e \<Rightarrow> if e = TypeError \<or> e = ValueError \<or> e = IndexError then Inr False else Inl e
        | Inr pts \<Rightarrow>
            if hd pts \<noteq> last pts then Inr False
            else Inr (3 \<le> card (set (map (\<lambda>(x, y). (round12 x, round12 y)) (butlast pts))))))"

definition geojson_geometry_usable :: "pyval \<Rightarrow> bool res" where
  "geojson_geometry_usable zone =
     (if \<not> truthy zone \<or> \<not> is_dict zone then Inr False
      else rbind (iter_geojson_rings zone) (\<lambda>rings.
        if rings = [] then Inr False else rany ring_is_valid rings))"

definition le_dist :: "real option \<Rightarrow> real \<Rightarrow> bool" where
  "le_dist d b = (case d of None \<Rightarrow> False | Some x \<Rightarrow> x \<le> b)"

definition within_geojson_buffer_m ::
    "real \<Rightarrow> real \<Rightarrow> pyval \<Rightarrow> real \<Rightarrow> bool res" where
  "within_geojson_buffer_m lat lon zone buffer_m =
     (if \<not> truthy zone then Inr False
      else rbind (pget zone ''type'') (\<lambda>ztype.
        if ztype = PStr ''Point'' then
          rbind (pget zone ''coordinates'') (\<lambda>coords.
            case coords of
              PList (c0 # c1 # cs) \<Rightarrow>
                (case rbind (py_float c0) (\<lambda>zlon. rbind (py_float c1) (\<lambda>zlat. Inr (zlon, zlat))) of
                   Inl e \<Rightarrow> Inr False
                 | Inr (zlon, zlat) \<Rightarrow> Inr (haversine_m lat lon zlat zlon \<le> buffer_m))
            | _ \<Rightarrow> Inr False)
        else rbind (iter_geojson_rings zone) (rany (\<lambda>ring.
          rbind (ring_is_valid ring) (\<lambda>v.
            if \<not> v then Inr False
            else rbind (ring_bbox ring) (\<lambda>bbox.
              if (case bbox of None \<Rightarrow> False
                  | Some b \<Rightarrow> \<not> in_bbox lon lat (expand_bbox_m b (buffer_m + 5) lat))
              then Inr False
              else rbind (distance_to_ring_m lat lon ring) (\<lambda>d. Inr (le_dist d buffer_m))))))))"

subsection \<open>Rectangles\<close>

definition position :: "real \<Rightarrow> real \<Rightarrow> pyval" where
  "position x y = PList [PFloat x, PFloat y]"

text \<open>The closed ring of the rectangle from \<open>(a, c)\<close> to \<open>(b, d)\<close>, counter-clockwise.\<close>

definition rectangle :: "real \<Rightarrow> real \<Rightarrow> real \<Rightarrow> real \<Rightarrow> pyval" where
  "rectangle a b c d =
     PList [position a c, position b c, position b d, position a d, position a c]"

lemma lonlat_position [simp]: "lonlat (position x y) = Inr (x, y)"
  by (simp add: lonlat_def position_def)

lemma upt_5: "[0..<5] = [0, 1, 2, 3, 4::nat]"
  by (simp add: upt_rec)

text \<open>
  Ray casting decides an axis-parallel rectangle exactly, edges included in a half-open
  way: a point is inside exactly when its longitude is at least the western and below the
  eastern edge and its latitude at least the southern and below the northern one. So two
  rectangles that share an edge never both contain a point, and leave none out.
\<close>

theorem point_in_rectangle:
  assumes "a < b" and "c < d"
  shows "point_in_ring lon lat (rectangle a b c d)
         = Inr (a \<le> lon \<and> lon < b \<and> c \<le> lat \<and> lat < d)"
  using assms
  by (auto simp: point_in_ring_def rectangle_def upt_5 crosses_def)

theorem point_in_rectangle_witness:
  "point_in_ring 0 5 (rectangle 0 10 0 10) = Inr True
   \<and> point_in_ring 10 5 (rectangle 0 10 0 10) = Inr False"
  using point_in_rectangle [of 0 10 0 10 0 5] point_in_rectangle [of 0 10 0 10 10 5] by simp

end
