(* ===== verification/Protection.thy ===== *)
theory Protection
  imports Injected Geometry
begin

text \<open>
  The location and frequency checks a grant has to pass: exclusion zones
  (services/exclusion_zone_service.py), grandfathered wireless zones
  (services/gwpz_protection.py), quiet zones and field offices
  (services/quiet_zone_service.py), fixed satellite stations with neighbouring broadband
  links (services/federal_db_service.py) and grants at a peer (services/cpas_service.py).
  Several of them fail closed: data that cannot be evaluated blocks.
\<close>

subsection \<open>Exclusion zones\<close>

definition EXZ_BUFFER_M :: real where
  "EXZ_BUFFER_M = 50"

text \<open>\<open>_freq_ranges\<close>: entries that are not ranges are skipped.\<close>

definition freq_range_of :: "pyval \<Rightarrow> (int \<times> int) option" where
  "freq_range_of fr =
     (case fr of
        PDict r \<Rightarrow>
          (if dget r ''lowFrequency'' = PNone \<or> dget r ''highFrequency'' = PNone then None
           else (case (py_int (dget r ''lowFrequency''), py_int (dget r ''highFrequency'')) of
                   (Inr low, Inr high) \<Rightarrow> Some (low, high)
                 | _ \<Rightarrow> None))
      | _ \<Rightarrow> None)"

definition exz_freq_ranges :: "pyval \<Rightarrow> (int \<times> int) list res" where
  "exz_freq_ranges record =
     rbind (pget record ''frequencyRanges'') (\<lambda>v.
     rbind (pyiter (por v (PList []))) (\<lambda>frs. Inr (List.map_filter freq_range_of frs)))"

definition validate_exclusion_zone_record :: "pyval \<Rightarrow> unit res" where
  "validate_exclusion_zone_record record =
     (case record of
        PDict r \<Rightarrow>
          (let zone = dget r ''zone'' in
           if zone = PNone \<or> \<not> is_dict zone then Inl ExclusionZoneError
           else rbind (geojson_geometry_usable zone) (\<lambda>ok.
                  if ok then Inr () else Inl ExclusionZoneError))
      | _ \<Rightarrow> Inl ExclusionZoneError)"

definition persist_exclusion_zone :: "db \<Rightarrow> pyval \<Rightarrow> db res" where
  "persist_exclusion_zone d payload =
     (let body = (if is_dict payload then payload else PDict []) in
      rbind (if truthy body then validate_exclusion_zone_record body else Inr ()) (\<lambda>_.
        Inr (add_injected d ''exclusion_zone'' body)))"

definition load_active_exclusion_zone_records :: "db \<Rightarrow> pyval list res" where
  "load_active_exclusion_zone_records d =
     (let records = load_injected d ''exclusion_zone'' in
      if \<not> admin_flag_set d ''ntia_15_517'' then Inr records
      else (let ntia = load_injected d ''ntia_exclusion_zones'' in
        if ntia = [] then Inl ExclusionZoneUnavailable
        else rbind (rmap (\<lambda>rec.
               rbind (validate_exclusion_zone_record rec) (\<lambda>_.
               rbind (pget rec ''zone'') (\<lambda>zone.
               rbind (geojson_geometry_usable zone) (\<lambda>ok.
                 if ok then Inr () else Inl ExclusionZoneUnavailable)))) ntia)
             (\<lambda>_. Inr (records @ ntia))))"

text \<open>
  \<open>point_hits_exclusion_records\<close> with its defaults (strict geometry, the 50 m buffer) and
  a frequency range.
\<close>

definition exz_record_hits :: "real \<Rightarrow> real \<Rightarrow> int \<Rightarrow> int \<Rightarrow> pyval \<Rightarrow> bool res" where
  "exz_record_hits lat lon low_hz high_hz record =
     (case record of
        PDict r \<Rightarrow>
          (let zone = dget r ''zone'' in
           if zone = PNone \<or> \<not> is_dict zone then Inl ExclusionZoneError
           else rbind (geojson_geometry_usable zone) (\<lambda>ok.
             if \<not> ok then Inl ExclusionZoneError
             else rbind (within_geojson_buffer_m lat lon zone EXZ_BUFFER_M) (\<lambda>w.
               if \<not> w then Inr False
               else rbind (exz_freq_ranges record) (\<lambda>ranges.
                 Inr (ranges = [] \<or>
                      (\<exists>(zlow, zhigh)\<in>set ranges. overlaps low_hz high_hz zlow zhigh))))))
      | _ \<Rightarrow> Inr False)"

definition point_hits_exclusion_zone :: "db \<Rightarrow> real \<Rightarrow> real \<Rightarrow> int \<Rightarrow> int \<Rightarrow> bool res" where
  "point_hits_exclusion_zone d lat lon low_hz high_hz =
     rbind (load_active_exclusion_zone_records d)
       (rany (exz_record_hits lat lon low_hz high_hz))"

definition exclusion_freq_ranges_at_point :: "db \<Rightarrow> real \<Rightarrow> real \<Rightarrow> (int \<times> int) list res" where
  "exclusion_freq_ranges_at_point d lat lon =
     rbind (load_active_exclusion_zone_records d)
       (rfold (\<lambda>out record.
          rbind (pget record ''zone'') (\<lambda>zone.
          rbind (within_geojson_buffer_m lat lon zone EXZ_BUFFER_M) (\<lambda>w.
            if \<not> w then Inr out
            else rbind (exz_freq_ranges record) (\<lambda>rs. Inr (out @ rs))))) [])"

text \<open>The two exceptions the callers turn into a denial.\<close>

definition exz_failure :: "exn \<Rightarrow> bool" where
  "exz_failure e = (e = ExclusionZoneError \<or> e = ExclusionZoneUnavailable)"

subsection \<open>Grandfathered wireless protection zones\<close>

definition freq_overlaps :: "int \<Rightarrow> int \<Rightarrow> int \<Rightarrow> int \<Rightarrow> bool" where
  "freq_overlaps a_low a_high b_low b_high = (a_low < b_high \<and> a_high > b_low)"

interpretation gwpz_overlap: half_open_overlap freq_overlaps
  by unfold_locales (auto simp: freq_overlaps_def)

definition parse_gwpz_zone_and_freq :: "pyval \<Rightarrow> (pyval \<times> int \<times> int) option res" where
  "parse_gwpz_zone_and_freq payload =
     (case payload of
        PDict p \<Rightarrow>
          (case (dget p ''zone'', dget p ''record'') of
             (PDict z, PDict r) \<Rightarrow>
               (case dget r ''deploymentParam'' of
                  PList (PDict dep # deps) \<Rightarrow>
                    rbind (pget (por (dget dep ''operationParam'') (PDict []))
                             ''operationFrequencyRange'') (\<lambda>v.
                      let fr = por v (PDict []) in
                      if \<not> is_dict fr then Inr None
                      else (case read_range fr of
                              None \<Rightarrow> Inr None
                            | Some (low, high) \<Rightarrow>
                                Inr (if low \<ge> high then None else Some (PDict z, low, high))))
                | _ \<Rightarrow> Inr None)
           | _ \<Rightarrow> Inr None)
      | _ \<Rightarrow> Inr None)"

definition gwpz_blocks :: "real \<Rightarrow> real \<Rightarrow> int \<Rightarrow> int \<Rightarrow> pyval \<Rightarrow> bool option res" where
  "gwpz_blocks lat lon low_hz high_hz gwpz_record =
     rbind (parse_gwpz_zone_and_freq gwpz_record) (\<lambda>parsed.
       case parsed of
         None \<Rightarrow> Inr None
       | Some (zone, z_low, z_high) \<Rightarrow>
           rbind (geojson_geometry_usable zone) (\<lambda>ok.
             if \<not> ok then Inr None
             else if \<not> freq_overlaps low_hz high_hz z_low z_high then Inr (Some False)
             else rbind (within_geojson_buffer_m lat lon zone 0) (\<lambda>w. Inr (Some w))))"

definition gwpz_blocks_any ::
    "real \<Rightarrow> real \<Rightarrow> int \<Rightarrow> int \<Rightarrow> pyval list \<Rightarrow> bool \<Rightarrow> bool res" where
  "gwpz_blocks_any lat lon low_hz high_hz gwpz_records fail_closed =
     rany (\<lambda>payload.
       if \<not> is_dict payload
       then (if fail_closed then Inl GwpzProtectionError else Inr False)
       else rbind (gwpz_blocks lat lon low_hz high_hz payload) (\<lambda>result.
         case result of
           None \<Rightarrow> if fail_closed then Inl GwpzProtectionError else Inr False
         | Some b \<Rightarrow> Inr b)) gwpz_records"

text \<open>\<open>load_injected\<close> of services/data_injection_service.py keeps only dictionaries.\<close>

definition load_injected_dicts :: "db \<Rightarrow> string \<Rightarrow> pyval list" where
  "load_injected_dicts d kind = filter is_dict (load_kind d kind)"

definition grant_blocked_by_gwpz :: "db \<Rightarrow> real \<Rightarrow> real \<Rightarrow> int \<Rightarrow> int \<Rightarrow> bool res" where
  "grant_blocked_by_gwpz d lat lon low_hz high_hz =
     gwpz_blocks_any lat lon low_hz high_hz (load_injected_dicts d ''wisp'') True"

subsection \<open>Quiet zones\<close>

definition NRQZ_NORTH :: real where "NRQZ_NORTH = 39 + 15 / 60 + (4 / 10) / 3600"
definition NRQZ_SOUTH :: real where "NRQZ_SOUTH = 37 + 30 / 60 + (4 / 10) / 3600"
definition NRQZ_EAST :: real where "NRQZ_EAST = - (78 + 29 / 60 + 59 / 3600)"
definition NRQZ_WEST :: real where "NRQZ_WEST = - (80 + 29 / 60 + (592 / 10) / 3600)"

definition haversine_km :: "real \<Rightarrow> real \<Rightarrow> real \<Rightarrow> real \<Rightarrow> real" where
  "haversine_km lat1 lon1 lat2 lon2 =
     (let r = 6371; p1 = radians lat1; p2 = radians lat2;
          dphi = radians (lat2 - lat1); dlmb = radians (lon2 - lon1);
          a = sin (dphi / 2) ^ 2 + cos p1 * cos p2 * sin (dlmb / 2) ^ 2 in
      2 * r * arcsin (sqrt a))"

definition in_nrao_nrro_quiet_zone :: "real \<Rightarrow> real \<Rightarrow> bool" where
  "in_nrao_nrro_quiet_zone lat lon =
     (NRQZ_SOUTH \<le> lat \<and> lat \<le> NRQZ_NORTH \<and> NRQZ_WEST \<le> lon \<and> lon \<le> NRQZ_EAST)"

text \<open>\<open>(cbsd_category or "A").strip().upper()\<close> on a category or \<open>None\<close>.\<close>

definition norm_category :: "pyval \<Rightarrow> string res" where
  "norm_category cat = (case por cat (PStr ''A'') of
     PStr s \<Rightarrow> Inr (py_upper (py_strip s)) | _ \<Rightarrow> Inl AttributeError)"

definition fcc_office_radius_km :: "pyval \<Rightarrow> real res" where
  "fcc_office_radius_km cat =
     rbind (norm_category cat) (\<lambda>c. Inr (if c = ''B'' then 48 / 10 else 24 / 10))"

text \<open>The data file without usable rows is \<open>QuietZoneUnavailable\<close>, a \<open>RuntimeError\<close>.\<close>

definition near_fcc_field_office :: "env \<Rightarrow> real \<Rightarrow> real \<Rightarrow> pyval \<Rightarrow> bool res" where
  "near_fcc_field_office en lat lon cat =
     rbind (fcc_office_radius_km cat) (\<lambda>rad.
       if env_fcc_offices en = [] then Inl RuntimeError
       else Inr (\<exists>(olat, olon)\<in>set (env_fcc_offices en). haversine_km lat lon olat olon \<le> rad))"

definition table_mountain_coordination_km :: "pyval \<Rightarrow> real option \<Rightarrow> real res" where
  "table_mountain_coordination_km cat bandwidth_mhz =
     rbind (norm_category cat) (\<lambda>c.
       Inr (if c \<noteq> ''B'' then 38 / 10
            else (case bandwidth_mhz of
                    None \<Rightarrow> 80
                  | Some bw \<Rightarrow> if bw \<le> 10 then 38 else if bw \<le> 20 then 54
                              else if bw \<le> 30 then 64 else 80)))"

definition near_table_mountain :: "real \<Rightarrow> real \<Rightarrow> pyval \<Rightarrow> real option \<Rightarrow> bool res" where
  "near_table_mountain lat lon cat bandwidth_mhz =
     rbind (table_mountain_coordination_km cat bandwidth_mhz) (\<lambda>rad.
       Inr (haversine_km lat lon (4013066 / 100000) (- (105244596 / 1000000)) \<le> rad))"

record qpr_config =
  qc_table_mountain :: bool
  qc_fcc_offices :: bool
  qc_areas :: bool

definition bool_default_True :: "pydict \<Rightarrow> string \<Rightarrow> bool" where
  "bool_default_True d k = (if dhas d k then truthy (dget d k) else True)"

definition get_qpr_config :: "db \<Rightarrow> qpr_config" where
  "get_qpr_config d =
     (let dflt = \<lparr>qc_table_mountain = True, qc_fcc_offices = True, qc_areas = True\<rparr> in
      case rows_of_kind d ''quiet_zone_config'' of
        [] \<Rightarrow> dflt
      | j # _ \<Rightarrow>
          (case json_loads_or_empty j of
             Inr (PDict data) \<Rightarrow>
               \<lparr>qc_table_mountain = bool_default_True data ''tableMountainEnabled'',
                qc_fcc_offices = bool_default_True data ''fccOfficesEnabled'',
                qc_areas = bool_default_True data ''configurableAreasEnabled''\<rparr>
           | _ \<Rightarrow> dflt))"

definition configurable_areas :: "db \<Rightarrow> pyval list" where
  "configurable_areas d = filter is_dict (load_kind d ''quiet_protected_area'')"

text \<open>The point-and-radius form of an area; \<open>None\<close> where the handler skips it.\<close>

definition area_circle :: "pydict \<Rightarrow> (real \<times> real \<times> real) option" where
  "area_circle area =
     (case rbind (pykey (PDict area) ''latitude'') (\<lambda>a. rbind (py_float a) (\<lambda>lat.
           rbind (pykey (PDict area) ''longitude'') (\<lambda>b. rbind (py_float b) (\<lambda>lon.
           rbind (py_float (por (por (dget area ''radiusKm'') (dget area ''radius_km'')) (PInt 0)))
             (\<lambda>rad. Inr (lat, lon, rad)))))) of
        Inr c \<Rightarrow> Some c | Inl _ \<Rightarrow> None)"

definition in_configurable_area :: "real \<Rightarrow> real \<Rightarrow> pyval list \<Rightarrow> bool res" where
  "in_configurable_area lat lon areas =
     rany (\<lambda>area. case area of
         PDict r \<Rightarrow>
           (let zone = por (por (dget r ''zone'') (dget r ''geometry'')) area in
            rbind (if is_dict zone then point_in_geojson lat lon zone else Inr False) (\<lambda>inside.
              if inside then Inr True
              else Inr (case area_circle r of
                          None \<Rightarrow> False
                        | Some (alat, alon, rad) \<Rightarrow> rad > 0 \<and> haversine_km lat lon alat alon \<le> rad)))
       | _ \<Rightarrow> Inl AttributeError) areas"

definition quiet_zone_blocks_location ::
    "env \<Rightarrow> db \<Rightarrow> real \<Rightarrow> real \<Rightarrow> pyval \<Rightarrow> real option \<Rightarrow> string option res" where
  "quiet_zone_blocks_location en d lat lon cat bandwidth_mhz =
     (if in_nrao_nrro_quiet_zone lat lon then Inr (Some ''nrqz'')
      else (let cfg = get_qpr_config d in
        rbind (if qc_fcc_offices cfg
               then (if env_fcc_offices en = [] then Inl RuntimeError
                     else near_fcc_field_office en lat lon cat)
               else Inr False) (\<lambda>fcc.
        if fcc then Inr (Some ''fcc_field_office'')
        else rbind (if qc_table_mountain cfg then near_table_mountain lat lon cat bandwidth_mhz
                    else Inr False) (\<lambda>tm.
          if tm then Inr (Some ''table_mountain'')
          else rbind (if qc_areas cfg then in_configurable_area lat lon (configurable_areas d)
                      else Inr False) (\<lambda>area.
            Inr (if area then Some ''configurable_protected_area'' else None))))))"

text \<open>Fail closed: an unavailable data set (\<open>RuntimeError\<close>) blocks.\<close>

definition blocks_or_unavailable :: "string option res \<Rightarrow> bool res" where
  "blocks_or_unavailable r = (case r of
     Inl e \<Rightarrow> if e = RuntimeError then Inr True else Inl e
   | Inr reason \<Rightarrow> Inr (reason \<noteq> None))"

definition category_from_payload :: "env \<Rightarrow> pydict \<Rightarrow> pyval \<Rightarrow> string" where
  "category_from_payload en installation cat =
     (if truthy cat then py_upper (py_str en cat)
      else (let c = dget installation ''cbsdCategory'' in
            if truthy c then py_upper (py_str en c) else ''A''))"

definition registration_blocked_by_quiet_zone ::
    "env \<Rightarrow> db \<Rightarrow> pyval \<Rightarrow> pyval \<Rightarrow> bool res" where
  "registration_blocked_by_quiet_zone en d installation cat =
     (case rbind (pykey installation ''latitude'') (\<lambda>a. rbind (py_float a) (\<lambda>lat.
           rbind (pykey installation ''longitude'') (\<lambda>b. rbind (py_float b) (\<lambda>lon.
             Inr (lat, lon))))) of
        Inl e \<Rightarrow> Inr False
      | Inr (lat, lon) \<Rightarrow>
          (case installation of
             PDict inst \<Rightarrow>
               blocks_or_unavailable
                 (quiet_zone_blocks_location en d lat lon
                   (PStr (category_from_payload en inst cat)) None)
           | _ \<Rightarrow> Inl AttributeError))"

definition grant_blocked_by_quiet_zone ::
    "env \<Rightarrow> db \<Rightarrow> real \<Rightarrow> real \<Rightarrow> pyval \<Rightarrow> int \<Rightarrow> int \<Rightarrow> bool res" where
  "grant_blocked_by_quiet_zone en d lat lon cat low_hz high_hz =
     (let bw = (if high_hz > low_hz then Some (of_int (high_hz - low_hz) / 1000000) else None) in
      blocks_or_unavailable (quiet_zone_blocks_location en d lat lon cat bw))"

subsection \<open>Fixed satellite stations and broadband links (services/federal_db_service.py)\<close>

abbreviation FSS_GWBL_LOW_HZ :: int where "FSS_GWBL_LOW_HZ \<equiv> 3650000000"
abbreviation FSS_GWBL_HIGH_HZ :: int where "FSS_GWBL_HIGH_HZ \<equiv> 3700000000"

definition fss_location_and_freq :: "pyval \<Rightarrow> (real \<times> real \<times> int \<times> int) option res" where
  "fss_location_and_freq fss_payload =
     rbind (pget fss_payload ''record'') (\<lambda>r0.
       let record = por r0 fss_payload in
       rbind (pget record ''deploymentParam'') (\<lambda>d0.
         if \<not> truthy d0 then Inr None
         else rbind (pyidx d0 0) (\<lambda>dep.
           rbind (pget_or_empty dep ''installationParam'') (\<lambda>inst.
           rbind (pget_or_empty dep ''operationParam'') (\<lambda>opp.
           rbind (pget_or_empty opp ''operationFrequencyRange'') (\<lambda>fr.
           rbind (pget inst ''latitude'') (\<lambda>lat. rbind (pget inst ''longitude'') (\<lambda>lon.
           rbind (pget fr ''lowFrequency'') (\<lambda>low. rbind (pget fr ''highFrequency'') (\<lambda>high.
             if lat = PNone \<or> lon = PNone \<or> low = PNone \<or> high = PNone then Inr None
             else rbind (py_float lat) (\<lambda>la. rbind (py_float lon) (\<lambda>lo.
                  rbind (py_int low) (\<lambda>l. rbind (py_int high) (\<lambda>h.
                    Inr (Some (la, lo, l, h))))))))))))))))"

text \<open>The sites within 150 km, each with what \<open>_fss_lat_lon_freq\<close> reads from it.\<close>

definition fss_sites_near ::
    "db \<Rightarrow> real \<Rightarrow> real \<Rightarrow> (pyval \<times> real \<times> real \<times> int \<times> int) list res" where
  "fss_sites_near d lat lon =
     rfold (\<lambda>near fss.
       rbind (fss_location_and_freq fss) (\<lambda>info.
         case info of
           None \<Rightarrow> Inr near
         | Some (f_lat, f_lon, l, h) \<Rightarrow>
             Inr (if haversine_m lat lon f_lat f_lon \<le> 150 * 1000
                  then near @ [(fss, f_lat, f_lon, l, h)] else near)))
       [] (load_kind d ''fss'')"

text \<open>The handler skips a link whose position cannot be read.\<close>

definition gwbl_position :: "pyval \<Rightarrow> (real \<times> real) option" where
  "gwbl_position gwbl =
     (case rbind (pykey gwbl ''latitude'') (\<lambda>a. rbind (py_float a) (\<lambda>lat.
           rbind (pykey gwbl ''longitude'') (\<lambda>b. rbind (py_float b) (\<lambda>lon. Inr (lat, lon))))) of
        Inr p \<Rightarrow> Some p | Inl _ \<Rightarrow> None)"

definition fss_has_neighboring_gwbl :: "db \<Rightarrow> pyval \<Rightarrow> bool res" where
  "fss_has_neighboring_gwbl d fss =
     rbind (fss_location_and_freq fss) (\<lambda>info.
       case info of
         None \<Rightarrow> Inr False
       | Some (f_lat, f_lon, _, _) \<Rightarrow>
           Inr (\<exists>gwbl\<in>set (load_kind d ''gwbl'').
             case gwbl_position gwbl of
               None \<Rightarrow> False
             | Some (g_lat, g_lon) \<Rightarrow> haversine_m f_lat f_lon g_lat g_lon \<le> 150 * 1000))"

definition grant_blocked_by_fss_gwbl :: "db \<Rightarrow> real \<Rightarrow> real \<Rightarrow> int \<Rightarrow> int \<Rightarrow> bool res" where
  "grant_blocked_by_fss_gwbl d lat lon low_hz high_hz =
     (if \<not> overlaps low_hz high_hz FSS_GWBL_LOW_HZ FSS_GWBL_HIGH_HZ then Inr False
      else if load_kind d ''gwbl'' = [] then Inr False
      else rbind (fss_sites_near d lat lon) (\<lambda>near.
             rany (\<lambda>(fss, _). fss_has_neighboring_gwbl d fss) near))"

definition cbsd_lat_lon :: "cbsd_row \<Rightarrow> (real \<times> real) option res" where
  "cbsd_lat_lon c =
     (case json_loads_or_empty (cb_reg c) of
        Inl _ \<Rightarrow> Inr None
      | Inr reg \<Rightarrow>
          rbind (pget_or_empty reg ''installationParam'') (\<lambda>inst.
            case rbind (pykey inst ''latitude'') (\<lambda>a. rbind (py_float a) (\<lambda>lat.
                 rbind (pykey inst ''longitude'') (\<lambda>b. rbind (py_float b) (\<lambda>lon.
                   Inr (lat, lon))))) of
              Inr p \<Rightarrow> Inr (Some p) | Inl _ \<Rightarrow> Inr None))"

definition load_grant_meta :: "grant_row \<Rightarrow> pydict" where
  "load_grant_meta g = (case json_loads_or_empty (gr_json g) of Inr (PDict m) \<Rightarrow> m | _ \<Rightarrow> [])"

text \<open>
  \<open>heartbeat_federal_code\<close>: 500 when the data that protects against the grant is newer than
  the grant's stamp, 501 when the grant already knew of it, \<open>None\<close> when nothing applies.
\<close>

definition federal_exz_code ::
    "db \<Rightarrow> real \<Rightarrow> real \<Rightarrow> sync_meta \<Rightarrow> pydict \<Rightarrow> int \<Rightarrow> int \<Rightarrow> int option res" where
  "federal_exz_code d lat lon meta gmeta low high =
     (if sm_exz meta > 0 then
        rbind (case point_hits_exclusion_zone d lat lon low high of
                 Inl e \<Rightarrow> if exz_failure e then Inr True else Inl e
               | Inr b \<Rightarrow> Inr b) (\<lambda>hits.
          if hits then rbind (meta_int (PDict gmeta) ''exz_gen'') (\<lambda>grant_exz.
            Inr (Some (if grant_exz < sm_exz meta then 500 else 501)))
          else Inr None)
      else Inr None)"

definition federal_dpa_code :: "sync_meta \<Rightarrow> pydict \<Rightarrow> int \<Rightarrow> int \<Rightarrow> int option res" where
  "federal_dpa_code meta gmeta low high =
     (if sm_dpa meta > 0 \<and> overlaps low high 3500000000 3700000000 then
        rbind (meta_int (PDict gmeta) ''dpa_gen'') (\<lambda>grant_dpa.
          Inr (Some (if grant_dpa < sm_dpa meta then 500 else 501)))
      else Inr None)"

definition federal_fss_code ::
    "db \<Rightarrow> real \<Rightarrow> real \<Rightarrow> sync_meta \<Rightarrow> pydict \<Rightarrow> int \<Rightarrow> int \<Rightarrow> int option res" where
  "federal_fss_code d lat lon meta gmeta low high =
     rbind (fss_sites_near d lat lon) (\<lambda>near.
       if \<not> (\<exists>(_, _, _, f_low, f_high)\<in>set near.
               overlaps low high FSS_GWBL_LOW_HZ FSS_GWBL_HIGH_HZ \<or> overlaps low high f_low f_high)
       then Inr None
       else rbind (if sm_gwbl meta > 0 then
                     rany (\<lambda>(fss, _).
                       rbind (fss_has_neighboring_gwbl d fss) (\<lambda>nb.
                         if \<not> nb then Inr False
                         else rbind (meta_int (PDict gmeta) ''fss_gen'') (\<lambda>f.
                              rbind (meta_int (PDict gmeta) ''gwbl_gen'') (\<lambda>g.
                                Inr (max f g < max (sm_fss meta) (sm_gwbl meta)))))) near
                   else Inr False) (\<lambda>combo.
         if combo then Inr (Some 500)
         else rbind (meta_int (PDict gmeta) ''fss_gen'') (\<lambda>grant_fss.
                Inr (Some (if grant_fss < sm_fss meta then 500 else 501)))))"

definition heartbeat_federal_code :: "db \<Rightarrow> cbsd_row \<Rightarrow> grant_row \<Rightarrow> int option res" where
  "heartbeat_federal_code d c g =
     rbind (cbsd_lat_lon c) (\<lambda>loc.
       case loc of
         None \<Rightarrow> Inr None
       | Some (lat, lon) \<Rightarrow>
           rbind (get_sync_meta d) (\<lambda>meta.
             let gmeta = load_grant_meta g; low = gr_low g; high = gr_high g in
             rbind (federal_exz_code d lat lon meta gmeta low high) (\<lambda>c1.
               if c1 \<noteq> None then Inr c1
               else rbind (federal_dpa_code meta gmeta low high) (\<lambda>c2.
                 if c2 \<noteq> None then Inr c2
                 else federal_fss_code d lat lon meta gmeta low high))))"

subsection \<open>Grants at a peer (services/cpas_service.py)\<close>

definition fad_cbsd_id :: "env \<Rightarrow> string \<Rightarrow> string \<Rightarrow> string" where
  "fad_cbsd_id en fcc_id serial = ''cbsd/'' @ fcc_id @ ''/'' @ env_sha1_hex en serial"

definition peer_cbsd_records :: "db \<Rightarrow> pydict list" where
  "peer_cbsd_records d =
     List.map_filter (\<lambda>row. case json_loads_or_empty (pf_data row) of
         Inr (PDict r) \<Rightarrow> Some r | _ \<Rightarrow> None)
       (filter (\<lambda>row. pf_type row = ''cbsd'') (db_peer_fad d))"

definition active_peer_grants :: "pydict \<Rightarrow> pydict list" where
  "active_peer_grants record =
     (case por (dget record ''grants'') (PList []) of
        PList gs \<Rightarrow>
          List.map_filter (\<lambda>g. case g of
              PDict r \<Rightarrow> if dget r ''terminated'' = PBool True then None else Some r
            | _ \<Rightarrow> None) gs
      | _ \<Rightarrow> [])"

definition peer_has_grant_for_cbsd :: "env \<Rightarrow> db \<Rightarrow> cbsd_row \<Rightarrow> bool" where
  "peer_has_grant_for_cbsd en d c =
     (\<exists>record\<in>set (peer_cbsd_records d).
        dget record ''id'' = PStr (fad_cbsd_id en (cb_fcc_id c) (cb_serial c))
        \<and> active_peer_grants record \<noteq> [])"

lemma federal_part_codes:
  "federal_exz_code d lat lon meta gmeta low high = Inr (Some n) \<Longrightarrow> n = 500 \<or> n = 501"
  "federal_dpa_code meta gmeta low high = Inr (Some n) \<Longrightarrow> n = 500 \<or> n = 501"
  "federal_fss_code d lat lon meta gmeta low high = Inr (Some n) \<Longrightarrow> n = 500 \<or> n = 501"
  by (auto simp: federal_exz_code_def rbind_eq_Inr split: if_splits)
    (auto simp: federal_dpa_code_def rbind_eq_Inr split: if_splits,
     auto simp: federal_fss_code_def rbind_eq_Inr split: if_splits)

lemma federal_code_values:
  "heartbeat_federal_code d c g = Inr (Some n) \<Longrightarrow> n = 500 \<or> n = 501"
  unfolding heartbeat_federal_code_def Let_def
  by (fastforce simp: rbind_eq_Inr dest: federal_part_codes split: option.splits if_splits)

end
