(* ===== verification/Neighborhood.thy ===== *)
theory Neighborhood
  imports Protection "HOL-Library.List_Lexorder" "HOL-Library.Char_ord"
    "HOL-Library.Product_Lexorder"
begin

text \<open>
  Where a CBSD stands relative to the protected areas of the federal incumbents and what
  follows for its transmissions: the state of the sensing network
  (services/esc_admin_service.py), the channels that must be protected now
  (\<open>list_protected_dpa_channels\<close> of services/dpa_protection.py), the neighbourhood
  classification and the transmit expiry time (services/dpa_neighborhood.py).
\<close>

subsection \<open>Sensing network\<close>

definition first_of_kind :: "db \<Rightarrow> string \<Rightarrow> jtext option" where
  "first_of_kind d kind = (case rows_of_kind d kind of [] \<Rightarrow> None | j # _ \<Rightarrow> Some j)"

text \<open>A flag row that cannot be read, or that lacks its key, counts as set.\<close>

definition flag_fail_closed :: "db \<Rightarrow> string \<Rightarrow> string \<Rightarrow> bool" where
  "flag_fail_closed d kind key =
     (case first_of_kind d kind of
        None \<Rightarrow> False
      | Some j \<Rightarrow>
          (case json_loads_or_empty j of
             Inr (PDict data) \<Rightarrow> if dhas data key then truthy (dget data key) else True
           | _ \<Rightarrow> True))"

definition is_esc_disconnected :: "db \<Rightarrow> bool" where
  "is_esc_disconnected d = flag_fail_closed d ''esc_disconnected'' ''disconnected''"

definition is_esc_absent :: "db \<Rightarrow> bool" where
  "is_esc_absent d = flag_fail_closed d ''esc_absent'' ''absent''"

datatype esc_state = CONNECTED | DISCONNECTED | ABSENT | UNKNOWN | INVALID

text \<open>One flag of \<open>resolve_esc_connectivity\<close>: unset, unreadable, or its value.\<close>

definition strict_flag :: "db \<Rightarrow> string \<Rightarrow> string \<Rightarrow> bool option option" where
  "strict_flag d kind key =
     (case first_of_kind d kind of
        None \<Rightarrow> Some None
      | Some j \<Rightarrow>
          (case json_loads_or_empty j of
             Inr (PDict data) \<Rightarrow> if dhas data key then Some (Some (truthy (dget data key))) else None
           | _ \<Rightarrow> None))"

definition resolve_esc_connectivity :: "db \<Rightarrow> esc_state" where
  "resolve_esc_connectivity d =
     (case strict_flag d ''esc_absent'' ''absent'' of
        None \<Rightarrow> INVALID
      | Some (Some True) \<Rightarrow> ABSENT
      | _ \<Rightarrow>
          (case strict_flag d ''esc_disconnected'' ''disconnected'' of
             None \<Rightarrow> INVALID
           | Some (Some True) \<Rightarrow> DISCONNECTED
           | _ \<Rightarrow> CONNECTED))"

lemma flag_strict:
  "flag_fail_closed d kind key = (case strict_flag d kind key of
     None \<Rightarrow> True | Some None \<Rightarrow> False | Some (Some b) \<Rightarrow> b)"
  unfolding flag_fail_closed_def strict_flag_def
  by (auto split: option.splits sum.splits pyval.splits)

subsection \<open>Protected channels\<close>

datatype protection_reason = ACTIVE | ESC_DISCONNECTED | ESC_ABSENT | ALWAYS_ON

record protected_channel =
  pc_dpa_id :: string
  pc_low :: int
  pc_high :: int
  pc_reason :: protection_reason
  pc_geometry :: pyval
  pc_neighborhood :: "(string \<times> real) list"
  pc_params :: pydict
  pc_threshold :: real
  pc_ref_height :: real

text \<open>\<open>float(params.get(key, default))\<close> with the default on a value that is no number.\<close>

definition float_or :: "pydict \<Rightarrow> string \<Rightarrow> real \<Rightarrow> real" where
  "float_or params key dflt =
     (if dhas params key then (case py_float (dget params key) of Inr r \<Rightarrow> r | Inl _ \<Rightarrow> dflt)
      else dflt)"

definition clean_floats :: "pyval \<Rightarrow> (string \<times> real) list" where
  "clean_floats v = (case v of
     PDict nb \<Rightarrow> List.map_filter (\<lambda>(k, x). case py_float x of Inr r \<Rightarrow> Some (k, r) | Inl _ \<Rightarrow> None) nb
   | _ \<Rightarrow> [])"

text \<open>\<open>str(item.get("dpaId") or "").strip()\<close>.\<close>

definition dpa_id_of :: "env \<Rightarrow> pydict \<Rightarrow> string" where
  "dpa_id_of en item = py_strip (py_str en (por (dget item ''dpaId'') (PStr [])))"

definition or_empty_dict :: "pyval \<Rightarrow> pydict" where
  "or_empty_dict v = (case por v (PDict []) of PDict d \<Rightarrow> d | _ \<Rightarrow> [])"

definition protect_add ::
    "env \<Rightarrow> pydict \<Rightarrow> int \<Rightarrow> int \<Rightarrow> protection_reason \<Rightarrow> protected_channel list
      \<Rightarrow> protected_channel list" where
  "protect_add en item low_hz high_hz reason out =
     (let dpa_id = dpa_id_of en item in
      if dpa_id = [] \<or> (\<exists>p\<in>set out. pc_dpa_id p = dpa_id \<and> pc_low p = low_hz \<and> pc_high p = high_hz)
      then out
      else (let params = or_empty_dict (dget item ''protectionParams'') in
        out @ [\<lparr>pc_dpa_id = dpa_id, pc_low = low_hz, pc_high = high_hz, pc_reason = reason,
                pc_geometry = (if is_dict (dget item ''geometry'') then dget item ''geometry'' else PNone),
                pc_neighborhood = clean_floats (por (dget item ''neighborhoodKm'') (PDict [])),
                pc_params = params,
                pc_threshold = float_or params ''protectionCritDbmPer10MHz'' (- 144),
                pc_ref_height = float_or params ''refHeightMeters'' 50\<rparr>]))"

definition catalogue_dicts :: "db \<Rightarrow> pydict list" where
  "catalogue_dicts d =
     List.map_filter (\<lambda>c. case c of PDict r \<Rightarrow> Some r | _ \<Rightarrow> None) (list_catalogue d)"

text \<open>\<open>by_id.get(dpa_id)\<close>: the last catalogue item with that string as its id.\<close>

definition catalogue_by_id :: "db \<Rightarrow> string \<Rightarrow> pydict option" where
  "catalogue_by_id d dpa_id =
     List.find (\<lambda>c. dget c ''dpaId'' = PStr dpa_id) (rev (catalogue_dicts d))"

definition protect_activation ::
    "env \<Rightarrow> db \<Rightarrow> protected_channel list \<Rightarrow> pydict \<Rightarrow> protected_channel list" where
  "protect_activation en d out act =
     (case catalogue_by_id d (dpa_id_of en act) of
        None \<Rightarrow> out
      | Some item \<Rightarrow>
          (case read_range (por (dget act ''frequencyRange'') (PDict [])) of
             None \<Rightarrow> out
           | Some (low, high) \<Rightarrow> protect_add en item low high ACTIVE out))"

definition protect_catalogue_channel ::
    "env \<Rightarrow> db \<Rightarrow> pydict \<Rightarrow> protected_channel list \<Rightarrow> pyval \<Rightarrow> protected_channel list" where
  "protect_catalogue_channel en d item out ch =
     (case (if is_dict ch then read_range ch else None) of
        None \<Rightarrow> out
      | Some (low, high) \<Rightarrow>
          if \<not> esc_monitored item then protect_add en item low high ALWAYS_ON out
          else if is_esc_disconnected d \<or> is_esc_absent d
          then protect_add en item low high
                 (if is_esc_absent d then ESC_ABSENT else ESC_DISCONNECTED) out
          else out)"

definition protect_catalogue_item ::
    "env \<Rightarrow> db \<Rightarrow> protected_channel list \<Rightarrow> pydict \<Rightarrow> protected_channel list" where
  "protect_catalogue_item en d out item =
     (case por (dget item ''channels'') (PList []) of
        PList chs \<Rightarrow> foldl (protect_catalogue_channel en d item) out chs
      | _ \<Rightarrow> out)"

definition list_protected_dpa_channels :: "env \<Rightarrow> db \<Rightarrow> protected_channel list" where
  "list_protected_dpa_channels en d =
     sort_key (\<lambda>p. (pc_dpa_id p, pc_low p, pc_high p))
       (foldl (protect_catalogue_item en d)
          (foldl (protect_activation en d) [] (list_active_activations d))
          (catalogue_dicts d))"

definition grant_frequency_overlaps_protected ::
    "protected_channel list \<Rightarrow> int \<Rightarrow> int \<Rightarrow> protected_channel list" where
  "grant_frequency_overlaps_protected protected low_hz high_hz =
     filter (\<lambda>p. low_hz < pc_high p \<and> high_hz > pc_low p) protected"

definition grant_on_any_movelist :: "db \<Rightarrow> string \<Rightarrow> bool" where
  "grant_on_any_movelist d grant_id =
     (\<exists>act\<in>set (list_active_activations d).
        case por (dget act ''movelist'') (PList []) of
          PList moved \<Rightarrow> PStr grant_id \<in> set moved
        | _ \<Rightarrow> False)"

subsection \<open>Neighbourhood classification\<close>

datatype neighborhood_status = OUTSIDE | INSIDE | INDETERMINATE

definition DPA_TX_BAND_LOW_HZ :: int where "DPA_TX_BAND_LOW_HZ = 3550000000"
definition DPA_TX_BAND_HIGH_HZ :: int where "DPA_TX_BAND_HIGH_HZ = 3650000000"

definition grant_overlaps_dpa_tx_expire_band :: "int \<Rightarrow> int \<Rightarrow> bool" where
  "grant_overlaps_dpa_tx_expire_band low_hz high_hz =
     overlaps low_hz high_hz DPA_TX_BAND_LOW_HZ DPA_TX_BAND_HIGH_HZ"

definition cbsd_installation :: "cbsd_row \<Rightarrow> pydict" where
  "cbsd_installation c =
     (case json_loads_or_empty (cb_reg c) of
        Inr (PDict reg) \<Rightarrow> or_empty_dict (dget reg ''installationParam'')
      | _ \<Rightarrow> [])"

definition resolve_height_agl_m ::
    "env \<Rightarrow> real \<Rightarrow> real \<Rightarrow> real \<Rightarrow> string \<Rightarrow> real res" where
  "resolve_height_agl_m en lat lon height_m height_type =
     (let normalized = py_upper (py_strip (if height_type = [] then ''AGL'' else height_type)) in
      if normalized = ''AGL'' then Inr height_m
      else if normalized \<noteq> ''AMSL'' then Inl TerrainError
      else rbind (env_elevation en lat lon) (\<lambda>ground. Inr (height_m - ground)))"

definition float_key :: "pydict \<Rightarrow> string \<Rightarrow> real res" where
  "float_key d k = rbind (pykey (PDict d) k) py_float"

definition cbsd_lat_lon_height_agl ::
    "env \<Rightarrow> cbsd_row \<Rightarrow> (real \<times> real \<times> real \<times> bool \<times> string) res" where
  "cbsd_lat_lon_height_agl en c =
     (let inst = cbsd_installation c in
      case rbind (float_key inst ''latitude'') (\<lambda>lat. rbind (float_key inst ''longitude'') (\<lambda>lon.
           rbind (float_key inst ''height'') (\<lambda>h. Inr (lat, lon, h)))) of
        Inl e \<Rightarrow> Inl ValueError
      | Inr (lat, lon, height) \<Rightarrow>
          rbind (resolve_height_agl_m en lat lon height
                   (py_str en (por (dget inst ''heightType'') (PStr ''AGL'')))) (\<lambda>height_agl.
            let indoor = truthy (if dhas inst ''indoorDeployment''
                                 then dget inst ''indoorDeployment'' else PBool False);
                reg_cat = (case json_loads_or_empty (cb_reg c) of
                             Inr (PDict reg) \<Rightarrow> dget reg ''cbsdCategory'' | _ \<Rightarrow> PNone);
                cat = py_upper (py_str en (por (por reg_cat (cb_category c)) (PStr ''A''))) in
            Inr (lat, lon, height_agl, indoor,
                 if cat = ''A'' \<or> cat = ''B'' then cat else ''A'')))"

definition neighborhood_radius_km ::
    "(string \<times> real) list \<Rightarrow> string \<Rightarrow> bool \<Rightarrow> real \<Rightarrow> real option" where
  "neighborhood_radius_km nb category indoor height_agl_m =
     (let le6 = (height_agl_m \<le> 6); cat = py_upper category;
          pair = (if cat = ''B''
                  then (''catB_6m_NeighborhoodDistanceKm'', ''catBNeighborhoodDistanceKm'')
                  else if indoor
                  then (''catA_Indoor_6m_NeighborhoodDistanceKm'',
                        ''catA_Indoor_NeighborhoodDistanceKm'')
                  else (''catA_Outdoor_6m_NeighborhoodDistanceKm'',
                        ''catA_Outdoor_NeighborhoodDistanceKm''));
          (k1, k2) = (if le6 then pair else (snd pair, fst pair)) in
      if nb = [] then None
      else (case map_of nb k1 of Some r \<Rightarrow> Some r | None \<Rightarrow> map_of nb k2))"

definition active_dpa_ids :: "db \<Rightarrow> string list" where
  "active_dpa_ids d =
     List.map_filter (\<lambda>data. case dget data ''dpaId'' of
         PStr s \<Rightarrow> if py_strip s = [] then None else Some (py_strip s)
       | _ \<Rightarrow> None) (list_active_activations d)"

text \<open>
  The loop over the catalogue: \<open>None\<close> means the loop ran to its end, with whether some row
  could be evaluated.
\<close>

fun neighborhood_loop ::
    "env \<Rightarrow> string list \<Rightarrow> real \<Rightarrow> real \<Rightarrow> real \<Rightarrow> bool \<Rightarrow> string \<Rightarrow> bool \<Rightarrow> pydict list
      \<Rightarrow> (neighborhood_status option \<times> bool) res" where
  "neighborhood_loop en active lat lon agl indoor cat usable [] = Inr (None, usable)"
| "neighborhood_loop en active lat lon agl indoor cat usable (item # items) =
     (let dpa_id = dpa_id_of en item; geometry = dget item ''geometry'';
          is_active = (dpa_id \<noteq> [] \<and> dpa_id \<in> set active);
          check = (\<lambda>buffer.
            rbind (within_geojson_buffer_m lat lon geometry buffer) (\<lambda>w.
              if w then Inr (Some INSIDE, True)
              else neighborhood_loop en active lat lon agl indoor cat True items)) in
      if \<not> is_dict geometry then
        (if is_active then Inr (Some INDETERMINATE, usable)
         else neighborhood_loop en active lat lon agl indoor cat usable items)
      else (let nb = clean_floats (por (dget item ''neighborhoodKm'') (PDict [])) in
        case neighborhood_radius_km nb cat indoor agl of
          None \<Rightarrow>
            if nb \<noteq> [] \<and> is_active then Inr (Some INDETERMINATE, usable) else check 0
        | Some radius_km \<Rightarrow> check (radius_km * 1000)))"

definition evaluate_dpa_neighborhood :: "env \<Rightarrow> db \<Rightarrow> cbsd_row \<Rightarrow> neighborhood_status res" where
  "evaluate_dpa_neighborhood en d c =
     (let catalogue = catalogue_dicts d in
      if catalogue = [] then Inr OUTSIDE
      else (case cbsd_lat_lon_height_agl en c of
          Inl e \<Rightarrow> if e = TerrainError \<or> e = ValueError then Inr INDETERMINATE else Inl e
        | Inr (lat, lon, height_agl, indoor, category) \<Rightarrow>
            (let active = active_dpa_ids d in
             rbind (neighborhood_loop en active lat lon height_agl indoor category False catalogue)
               (\<lambda>(status, usable). Inr (case status of
                  Some s \<Rightarrow> s
                | None \<Rightarrow> if \<not> usable \<and> active \<noteq> [] then INDETERMINATE else OUTSIDE)))))"

definition requires_dpa_neighborhood_tx_cap ::
    "env \<Rightarrow> db \<Rightarrow> cbsd_row \<Rightarrow> int \<Rightarrow> int \<Rightarrow> bool res" where
  "requires_dpa_neighborhood_tx_cap en d c low_hz high_hz =
     (if \<not> grant_overlaps_dpa_tx_expire_band low_hz high_hz then Inr False
      else rbind (evaluate_dpa_neighborhood en d c) (\<lambda>s.
             Inr (s = INSIDE \<or> s = INDETERMINATE)))"

subsection \<open>Transmit expiry\<close>

abbreviation TRANSMIT_EXPIRE_SEC :: int where "TRANSMIT_EXPIRE_SEC \<equiv> 60"
abbreviation DPA_NEIGHBORHOOD_TRANSMIT_EXPIRE_SEC :: int where
  "DPA_NEIGHBORHOOD_TRANSMIT_EXPIRE_SEC \<equiv> 240"
abbreviation MAX_TRANSMIT_EXPIRE_OUTSIDE_SEC :: int where
  "MAX_TRANSMIT_EXPIRE_OUTSIDE_SEC \<equiv> 24 * 3600 - 60"

definition transmit_expire_horizon_sec ::
    "env \<Rightarrow> db \<Rightarrow> cbsd_row \<Rightarrow> int \<Rightarrow> int \<Rightarrow> int res" where
  "transmit_expire_horizon_sec en d c low_hz high_hz =
     rbind (requires_dpa_neighborhood_tx_cap en d c low_hz high_hz) (\<lambda>cap.
       Inr (if cap
            then min DPA_NEIGHBORHOOD_TRANSMIT_EXPIRE_SEC MAX_TRANSMIT_EXPIRE_OUTSIDE_SEC
            else min TRANSMIT_EXPIRE_SEC MAX_TRANSMIT_EXPIRE_OUTSIDE_SEC))"

definition compute_transmit_expire_time ::
    "env \<Rightarrow> db \<Rightarrow> cbsd_row \<Rightarrow> time \<Rightarrow> int \<Rightarrow> int \<Rightarrow> time res" where
  "compute_transmit_expire_time en d c grant_expire low_hz high_hz =
     rbind (transmit_expire_horizon_sec en d c low_hz high_hz) (\<lambda>horizon.
       let wall = trunc_sec (env_now en);
           tx = wall + seconds horizon;
           ge = trunc_sec grant_expire in
       Inr (if tx > ge then ge else tx))"

lemma transmit_expire_bounds:
  assumes "compute_transmit_expire_time en d c ge low high = Inr tx"
  shows "tx \<le> trunc_sec ge" and "tx \<le> trunc_sec (env_now en) + seconds 240"
    and "trunc_sec tx = tx"
  using assms
  by (auto simp: compute_transmit_expire_time_def transmit_expire_horizon_sec_def rbind_eq_Inr
      Let_def seconds_def trunc_sec_div split: if_splits)

end
