(* ===== verification/Lifecycle.thy ===== *)
theory Lifecycle
  imports Models "HOL-Library.List_Lexorder" "HOL-Library.Char_ord"
begin

text \<open>
  The lifecycle state machines of services/lifecycle.py: the states and events of a CBSD and
  of a grant, the two transition tables, the evaluation of an event against a table, the
  derivation of a grant's state from its column, its legacy flags and the wall clock, and the
  operations that persist a transition. The interface \<open>transition_table\<close> states what the
  callers of both tables use; it is interpreted on each. \<open>grant_step\<close> is the abstract
  machine the operations refine.
\<close>

subsection \<open>States and events\<close>

datatype cbsd_state = UNREGISTERED | REGISTERED | DEREGISTERED

fun cbsd_state_value :: "cbsd_state \<Rightarrow> string" where
  "cbsd_state_value UNREGISTERED = ''UNREGISTERED''"
| "cbsd_state_value REGISTERED = ''REGISTERED''"
| "cbsd_state_value DEREGISTERED = ''DEREGISTERED''"

datatype grant_state =
  REQUESTED | GRANTED | AUTHORIZED | SUSPENDED | TERMINATED | EXPIRED | RELINQUISHED

fun grant_state_value :: "grant_state \<Rightarrow> string" where
  "grant_state_value REQUESTED = ''REQUESTED''"
| "grant_state_value GRANTED = ''GRANTED''"
| "grant_state_value AUTHORIZED = ''AUTHORIZED''"
| "grant_state_value SUSPENDED = ''SUSPENDED''"
| "grant_state_value TERMINATED = ''TERMINATED''"
| "grant_state_value EXPIRED = ''EXPIRED''"
| "grant_state_value RELINQUISHED = ''RELINQUISHED''"

datatype cbsd_event = REGISTER | REREGISTER | DEREGISTER

fun cbsd_event_value :: "cbsd_event \<Rightarrow> string" where
  "cbsd_event_value REGISTER = ''register''"
| "cbsd_event_value REREGISTER = ''reregister''"
| "cbsd_event_value DEREGISTER = ''deregister''"

datatype grant_event = APPROVE | AUTHORIZE | SUSPEND | TERMINATE | EXPIRE | RELINQUISH

fun grant_event_value :: "grant_event \<Rightarrow> string" where
  "grant_event_value APPROVE = ''approve''"
| "grant_event_value AUTHORIZE = ''authorize''"
| "grant_event_value SUSPEND = ''suspend''"
| "grant_event_value TERMINATE = ''terminate''"
| "grant_event_value EXPIRE = ''expire''"
| "grant_event_value RELINQUISH = ''relinquish''"

text \<open>\<open>CbsdState(raw)\<close> and \<open>GrantState(raw)\<close>: \<open>None\<close> where Python raises \<open>ValueError\<close>.\<close>

definition cbsd_state_of :: "string \<Rightarrow> cbsd_state option" where
  "cbsd_state_of s =
     List.find (\<lambda>x. cbsd_state_value x = s) [UNREGISTERED, REGISTERED, DEREGISTERED]"

definition grant_state_of :: "string \<Rightarrow> grant_state option" where
  "grant_state_of s =
     List.find (\<lambda>x. grant_state_value x = s)
       [REQUESTED, GRANTED, AUTHORIZED, SUSPENDED, TERMINATED, EXPIRED, RELINQUISHED]"

definition TERMINAL_GRANT_STATES :: "grant_state list" where
  "TERMINAL_GRANT_STATES = [TERMINATED, EXPIRED, RELINQUISHED]"

subsection \<open>Transition tables\<close>

abbreviation SUCCESS :: int where "SUCCESS \<equiv> 0"
abbreviation BLACKLISTED :: int where "BLACKLISTED \<equiv> 101"
abbreviation MISSING_PARAM :: int where "MISSING_PARAM \<equiv> 102"
abbreviation INVALID_PARAM :: int where "INVALID_PARAM \<equiv> 103"
abbreviation PENDING :: int where "PENDING \<equiv> 200"
abbreviation UNSUPPORTED_SPECTRUM :: int where "UNSUPPORTED_SPECTRUM \<equiv> 300"
abbreviation INTERFERENCE :: int where "INTERFERENCE \<equiv> 400"
abbreviation GRANT_CONFLICT :: int where "GRANT_CONFLICT \<equiv> 401"
abbreviation TERMINATED_GRANT :: int where "TERMINATED_GRANT \<equiv> 500"
abbreviation SUSPENDED_GRANT :: int where "SUSPENDED_GRANT \<equiv> 501"
abbreviation UNSYNC_OP_PARAM :: int where "UNSYNC_OP_PARAM \<equiv> 502"

record transition_spec =
  ts_event :: string
  ts_sources :: "string list"
  ts_target :: string
  ts_success_code :: int
  ts_required :: "string list"
  ts_effect :: string
  ts_idempotent :: bool
  ts_isolation :: string
  ts_failure_code :: int

record transition_outcome =
  to_ok :: bool
  to_code :: int
  to_from :: string
  to_state :: "string option"
  to_idempotent_hit :: bool
  to_detail :: "string option"

fun CBSD_TRANSITIONS :: "cbsd_event \<Rightarrow> transition_spec" where
  "CBSD_TRANSITIONS REGISTER =
     \<lparr>ts_event = cbsd_event_value REGISTER,
      ts_sources = [cbsd_state_value UNREGISTERED, cbsd_state_value DEREGISTERED],
      ts_target = cbsd_state_value REGISTERED, ts_success_code = SUCCESS,
      ts_required = [''fccId'', ''cbsdSerialNumber'', ''userId''],
      ts_effect = ''insert_or_restore_cbsd'', ts_idempotent = False,
      ts_isolation = ''row_lock'', ts_failure_code = INVALID_PARAM\<rparr>"
| "CBSD_TRANSITIONS REREGISTER =
     \<lparr>ts_event = cbsd_event_value REREGISTER,
      ts_sources = [cbsd_state_value REGISTERED],
      ts_target = cbsd_state_value REGISTERED, ts_success_code = SUCCESS,
      ts_required = [''fccId'', ''cbsdSerialNumber'', ''userId''],
      ts_effect = ''update_cbsd_registration'', ts_idempotent = True,
      ts_isolation = ''row_lock'', ts_failure_code = INVALID_PARAM\<rparr>"
| "CBSD_TRANSITIONS DEREGISTER =
     \<lparr>ts_event = cbsd_event_value DEREGISTER,
      ts_sources = [cbsd_state_value REGISTERED],
      ts_target = cbsd_state_value DEREGISTERED, ts_success_code = SUCCESS,
      ts_required = [''cbsdId''],
      ts_effect = ''delete_cbsd_and_grants'', ts_idempotent = False,
      ts_isolation = ''row_lock'', ts_failure_code = INVALID_PARAM\<rparr>"

fun GRANT_TRANSITIONS :: "grant_event \<Rightarrow> transition_spec" where
  "GRANT_TRANSITIONS APPROVE =
     \<lparr>ts_event = grant_event_value APPROVE,
      ts_sources = [grant_state_value REQUESTED],
      ts_target = grant_state_value GRANTED, ts_success_code = SUCCESS,
      ts_required = [''cbsdId'', ''operationParam''],
      ts_effect = ''insert_grant_row'', ts_idempotent = False,
      ts_isolation = ''row_lock'', ts_failure_code = INVALID_PARAM\<rparr>"
| "GRANT_TRANSITIONS AUTHORIZE =
     \<lparr>ts_event = grant_event_value AUTHORIZE,
      ts_sources = [grant_state_value GRANTED, grant_state_value AUTHORIZED,
                    grant_state_value SUSPENDED],
      ts_target = grant_state_value AUTHORIZED, ts_success_code = SUCCESS,
      ts_required = [''cbsdId'', ''grantId'', ''operationState''],
      ts_effect = ''set_authorized_true'', ts_idempotent = True,
      ts_isolation = ''row_lock'', ts_failure_code = INVALID_PARAM\<rparr>"
| "GRANT_TRANSITIONS SUSPEND =
     \<lparr>ts_event = grant_event_value SUSPEND,
      ts_sources = [grant_state_value GRANTED, grant_state_value AUTHORIZED,
                    grant_state_value SUSPENDED],
      ts_target = grant_state_value SUSPENDED, ts_success_code = SUSPENDED_GRANT,
      ts_required = [''cbsdId'', ''grantId''],
      ts_effect = ''set_suspended'', ts_idempotent = True,
      ts_isolation = ''row_lock'', ts_failure_code = INVALID_PARAM\<rparr>"
| "GRANT_TRANSITIONS TERMINATE =
     \<lparr>ts_event = grant_event_value TERMINATE,
      ts_sources = [grant_state_value GRANTED, grant_state_value AUTHORIZED,
                    grant_state_value SUSPENDED],
      ts_target = grant_state_value TERMINATED, ts_success_code = TERMINATED_GRANT,
      ts_required = [''cbsdId'', ''grantId''],
      ts_effect = ''set_terminated'', ts_idempotent = False,
      ts_isolation = ''row_lock'', ts_failure_code = INVALID_PARAM\<rparr>"
| "GRANT_TRANSITIONS EXPIRE =
     \<lparr>ts_event = grant_event_value EXPIRE,
      ts_sources = [grant_state_value GRANTED, grant_state_value AUTHORIZED,
                    grant_state_value SUSPENDED],
      ts_target = grant_state_value EXPIRED, ts_success_code = INVALID_PARAM,
      ts_required = [''cbsdId'', ''grantId''],
      ts_effect = ''set_expired'', ts_idempotent = True,
      ts_isolation = ''none'', ts_failure_code = INVALID_PARAM\<rparr>"
| "GRANT_TRANSITIONS RELINQUISH =
     \<lparr>ts_event = grant_event_value RELINQUISH,
      ts_sources = [grant_state_value GRANTED, grant_state_value AUTHORIZED,
                    grant_state_value SUSPENDED],
      ts_target = grant_state_value RELINQUISHED, ts_success_code = SUCCESS,
      ts_required = [''cbsdId'', ''grantId''],
      ts_effect = ''set_relinquished'', ts_idempotent = False,
      ts_isolation = ''row_lock'', ts_failure_code = INVALID_PARAM\<rparr>"

text \<open>
  What both tables promise their callers: values name states uniquely, every target is the
  value of a state (so \<open>GrantState(outcome.to_state)\<close> cannot raise), and an illegal source
  is never answered with the success code.
\<close>

locale transition_table =
  fixes state_value :: "'s \<Rightarrow> string"
    and state_of :: "string \<Rightarrow> 's option"
    and table :: "'e \<Rightarrow> transition_spec"
    and target :: "'e \<Rightarrow> 's"
  assumes state_of_value: "state_of (state_value x) = Some x"
    and value_of_state: "state_of s = Some x \<Longrightarrow> state_value x = s"
    and target_value: "ts_target (table e) = state_value (target e)"
    and failure_code: "ts_failure_code (table e) \<noteq> SUCCESS"
begin

lemma value_inj: "(state_value x = state_value y) = (x = y)"
  using state_of_value by (metis option.inject)

lemma target_parses: "state_of (ts_target (table e)) = Some (target e)"
  by (simp add: target_value state_of_value)

lemma at_target: "(state_value x = ts_target (table e)) = (x = target e)"
  by (simp add: target_value value_inj)

lemma parses_iff: "(state_of s = Some x) = (s = state_value x)"
  using state_of_value value_of_state by blast

end

fun cbsd_target :: "cbsd_event \<Rightarrow> cbsd_state" where
  "cbsd_target REGISTER = REGISTERED"
| "cbsd_target REREGISTER = REGISTERED"
| "cbsd_target DEREGISTER = DEREGISTERED"

fun grant_target :: "grant_event \<Rightarrow> grant_state" where
  "grant_target APPROVE = GRANTED"
| "grant_target AUTHORIZE = AUTHORIZED"
| "grant_target SUSPEND = SUSPENDED"
| "grant_target TERMINATE = TERMINATED"
| "grant_target EXPIRE = EXPIRED"
| "grant_target RELINQUISH = RELINQUISHED"

interpretation cbsd_machine:
  transition_table cbsd_state_value cbsd_state_of CBSD_TRANSITIONS cbsd_target
proof unfold_locales
  show "cbsd_state_of (cbsd_state_value x) = Some x" for x
    by (cases x) (simp_all add: cbsd_state_of_def)
  show "cbsd_state_of s = Some x \<Longrightarrow> cbsd_state_value x = s" for s x
    unfolding cbsd_state_of_def by (drule find_SomeD) simp
  show "ts_target (CBSD_TRANSITIONS e) = cbsd_state_value (cbsd_target e)" for e
    by (cases e) simp_all
  show "ts_failure_code (CBSD_TRANSITIONS e) \<noteq> SUCCESS" for e
    by (cases e) simp_all
qed

interpretation grant_machine:
  transition_table grant_state_value grant_state_of GRANT_TRANSITIONS grant_target
proof unfold_locales
  show "grant_state_of (grant_state_value x) = Some x" for x
    by (cases x) (simp_all add: grant_state_of_def)
  show "grant_state_of s = Some x \<Longrightarrow> grant_state_value x = s" for s x
    unfolding grant_state_of_def by (drule find_SomeD) simp
  show "ts_target (GRANT_TRANSITIONS e) = grant_state_value (grant_target e)" for e
    by (cases e) simp_all
  show "ts_failure_code (GRANT_TRANSITIONS e) \<noteq> SUCCESS" for e
    by (cases e) simp_all
qed

subsection \<open>Evaluation of an event\<close>

definition missing_required_fields :: "pydict \<Rightarrow> string list \<Rightarrow> string list" where
  "missing_required_fields payload required =
     filter (\<lambda>name. \<not> truthy (dget payload name)) (sort required)"

definition join_comma :: "string list \<Rightarrow> string" where
  "join_comma names = concat (case names of [] \<Rightarrow> [] | n # ns \<Rightarrow> n # map (\<lambda>x. '','' @ x) ns)"

definition resolve_cbsd_state :: "cbsd_row option \<Rightarrow> cbsd_state" where
  "resolve_cbsd_state r = (case r of
     None \<Rightarrow> UNREGISTERED
   | Some c \<Rightarrow>
       if cb_state c \<noteq> []
       then (case cbsd_state_of (cb_state c) of Some s \<Rightarrow> s | None \<Rightarrow> REGISTERED)
       else REGISTERED)"

definition grant_expired :: "time \<Rightarrow> grant_row \<Rightarrow> bool" where
  "grant_expired now g = (trunc_sec (gr_expire g) \<le> trunc_sec now)"

text \<open>The derivation from the legacy flags, used when the column names no state.\<close>

definition legacy_grant_state :: "time \<Rightarrow> grant_row \<Rightarrow> grant_state" where
  "legacy_grant_state now g =
     (if gr_term g then TERMINATED
      else if grant_expired now g then EXPIRED
      else if gr_auth g then AUTHORIZED
      else GRANTED)"

definition resolve_grant_state :: "time \<Rightarrow> grant_row \<Rightarrow> grant_state" where
  "resolve_grant_state now g =
     (case (if gr_state g \<noteq> [] then grant_state_of (gr_state g) else None) of
        Some s \<Rightarrow>
          if s \<in> set [GRANTED, AUTHORIZED, SUSPENDED] \<and> grant_expired now g
          then EXPIRED else s
      | None \<Rightarrow> legacy_grant_state now g)"

definition refused :: "int \<Rightarrow> string \<Rightarrow> string \<Rightarrow> transition_outcome" where
  "refused code from detail =
     \<lparr>to_ok = False, to_code = code, to_from = from, to_state = None,
      to_idempotent_hit = False, to_detail = Some detail\<rparr>"

definition accepted :: "transition_spec \<Rightarrow> string \<Rightarrow> bool \<Rightarrow> transition_outcome" where
  "accepted spec from hit =
     \<lparr>to_ok = True, to_code = ts_success_code spec, to_from = from,
      to_state = Some (ts_target spec), to_idempotent_hit = hit, to_detail = None\<rparr>"

definition evaluate_cbsd_transition ::
    "cbsd_event \<Rightarrow> cbsd_state \<Rightarrow> pydict \<Rightarrow> transition_outcome" where
  "evaluate_cbsd_transition ev current payload =
     (let spec = CBSD_TRANSITIONS ev;
          cur = cbsd_state_value current;
          missing = missing_required_fields payload (ts_required spec) in
      if missing \<noteq> [] then refused MISSING_PARAM cur (''missing:'' @ join_comma missing)
      else if cur \<notin> set (ts_sources spec)
      then refused (ts_failure_code spec) cur ''illegal_source''
      else accepted spec cur (ts_idempotent spec \<and> cur = ts_target spec))"

definition evaluate_grant_transition ::
    "grant_event \<Rightarrow> grant_state \<Rightarrow> pydict \<Rightarrow> transition_outcome" where
  "evaluate_grant_transition ev current payload =
     (let spec = GRANT_TRANSITIONS ev;
          cur = grant_state_value current;
          missing = missing_required_fields payload (ts_required spec) in
      if missing \<noteq> [] then refused MISSING_PARAM cur (''missing:'' @ join_comma missing)
      else if current \<in> set TERMINAL_GRANT_STATES \<and> ev \<noteq> APPROVE then
        (if ts_idempotent spec \<and> cur = ts_target spec then accepted spec cur True
         else refused INVALID_PARAM cur ''terminal_state'')
      else if cur \<notin> set (ts_sources spec)
      then refused (ts_failure_code spec) cur ''illegal_source''
      else accepted spec cur (ts_idempotent spec \<and> cur = ts_target spec))"

subsection \<open>Persisting a transition\<close>

definition apply_cbsd_state :: "cbsd_row \<Rightarrow> cbsd_state \<Rightarrow> cbsd_row" where
  "apply_cbsd_state c s = c\<lparr>cb_state := cbsd_state_value s\<rparr>"

definition apply_grant_state :: "grant_row \<Rightarrow> grant_state \<Rightarrow> grant_row" where
  "apply_grant_state g s =
     (let g = g\<lparr>gr_state := grant_state_value s\<rparr> in
      if s = AUTHORIZED then g\<lparr>gr_auth := True, gr_term := False\<rparr>
      else if s = GRANTED then g\<lparr>gr_auth := False, gr_term := False\<rparr>
      else if s = SUSPENDED then g\<lparr>gr_term := False\<rparr>
      else if s \<in> set [TERMINATED, EXPIRED, RELINQUISHED] then g\<lparr>gr_term := True\<rparr>
      else g)"

definition apply_grant_event ::
    "time \<Rightarrow> grant_row \<Rightarrow> grant_event \<Rightarrow> pydict \<Rightarrow> transition_outcome \<times> grant_row" where
  "apply_grant_event now g ev payload =
     (let outcome = evaluate_grant_transition ev (resolve_grant_state now g) payload in
      if \<not> to_ok outcome then (outcome, g)
      else (case to_state outcome of
              None \<Rightarrow> (outcome, g)
            | Some t \<Rightarrow>
                (case grant_state_of t of
                   Some s \<Rightarrow> (outcome, apply_grant_state g s)
                 | None \<Rightarrow> (outcome, g))))"

text \<open>
  The last branch of \<open>apply_grant_event\<close> stands for \<open>GrantState(..)\<close> raising
  \<open>ValueError\<close>; it is never taken, since every target of the table is the value of a
  state (\<open>grant_machine.target_parses\<close>).
\<close>

definition heartbeat_operation_allowed ::
    "time \<Rightarrow> grant_row \<Rightarrow> string \<Rightarrow> transition_outcome" where
  "heartbeat_operation_allowed now g operation_state =
     (let current = resolve_grant_state now g;
          outcome = (\<lambda>ok code st detail.
            \<lparr>to_ok = ok, to_code = code, to_from = grant_state_value current,
             to_state = st, to_idempotent_hit = False, to_detail = detail\<rparr>) in
      if current = TERMINATED
      then outcome False TERMINATED_GRANT (Some (grant_state_value TERMINATED))
             (Some ''already_terminated'')
      else if current = RELINQUISHED
      then outcome False INVALID_PARAM None (Some ''terminal_state'')
      else if operation_state = ''AUTHORIZED'' \<and> current = GRANTED
      then outcome False UNSYNC_OP_PARAM None (Some ''authorized_before_granted_heartbeat'')
      else if current = SUSPENDED
      then outcome False SUSPENDED_GRANT (Some (grant_state_value SUSPENDED)) (Some ''suspended'')
      else outcome True SUCCESS (Some (grant_state_value current)) None)"

subsection \<open>The abstract grant machine\<close>

definition live_grant_state :: "grant_state \<Rightarrow> bool" where
  "live_grant_state s = (s = GRANTED \<or> s = AUTHORIZED \<or> s = SUSPENDED)"

definition terminal_grant_state :: "grant_state \<Rightarrow> bool" where
  "terminal_grant_state s = (s = TERMINATED \<or> s = EXPIRED \<or> s = RELINQUISHED)"

inductive grant_step :: "grant_state \<Rightarrow> grant_event \<Rightarrow> grant_state \<Rightarrow> bool" where
  approve: "grant_step REQUESTED APPROVE GRANTED"
| authorize: "live_grant_state s \<Longrightarrow> grant_step s AUTHORIZE AUTHORIZED"
| suspend: "live_grant_state s \<Longrightarrow> grant_step s SUSPEND SUSPENDED"
| terminate: "live_grant_state s \<Longrightarrow> grant_step s TERMINATE TERMINATED"
| expire: "live_grant_state s \<Longrightarrow> grant_step s EXPIRE EXPIRED"
| relinquish: "live_grant_state s \<Longrightarrow> grant_step s RELINQUISH RELINQUISHED"
| expire_again: "grant_step EXPIRED EXPIRE EXPIRED"

inductive_simps grant_step_simps:
  "grant_step s APPROVE t" "grant_step s AUTHORIZE t" "grant_step s SUSPEND t"
  "grant_step s TERMINATE t" "grant_step s EXPIRE t" "grant_step s RELINQUISH t"

inductive_cases grant_step_cases: "grant_step s ev t"

lemma grant_step_target: "grant_step s ev t \<Longrightarrow> t = grant_target ev"
  by (erule grant_step_cases) simp_all

text \<open>The states a machine started in \<open>s\<close> can get to.\<close>

inductive grant_reachable :: "grant_state \<Rightarrow> grant_state \<Rightarrow> bool" where
  here: "grant_reachable s s"
| there: "grant_reachable s t \<Longrightarrow> grant_step t ev u \<Longrightarrow> grant_reachable s u"

lemma terminal_step: "terminal_grant_state s \<Longrightarrow> grant_step s ev t \<Longrightarrow> t = s"
  by (erule grant_step_cases) (auto simp: terminal_grant_state_def live_grant_state_def)

lemma terminal_reachable: "grant_reachable s t \<Longrightarrow> terminal_grant_state s \<Longrightarrow> t = s"
  by (induction rule: grant_reachable.induct) (auto dest: terminal_step)

lemma no_return_to_requested:
  "grant_reachable s t \<Longrightarrow> s \<noteq> REQUESTED \<Longrightarrow> t \<noteq> REQUESTED"
proof (induction rule: grant_reachable.induct)
  case (here s)
  then show ?case by simp
next
  case (there s t ev u)
  from there.hyps(2) show ?case by (auto dest!: grant_step_target) (cases ev; simp)
qed

text \<open>The fields an event needs in its payload.\<close>

definition complete_payload :: "string list \<Rightarrow> pydict \<Rightarrow> bool" where
  "complete_payload required payload = (\<forall>name\<in>set required. truthy (dget payload name))"

lemma missing_Nil: "(missing_required_fields p req = []) = complete_payload req p"
  by (auto simp: missing_required_fields_def complete_payload_def filter_empty_conv)

lemma terminal_set: "(s \<in> set TERMINAL_GRANT_STATES) = terminal_grant_state s"
  by (simp add: TERMINAL_GRANT_STATES_def terminal_grant_state_def)

lemma accepted_simps [simp]:
  "to_ok (accepted spec from hit)" "to_code (accepted spec from hit) = ts_success_code spec"
  "to_state (accepted spec from hit) = Some (ts_target spec)"
  "to_from (accepted spec from hit) = from"
  by (simp_all add: accepted_def)

lemma refused_simps [simp]:
  "\<not> to_ok (refused code from d)" "to_code (refused code from d) = code"
  "to_state (refused code from d) = None" "to_from (refused code from d) = from"
  by (simp_all add: refused_def)

lemma evaluate_grant_incomplete:
  assumes "\<not> complete_payload (ts_required (GRANT_TRANSITIONS ev)) p"
  shows "\<not> to_ok (evaluate_grant_transition ev s p)"
    and "to_code (evaluate_grant_transition ev s p) = MISSING_PARAM"
  using assms by (auto simp: evaluate_grant_transition_def Let_def missing_Nil)

text \<open>With a complete payload the table lookup and the early exits are the abstract machine.\<close>

lemma evaluate_grant_complete:
  assumes "complete_payload (ts_required (GRANT_TRANSITIONS ev)) p"
  shows "to_ok (evaluate_grant_transition ev s p) = grant_step s ev (grant_target ev)"
    and "\<not> grant_step s ev (grant_target ev) \<Longrightarrow>
           to_code (evaluate_grant_transition ev s p) = INVALID_PARAM"
    and "grant_step s ev (grant_target ev) \<Longrightarrow>
           to_state (evaluate_grant_transition ev s p) = Some (grant_state_value (grant_target ev))
           \<and> to_code (evaluate_grant_transition ev s p) = ts_success_code (GRANT_TRANSITIONS ev)"
  using assms
  by (cases ev; cases s;
      simp add: evaluate_grant_transition_def Let_def missing_Nil TERMINAL_GRANT_STATES_def
        grant_step_simps live_grant_state_def)+

lemma apply_grant_event_eq:
  "apply_grant_event now g ev p =
     (let out = evaluate_grant_transition ev (resolve_grant_state now g) p in
      (out, if to_ok out then apply_grant_state g (grant_target ev) else g))"
proof (cases "complete_payload (ts_required (GRANT_TRANSITIONS ev)) p")
  case False
  then show ?thesis
    by (simp add: apply_grant_event_def Let_def evaluate_grant_incomplete(1))
next
  case True
  show ?thesis
  proof (cases "grant_step (resolve_grant_state now g) ev (grant_target ev)")
    case False
    with True show ?thesis by (simp add: apply_grant_event_def Let_def evaluate_grant_complete(1))
  next
    case step: True
    with True show ?thesis
      by (simp add: apply_grant_event_def Let_def evaluate_grant_complete
          grant_machine.state_of_value)
  qed
qed

lemma evaluate_grant_ok:
  "to_ok (evaluate_grant_transition ev s p) =
     (complete_payload (ts_required (GRANT_TRANSITIONS ev)) p \<and> grant_step s ev (grant_target ev))"
  using evaluate_grant_complete(1) evaluate_grant_incomplete(1) by blast

lemma apply_grant_event_row:
  "snd (apply_grant_event now g ev p) =
     (if complete_payload (ts_required (GRANT_TRANSITIONS ev)) p
         \<and> grant_step (resolve_grant_state now g) ev (grant_target ev)
      then apply_grant_state g (grant_target ev) else g)"
  by (simp add: apply_grant_event_eq Let_def evaluate_grant_ok)

lemma apply_grant_event_ok:
  "to_ok (fst (apply_grant_event now g ev p)) =
     (complete_payload (ts_required (GRANT_TRANSITIONS ev)) p
      \<and> grant_step (resolve_grant_state now g) ev (grant_target ev))"
  by (simp add: apply_grant_event_eq Let_def evaluate_grant_ok)

subsection \<open>Well-formed grant rows\<close>

text \<open>
  \<open>apply_grant_state\<close> keeps the legacy flags in sync with the column: a row is in sync when
  the column names a state other than REQUESTED, \<open>terminated\<close> holds exactly in the
  terminal states, and \<open>authorized\<close> agrees with AUTHORIZED and GRANTED.
\<close>

definition grant_in_sync :: "grant_row \<Rightarrow> bool" where
  "grant_in_sync g = (case grant_state_of (gr_state g) of
     None \<Rightarrow> False
   | Some s \<Rightarrow> s \<noteq> REQUESTED \<and> gr_term g = terminal_grant_state s
       \<and> (s = AUTHORIZED \<longrightarrow> gr_auth g) \<and> (s = GRANTED \<longrightarrow> \<not> gr_auth g))"

lemma grant_in_sync_cong:
  "gr_state g = gr_state h \<Longrightarrow> gr_term g = gr_term h \<Longrightarrow> gr_auth g = gr_auth h \<Longrightarrow>
     grant_in_sync g = grant_in_sync h"
  by (simp only: grant_in_sync_def)

lemma apply_grant_state_frame [simp]:
  "gr_pk (apply_grant_state g s) = gr_pk g" "gr_id (apply_grant_state g s) = gr_id g"
  "gr_cbsd_pk (apply_grant_state g s) = gr_cbsd_pk g"
  "gr_cbsd_id (apply_grant_state g s) = gr_cbsd_id g"
  "gr_low (apply_grant_state g s) = gr_low g" "gr_high (apply_grant_state g s) = gr_high g"
  "gr_expire (apply_grant_state g s) = gr_expire g" "gr_tx (apply_grant_state g s) = gr_tx g"
  "gr_eirp (apply_grant_state g s) = gr_eirp g" "gr_json (apply_grant_state g s) = gr_json g"
  "gr_interval (apply_grant_state g s) = gr_interval g"
  "gr_channel (apply_grant_state g s) = gr_channel g"
  "gr_meas (apply_grant_state g s) = gr_meas g"
  "gr_state (apply_grant_state g s) = grant_state_value s"
  by (simp_all add: apply_grant_state_def Let_def)

lemma apply_grant_event_frame [simp]:
  "gr_pk (snd (apply_grant_event now g ev p)) = gr_pk g"
  "gr_id (snd (apply_grant_event now g ev p)) = gr_id g"
  "gr_cbsd_pk (snd (apply_grant_event now g ev p)) = gr_cbsd_pk g"
  "gr_cbsd_id (snd (apply_grant_event now g ev p)) = gr_cbsd_id g"
  "gr_low (snd (apply_grant_event now g ev p)) = gr_low g"
  "gr_high (snd (apply_grant_event now g ev p)) = gr_high g"
  "gr_expire (snd (apply_grant_event now g ev p)) = gr_expire g"
  "gr_tx (snd (apply_grant_event now g ev p)) = gr_tx g"
  "gr_eirp (snd (apply_grant_event now g ev p)) = gr_eirp g"
  "gr_channel (snd (apply_grant_event now g ev p)) = gr_channel g"
  "gr_json (snd (apply_grant_event now g ev p)) = gr_json g"
  "gr_interval (snd (apply_grant_event now g ev p)) = gr_interval g"
  "gr_meas (snd (apply_grant_event now g ev p)) = gr_meas g"
  by (simp_all add: apply_grant_event_row)

lemma apply_grant_state_in_sync:
  "s \<noteq> REQUESTED \<Longrightarrow> grant_in_sync (apply_grant_state g s)"
  by (cases s) (simp_all add: grant_in_sync_def apply_grant_state_def Let_def
      grant_machine.state_of_value [of GRANTED, simplified]
      grant_machine.state_of_value [of AUTHORIZED, simplified]
      grant_machine.state_of_value [of SUSPENDED, simplified]
      grant_machine.state_of_value [of TERMINATED, simplified]
      grant_machine.state_of_value [of EXPIRED, simplified]
      grant_machine.state_of_value [of RELINQUISHED, simplified] terminal_grant_state_def)

lemma grant_target_not_requested [simp]: "grant_target ev \<noteq> REQUESTED"
  by (cases ev) simp_all

lemma apply_grant_event_in_sync:
  "grant_in_sync g \<Longrightarrow> grant_in_sync (snd (apply_grant_event now g ev p))"
  by (simp add: apply_grant_event_row apply_grant_state_in_sync)

lemma in_sync_state:
  assumes "grant_in_sync g"
  obtains s where "gr_state g = grant_state_value s" and "s \<noteq> REQUESTED"
    and "gr_term g = terminal_grant_state s"
  using assms by (auto simp: grant_in_sync_def split: option.splits
      dest: grant_machine.value_of_state [symmetric])

lemma grant_state_value_not_Nil [simp]: "grant_state_value s \<noteq> []"
  by (cases s) simp_all

lemma resolve_named:
  assumes "gr_state g = grant_state_value s"
  shows "resolve_grant_state now g =
    (if live_grant_state s \<and> grant_expired now g then EXPIRED else s)"
  using assms
  by (auto simp: resolve_grant_state_def grant_machine.state_of_value live_grant_state_def)

lemma resolve_terminal:
  assumes "gr_state g = grant_state_value s" and "terminal_grant_state s"
  shows "resolve_grant_state now g = s"
  using assms by (auto simp: resolve_named live_grant_state_def terminal_grant_state_def)

lemma terminal_row_fixed:
  assumes "gr_state g = grant_state_value s" and "terminal_grant_state s" and "gr_term g"
  shows "snd (apply_grant_event now g ev p) = g"
proof -
  have "grant_step s ev (grant_target ev) \<Longrightarrow> s = EXPIRED \<and> ev = EXPIRE"
    using assms(2)
    by (cases ev) (auto simp: grant_step_simps live_grant_state_def terminal_grant_state_def)
  then show ?thesis
    using assms by (auto simp: apply_grant_event_row resolve_terminal apply_grant_state_def)
qed

lemma row_in_sync_fixed:
  assumes "grant_in_sync g" and "gr_term g"
  shows "snd (apply_grant_event now g ev p) = g"
  using assms(1)
proof (rule in_sync_state)
  fix s assume "gr_state g = grant_state_value s" "gr_term g = terminal_grant_state s"
  with assms(2) show ?thesis by (intro terminal_row_fixed) auto
qed

text \<open>A history of events offered to one grant, each with its clock reading and its payload.\<close>

definition run_grant_events :: "grant_row \<Rightarrow> (time \<times> grant_event \<times> pydict) list \<Rightarrow> grant_row" where
  "run_grant_events g evs = foldl (\<lambda>r (now, ev, p). snd (apply_grant_event now r ev p)) g evs"

lemma run_grant_events_Cons:
  "run_grant_events g ((now, ev, p) # evs) =
     run_grant_events (snd (apply_grant_event now g ev p)) evs"
  by (simp add: run_grant_events_def)

lemma run_grant_events_Nil: "run_grant_events g [] = g"
  by (simp add: run_grant_events_def)

lemma run_grant_events_in_sync:
  "grant_in_sync g \<Longrightarrow> grant_in_sync (run_grant_events g evs)"
proof (induction evs arbitrary: g)
  case (Cons e evs)
  then show ?case by (cases e) (simp add: run_grant_events_Cons apply_grant_event_in_sync)
qed (simp add: run_grant_events_Nil)

lemma run_grant_events_terminal:
  "grant_in_sync g \<Longrightarrow> gr_term g \<Longrightarrow> run_grant_events g evs = g"
proof (induction evs)
  case (Cons e evs)
  then show ?case by (cases e) (simp add: run_grant_events_Cons row_in_sync_fixed)
qed (simp add: run_grant_events_Nil)

subsection \<open>Properties\<close>

text \<open>
  C19. \<open>apply_grant_event\<close> refines the abstract grant machine, on every event, row, clock and
  payload: an incomplete payload is answered 102 and an event the machine has no step for is
  answered 103, both leaving the row as it was; otherwise the outcome is accepted with the
  success code of the table and the row takes the machine's next state, column and flags.
\<close>

theorem apply_grant_event_refines_machine:
  "let s = resolve_grant_state now g;
       out = fst (apply_grant_event now g ev p);
       g' = snd (apply_grant_event now g ev p);
       spec = GRANT_TRANSITIONS ev in
   if \<not> complete_payload (ts_required spec) p
   then \<not> to_ok out \<and> to_code out = MISSING_PARAM \<and> g' = g
   else if \<exists>t. grant_step s ev t
   then to_ok out \<and> to_code out = ts_success_code spec
        \<and> (\<exists>t. grant_step s ev t \<and> g' = apply_grant_state g t
              \<and> to_state out = Some (grant_state_value t))
   else \<not> to_ok out \<and> to_code out = INVALID_PARAM \<and> g' = g"
proof -
  have ex: "(\<exists>t. grant_step s ev t) = grant_step s ev (grant_target ev)" for s
    using grant_step_target by blast
  show ?thesis
  proof (cases "complete_payload (ts_required (GRANT_TRANSITIONS ev)) p")
    case False
    then show ?thesis
      by (simp add: Let_def apply_grant_event_eq evaluate_grant_ok evaluate_grant_incomplete(2))
  next
    case True
    note facts = evaluate_grant_complete [OF True, of "resolve_grant_state now g"]
    show ?thesis
    proof (cases "grant_step (resolve_grant_state now g) ev (grant_target ev)")
      case False
      with True facts show ?thesis by (simp add: Let_def ex apply_grant_event_eq)
    next
      case step: True
      with facts have
        "to_ok (evaluate_grant_transition ev (resolve_grant_state now g) p)"
        "to_code (evaluate_grant_transition ev (resolve_grant_state now g) p)
           = ts_success_code (GRANT_TRANSITIONS ev)"
        "to_state (evaluate_grant_transition ev (resolve_grant_state now g) p)
           = Some (grant_state_value (grant_target ev))"
        by blast+
      with True step show ?thesis
        unfolding Let_def ex apply_grant_event_eq fst_conv snd_conv by auto
    qed
  qed
qed

text \<open>
  C32. A grant row whose flags agree with its lifecycle column keeps them in agreement through
  every history of lifecycle events, whatever the clock readings and payloads, and once the
  grant is terminated, expired or relinquished no history of events changes its row at all: a
  dead grant never comes back.
\<close>

theorem grant_history_sync_and_terminal:
  assumes "grant_in_sync g"
  shows "grant_in_sync (run_grant_events g evs)
         \<and> (gr_term g \<longrightarrow> run_grant_events g evs = g)"
  using assms run_grant_events_in_sync run_grant_events_terminal by simp

text \<open>A concrete grant: granted at the epoch, expiring fifteen minutes later.\<close>

definition example_grant :: grant_row where
  "example_grant = \<lparr>gr_pk = 0, gr_id = ''grant/1'', gr_cbsd_pk = 0, gr_cbsd_id = ''F/S'',
     gr_channel = ''GAA'', gr_low = 3560000000, gr_high = 3570000000, gr_eirp = Some 20,
     gr_expire = seconds 900, gr_interval = 60, gr_tx = None, gr_auth = False, gr_meas = False,
     gr_term = False, gr_state = grant_state_value GRANTED, gr_json = JDoc (PDict [])\<rparr>"

definition ids_payload :: pydict where
  "ids_payload = [(''cbsdId'', PStr ''F/S''), (''grantId'', PStr ''grant/1'')]"

lemma example_grant_in_sync: "grant_in_sync example_grant"
  by (simp add: grant_in_sync_def example_grant_def grant_state_of_def terminal_grant_state_def)

theorem grant_history_sync_and_terminal_witness:
  "run_grant_events (apply_grant_state example_grant RELINQUISHED)
     [(5, AUTHORIZE, ids_payload), (9, EXPIRE, ids_payload)]
   = apply_grant_state example_grant RELINQUISHED
   \<and> gr_term (apply_grant_state example_grant RELINQUISHED)"
proof -
  have t: "gr_term (apply_grant_state example_grant RELINQUISHED)"
    by (simp add: apply_grant_state_def)
  have "grant_in_sync (apply_grant_state example_grant RELINQUISHED)"
    by (rule apply_grant_state_in_sync) simp
  from grant_history_sync_and_terminal [OF this] t show ?thesis by blast
qed

text \<open>
  The heartbeat gate, on every grant, clock and reported operation state: a terminated
  grant is answered 500, a relinquished one 103, a grant reported AUTHORIZED before its first
  authorisation 502, a suspended one 501; every other heartbeat is let through. An expired
  grant is let through, so that the heartbeat itself can answer for the expiry.
\<close>

theorem heartbeat_gate:
  "let s = resolve_grant_state now g; out = heartbeat_operation_allowed now g st in
   to_ok out = (s \<notin> {TERMINATED, RELINQUISHED, SUSPENDED}
                \<and> \<not> (st = ''AUTHORIZED'' \<and> s = GRANTED))
   \<and> to_code out =
       (case s of TERMINATED \<Rightarrow> TERMINATED_GRANT
        | RELINQUISHED \<Rightarrow> INVALID_PARAM
        | SUSPENDED \<Rightarrow> SUSPENDED_GRANT
        | GRANTED \<Rightarrow> if st = ''AUTHORIZED'' then UNSYNC_OP_PARAM else SUCCESS
        | _ \<Rightarrow> SUCCESS)
   \<and> to_from out = grant_state_value s"
  by (cases "resolve_grant_state now g") (simp_all add: heartbeat_operation_allowed_def Let_def)

text \<open>
  C34. A grant whose column still says it is live but whose expiry time has passed can be
  neither terminated nor relinquished nor suspended nor authorised: the derived state is
  EXPIRED, the event is refused with 103 and the row stays not terminated. Only EXPIRE closes
  it, and only a heartbeat sends EXPIRE.
\<close>

theorem lapsed_grant_only_expires:
  assumes "gr_state g = grant_state_value s" and "live_grant_state s"
    and "grant_expired now g" and "\<not> gr_term g"
    and "complete_payload (ts_required (GRANT_TRANSITIONS ev)) p"
  shows "if ev = EXPIRE
         then gr_term (snd (apply_grant_event now g ev p))
              \<and> to_ok (fst (apply_grant_event now g ev p))
         else snd (apply_grant_event now g ev p) = g
              \<and> \<not> gr_term (snd (apply_grant_event now g ev p))
              \<and> to_code (fst (apply_grant_event now g ev p)) = INVALID_PARAM"
proof -
  have r: "resolve_grant_state now g = EXPIRED"
    using assms by (simp add: resolve_named)
  have st: "grant_step EXPIRED ev (grant_target ev) = (ev = EXPIRE)"
    by (cases ev) (simp_all add: grant_step_simps live_grant_state_def)
  have "grant_step EXPIRED EXPIRE EXPIRED"
    by (rule expire_again)
  then show ?thesis
    using assms(4,5) evaluate_grant_complete(2) [OF assms(5), of EXPIRED]
    by (auto simp: apply_grant_event_row apply_grant_event_ok apply_grant_event_eq Let_def
        evaluate_grant_ok r st apply_grant_state_def)
qed

theorem lapsed_grant_only_expires_witness:
  "snd (apply_grant_event (seconds 1000) example_grant TERMINATE ids_payload) = example_grant
   \<and> to_code (fst (apply_grant_event (seconds 1000) example_grant TERMINATE ids_payload)) = 103"
proof -
  have 1: "gr_state example_grant = grant_state_value GRANTED" "\<not> gr_term example_grant"
    by (simp_all add: example_grant_def)
  have 2: "grant_expired (seconds 1000) example_grant"
    by (simp add: grant_expired_def example_grant_def trunc_sec_def seconds_def)
  have 3: "complete_payload (ts_required (GRANT_TRANSITIONS TERMINATE)) ids_payload"
    by (simp add: complete_payload_def ids_payload_def)
  have "live_grant_state GRANTED"
    by (simp add: live_grant_state_def)
  from lapsed_grant_only_expires [OF 1(1) this 2 1(2) 3] show ?thesis
    by (simp del: GRANT_TRANSITIONS.simps)
qed

end
