(* ===== verification/Spectrum.thy ===== *)
theory Spectrum
  imports Neighborhood Lifecycle
begin

text \<open>
  Measurement reports (services/meas_report.py) and Spectrum Inquiry
  (services/spectrum_inquiry_service.py): validation of the inquired ranges, and the channels
  a CBSD is offered after exclusion zones, wireless zones, satellite stations and priority
  access areas have been taken out. A PAL area linked to a zone is read by the helpers
  \<open>zone_ppa\<close> and \<open>linked_pal\<close>, which the grant service uses as well.
\<close>

subsection \<open>Measurement reports\<close>

definition MEAS_WITHOUT_GRANT :: string where
  "MEAS_WITHOUT_GRANT = ''RECEIVED_POWER_WITHOUT_GRANT''"
definition MEAS_WITH_GRANT :: string where
  "MEAS_WITH_GRANT = ''RECEIVED_POWER_WITH_GRANT''"
definition FLAG_MEAS_REG :: string where "FLAG_MEAS_REG = ''meas_report_registration''"
definition FLAG_MEAS_HBT :: string where "FLAG_MEAS_HBT = ''meas_report_heartbeat''"

definition cbsd_meas_capabilities :: "jtext \<Rightarrow> pyval list res" where
  "cbsd_meas_capabilities registration_json =
     (case json_loads_or_empty registration_json of
        Inl _ \<Rightarrow> Inr []
      | Inr data \<Rightarrow>
          rbind (pget data ''measCapability'') (\<lambda>m.
            Inr (case por m (PList []) of PList xs \<Rightarrow> xs | _ \<Rightarrow> [])))"

definition meas_item_error :: "pyval \<Rightarrow> int option" where
  "meas_item_error item =
     (case item of
        PDict r \<Rightarrow>
          (if \<not> dhas r ''measFrequency'' \<or> \<not> dhas r ''measBandwidth'' \<or> \<not> dhas r ''measRcvdPower''
           then Some MISSING_PARAM
           else (case (py_int (dget r ''measFrequency''), py_int (dget r ''measBandwidth'')) of
                   (Inr freq, Inr bw) \<Rightarrow>
                     if bw \<noteq> 10000000 then Some INVALID_PARAM
                     else if freq < CBRS_LOW_HZ \<or> freq \<ge> CBRS_HIGH_HZ then Some INVALID_PARAM
                     else None
                 | _ \<Rightarrow> Some INVALID_PARAM))
      | _ \<Rightarrow> Some INVALID_PARAM)"

fun first_error :: "('a \<Rightarrow> int option) \<Rightarrow> 'a list \<Rightarrow> int option" where
  "first_error f [] = None"
| "first_error f (x # xs) = (case f x of Some e \<Rightarrow> Some e | None \<Rightarrow> first_error f xs)"

lemma first_error_None: "(first_error f xs = None) = (\<forall>x\<in>set xs. f x = None)"
  by (induction xs) (auto split: option.splits)

lemma first_error_Some: "first_error f xs = Some e \<Longrightarrow> \<exists>x\<in>set xs. f x = Some e"
  by (induction xs) (auto split: option.splits)

definition validate_meas_report :: "pyval \<Rightarrow> bool \<Rightarrow> int option" where
  "validate_meas_report meas_report require_full_cbrs =
     (case meas_report of
        PNone \<Rightarrow> Some MISSING_PARAM
      | PDict r \<Rightarrow>
          (if \<not> dhas r ''rcvdPowerMeasReports'' then Some MISSING_PARAM
           else (case dget r ''rcvdPowerMeasReports'' of
                   PList reports \<Rightarrow>
                     if reports = [] then Some MISSING_PARAM
                     else if require_full_cbrs \<and> length reports < 15 then Some MISSING_PARAM
                     else first_error meas_item_error reports
                 | _ \<Rightarrow> Some MISSING_PARAM))
      | _ \<Rightarrow> Some INVALID_PARAM)"

lemma meas_item_codes: "meas_item_error v = Some e \<Longrightarrow> e = MISSING_PARAM \<or> e = INVALID_PARAM"
  by (auto simp: meas_item_error_def split: pyval.splits if_splits sum.splits)

lemma meas_report_codes:
  "validate_meas_report r b = Some e \<Longrightarrow> e = MISSING_PARAM \<or> e = INVALID_PARAM"
  by (auto simp: validate_meas_report_def split: pyval.splits if_splits
      dest!: first_error_Some dest: meas_item_codes)

subsection \<open>Reading the requests and the injected records\<close>

definition validate_inquired_range :: "pyval \<Rightarrow> int option" where
  "validate_inquired_range fr =
     (case fr of
        PDict r \<Rightarrow>
          (if \<not> dhas r ''lowFrequency'' \<or> \<not> dhas r ''highFrequency'' then Some MISSING_PARAM
           else if dget r ''lowFrequency'' = PNone \<or> dget r ''highFrequency'' = PNone
           then Some MISSING_PARAM
           else (case (py_int (dget r ''lowFrequency''), py_int (dget r ''highFrequency'')) of
                   (Inr low, Inr high) \<Rightarrow>
                     if high \<le> low then Some INVALID_PARAM
                     else if low < CBRS_LOW_HZ \<or> high > CBRS_HIGH_HZ then Some UNSUPPORTED_SPECTRUM
                     else None
                 | _ \<Rightarrow> Some INVALID_PARAM))
      | _ \<Rightarrow> Some MISSING_PARAM)"

text \<open>\<open>Inl\<close> of the response code or \<open>Inr\<close> of the list to serve.\<close>

definition validate_inquired :: "pyval \<Rightarrow> int + pyval list" where
  "validate_inquired inquired =
     (case inquired of
        PList frs \<Rightarrow>
          if frs = [] then Inl MISSING_PARAM
          else (case first_error validate_inquired_range frs of
                  Some e \<Rightarrow> Inl e | None \<Rightarrow> Inr frs)
      | _ \<Rightarrow> Inl MISSING_PARAM)"

definition siq_cbsd_location :: "cbsd_row \<Rightarrow> (real \<times> real) option res" where
  "siq_cbsd_location c =
     (case json_loads_or_empty (cb_reg c) of
        Inl _ \<Rightarrow> Inr None
      | Inr data \<Rightarrow>
          rbind (pget_or_empty data ''installationParam'') (\<lambda>inst.
          rbind (pget inst ''latitude'') (\<lambda>lat. rbind (pget inst ''longitude'') (\<lambda>lon.
            if lat = PNone \<or> lon = PNone then Inr None
            else rbind (py_float lat) (\<lambda>la. rbind (py_float lon) (\<lambda>lo. Inr (Some (la, lo)))))))) "

definition range_of_assignment :: "pyval \<Rightarrow> (int \<times> int) option res" where
  "range_of_assignment fr =
     rbind (pget fr ''lowFrequency'') (\<lambda>low. rbind (pget fr ''highFrequency'') (\<lambda>high.
       if low = PNone \<or> high = PNone then Inr None
       else rbind (py_int low) (\<lambda>l. rbind (py_int high) (\<lambda>h. Inr (Some (l, h))))))"

definition pal_freq :: "pyval \<Rightarrow> (int \<times> int) option res" where
  "pal_freq pal =
     rbind (pget_or_empty pal ''channelAssignment'') (\<lambda>ca.
     rbind (pget_or_empty ca ''primaryAssignment'') range_of_assignment)"

definition wisp_freq :: "pyval \<Rightarrow> (int \<times> int) option res" where
  "wisp_freq wisp =
     rbind (pget wisp ''record'') (\<lambda>r0.
     rbind (pget (por r0 wisp) ''deploymentParam'') (\<lambda>deps.
       if \<not> truthy deps then Inr None
       else rbind (pyidx deps 0) (\<lambda>dep.
            rbind (pget_or_empty dep ''operationParam'') (\<lambda>op.
            rbind (pget_or_empty op ''operationFrequencyRange'') range_of_assignment))))"

subsection \<open>Priority access areas\<close>

text \<open>
  What a zone payload says about a CBSD: \<open>None\<close> when it is no PPA, else whether the CBSD is
  in its cluster, whether it is inside its contour, and the licences it lists.
\<close>

definition zone_ppa ::
    "cbsd_row \<Rightarrow> (real \<times> real) option \<Rightarrow> pyval \<Rightarrow> (bool \<times> bool \<times> pyval list) option res" where
  "zone_ppa c loc zone_payload =
     rbind (pget zone_payload ''record'') (\<lambda>r0.
       let record = por r0 zone_payload in
       rbind (pget record ''usage'') (\<lambda>usage.
         if usage \<noteq> PStr ''PPA'' \<and> \<not> (case record of PDict r \<Rightarrow> dhas r ''ppaInfo'' | _ \<Rightarrow> False)
         then Inr None
         else rbind (pget_or_empty record ''ppaInfo'') (\<lambda>ppa_info.
              rbind (pget ppa_info ''cbsdReferenceId'') (\<lambda>refs.
              rbind (py_set (por refs (PList []))) (\<lambda>cluster.
              rbind (pget record ''zone'') (\<lambda>zone.
              rbind (case loc of None \<Rightarrow> Inr False
                     | Some (lat, lon) \<Rightarrow> point_in_geojson lat lon zone) (\<lambda>in_ppa.
              rbind (pget ppa_info ''palId'') (\<lambda>ids.
              rbind (pyiter (por ids (PList []))) (\<lambda>pal_ids.
                Inr (Some (py_in (PStr (cb_id c)) cluster, in_ppa, pal_ids))))))))))) "

text \<open>\<open>pal_by_id.get(pal_id)\<close>: of several records with an id the last one counts.\<close>

definition pal_by_id :: "pyval list \<Rightarrow> pyval \<Rightarrow> pyval option res" where
  "pal_by_id pals pal_id =
     (if \<not> hashable pal_id then Inl TypeError
      else Inr (List.find (\<lambda>p. case p of
          PDict r \<Rightarrow> truthy (dget r ''palId'') \<and> py_eq (dget r ''palId'') pal_id
        | _ \<Rightarrow> False) (rev pals)))"

text \<open>The record and the band of one listed licence; \<open>None\<close> when the loop skips it.\<close>

definition linked_pal :: "pyval list \<Rightarrow> pyval \<Rightarrow> (pyval \<times> int \<times> int) option res" where
  "linked_pal pals pal_id =
     rbind (pal_by_id pals pal_id) (\<lambda>p.
       case p of
         None \<Rightarrow> Inr None
       | Some pal \<Rightarrow>
           if \<not> truthy pal then Inr None
           else rbind (pal_freq pal) (\<lambda>pf.
             Inr (case pf of None \<Rightarrow> None | Some (l, h) \<Rightarrow> Some (pal, l, h))))"

subsection \<open>Available channels\<close>

record available_channel =
  ac_low :: int
  ac_high :: int
  ac_type :: string

text \<open>Segments requested, clipped to the band.\<close>

definition inquired_segments :: "pyval list \<Rightarrow> (int \<times> int) list res" where
  "inquired_segments inquired =
     rfold (\<lambda>segs fr.
       rbind (pykey fr ''lowFrequency'') (\<lambda>l0. rbind (py_int l0) (\<lambda>low.
       rbind (pykey fr ''highFrequency'') (\<lambda>h0. rbind (py_int h0) (\<lambda>high.
         let cl = max low CBRS_LOW_HZ; ch = min high CBRS_HIGH_HZ in
         Inr (if ch > cl then segs @ [(cl, ch)] else segs)))))) [] inquired"

text \<open>
  Wireless zones and satellite stations, for a CBSD with a position. A frequency pair is
  truthy whenever it is present.
\<close>

definition subtract_wisps ::
    "real \<Rightarrow> real \<Rightarrow> pyval list \<Rightarrow> (int \<times> int) list \<Rightarrow> (int \<times> int) list res" where
  "subtract_wisps lat lon wisps segments =
     rfold (\<lambda>segs wisp.
       rbind (pget wisp ''zone'') (\<lambda>zone.
       rbind (wisp_freq wisp) (\<lambda>freq.
         case freq of
           None \<Rightarrow> Inr segs
         | Some (l, h) \<Rightarrow>
             rbind (point_in_geojson lat lon zone) (\<lambda>inside.
               Inr (if inside then subtract_range segs l h else segs))))) segments wisps"

definition subtract_fsses ::
    "real \<Rightarrow> real \<Rightarrow> pyval list \<Rightarrow> (int \<times> int) list \<Rightarrow> (int \<times> int) list res" where
  "subtract_fsses lat lon fsses segments =
     rfold (\<lambda>segs fss.
       rbind (fss_location_and_freq fss) (\<lambda>info.
         case info of
           None \<Rightarrow> Inr segs
         | Some (f_lat, f_lon, _, _) \<Rightarrow>
             Inr (if haversine_m lat lon f_lat f_lon / 1000 \<le> 150
                  then subtract_range segs 3650000000 CBRS_HIGH_HZ else segs))) segments fsses"

text \<open>
  One listed licence: a member of the cluster that owns it is offered the PAL channel, and
  for members and for CBSDs inside the area the band is taken out of the GAA segments.
\<close>

definition ppa_licence_step ::
    "cbsd_row \<Rightarrow> pyval list \<Rightarrow> bool \<Rightarrow> bool \<Rightarrow> (int \<times> int) list \<times> (int \<times> int) list \<Rightarrow> pyval
      \<Rightarrow> ((int \<times> int) list \<times> (int \<times> int) list) res" where
  "ppa_licence_step c pals in_cluster in_ppa st pal_id =
     (case st of (segments, pal_channels) \<Rightarrow>
       rbind (linked_pal pals pal_id) (\<lambda>lp.
         case lp of
           None \<Rightarrow> Inr st
         | Some (pal, l, h) \<Rightarrow>
             (let owned = (\<exists>p\<in>set pals. case p of
                    PDict r \<Rightarrow> dget r ''userId'' = PStr (cb_user_id c)
                      \<and> truthy (dget r ''palId'') \<and> py_eq (dget r ''palId'') pal_id
                  | _ \<Rightarrow> False) in
              Inr (if in_cluster \<and> owned then
                     (subtract_range segments l h,
                      if \<exists>(sl, sh)\<in>set segments. overlaps sl sh l h
                      then pal_channels @ [(l, h)] else pal_channels)
                   else if in_cluster \<or> in_ppa then (subtract_range segments l h, pal_channels)
                   else st))))"

definition ppa_zone_step ::
    "cbsd_row \<Rightarrow> (real \<times> real) option \<Rightarrow> pyval list \<Rightarrow> (int \<times> int) list \<times> (int \<times> int) list \<Rightarrow> pyval
      \<Rightarrow> ((int \<times> int) list \<times> (int \<times> int) list) res" where
  "ppa_zone_step c loc pals st zone_payload =
     rbind (zone_ppa c loc zone_payload) (\<lambda>z.
       case z of
         None \<Rightarrow> Inr st
       | Some (in_cluster, in_ppa, pal_ids) \<Rightarrow>
           rfold (ppa_licence_step c pals in_cluster in_ppa) st pal_ids)"

definition channels_of ::
    "(int \<times> int) list \<Rightarrow> (int \<times> int) list \<Rightarrow> available_channel list" where
  "channels_of pal_channels segments =
     sort_key (\<lambda>ch. (ac_low ch, ac_high ch))
       (map (\<lambda>(l, h). \<lparr>ac_low = l, ac_high = h, ac_type = ''PAL''\<rparr>) pal_channels
        @ map (\<lambda>(l, h). \<lparr>ac_low = l, ac_high = h, ac_type = ''GAA''\<rparr>)
            (concat (map (\<lambda>(l, h). split_10mhz l h) segments)))"

text \<open>The exclusions that need a position; \<open>None\<close> when exclusion zone data is unusable.\<close>

definition locate_segments ::
    "db \<Rightarrow> (real \<times> real) option \<Rightarrow> (int \<times> int) list \<Rightarrow> (int \<times> int) list option res" where
  "locate_segments d loc segments =
     (case loc of
        None \<Rightarrow> Inr (Some segments)
      | Some (lat, lon) \<Rightarrow>
          (case exclusion_freq_ranges_at_point d lat lon of
             Inl e \<Rightarrow> if exz_failure e then Inr None else Inl e
           | Inr ranges \<Rightarrow>
               rbind (subtract_wisps lat lon (load_injected d ''wisp'')
                        (foldl (\<lambda>segs (l, h). subtract_range segs l h) segments ranges)) (\<lambda>s.
               rbind (subtract_fsses lat lon (load_injected d ''fss'') s) (\<lambda>s. Inr (Some s)))))"

definition build_available_channels ::
    "db \<Rightarrow> cbsd_row \<Rightarrow> pyval list \<Rightarrow> available_channel list res" where
  "build_available_channels d c inquired =
     rbind (siq_cbsd_location c) (\<lambda>loc.
     rbind (load_pal_records d False) (\<lambda>pals.
     rbind (inquired_segments inquired) (\<lambda>segments.
     rbind (locate_segments d loc segments) (\<lambda>r.
       case r of
         None \<Rightarrow> Inr []
       | Some segs \<Rightarrow>
           rbind (rfold (ppa_zone_step c loc pals) (segs, []) (load_injected d ''zone''))
             (\<lambda>(segs, pal_channels). Inr (channels_of pal_channels segs))))))"

subsection \<open>The procedure\<close>

record siq_response =
  sr_cbsd_id :: "pyval option"
  sr_available :: "available_channel list option"
  sr_code :: int

definition siq_fail :: "int \<Rightarrow> siq_response" where
  "siq_fail code = \<lparr>sr_cbsd_id = None, sr_available = None, sr_code = code\<rparr>"

definition siq_fail_id :: "int \<Rightarrow> pyval \<Rightarrow> siq_response" where
  "siq_fail_id code cid = \<lparr>sr_cbsd_id = Some cid, sr_available = None, sr_code = code\<rparr>"

text \<open>One item; the inquiry writes nothing.\<close>

definition spectrum_inquiry_item ::
    "bool \<Rightarrow> string option \<Rightarrow> db \<Rightarrow> pydict \<Rightarrow> siq_response res" where
  "spectrum_inquiry_item ask_meas cert d req =
     (let cid = dget req ''cbsdId'' in
      if \<not> truthy cid then Inr (siq_fail MISSING_PARAM)
      else (case lock_cbsd_row d cid of
          None \<Rightarrow> Inr (siq_fail INVALID_PARAM)
        | Some c \<Rightarrow>
            if cbsd_certificate_mismatch c cert then Inr (siq_fail INVALID_PARAM)
            else if is_cbsd_blacklisted d (PStr (cb_fcc_id c)) (PStr (cb_serial c))
            then Inr (siq_fail_id BLACKLISTED cid)
            else rbind (cbsd_meas_capabilities (cb_reg c)) (\<lambda>caps.
              case (if ask_meas \<and> PStr MEAS_WITHOUT_GRANT \<in> set caps
                    then validate_meas_report (dget req ''measReport'') True else None) of
                Some e \<Rightarrow> Inr (siq_fail_id e cid)
              | None \<Rightarrow>
                  (case validate_inquired (dget req ''inquiredSpectrum'') of
                     Inl e \<Rightarrow> Inr (siq_fail_id e cid)
                   | Inr inquired \<Rightarrow>
                       rbind (build_available_channels d c inquired) (\<lambda>av.
                         Inr \<lparr>sr_cbsd_id = Some cid, sr_available = Some av,
                              sr_code = SUCCESS\<rparr>)))))"

definition process_spectrum_inquiry ::
    "string option \<Rightarrow> db \<Rightarrow> pydict list \<Rightarrow> siq_response list res" where
  "process_spectrum_inquiry cert d requests =
     rmap (spectrum_inquiry_item (admin_flag_set d FLAG_MEAS_REG) cert d) requests"

subsection \<open>What is offered\<close>

lemma ppa_licence_step_cases:
  assumes "ppa_licence_step c pals a b st pid = Inr st'"
  shows "fst st' = fst st
         \<or> (\<exists>pal l h. linked_pal pals pid = Inr (Some (pal, l, h))
              \<and> fst st' = subtract_range (fst st) l h)"
proof -
  obtain segs pc where st: "st = (segs, pc)" by (cases st)
  from assms st obtain lp where lp: "linked_pal pals pid = Inr lp"
    by (auto simp: ppa_licence_step_def rbind_eq_Inr)
  show ?thesis
  proof (cases lp)
    case None
    with assms st lp show ?thesis by (simp add: ppa_licence_step_def)
  next
    case (Some x)
    obtain pal l h where "x = (pal, l, h)" by (cases x)
    with assms st lp Some show ?thesis
      by (simp add: ppa_licence_step_def Let_def split: if_split_asm) auto
  qed
qed

lemma ppa_licence_shrinks:
  "ppa_licence_step c pals a b st pid = Inr st' \<Longrightarrow> freqs (fst st') \<subseteq> freqs (fst st)"
  by (drule ppa_licence_step_cases) (auto simp: subtract_range_freqs_eq)

lemma ppa_licences_shrink:
  "rfold (ppa_licence_step c pals a b) st ids = Inr st' \<Longrightarrow> freqs (fst st') \<subseteq> freqs (fst st)"
  by (rule rfold_shrinks [where m = "\<lambda>s. freqs (fst s)", OF ppa_licence_shrinks])

lemma ppa_zone_shrinks:
  "ppa_zone_step c loc pals st z = Inr st' \<Longrightarrow> freqs (fst st') \<subseteq> freqs (fst st)"
  unfolding ppa_zone_step_def
  by (auto simp: rbind_eq_Inr split: option.splits dest!: ppa_licences_shrink)

lemma foldl_subtract_freqs:
  "freqs (foldl (\<lambda>segs (l, h). subtract_range segs l h) segs ranges) = freqs segs - freqs ranges"
  by (induction ranges arbitrary: segs) (auto simp: subtract_range_freqs_eq)

lemma subtract_wisps_shrinks:
  assumes "subtract_wisps lat lon ws segs = Inr t"
  shows "freqs t \<subseteq> freqs segs"
  using assms unfolding subtract_wisps_def
proof (rule rfold_shrinks [rotated])
  fix s x s'
  assume "rbind (pget x ''zone'') (\<lambda>zone. rbind (wisp_freq x) (\<lambda>freq. case freq of
      None \<Rightarrow> Inr s
    | Some (l, h) \<Rightarrow> rbind (point_in_geojson lat lon zone) (\<lambda>inside.
        Inr (if inside then subtract_range s l h else s)))) = Inr s'"
  then show "freqs s' \<subseteq> freqs s"
    by (cases "wisp_freq x")
      (auto simp: rbind_eq_Inr subtract_range_freqs_eq split: option.splits if_split_asm)
qed

lemma subtract_fsses_shrinks:
  assumes "subtract_fsses lat lon ws segs = Inr t"
  shows "freqs t \<subseteq> freqs segs"
  using assms unfolding subtract_fsses_def
proof (rule rfold_shrinks [rotated])
  fix s x s'
  assume "rbind (fss_location_and_freq x) (\<lambda>info. case info of
      None \<Rightarrow> Inr s
    | Some (f_lat, f_lon, _, _) \<Rightarrow>
        Inr (if haversine_m lat lon f_lat f_lon / 1000 \<le> 150
             then subtract_range s 3650000000 CBRS_HIGH_HZ else s)) = Inr s'"
  then show "freqs s' \<subseteq> freqs s"
    by (cases "fss_location_and_freq x")
      (auto simp: rbind_eq_Inr subtract_range_freqs_eq split: option.splits prod.splits if_split_asm)
qed

lemma locate_segments_shrinks:
  assumes "locate_segments d loc segs = Inr (Some t)"
  shows "freqs t \<subseteq> freqs segs"
    and "loc = Some (lat, lon) \<Longrightarrow> exclusion_freq_ranges_at_point d lat lon = Inr ranges \<Longrightarrow>
           freqs t \<inter> freqs ranges = {}"
proof -
  have "freqs t \<subseteq> freqs segs \<and> (\<forall>lat lon ranges. loc = Some (lat, lon) \<longrightarrow>
      exclusion_freq_ranges_at_point d lat lon = Inr ranges \<longrightarrow> freqs t \<inter> freqs ranges = {})"
  proof (cases loc)
    case None
    with assms show ?thesis by (simp add: locate_segments_def)
  next
    case (Some p)
    obtain lat lon where p: "p = (lat, lon)" by (cases p)
    show ?thesis
    proof (cases "exclusion_freq_ranges_at_point d lat lon")
      case (Inl e)
      with assms Some p show ?thesis by (auto simp: locate_segments_def split: if_split_asm)
    next
      case (Inr ranges)
      with assms Some p obtain s where
        "subtract_wisps lat lon (load_injected d ''wisp'')
           (foldl (\<lambda>segs (l, h). subtract_range segs l h) segs ranges) = Inr s"
        "subtract_fsses lat lon (load_injected d ''fss'') s = Inr t"
        by (auto simp: locate_segments_def rbind_eq_Inr)
      then have "freqs t \<subseteq> freqs segs - freqs ranges"
        using subtract_wisps_shrinks subtract_fsses_shrinks foldl_subtract_freqs by blast
      with Some p Inr show ?thesis by auto
    qed
  qed
  then show "freqs t \<subseteq> freqs segs"
    and "loc = Some (lat, lon) \<Longrightarrow> exclusion_freq_ranges_at_point d lat lon = Inr ranges \<Longrightarrow>
           freqs t \<inter> freqs ranges = {}"
    by blast+
qed

text \<open>The band of a listed licence is gone once its zone has been looked at.\<close>

lemma ppa_zone_protects:
  assumes z: "zone_ppa c loc z = Inr (Some (in_cluster, in_ppa, ids))"
    and p: "in_cluster \<or> in_ppa" and pid: "pid \<in> set ids"
    and lp: "linked_pal pals pid = Inr (Some (pal, l, h))"
    and run: "rfold (ppa_zone_step c loc pals) st zones = Inr st'" and mem: "z \<in> set zones"
  shows "freqs (fst st') \<inter> {l..<h} = {}"
proof (rule rfold_establish [where P = "\<lambda>s. freqs (fst s) \<inter> {l..<h} = {}", OF _ _ mem run])
  show "freqs (fst s') \<inter> {l..<h} = {}"
    if "freqs (fst s) \<inter> {l..<h} = {}" "ppa_zone_step c loc pals s y = Inr s'" for s y s'
    using ppa_zone_shrinks [OF that(2)] that(1) by blast
  show "freqs (fst s') \<inter> {l..<h} = {}" if st: "ppa_zone_step c loc pals s z = Inr s'" for s s'
  proof (rule rfold_establish
      [where f = "ppa_licence_step c pals in_cluster in_ppa" and x = pid and s = s and xs = ids])
    show "rfold (ppa_licence_step c pals in_cluster in_ppa) s ids = Inr s'"
      using st z by (simp add: ppa_zone_step_def)
    show "freqs (fst t') \<inter> {l..<h} = {}"
      if "freqs (fst t) \<inter> {l..<h} = {}" "ppa_licence_step c pals in_cluster in_ppa t y = Inr t'"
      for t y t'
      using ppa_licence_shrinks [OF that(2)] that(1) by blast
    show "freqs (fst t') \<inter> {l..<h} = {}"
      if "ppa_licence_step c pals in_cluster in_ppa t pid = Inr t'" for t t'
      using that lp p
      by (cases t) (auto simp: ppa_licence_step_def Let_def subtract_range_freqs_eq split: if_splits)
  qed (rule pid)
qed

lemma set_channels_of:
  "ch \<in> set (channels_of pals segs) \<Longrightarrow> ac_type ch = ''GAA'' \<Longrightarrow>
     \<exists>(l, h)\<in>set segs. (ac_low ch, ac_high ch) \<in> set (split_10mhz l h)"
  by (auto simp: channels_of_def) fastforce

lemma split_10mhz_facts:
  assumes "(l, h) \<in> set (split_10mhz a b)"
  shows "l < h" and "h - l \<le> CHANNEL_HZ" and "a \<le> l" and "h \<le> b"
    and "CBRS_LOW_HZ \<le> l" and "h \<le> CBRS_HIGH_HZ"
proof -
  have c: "0 < CHANNEL_HZ" by (simp add: CHANNEL_HZ_def)
  from assms have ne: "max a CBRS_LOW_HZ < min b CBRS_HIGH_HZ"
    by (auto simp: split_10mhz_grid split: if_splits)
  then have mem: "(l, h) \<in> set (grid_split CHANNEL_HZ (max a CBRS_LOW_HZ) (min b CBRS_HIGH_HZ))"
    using assms unfolding split_10mhz_grid by (simp only: not_le [symmetric] if_False)
  from tiles_mem [OF grid_split_tiles [OF c ne] mem]
  show "l < h" "a \<le> l" "h \<le> b" "CBRS_LOW_HZ \<le> l" "h \<le> CBRS_HIGH_HZ" by auto
  from grid_split_cell [OF c mem] show "h - l \<le> CHANNEL_HZ" by simp
qed

text \<open>
  C20. Every GAA channel that a spectrum inquiry offers is non-empty, at most 10 MHz wide,
  inside the CBRS band and inside the frequencies the CBSD inquired about; it meets no range
  of an exclusion zone that covers the CBSD's position, and no channel of a licence listed by
  a priority access area that contains the CBSD or counts it in its cluster.
\<close>

theorem offered_gaa_channels_are_clear:
  assumes "build_available_channels d c inquired = Inr chs"
    and "siq_cbsd_location c = Inr loc" and "inquired_segments inquired = Inr segs"
    and "load_pal_records d False = Inr pals"
    and "ch \<in> set chs" and "ac_type ch = ''GAA''"
  shows "ac_low ch < ac_high ch \<and> ac_high ch - ac_low ch \<le> CHANNEL_HZ
    \<and> CBRS_LOW_HZ \<le> ac_low ch \<and> ac_high ch \<le> CBRS_HIGH_HZ
    \<and> {ac_low ch..<ac_high ch} \<subseteq> freqs segs
    \<and> (\<forall>lat lon ranges. loc = Some (lat, lon) \<longrightarrow>
         exclusion_freq_ranges_at_point d lat lon = Inr ranges \<longrightarrow>
         {ac_low ch..<ac_high ch} \<inter> freqs ranges = {})
    \<and> (\<forall>z\<in>set (load_injected d ''zone''). \<forall>in_cluster in_ppa ids pid pal l h.
         zone_ppa c loc z = Inr (Some (in_cluster, in_ppa, ids)) \<longrightarrow> in_cluster \<or> in_ppa \<longrightarrow>
         pid \<in> set ids \<longrightarrow> linked_pal pals pid = Inr (Some (pal, l, h)) \<longrightarrow>
         {ac_low ch..<ac_high ch} \<inter> {l..<h} = {})"
proof -
  from assms obtain r where r: "locate_segments d loc segs = Inr r"
    and rest: "(case r of None \<Rightarrow> Inr []
       | Some segs \<Rightarrow> rbind (rfold (ppa_zone_step c loc pals) (segs, []) (load_injected d ''zone''))
             (\<lambda>(segs, pal_channels). Inr (channels_of pal_channels segs))) = Inr chs"
    unfolding build_available_channels_def by (auto simp: rbind_eq_Inr)
  from rest assms(5) obtain s0 s1 pc where s0: "r = Some s0"
    and run: "rfold (ppa_zone_step c loc pals) (s0, []) (load_injected d ''zone'') = Inr (s1, pc)"
    and chs: "chs = channels_of pc s1"
    by (cases r) (auto simp: rbind_eq_Inr)
  from set_channels_of [of ch pc s1] chs assms(5,6) obtain a b where ab: "(a, b) \<in> set s1"
    and sp: "(ac_low ch, ac_high ch) \<in> set (split_10mhz a b)" by auto
  have in1: "{ac_low ch..<ac_high ch} \<subseteq> freqs s1"
  proof
    fix x assume "x \<in> {ac_low ch..<ac_high ch}"
    then have "x \<in> {a..<b}" using split_10mhz_facts(3,4) [OF sp] by auto
    with ab show "x \<in> freqs s1" unfolding freqs_def by blast
  qed
  have "freqs (fst (s1, pc)) \<subseteq> freqs s0"
    using rfold_shrinks [where m = "\<lambda>s. freqs (fst s)", OF ppa_zone_shrinks run] by simp
  with in1 have in0: "{ac_low ch..<ac_high ch} \<subseteq> freqs s0" by auto
  note loc = locate_segments_shrinks [OF r [unfolded s0]]
  have "{ac_low ch..<ac_high ch} \<subseteq> freqs segs" using in0 loc(1) by blast
  moreover have "{ac_low ch..<ac_high ch} \<inter> freqs ranges = {}"
    if "loc = Some (lat, lon)" "exclusion_freq_ranges_at_point d lat lon = Inr ranges"
    for lat lon ranges
    using in0 loc(2) [OF that] by blast
  moreover have "{ac_low ch..<ac_high ch} \<inter> {l..<h} = {}"
    if "z \<in> set (load_injected d ''zone'')"
      "zone_ppa c loc z = Inr (Some (in_cluster, in_ppa, ids))" "in_cluster \<or> in_ppa"
      "pid \<in> set ids" "linked_pal pals pid = Inr (Some (pal, l, h))"
    for z in_cluster in_ppa ids pid pal l h
    using ppa_zone_protects [OF that(2-5) run that(1)] in1 unfolding fst_conv by blast
  ultimately show ?thesis using split_10mhz_facts [OF sp] by blast
qed

definition example_cbsd :: cbsd_row where
  "example_cbsd = \<lparr>cb_pk = 0, cb_id = ''F/S'', cb_fcc_id = ''F'', cb_user_id = ''U'',
     cb_serial = ''S'', cb_category = PStr ''A'', cb_cert = None,
     cb_state = cbsd_state_value REGISTERED, cb_reg = JDoc (PDict [])\<rparr>"

definition example_range :: pyval where
  "example_range = PDict [(''lowFrequency'', PInt 3560000000), (''highFrequency'', PInt 3570000000)]"

lemma example_location: "siq_cbsd_location example_cbsd = Inr None"
  by (simp add: siq_cbsd_location_def example_cbsd_def pget_or_empty_def por_def)

lemma example_segments: "inquired_segments [example_range] = Inr [(3560000000, 3570000000)]"
  by (simp add: inquired_segments_def example_range_def band_defs Let_def)

lemma example_pals: "load_pal_records empty_db False = Inr []"
  by (simp add: load_pal_records_def load_pal_table_def) (simp add: empty_db_def)

lemma example_split: "split_10mhz 3560000000 3570000000 = [(3560000000, 3570000000)]"
  by (simp add: split_10mhz_grid grid_split_def grid_start_def band_defs Let_def
      channel_loop.simps [of _ 3560000000] channel_loop.simps [of _ 3570000000])

lemma example_channels:
  "build_available_channels empty_db example_cbsd [example_range]
     = Inr [\<lparr>ac_low = 3560000000, ac_high = 3570000000, ac_type = ''GAA''\<rparr>]"
  by (simp add: build_available_channels_def example_location example_pals example_segments
      locate_segments_def load_injected_def channels_of_def example_split)

theorem offered_gaa_channels_are_clear_witness:
  "{3560000000..<3570000000} \<subseteq> freqs [(3560000000, 3570000000)]
   \<and> CBRS_LOW_HZ \<le> 3560000000"
  using offered_gaa_channels_are_clear
    [OF example_channels example_location example_segments example_pals, of "\<lparr>ac_low = 3560000000, ac_high = 3570000000, ac_type = ''GAA''\<rparr>"]
  by simp

lemma validate_inquired_codes:
  assumes "validate_inquired v = Inl e"
  shows "e = MISSING_PARAM \<or> e = INVALID_PARAM \<or> e = UNSUPPORTED_SPECTRUM"
proof -
  have "validate_inquired_range x = Some e' \<Longrightarrow>
      e' = MISSING_PARAM \<or> e' = INVALID_PARAM \<or> e' = UNSUPPORTED_SPECTRUM" for x e'
    by (auto simp: validate_inquired_range_def split: pyval.splits if_split_asm sum.splits)
  then show ?thesis
    using assms
    by (auto simp: validate_inquired_def split: pyval.splits if_split_asm option.splits
        dest!: first_error_Some)
qed

lemma spectrum_inquiry_cases:
  assumes "spectrum_inquiry_item ask cert d req = Inr r"
  obtains (anonymous) "r = siq_fail MISSING_PARAM \<or> r = siq_fail INVALID_PARAM"
  | (refused) c e where "lock_cbsd_row d (dget req ''cbsdId'') = Some c"
      and "\<not> cbsd_certificate_mismatch c cert" and "r = siq_fail_id e (dget req ''cbsdId'')"
      and "e \<in> {BLACKLISTED, MISSING_PARAM, INVALID_PARAM, UNSUPPORTED_SPECTRUM}"
  | (served) c av where "lock_cbsd_row d (dget req ''cbsdId'') = Some c"
      and "\<not> cbsd_certificate_mismatch c cert"
      and "r = \<lparr>sr_cbsd_id = Some (dget req ''cbsdId''), sr_available = Some av,
                sr_code = SUCCESS\<rparr>"
proof (cases "truthy (dget req ''cbsdId'')")
  case False
  then show ?thesis using assms anonymous by (simp add: spectrum_inquiry_item_def)
next
  case id: True
  show ?thesis
  proof (cases "lock_cbsd_row d (dget req ''cbsdId'')")
    case None
    then show ?thesis using id assms anonymous by (simp add: spectrum_inquiry_item_def)
  next
    case (Some c)
    show ?thesis
    proof (cases "cbsd_certificate_mismatch c cert")
      case True
      then show ?thesis using id Some assms anonymous by (simp add: spectrum_inquiry_item_def)
    next
      case cert: False
      show ?thesis
      proof (cases "is_cbsd_blacklisted d (PStr (cb_fcc_id c)) (PStr (cb_serial c))")
        case True
        then show ?thesis
          using id Some cert assms refused [OF Some cert, of BLACKLISTED]
          by (simp add: spectrum_inquiry_item_def)
      next
        case black: False
        with id Some cert assms obtain caps where
          m: "(case (if ask \<and> PStr MEAS_WITHOUT_GRANT \<in> set caps
                  then validate_meas_report (dget req ''measReport'') True else None) of
                Some e \<Rightarrow> Inr (siq_fail_id e (dget req ''cbsdId''))
              | None \<Rightarrow>
                  (case validate_inquired (dget req ''inquiredSpectrum'') of
                     Inl e \<Rightarrow> Inr (siq_fail_id e (dget req ''cbsdId''))
                   | Inr inquired \<Rightarrow>
                       rbind (build_available_channels d c inquired) (\<lambda>av.
                         Inr \<lparr>sr_cbsd_id = Some (dget req ''cbsdId''), sr_available = Some av,
                              sr_code = SUCCESS\<rparr>))) = Inr r"
          by (cases "cbsd_meas_capabilities (cb_reg c)")
            (simp_all add: spectrum_inquiry_item_def Let_def del: if_split)
        show ?thesis
        proof (cases "if ask \<and> PStr MEAS_WITHOUT_GRANT \<in> set caps
                  then validate_meas_report (dget req ''measReport'') True else None")
          case e: (Some e)
          then have "e = MISSING_PARAM \<or> e = INVALID_PARAM"
            by (auto split: if_split_asm dest: meas_report_codes)
          with e m refused [OF Some cert, of e] show ?thesis by (simp del: if_split) blast
        next
          case meas: None
          show ?thesis
          proof (cases "validate_inquired (dget req ''inquiredSpectrum'')")
            case (Inl e)
            with meas m refused [OF Some cert, of e] validate_inquired_codes [OF Inl]
            show ?thesis by (simp del: if_split)
          next
            case (Inr inquired)
            with meas m served [OF Some cert] show ?thesis
              by (auto simp: rbind_eq_Inr simp del: if_split)
          qed
        qed
      qed
    qed
  qed
qed

text \<open>
  C38. A spectrum inquiry that does not raise answers with one of the codes 0, 101, 102, 103
  and 300; it carries a list of channels exactly when the code is 0, and it echoes the cbsdId
  only for a registered CBSD whose stored certificate the caller holds: to anyone else an
  existing and an unknown CBSD look the same.
\<close>

theorem spectrum_inquiry_outcomes:
  assumes "spectrum_inquiry_item ask cert d req = Inr r"
  shows "sr_code r \<in> {SUCCESS, BLACKLISTED, MISSING_PARAM, INVALID_PARAM, UNSUPPORTED_SPECTRUM}
    \<and> (sr_available r \<noteq> None) = (sr_code r = SUCCESS)
    \<and> (case sr_cbsd_id r of
         None \<Rightarrow> r = siq_fail MISSING_PARAM \<or> r = siq_fail INVALID_PARAM
       | Some v \<Rightarrow> v = dget req ''cbsdId'' \<and>
           (\<exists>c\<in>set (db_cbsds d). v = PStr (cb_id c) \<and> \<not> cbsd_certificate_mismatch c cert))"
  using assms
proof (cases rule: spectrum_inquiry_cases)
  case anonymous
  then show ?thesis by (auto simp: siq_fail_def)
next
  case (refused c e)
  then show ?thesis using lock_cbsd_rowD [OF refused(1)] by (auto simp: siq_fail_id_def)
next
  case (served c av)
  then show ?thesis using lock_cbsd_rowD [OF served(1)] by auto
qed

definition bound_db :: db where
  "bound_db = empty_db\<lparr>db_cbsds := [example_cbsd\<lparr>cb_cert := Some ''AA:BB''\<rparr>]\<rparr>"

theorem spectrum_inquiry_outcomes_witness:
  "\<exists>r. spectrum_inquiry_item False (Some ''CC:DD'') bound_db [(''cbsdId'', PStr ''F/S'')] = Inr r
     \<and> sr_cbsd_id r = None \<and> sr_code r \<in> {0, 101, 102, 103, 300}"
proof -
  have "spectrum_inquiry_item False (Some ''CC:DD'') bound_db [(''cbsdId'', PStr ''F/S'')]
      = Inr (siq_fail INVALID_PARAM)"
    by (simp add: spectrum_inquiry_item_def lock_cbsd_row_def bound_db_def example_cbsd_def
        cbsd_certificate_mismatch_def py_upper_def upper_char_def)
  from spectrum_inquiry_outcomes [OF this] this show ?thesis by (auto simp: siq_fail_def)
qed

end
