(* ===== verification/WellFormed.thy ===== *)
theory WellFormed
  imports Spectrum
begin

text \<open>
  The invariant of the database that every procedure keeps, and one preservation lemma per way
  of writing it: rows of CBSDs and grants have unique keys and identifiers, every grant belongs
  to a registered CBSD, lies in the CBRS band and has flags in sync with its lifecycle state,
  and two grants of one CBSD that are not terminated never overlap in frequency. \<open>evolves\<close>
  is the contract of every write to a grant row. Identifiers of grants are fresh
  (\<open>ids_issued\<close>) when the generator never repeats.
\<close>

definition make_cbsd_id :: "string \<Rightarrow> string \<Rightarrow> string" where
  "make_cbsd_id fcc_id serial = fcc_id @ ''/'' @ serial"

definition in_band :: "grant_row \<Rightarrow> bool" where
  "in_band g = (CBRS_LOW_HZ \<le> gr_low g \<and> gr_low g < gr_high g \<and> gr_high g \<le> CBRS_HIGH_HZ)"

definition owned :: "db \<Rightarrow> grant_row \<Rightarrow> bool" where
  "owned d g = (\<exists>c\<in>set (db_cbsds d). cb_pk c = gr_cbsd_pk g \<and> cb_id c = gr_cbsd_id g)"

definition conflict :: "grant_row \<Rightarrow> grant_row \<Rightarrow> bool" where
  "conflict g h = (gr_cbsd_id g = gr_cbsd_id h \<and> \<not> gr_term g \<and> \<not> gr_term h
     \<and> overlaps (gr_low g) (gr_high g) (gr_low h) (gr_high h))"

definition no_conflicts :: "grant_row list \<Rightarrow> bool" where
  "no_conflicts gs = (\<forall>g\<in>set gs. \<forall>h\<in>set gs. gr_pk g \<noteq> gr_pk h \<longrightarrow> \<not> conflict g h)"

definition cbsds_wf :: "db \<Rightarrow> bool" where
  "cbsds_wf d = (distinct (map cb_pk (db_cbsds d)) \<and> distinct (map cb_id (db_cbsds d))
     \<and> (\<forall>c\<in>set (db_cbsds d). cb_pk c < db_next_cbsd d \<and> cb_state c = cbsd_state_value REGISTERED
          \<and> cb_id c = make_cbsd_id (cb_fcc_id c) (cb_serial c)))"

definition grants_wf :: "db \<Rightarrow> bool" where
  "grants_wf d = (distinct (map gr_pk (db_grants d))
     \<and> (\<forall>g\<in>set (db_grants d). gr_pk g < db_next_grant d \<and> grant_in_sync g \<and> in_band g \<and> owned d g)
     \<and> no_conflicts (db_grants d))"

definition db_wf :: "db \<Rightarrow> bool" where
  "db_wf d = (cbsds_wf d \<and> grants_wf d)"

text \<open>Operations on the other tables keep it.\<close>

lemma db_wf_frame:
  assumes "db_cbsds d' = db_cbsds d" "db_grants d' = db_grants d"
    "db_next_cbsd d' = db_next_cbsd d" "db_next_grant d' = db_next_grant d"
  shows "db_wf d' = db_wf d"
  by (simp only: db_wf_def cbsds_wf_def grants_wf_def owned_def assms)

text \<open>Grant identifiers are the ones issued so far, each at most once.\<close>

definition ids_issued :: "(nat \<Rightarrow> string) \<Rightarrow> db \<Rightarrow> bool" where
  "ids_issued uuid d =
     (\<forall>g\<in>set (db_grants d). gr_pk g < db_next_grant d \<and> gr_id g = ''grant/'' @ uuid (gr_pk g))"

lemma conflict_sym: "conflict g h = conflict h g"
  unfolding conflict_def using siq_overlap.ov_sym by metis

lemma empty_db_wf: "db_wf empty_db"
  by (simp add: db_wf_def cbsds_wf_def grants_wf_def no_conflicts_def empty_db_def)

lemma empty_db_issued: "ids_issued uuid empty_db"
  by (simp add: ids_issued_def empty_db_def)

lemma ids_distinct:
  assumes "ids_issued uuid d" and "inj uuid" and "distinct (map gr_pk (db_grants d))"
  shows "distinct (map gr_id (db_grants d))"
proof -
  have inj: "inj_on gr_pk (set (db_grants d))" and dist: "distinct (db_grants d)"
    using assms(3) by (simp_all add: distinct_map)
  have "inj_on gr_id (set (db_grants d))"
  proof (rule inj_onI)
    fix g h assume g: "g \<in> set (db_grants d)" and h: "h \<in> set (db_grants d)"
      and "gr_id g = gr_id h"
    then have "uuid (gr_pk g) = uuid (gr_pk h)"
      using assms(1) unfolding ids_issued_def by force
    then have "gr_pk g = gr_pk h" by (rule injD [OF assms(2)])
    with inj g h show "g = h" by (meson inj_onD)
  qed
  with dist show ?thesis by (simp add: distinct_map)
qed

subsection \<open>Writing a grant\<close>

definition evolves :: "grant_row \<Rightarrow> grant_row \<Rightarrow> bool" where
  "evolves g g' = (gr_pk g' = gr_pk g \<and> gr_id g' = gr_id g \<and> gr_cbsd_pk g' = gr_cbsd_pk g
     \<and> gr_cbsd_id g' = gr_cbsd_id g \<and> gr_low g' = gr_low g \<and> gr_high g' = gr_high g
     \<and> (gr_term g \<longrightarrow> gr_term g') \<and> (grant_in_sync g \<longrightarrow> grant_in_sync g'))"

named_theorems evolve_intros

lemma evolves_refl [evolve_intros]: "evolves g g"
  by (simp add: evolves_def)

lemma evolves_trans: "evolves f g \<Longrightarrow> evolves g h \<Longrightarrow> evolves f h"
  by (auto simp: evolves_def)

lemma evolves_event [evolve_intros]:
  assumes "grant_in_sync g"
  shows "evolves g (snd (apply_grant_event now g ev p))"
  using assms row_in_sync_fixed [OF assms] apply_grant_event_in_sync [OF assms]
  by (auto simp: evolves_def)

lemma grants_wfD:
  assumes "db_wf d" and "g \<in> set (db_grants d)"
  shows "grant_in_sync g" "in_band g" "owned d g" "gr_pk g < db_next_grant d"
  using assms by (auto simp: db_wf_def grants_wf_def)

lemma conflict_evolves:
  "evolves g g' \<Longrightarrow> conflict g' h \<Longrightarrow> conflict g h"
  by (auto simp: evolves_def conflict_def)

lemma no_conflicts_put:
  assumes nc: "no_conflicts (db_grants d)" and g: "g \<in> set (db_grants d)" and ev: "evolves g g'"
  shows "no_conflicts (db_grants (put_grant d g'))"
  unfolding no_conflicts_def
proof (intro ballI impI)
  fix a b
  assume a: "a \<in> set (db_grants (put_grant d g'))" and b: "b \<in> set (db_grants (put_grant d g'))"
    and ne: "gr_pk a \<noteq> gr_pk b"
  have old: "\<exists>a0\<in>set (db_grants d). gr_pk a0 = gr_pk a \<and> evolves a0 a"
    if "a \<in> set (db_grants (put_grant d g'))" for a
    using grant_table.mem_put [OF that] g ev by (auto simp: evolves_def)
  from old [OF a] old [OF b] obtain a0 b0 where
    "a0 \<in> set (db_grants d)" "gr_pk a0 = gr_pk a" "evolves a0 a"
    "b0 \<in> set (db_grants d)" "gr_pk b0 = gr_pk b" "evolves b0 b" by blast
  with nc ne show "\<not> conflict a b"
    unfolding no_conflicts_def using conflict_evolves conflict_sym by metis
qed

lemma owned_put_grant [simp]: "owned (put_grant d g) h = owned d h"
  by (simp add: owned_def)

lemma wf_put_grant:
  assumes wf: "db_wf d" and g: "g \<in> set (db_grants d)" and ev: "evolves g g'"
  shows "db_wf (put_grant d g')"
proof -
  have g': "gr_pk g' < db_next_grant d \<and> grant_in_sync g' \<and> in_band g' \<and> owned d g'"
    using grants_wfD [OF wf g] ev by (auto simp: evolves_def in_band_def owned_def)
  have "\<forall>x\<in>set (db_grants (put_grant d g')).
      gr_pk x < db_next_grant d \<and> grant_in_sync x \<and> in_band x \<and> owned d x"
    by (rule grant_table.all_put) (use wf g' in \<open>auto simp: db_wf_def grants_wf_def\<close>)
  then show ?thesis
    using wf no_conflicts_put [OF _ g ev]
    by (simp add: db_wf_def grants_wf_def cbsds_wf_def grant_table.keys_put)
qed

lemma issued_put_grant:
  assumes "ids_issued uuid d" and "g \<in> set (db_grants d)" and "evolves g g'"
  shows "ids_issued uuid (put_grant d g')"
  using assms grant_table.mem_put [of _ d g'] by (fastforce simp: ids_issued_def evolves_def)

lemma wf_add_grant:
  assumes wf: "db_wf d" and "grant_in_sync g" "in_band g" "owned d g"
    and free: "\<And>h. h \<in> set (db_grants d) \<Longrightarrow> \<not> conflict g h"
  shows "db_wf (add_grant d g)"
proof -
  define g' where "g' = g\<lparr>gr_pk := db_next_grant d\<rparr>"
  have gs: "db_grants (add_grant d g) = db_grants d @ [g']"
    "db_next_grant (add_grant d g) = Suc (db_next_grant d)"
    "db_cbsds (add_grant d g) = db_cbsds d" "db_next_cbsd (add_grant d g) = db_next_cbsd d"
    by (simp_all add: add_grant_def g'_def)
  have lt: "gr_pk h < db_next_grant d" if "h \<in> set (db_grants d)" for h
    using grants_wfD [OF wf that] by simp
  have "grant_in_sync g'"
    using assms(2) grant_in_sync_cong [of g' g] by (simp add: g'_def)
  moreover have "in_band g'" "owned d g'" "gr_pk g' = db_next_grant d"
    using assms(3,4) by (simp_all add: g'_def in_band_def owned_def)
  ultimately have g': "gr_pk g' = db_next_grant d" "grant_in_sync g'" "in_band g'" "owned d g'"
    by simp_all
  have free': "\<not> conflict g' h" if "h \<in> set (db_grants d)" for h
    using free [OF that] by (simp add: conflict_def g'_def)
  have "no_conflicts (db_grants d @ [g'])"
    unfolding no_conflicts_def
  proof (intro ballI impI)
    fix a b assume a: "a \<in> set (db_grants d @ [g'])" and b: "b \<in> set (db_grants d @ [g'])"
      and ne: "gr_pk a \<noteq> gr_pk b"
    have nc: "no_conflicts (db_grants d)" using wf by (simp add: db_wf_def grants_wf_def)
    show "\<not> conflict a b"
    proof (cases "a = g'")
      case True
      with b ne have "b \<in> set (db_grants d)" by auto
      with True free' show ?thesis by simp
    next
      case False
      with a have a': "a \<in> set (db_grants d)" by simp
      show ?thesis
      proof (cases "b = g'")
        case True
        with a' free' show ?thesis by (simp add: conflict_sym)
      next
        case False
        with b a' nc ne show ?thesis by (simp add: no_conflicts_def)
      qed
    qed
  qed
  moreover have "distinct (map gr_pk (db_grants d @ [g']))"
    using wf lt g'(1) by (fastforce simp: db_wf_def grants_wf_def)
  moreover have "owned (add_grant d g) h = owned d h" for h
    by (simp add: owned_def gs)
  ultimately show ?thesis
    using wf g' by (simp add: db_wf_def grants_wf_def cbsds_wf_def gs less_Suc_eq)
qed

lemma issued_add_grant:
  assumes "ids_issued uuid d" and "gr_id g = ''grant/'' @ uuid (db_next_grant d)"
  shows "ids_issued uuid (add_grant d g)"
  using assms by (auto simp: ids_issued_def add_grant_def less_Suc_eq)

subsection \<open>Writing a CBSD\<close>

lemma wf_put_cbsd:
  assumes wf: "db_wf d" and c: "c \<in> set (db_cbsds d)" and "cb_pk c' = cb_pk c"
    and "cb_id c' = cb_id c" and "cb_fcc_id c' = cb_fcc_id c" and "cb_serial c' = cb_serial c"
    and "cb_state c' = cbsd_state_value REGISTERED"
  shows "db_wf (put_cbsd d c')"
proof -
  have dist: "distinct (map cb_pk (db_cbsds d))"
    using wf by (simp add: db_wf_def cbsds_wf_def)
  have ids: "map cb_id (db_cbsds (put_cbsd d c')) = map cb_id (db_cbsds d)"
    by (rule cbsd_table.column_put [OF dist c]) (use assms in simp_all)
  have "\<forall>x\<in>set (db_cbsds (put_cbsd d c')). cb_pk x < db_next_cbsd d
      \<and> cb_state x = cbsd_state_value REGISTERED
      \<and> cb_id x = make_cbsd_id (cb_fcc_id x) (cb_serial x)"
    by (rule cbsd_table.all_put) (use wf c assms in \<open>auto simp: db_wf_def cbsds_wf_def\<close>)
  moreover have "owned (put_cbsd d c') g" if "owned d g" for g
  proof -
    from that obtain x where x: "x \<in> set (db_cbsds d)" "cb_pk x = gr_cbsd_pk g"
      "cb_id x = gr_cbsd_id g" by (auto simp: owned_def)
    show ?thesis
    proof (cases "cb_pk x = cb_pk c'")
      case True
      then have "x = c" using cbsd_table.unique_key [OF dist x(1) c] assms(3) by simp
      with x assms show ?thesis
        using cbsd_table.mem_put_new [OF c, of c'] by (auto simp: owned_def)
    next
      case False
      with x show ?thesis using cbsd_table.mem_put_old [of x d c'] by (auto simp: owned_def)
    qed
  qed
  ultimately show ?thesis
    using wf ids by (simp add: db_wf_def cbsds_wf_def grants_wf_def cbsd_table.keys_put)
qed

lemma wf_add_cbsd:
  assumes wf: "db_wf d" and "cb_state c = cbsd_state_value REGISTERED"
    and "cb_id c = make_cbsd_id (cb_fcc_id c) (cb_serial c)"
    and "cb_id c \<notin> cb_id ` set (db_cbsds d)"
  shows "db_wf (add_cbsd d c)"
  using assms
  by (auto simp: db_wf_def cbsds_wf_def grants_wf_def add_cbsd_def owned_def less_Suc_eq image_iff)

lemma issued_frame:
  assumes "ids_issued uuid d" and "set (db_grants d') \<subseteq> set (db_grants d)"
    and "db_next_grant d' = db_next_grant d"
  shows "ids_issued uuid d'"
  using assms by (auto simp: ids_issued_def)

lemma no_conflicts_subset: "no_conflicts gs \<Longrightarrow> set hs \<subseteq> set gs \<Longrightarrow> no_conflicts hs"
  by (auto simp: no_conflicts_def)

lemma distinct_map_filter: "distinct (map f xs) \<Longrightarrow> distinct (map f (filter P xs))"
  by (induction xs) auto

text \<open>Deleting a CBSD with its grants leaves no grant without its CBSD.\<close>

lemma wf_delete_cbsd:
  assumes wf: "db_wf d"
  shows "db_wf (delete_cbsd d c)"
proof -
  have "owned (delete_cbsd d c) g" if g: "g \<in> set (db_grants (delete_cbsd d c))" for g
  proof -
    have "g \<in> set (db_grants d)" and ne: "gr_cbsd_pk g \<noteq> cb_pk c"
      using g by (simp_all add: delete_cbsd_def)
    with grants_wfD(3) [OF wf] obtain x where "x \<in> set (db_cbsds d)" "cb_pk x = gr_cbsd_pk g"
      "cb_id x = gr_cbsd_id g" by (auto simp: owned_def)
    with ne show ?thesis by (auto simp: owned_def delete_cbsd_def)
  qed
  moreover have "no_conflicts (db_grants (delete_cbsd d c))"
    using wf by (auto simp: delete_cbsd_def db_wf_def grants_wf_def intro: no_conflicts_subset)
  ultimately show ?thesis
    using wf
    by (simp add: db_wf_def cbsds_wf_def grants_wf_def delete_cbsd_def distinct_map_filter)
qed

subsection \<open>Sending an event to every grant of a CBSD\<close>

text \<open>The loop of deregistration and re-registration over the rows it locked.\<close>

fun put_all :: "(grant_row \<Rightarrow> grant_row) \<Rightarrow> db \<Rightarrow> grant_row list \<Rightarrow> db" where
  "put_all f d [] = d"
| "put_all f d (g # gs) = put_all f (put_grant d (f g)) gs"

lemma put_all_frame [simp]:
  "db_cbsds (put_all f d gs) = db_cbsds d" "db_next_grant (put_all f d gs) = db_next_grant d"
  "db_next_cbsd (put_all f d gs) = db_next_cbsd d"
  by (induction f d gs rule: put_all.induct) simp_all

lemma put_all_grants:
  assumes "distinct (map gr_pk gs)" and "\<And>g. g \<in> set gs \<Longrightarrow> gr_pk (f g) = gr_pk g"
    and "set gs \<subseteq> set (db_grants d)" and "distinct (map gr_pk (db_grants d))"
  shows "db_grants (put_all f d gs) = map (\<lambda>g. if g \<in> set gs then f g else g) (db_grants d)"
  using assms
proof (induction f d gs rule: put_all.induct)
  case (1 f d)
  then show ?case by simp
next
  case (2 f d g gs)
  let ?d = "put_grant d (f g)"
  have g: "g \<in> set (db_grants d)" "gr_pk (f g) = gr_pk g" using 2 by auto
  have gd: "db_grants ?d = map (\<lambda>x. if x = g then f g else x) (db_grants d)"
    using 2(5) g grant_table.unique_key [of d _ g]
    by (auto simp: grant_table.rows_put)
  have sub: "set gs \<subseteq> set (db_grants ?d)"
    using 2(2,4) by (auto simp: gd image_iff)
  have "distinct (map gr_pk (db_grants ?d))"
    using 2(5) by (simp add: grant_table.keys_put)
  with 2 sub have ih: "db_grants (put_all f ?d gs)
      = map (\<lambda>x. if x \<in> set gs then f x else x) (db_grants ?d)" by simp
  have fg: "f g \<notin> set gs"
  proof
    assume "f g \<in> set gs"
    then have "gr_pk (f g) \<in> gr_pk ` set gs" by (rule imageI)
    with g(2) 2(2) show False by simp
  qed
  show ?case using ih fg 2(2) by (auto simp: gd)
qed

lemma wf_put_all:
  assumes "db_wf d" and "distinct (map gr_pk gs)" and "set gs \<subseteq> set (db_grants d)"
    and "\<And>g. g \<in> set gs \<Longrightarrow> evolves g (f g)"
  shows "db_wf (put_all f d gs)"
  using assms
proof (induction f d gs rule: put_all.induct)
  case (1 f d)
  then show ?case by simp
next
  case (2 f d g gs)
  have "db_wf (put_grant d (f g))" using 2 wf_put_grant [of d g "f g"] by simp
  moreover have "set gs \<subseteq> set (db_grants (put_grant d (f g)))"
  proof
    fix x assume x: "x \<in> set gs"
    have "gr_pk (f g) = gr_pk g" using 2(5) [of g] by (simp add: evolves_def)
    moreover have "gr_pk x \<in> gr_pk ` set gs" using x by (rule imageI)
    ultimately have "gr_pk x \<noteq> gr_pk (f g)" using 2(3) by auto
    with x 2(4) show "x \<in> set (db_grants (put_grant d (f g)))"
      by (auto intro: grant_table.mem_put_old)
  qed
  ultimately show ?case using 2 by simp
qed

lemma issued_put_all:
  assumes "ids_issued uuid d" and "distinct (map gr_pk gs)" and "set gs \<subseteq> set (db_grants d)"
    and "\<And>g. g \<in> set gs \<Longrightarrow> evolves g (f g)" and "distinct (map gr_pk (db_grants d))"
  shows "ids_issued uuid (put_all f d gs)"
proof -
  have "db_grants (put_all f d gs) = map (\<lambda>g. if g \<in> set gs then f g else g) (db_grants d)"
    by (rule put_all_grants) (use assms in \<open>auto simp: evolves_def\<close>)
  then show ?thesis using assms(1,4) by (fastforce simp: ids_issued_def evolves_def)
qed

lemma locked_grants:
  assumes "db_wf d"
  shows "distinct (map gr_pk (lock_grants_for_cbsd d v))"
    and "set (lock_grants_for_cbsd d v) \<subseteq> set (db_grants d)"
    and "distinct (map gr_pk (db_grants d))"
  using assms
  by (auto simp: lock_grants_for_cbsd_def db_wf_def grants_wf_def distinct_map_filter)

lemma wf_terminate_all:
  assumes "db_wf d"
    and "\<And>g. g \<in> set (lock_grants_for_cbsd d v) \<Longrightarrow> evolves g (f g)"
  shows "db_wf (put_all f d (lock_grants_for_cbsd d v))"
  using assms locked_grants [OF assms(1)] by (intro wf_put_all) auto

end
