(* ===== verification/Teardown.thy ===== *)
theory Teardown
  imports WellFormed
begin

text \<open>
  Relinquishment and deregistration (services/relinquishment_service.py and
  services/deregistration_service.py), one definition per item and the batch over them. The
  item of a batch is one transaction: locks, reads, writes and the commit of its
  \<open>finally\<close> are one step of the model.
\<close>

text \<open>The invariant the procedures keep, with the identifiers issued so far.\<close>

definition sas_inv :: "(nat \<Rightarrow> string) \<Rightarrow> db \<Rightarrow> bool" where
  "sas_inv uuid d = (db_wf d \<and> ids_issued uuid d)"

lemma sas_invD: "sas_inv uuid d \<Longrightarrow> db_wf d" "sas_inv uuid d \<Longrightarrow> ids_issued uuid d"
  by (simp_all add: sas_inv_def)

lemma inv_frame:
  assumes "db_cbsds d' = db_cbsds d" "db_grants d' = db_grants d"
    "db_next_cbsd d' = db_next_cbsd d" "db_next_grant d' = db_next_grant d"
  shows "sas_inv uuid d' = sas_inv uuid d"
  by (simp only: sas_inv_def ids_issued_def db_wf_frame [OF assms] assms)

lemma inv_put_grant:
  "sas_inv uuid d \<Longrightarrow> g \<in> set (db_grants d) \<Longrightarrow> evolves g g' \<Longrightarrow> sas_inv uuid (put_grant d g')"
  by (simp add: sas_inv_def wf_put_grant issued_put_grant)

lemma inv_put_event:
  assumes "sas_inv uuid d" and "g \<in> set (db_grants d)"
  shows "sas_inv uuid (put_grant d (snd (apply_grant_event now g ev p)))"
  by (rule inv_put_grant [OF assms evolves_event
        [OF grants_wfD(1) [OF sas_invD(1) [OF assms(1)] assms(2)]]])

lemma inv_terminate_all:
  assumes inv: "sas_inv uuid d"
    and ev: "\<And>g. g \<in> set (lock_grants_for_cbsd d v) \<Longrightarrow> grant_in_sync g \<Longrightarrow> evolves g (f g)"
  shows "sas_inv uuid (put_all f d (lock_grants_for_cbsd d v))"
proof -
  have wf: "db_wf d" using inv by (rule sas_invD)
  have ev': "evolves g (f g)" if "g \<in> set (lock_grants_for_cbsd d v)" for g
    using that ev grants_wfD(1) [OF wf] locked_grants(2) [OF wf] by blast
  show ?thesis
    using wf_terminate_all [OF wf ev'] issued_put_all [OF sas_invD(2) [OF inv] locked_grants(1,2) [OF wf] ev']
      locked_grants(3) [OF wf]
    by (simp add: sas_inv_def)
qed

lemma inv_delete_cbsd: "sas_inv uuid d \<Longrightarrow> sas_inv uuid (delete_cbsd d c)"
  unfolding sas_inv_def
  by (auto simp: wf_delete_cbsd intro!: issued_frame [of uuid d]) (auto simp: delete_cbsd_def)

subsection \<open>Closing a grant\<close>

text \<open>
  RELINQUISH and TERMINATE close a live grant and are refused once its expiry has passed,
  whatever the payload names.
\<close>

lemma close_event:
  assumes sync: "grant_in_sync g" and live: "\<not> gr_term g" and ev: "ev \<in> {RELINQUISH, TERMINATE}"
    and p: "complete_payload (ts_required (GRANT_TRANSITIONS ev)) p"
  shows "snd (apply_grant_event now g ev p)
      = (if grant_expired now g then g else apply_grant_state g (grant_target ev))"
    and "to_ok (fst (apply_grant_event now g ev p)) = (\<not> grant_expired now g)"
    and "grant_expired now g \<Longrightarrow> to_code (fst (apply_grant_event now g ev p)) = INVALID_PARAM"
proof -
  from sync obtain s where s: "gr_state g = grant_state_value s" "s \<noteq> REQUESTED"
    "gr_term g = terminal_grant_state s" by (rule in_sync_state)
  then have "live_grant_state s"
    using live by (cases s) (auto simp: live_grant_state_def terminal_grant_state_def)
  then have r: "grant_step (resolve_grant_state now g) ev (grant_target ev) = (\<not> grant_expired now g)"
    using s ev by (auto simp: resolve_named grant_step_simps live_grant_state_def)
  show "snd (apply_grant_event now g ev p)
      = (if grant_expired now g then g else apply_grant_state g (grant_target ev))"
    "to_ok (fst (apply_grant_event now g ev p)) = (\<not> grant_expired now g)"
    "grant_expired now g \<Longrightarrow> to_code (fst (apply_grant_event now g ev p)) = INVALID_PARAM"
    using p r evaluate_grant_complete(2) [OF p, of "resolve_grant_state now g"] ev
    by (auto simp: apply_grant_event_row apply_grant_event_ok)
      (auto simp: apply_grant_event_eq Let_def)
qed

subsection \<open>Relinquishment\<close>

record rlq_response =
  rl_cbsd_id :: "pyval option"
  rl_grant_id :: "pyval option"
  rl_code :: int

definition rlq_resp :: "int \<Rightarrow> pyval option \<Rightarrow> pyval option \<Rightarrow> rlq_response" where
  "rlq_resp code cid gid = \<lparr>rl_cbsd_id = cid, rl_grant_id = gid, rl_code = code\<rparr>"

definition relinquish_item ::
    "time \<Rightarrow> string option \<Rightarrow> db \<Rightarrow> pydict \<Rightarrow> rlq_response res \<times> db" where
  "relinquish_item now cert d req =
     (let cid = dget req ''cbsdId''; gid = dget req ''grantId'' in
      if \<not> truthy cid \<or> \<not> truthy gid
      then (Inr (rlq_resp MISSING_PARAM (if truthy cid then Some cid else None) None), d)
      else (case lock_cbsd_row d cid of
          None \<Rightarrow> (Inr (rlq_resp INVALID_PARAM None None), d)
        | Some c \<Rightarrow>
            if cbsd_certificate_mismatch c cert then (Inr (rlq_resp INVALID_PARAM None None), d)
            else (case lock_grant_row d gid cid of
                None \<Rightarrow> (Inr (rlq_resp INVALID_PARAM (Some cid) None), d)
              | Some g \<Rightarrow>
                  if gr_term g then (Inr (rlq_resp INVALID_PARAM (Some cid) None), d)
                  else (let (out, g') = apply_grant_event now g RELINQUISH
                                [(''cbsdId'', cid), (''grantId'', gid)] in
                        (Inr (if to_ok out then rlq_resp SUCCESS (Some cid) (Some gid)
                              else rlq_resp (to_code out) (Some cid) None),
                         put_grant d g')))))"

definition process_relinquishment ::
    "time \<Rightarrow> string option \<Rightarrow> db \<Rightarrow> pydict list \<Rightarrow> rlq_response list res \<times> db" where
  "process_relinquishment now cert d requests = run_items (relinquish_item now cert) d requests"

lemma relinquish_item_inv: "sas_inv uuid d \<Longrightarrow> sas_inv uuid (snd (relinquish_item now cert d req))"
  by (auto simp: relinquish_item_def Let_def case_prod_unfold split: option.split
      dest!: lock_grant_rowD intro!: inv_put_event)

interpretation relinquish_batch: batch_service "relinquish_item now cert" "sas_inv uuid"
  by unfold_locales (rule relinquish_item_inv)

subsection \<open>Deregistration\<close>

record drg_response =
  dr_cbsd_id :: "pyval option"
  dr_code :: int

definition drg_resp :: "int \<Rightarrow> pyval option \<Rightarrow> drg_response" where
  "drg_resp code cid = \<lparr>dr_cbsd_id = cid, dr_code = code\<rparr>"

definition terminate_payload :: "pyval \<Rightarrow> grant_row \<Rightarrow> pydict" where
  "terminate_payload cid g = [(''cbsdId'', cid), (''grantId'', PStr (gr_id g))]"

definition deregister_item ::
    "time \<Rightarrow> string option \<Rightarrow> db \<Rightarrow> pydict \<Rightarrow> drg_response res \<times> db" where
  "deregister_item now cert d req =
     (let cid = dget req ''cbsdId'' in
      if \<not> truthy cid then (Inr (drg_resp MISSING_PARAM None), d)
      else (case lock_cbsd_row d cid of
          None \<Rightarrow> (Inr (drg_resp INVALID_PARAM None), d)
        | Some c \<Rightarrow>
            if cbsd_certificate_mismatch c cert then (Inr (drg_resp INVALID_PARAM None), d)
            else (let outcome = evaluate_cbsd_transition DEREGISTER (resolve_cbsd_state (Some c))
                                  [(''cbsdId'', cid)] in
                  if \<not> to_ok outcome then (Inr (drg_resp (to_code outcome) None), d)
                  else (let d1 = put_all
                              (\<lambda>g. snd (apply_grant_event now g TERMINATE (terminate_payload cid g)))
                              d (lock_grants_for_cbsd d cid);
                            d2 = put_cbsd d1 (c\<lparr>cb_state := cbsd_state_value DEREGISTERED\<rparr>) in
                        (Inr (drg_resp SUCCESS (Some cid)), delete_cbsd d2 c)))))"

definition process_deregistration ::
    "time \<Rightarrow> string option \<Rightarrow> db \<Rightarrow> pydict list \<Rightarrow> drg_response list res \<times> db" where
  "process_deregistration now cert d requests = run_items (deregister_item now cert) d requests"

text \<open>The marked row is the one that is deleted, so marking it leaves no trace.\<close>

lemma delete_after_put: "cb_pk c' = cb_pk c \<Longrightarrow> delete_cbsd (put_cbsd d c') c = delete_cbsd d c"
proof -
  assume "cb_pk c' = cb_pk c"
  then have "filter (\<lambda>r. cb_pk r \<noteq> cb_pk c) (map (\<lambda>r. if cb_pk r = cb_pk c' then c' else r) xs)
      = filter (\<lambda>r. cb_pk r \<noteq> cb_pk c) xs" for xs
    by (induction xs) auto
  then show ?thesis by (simp add: delete_cbsd_def put_cbsd_def)
qed

lemma deregister_item_inv: "sas_inv uuid d \<Longrightarrow> sas_inv uuid (snd (deregister_item now cert d req))"
  unfolding deregister_item_def Let_def
  by (auto simp: delete_after_put split: option.split
      intro!: inv_delete_cbsd inv_terminate_all evolves_event)

interpretation deregister_batch: batch_service "deregister_item now cert" "sas_inv uuid"
  by unfold_locales (rule deregister_item_inv)

lemma registered_resolves:
  "cb_state c = cbsd_state_value REGISTERED \<Longrightarrow> resolve_cbsd_state (Some c) = REGISTERED"
  by (simp add: resolve_cbsd_state_def cbsd_state_of_def)

lemma deregister_accepts:
  "truthy cid \<Longrightarrow> to_ok (evaluate_cbsd_transition DEREGISTER REGISTERED [(''cbsdId'', cid)])"
  by (simp add: evaluate_cbsd_transition_def Let_def missing_Nil complete_payload_def)

subsection \<open>Properties\<close>

text \<open>
  C24. A relinquishment in a well-formed database answers 0 exactly when the caller holds the
  CBSD's certificate and the grant is that CBSD's, not terminated and not expired; then the
  grant's row is moved to RELINQUISHED and nothing else changes. Every other request leaves
  the database as it was.
\<close>

theorem relinquish_item_correct:
  assumes "db_wf d"
  shows "case relinquish_item now cert d req of (r, d') \<Rightarrow>
    (if \<exists>c g. lock_cbsd_row d (dget req ''cbsdId'') = Some c
          \<and> \<not> cbsd_certificate_mismatch c cert
          \<and> lock_grant_row d (dget req ''grantId'') (dget req ''cbsdId'') = Some g
          \<and> truthy (dget req ''cbsdId'') \<and> truthy (dget req ''grantId'')
          \<and> \<not> gr_term g \<and> \<not> grant_expired now g
     then r = Inr (rlq_resp SUCCESS (Some (dget req ''cbsdId'')) (Some (dget req ''grantId'')))
          \<and> (\<exists>g\<in>set (db_grants d). PStr (gr_id g) = dget req ''grantId''
               \<and> d' = put_grant d (apply_grant_state g RELINQUISHED))
     else d' = d \<and> (\<exists>resp. r = Inr resp \<and> rl_code resp \<in> {MISSING_PARAM, INVALID_PARAM}
               \<and> rl_grant_id resp = None))"
proof -
  let ?cid = "dget req ''cbsdId''" and ?gid = "dget req ''grantId''"
  have same: "put_grant d g = d" if "g \<in> set (db_grants d)" for g
  proof -
    have "map (\<lambda>r. if gr_pk r = gr_pk g then g else r) (db_grants d) = db_grants d"
      using assms that grant_table.unique_key [of d _ g]
      by (intro map_idI) (auto simp: db_wf_def grants_wf_def)
    then show ?thesis by (simp add: put_grant_def)
  qed
  have step: "snd (apply_grant_event now g RELINQUISH [(''cbsdId'', ?cid), (''grantId'', ?gid)])
        = (if grant_expired now g then g else apply_grant_state g RELINQUISHED)
      \<and> to_ok (fst (apply_grant_event now g RELINQUISH [(''cbsdId'', ?cid), (''grantId'', ?gid)]))
        = (\<not> grant_expired now g)
      \<and> (grant_expired now g \<longrightarrow> to_code (fst (apply_grant_event now g RELINQUISH
            [(''cbsdId'', ?cid), (''grantId'', ?gid)])) = INVALID_PARAM)"
    if g: "g \<in> set (db_grants d)" "\<not> gr_term g" and t: "truthy ?cid" "truthy ?gid" for g
  proof -
    have p: "complete_payload (ts_required (GRANT_TRANSITIONS RELINQUISH))
        [(''cbsdId'', ?cid), (''grantId'', ?gid)]"
      using t by (simp add: complete_payload_def)
    have "RELINQUISH \<in> {RELINQUISH, TERMINATE}" by simp
    note close = close_event [OF grants_wfD(1) [OF assms g(1)] g(2) this p, where now = now]
    show ?thesis unfolding close(1,2) using close(3) by simp
  qed
  show ?thesis
  proof (cases "truthy ?cid \<and> truthy ?gid")
    case False
    then show ?thesis by (auto simp: relinquish_item_def Let_def rlq_resp_def)
  next
    case ids: True
    show ?thesis
    proof (cases "lock_cbsd_row d ?cid")
      case None
      with ids show ?thesis by (auto simp: relinquish_item_def Let_def rlq_resp_def)
    next
      case c: (Some c)
      show ?thesis
      proof (cases "cbsd_certificate_mismatch c cert \<or> lock_grant_row d ?gid ?cid = None")
        case True
        with ids c show ?thesis
          by (auto simp: relinquish_item_def Let_def rlq_resp_def split: option.split)
      next
        case False
        then obtain g where m: "\<not> cbsd_certificate_mismatch c cert"
          and g: "lock_grant_row d ?gid ?cid = Some g" by auto
        note mem = lock_grant_rowD [OF g]
        show ?thesis
        proof (cases "gr_term g")
          case True
          with ids c m g show ?thesis
            by (auto simp: relinquish_item_def Let_def rlq_resp_def)
        next
          case live: False
          define res where "res = apply_grant_event now g RELINQUISH
            [(''cbsdId'', ?cid), (''grantId'', ?gid)]"
          have item: "relinquish_item now cert d req =
              (Inr (if to_ok (fst res) then rlq_resp SUCCESS (Some ?cid) (Some ?gid)
                    else rlq_resp (to_code (fst res)) (Some ?cid) None), put_grant d (snd res))"
            using ids c m g live
            by (simp add: relinquish_item_def Let_def case_prod_unfold res_def)
          have res: "snd res = (if grant_expired now g then g else apply_grant_state g RELINQUISHED)"
            "to_ok (fst res) = (\<not> grant_expired now g)"
            "grant_expired now g \<Longrightarrow> to_code (fst res) = INVALID_PARAM"
            using step [OF conjunct1 [OF mem] live conjunct1 [OF ids] conjunct2 [OF ids]]
            unfolding res_def by blast+
          show ?thesis
          proof (cases "grant_expired now g")
            case True
            with item res c m g same [of g] mem show ?thesis by (simp add: rlq_resp_def)
          next
            case False
            have cond: "\<exists>c g. lock_cbsd_row d ?cid = Some c \<and> \<not> cbsd_certificate_mismatch c cert
                \<and> lock_grant_row d ?gid ?cid = Some g \<and> truthy ?cid \<and> truthy ?gid
                \<and> \<not> gr_term g \<and> \<not> grant_expired now g"
              using c m g live ids False by blast
            have "\<exists>h\<in>set (db_grants d). PStr (gr_id h) = ?gid
                \<and> put_grant d (apply_grant_state g RELINQUISHED)
                  = put_grant d (apply_grant_state h RELINQUISHED)"
              using mem by (intro bexI [of _ g]) auto
            with item res False show ?thesis
              by (simp only: cond prod.case if_True if_False not_False_eq_True simp_thms)
          qed
        qed
      qed
    qed
  qed
qed

lemma owner_iff:
  assumes wf: "db_wf d" and c: "c \<in> set (db_cbsds d)" and g: "g \<in> set (db_grants d)"
  shows "(gr_cbsd_pk g = cb_pk c) = (gr_cbsd_id g = cb_id c)"
proof -
  from grants_wfD(3) [OF wf g] obtain x where x: "x \<in> set (db_cbsds d)"
    "cb_pk x = gr_cbsd_pk g" "cb_id x = gr_cbsd_id g" by (auto simp: owned_def)
  have "distinct (map cb_pk (db_cbsds d))" "distinct (map cb_id (db_cbsds d))"
    using wf by (simp_all add: db_wf_def cbsds_wf_def)
  then have "(cb_pk x = cb_pk c) = (x = c)" "(cb_id x = cb_id c) = (x = c)"
    using x(1) c by (auto simp: distinct_map inj_on_def)
  with x show ?thesis by simp
qed

lemma same_cbsd:
  assumes "db_wf d" and "c \<in> set (db_cbsds d)" and "r \<in> set (db_cbsds d)"
  shows "(cb_pk r = cb_pk c) = (cb_id r = cb_id c)"
proof -
  have "distinct (map cb_pk (db_cbsds d))" "distinct (map cb_id (db_cbsds d))"
    using assms(1) by (simp_all add: db_wf_def cbsds_wf_def)
  with assms(2,3) show ?thesis by (auto simp: distinct_map inj_on_def)
qed

lemma filter_other_grants:
  assumes "\<And>g. g \<in> set gs \<Longrightarrow> P g \<Longrightarrow> f g = g" and "\<And>g. g \<in> set gs \<Longrightarrow> Q (f g) = P g"
  shows "filter Q (map f gs) = filter P gs"
  using assms by (induction gs) auto

lemma deregister_removes:
  assumes wf: "db_wf d" and c: "lock_cbsd_row d cid = Some c"
    and f: "\<And>g. gr_pk (f g) = gr_pk g" "\<And>g. gr_cbsd_pk (f g) = gr_cbsd_pk g"
  shows "db_cbsds (delete_cbsd (put_all f d (lock_grants_for_cbsd d cid)) c)
           = filter (\<lambda>r. PStr (cb_id r) \<noteq> cid) (db_cbsds d)"
    and "db_grants (delete_cbsd (put_all f d (lock_grants_for_cbsd d cid)) c)
           = filter (\<lambda>g. PStr (gr_cbsd_id g) \<noteq> cid) (db_grants d)"
proof -
  note mem = lock_cbsd_rowD [OF c]
  then have c': "c \<in> set (db_cbsds d)" and cid: "cid = PStr (cb_id c)" by simp_all
  show "db_cbsds (delete_cbsd (put_all f d (lock_grants_for_cbsd d cid)) c)
           = filter (\<lambda>r. PStr (cb_id r) \<noteq> cid) (db_cbsds d)"
    using same_cbsd [OF wf c'] cid by (auto simp: delete_cbsd_def intro: filter_cong)
  let ?gs = "lock_grants_for_cbsd d cid"
  have "db_grants (put_all f d ?gs) = map (\<lambda>g. if g \<in> set ?gs then f g else g) (db_grants d)"
    using locked_grants [OF wf] f by (intro put_all_grants) auto
  then have "db_grants (delete_cbsd (put_all f d ?gs) c)
      = filter (\<lambda>g. gr_cbsd_pk g \<noteq> cb_pk c) (map (\<lambda>g. if g \<in> set ?gs then f g else g) (db_grants d))"
    by (simp add: delete_cbsd_def)
  also have "\<dots> = filter (\<lambda>g. PStr (gr_cbsd_id g) \<noteq> cid) (db_grants d)"
  proof (rule filter_other_grants)
    fix g assume g: "g \<in> set (db_grants d)"
    show "PStr (gr_cbsd_id g) \<noteq> cid \<Longrightarrow> (if g \<in> set ?gs then f g else g) = g"
      by (simp add: mem_lock_grants_for_cbsd)
    show "(gr_cbsd_pk (if g \<in> set ?gs then f g else g) \<noteq> cb_pk c) = (PStr (gr_cbsd_id g) \<noteq> cid)"
      using owner_iff [OF wf c' g] cid f by simp
  qed
  finally show "db_grants (delete_cbsd (put_all f d ?gs) c)
      = filter (\<lambda>g. PStr (gr_cbsd_id g) \<noteq> cid) (db_grants d)" .
qed

text \<open>
  C23. A deregistration in a well-formed database answers 0 exactly when the CBSD exists and
  the caller holds its certificate; then the CBSD and every grant it ever had are gone and all
  other rows stay as they were. Otherwise nothing changes, the answer is 102 or 103, and no
  identifier is echoed.
\<close>

theorem deregister_item_correct:
  assumes "db_wf d"
  shows "case deregister_item now cert d req of (r, d') \<Rightarrow>
    (if truthy (dget req ''cbsdId'') \<and> (\<exists>c. lock_cbsd_row d (dget req ''cbsdId'') = Some c
          \<and> \<not> cbsd_certificate_mismatch c cert)
     then r = Inr (drg_resp SUCCESS (Some (dget req ''cbsdId'')))
          \<and> db_cbsds d' = filter (\<lambda>c. PStr (cb_id c) \<noteq> dget req ''cbsdId'') (db_cbsds d)
          \<and> db_grants d' = filter (\<lambda>g. PStr (gr_cbsd_id g) \<noteq> dget req ''cbsdId'') (db_grants d)
     else d' = d \<and> (r = Inr (drg_resp MISSING_PARAM None) \<or> r = Inr (drg_resp INVALID_PARAM None)))"
proof -
  let ?cid = "dget req ''cbsdId''"
  show ?thesis
  proof (cases "truthy ?cid \<and> (\<exists>c. lock_cbsd_row d ?cid = Some c \<and> \<not> cbsd_certificate_mismatch c cert)")
    case False
    then show ?thesis by (auto simp: deregister_item_def Let_def split: option.split)
  next
    case True
    then obtain c where t: "truthy ?cid" and c: "lock_cbsd_row d ?cid = Some c"
      and m: "\<not> cbsd_certificate_mismatch c cert" by auto
    have "cb_state c = cbsd_state_value REGISTERED"
      using lock_cbsd_rowD [OF c] assms by (simp add: db_wf_def cbsds_wf_def)
    then have ok: "to_ok (evaluate_cbsd_transition DEREGISTER (resolve_cbsd_state (Some c))
        [(''cbsdId'', ?cid)])"
      using deregister_accepts [OF t] by (simp only: registered_resolves)
    define f where "f = (\<lambda>g. snd (apply_grant_event now g TERMINATE (terminate_payload ?cid g)))"
    have "deregister_item now cert d req = (Inr (drg_resp SUCCESS (Some ?cid)),
        delete_cbsd (put_all f d (lock_grants_for_cbsd d ?cid)) c)"
      using t c m ok by (simp add: deregister_item_def Let_def delete_after_put f_def)
    moreover note deregister_removes [OF assms c, of f]
    ultimately show ?thesis using True by (simp add: f_def)
  qed
qed

subsection \<open>An example database and environment\<close>

definition example_env :: env where
  "example_env = \<lparr>env_now = 0, env_uuid = (\<lambda>n. replicate (Suc n) CHR ''1''), env_isoformat = (\<lambda>_. None),
     env_sha1_hex = (\<lambda>s. s), env_elevation = (\<lambda>_ _. Inr 0), env_fcc_offices = [],
     env_repr = (\<lambda>_. [])\<rparr>"

definition example_db :: db where
  "example_db = empty_db\<lparr>db_cbsds := [example_cbsd], db_next_cbsd := 1,
     db_grants := [example_grant], db_next_grant := 1\<rparr>"

lemma example_db_wf: "db_wf example_db"
  by (simp add: db_wf_def cbsds_wf_def grants_wf_def no_conflicts_def example_db_def empty_db_def
      example_cbsd_def make_cbsd_id_def example_grant_in_sync in_band_def owned_def)
    (simp add: example_grant_def band_defs)

theorem relinquish_item_correct_witness:
  "fst (relinquish_item 0 None example_db ids_payload)
     = Inr (rlq_resp 0 (Some (PStr ''F/S'')) (Some (PStr ''grant/1'')))"
proof -
  have "lock_cbsd_row example_db (PStr ''F/S'') = Some example_cbsd"
    "lock_grant_row example_db (PStr ''grant/1'') (PStr ''F/S'') = Some example_grant"
    by (simp_all add: lock_cbsd_row_def lock_grant_row_def example_db_def example_cbsd_def
        example_grant_def)
  moreover have "\<not> cbsd_certificate_mismatch example_cbsd None" "\<not> gr_term example_grant"
    "\<not> grant_expired 0 example_grant"
    by (simp_all add: cbsd_certificate_mismatch_def example_cbsd_def example_grant_def
        grant_expired_def trunc_sec_def seconds_def)
  ultimately show ?thesis
    using relinquish_item_correct [OF example_db_wf, where now = 0 and cert = None and req = ids_payload]
    by (simp add: ids_payload_def case_prod_unfold)
qed

theorem deregister_item_correct_witness:
  "db_grants (snd (deregister_item 0 None example_db [(''cbsdId'', PStr ''F/S'')])) = []"
proof -
  have c: "lock_cbsd_row example_db (PStr ''F/S'') = Some example_cbsd"
    "\<not> cbsd_certificate_mismatch example_cbsd None"
    by (simp_all add: lock_cbsd_row_def example_db_def example_cbsd_def
        cbsd_certificate_mismatch_def)
  have "db_grants example_db = [example_grant]" "gr_cbsd_id example_grant = ''F/S''"
    by (simp_all add: example_db_def example_grant_def)
  with c deregister_item_correct [OF example_db_wf, where now = 0 and cert = None and req = "[(''cbsdId'', PStr ''F/S'')]"]
  show ?thesis by (simp add: case_prod_unfold)
qed

end
