(* ===== verification/Registration.thy ===== *)
theory Registration
  imports Teardown "HOL-Library.Sublist"
begin

text \<open>
  CBSD registration (services/registration_service.py): merging the request with preloaded
  conditionals and verified installer data, validation, the pending check, and the creation
  or update of the registration row. The cryptographic check of installer signatures
  (services/cpi_signature.py) and the terrain computation behind the height limit
  (services/terrain/haat.py) are parameters (\<open>reg_ext\<close>).
\<close>

record reg_ext =
  re_structural :: "pyval \<Rightarrow> int option res"
  re_decode :: "pyval \<Rightarrow> pyval res"
  re_verify :: "pyval \<Rightarrow> string option \<Rightarrow> string \<Rightarrow> string \<Rightarrow> (bool \<times> int \<times> pyval) res"
  re_haat :: "pydict \<Rightarrow> bool res"

subsection \<open>Merging\<close>

fun deep_merge :: "pydict \<Rightarrow> pydict \<Rightarrow> pydict" where
  "deep_merge base [] = base"
| "deep_merge base ((k, PDict o') # overlay) =
     deep_merge (dset base k (case map_of base k of
         Some (PDict b) \<Rightarrow> PDict (deep_merge b o') | _ \<Rightarrow> PDict o')) overlay"
| "deep_merge base ((k, v) # overlay) = deep_merge (dset base k v) overlay"

definition get_conditionals :: "db \<Rightarrow> pyval \<Rightarrow> pyval \<Rightarrow> pyval res" where
  "get_conditionals d fcc serial =
     (case List.find (\<lambda>(f, s, j). PStr f = fcc \<and> PStr s = serial) (db_conditionals d) of
        None \<Rightarrow> Inr (PDict [])
      | Some (f, s, j) \<Rightarrow> json_loads j)"

definition as_dict :: "pyval \<Rightarrow> pydict res" where
  "as_dict v = (case v of PDict d \<Rightarrow> Inr d | _ \<Rightarrow> Inl TypeError)"

text \<open>A signed field fills in a field the merged request lacks.\<close>

definition fill_signed :: "pydict \<Rightarrow> string \<Rightarrow> pydict \<Rightarrow> pydict" where
  "fill_signed signed k merged =
     (if dhas signed k \<and> \<not> truthy (dget merged k) then dset merged k (dget signed k) else merged)"

definition merge_registration :: "pydict \<Rightarrow> pyval \<Rightarrow> pyval \<Rightarrow> pydict res" where
  "merge_registration request conditionals signed =
     rbind (as_dict conditionals) (\<lambda>base.
       let merged = deep_merge base (filter (\<lambda>(k, v). v \<noteq> PNone) request) in
       case signed of
         PDict sg \<Rightarrow>
           if sg = [] then Inr merged
           else rbind (if dhas sg ''installationParam''
                  then rbind (as_dict (por (dget merged ''installationParam'') (PDict []))) (\<lambda>ex.
                       rbind (as_dict (dget sg ''installationParam'')) (\<lambda>inst.
                         Inr (dset merged ''installationParam'' (PDict (deep_merge ex inst)))))
                  else Inr merged) (\<lambda>m.
                Inr (fill_signed sg ''cbsdSerialNumber'' (fill_signed sg ''fccId'' m)))
       | v \<Rightarrow> if truthy v then Inl TypeError else Inr merged)"

subsection \<open>Checks\<close>

definition reg_missing_required_fields :: "pydict \<Rightarrow> bool" where
  "reg_missing_required_fields request =
     (\<not> (truthy (dget request ''userId'') \<and> truthy (dget request ''fccId'')
         \<and> truthy (dget request ''cbsdSerialNumber'')))"

definition cpi_public_key :: "db \<Rightarrow> pyval \<Rightarrow> string option" where
  "cpi_public_key d cpi_id =
     (if truthy cpi_id
      then map_option snd (List.find (\<lambda>(i, k). PStr i = cpi_id) (db_cpi_users d)) else None)"

text \<open>\<open>Inl\<close> of an error code or \<open>Inr\<close> of the verified payload (\<open>None\<close> without a signature).\<close>

definition verify_request_cpi :: "reg_ext \<Rightarrow> env \<Rightarrow> db \<Rightarrow> pydict \<Rightarrow> (int + pyval) res" where
  "verify_request_cpi ext en d request =
     (let cpi_sig = dget request ''cpiSignatureData'' in
      if \<not> truthy cpi_sig then Inr (Inr PNone)
      else rbind (re_structural ext cpi_sig) (\<lambda>st. case st of
          Some e \<Rightarrow> Inr (Inl e)
        | None \<Rightarrow>
            rbind (re_decode ext cpi_sig) (\<lambda>pk.
            rbind (pget_or_empty (por pk (PDict [])) ''professionalInstallerData'') (\<lambda>prof.
            rbind (pget prof ''cpiId'') (\<lambda>cpi_id.
            rbind (re_verify ext cpi_sig (cpi_public_key d cpi_id)
                     (py_str en (por (dget request ''fccId'') (PStr [])))
                     (py_str en (por (dget request ''cbsdSerialNumber'') (PStr []))))
              (\<lambda>(ok, code, payload).
                Inr (if ok then Inr payload
                     else Inl (if code \<noteq> 0 then code else INVALID_PARAM))))))))"

text \<open>\<open>re.compile("^[A-Za-z0-9_:-]+$").match\<close>: \<open>$\<close> also matches before a final newline.\<close>

definition user_id_char :: "char \<Rightarrow> bool" where
  "user_id_char c = (let n = (of_char c :: nat) in
     (48 \<le> n \<and> n \<le> 57) \<or> (65 \<le> n \<and> n \<le> 90) \<or> (97 \<le> n \<and> n \<le> 122)
     \<or> c = CHR ''_'' \<or> c = CHR '':'' \<or> c = CHR ''-'')"

definition valid_user_id :: "string \<Rightarrow> bool" where
  "valid_user_id s =
     (let t = (if s \<noteq> [] \<and> (of_char (last s) :: nat) = 10 then butlast s else s) in
      t \<noteq> [] \<and> list_all user_id_char t)"

definition valid_meas :: "pyval \<Rightarrow> bool res" where
  "valid_meas meas =
     (case meas of
        PNone \<Rightarrow> Inr True
      | PList items \<Rightarrow>
          rbind (rany (\<lambda>v. rbind (check_hash v) (\<lambda>v.
                   Inr (v \<noteq> PStr MEAS_WITHOUT_GRANT \<and> v \<noteq> PStr MEAS_WITH_GRANT))) items)
            (\<lambda>bad. Inr (\<not> bad))
      | _ \<Rightarrow> Inr False)"

text \<open>A present field has to be a number between the bounds (the upper one exclusive or not).\<close>

definition number_within :: "pydict \<Rightarrow> string \<Rightarrow> real \<Rightarrow> real \<Rightarrow> bool \<Rightarrow> bool" where
  "number_within inst k lo hi strict =
     (dget inst k = PNone \<or> (case num_of (dget inst k) of
        None \<Rightarrow> False | Some x \<Rightarrow> lo \<le> x \<and> (if strict then x < hi else x \<le> hi)))"

definition eirp_exceeds :: "pydict \<Rightarrow> pyval \<Rightarrow> real \<Rightarrow> bool res" where
  "eirp_exceeds inst category fcc_max =
     (case dget inst ''eirpCapability'' of
        PNone \<Rightarrow> Inr False
      | v \<Rightarrow> (case num_of v of
                None \<Rightarrow> Inl TypeError
              | Some x \<Rightarrow> Inr (x > fcc_max \<or> (category = PStr ''A'' \<and> x > 30))))"

definition haat_invalid :: "reg_ext \<Rightarrow> pydict \<Rightarrow> pyval \<Rightarrow> bool res" where
  "haat_invalid ext inst category =
     (if category = PStr ''A'' \<and> dget inst ''indoorDeployment'' = PBool False then
        (let height = num_of (dget inst ''height''); ht = dget inst ''heightType'' in
         if ht = PStr ''AGL'' \<and> (case height of Some h \<Rightarrow> h > 6 | None \<Rightarrow> False) then Inr True
         else if num_of (dget inst ''latitude'') \<noteq> None \<and> num_of (dget inst ''longitude'') \<noteq> None
                 \<and> height \<noteq> None \<and> (ht = PStr ''AGL'' \<or> ht = PStr ''AMSL'')
         then re_haat ext inst else Inr False)
      else Inr False)"

text \<open>Installation parameters in clear where they must come signed.\<close>

definition cleartext_invalid :: "pydict \<Rightarrow> pyval \<Rightarrow> bool" where
  "cleartext_invalid request category =
     (let clear = (dget request ''installationParam'' \<noteq> PNone) in
      if truthy (dget request ''cpiSignatureData'') then clear
      else category = PStr ''B'' \<and> clear)"

definition lookup_fcc_max :: "db \<Rightarrow> pyval \<Rightarrow> real option" where
  "lookup_fcc_max d fcc = map_option snd (List.find (\<lambda>(f, m). PStr f = fcc) (db_fcc_ids d))"

text \<open>\<open>_validate_params\<close>: whether the answer is INVALID\_PARAM.\<close>

definition params_invalid ::
    "reg_ext \<Rightarrow> env \<Rightarrow> db \<Rightarrow> pydict \<Rightarrow> pydict \<Rightarrow> bool res" where
  "params_invalid ext en d request merged =
     (let fcc = por (dget merged ''fccId'') (PStr []);
          user = por (dget merged ''userId'') (PStr []);
          serial = por (dget merged ''cbsdSerialNumber'') (PStr []);
          category = dget merged ''cbsdCategory'';
          installation = por (dget merged ''installationParam'') (PDict []) in
      if length (py_str en serial) > 64 \<or> length (py_str en fcc) > 20
         \<or> \<not> valid_user_id (py_str en user)
      then Inr True
      else (case (lookup_fcc_max d fcc, List.find (\<lambda>u. PStr u = user) (db_user_ids d)) of
          (Some fcc_max, Some _) \<Rightarrow>
            rbind (valid_meas (dget merged ''measCapability'')) (\<lambda>meas_ok.
            if \<not> meas_ok then Inr True
            else (case installation of
                PDict inst \<Rightarrow>
                  if \<not> number_within inst ''latitude'' (- 90) 90 False
                     \<or> \<not> number_within inst ''longitude'' (- 180) 180 False
                     \<or> \<not> number_within inst ''antennaAzimuth'' 0 360 True
                     \<or> dget inst ''heightType'' \<notin> set [PNone, PStr ''AGL'', PStr ''AMSL'']
                  then Inr True
                  else rbind (eirp_exceeds inst category fcc_max) (\<lambda>over.
                    if over then Inr True
                    else rbind (haat_invalid ext inst category) (\<lambda>haat.
                      if haat then Inr True
                      else if category = PStr ''B'' \<and> dget inst ''indoorDeployment'' = PBool True
                      then Inr True
                      else if cleartext_invalid request category then Inr True
                      else if category = PStr ''B'' \<and> \<not> truthy (dget request ''cpiSignatureData'')
                      then rbind (get_conditionals d fcc serial) (\<lambda>cond.
                           rbind (pget cond ''installationParam'') (\<lambda>_. Inr False))
                      else Inr False))
              | _ \<Rightarrow> Inl AttributeError))
        | _ \<Rightarrow> Inr True))"

text \<open>\<open>field not in container or container.get(field) is None\<close>.\<close>

definition field_missing :: "pyval \<Rightarrow> string \<Rightarrow> bool res" where
  "field_missing v field =
     (case v of
        PDict r \<Rightarrow> Inr (dget r field = PNone)
      | PList xs \<Rightarrow> if PStr field \<in> set xs then Inl AttributeError else Inr True
      | PStr s \<Rightarrow> if sublist field s then Inl AttributeError else Inr True
      | _ \<Rightarrow> Inl TypeError)"

definition has_pending_params :: "pydict \<Rightarrow> bool res" where
  "has_pending_params merged =
     (let category = dget merged ''cbsdCategory'';
          installation = por (dget merged ''installationParam'') (PDict []);
          air = dget merged ''airInterface'' in
      if \<not> truthy category \<or> \<not> truthy air then Inr True
      else rbind (field_missing air ''radioTechnology'') (\<lambda>m.
        if m \<or> \<not> truthy installation then Inr True
        else rany (field_missing installation)
          ([''latitude'', ''longitude'', ''height'', ''heightType'']
           @ (if category = PStr ''A'' then [''indoorDeployment'']
              else if category = PStr ''B''
              then [''antennaAzimuth'', ''antennaGain'', ''antennaBeamwidth'']
              else []))))"

subsection \<open>The item\<close>

record reg_response =
  rr_cbsd_id :: "string option"
  rr_meas_config :: "string list option"
  rr_code :: int

definition reg_resp :: "int \<Rightarrow> string option \<Rightarrow> reg_response" where
  "reg_resp code cid = \<lparr>rr_cbsd_id = cid, rr_meas_config = None, rr_code = code\<rparr>"

text \<open>Everything before the lock: a response code, or the merged registration to persist.\<close>

definition registration_checks ::
    "reg_ext \<Rightarrow> env \<Rightarrow> db \<Rightarrow> pydict \<Rightarrow> (int + pydict) res" where
  "registration_checks ext en d request =
     (if reg_missing_required_fields request then Inr (Inl MISSING_PARAM)
      else (let fcc = dget request ''fccId''; serial = dget request ''cbsdSerialNumber'' in
        if is_cbsd_blacklisted d fcc serial then Inr (Inl BLACKLISTED)
        else rbind (verify_request_cpi ext en d request) (\<lambda>v. case v of
            Inl e \<Rightarrow> Inr (Inl e)
          | Inr signed \<Rightarrow>
              rbind (get_conditionals d fcc serial) (\<lambda>conditionals.
              rbind (merge_registration request conditionals signed) (\<lambda>merged.
              rbind (params_invalid ext en d request merged) (\<lambda>invalid.
                if invalid then Inr (Inl INVALID_PARAM)
                else rbind (has_pending_params merged) (\<lambda>pending.
                  if pending then Inr (Inl PENDING)
                  else rbind (registration_blocked_by_quiet_zone en d
                                (por (dget merged ''installationParam'') (PDict []))
                                (dget merged ''cbsdCategory'')) (\<lambda>blocked.
                    Inr (if blocked then Inl INVALID_PARAM else Inr merged)))))))))"

definition terminate_grants :: "time \<Rightarrow> db \<Rightarrow> string \<Rightarrow> db" where
  "terminate_grants now d cbsd_id =
     put_all (\<lambda>g. if gr_term g then g
        else snd (apply_grant_event now g TERMINATE (terminate_payload (PStr cbsd_id) g)))
       d (lock_grants_for_cbsd d (PStr cbsd_id))"

text \<open>The critical section under the CBSD's lock.\<close>

definition persist_registration ::
    "env \<Rightarrow> string option \<Rightarrow> db \<Rightarrow> pydict \<Rightarrow> pydict \<Rightarrow> reg_response \<times> db" where
  "persist_registration en cert d request merged =
     (let fcc = py_str en (dget request ''fccId'');
          serial = py_str en (dget request ''cbsdSerialNumber'');
          cbsd_id = make_cbsd_id fcc serial in
      case lock_cbsd_row d (PStr cbsd_id) of
        Some existing \<Rightarrow>
          if cbsd_certificate_mismatch existing cert then (reg_resp INVALID_PARAM None, d)
          else (let outcome = evaluate_cbsd_transition REREGISTER
                                (resolve_cbsd_state (Some existing)) request in
                if \<not> to_ok outcome then (reg_resp (to_code outcome) None, d)
                else (let c = apply_cbsd_state
                            (existing\<lparr>cb_user_id := py_str en (dget request ''userId''),
                                      cb_category := dget merged ''cbsdCategory'',
                                      cb_reg := json_dumps (PDict merged),
                                      cb_cert := (if cert \<noteq> None then cert else cb_cert existing)\<rparr>)
                            REGISTERED in
                      (reg_resp SUCCESS (Some cbsd_id),
                       terminate_grants (env_now en) (put_cbsd d c) cbsd_id)))
      | None \<Rightarrow>
          (let outcome = evaluate_cbsd_transition REGISTER UNREGISTERED request in
           if \<not> to_ok outcome then (reg_resp (to_code outcome) None, d)
           else if \<exists>c\<in>set (db_cbsds d). cb_fcc_id c = fcc \<and> cb_serial c = serial
           then (reg_resp INVALID_PARAM None, d)
           else (reg_resp SUCCESS (Some cbsd_id),
                 add_cbsd d \<lparr>cb_pk = 0, cb_id = cbsd_id, cb_fcc_id = fcc,
                    cb_user_id = py_str en (dget request ''userId''), cb_serial = serial,
                    cb_category = dget merged ''cbsdCategory'', cb_cert = cert,
                    cb_state = cbsd_state_value REGISTERED,
                    cb_reg = json_dumps (PDict merged)\<rparr>)))"

definition register_item ::
    "reg_ext \<Rightarrow> env \<Rightarrow> string option \<Rightarrow> db \<Rightarrow> pydict \<Rightarrow> reg_response res \<times> db" where
  "register_item ext en cert d request =
     (case registration_checks ext en d request of
        Inl e \<Rightarrow> (Inl e, d)
      | Inr (Inl code) \<Rightarrow> (Inr (reg_resp code None), d)
      | Inr (Inr merged) \<Rightarrow>
          (case persist_registration en cert d request merged of (r, d') \<Rightarrow> (Inr r, d')))"

text \<open>The measurement configuration added to the successful answers of the batch.\<close>

definition ask_measurements :: "pydict \<Rightarrow> reg_response \<Rightarrow> reg_response res" where
  "ask_measurements raw resp =
     (if rr_code resp \<noteq> SUCCESS then Inr resp
      else (case por (dget raw ''measCapability'') (PList []) of
          PList meas \<Rightarrow>
            Inr (if PStr MEAS_WITHOUT_GRANT \<in> set meas
                 then resp\<lparr>rr_meas_config := Some [MEAS_WITHOUT_GRANT]\<rparr> else resp)
        | _ \<Rightarrow> Inl TypeError))"

definition process_registration ::
    "reg_ext \<Rightarrow> env \<Rightarrow> string option \<Rightarrow> db \<Rightarrow> pydict list \<Rightarrow> reg_response list res \<times> db" where
  "process_registration ext en cert d requests =
     (case run_items (register_item ext en cert) d requests of
        (Inl e, d') \<Rightarrow> (Inl e, d')
      | (Inr rs, d') \<Rightarrow>
          (if admin_flag_set d' FLAG_MEAS_REG
           then rmap (\<lambda>(raw, resp). ask_measurements raw resp) (zip requests rs)
           else Inr rs, d'))"

subsection \<open>The invariant\<close>

lemma inv_put_cbsd:
  assumes "sas_inv uuid d" and "c \<in> set (db_cbsds d)" and "cb_pk c' = cb_pk c"
    and "cb_id c' = cb_id c" and "cb_fcc_id c' = cb_fcc_id c" and "cb_serial c' = cb_serial c"
    and "cb_state c' = cbsd_state_value REGISTERED"
  shows "sas_inv uuid (put_cbsd d c')"
  using assms wf_put_cbsd [OF _ assms(2-7)] issued_frame [of uuid d "put_cbsd d c'"]
  by (simp add: sas_inv_def)

lemma inv_add_cbsd:
  assumes "sas_inv uuid d" and "cb_state c = cbsd_state_value REGISTERED"
    and "cb_id c = make_cbsd_id (cb_fcc_id c) (cb_serial c)"
    and "cb_id c \<notin> cb_id ` set (db_cbsds d)"
  shows "sas_inv uuid (add_cbsd d c)"
  using assms wf_add_cbsd [OF _ assms(2-4)] issued_frame [of uuid d "add_cbsd d c"]
  by (simp add: sas_inv_def add_cbsd_def)

lemma inv_terminate_grants: "sas_inv uuid d \<Longrightarrow> sas_inv uuid (terminate_grants now d cid)"
  unfolding terminate_grants_def
  by (rule inv_terminate_all) (auto intro: evolve_intros)

lemma apply_cbsd_state_frame [simp]:
  "cb_pk (apply_cbsd_state c s) = cb_pk c" "cb_id (apply_cbsd_state c s) = cb_id c"
  "cb_fcc_id (apply_cbsd_state c s) = cb_fcc_id c"
  "cb_serial (apply_cbsd_state c s) = cb_serial c"
  "cb_cert (apply_cbsd_state c s) = cb_cert c"
  "cb_user_id (apply_cbsd_state c s) = cb_user_id c"
  "cb_reg (apply_cbsd_state c s) = cb_reg c"
  "cb_category (apply_cbsd_state c s) = cb_category c"
  "cb_state (apply_cbsd_state c s) = cbsd_state_value s"
  by (simp_all add: apply_cbsd_state_def)

text \<open>The row an accepted update writes over the stored one.\<close>

abbreviation updated_cbsd :: "env \<Rightarrow> string option \<Rightarrow> pydict \<Rightarrow> pydict \<Rightarrow> cbsd_row \<Rightarrow> cbsd_row" where
  "updated_cbsd en cert request merged c \<equiv> apply_cbsd_state
     (c\<lparr>cb_user_id := py_str en (dget request ''userId''), cb_category := dget merged ''cbsdCategory'',
        cb_reg := json_dumps (PDict merged),
        cb_cert := (if cert \<noteq> None then cert else cb_cert c)\<rparr>) REGISTERED"

abbreviation request_cbsd_id :: "env \<Rightarrow> pydict \<Rightarrow> string" where
  "request_cbsd_id en request \<equiv>
     make_cbsd_id (py_str en (dget request ''fccId'')) (py_str en (dget request ''cbsdSerialNumber''))"

abbreviation new_cbsd :: "env \<Rightarrow> string option \<Rightarrow> pydict \<Rightarrow> pydict \<Rightarrow> cbsd_row" where
  "new_cbsd en cert request merged \<equiv>
     \<lparr>cb_pk = 0, cb_id = request_cbsd_id en request, cb_fcc_id = py_str en (dget request ''fccId''),
      cb_user_id = py_str en (dget request ''userId''),
      cb_serial = py_str en (dget request ''cbsdSerialNumber''),
      cb_category = dget merged ''cbsdCategory'', cb_cert = cert,
      cb_state = cbsd_state_value REGISTERED, cb_reg = json_dumps (PDict merged)\<rparr>"

text \<open>The critical section either refuses and writes nothing, updates the row or adds one.\<close>

lemma persist_registration_cases:
  obtains code where "persist_registration en cert d request merged = (reg_resp code None, d)"
  | c where "lock_cbsd_row d (PStr (request_cbsd_id en request)) = Some c"
      and "\<not> cbsd_certificate_mismatch c cert"
      and "persist_registration en cert d request merged =
        (reg_resp SUCCESS (Some (request_cbsd_id en request)),
         terminate_grants (env_now en) (put_cbsd d (updated_cbsd en cert request merged c))
           (request_cbsd_id en request))"
  | "lock_cbsd_row d (PStr (request_cbsd_id en request)) = None"
    and "persist_registration en cert d request merged =
        (reg_resp SUCCESS (Some (request_cbsd_id en request)),
         add_cbsd d (new_cbsd en cert request merged))"
proof (cases "lock_cbsd_row d (PStr (request_cbsd_id en request))")
  case None
  let ?out = "evaluate_cbsd_transition REGISTER UNREGISTERED request"
  show ?thesis
  proof (cases "to_ok ?out \<and> \<not> (\<exists>c\<in>set (db_cbsds d). cb_fcc_id c = py_str en (dget request ''fccId'')
      \<and> cb_serial c = py_str en (dget request ''cbsdSerialNumber''))")
    case True
    then show ?thesis using None by (intro that(3)) (auto simp add: persist_registration_def Let_def)
  next
    case False
    then show ?thesis using None
      by (intro that(1) [of "if to_ok ?out then INVALID_PARAM else to_code ?out"])
        (auto simp add: persist_registration_def Let_def)
  qed
next
  case (Some c)
  let ?out = "evaluate_cbsd_transition REREGISTER (resolve_cbsd_state (Some c)) request"
  show ?thesis
  proof (cases "to_ok ?out \<and> \<not> cbsd_certificate_mismatch c cert")
    case True
    then show ?thesis using Some
      by (intro that(2) [of c]) (auto simp add: persist_registration_def Let_def)
  next
    case False
    then show ?thesis using Some
      by (intro that(1) [of "if cbsd_certificate_mismatch c cert then INVALID_PARAM else to_code ?out"])
        (auto simp add: persist_registration_def Let_def)
  qed
qed

lemma absent_cbsd: "lock_cbsd_row d (PStr i) = None \<Longrightarrow> i \<notin> cb_id ` set (db_cbsds d)"
  using lock_cbsd_row_None by blast

lemma persist_registration_inv:
  assumes "sas_inv uuid d"
  shows "sas_inv uuid (snd (persist_registration en cert d request merged))"
proof (cases rule: persist_registration_cases [of en cert d request merged])
  case 1
  with assms show ?thesis by simp
next
  case (2 c)
  from lock_cbsd_rowD [OF 2(1)] have c: "c \<in> set (db_cbsds d)" by simp
  show ?thesis
    unfolding 2(3) snd_conv
    by (intro inv_terminate_grants inv_put_cbsd [OF assms c]) simp_all
next
  case 3
  show ?thesis
    unfolding 3(2) snd_conv
    by (intro inv_add_cbsd [OF assms]) (use absent_cbsd [OF 3(1)] in simp_all)
qed

lemma register_item_inv:
  "sas_inv uuid d \<Longrightarrow> sas_inv uuid (snd (register_item ext en cert d request))"
  using persist_registration_inv
  by (auto simp: register_item_def case_prod_unfold split: sum.split)

interpretation register_batch: batch_service "register_item ext en cert" "sas_inv uuid"
  by unfold_locales (rule register_item_inv)

lemma process_registration_inv:
  assumes "sas_inv uuid d"
  shows "sas_inv uuid (snd (process_registration ext en cert d requests))"
  using register_batch.batch_inv [OF assms, of ext en cert requests]
  by (auto simp: process_registration_def split: sum.split prod.split)

subsection \<open>Properties\<close>

lemma terminate_grants_rows:
  assumes inv: "sas_inv uuid d" and cid: "cid \<noteq> []"
  shows "db_grants (terminate_grants now d cid) =
    map (\<lambda>g. if gr_cbsd_id g = cid \<and> \<not> gr_term g \<and> \<not> grant_expired now g
             then apply_grant_state g TERMINATED else g) (db_grants d)"
proof -
  let ?f = "\<lambda>g. if gr_term g then g
        else snd (apply_grant_event now g TERMINATE (terminate_payload (PStr cid) g))"
  note wf = sas_invD(1) [OF inv]
  have "db_grants (terminate_grants now d cid) = map (\<lambda>g. if g \<in> set (lock_grants_for_cbsd d (PStr cid))
      then ?f g else g) (db_grants d)"
    unfolding terminate_grants_def
    by (rule put_all_grants) (use locked_grants [OF wf] in auto)
  also have "\<dots> = map (\<lambda>g. if gr_cbsd_id g = cid \<and> \<not> gr_term g \<and> \<not> grant_expired now g
             then apply_grant_state g TERMINATED else g) (db_grants d)"
  proof (rule map_cong [OF refl])
    fix g assume g: "g \<in> set (db_grants d)"
    have p: "complete_payload (ts_required (GRANT_TRANSITIONS TERMINATE)) (terminate_payload (PStr cid) g)"
      using cid sas_invD(2) [OF inv] g
      by (simp add: complete_payload_def terminate_payload_def ids_issued_def)
    have "TERMINATE \<in> {RELINQUISH, TERMINATE}" by simp
    note close = close_event [OF grants_wfD(1) [OF wf g] _ this p, where now = now]
    show "(if g \<in> set (lock_grants_for_cbsd d (PStr cid)) then ?f g else g) =
        (if gr_cbsd_id g = cid \<and> \<not> gr_term g \<and> \<not> grant_expired now g
             then apply_grant_state g TERMINATED else g)"
      using g close(1) by (auto simp: mem_lock_grants_for_cbsd)
  qed
  finally show ?thesis .
qed

lemma find_unique:
  assumes "distinct (map f xs)" and "x \<in> set xs"
  shows "List.find (\<lambda>y. f y = f x) xs = Some x"
  using assms by (induction xs) force+

lemma lock_cbsd_row_mem:
  assumes "cbsds_wf d" and "c \<in> set (db_cbsds d)"
  shows "lock_cbsd_row d (PStr (cb_id c)) = Some c"
  using find_unique [of cb_id "db_cbsds d" c] assms by (simp add: lock_cbsd_row_def cbsds_wf_def)

text \<open>What an accepted registration leaves behind.\<close>

definition registered_as :: "env \<Rightarrow> string option \<Rightarrow> pydict \<Rightarrow> pydict \<Rightarrow> string \<Rightarrow> db \<Rightarrow> db \<Rightarrow> bool" where
  "registered_as en cert request merged cid d d' = (
     (\<exists>c. lock_cbsd_row d' (PStr cid) = Some c \<and> cb_state c = cbsd_state_value REGISTERED
        \<and> cb_user_id c = py_str en (dget request ''userId'')
        \<and> cb_reg c = json_dumps (PDict merged) \<and> (cert \<noteq> None \<longrightarrow> cb_cert c = cert))
     \<and> filter (\<lambda>c. cb_id c \<noteq> cid) (db_cbsds d') = filter (\<lambda>c. cb_id c \<noteq> cid) (db_cbsds d)
     \<and> db_grants d' = map (\<lambda>g. if gr_cbsd_id g = cid \<and> \<not> gr_term g
           \<and> \<not> grant_expired (env_now en) g then apply_grant_state g TERMINATED else g) (db_grants d))"

lemma filter_put_other:
  assumes "\<And>r. r \<in> set xs \<Longrightarrow> k r = k0 \<Longrightarrow> f r = i" and "f c = i"
  shows "filter (\<lambda>r. f r \<noteq> i) (map (\<lambda>x. if k x = k0 then c else x) xs) = filter (\<lambda>r. f r \<noteq> i) xs"
  using assms by (induction xs) auto

lemma registered_update:
  assumes inv: "sas_inv uuid d" and c: "lock_cbsd_row d (PStr cid) = Some c" and "cid \<noteq> []"
  shows "registered_as en cert request merged cid d
    (terminate_grants (env_now en) (put_cbsd d (updated_cbsd en cert request merged c)) cid)"
proof -
  define c' where "c' = updated_cbsd en cert request merged c"
  have c': "cb_pk c' = cb_pk c" "cb_id c' = cb_id c" "cb_fcc_id c' = cb_fcc_id c"
    "cb_serial c' = cb_serial c" "cb_state c' = cbsd_state_value REGISTERED"
    "cb_user_id c' = py_str en (dget request ''userId'')" "cb_reg c' = json_dumps (PDict merged)"
    "cert \<noteq> None \<longrightarrow> cb_cert c' = cert"
    by (auto simp: c'_def)
  let ?d = "put_cbsd d c'"
  from lock_cbsd_rowD [OF c] have mem: "c \<in> set (db_cbsds d)" and id: "cid = cb_id c" by simp_all
  have inv': "sas_inv uuid ?d" by (rule inv_put_cbsd [OF inv mem]) (simp_all add: c')
  have frame: "db_cbsds (terminate_grants (env_now en) ?d cid) = db_cbsds ?d"
    by (simp add: terminate_grants_def)
  have "c' \<in> set (db_cbsds ?d)" by (rule cbsd_table.mem_put_new [OF mem]) (simp add: c')
  then have "lock_cbsd_row ?d (PStr cid) = Some c'"
    using lock_cbsd_row_mem [of ?d c'] inv' id c'(2) by (simp add: sas_inv_def db_wf_def)
  then have row: "lock_cbsd_row (terminate_grants (env_now en) ?d cid) (PStr cid) = Some c'"
    by (simp only: lock_cbsd_row_def frame)
  have "cb_id r = cid" if "r \<in> set (db_cbsds d)" "cb_pk r = cb_pk c" for r
    using cbsd_table.unique_key [of d r c] that mem inv id
    by (simp add: sas_inv_def db_wf_def cbsds_wf_def)
  moreover have "filter (\<lambda>c. cb_id c \<noteq> cid) (map (\<lambda>x. if cb_pk x = cb_pk c then c' else x) xs)
      = filter (\<lambda>c. cb_id c \<noteq> cid) xs"
    if "\<And>r. r \<in> set xs \<Longrightarrow> cb_pk r = cb_pk c \<Longrightarrow> cb_id r = cid" for xs
    using filter_put_other [of xs cb_pk "cb_pk c" cb_id cid c'] that id c'(2) by simp
  ultimately have others: "filter (\<lambda>c. cb_id c \<noteq> cid) (db_cbsds ?d)
      = filter (\<lambda>c. cb_id c \<noteq> cid) (db_cbsds d)"
    unfolding cbsd_table.rows_put c'(1) by blast
  have "registered_as en cert request merged cid d (terminate_grants (env_now en) ?d cid)"
    unfolding registered_as_def frame
    by (intro conjI exI [of _ c'])
      (simp_all only: row others c'(1-7) terminate_grants_rows [OF inv' assms(3)] put_cbsd_frame,
        rule c'(8))
  then show ?thesis by (simp only: c'_def)
qed

lemma registered_add:
  assumes inv: "sas_inv uuid d" and c: "lock_cbsd_row d (PStr cid) = None"
    and cid: "cid = request_cbsd_id en request"
  shows "registered_as en cert request merged cid d (add_cbsd d (new_cbsd en cert request merged))"
proof -
  let ?d = "add_cbsd d (new_cbsd en cert request merged)"
  have inv': "sas_inv uuid ?d"
    by (rule inv_add_cbsd [OF inv]) (use absent_cbsd [OF c] cid in simp_all)
  let ?c = "new_cbsd en cert request merged\<lparr>cb_pk := db_next_cbsd d\<rparr>"
  have "?c \<in> set (db_cbsds ?d)" "cb_id ?c = cid" by (simp_all add: add_cbsd_def cid)
  then have row: "lock_cbsd_row ?d (PStr cid) = Some ?c"
    using lock_cbsd_row_mem [of ?d ?c] inv' by (simp add: sas_inv_def db_wf_def)
  have "gr_cbsd_id g \<noteq> cid" if "g \<in> set (db_grants d)" for g
    using grants_wfD(3) [OF sas_invD(1) [OF inv] that] absent_cbsd [OF c] by (force simp: owned_def)
  then have "db_grants d = map (\<lambda>g. if gr_cbsd_id g = cid \<and> \<not> gr_term g
           \<and> \<not> grant_expired (env_now en) g then apply_grant_state g TERMINATED else g) (db_grants d)"
    by (intro map_idI [symmetric]) simp
  then show ?thesis
    unfolding registered_as_def using row cid by (simp add: add_cbsd_def)
qed

text \<open>
  C22. A registration item either answers without a cbsdId and leaves the database as it was,
  or answers 0 with the CBSD's identifier: then no other certificate was bound to that CBSD,
  the CBSD's only row is REGISTERED and carries the merged registration and the caller's
  certificate, every live grant of the CBSD is TERMINATED, and all other CBSDs and grants are
  unchanged.
\<close>

theorem register_item_correct:
  assumes "sas_inv uuid d" and "register_item ext en cert d request = (Inr resp, d')"
  shows "(rr_cbsd_id resp = None \<and> d' = d) \<or>
    (\<exists>cid merged. cid = make_cbsd_id (py_str en (dget request ''fccId''))
                              (py_str en (dget request ''cbsdSerialNumber''))
       \<and> resp = reg_resp SUCCESS (Some cid)
       \<and> registration_checks ext en d request = Inr (Inr merged)
       \<and> (\<forall>c. lock_cbsd_row d (PStr cid) = Some c \<longrightarrow> \<not> cbsd_certificate_mismatch c cert)
       \<and> registered_as en cert request merged cid d d')"
proof (cases "registration_checks ext en d request")
  case (Inl e)
  with assms(2) show ?thesis by (simp add: register_item_def)
next
  case (Inr v)
  show ?thesis
  proof (cases v)
    case (Inl code)
    with Inr assms(2) show ?thesis by (auto simp: register_item_def reg_resp_def)
  next
    case m: (Inr merged)
    have p: "persist_registration en cert d request merged = (resp, d')"
      using assms(2) Inr m by (simp add: register_item_def case_prod_unfold prod_eq_iff)
    have ne: "request_cbsd_id en request \<noteq> []" by (simp add: make_cbsd_id_def)
    show ?thesis
    proof (cases rule: persist_registration_cases [of en cert d request merged])
      case 1
      with p show ?thesis by (auto simp: reg_resp_def)
    next
      case (2 c)
      with p have r: "resp = reg_resp SUCCESS (Some (request_cbsd_id en request))"
        and d': "d' = terminate_grants (env_now en) (put_cbsd d (updated_cbsd en cert request merged c))
           (request_cbsd_id en request)" by simp_all
      have free: "\<forall>c. lock_cbsd_row d (PStr (request_cbsd_id en request)) = Some c
          \<longrightarrow> \<not> cbsd_certificate_mismatch c cert"
        using 2(2) unfolding 2(1) by simp
      show ?thesis
        using r free registered_update [OF assms(1) 2(1) ne, of en cert request merged] Inr
        unfolding d' m by blast
    next
      case 3
      with p have r: "resp = reg_resp SUCCESS (Some (request_cbsd_id en request))"
        and d': "d' = add_cbsd d (new_cbsd en cert request merged)" by simp_all
      have free: "\<forall>c. lock_cbsd_row d (PStr (request_cbsd_id en request)) = Some c
          \<longrightarrow> \<not> cbsd_certificate_mismatch c cert"
        unfolding 3(1) by simp
      show ?thesis
        using r free registered_add [OF assms(1) 3(1) refl, of cert merged] Inr
        unfolding d' m by blast
    qed
  qed
qed

text \<open>A complete category A registration of a CBSD that already holds a grant.\<close>

definition example_reg_ext :: reg_ext where
  "example_reg_ext = \<lparr>re_structural = (\<lambda>_. Inr None), re_decode = (\<lambda>v. Inr v),
     re_verify = (\<lambda>v _ _ _. Inr (True, 0, v)), re_haat = (\<lambda>_. Inr False)\<rparr>"

definition example_reg_db :: db where
  "example_reg_db = example_db\<lparr>db_fcc_ids := [(''F'', 47)], db_user_ids := [''U''],
     db_injected := [(''quiet_zone_config'', JDoc (PDict [(''tableMountainEnabled'', PBool False),
        (''fccOfficesEnabled'', PBool False)]))]\<rparr>"

definition example_registration :: pydict where
  "example_registration = [(''fccId'', PStr ''F''), (''cbsdSerialNumber'', PStr ''S''),
     (''userId'', PStr ''U''), (''cbsdCategory'', PStr ''A''),
     (''airInterface'', PDict [(''radioTechnology'', PStr ''E_UTRA'')]),
     (''installationParam'', PDict [(''latitude'', PInt 1), (''longitude'', PInt 1),
        (''height'', PInt 3), (''heightType'', PStr ''AGL''), (''indoorDeployment'', PBool True)])]"

lemma example_reg_inv: "sas_inv (\<lambda>n. replicate (Suc n) CHR ''1'') example_reg_db"
proof -
  have "db_wf example_reg_db"
    using example_db_wf db_wf_frame [of example_reg_db example_db]
    by (simp add: example_reg_db_def)
  then show ?thesis
    by (simp add: sas_inv_def ids_issued_def example_reg_db_def example_db_def example_grant_def)
qed

lemma example_checks:
  assumes tables: "db_fcc_ids d = [(''F'', 47)]" "db_user_ids d = [''U'']" "db_conditionals d = []"
    "db_black_fcc d = []" "db_black_serial d = []" "db_injected d = db_injected example_reg_db"
  shows "registration_checks example_reg_ext example_env d example_registration
     = Inr (Inr example_registration)"
proof -
  let ?r = example_registration
  have cond: "get_conditionals d (PStr ''F'') (PStr ''S'') = Inr (PDict [])"
    by (simp add: get_conditionals_def tables)
  have merge: "merge_registration ?r (PDict []) PNone = Inr ?r"
    by (simp add: merge_registration_def as_dict_def example_registration_def Let_def)
  have valid: "params_invalid example_reg_ext example_env d ?r ?r = Inr False"
    by (simp add: params_invalid_def example_registration_def Let_def por_def valid_user_id_def
        user_id_char_def lookup_fcc_max_def tables valid_meas_def number_within_def
        eirp_exceeds_def haat_invalid_def cleartext_invalid_def)
  have pend: "has_pending_params ?r = Inr False"
    by (simp add: has_pending_params_def example_registration_def Let_def por_def field_missing_def)
  have quiet: "registration_blocked_by_quiet_zone example_env d
      (por (dget ?r ''installationParam'') (PDict [])) (dget ?r ''cbsdCategory'') = Inr False"
  proof -
    have "\<not> in_nrao_nrro_quiet_zone 1 1" by (simp add: in_nrao_nrro_quiet_zone_def NRQZ_SOUTH_def)
    moreover have "get_qpr_config d =
        \<lparr>qc_table_mountain = False, qc_fcc_offices = False, qc_areas = True\<rparr>"
      by (simp add: get_qpr_config_def rows_of_kind_def tables example_reg_db_def bool_default_True_def)
    moreover have "configurable_areas d = []"
      by (simp add: configurable_areas_def load_kind_def rows_of_kind_def tables example_reg_db_def)
    ultimately show ?thesis
      by (simp add: registration_blocked_by_quiet_zone_def example_registration_def por_def
          quiet_zone_blocks_location_def blocks_or_unavailable_def in_configurable_area_def)
  qed
  have "dget ?r ''fccId'' = PStr ''F''" "dget ?r ''cbsdSerialNumber'' = PStr ''S''"
    "dget ?r ''cpiSignatureData'' = PNone" "\<not> reg_missing_required_fields ?r"
    by (simp_all add: example_registration_def reg_missing_required_fields_def)
  then show ?thesis
    using cond merge valid pend quiet
    by (simp add: registration_checks_def Let_def verify_request_cpi_def is_cbsd_blacklisted_def
        is_fcc_id_blacklisted_def tables)
qed

lemma example_reg_tables:
  "db_fcc_ids example_reg_db = [(''F'', 47)]" "db_user_ids example_reg_db = [''U'']"
  "db_conditionals example_reg_db = []" "db_black_fcc example_reg_db = []"
  "db_black_serial example_reg_db = []"
  by (simp_all add: example_reg_db_def example_db_def empty_db_def)

theorem register_item_correct_witness:
  "db_grants (snd (register_item example_reg_ext example_env None example_reg_db example_registration))
     = [apply_grant_state example_grant TERMINATED]"
proof -
  let ?item = "register_item example_reg_ext example_env None example_reg_db example_registration"
  have row: "lock_cbsd_row example_reg_db (PStr ''F/S'') = Some example_cbsd"
    by (simp add: lock_cbsd_row_def example_reg_db_def example_db_def example_cbsd_def)
  have ids: "py_str example_env (dget example_registration ''fccId'') = ''F''"
    "py_str example_env (dget example_registration ''cbsdSerialNumber'') = ''S''"
    by (simp_all add: example_registration_def)
  have "resolve_cbsd_state (Some example_cbsd) = REGISTERED"
    by (rule registered_resolves) (simp add: example_cbsd_def)
  moreover have "to_ok (evaluate_cbsd_transition REREGISTER REGISTERED example_registration)"
    by (simp add: evaluate_cbsd_transition_def Let_def missing_Nil complete_payload_def
        example_registration_def)
  moreover have "\<not> cbsd_certificate_mismatch example_cbsd None"
    by (simp add: cbsd_certificate_mismatch_def example_cbsd_def)
  ultimately have r: "fst ?item = Inr (reg_resp SUCCESS (Some ''F/S''))"
    by (simp add: register_item_def example_checks [OF example_reg_tables] persist_registration_def Let_def ids
        make_cbsd_id_def row)
  then have "?item = (Inr (reg_resp SUCCESS (Some ''F/S'')), snd ?item)" by (simp add: prod_eq_iff)
  from register_item_correct [OF example_reg_inv this]
  have "db_grants (snd ?item) = map (\<lambda>g. if gr_cbsd_id g = ''F/S'' \<and> \<not> gr_term g
      \<and> \<not> grant_expired 0 g then apply_grant_state g TERMINATED else g) (db_grants example_reg_db)"
    by (auto simp: reg_resp_def registered_as_def example_env_def)
  then show ?thesis
    by (simp add: example_reg_db_def example_db_def)
      (simp add: example_grant_def grant_expired_def trunc_sec_def seconds_def)
qed

end
