(* ===== verification/Timestamps.thy ===== *)
theory Timestamps
  imports Sas_Prelude
begin

text \<open>
  Timestamps in responses and stored documents: \<open>strftime("%Y-%m-%dT%H:%M:%SZ")\<close> of a UTC
  time, the proleptic Gregorian date behind it, and the round trip through
  \<open>strptime\<close>, which every stored expiry relies on. The formatters of the services
  (services/dpa\_neighborhood.py, services/heartbeat\_service.py) are instances.
\<close>

subsection \<open>Dates\<close>

text \<open>The year of an ordinal (day 1 is the first of January of year 1): an estimate, adjusted.\<close>

definition year_of_ordinal :: "int \<Rightarrow> int" where
  "year_of_ordinal n =
     (let y = n * 400 div 146097 + 1 in
      if days_before_year (y + 1) < n then y + 1
      else if n \<le> days_before_year y then y - 1 else y)"

definition month_of_day :: "int \<Rightarrow> int \<Rightarrow> int" where
  "month_of_day y k =
     int (length (takeWhile (\<lambda>m. days_before_month y m < k) [1, 2, 3, 4, 5, 6, 7, 8, 9, 10, 11, 12]))"

definition two_digits :: "int \<Rightarrow> string" where
  "two_digits n = [digit_char (nat (n div 10)), digit_char (nat (n mod 10))]"

definition strftime_z :: "time \<Rightarrow> string" where
  "strftime_z t =
     (let s = t div 1000000; n = s div 86400 + 719163; y = year_of_ordinal n;
          k = n - days_before_year y; mo = month_of_day y k; d = k - days_before_month y mo;
          r = s mod 86400 in
      show_int y @ ''-'' @ two_digits mo @ ''-'' @ two_digits d @ ''T'' @
      two_digits (r div 3600) @ '':'' @ two_digits (r div 60 mod 60) @ '':'' @
      two_digits (r mod 60) @ ''Z'')"

definition fmt_transmit_expire :: "time \<Rightarrow> string" where
  "fmt_transmit_expire dt = strftime_z (trunc_sec dt)"

lemma strftime_trunc [simp]: "strftime_z (trunc_sec t) = strftime_z t"
proof -
  have "trunc_sec t div 1000000 = t div 1000000" by (simp add: trunc_sec_div)
  then show ?thesis by (simp only: strftime_z_def)
qed

lemma div_bounds: "0 < (m::int) \<Longrightarrow> m * (n div m) \<le> n \<and> n < m * (n div m) + m"
  using pos_mod_bound [of m n] pos_mod_sign [of m n] mult_div_mod_eq [of m n] by linarith

lemma div_step: "0 < (m::int) \<Longrightarrow> n div m = (n - 1) div m + (if n mod m = 0 then 1 else 0)"
proof -
  assume m: "0 < m"
  show ?thesis
  proof (cases "n mod m = 0")
    case True
    then obtain q where q: "n = m * q" by auto
    have "(m * q - 1) div m = q - 1"
      using m by (intro int_div_pos_eq [where r = "m - 1"]) (auto simp: algebra_simps)
    with q m show ?thesis by simp
  next
    case False
    have "(n - 1) div m = n div m"
      using m False pos_mod_bound [of m n] pos_mod_sign [of m n] mult_div_mod_eq [of m n]
      by (intro int_div_pos_eq [where r = "n mod m - 1"]) linarith+
    with False show ?thesis by simp
  qed
qed

lemma year_of_ordinal_bounds:
  "days_before_year (year_of_ordinal n) < n \<and> n \<le> days_before_year (year_of_ordinal n + 1)"
proof -
  define z where "z = n * 400 div 146097"
  have z: "146097 * z \<le> n * 400" "n * 400 < 146097 * z + 146097"
    using div_bounds [of 146097 "n * 400"] unfolding z_def by simp_all
  have bound: "400 * days_before_year y \<le> 146097 * (y - 1) + 396"
    "146097 * (y - 1) - 700 \<le> 400 * days_before_year y" for y
    using div_bounds [of 4 "y - 1"] div_bounds [of 100 "y - 1"] div_bounds [of 400 "y - 1"]
    unfolding days_before_year_def Let_def by simp_all
  have y: "year_of_ordinal n = (if days_before_year (z + 2) < n then z + 2
      else if n \<le> days_before_year (z + 1) then z else z + 1)"
    by (simp add: year_of_ordinal_def Let_def z_def add.assoc)
  have "n \<le> days_before_year (z + 3)" using bound(2) [of "z + 3"] z by simp
  moreover have "days_before_year z < n" using bound(1) [of z] z by simp
  ultimately show ?thesis unfolding y by (simp add: add.assoc)
qed

lemma year_length: "days_before_year (y + 1) - days_before_year y = (if leap y then 366 else 365)"
proof -
  have m: "y mod 100 = 0 \<Longrightarrow> y mod 4 = 0" "y mod 400 = 0 \<Longrightarrow> y mod 100 = 0"
    using dvd_trans [of 4 100 y] dvd_trans [of 100 400 y] by (simp_all add: dvd_eq_mod_eq_0 [symmetric])
  have nxt: "days_before_year (y + 1) = y * 365 + y div 4 - y div 100 + y div 400"
    by (simp add: days_before_year_def)
  have cur: "days_before_year y = (y - 1) * 365 + (y - 1) div 4 - (y - 1) div 100 + (y - 1) div 400"
    by (simp add: days_before_year_def Let_def)
  have diff: "A = y * 365 + a' - b' + c' \<Longrightarrow> B = (y - 1) * 365 + a - b + c \<Longrightarrow>
      a' = a + p \<Longrightarrow> b' = b + q \<Longrightarrow> c' = c + r \<Longrightarrow> A - B = 365 + p - q + r"
    for A B a b c a' b' c' p q r :: int by simp
  have bool: "(R \<Longrightarrow> Q) \<Longrightarrow> (Q \<Longrightarrow> P) \<Longrightarrow> 365 + (if P then 1 else 0) - (if Q then 1 else 0)
      + (if R then 1 else (0::int)) = (if P \<and> (\<not> Q \<or> R) then 366 else 365)" for P Q R
    by (cases P; cases Q; cases R) simp_all
  have "days_before_year (y + 1) - days_before_year y = 365
      + (if y mod 4 = 0 then 1 else 0) - (if y mod 100 = 0 then 1 else 0)
      + (if y mod 400 = 0 then 1 else 0)"
    by (rule diff [OF nxt cur div_step div_step div_step]) simp_all
  also have "\<dots> = (if leap y then 366 else 365)"
    unfolding leap_def by (rule bool) (fact m)+
  finally show ?thesis .
qed

lemma months:
  "days_before_month y 1 = 0" "days_before_month y 2 = 31"
  "days_before_month y 3 = (if leap y then 60 else 59)"
  "days_before_month y 4 = (if leap y then 91 else 90)"
  "days_before_month y 5 = (if leap y then 121 else 120)"
  "days_before_month y 6 = (if leap y then 152 else 151)"
  "days_before_month y 7 = (if leap y then 182 else 181)"
  "days_before_month y 8 = (if leap y then 213 else 212)"
  "days_before_month y 9 = (if leap y then 244 else 243)"
  "days_before_month y 10 = (if leap y then 274 else 273)"
  "days_before_month y 11 = (if leap y then 305 else 304)"
  "days_before_month y 12 = (if leap y then 335 else 334)"
  by (simp_all add: days_before_month_def month_lengths_def)

lemma month_of_day_range:
  assumes "1 \<le> k" and "k \<le> (if leap y then 366 else 365)"
  shows "1 \<le> month_of_day y k \<and> month_of_day y k \<le> 12
    \<and> days_before_month y (month_of_day y k) < k
    \<and> k - days_before_month y (month_of_day y k) \<le> days_in_month y (month_of_day y k)"
proof (cases "leap y")
  case True
  with assms show ?thesis
    by (simp add: month_of_day_def months days_in_month_def month_lengths_def)
next
  case False
  with assms show ?thesis
    by (simp add: month_of_day_def months days_in_month_def month_lengths_def)
qed

lemma days_in_month_le: "1 \<le> m \<and> m \<le> 12 \<Longrightarrow> days_in_month y m \<le> 31"
proof -
  assume "1 \<le> m \<and> m \<le> 12"
  then have "month_lengths y ! nat (m - 1) \<in> set (month_lengths y)"
    by (intro nth_mem) (simp add: month_lengths_def, linarith)
  then show ?thesis by (auto simp: days_in_month_def month_lengths_def)
qed

subsection \<open>Digits\<close>

lemma of_char_digit [simp]: "n < 10 \<Longrightarrow> (of_char (digit_char n) :: nat) = 48 + n"
  unfolding digit_char_def by (subst of_char_of) (simp add: take_bit_nat_def)

lemma digit_char_simps [simp]:
  assumes "n < 10"
  shows "is_digit (digit_char n)" and "digit_val (digit_char n) = int n"
  using assms of_nat_of_char [of "digit_char n", where ?'a = int]
  by (simp_all add: is_digit_def digit_val_def)

lemma not_digits [simp]:
  "\<not> is_digit CHR ''-''" "\<not> is_digit CHR ''T''" "\<not> is_digit CHR '':''" "\<not> is_digit CHR ''Z''"
  by (simp_all add: is_digit_def)

lemma read_two:
  assumes "0 \<le> n" and "n < 100" and "s = [] \<or> \<not> is_digit (hd s)"
  shows "read_field 1 2 (two_digits n @ s) = Some (n, s)"
proof -
  have d: "nat (n div 10) < 10" "nat (n mod 10) < 10" using assms(1,2) by linarith+
  have s: "takeWhile is_digit s = []" "dropWhile is_digit s = s"
    using assms(3) by (cases s; simp)+
  have "0 \<le> n div 10" using assms by simp
  then have "int (nat (n div 10)) * 10 + int (nat (n mod 10)) = n" using assms by simp
  then show ?thesis
    using d s by (simp add: read_field_def two_digits_def read_nat_def)
qed

lemma show_four:
  assumes "1000 \<le> n" and "n \<le> 9999"
  shows "show_nat n = [digit_char (n div 1000), digit_char (n div 100 mod 10),
    digit_char (n div 10 mod 10), digit_char (n mod 10)]"
proof -
  have e: "n div 10 div 10 = n div 100" "n div 10 div 10 div 10 = n div 1000"
    by (simp_all add: div_mult2_eq [symmetric])
  have "\<not> n < 10" "\<not> n div 10 < 10" "\<not> n div 10 div 10 < 10" "n div 10 div 10 div 10 < 10"
    using assms by auto
  then show ?thesis
    using e show_nat.simps [of n] show_nat.simps [of "n div 10"] show_nat.simps [of "n div 10 div 10"]
      show_nat.simps [of "n div 10 div 10 div 10"] by simp
qed

lemma read_four_digits:
  assumes "a < 10" "b < 10" "c < 10" "d < 10" and "s = [] \<or> \<not> is_digit (hd s)"
  shows "read_field 4 4 ([digit_char a, digit_char b, digit_char c, digit_char d] @ s)
    = Some (((int a * 10 + int b) * 10 + int c) * 10 + int d, s)"
proof -
  have "takeWhile is_digit s = []" "dropWhile is_digit s = s"
    using assms(5) by (cases s; simp)+
  with assms show ?thesis by (simp add: read_field_def read_nat_def)
qed

lemma four_digits:
  "((int (n div 1000) * 10 + int (n div 100 mod 10)) * 10 + int (n div 10 mod 10)) * 10
      + int (n mod 10) = int n"
proof -
  have e: "n div 10 div 10 div 10 = n div 1000" "n div 10 div 10 = n div 100"
    by (simp_all add: div_mult2_eq [symmetric])
  have gen: "q * 10 + r = n \<Longrightarrow> p * 10 + r1 = q \<Longrightarrow> t * 10 + r2 = p \<Longrightarrow>
      ((t * 10 + r2) * 10 + r1) * 10 + r = n" for q p t r r1 r2 :: nat by simp
  have "((n div 10 div 10 div 10 * 10 + n div 10 div 10 mod 10) * 10 + n div 10 mod 10) * 10
      + n mod 10 = n"
    by (rule gen) (rule div_mult_mod_eq)+
  then have "((n div 1000 * 10 + n div 100 mod 10) * 10 + n div 10 mod 10) * 10 + n mod 10 = n"
    unfolding e(1) unfolding e(2) .
  then show ?thesis by (metis of_nat_add of_nat_mult of_nat_numeral)
qed

lemma read_four:
  assumes "1000 \<le> y" and "y \<le> 9999" and "s = [] \<or> \<not> is_digit (hd s)"
  shows "read_field 4 4 (show_int y @ s) = Some (y, s)"
proof -
  have y: "show_int y = show_nat (nat y)" "int (nat y) = y" "1000 \<le> nat y" "nat y \<le> 9999"
    using assms by (simp_all add: show_int_def nat_le_iff)
  have "nat y div 1000 < 10" using y(4) by simp
  then show ?thesis
    unfolding y(1) show_four [OF y(3,4)]
    using read_four_digits [OF _ _ _ _ assms(3)] four_digits [of "nat y"] y(2) by simp
qed

lemma read_sep_here [simp]: "upper_char c = c \<Longrightarrow> read_sep c (c # s) = Some s"
  by (simp add: read_sep_def)

lemma upper_seps [simp]:
  "upper_char CHR ''-'' = CHR ''-''" "upper_char CHR ''T'' = CHR ''T''"
  "upper_char CHR '':'' = CHR '':''" "upper_char CHR ''Z'' = CHR ''Z''"
  by (simp_all add: upper_char_def)

subsection \<open>The round trip\<close>

lemma day_seconds:
  assumes "s = t div 1000000" and "n = s div 86400 + 719163" and "r = s mod 86400"
  shows "seconds ((n - 719163) * 86400 + r div 3600 * 3600 + r div 60 mod 60 * 60 + r mod 60)
    = trunc_sec t"
proof -
  have "r div 60 div 60 = r div 3600" by (simp add: zdiv_zmult2_eq [symmetric])
  then have "r div 3600 * 60 + r div 60 mod 60 = r div 60"
    using div_mult_mod_eq [of "r div 60" 60] by simp
  then have "(r div 3600 * 60 + r div 60 mod 60) * 60 + r mod 60 = r"
    using div_mult_mod_eq [of r 60] by (simp only:)
  moreover have "(a * 60 + b) * 60 + c = r \<Longrightarrow> a * 3600 + b * 60 + c = r" for a b c
    by simp
  ultimately have "r div 3600 * 3600 + r div 60 mod 60 * 60 + r mod 60 = r" by blast
  moreover have "(n - 719163) * 86400 + r = s"
    using assms(2,3) by simp
  ultimately show ?thesis using assms(1) by (simp add: seconds_def trunc_sec_div)
qed

text \<open>Reading the fields of a time written out.\<close>

lemma strptime_fields:
  assumes "1000 \<le> y" "y \<le> 9999" "0 \<le> mo" "mo < 100" "0 \<le> d" "d < 100" "0 \<le> h" "h < 100"
    "0 \<le> mi" "mi < 100" "0 \<le> sec" "sec < 100"
  shows "strptime_z (show_int y @ ''-'' @ two_digits mo @ ''-'' @ two_digits d @ ''T'' @
      two_digits h @ '':'' @ two_digits mi @ '':'' @ two_digits sec @ ''Z'') = make_time y mo d h mi sec"
  using assms by (simp add: strptime_z_def read_four read_two [unfolded One_nat_def])

lemma strptime_strftime:
  assumes "0 \<le> t" and "t < seconds 253402300800"
  shows "strptime_z (strftime_z t) = Some (trunc_sec t)"
proof -
  define s where "s = t div 1000000"
  define n where "n = s div 86400 + 719163"
  define y where "y = year_of_ordinal n"
  define k where "k = n - days_before_year y"
  define mo where "mo = month_of_day y k"
  define d where "d = k - days_before_month y mo"
  define r where "r = s mod 86400"
  note defs = s_def n_def y_def k_def mo_def d_def r_def
  have s: "0 \<le> s" "s < 253402300800"
    using assms by (auto simp: s_def seconds_def)
  then have n: "719163 \<le> n" "n < 3652060" by (auto simp: n_def)
  note yb = year_of_ordinal_bounds [of n, folded y_def]
  have mono: "days_before_year a \<le> days_before_year b" if "a \<le> b" for a b
  proof -
    have "(a - 1) div 4 \<le> (b - 1) div 4" "(a - 1) div 400 \<le> (b - 1) div 400"
      "(b - 1) div 100 - (a - 1) div 100 \<le> b - a"
      using that div_bounds [of 100 "a - 1"] div_bounds [of 100 "b - 1"]
      by (auto intro: zdiv_mono1)
    then show ?thesis using that by (simp add: days_before_year_def Let_def)
  qed
  have "1000 \<le> y"
  proof (rule ccontr)
    assume "\<not> 1000 \<le> y"
    then have "days_before_year (y + 1) \<le> days_before_year 1000" by (intro mono) simp
    with yb n show False by (simp add: days_before_year_def)
  qed
  moreover have "y \<le> 9999"
  proof (rule ccontr)
    assume "\<not> y \<le> 9999"
    then have "days_before_year 10000 \<le> days_before_year y" by (intro mono) simp
    with yb n show False by (simp add: days_before_year_def)
  qed
  ultimately have y: "1000 \<le> y" "y \<le> 9999" by simp_all
  have k: "1 \<le> k" "k \<le> (if leap y then 366 else 365)"
    using yb year_length [of y] by (simp_all add: k_def)
  note month = month_of_day_range [OF k, folded mo_def]
  have d: "1 \<le> d" "d \<le> days_in_month y mo" "days_in_month y mo \<le> 31"
    using month days_in_month_le [of mo y] by (simp_all add: d_def)
  have r: "0 \<le> r" "r < 86400" by (simp_all add: r_def)
  then have time: "0 \<le> r div 3600" "r div 3600 \<le> 23" "0 \<le> r div 60 mod 60" "r div 60 mod 60 < 60"
    "0 \<le> r mod 60" "r mod 60 < 60" by simp_all
  have time': "r div 60 mod 60 \<le> 59" "r mod 60 \<le> 59" using time by linarith+
  have small: "0 \<le> d" "d < 100" "r div 3600 < 100" "r div 60 mod 60 < 100" "r mod 60 < 100"
    using d time by linarith+
  have "days_before_year y + days_before_month y mo + d = n" by (simp add: d_def k_def)
  then have "make_time y mo d (r div 3600) (r div 60 mod 60) (r mod 60) = Some (trunc_sec t)"
  proof -
    assume sum: "days_before_year y + days_before_month y mo + d = n"
    have "1 \<le> y \<and> y \<le> 9999 \<and> 1 \<le> mo \<and> mo \<le> 12 \<and> 1 \<le> d \<and> d \<le> days_in_month y mo
         \<and> 0 \<le> r div 3600 \<and> r div 3600 \<le> 23 \<and> 0 \<le> r div 60 mod 60 \<and> r div 60 mod 60 \<le> 59
         \<and> 0 \<le> r mod 60 \<and> r mod 60 \<le> 59"
      using y month d(1,2) time time' by (intro conjI) linarith+
    then show ?thesis
      by (simp only: make_time_def if_True simp_thms sum day_seconds [OF s_def n_def r_def])
  qed
  moreover have "strftime_z t = show_int y @ ''-'' @ two_digits mo @ ''-'' @ two_digits d @ ''T'' @
      two_digits (r div 3600) @ '':'' @ two_digits (r div 60 mod 60) @ '':'' @
      two_digits (r mod 60) @ ''Z''"
    by (simp only: strftime_z_def Let_def defs)
  moreover have "0 \<le> mo" "mo < 100" using month by linarith+
  ultimately show ?thesis
    using strptime_fields [OF y _ _ small(1,2) time(1) small(3) time(3) small(4) time(5) small(5), of mo]
    by (simp only:)
qed

text \<open>
  A UTC time between 1970 and 9999 written with \<open>%Y-%m-%dT%H:%M:%SZ\<close> is read back as
  the same time to the second: a grant's expiry or a licence's expiration survives the text
  form it is stored and answered in.
\<close>

theorem expiry_text_roundtrip:
  assumes "0 \<le> t" and "t < seconds 253402300800"
  shows "strptime_z (fmt_transmit_expire t) = Some (trunc_sec t)"
proof -
  have "trunc_sec t = t - t mod 1000000" by (simp add: trunc_sec_def)
  then have "0 \<le> trunc_sec t" using assms(1) zmod_le_nonneg_dividend [of t 1000000] by simp
  moreover have "trunc_sec t < seconds 253402300800" using trunc_sec_le [of t] assms(2) by simp
  ultimately show ?thesis
    using strptime_strftime [of "trunc_sec t"] by (simp add: fmt_transmit_expire_def)
qed

text \<open>A transmit expiry of a grant made in 2030.\<close>

theorem expiry_text_roundtrip_witness:
  "strptime_z (fmt_transmit_expire (seconds 1893456000 + 250000)) = Some (seconds 1893456000)"
  using expiry_text_roundtrip [of "seconds 1893456000 + 250000"]
  by (simp add: seconds_def trunc_sec_def)

end
