(* ===== verification/Renewal.thy ===== *)
theory Renewal
  imports Teardown Timestamps
begin

text \<open>
  Grant renewal (services/grant\_renewal.py): the authorisation context stored with a grant, the
  licence cap of a PAL grant, the decision whether and how far a grant is renewed, and its
  persistence with a fresh stamp of the federal databases.
\<close>

abbreviation AUTH_CONTEXT_KEY :: string where "AUTH_CONTEXT_KEY \<equiv> ''auth_context''"
abbreviation DEFAULT_GRANT_DURATION_SEC :: int where "DEFAULT_GRANT_DURATION_SEC \<equiv> 900"

record renewal_result =
  rn_ok :: bool
  rn_code :: int
  rn_expire :: "time option"
  rn_detail :: "string option"

subsection \<open>Stored times\<close>

text \<open>
  \<open>_parse_utc_z\<close> on the values stored documents hold: \<open>str(value)\<close>, stripped; with a
  final Z it has to be in the strict format, otherwise \<open>datetime.fromisoformat\<close> reads it.
\<close>

definition parse_utc_z :: "env \<Rightarrow> pyval \<Rightarrow> time option" where
  "parse_utc_z en v =
     (if v = PNone then None
      else (let text = py_strip (py_str en v) in
            if text = [] then None
            else if last text = CHR ''Z'' then map_option trunc_sec (strptime_z text)
            else map_option trunc_sec (env_isoformat en text)))"

subsection \<open>The authorisation context\<close>

definition build_auth_context :: "string \<Rightarrow> time option \<Rightarrow> string option \<Rightarrow> pydict" where
  "build_auth_context channel_type pal_license_exp pal_id =
     (let ctx0 = [(''channelType'', PStr channel_type)];
          ctx1 = (case pal_id of None \<Rightarrow> ctx0
                  | Some p \<Rightarrow> if p = [] then ctx0 else dset ctx0 ''palId'' (PStr p)) in
      case pal_license_exp of None \<Rightarrow> ctx1
      | Some e \<Rightarrow> dset ctx1 ''palLicenseExpiration'' (PStr (strftime_z e)))"

definition load_auth_context :: "grant_row \<Rightarrow> pydict" where
  "load_auth_context g =
     (case dget (load_grant_meta g) AUTH_CONTEXT_KEY of
        PDict ctx \<Rightarrow> ctx
      | _ \<Rightarrow> [(''channelType'', PStr (if gr_channel g = [] then ''GAA'' else gr_channel g))])"

definition linked_pal_row :: "env \<Rightarrow> db \<Rightarrow> pydict \<Rightarrow> pal_row option" where
  "linked_pal_row en d auth =
     (let pal_id = dget auth ''palId'' in
      if truthy pal_id then List.find (\<lambda>r. pa_id r = py_str en pal_id) (db_pals d) else None)"

definition row_license_status :: "pal_row \<Rightarrow> string" where
  "row_license_status r = py_upper (if pa_status r = [] then ''VALID'' else pa_status r)"

text \<open>
  \<open>(payload.get("license") or {}).get("licenseExpiration")\<close> of the stored record, read when
  the column is empty or not a time.
\<close>

definition record_license_expiration :: "env \<Rightarrow> pal_row \<Rightarrow> time option res" where
  "record_license_expiration en r =
     (case json_loads_or_empty (pa_record r) of
        Inr (PDict payload) \<Rightarrow>
          rbind (pget (por (dget payload ''license'') (PDict [])) ''licenseExpiration'') (\<lambda>v.
            Inr (parse_utc_z en v))
      | _ \<Rightarrow> Inr None)"

definition resolve_pal_license_cap :: "env \<Rightarrow> db \<Rightarrow> grant_row \<Rightarrow> time option res" where
  "resolve_pal_license_cap en d g =
     (let auth = load_auth_context g;
          stored = parse_utc_z en (dget auth ''palLicenseExpiration'') in
      case linked_pal_row en d auth of
        None \<Rightarrow> Inr stored
      | Some r \<Rightarrow>
          if row_license_status r \<noteq> ''VALID'' then Inr None
          else (case parse_utc_z en (case pa_expiration r of None \<Rightarrow> PNone | Some s \<Rightarrow> PStr s) of
                  Some live \<Rightarrow> Inr (Some live)
                | None \<Rightarrow> rbind (record_license_expiration en r) (\<lambda>v.
                    Inr (if v \<noteq> None then v else stored))))"

definition pal_license_status :: "env \<Rightarrow> db \<Rightarrow> grant_row \<Rightarrow> string option" where
  "pal_license_status en d g = map_option row_license_status (linked_pal_row en d (load_auth_context g))"

subsection \<open>The stamp of the federal databases\<close>

definition protection_stamp_drifted :: "db \<Rightarrow> grant_row \<Rightarrow> bool res" where
  "protection_stamp_drifted d g =
     (let meta = load_grant_meta g in
      rbind (get_sync_meta d) (\<lambda>stamp.
        rany (\<lambda>(key, cur). rbind (meta_int (PDict meta) key) (\<lambda>old. Inr (old \<noteq> cur)))
          [(''fss_gen'', sm_fss stamp), (''gwbl_gen'', sm_gwbl stamp),
           (''exz_gen'', sm_exz stamp), (''dpa_gen'', sm_dpa stamp)]))"

text \<open>The four counters written into a grant document.\<close>

definition stamp_meta :: "sync_meta \<Rightarrow> pydict \<Rightarrow> pydict" where
  "stamp_meta stamp meta =
     dset (dset (dset (dset meta ''fss_gen'' (PInt (sm_fss stamp)))
        ''gwbl_gen'' (PInt (sm_gwbl stamp))) ''exz_gen'' (PInt (sm_exz stamp)))
        ''dpa_gen'' (PInt (sm_dpa stamp))"

definition refresh_protection_stamp :: "db \<Rightarrow> grant_row \<Rightarrow> grant_row res" where
  "refresh_protection_stamp d g =
     rbind (get_sync_meta d) (\<lambda>stamp.
       Inr (g\<lparr>gr_json := json_dumps (PDict (stamp_meta stamp (load_grant_meta g)))\<rparr>))"

subsection \<open>The decision\<close>

definition renewal_refused :: "string \<Rightarrow> renewal_result" where
  "renewal_refused detail =
     \<lparr>rn_ok = False, rn_code = INVALID_PARAM, rn_expire = None, rn_detail = Some detail\<rparr>"

definition renewed_to :: "time \<Rightarrow> renewal_result" where
  "renewed_to t = \<lparr>rn_ok = True, rn_code = SUCCESS, rn_expire = Some t, rn_detail = None\<rparr>"

definition renewal_channel :: "env \<Rightarrow> grant_row \<Rightarrow> string" where
  "renewal_channel en g =
     py_upper (py_str en (por (por (dget (load_auth_context g) ''channelType'')
        (PStr (gr_channel g))) (PStr ''GAA'')))"

definition capped_renewal :: "time \<Rightarrow> time \<Rightarrow> time option \<Rightarrow> renewal_result" where
  "capped_renewal wall dflt cap =
     (case cap of
        None \<Rightarrow> renewal_refused ''pal_license_missing''
      | Some c \<Rightarrow>
          if trunc_sec c \<le> wall then renewal_refused ''pal_license_expired''
          else renewed_to (min dflt (trunc_sec c)))"

definition compute_renewal :: "env \<Rightarrow> db \<Rightarrow> grant_row \<Rightarrow> renewal_result res" where
  "compute_renewal en d g =
     (let wall = trunc_sec (env_now en);
          dflt = wall + seconds DEFAULT_GRANT_DURATION_SEC in
      if resolve_grant_state wall g \<in> set TERMINAL_GRANT_STATES \<or> gr_term g
      then Inr (renewal_refused ''terminal_or_expired'')
      else if trunc_sec (gr_expire g) \<le> wall
      then Inr (renewal_refused ''grant_already_expired'')
      else if renewal_channel en g = ''PAL'' then
        (case pal_license_status en d g of
           Some status \<Rightarrow>
             if status \<noteq> ''VALID'' then Inr (renewal_refused ''pal_license_invalid'')
             else rbind (resolve_pal_license_cap en d g) (\<lambda>cap. Inr (capped_renewal wall dflt cap))
         | None \<Rightarrow>
             rbind (resolve_pal_license_cap en d g) (\<lambda>cap. Inr (capped_renewal wall dflt cap)))
      else Inr (renewed_to dflt))"

text \<open>
  \<open>apply_renewal\<close> with the grant it was given: the new expiry is assigned before the stamp is
  read, so an exception of the stamp leaves the expiry assigned.
\<close>

definition sync_stored_cap :: "env \<Rightarrow> db \<Rightarrow> grant_row \<Rightarrow> grant_row res" where
  "sync_stored_cap en d g =
     (let meta = load_grant_meta g in
      case dget meta AUTH_CONTEXT_KEY of
        PDict auth \<Rightarrow>
          if py_upper (py_str en (por (dget auth ''channelType'') (PStr []))) = ''PAL''
          then rbind (resolve_pal_license_cap en d g) (\<lambda>cap. Inr (case cap of
                 None \<Rightarrow> g
               | Some c \<Rightarrow> g\<lparr>gr_json := json_dumps (PDict (dset meta AUTH_CONTEXT_KEY
                     (PDict (dset auth ''palLicenseExpiration'' (PStr (strftime_z c))))))\<rparr>))
          else Inr g
      | _ \<Rightarrow> Inr g)"

definition apply_renewal :: "env \<Rightarrow> db \<Rightarrow> grant_row \<Rightarrow> renewal_result res \<times> grant_row" where
  "apply_renewal en d g =
     (case compute_renewal en d g of
        Inl e \<Rightarrow> (Inl e, g)
      | Inr result \<Rightarrow>
          (case rn_expire result of
             None \<Rightarrow> (Inr result, g)
           | Some t \<Rightarrow>
               if \<not> rn_ok result then (Inr result, g)
               else (let g1 = g\<lparr>gr_expire := t\<rparr> in
                 case protection_stamp_drifted d g1 of
                   Inl e \<Rightarrow> (Inl e, g1)
                 | Inr drifted \<Rightarrow>
                     (case refresh_protection_stamp d g1 of
                        Inl e \<Rightarrow> (Inl e, g1)
                      | Inr g2 \<Rightarrow>
                          (case sync_stored_cap en d g2 of
                             Inl e \<Rightarrow> (Inl e, g2)
                           | Inr g3 \<Rightarrow>
                               (Inr (if drifted
                                     then result\<lparr>rn_detail := Some ''protections_restamped''\<rparr>
                                     else result), g3))))))"

subsection \<open>Frames\<close>

lemma renewal_refused_simps [simp]:
  "\<not> rn_ok (renewal_refused m)" "rn_expire (renewal_refused m) = None"
  "rn_code (renewal_refused m) = INVALID_PARAM"
  by (simp_all add: renewal_refused_def)

lemma renewed_simps [simp]:
  "rn_ok (renewed_to t)" "rn_expire (renewed_to t) = Some t" "rn_code (renewed_to t) = SUCCESS"
  by (simp_all add: renewed_to_def)

text \<open>A renewal writes the expiry and the document of the row, nothing else.\<close>

definition renewed_row :: "grant_row \<Rightarrow> grant_row \<Rightarrow> bool" where
  "renewed_row g g' = (g' = g\<lparr>gr_expire := gr_expire g', gr_json := gr_json g'\<rparr>)"

lemma refresh_renewed: "refresh_protection_stamp d g = Inr g' \<Longrightarrow> renewed_row g g'"
  by (auto simp: refresh_protection_stamp_def rbind_eq_Inr renewed_row_def)

lemma sync_renewed: "sync_stored_cap en d g = Inr g' \<Longrightarrow> renewed_row g g'"
  by (auto simp: sync_stored_cap_def Let_def rbind_eq_Inr renewed_row_def
      split: pyval.splits if_splits option.splits)

lemma renewed_row_trans: "renewed_row f g \<Longrightarrow> renewed_row g h \<Longrightarrow> renewed_row f h"
  by (cases f; cases g; cases h) (simp add: renewed_row_def)

lemma renewed_row_refl [simp]: "renewed_row g g" "renewed_row g (g\<lparr>gr_expire := t\<rparr>)"
  by (simp_all add: renewed_row_def)

lemma refresh_expire_renewed:
  "refresh_protection_stamp d (g\<lparr>gr_expire := t\<rparr>) = Inr g' \<Longrightarrow> renewed_row g g'"
  using renewed_row_trans [OF renewed_row_refl(2) refresh_renewed] .

lemma sync_expire_renewed:
  "refresh_protection_stamp d (g\<lparr>gr_expire := t\<rparr>) = Inr g1 \<Longrightarrow> sync_stored_cap en d g1 = Inr g' \<Longrightarrow>
     renewed_row g g'"
  using renewed_row_trans [OF refresh_expire_renewed sync_renewed] .

lemma apply_renewal_row: "renewed_row g (snd (apply_renewal en d g))"
  unfolding apply_renewal_def Let_def
  by (simp split: sum.split option.split)
    (use refresh_expire_renewed sync_expire_renewed in blast)

lemma renewed_rowE:
  assumes "renewed_row g g'"
  obtains t j where "g' = g\<lparr>gr_expire := t, gr_json := j\<rparr>"
  using assms unfolding renewed_row_def by blast

lemma renewed_row_evolves:
  assumes "renewed_row g g'"
  shows "evolves g g'"
proof -
  from assms obtain t j where g': "g' = g\<lparr>gr_expire := t, gr_json := j\<rparr>" by (rule renewed_rowE)
  have "grant_in_sync g' = grant_in_sync g" by (rule grant_in_sync_cong) (simp_all add: g')
  then show ?thesis by (simp add: evolves_def g')
qed

lemma apply_renewal_evolves: "evolves g (snd (apply_renewal en d g))"
  by (rule renewed_row_evolves [OF apply_renewal_row])

lemma apply_renewal_refused:
  "compute_renewal en d g = Inr r \<Longrightarrow> rn_expire r = None \<Longrightarrow> apply_renewal en d g = (Inr r, g)"
  by (simp add: apply_renewal_def)

text \<open>The text of a time is read back through \<open>parse_utc_z\<close>.\<close>

lemma strftime_shape:
  assumes "0 \<le> t" and "t < seconds 253402300800"
  shows "strftime_z t \<noteq> []" "last (strftime_z t) = CHR ''Z''" "py_strip (strftime_z t) = strftime_z t"
proof -
  show ne: "strftime_z t \<noteq> []" and l: "last (strftime_z t) = CHR ''Z''"
    by (simp_all add: strftime_z_def Let_def)
  obtain c cs where c: "strftime_z t = c # cs" using ne by (cases "strftime_z t") auto
  have "is_digit c"
  proof (rule ccontr)
    assume "\<not> is_digit c"
    then have "strptime_z (strftime_z t) = None" by (simp add: c strptime_z_def read_field_def)
    with strptime_strftime [OF assms] show False by simp
  qed
  then have "\<not> is_space c" by (auto simp: is_digit_def is_space_def Let_def)
  then have front: "dropWhile is_space (strftime_z t) = strftime_z t" by (simp add: c)
  obtain w where w: "strftime_z t = w @ ''Z''"
    using append_butlast_last_id [OF ne] l by metis
  have "\<not> is_space CHR ''Z''" by (simp add: is_space_def)
  then have rear: "dropWhile is_space (rev (strftime_z t)) = rev (strftime_z t)" by (simp add: w)
  show "py_strip (strftime_z t) = strftime_z t"
    by (simp only: py_strip_def front rear rev_rev_ident)
qed

lemma parse_strftime:
  assumes "0 \<le> t" and "t < seconds 253402300800"
  shows "parse_utc_z en (PStr (strftime_z t)) = Some (trunc_sec t)"
  using strptime_strftime [OF assms] strftime_shape [OF assms] by (simp add: parse_utc_z_def Let_def)

subsection \<open>Properties\<close>

lemma capped_renewal_expire:
  assumes "rn_expire (capped_renewal wall dflt cap) = Some t"
  shows "\<exists>c. cap = Some c \<and> wall < trunc_sec c \<and> t = min dflt (trunc_sec c)"
  using assms by (auto simp: capped_renewal_def split: option.splits if_splits)

text \<open>
  C21. A renewal is granted only to a grant that is neither terminated nor expired; the new
  expiry is in the future and at most fifteen minutes ahead, and for a PAL grant it never
  passes the licence expiration in force, which itself is not past and whose licence, when the
  PAL is on record, is VALID.
\<close>

theorem renewal_within_licence:
  assumes "compute_renewal en d g = Inr r" and "rn_expire r = Some t"
  shows "rn_ok r \<and> \<not> gr_term g \<and> trunc_sec (env_now en) < trunc_sec (gr_expire g)
    \<and> trunc_sec (env_now en) < t \<and> t \<le> trunc_sec (env_now en) + seconds 900
    \<and> (renewal_channel en g = ''PAL'' \<longrightarrow>
         (\<exists>c. resolve_pal_license_cap en d g = Inr (Some c) \<and> t \<le> trunc_sec c
            \<and> pal_license_status en d g \<in> {None, Some ''VALID''}))"
proof -
  let ?wall = "trunc_sec (env_now en)"
  have live: "\<not> gr_term g" "?wall < trunc_sec (gr_expire g)"
    using assms by (auto simp: compute_renewal_def Let_def split: if_splits)
  have ahead: "?wall < ?wall + seconds 900" by (simp add: seconds_def)
  show ?thesis
  proof (cases "renewal_channel en g = ''PAL''")
    case False
    then have "r = renewed_to (?wall + seconds 900)"
      using assms by (auto simp: compute_renewal_def Let_def split: if_splits)
    with assms(2) live ahead False show ?thesis by simp
  next
    case True
    then obtain cap where cap: "resolve_pal_license_cap en d g = Inr cap"
      and r: "r = capped_renewal ?wall (?wall + seconds 900) cap"
      and status: "pal_license_status en d g \<in> {None, Some ''VALID''}"
      using assms
      by (auto simp: compute_renewal_def Let_def rbind_eq_Inr split: if_splits option.splits)
    from capped_renewal_expire [of ?wall "?wall + seconds 900" cap t] assms(2) r
    obtain c where c: "cap = Some c" "?wall < trunc_sec c" "t = min (?wall + seconds 900) (trunc_sec c)"
      by auto
    have "rn_ok r" using r c by (simp add: capped_renewal_def)
    with c cap status live ahead show ?thesis by auto
  qed
qed

lemma load_meta_dumps [simp]: "load_grant_meta (g\<lparr>gr_json := json_dumps (PDict m)\<rparr>) = m"
  by (simp add: load_grant_meta_def)

lemma meta_int_PInt: "dget m k = PInt n \<Longrightarrow> meta_int (PDict m) k = Inr n"
  by (simp add: meta_int_def por_def)

lemma stamped_not_drifted:
  assumes "get_sync_meta d = Inr stamp" and "\<And>k. k \<in> {''fss_gen'', ''gwbl_gen'', ''exz_gen'', ''dpa_gen''} \<Longrightarrow>
    dget (load_grant_meta g) k = dget (stamp_meta stamp m) k"
  shows "protection_stamp_drifted d g = Inr False"
  using assms(1) assms(2) [of "''fss_gen''"] assms(2) [of "''gwbl_gen''"]
    assms(2) [of "''exz_gen''"] assms(2) [of "''dpa_gen''"]
  by (simp add: protection_stamp_drifted_def Let_def meta_int_PInt stamp_meta_def)

lemma sync_keeps_stamp:
  assumes "sync_stored_cap en d g = Inr g'" and "k \<noteq> AUTH_CONTEXT_KEY"
  shows "dget (load_grant_meta g') k = dget (load_grant_meta g) k"
  using assms
  by (auto simp: sync_stored_cap_def Let_def rbind_eq_Inr split: pyval.splits if_splits option.splits)

lemma cap_of_context:
  "load_auth_context g = load_auth_context g' \<Longrightarrow>
     resolve_pal_license_cap en d g = resolve_pal_license_cap en d g'"
  by (simp add: resolve_pal_license_cap_def)

lemma compute_renewal_verdict:
  assumes "compute_renewal en d g = Inr r"
  shows "rn_ok r = (rn_expire r \<noteq> None)"
proof -
  have "rn_ok (capped_renewal wall dflt cap) = (rn_expire (capped_renewal wall dflt cap) \<noteq> None)"
    for wall dflt cap
    by (simp add: capped_renewal_def split: option.split)
  then show ?thesis
    using assms by (auto simp: compute_renewal_def Let_def rbind_eq_Inr split: if_splits option.splits)
qed

lemma apply_renewal_success:
  assumes "apply_renewal en d g = (Inr r, g')" and "rn_expire r = Some t"
  obtains stamp g2 where "get_sync_meta d = Inr stamp"
    and "g2 = g\<lparr>gr_expire := t, gr_json := json_dumps (PDict (stamp_meta stamp (load_grant_meta g)))\<rparr>"
    and "sync_stored_cap en d g2 = Inr g'"
    and "\<exists>r0. compute_renewal en d g = Inr r0 \<and> rn_expire r0 = Some t"
proof -
  obtain r0 where r0: "compute_renewal en d g = Inr r0"
    using assms by (auto simp: apply_renewal_def split: sum.splits)
  have e: "rn_expire r0 = Some t" "rn_ok r0"
    using assms r0 compute_renewal_verdict [OF r0]
    by (auto simp: apply_renewal_def Let_def split: sum.splits option.splits if_splits)
  let ?g1 = "g\<lparr>gr_expire := t\<rparr>"
  obtain g2 where g2: "refresh_protection_stamp d ?g1 = Inr g2" "sync_stored_cap en d g2 = Inr g'"
    using assms(1) r0 e
    by (auto simp: apply_renewal_def Let_def split: sum.splits)
  from g2(1) obtain stamp where "get_sync_meta d = Inr stamp"
    "g2 = g\<lparr>gr_expire := t, gr_json := json_dumps (PDict (stamp_meta stamp (load_grant_meta g)))\<rparr>"
    by (auto simp: refresh_protection_stamp_def rbind_eq_Inr load_grant_meta_def)
  with that g2(2) r0 e show ?thesis by blast
qed

text \<open>
  A granted renewal leaves the row with the new expiry, a stamp that no longer drifts from
  the federal databases, and, when its context says PAL, with the licence cap it used stored in
  the form a later renewal reads back, so that a later renewal is capped the same way even when
  the PAL record is gone.
\<close>

theorem renewal_restamps:
  assumes "apply_renewal en d g = (Inr r, g')" and "rn_expire r = Some t"
    and "dget (load_grant_meta g) AUTH_CONTEXT_KEY = PDict auth"
    and "dget auth ''channelType'' = PStr ''PAL''"
    and "resolve_pal_license_cap en d g = Inr (Some cap)"
    and "0 \<le> cap" and "cap < seconds 253402300800"
  shows "gr_expire g' = t \<and> protection_stamp_drifted d g' = Inr False
    \<and> parse_utc_z en (dget (load_auth_context g') ''palLicenseExpiration'') = Some (trunc_sec cap)"
proof -
  obtain stamp g2 where stamp: "get_sync_meta d = Inr stamp"
    and g2: "g2 = g\<lparr>gr_expire := t, gr_json := json_dumps (PDict (stamp_meta stamp (load_grant_meta g)))\<rparr>"
    and sync: "sync_stored_cap en d g2 = Inr g'"
    by (rule apply_renewal_success [OF assms(1,2)])
  have meta: "load_grant_meta g2 = stamp_meta stamp (load_grant_meta g)"
    using load_meta_dumps [where g = "g\<lparr>gr_expire := t\<rparr>"] by (simp add: g2)
  have ctx: "dget (load_grant_meta g2) AUTH_CONTEXT_KEY = PDict auth"
    using assms(3) by (simp add: meta stamp_meta_def)
  then have "load_auth_context g2 = load_auth_context g"
    using assms(3) by (simp add: load_auth_context_def)
  then have cap: "resolve_pal_license_cap en d g2 = Inr (Some cap)"
    using assms(5) cap_of_context by metis
  have "py_upper ''PAL'' = ''PAL''" by (simp add: py_upper_def upper_char_def)
  then have g': "g' = g2\<lparr>gr_json := json_dumps (PDict (dset (load_grant_meta g2) AUTH_CONTEXT_KEY
      (PDict (dset auth ''palLicenseExpiration'' (PStr (strftime_z cap))))))\<rparr>"
    using sync ctx cap assms(4) by (simp add: sync_stored_cap_def Let_def por_def)
  have "protection_stamp_drifted d g' = Inr False"
  proof (rule stamped_not_drifted [OF stamp])
    fix k :: string assume "k \<in> {''fss_gen'', ''gwbl_gen'', ''exz_gen'', ''dpa_gen''}"
    then have "k \<noteq> AUTH_CONTEXT_KEY" by auto
    from sync_keeps_stamp [OF sync this]
    show "dget (load_grant_meta g') k = dget (stamp_meta stamp (load_grant_meta g)) k"
      by (simp add: meta)
  qed
  moreover have "load_auth_context g' = dset auth ''palLicenseExpiration'' (PStr (strftime_z cap))"
    by (simp add: load_auth_context_def g')
  moreover have "gr_expire g' = t" by (simp add: g' g2)
  ultimately show ?thesis using parse_strftime [OF assms(6,7), of en] by simp
qed

text \<open>A PAL grant whose licence ends ten minutes from now.\<close>

definition example_pal_context :: pydict where
  "example_pal_context = build_auth_context ''PAL'' (Some (seconds 600)) (Some ''P'')"

definition example_pal_grant :: grant_row where
  "example_pal_grant = example_grant\<lparr>gr_channel := ''PAL'',
     gr_json := JDoc (PDict [(''auth_context'', PDict example_pal_context)])\<rparr>"

lemma example_pal_renewal:
  "compute_renewal example_env empty_db example_pal_grant = Inr (renewed_to (seconds 600))"
  "resolve_pal_license_cap example_env empty_db example_pal_grant = Inr (Some (seconds 600))"
  "dget (load_grant_meta example_pal_grant) AUTH_CONTEXT_KEY = PDict example_pal_context"
proof -
  show ctx: "dget (load_grant_meta example_pal_grant) AUTH_CONTEXT_KEY = PDict example_pal_context"
    by (simp add: example_pal_grant_def load_grant_meta_def)
  have c: "dget example_pal_context ''channelType'' = PStr ''PAL''"
    "dget example_pal_context ''palLicenseExpiration'' = PStr (strftime_z (seconds 600))"
    by (simp_all add: example_pal_context_def build_auth_context_def)
  have pal: "linked_pal_row example_env empty_db example_pal_context = None"
    by (simp add: linked_pal_row_def Let_def empty_db_def)
  have p: "parse_utc_z example_env (PStr (strftime_z (seconds 600))) = Some (seconds 600)"
    using parse_strftime [of "seconds 600"] by (simp add: seconds_def trunc_sec_def)
  show cap: "resolve_pal_license_cap example_env empty_db example_pal_grant = Inr (Some (seconds 600))"
    using ctx c pal p by (simp add: resolve_pal_license_cap_def load_auth_context_def)
  have "\<not> grant_expired 0 example_pal_grant"
    by (simp add: grant_expired_def example_pal_grant_def example_grant_def trunc_sec_def seconds_def)
  moreover have "gr_state example_pal_grant = grant_state_value GRANTED"
    by (simp add: example_pal_grant_def example_grant_def)
  ultimately have s: "resolve_grant_state 0 example_pal_grant = GRANTED"
    by (simp only: resolve_named) simp
  have "renewal_channel example_env example_pal_grant = ''PAL''"
    using ctx c
    by (simp add: renewal_channel_def load_auth_context_def por_def py_upper_def upper_char_def)
  moreover have "pal_license_status example_env empty_db example_pal_grant = None"
    using ctx pal by (simp add: pal_license_status_def load_auth_context_def)
  moreover have "env_now example_env = 0" "\<not> gr_term example_pal_grant"
    "gr_expire example_pal_grant = seconds 900" "trunc_sec 0 = 0" "trunc_sec (seconds 900) = seconds 900"
    by (simp_all add: example_env_def example_pal_grant_def example_grant_def trunc_sec_def seconds_def)
  ultimately show "compute_renewal example_env empty_db example_pal_grant
      = Inr (renewed_to (seconds 600))"
    using s cap
    by (simp add: compute_renewal_def Let_def TERMINAL_GRANT_STATES_def capped_renewal_def)
      (simp add: seconds_def trunc_sec_def)
qed

theorem renewal_within_licence_witness:
  "seconds 600 \<le> trunc_sec (env_now example_env) + seconds 900
   \<and> (\<exists>c. resolve_pal_license_cap example_env empty_db example_pal_grant = Inr (Some c)
        \<and> seconds 600 \<le> trunc_sec c)"
  using renewal_within_licence [OF example_pal_renewal(1), of "seconds 600"] example_pal_renewal(2)
  by (simp add: seconds_def trunc_sec_def example_env_def)

theorem renewal_restamps_witness:
  "\<exists>g'. snd (apply_renewal example_env empty_db example_pal_grant) = g' \<and> gr_expire g' = seconds 600
     \<and> protection_stamp_drifted empty_db g' = Inr False"
proof -
  have meta: "load_grant_meta example_pal_grant = [(''auth_context'', PDict example_pal_context)]"
    by (simp add: example_pal_grant_def load_grant_meta_def)
  have ch: "dget example_pal_context ''channelType'' = PStr ''PAL''"
    by (simp add: example_pal_context_def build_auth_context_def)
  have sync: "get_sync_meta empty_db = Inr \<lparr>sm_fss = 0, sm_gwbl = 0, sm_exz = 0, sm_dpa = 0\<rparr>"
    by (simp add: get_sync_meta_def load_kind_def)
  define g1 where "g1 = example_pal_grant\<lparr>gr_expire := seconds 600\<rparr>"
  obtain g2 where g2: "refresh_protection_stamp empty_db g1 = Inr g2"
    and m2: "load_grant_meta g2 = stamp_meta \<lparr>sm_fss = 0, sm_gwbl = 0, sm_exz = 0, sm_dpa = 0\<rparr> (load_grant_meta g1)"
    using sync by (simp add: refresh_protection_stamp_def)
  have m1: "load_grant_meta g1 = load_grant_meta example_pal_grant"
    by (simp add: g1_def load_grant_meta_def)
  have "load_auth_context g2 = load_auth_context example_pal_grant"
    by (simp add: load_auth_context_def m2 m1 meta stamp_meta_def)
  from cap_of_context [OF this, of example_env empty_db] example_pal_renewal(2)
  obtain g3 where g3: "sync_stored_cap example_env empty_db g2 = Inr g3"
    by (auto simp: sync_stored_cap_def Let_def m2 m1 meta stamp_meta_def ch por_def
        py_upper_def upper_char_def)
  have "protection_stamp_drifted empty_db g1 = Inr False"
    by (simp add: protection_stamp_drifted_def Let_def sync m1 meta meta_int_def por_def)
  then have "apply_renewal example_env empty_db example_pal_grant = (Inr (renewed_to (seconds 600)), g3)"
    using g2 g3 by (simp add: apply_renewal_def example_pal_renewal(1) Let_def g1_def [symmetric])
  from renewal_restamps [OF this _ example_pal_renewal(3) ch example_pal_renewal(2), of "seconds 600"] this
  show ?thesis by (simp add: seconds_def)
qed

end
