(* ===== verification/GrantService.thy ===== *)
theory GrantService
  imports Renewal
begin

text \<open>
  Grant requests (services/grant\_service.py): the checks of an item in the order of the code,
  the resolution of the channel against the priority access areas, and the critical section
  that admits a grant. Three decisions that rest on propagation models are parameters
  (\<open>grant_ext\<close>): the aggregate checks of services/dpa\_protection.py and
  services/iap/admission.py and the border power flux density of services/border\_protection.py.
\<close>

record grant_ext =
  ge_dpa :: "db \<Rightarrow> cbsd_row \<Rightarrow> int \<Rightarrow> int \<Rightarrow> real \<Rightarrow> bool res"
  ge_border :: "pyval \<Rightarrow> real \<Rightarrow> int \<Rightarrow> int \<Rightarrow> bool res"
  ge_iap :: "db \<Rightarrow> cbsd_row \<Rightarrow> int \<Rightarrow> int \<Rightarrow> real \<Rightarrow> bool res"

abbreviation HEARTBEAT_INTERVAL_SEC :: int where "HEARTBEAT_INTERVAL_SEC \<equiv> 60"
abbreviation CAT_A_MAX_EIRP_10MHZ :: real where "CAT_A_MAX_EIRP_10MHZ \<equiv> 30"
abbreviation CAT_B_MAX_EIRP_10MHZ :: real where "CAT_B_MAX_EIRP_10MHZ \<equiv> 47"

subsection \<open>Reading the registration\<close>

definition cbsd_reg :: "cbsd_row \<Rightarrow> pyval" where
  "cbsd_reg c = (case json_loads_or_empty (cb_reg c) of Inl _ \<Rightarrow> PDict [] | Inr v \<Rightarrow> v)"

definition grant_cbsd_location :: "cbsd_row \<Rightarrow> (real \<times> real) option res" where
  "grant_cbsd_location c =
     rbind (pget_or_empty (cbsd_reg c) ''installationParam'') (\<lambda>inst.
     rbind (pget inst ''latitude'') (\<lambda>lat. rbind (pget inst ''longitude'') (\<lambda>lon.
       if lat = PNone \<or> lon = PNone then Inr None
       else rbind (py_float lat) (\<lambda>la. rbind (py_float lon) (\<lambda>lo. Inr (Some (la, lo)))))))"

definition max_allowed_eirp_mhz :: "cbsd_row \<Rightarrow> real \<Rightarrow> real res" where
  "max_allowed_eirp_mhz c fcc_max_eirp =
     rbind (pget (cbsd_reg c) ''cbsdCategory'') (\<lambda>cat0.
     rbind (pupper (por (por cat0 (cb_category c)) (PStr ''A''))) (\<lambda>cat.
     rbind (pget_or_empty (cbsd_reg c) ''installationParam'') (\<lambda>inst.
     rbind (pget inst ''eirpCapability'') (\<lambda>cap.
       let base = min (if cat = ''A'' then CAT_A_MAX_EIRP_10MHZ else CAT_B_MAX_EIRP_10MHZ)
                      fcc_max_eirp in
       if cap = PNone then Inr (base - 10)
       else rbind (py_float cap) (\<lambda>x. Inr (min base x - 10))))))"

text \<open>\<open>Inl\<close> of the response code, or the requested band.\<close>

definition parse_freq :: "pydict \<Rightarrow> int + (int \<times> int)" where
  "parse_freq op =
     (case dget op ''operationFrequencyRange'' of
        PDict freq \<Rightarrow>
          (let low = dget freq ''lowFrequency''; high = dget freq ''highFrequency'' in
           if low = PNone \<or> high = PNone then Inl MISSING_PARAM
           else (case (py_int low, py_int high) of
               (Inr low_i, Inr high_i) \<Rightarrow>
                 if high_i \<le> low_i then Inl INVALID_PARAM
                 else if low_i < CBRS_LOW_HZ \<or> high_i > CBRS_HIGH_HZ then Inl UNSUPPORTED_SPECTRUM
                 else Inr (low_i, high_i)
             | _ \<Rightarrow> Inl INVALID_PARAM))
      | _ \<Rightarrow> Inl MISSING_PARAM)"

subsection \<open>Frequency conflicts\<close>

definition active_grants :: "db \<Rightarrow> pyval \<Rightarrow> grant_row list" where
  "active_grants d cbsd_id =
     filter (\<lambda>g. PStr (gr_cbsd_id g) = cbsd_id \<and> \<not> gr_term g) (db_grants d)"

definition has_freq_conflict ::
    "grant_row list \<Rightarrow> int \<Rightarrow> int \<Rightarrow> (int \<times> int) list \<Rightarrow> bool" where
  "has_freq_conflict existing low high also_pending =
     ((\<exists>g\<in>set existing. overlaps (gr_low g) (gr_high g) low high)
      \<or> (\<exists>(plow, phigh)\<in>set also_pending. overlaps plow phigh low high))"

subsection \<open>Priority access\<close>

record ppa_context =
  px_low :: int
  px_high :: int
  px_in_cluster :: bool
  px_in_ppa :: bool
  px_license_exp :: pyval
  px_user_id :: pyval
  px_pal_id :: pyval

definition ppa_licence_context ::
    "pyval list \<Rightarrow> bool \<Rightarrow> bool \<Rightarrow> ppa_context list \<Rightarrow> pyval \<Rightarrow> ppa_context list res" where
  "ppa_licence_context pals in_cluster in_ppa contexts pal_id =
     rbind (linked_pal pals pal_id) (\<lambda>lp. case lp of
         None \<Rightarrow> Inr contexts
       | Some (pal, l, h) \<Rightarrow>
           rbind (pget_or_empty pal ''license'') (\<lambda>lic.
           rbind (pget lic ''licenseExpiration'') (\<lambda>exp.
           rbind (pget pal ''userId'') (\<lambda>user.
             Inr (contexts @ [\<lparr>px_low = l, px_high = h, px_in_cluster = in_cluster,
               px_in_ppa = in_ppa, px_license_exp = exp, px_user_id = user,
               px_pal_id = pal_id\<rparr>])))))"

definition ppa_zone_context ::
    "cbsd_row \<Rightarrow> (real \<times> real) option \<Rightarrow> pyval list \<Rightarrow> ppa_context list \<Rightarrow> pyval
      \<Rightarrow> ppa_context list res" where
  "ppa_zone_context c loc pals contexts zone_payload =
     rbind (zone_ppa c loc zone_payload) (\<lambda>z. case z of
         None \<Rightarrow> Inr contexts
       | Some (in_cluster, in_ppa, pal_ids) \<Rightarrow>
           rfold (ppa_licence_context pals in_cluster in_ppa) contexts pal_ids)"

definition ppa_pal_context :: "db \<Rightarrow> cbsd_row \<Rightarrow> ppa_context list res" where
  "ppa_pal_context d c =
     rbind (grant_cbsd_location c) (\<lambda>loc.
     rbind (load_pal_records d False) (\<lambda>pals.
       rfold (ppa_zone_context c loc pals) [] (load_injected d ''zone'')))"

definition px_overlaps :: "int \<Rightarrow> int \<Rightarrow> ppa_context \<Rightarrow> bool" where
  "px_overlaps low high ctx = overlaps low high (px_low ctx) (px_high ctx)"

definition px_covers :: "int \<Rightarrow> int \<Rightarrow> ppa_context \<Rightarrow> bool" where
  "px_covers low high ctx = (px_low ctx \<le> low \<and> high \<le> px_high ctx)"

definition px_expiry :: "ppa_context \<Rightarrow> time option" where
  "px_expiry ctx = (case px_license_exp ctx of PStr s \<Rightarrow> strptime_z s | _ \<Rightarrow> None)"

text \<open>\<open>Inl\<close> of the response code, or the channel type with the licence it rests on.\<close>

definition resolve_channel ::
    "ppa_context list \<Rightarrow> int \<Rightarrow> int \<Rightarrow> string \<Rightarrow> int + (string \<times> time option \<times> pyval)" where
  "resolve_channel contexts low high user =
     (let overlapping = filter (px_overlaps low high) contexts;
          covering = filter (px_covers low high) overlapping in
      if \<exists>ctx\<in>set overlapping. px_in_ppa ctx \<and> \<not> px_in_cluster ctx then Inl INTERFERENCE
      else if \<exists>ctx\<in>set overlapping. px_in_cluster ctx \<and> \<not> px_covers low high ctx
      then Inl INVALID_PARAM
      else if covering \<noteq> [] then
        (case List.find (\<lambda>ctx. px_in_cluster ctx \<and> px_user_id ctx = PStr user) covering of
           Some ctx \<Rightarrow> Inr (''PAL'', px_expiry ctx, px_pal_id ctx)
         | None \<Rightarrow> Inl INTERFERENCE)
      else Inr (''GAA'', None, PNone))"

definition grant_expire_time :: "time \<Rightarrow> time option \<Rightarrow> time" where
  "grant_expire_time now pal_license_exp =
     (let dflt = now + seconds DEFAULT_GRANT_DURATION_SEC in
      case pal_license_exp of None \<Rightarrow> dflt | Some e \<Rightarrow> min dflt e)"

subsection \<open>The checks before the lock\<close>

text \<open>An unusable data set denies (\<open>except (ExclusionZoneError, \<dots>)\<close>).\<close>

definition fail_closed :: "exn list \<Rightarrow> bool res \<Rightarrow> bool res" where
  "fail_closed handled m = (case m of Inl e \<Rightarrow> if e \<in> set handled then Inr True else Inl e | Inr b \<Rightarrow> Inr b)"

definition quiet_zone_category :: "cbsd_row \<Rightarrow> pyval res" where
  "quiet_zone_category c =
     (if truthy (cb_category c) then Inr (cb_category c) else pget (cbsd_reg c) ''cbsdCategory'')"

text \<open>The protections that need the CBSD's position, in the order of the code.\<close>

definition location_blocks ::
    "grant_ext \<Rightarrow> env \<Rightarrow> db \<Rightarrow> cbsd_row \<Rightarrow> real \<Rightarrow> real \<Rightarrow> int \<Rightarrow> int \<Rightarrow> real \<Rightarrow> bool res" where
  "location_blocks ext en d c lat lon low high max_eirp =
     rany (\<lambda>m. m)
       [fail_closed [ExclusionZoneError, ExclusionZoneUnavailable]
          (point_hits_exclusion_zone d lat lon low high),
        fail_closed [GwpzProtectionError] (grant_blocked_by_gwpz d lat lon low high),
        rbind (quiet_zone_category c) (\<lambda>cat. grant_blocked_by_quiet_zone en d lat lon cat low high),
        grant_blocked_by_fss_gwbl d lat lon low high,
        ge_dpa ext d c low high max_eirp]"

definition border_blocks :: "grant_ext \<Rightarrow> cbsd_row \<Rightarrow> int \<Rightarrow> int \<Rightarrow> real \<Rightarrow> bool res" where
  "border_blocks ext c low high max_eirp =
     rbind (pget_or_empty (cbsd_reg c) ''installationParam'') (\<lambda>inst.
       if truthy inst then ge_border ext inst max_eirp low high else Inr False)"

record grant_plan =
  pl_low :: int
  pl_high :: int
  pl_eirp :: real
  pl_channel :: string
  pl_pal_exp :: "time option"
  pl_pal_id :: pyval

text \<open>The interference checks of a request whose parameters are in order.\<close>

definition plan_grant ::
    "grant_ext \<Rightarrow> env \<Rightarrow> db \<Rightarrow> cbsd_row \<Rightarrow> int \<Rightarrow> int \<Rightarrow> real \<Rightarrow> (int + grant_plan) res" where
  "plan_grant ext en d c low high max_eirp =
     rbind (ppa_pal_context d c) (\<lambda>contexts.
       case resolve_channel contexts low high (cb_user_id c) of
         Inl code \<Rightarrow> Inr (Inl code)
       | Inr (channel, pal_exp, pal_id) \<Rightarrow>
           rbind (grant_cbsd_location c) (\<lambda>loc.
           rbind (case loc of None \<Rightarrow> Inr False
                  | Some (lat, lon) \<Rightarrow> location_blocks ext en d c lat lon low high max_eirp) (\<lambda>blocked.
             if blocked then Inr (Inl INTERFERENCE)
             else rbind (border_blocks ext c low high max_eirp) (\<lambda>border.
               Inr (if border then Inl INTERFERENCE
                    else Inr \<lparr>pl_low = low, pl_high = high, pl_eirp = max_eirp,
                       pl_channel = channel, pl_pal_exp = pal_exp, pl_pal_id = pal_id\<rparr>)))))"

definition fcc_max_of :: "db \<Rightarrow> cbsd_row \<Rightarrow> real" where
  "fcc_max_of d c =
     (case List.find (\<lambda>(f, m). f = cb_fcc_id c) (db_fcc_ids d) of
        Some (f, m) \<Rightarrow> m | None \<Rightarrow> CAT_B_MAX_EIRP_10MHZ)"

text \<open>From the operation parameters of the request to a plan, or a response code.\<close>

definition check_operation ::
    "grant_ext \<Rightarrow> env \<Rightarrow> db \<Rightarrow> cbsd_row \<Rightarrow> pydict \<Rightarrow> (int + grant_plan) res" where
  "check_operation ext en d c req =
     (case dget req ''operationParam'' of
        PDict op \<Rightarrow>
          if dget op ''maxEirp'' = PNone then Inr (Inl MISSING_PARAM)
          else (case parse_freq op of
              Inl code \<Rightarrow> Inr (Inl code)
            | Inr (low, high) \<Rightarrow>
                (case py_float (dget op ''maxEirp'') of
                   Inl _ \<Rightarrow> Inr (Inl INVALID_PARAM)
                 | Inr max_eirp \<Rightarrow>
                     rbind (max_allowed_eirp_mhz c (fcc_max_of d c)) (\<lambda>cap.
                       if max_eirp > cap then Inr (Inl INVALID_PARAM)
                       else plan_grant ext en d c low high max_eirp)))
      | _ \<Rightarrow> Inr (Inl MISSING_PARAM))"

subsection \<open>Responses\<close>

record grant_details =
  gd_grant_id :: string
  gd_expire :: string
  gd_transmit_expire :: string
  gd_interval :: int
  gd_channel :: string

record grant_response =
  gn_cbsd_id :: "pyval option"
  gn_details :: "grant_details option"
  gn_code :: int

definition grant_resp :: "int \<Rightarrow> pyval option \<Rightarrow> grant_response" where
  "grant_resp code cid = \<lparr>gn_cbsd_id = cid, gn_details = None, gn_code = code\<rparr>"

subsection \<open>Admission\<close>

text \<open>The row of an admitted grant; the table fills in the defaults of the other columns.\<close>

definition new_grant ::
    "env \<Rightarrow> db \<Rightarrow> cbsd_row \<Rightarrow> pydict \<Rightarrow> grant_plan \<Rightarrow> sync_meta \<Rightarrow> time \<Rightarrow> time \<Rightarrow> grant_row" where
  "new_grant en d c req pl stamp expire tx_expire =
     \<lparr>gr_pk = 0, gr_id = ''grant/'' @ env_uuid en (db_next_grant d), gr_cbsd_pk = cb_pk c,
      gr_cbsd_id = cb_id c, gr_channel = pl_channel pl, gr_low = pl_low pl, gr_high = pl_high pl,
      gr_eirp = Some (pl_eirp pl), gr_expire = expire, gr_interval = HEARTBEAT_INTERVAL_SEC,
      gr_tx = Some tx_expire, gr_auth = False, gr_meas = False, gr_term = False,
      gr_state = grant_state_value GRANTED,
      gr_json = json_dumps (PDict (dset (stamp_meta stamp req) AUTH_CONTEXT_KEY
        (PDict (build_auth_context (pl_channel pl) (pl_pal_exp pl)
          (if truthy (pl_pal_id pl) then Some (py_str en (pl_pal_id pl)) else None)))))\<rparr>"

text \<open>Bands approved earlier in the batch, by CBSD.\<close>

type_synonym pending = "pyval \<Rightarrow> (int \<times> int) list"

text \<open>The critical section, under the admission lock and the CBSD's lock.\<close>

definition admit_grant ::
    "grant_ext \<Rightarrow> env \<Rightarrow> string option \<Rightarrow> db \<times> pending \<Rightarrow> pydict \<Rightarrow> grant_plan
      \<Rightarrow> grant_response res \<times> (db \<times> pending)" where
  "admit_grant ext en cert st req pl =
     (case st of (d, pend) \<Rightarrow>
        let cid = dget req ''cbsdId'' in
        case lock_cbsd_row d cid of
          None \<Rightarrow> (Inr (grant_resp INVALID_PARAM None), st)
        | Some c \<Rightarrow>
            if cbsd_certificate_mismatch c cert then (Inr (grant_resp INVALID_PARAM None), st)
            else if has_freq_conflict (active_grants d cid) (pl_low pl) (pl_high pl) (pend cid)
            then (Inr (grant_resp GRANT_CONFLICT (Some cid)), st)
            else if peer_has_grant_for_cbsd en d c
            then (Inr (grant_resp GRANT_CONFLICT (Some cid)), st)
            else (case ge_iap ext d c (pl_low pl) (pl_high pl) (pl_eirp pl) of
                Inl e \<Rightarrow> (Inl e, st)
              | Inr True \<Rightarrow> (Inr (grant_resp INTERFERENCE (Some cid)), st)
              | Inr False \<Rightarrow>
                  (let expire = grant_expire_time (env_now en) (pl_pal_exp pl) in
                   case rbind (compute_transmit_expire_time en d c expire (pl_low pl) (pl_high pl))
                          (\<lambda>tx. rbind (get_sync_meta d) (\<lambda>stamp. Inr (tx, stamp))) of
                     Inl e \<Rightarrow> (Inl e, st)
                   | Inr (tx, stamp) \<Rightarrow>
                       (let g = new_grant en d c req pl stamp expire tx in
                        (Inr \<lparr>gn_cbsd_id = Some cid,
                           gn_details = Some \<lparr>gd_grant_id = gr_id g, gd_expire = strftime_z expire,
                             gd_transmit_expire = fmt_transmit_expire tx,
                             gd_interval = HEARTBEAT_INTERVAL_SEC, gd_channel = pl_channel pl\<rparr>,
                           gn_code = SUCCESS\<rparr>,
                         (add_grant d g,
                          pend(cid := pend cid @ [(pl_low pl, pl_high pl)])))))))"

definition grant_item ::
    "grant_ext \<Rightarrow> env \<Rightarrow> bool \<Rightarrow> string option \<Rightarrow> db \<times> pending \<Rightarrow> pydict
      \<Rightarrow> grant_response res \<times> (db \<times> pending)" where
  "grant_item ext en ask_meas cert st req =
     (let d = fst st; cid = dget req ''cbsdId'' in
      if \<not> truthy cid then (Inr (grant_resp MISSING_PARAM None), st)
      else (case lock_cbsd_row d cid of
          None \<Rightarrow> (Inr (grant_resp INVALID_PARAM None), st)
        | Some c \<Rightarrow>
            if cbsd_certificate_mismatch c cert then (Inr (grant_resp INVALID_PARAM None), st)
            else if is_cbsd_blacklisted d (PStr (cb_fcc_id c)) (PStr (cb_serial c))
            then (Inr (grant_resp BLACKLISTED (Some cid)), st)
            else (case cbsd_meas_capabilities (cb_reg c) of
                Inl e \<Rightarrow> (Inl e, st)
              | Inr caps \<Rightarrow>
                  (case (if ask_meas \<and> PStr MEAS_WITHOUT_GRANT \<in> set caps
                         then validate_meas_report (dget req ''measReport'') True else None) of
                     Some e \<Rightarrow> (Inr (grant_resp e (Some cid)), st)
                   | None \<Rightarrow>
                       (case check_operation ext en d c req of
                          Inl e \<Rightarrow> (Inl e, st)
                        | Inr (Inl code) \<Rightarrow> (Inr (grant_resp code (Some cid)), st)
                        | Inr (Inr pl) \<Rightarrow> admit_grant ext en cert st req pl)))))"

definition process_grant ::
    "grant_ext \<Rightarrow> env \<Rightarrow> string option \<Rightarrow> db \<Rightarrow> pydict list \<Rightarrow> grant_response list res \<times> db" where
  "process_grant ext en cert d requests =
     (case run_items (grant_item ext en (admin_flag_set d FLAG_MEAS_REG) cert) (d, \<lambda>_. []) requests of
        (r, (d', _)) \<Rightarrow> (r, d'))"

subsection \<open>Facts about plans\<close>

lemma parse_freq_band:
  assumes "parse_freq op = Inr (low, high)"
  shows "low < high" "CBRS_LOW_HZ \<le> low" "high \<le> CBRS_HIGH_HZ"
  using assms
  by (auto simp: parse_freq_def Let_def split: pyval.splits if_splits sum.splits)

lemma plan_grantE:
  assumes "plan_grant ext en d c low high e = Inr (Inr pl)"
  obtains contexts loc where "ppa_pal_context d c = Inr contexts"
    and "resolve_channel contexts low high (cb_user_id c)
           = Inr (pl_channel pl, pl_pal_exp pl, pl_pal_id pl)"
    and "grant_cbsd_location c = Inr loc"
    and "\<And>lat lon. loc = Some (lat, lon) \<Longrightarrow> location_blocks ext en d c lat lon low high e = Inr False"
    and "border_blocks ext c low high e = Inr False"
    and "pl_low pl = low" and "pl_high pl = high" and "pl_eirp pl = e"
proof -
  from assms obtain contexts where ctx: "ppa_pal_context d c = Inr contexts"
    by (auto simp: plan_grant_def rbind_eq_Inr)
  with assms obtain ch where ch: "resolve_channel contexts low high (cb_user_id c) = Inr ch"
    by (auto simp: plan_grant_def split: sum.splits)
  obtain a x v where abc: "ch = (a, x, v)" by (cases ch)
  from assms ctx ch abc obtain loc where loc: "grant_cbsd_location c = Inr loc"
    by (auto simp: plan_grant_def rbind_eq_Inr)
  let ?block = "case loc of None \<Rightarrow> Inr False
    | Some (lat, lon) \<Rightarrow> location_blocks ext en d c lat lon low high e"
  from assms ctx ch abc loc have free: "?block = Inr False" and "border_blocks ext c low high e = Inr False"
    and "pl = \<lparr>pl_low = low, pl_high = high, pl_eirp = e, pl_channel = a, pl_pal_exp = x, pl_pal_id = v\<rparr>"
    by (auto simp: plan_grant_def rbind_eq_Inr split: if_splits)
  moreover have "location_blocks ext en d c lat lon low high e = Inr False"
    if "loc = Some (lat, lon)" for lat lon
    using free that by simp
  ultimately show ?thesis using that [of contexts loc] ctx ch abc loc by simp
qed

text \<open>What a plan guarantees: the checks it has passed.\<close>

lemma check_operation_plan:
  assumes "check_operation ext en d c req = Inr (Inr pl)"
  obtains cap where "pl_low pl < pl_high pl" and "CBRS_LOW_HZ \<le> pl_low pl"
    and "pl_high pl \<le> CBRS_HIGH_HZ"
    and "max_allowed_eirp_mhz c (fcc_max_of d c) = Inr cap" and "pl_eirp pl \<le> cap"
    and "plan_grant ext en d c (pl_low pl) (pl_high pl) (pl_eirp pl) = Inr (Inr pl)"
proof -
  from assms obtain op low high e where op: "dget req ''operationParam'' = PDict op"
    "dget op ''maxEirp'' \<noteq> PNone" and f: "parse_freq op = Inr (low, high)"
    and e: "py_float (dget op ''maxEirp'') = Inr e"
    by (auto simp: check_operation_def split: pyval.splits if_splits sum.splits)
  with assms obtain cap where cap: "max_allowed_eirp_mhz c (fcc_max_of d c) = Inr cap" "e \<le> cap"
    and plan: "plan_grant ext en d c low high e = Inr (Inr pl)"
    by (auto simp: check_operation_def rbind_eq_Inr split: if_splits)
  from plan have "pl_low pl = low" "pl_high pl = high" "pl_eirp pl = e"
    by (auto elim: plan_grantE)
  with that [of cap] cap plan parse_freq_band [OF f] show ?thesis by simp
qed

text \<open>The admitted row, and the state it is admitted into.\<close>

lemma admit_grant_cases:
  obtains (refused) r where "admit_grant ext en cert (d, pend) req pl = (r, (d, pend))"
      and "\<And>resp. r = Inr resp \<Longrightarrow> gn_details resp = None"
  | (admitted) c tx stamp g where "lock_cbsd_row d (dget req ''cbsdId'') = Some c"
      and "\<not> cbsd_certificate_mismatch c cert"
      and "\<not> has_freq_conflict (active_grants d (dget req ''cbsdId'')) (pl_low pl) (pl_high pl)
              (pend (dget req ''cbsdId''))"
      and "\<not> peer_has_grant_for_cbsd en d c"
      and "ge_iap ext d c (pl_low pl) (pl_high pl) (pl_eirp pl) = Inr False"
      and "compute_transmit_expire_time en d c (grant_expire_time (env_now en) (pl_pal_exp pl))
             (pl_low pl) (pl_high pl) = Inr tx"
      and "g = new_grant en d c req pl stamp (grant_expire_time (env_now en) (pl_pal_exp pl)) tx"
      and "admit_grant ext en cert (d, pend) req pl =
        (Inr \<lparr>gn_cbsd_id = Some (dget req ''cbsdId''),
           gn_details = Some \<lparr>gd_grant_id = gr_id g,
             gd_expire = strftime_z (grant_expire_time (env_now en) (pl_pal_exp pl)),
             gd_transmit_expire = fmt_transmit_expire tx,
             gd_interval = HEARTBEAT_INTERVAL_SEC, gd_channel = pl_channel pl\<rparr>,
           gn_code = SUCCESS\<rparr>,
         (add_grant d g, pend(dget req ''cbsdId'' := pend (dget req ''cbsdId'') @ [(pl_low pl, pl_high pl)])))"
proof -
  let ?cid = "dget req ''cbsdId''"
  let ?e = "grant_expire_time (env_now en) (pl_pal_exp pl)"
  have no: "gn_details (grant_resp code v) = None" for code v by (simp add: grant_resp_def)
  show ?thesis
  proof (cases "lock_cbsd_row d ?cid")
    case None
    then show ?thesis using no by (intro refused) (auto simp: admit_grant_def)
  next
    case c: (Some c)
    let ?iap = "ge_iap ext d c (pl_low pl) (pl_high pl) (pl_eirp pl)"
    show ?thesis
    proof (cases "cbsd_certificate_mismatch c cert
        \<or> has_freq_conflict (active_grants d ?cid) (pl_low pl) (pl_high pl) (pend ?cid)
        \<or> peer_has_grant_for_cbsd en d c \<or> ?iap \<noteq> Inr False")
      case True
      then consider "cbsd_certificate_mismatch c cert"
        | "\<not> cbsd_certificate_mismatch c cert"
          "has_freq_conflict (active_grants d ?cid) (pl_low pl) (pl_high pl) (pend ?cid)
           \<or> peer_has_grant_for_cbsd en d c"
        | e where "\<not> cbsd_certificate_mismatch c cert"
          "\<not> has_freq_conflict (active_grants d ?cid) (pl_low pl) (pl_high pl) (pend ?cid)"
          "\<not> peer_has_grant_for_cbsd en d c" "?iap = Inl e"
        | "\<not> cbsd_certificate_mismatch c cert"
          "\<not> has_freq_conflict (active_grants d ?cid) (pl_low pl) (pl_high pl) (pend ?cid)"
          "\<not> peer_has_grant_for_cbsd en d c" "?iap = Inr True"
        by (cases ?iap) auto
      then show ?thesis
      proof cases
        case 1
        then show ?thesis using c no
          by (intro refused [of "Inr (grant_resp INVALID_PARAM None)"]) (auto simp: admit_grant_def)
      next
        case 2
        then show ?thesis using c no
          by (intro refused [of "Inr (grant_resp GRANT_CONFLICT (Some ?cid))"])
            (auto simp: admit_grant_def Let_def)
      next
        case (3 e)
        then show ?thesis using c by (intro refused [of "Inl e"]) (simp_all add: admit_grant_def Let_def)
      next
        case 4
        then show ?thesis using c no
          by (intro refused [of "Inr (grant_resp INTERFERENCE (Some ?cid))"])
            (auto simp: admit_grant_def Let_def)
      qed
    next
      case free: False
      show ?thesis
      proof (cases "rbind (compute_transmit_expire_time en d c ?e (pl_low pl) (pl_high pl))
                          (\<lambda>tx. rbind (get_sync_meta d) (\<lambda>stamp. Inr (tx, stamp)))")
        case (Inl e)
        then show ?thesis
          using free c by (intro refused [of "Inl e"]) (simp_all add: admit_grant_def Let_def)
      next
        case (Inr v)
        then obtain tx stamp where v: "v = (tx, stamp)"
          "compute_transmit_expire_time en d c ?e (pl_low pl) (pl_high pl) = Inr tx"
          by (auto simp: rbind_eq_Inr)
        show ?thesis
          using free c Inr v
          by (intro admitted [of c tx "new_grant en d c req pl stamp ?e tx" stamp])
            (simp_all add: admit_grant_def Let_def)
      qed
    qed
  qed
qed

text \<open>An item either stops before the critical section or runs it with a checked plan.\<close>

lemma grant_item_cases:
  obtains (refused) r where "grant_item ext en ask cert (d, pend) req = (r, (d, pend))"
      and "\<And>resp. r = Inr resp \<Longrightarrow> gn_details resp = None"
  | (checked) c pl where "lock_cbsd_row d (dget req ''cbsdId'') = Some c"
      and "\<not> cbsd_certificate_mismatch c cert"
      and "\<not> is_cbsd_blacklisted d (PStr (cb_fcc_id c)) (PStr (cb_serial c))"
      and "check_operation ext en d c req = Inr (Inr pl)"
      and "grant_item ext en ask cert (d, pend) req = admit_grant ext en cert (d, pend) req pl"
proof -
  let ?cid = "dget req ''cbsdId''"
  have no: "gn_details (grant_resp code v) = None" for code v by (simp add: grant_resp_def)
  show ?thesis
  proof (cases "truthy ?cid")
    case False
    then show ?thesis using no
      by (intro refused [of "Inr (grant_resp MISSING_PARAM None)"]) (auto simp: grant_item_def)
  next
    case id: True
    show ?thesis
    proof (cases "lock_cbsd_row d ?cid")
      case None
      then show ?thesis using id no
        by (intro refused [of "Inr (grant_resp INVALID_PARAM None)"]) (auto simp: grant_item_def)
    next
      case c: (Some c)
      let ?black = "is_cbsd_blacklisted d (PStr (cb_fcc_id c)) (PStr (cb_serial c))"
      consider "cbsd_certificate_mismatch c cert" | "\<not> cbsd_certificate_mismatch c cert" "?black"
        | (clear) "\<not> cbsd_certificate_mismatch c cert" "\<not> ?black" by blast
      then show ?thesis
      proof cases
        case 1
        then show ?thesis using id c no
          by (intro refused [of "Inr (grant_resp INVALID_PARAM None)"]) (auto simp: grant_item_def)
      next
        case 2
        then show ?thesis using id c no
          by (intro refused [of "Inr (grant_resp BLACKLISTED (Some ?cid))"]) (auto simp: grant_item_def)
      next
        case clear
        let ?meas = "\<lambda>caps. if ask \<and> PStr MEAS_WITHOUT_GRANT \<in> set caps
                         then validate_meas_report (dget req ''measReport'') True else None"
        have item: "grant_item ext en ask cert (d, pend) req =
            (case cbsd_meas_capabilities (cb_reg c) of
                Inl e \<Rightarrow> (Inl e, (d, pend))
              | Inr caps \<Rightarrow>
                  (case ?meas caps of
                     Some e \<Rightarrow> (Inr (grant_resp e (Some ?cid)), (d, pend))
                   | None \<Rightarrow>
                       (case check_operation ext en d c req of
                          Inl e \<Rightarrow> (Inl e, (d, pend))
                        | Inr (Inl code) \<Rightarrow> (Inr (grant_resp code (Some ?cid)), (d, pend))
                        | Inr (Inr pl) \<Rightarrow> admit_grant ext en cert (d, pend) req pl)))"
          using id c clear by (simp add: grant_item_def Let_def cong: sum.case_cong option.case_cong)
        show ?thesis
        proof (cases "\<exists>caps pl. cbsd_meas_capabilities (cb_reg c) = Inr caps \<and> ?meas caps = None
            \<and> check_operation ext en d c req = Inr (Inr pl)")
          case True
          then show ?thesis using c clear item by (auto intro: checked)
        next
          case False
          define meas where "meas = ?meas"
          have "\<exists>r. grant_item ext en ask cert (d, pend) req = (r, (d, pend))
              \<and> (\<forall>resp. r = Inr resp \<longrightarrow> gn_details resp = None)"
            using False no unfolding item meas_def [symmetric]
            by (auto split: sum.split option.split)
          then show ?thesis using refused by blast
        qed
      qed
    qed
  qed
qed

subsection \<open>The invariant\<close>

lemma new_grant_sync: "grant_in_sync (new_grant en d c req pl stamp e t)"
  by (simp add: grant_in_sync_def new_grant_def grant_machine.state_of_value [of GRANTED, simplified]
      terminal_grant_state_def)

lemma inv_admit_grant:
  assumes inv: "sas_inv (env_uuid en) d" and "in_band (new_grant en d c req pl stamp e t)"
    and c: "lock_cbsd_row d (dget req ''cbsdId'') = Some c"
    and free: "\<not> has_freq_conflict (active_grants d (dget req ''cbsdId'')) (pl_low pl) (pl_high pl) ps"
  shows "sas_inv (env_uuid en) (add_grant d (new_grant en d c req pl stamp e t))"
proof -
  let ?g = "new_grant en d c req pl stamp e t"
  from lock_cbsd_rowD [OF c] have mem: "c \<in> set (db_cbsds d)"
    and cid: "dget req ''cbsdId'' = PStr (cb_id c)" by simp_all
  have g: "gr_cbsd_id ?g = cb_id c" "gr_cbsd_pk ?g = cb_pk c" "gr_low ?g = pl_low pl"
    "gr_high ?g = pl_high pl" "gr_id ?g = ''grant/'' @ env_uuid en (db_next_grant d)"
    by (simp_all add: new_grant_def)
  have "owned d ?g" using mem g by (auto simp: owned_def)
  moreover have "\<not> conflict ?g h" if "h \<in> set (db_grants d)" for h
  proof
    assume "conflict ?g h"
    then have "conflict h ?g" by (simp add: conflict_sym)
    then have "h \<in> set (active_grants d (PStr (cb_id c)))"
      "overlaps (gr_low h) (gr_high h) (pl_low pl) (pl_high pl)"
      using that g by (simp_all add: conflict_def active_grants_def)
    with free cid show False by (auto simp: has_freq_conflict_def)
  qed
  ultimately have "db_wf (add_grant d ?g)"
    using wf_add_grant [OF sas_invD(1) [OF inv] new_grant_sync assms(2)] by blast
  moreover have "ids_issued (env_uuid en) (add_grant d ?g)"
    by (rule issued_add_grant [OF sas_invD(2) [OF inv] g(5)])
  ultimately show ?thesis by (simp add: sas_inv_def)
qed

lemma grant_item_inv:
  assumes "sas_inv (env_uuid en) (fst st)"
  shows "sas_inv (env_uuid en) (fst (snd (grant_item ext en ask cert st req)))"
proof -
  obtain d pend where st: "st = (d, pend)" by (cases st)
  show ?thesis
  proof (cases rule: grant_item_cases [of ext en ask cert d pend req])
    case (refused r)
    then show ?thesis using assms st by simp
  next
    case (checked c pl)
    note item = checked(5)
    from checked(4) have band: "pl_low pl < pl_high pl" "CBRS_LOW_HZ \<le> pl_low pl"
      "pl_high pl \<le> CBRS_HIGH_HZ" by (auto elim: check_operation_plan)
    show ?thesis
    proof (cases rule: admit_grant_cases [of ext en cert d pend req pl])
      case (refused r)
      then show ?thesis using assms st item by simp
    next
      case (admitted c tx stamp g)
      have "in_band g" using band by (simp add: admitted(7) in_band_def new_grant_def)
      then show ?thesis
        using inv_admit_grant [OF _ _ admitted(1,3)] assms st item admitted(7,8) by simp
    qed
  qed
qed

interpretation grant_batch: batch_service "grant_item ext en ask cert" "\<lambda>st. sas_inv (env_uuid en) (fst st)"
  by unfold_locales (rule grant_item_inv)

lemma process_grant_inv:
  assumes "sas_inv (env_uuid en) d"
  shows "sas_inv (env_uuid en) (snd (process_grant ext en cert d requests))"
  using grant_batch.batch_inv [of en "(d, \<lambda>_. [])" ext "admin_flag_set d FLAG_MEAS_REG" cert requests] assms
  by (simp add: process_grant_def case_prod_unfold)

subsection \<open>Properties\<close>

lemma find_mem: "List.find P xs = Some x \<Longrightarrow> x \<in> set xs \<and> P x"
  by (induction xs) (auto split: if_splits)

lemma resolve_channel_sound:
  assumes "resolve_channel contexts low high user = Inr (ch, xp, pid)"
  shows "(\<forall>ctx\<in>set contexts. px_overlaps low high ctx \<longrightarrow> px_in_ppa ctx \<longrightarrow> px_in_cluster ctx)
    \<and> (\<forall>ctx\<in>set contexts. px_overlaps low high ctx \<longrightarrow> px_in_cluster ctx \<longrightarrow> px_covers low high ctx)
    \<and> (ch = ''GAA'' \<and> xp = None \<and> (\<forall>ctx\<in>set contexts. px_overlaps low high ctx \<longrightarrow>
           \<not> px_in_ppa ctx \<and> \<not> px_in_cluster ctx \<and> \<not> px_covers low high ctx)
       \<or> ch = ''PAL'' \<and> (\<exists>ctx\<in>set contexts. px_covers low high ctx \<and> px_in_cluster ctx
           \<and> px_user_id ctx = PStr user \<and> xp = px_expiry ctx \<and> pid = px_pal_id ctx))"
proof -
  let ?over = "filter (px_overlaps low high) contexts"
  let ?cover = "filter (px_covers low high) ?over"
  have g: "\<not> (\<exists>ctx\<in>set ?over. px_in_ppa ctx \<and> \<not> px_in_cluster ctx)"
    "\<not> (\<exists>ctx\<in>set ?over. px_in_cluster ctx \<and> \<not> px_covers low high ctx)"
    using assms by (auto simp: resolve_channel_def Let_def split: if_splits)
  have eq: "resolve_channel contexts low high user = (if ?cover \<noteq> [] then
        (case List.find (\<lambda>ctx. px_in_cluster ctx \<and> px_user_id ctx = PStr user) ?cover of
           Some ctx \<Rightarrow> Inr (''PAL'', px_expiry ctx, px_pal_id ctx)
         | None \<Rightarrow> Inl INTERFERENCE)
      else Inr (''GAA'', None, PNone))"
    unfolding resolve_channel_def Let_def using g by (simp only: if_False)
  show ?thesis
  proof (cases "?cover = []")
    case True
    then have "ch = ''GAA''" "xp = None" using assms unfolding eq by simp_all
    moreover have "\<forall>ctx\<in>set contexts. px_overlaps low high ctx \<longrightarrow> \<not> px_covers low high ctx"
      using True by (auto simp: filter_empty_conv)
    ultimately show ?thesis using g by auto
  next
    case False
    then obtain ctx where "List.find (\<lambda>ctx. px_in_cluster ctx \<and> px_user_id ctx = PStr user) ?cover = Some ctx"
      and r: "ch = ''PAL''" "xp = px_expiry ctx" "pid = px_pal_id ctx"
      using assms unfolding eq by (auto split: option.splits)
    then have "ctx \<in> set ?cover" "px_in_cluster ctx" "px_user_id ctx = PStr user"
      using find_mem [of _ ?cover ctx] by blast+
    with r have "\<exists>ctx\<in>set contexts. px_covers low high ctx \<and> px_in_cluster ctx
           \<and> px_user_id ctx = PStr user \<and> xp = px_expiry ctx \<and> pid = px_pal_id ctx"
      by auto
    with r(1) g show ?thesis by auto
  qed
qed

text \<open>What the service promises of an admitted grant \<open>g\<close> for the CBSD \<open>c\<close>.\<close>

definition admissible :: "grant_ext \<Rightarrow> env \<Rightarrow> db \<Rightarrow> cbsd_row \<Rightarrow> grant_row \<Rightarrow> bool" where
  "admissible ext en d c g = (
     \<not> is_cbsd_blacklisted d (PStr (cb_fcc_id c)) (PStr (cb_serial c))
     \<and> in_band g
     \<and> (\<forall>h\<in>set (db_grants d). gr_cbsd_id h = cb_id c \<longrightarrow> \<not> gr_term h \<longrightarrow>
           \<not> overlaps (gr_low h) (gr_high h) (gr_low g) (gr_high g))
     \<and> \<not> peer_has_grant_for_cbsd en d c
     \<and> (\<exists>e cap. gr_eirp g = Some e \<and> max_allowed_eirp_mhz c (fcc_max_of d c) = Inr cap \<and> e \<le> cap
          \<and> ge_iap ext d c (gr_low g) (gr_high g) e = Inr False
          \<and> border_blocks ext c (gr_low g) (gr_high g) e = Inr False
          \<and> (\<forall>lat lon. grant_cbsd_location c = Inr (Some (lat, lon)) \<longrightarrow>
               location_blocks ext en d c lat lon (gr_low g) (gr_high g) e = Inr False))
     \<and> (\<exists>contexts. ppa_pal_context d c = Inr contexts
          \<and> (\<forall>ctx\<in>set contexts. px_overlaps (gr_low g) (gr_high g) ctx \<longrightarrow> px_in_ppa ctx \<longrightarrow> px_in_cluster ctx)
          \<and> (gr_channel g = ''GAA'' \<and> (\<forall>ctx\<in>set contexts. px_overlaps (gr_low g) (gr_high g) ctx \<longrightarrow> \<not> px_in_cluster ctx)
             \<or> gr_channel g = ''PAL'' \<and> (\<exists>ctx\<in>set contexts. px_covers (gr_low g) (gr_high g) ctx
                 \<and> px_in_cluster ctx \<and> px_user_id ctx = PStr (cb_user_id c)
                 \<and> (\<forall>e. px_expiry ctx = Some e \<longrightarrow> gr_expire g \<le> e))))
     \<and> gr_expire g \<le> env_now en + seconds 900
     \<and> (\<exists>tx. gr_tx g = Some tx \<and> tx \<le> trunc_sec (gr_expire g) \<and> tx \<le> trunc_sec (env_now en) + seconds 240)
     \<and> gr_state g = grant_state_value GRANTED \<and> \<not> gr_term g)"

lemma admissibleI:
  assumes c: "lock_cbsd_row d cid = Some c" and "\<not> is_cbsd_blacklisted d (PStr (cb_fcc_id c)) (PStr (cb_serial c))"
    and op: "check_operation ext en d c req = Inr (Inr pl)"
    and free: "\<not> has_freq_conflict (active_grants d cid) (pl_low pl) (pl_high pl) ps"
    and "\<not> peer_has_grant_for_cbsd en d c"
    and iap: "ge_iap ext d c (pl_low pl) (pl_high pl) (pl_eirp pl) = Inr False"
    and tx: "compute_transmit_expire_time en d c (grant_expire_time (env_now en) (pl_pal_exp pl))
             (pl_low pl) (pl_high pl) = Inr tx"
    and g: "g = new_grant en d c req pl stamp (grant_expire_time (env_now en) (pl_pal_exp pl)) tx"
  shows "admissible ext en d c g"
proof -
  from op obtain cap where band: "pl_low pl < pl_high pl" "CBRS_LOW_HZ \<le> pl_low pl"
    "pl_high pl \<le> CBRS_HIGH_HZ" and cap: "max_allowed_eirp_mhz c (fcc_max_of d c) = Inr cap" "pl_eirp pl \<le> cap"
    and plan: "plan_grant ext en d c (pl_low pl) (pl_high pl) (pl_eirp pl) = Inr (Inr pl)"
    by (rule check_operation_plan)
  from plan obtain contexts loc where ctx: "ppa_pal_context d c = Inr contexts"
    and ch: "resolve_channel contexts (pl_low pl) (pl_high pl) (cb_user_id c)
           = Inr (pl_channel pl, pl_pal_exp pl, pl_pal_id pl)"
    and loc: "grant_cbsd_location c = Inr loc"
    and clear: "\<And>lat lon. loc = Some (lat, lon) \<Longrightarrow>
        location_blocks ext en d c lat lon (pl_low pl) (pl_high pl) (pl_eirp pl) = Inr False"
    and border: "border_blocks ext c (pl_low pl) (pl_high pl) (pl_eirp pl) = Inr False"
    by (rule plan_grantE) blast
  note sound = resolve_channel_sound [OF ch]
  have row: "gr_low g = pl_low pl" "gr_high g = pl_high pl" "gr_eirp g = Some (pl_eirp pl)"
    "gr_channel g = pl_channel pl" "gr_expire g = grant_expire_time (env_now en) (pl_pal_exp pl)"
    "gr_tx g = Some tx" "gr_state g = grant_state_value GRANTED" "\<not> gr_term g"
    by (simp_all add: g new_grant_def)
  have le: "gr_expire g \<le> env_now en + seconds 900" "\<And>e. pl_pal_exp pl = Some e \<Longrightarrow> gr_expire g \<le> e"
    by (auto simp: row grant_expire_time_def Let_def split: option.split)
  have apart: "\<not> overlaps (gr_low h) (gr_high h) (gr_low g) (gr_high g)"
    if "h \<in> set (db_grants d)" "gr_cbsd_id h = cb_id c" "\<not> gr_term h" for h
    using that free lock_cbsd_rowD [OF c] by (auto simp: has_freq_conflict_def active_grants_def row)
  have channel: "gr_channel g = ''GAA'' \<and> (\<forall>ctx\<in>set contexts. px_overlaps (gr_low g) (gr_high g) ctx \<longrightarrow> \<not> px_in_cluster ctx)
             \<or> gr_channel g = ''PAL'' \<and> (\<exists>ctx\<in>set contexts. px_covers (gr_low g) (gr_high g) ctx
                 \<and> px_in_cluster ctx \<and> px_user_id ctx = PStr (cb_user_id c)
                 \<and> (\<forall>e. px_expiry ctx = Some e \<longrightarrow> gr_expire g \<le> e))"
    using sound le(2) unfolding row(1,2,4) by auto
  have tx': "tx \<le> trunc_sec (gr_expire g)" "tx \<le> trunc_sec (env_now en) + seconds 240"
    using transmit_expire_bounds [OF tx] row(5) by simp_all
  have "in_band g" using band row by (simp add: in_band_def)
  moreover have "\<exists>e cap. gr_eirp g = Some e \<and> max_allowed_eirp_mhz c (fcc_max_of d c) = Inr cap \<and> e \<le> cap
          \<and> ge_iap ext d c (gr_low g) (gr_high g) e = Inr False
          \<and> border_blocks ext c (gr_low g) (gr_high g) e = Inr False
          \<and> (\<forall>lat lon. grant_cbsd_location c = Inr (Some (lat, lon)) \<longrightarrow>
               location_blocks ext en d c lat lon (gr_low g) (gr_high g) e = Inr False)"
    using cap iap border clear loc row by auto
  moreover have "\<exists>contexts. ppa_pal_context d c = Inr contexts
          \<and> (\<forall>ctx\<in>set contexts. px_overlaps (gr_low g) (gr_high g) ctx \<longrightarrow> px_in_ppa ctx \<longrightarrow> px_in_cluster ctx)
          \<and> (gr_channel g = ''GAA'' \<and> (\<forall>ctx\<in>set contexts. px_overlaps (gr_low g) (gr_high g) ctx \<longrightarrow> \<not> px_in_cluster ctx)
             \<or> gr_channel g = ''PAL'' \<and> (\<exists>ctx\<in>set contexts. px_covers (gr_low g) (gr_high g) ctx
                 \<and> px_in_cluster ctx \<and> px_user_id ctx = PStr (cb_user_id c)
                 \<and> (\<forall>e. px_expiry ctx = Some e \<longrightarrow> gr_expire g \<le> e)))"
    using ctx sound channel row(1,2) by auto
  ultimately show ?thesis
    unfolding admissible_def using assms(2,5) apart le(1) tx' row(6-8) by blast
qed

text \<open>
  C4. A grant request either changes nothing and returns no grant, also when it raises, or it
  adds exactly one row, the admissible grant it answers with, to a CBSD whose certificate the
  caller holds: inside the band and the power caps, clear of the CBSD's other active grants, of
  every protection checked and of the PAL channels it has no right to, PAL only inside the
  channel of a licence of the CBSD's user that lists it in its cluster, and expiring within
  fifteen minutes and not after that licence.
\<close>

theorem grant_item_admits:
  "case grant_item ext en ask cert (d, pend) req of (r, (d', pend')) \<Rightarrow>
     (d' = d \<and> (\<forall>resp. r = Inr resp \<longrightarrow> gn_details resp = None)) \<or>
     (\<exists>c g resp det. lock_cbsd_row d (dget req ''cbsdId'') = Some c
        \<and> \<not> cbsd_certificate_mismatch c cert
        \<and> gr_cbsd_id g = cb_id c \<and> gr_id g = ''grant/'' @ env_uuid en (db_next_grant d)
        \<and> admissible ext en d c g \<and> d' = add_grant d g
        \<and> r = Inr resp \<and> gn_code resp = SUCCESS \<and> gn_details resp = Some det
        \<and> gd_grant_id det = gr_id g \<and> gd_expire det = strftime_z (gr_expire g)
        \<and> gd_channel det = gr_channel g)"
proof (cases rule: grant_item_cases [of ext en ask cert d pend req])
  case (refused r)
  then show ?thesis by simp
next
  case (checked c pl)
  note item = checked(5)
  show ?thesis
  proof (cases rule: admit_grant_cases [of ext en cert d pend req pl])
    case (refused r)
    then show ?thesis using item by simp
  next
    case (admitted c2 tx stamp g)
    have c2: "c2 = c" using admitted(1) checked(1) by simp
    have "admissible ext en d c g"
      by (rule admissibleI [OF checked(1,3,4) admitted(3) admitted(4-7) [unfolded c2]])
    moreover have "gr_cbsd_id g = cb_id c" "gr_id g = ''grant/'' @ env_uuid en (db_next_grant d)"
      "grant_expire_time (env_now en) (pl_pal_exp pl) = gr_expire g" "pl_channel pl = gr_channel g"
      by (simp_all add: admitted(7) new_grant_def c2)
    moreover define det where "det = \<lparr>gd_grant_id = gr_id g, gd_expire = strftime_z (gr_expire g),
        gd_transmit_expire = fmt_transmit_expire tx, gd_interval = HEARTBEAT_INTERVAL_SEC,
        gd_channel = gr_channel g\<rparr>"
    moreover define resp where "resp = \<lparr>gn_cbsd_id = Some (dget req ''cbsdId''),
        gn_details = Some det, gn_code = SUCCESS\<rparr>"
    ultimately have eq: "\<exists>pend'. grant_item ext en ask cert (d, pend) req
        = (Inr resp, (add_grant d g, pend'))"
      and facts: "admissible ext en d c g" "gr_cbsd_id g = cb_id c"
        "gr_id g = ''grant/'' @ env_uuid en (db_next_grant d)"
      using item admitted(8) by simp_all
    then obtain pend' where eq: "grant_item ext en ask cert (d, pend) req
        = (Inr resp, (add_grant d g, pend'))" by blast
    show ?thesis
      unfolding eq prod.case
      by (intro disjI2 exI [of _ c] exI [of _ g] exI [of _ resp] exI [of _ det] conjI
          checked(1,2) facts refl) (simp_all add: resp_def det_def)
  qed
qed

text \<open>A request for the 10 MHz above the grant the example CBSD already has.\<close>

definition example_grant_ext :: grant_ext where
  "example_grant_ext = \<lparr>ge_dpa = (\<lambda>_ _ _ _ _. Inr False), ge_border = (\<lambda>_ _ _ _. Inr False),
     ge_iap = (\<lambda>_ _ _ _ _. Inr False)\<rparr>"

definition example_grant_request :: pydict where
  "example_grant_request = [(''cbsdId'', PStr ''F/S''), (''operationParam'', PDict
     [(''maxEirp'', PInt 10), (''operationFrequencyRange'', PDict
        [(''lowFrequency'', PInt 3570000000), (''highFrequency'', PInt 3580000000)])])]"

definition example_plan :: grant_plan where
  "example_plan = \<lparr>pl_low = 3570000000, pl_high = 3580000000, pl_eirp = 10, pl_channel = ''GAA'',
     pl_pal_exp = None, pl_pal_id = PNone\<rparr>"

lemma example_lock: "lock_cbsd_row example_db (PStr ''F/S'') = Some example_cbsd"
  by (simp add: lock_cbsd_row_def example_db_def example_cbsd_def)

lemma example_injected: "rows_of_kind example_db k = []" "db_pals example_db = []"
  "db_fcc_ids example_db = []" "db_peer_fad example_db = []" "db_peers example_db = []"
  "db_black_fcc example_db = []" "db_black_serial example_db = []"
  by (simp_all add: rows_of_kind_def example_db_def empty_db_def)

lemma example_check:
  "check_operation example_grant_ext example_env example_db example_cbsd example_grant_request
     = Inr (Inr example_plan)"
proof -
  have reg: "cbsd_reg example_cbsd = PDict []" by (simp add: cbsd_reg_def example_cbsd_def)
  have loc: "grant_cbsd_location example_cbsd = Inr None"
    by (simp add: grant_cbsd_location_def reg pget_or_empty_def por_def)
  have "load_injected example_db ''zone'' = []" by (simp add: load_injected_def example_injected)
  moreover have "load_pal_records example_db False = Inr []"
    by (simp add: load_pal_records_def load_pal_table_def example_injected)
  ultimately have ctx: "ppa_pal_context example_db example_cbsd = Inr []"
    by (simp add: ppa_pal_context_def loc)
  have ch: "resolve_channel [] 3570000000 3580000000 u = Inr (''GAA'', None, PNone)" for u
    by (simp add: resolve_channel_def)
  have cap: "max_allowed_eirp_mhz example_cbsd (fcc_max_of example_db example_cbsd) = Inr 20"
    by (simp add: max_allowed_eirp_mhz_def reg por_def pupper_def py_upper_def upper_char_def
        fcc_max_of_def example_injected pget_or_empty_def) (simp add: example_cbsd_def py_upper_def upper_char_def)
  have f: "parse_freq [(''maxEirp'', PInt 10), (''operationFrequencyRange'', PDict
        [(''lowFrequency'', PInt 3570000000), (''highFrequency'', PInt 3580000000)])]
      = Inr (3570000000, 3580000000)"
    by (simp add: parse_freq_def band_defs)
  show ?thesis
    by (simp add: check_operation_def example_grant_request_def f cap plan_grant_def ctx ch loc
        border_blocks_def reg pget_or_empty_def por_def example_plan_def)
qed

lemma example_item:
  assumes "check_operation ext example_env example_db example_cbsd example_grant_request = Inr (Inr example_plan)"
    "ge_iap ext example_db example_cbsd 3570000000 3580000000 10 = Inr False"
  obtains resp det g pend where
    "grant_item ext example_env False None (example_db, \<lambda>_. []) example_grant_request
       = (Inr resp, (add_grant example_db g, pend))" "gn_details resp = Some det"
proof -
  let ?item = "grant_item ext example_env False None (example_db, \<lambda>_. []) example_grant_request"
  have cid: "dget example_grant_request ''cbsdId'' = PStr ''F/S''"
    by (simp add: example_grant_request_def)
  have c: "\<not> cbsd_certificate_mismatch example_cbsd None"
    by (simp add: cbsd_certificate_mismatch_def example_cbsd_def)
  have black: "\<not> is_cbsd_blacklisted example_db v w" for v w
    by (simp add: is_cbsd_blacklisted_def is_fcc_id_blacklisted_def example_injected)
  have caps: "cbsd_meas_capabilities (cb_reg example_cbsd) = Inr []"
    by (simp add: cbsd_meas_capabilities_def example_cbsd_def por_def)
  have free: "\<not> has_freq_conflict (active_grants example_db (PStr ''F/S'')) 3570000000 3580000000 []"
    by (simp add: has_freq_conflict_def active_grants_def example_db_def example_grant_def overlaps_def)
  have peer: "\<not> peer_has_grant_for_cbsd example_env example_db c" for c
    by (simp add: peer_has_grant_for_cbsd_def peer_cbsd_records_def example_injected)
  have "catalogue_dicts example_db = []"
    by (simp add: catalogue_dicts_def list_catalogue_def example_injected List.map_filter_def)
  then have "evaluate_dpa_neighborhood example_env example_db example_cbsd = Inr OUTSIDE"
    by (simp add: evaluate_dpa_neighborhood_def)
  then have "requires_dpa_neighborhood_tx_cap example_env example_db example_cbsd l h = Inr False" for l h
    by (cases "grant_overlaps_dpa_tx_expire_band l h")
      (simp_all add: requires_dpa_neighborhood_tx_cap_def)
  then obtain tx where tx: "compute_transmit_expire_time example_env example_db example_cbsd
      (grant_expire_time 0 None) 3570000000 3580000000 = Inr tx"
    by (simp add: compute_transmit_expire_time_def transmit_expire_horizon_sec_def Let_def)
  obtain stamp where stamp: "get_sync_meta example_db = Inr stamp"
    by (simp add: get_sync_meta_def load_kind_def example_injected)
  have now: "env_now example_env = 0" by (simp add: example_env_def)
  have "\<exists>resp det g pend. ?item = (Inr resp, (add_grant example_db g, pend)) \<and> gn_details resp = Some det"
    using c free tx stamp peer assms
    by (simp add: grant_item_def cid example_lock black caps admit_grant_def example_plan_def now Let_def)
      (auto simp: example_plan_def)
  then show ?thesis using that by blast
qed

theorem grant_item_admits_witness:
  "\<exists>g. fst (snd (grant_item example_grant_ext example_env False None (example_db, \<lambda>_. [])
          example_grant_request)) = add_grant example_db g
     \<and> admissible example_grant_ext example_env example_db example_cbsd g"
proof (rule example_item [OF example_check])
  show "ge_iap example_grant_ext example_db example_cbsd 3570000000 3580000000 10 = Inr False"
    by (simp add: example_grant_ext_def)
next
  fix resp det g pend
  assume "grant_item example_grant_ext example_env False None (example_db, \<lambda>_. []) example_grant_request
       = (Inr resp, (add_grant example_db g, pend))" "gn_details resp = Some det"
  then show ?thesis
    using grant_item_admits [where ext = example_grant_ext and en = example_env and ask = False
        and cert = None and d = example_db and pend = "\<lambda>_. []" and req = example_grant_request]
      example_lock
    by (auto simp: case_prod_unfold example_grant_request_def)
qed

subsection \<open>The bands pending in a batch\<close>

text \<open>Every pending band is that of an active grant of the same CBSD already committed.\<close>

definition pending_committed :: "db \<times> pending \<Rightarrow> bool" where
  "pending_committed st = (\<forall>cid. \<forall>(l, h)\<in>set (snd st cid).
     \<exists>g\<in>set (active_grants (fst st) cid). gr_low g = l \<and> gr_high g = h)"

lemma conflict_ignores_pending:
  assumes "pending_committed (d, pend)"
  shows "has_freq_conflict (active_grants d cid) l h (pend cid)
    = has_freq_conflict (active_grants d cid) l h []"
  using assms by (fastforce simp: has_freq_conflict_def pending_committed_def)

lemma grant_item_ignores_pending:
  assumes "pending_committed (d, pend)"
  shows "fst (grant_item ext en ask cert (d, pend) req)
       = fst (grant_item ext en ask cert (d, \<lambda>_. []) req)
    \<and> fst (snd (grant_item ext en ask cert (d, pend) req))
       = fst (snd (grant_item ext en ask cert (d, \<lambda>_. []) req))"
proof -
  note same = conflict_ignores_pending [OF assms]
  have "fst (admit_grant ext en cert (d, pend) req pl)
      = fst (admit_grant ext en cert (d, \<lambda>_. []) req pl)
    \<and> fst (snd (admit_grant ext en cert (d, pend) req pl))
      = fst (snd (admit_grant ext en cert (d, \<lambda>_. []) req pl))" for pl
    by (simp add: admit_grant_def same Let_def split: option.split sum.split bool.split prod.split)
  then show ?thesis
    by (simp add: grant_item_def Let_def split: option.split sum.split)
qed

lemma active_grants_add:
  "active_grants (add_grant d g) cid = active_grants d cid
     @ (if PStr (gr_cbsd_id g) = cid \<and> \<not> gr_term g then [g\<lparr>gr_pk := db_next_grant d\<rparr>] else [])"
  by (simp add: active_grants_def add_grant_def)

lemma pending_committed_step:
  assumes "pending_committed st"
  shows "pending_committed (snd (grant_item ext en ask cert st req))"
proof -
  obtain d pend where st: "st = (d, pend)" by (cases st)
  show ?thesis
  proof (cases rule: grant_item_cases [of ext en ask cert d pend req])
    case (refused r)
    then show ?thesis using assms st by simp
  next
    case (checked c pl)
    note item = checked(5)
    show ?thesis
    proof (cases rule: admit_grant_cases [of ext en cert d pend req pl])
      case (refused r)
      then show ?thesis using assms st item by simp
    next
      case (admitted c tx stamp g)
      have g: "PStr (gr_cbsd_id g) = dget req ''cbsdId''" "\<not> gr_term g" "gr_low g = pl_low pl"
        "gr_high g = pl_high pl"
        using lock_cbsd_rowD [OF admitted(1)] by (simp_all add: admitted(7) new_grant_def)
      show ?thesis
        using assms g unfolding st item admitted(8) pending_committed_def
        by (auto simp: active_grants_add split: if_splits)
    qed
  qed
qed

text \<open>
  The list of bands approved earlier in the same batch never decides anything: every such
  band is already an active grant in the database, so a batch answers and ends exactly as it
  would when each item started with an empty list.
\<close>

theorem pending_bands_redundant:
  "process_grant ext en cert d0 requests =
     run_items (\<lambda>d req. case grant_item ext en (admin_flag_set d0 FLAG_MEAS_REG) cert (d, \<lambda>_. []) req of
        (r, (d', _)) \<Rightarrow> (r, d')) d0 requests"
proof -
  let ?item = "grant_item ext en (admin_flag_set d0 FLAG_MEAS_REG) cert"
  let ?free = "\<lambda>d req. case ?item (d, \<lambda>_. []) req of (r, (d', _)) \<Rightarrow> (r, d')"
  have "(case run_items ?item (d, pend) requests of (r, (d', _)) \<Rightarrow> (r, d')) = run_items ?free d requests"
    if "pending_committed (d, pend)" for d pend
    using that
  proof (induction requests arbitrary: d pend)
    case Nil
    then show ?case by simp
  next
    case (Cons req requests)
    obtain r d1 p1 where item: "?item (d, pend) req = (r, (d1, p1))" by (metis prod_cases3)
    have free: "?free d req = (r, d1)"
      using grant_item_ignores_pending [OF Cons.prems, of ext en _ cert req] item
      by (simp add: case_prod_unfold prod_eq_iff)
    have "pending_committed (d1, p1)"
      using pending_committed_step [OF Cons.prems, of ext en _ cert req] item by (metis snd_conv)
    from Cons.IH [OF this] show ?case
      using item free by (auto split: sum.splits prod.splits)
  qed
  moreover have "pending_committed (d0, \<lambda>_. [])" by (simp add: pending_committed_def)
  ultimately show ?thesis by (simp add: process_grant_def)
qed

text \<open>
  C35. Outside every priority access area and cluster the channel type is decided by coverage
  alone: a request lying inside the channel of some licence is refused with 400, while a
  request that only overlaps licences, however much, is admitted as GAA. A spectrum inquiry by
  the same CBSD offers both.
\<close>

theorem gaa_outside_ppa:
  assumes "\<forall>ctx\<in>set contexts. px_overlaps low high ctx \<longrightarrow> \<not> px_in_ppa ctx \<and> \<not> px_in_cluster ctx"
  shows "resolve_channel contexts low high user =
    (if \<exists>ctx\<in>set contexts. px_overlaps low high ctx \<and> px_covers low high ctx
     then Inl INTERFERENCE else Inr (''GAA'', None, PNone))"
proof -
  let ?over = "filter (px_overlaps low high) contexts"
  have find: "List.find (\<lambda>ctx. px_in_cluster ctx \<and> px_user_id ctx = PStr user)
      (filter (px_covers low high) ?over) = None"
    using assms by (auto simp: find_None_iff)
  have g: "\<not> (\<exists>ctx\<in>set ?over. px_in_ppa ctx \<and> \<not> px_in_cluster ctx)"
    "\<not> (\<exists>ctx\<in>set ?over. px_in_cluster ctx \<and> \<not> px_covers low high ctx)"
    using assms by auto
  have ne: "(filter (px_covers low high) ?over \<noteq> [])
      = (\<exists>ctx\<in>set contexts. px_overlaps low high ctx \<and> px_covers low high ctx)"
    by (auto simp: filter_empty_conv)
  have "resolve_channel contexts low high user =
      (if filter (px_covers low high) ?over \<noteq> [] then Inl INTERFERENCE else Inr (''GAA'', None, PNone))"
    unfolding resolve_channel_def Let_def find using g by (simp only: if_False option.case)
  then show ?thesis unfolding ne .
qed

text \<open>The same CBSD is refused the licensed 10 MHz and admitted to 20 MHz over them.\<close>

definition far_licence :: ppa_context where
  "far_licence = \<lparr>px_low = 3550000000, px_high = 3560000000, px_in_cluster = False,
     px_in_ppa = False, px_license_exp = PNone, px_user_id = PStr ''V'', px_pal_id = PStr ''P''\<rparr>"

theorem gaa_outside_ppa_witness:
  "resolve_channel [far_licence] 3550000000 3560000000 ''U'' = Inl 400
   \<and> resolve_channel [far_licence] 3550000000 3570000000 ''U'' = Inr (''GAA'', None, PNone)"
  using gaa_outside_ppa [of "[far_licence]" 3550000000 3560000000 "''U''"]
    gaa_outside_ppa [of "[far_licence]" 3550000000 3570000000 "''U''"]
  by (simp add: far_licence_def px_overlaps_def px_covers_def overlaps_def)

end
