(* ===== verification/HeartbeatService.thy ===== *)
theory HeartbeatService
  imports Renewal
begin

text \<open>
  Heartbeats (services/heartbeat\_service.py): the checks of an item in the order of the code,
  the lifecycle events they send to the grant, renewal, and the transmit expiry of an
  authorised grant. An exception in the critical section still commits what was assigned
  before it.
\<close>

record hb_response =
  hb_tx :: string
  hb_cbsd_id :: "pyval option"
  hb_grant_id :: "pyval option"
  hb_expire :: "string option"
  hb_interval :: "int option"
  hb_meas :: "string list option"
  hb_code :: int

definition hb_fmt :: "time \<Rightarrow> string" where
  "hb_fmt dt = strftime_z (trunc_sec dt)"

definition past_tx :: "time \<Rightarrow> time" where
  "past_tx now = trunc_sec now - seconds 1"

text \<open>\<open>_base(code, cbsd_id=\<dots>, grant_id=\<dots>)\<close> with a transmit expiry in the past.\<close>

definition hb_base :: "time \<Rightarrow> int \<Rightarrow> pyval option \<Rightarrow> pyval option \<Rightarrow> hb_response" where
  "hb_base now code cid gid =
     \<lparr>hb_tx = hb_fmt (past_tx now), hb_cbsd_id = cid, hb_grant_id = gid, hb_expire = None,
      hb_interval = None, hb_meas = None, hb_code = code\<rparr>"

definition interval_or_default :: "grant_row \<Rightarrow> int" where
  "interval_or_default g = (if gr_interval g = 0 then 60 else gr_interval g)"

definition hb_suspended :: "time \<Rightarrow> pyval \<Rightarrow> pyval \<Rightarrow> grant_row \<Rightarrow> hb_response" where
  "hb_suspended now cid gid g =
     (hb_base now SUSPENDED_GRANT (Some cid) (Some gid))
       \<lparr>hb_expire := Some (hb_fmt (gr_expire g)), hb_interval := Some (interval_or_default g)\<rparr>"

definition future_tx :: "env \<Rightarrow> db \<Rightarrow> cbsd_row \<Rightarrow> grant_row \<Rightarrow> time res" where
  "future_tx en d c g = compute_transmit_expire_time en d c (gr_expire g) (gr_low g) (gr_high g)"

definition grant_overlaps_wisp :: "db \<Rightarrow> grant_row \<Rightarrow> bool res" where
  "grant_overlaps_wisp d g =
     rany (\<lambda>wisp. rbind (wisp_freq wisp) (\<lambda>freq. Inr (case freq of
         None \<Rightarrow> False | Some (l, h) \<Rightarrow> overlaps (gr_low g) (gr_high g) l h)))
       (load_injected d ''wisp'')"

definition hb_overlaps_active_dpa :: "env \<Rightarrow> db \<Rightarrow> grant_row \<Rightarrow> bool res" where
  "hb_overlaps_active_dpa en d g =
     (if grant_on_any_movelist d (gr_id g) \<or> grant_overlaps_active_dpa d (gr_low g) (gr_high g)
      then Inr True
      else rbind (if is_esc_disconnected d \<or> is_esc_absent d
                  then grant_overlaps_esc_monitored_catalogue d (gr_low g) (gr_high g)
                  else Inr False) (\<lambda>esc.
        Inr (esc \<or> (\<exists>p\<in>set (grant_frequency_overlaps_protected
            (list_protected_dpa_channels en d) (gr_low g) (gr_high g)). pc_reason p = ALWAYS_ON))))"

subsection \<open>Events\<close>

definition hb_payload :: "pyval \<Rightarrow> pyval \<Rightarrow> pydict" where
  "hb_payload cid gid = [(''cbsdId'', cid), (''grantId'', gid)]"

definition persist_federal_termination :: "time \<Rightarrow> grant_row \<Rightarrow> pyval \<Rightarrow> pyval \<Rightarrow> grant_row" where
  "persist_federal_termination now g cid gid =
     (let (outcome, g') = apply_grant_event now g TERMINATE (hb_payload cid gid) in
      if to_ok outcome then g' else apply_grant_state g' TERMINATED)"

text \<open>The answer to a heartbeat the lifecycle gate refuses; the row is not touched.\<close>

definition gate_response :: "time \<Rightarrow> pyval \<Rightarrow> pyval \<Rightarrow> grant_row \<Rightarrow> int \<Rightarrow> hb_response" where
  "gate_response now cid gid g code =
     (if code = INVALID_PARAM then hb_base now INVALID_PARAM (Some cid) None
      else if code = TERMINATED_GRANT then hb_base now TERMINATED_GRANT (Some cid) (Some gid)
      else if code = SUSPENDED_GRANT then hb_suspended now cid gid g
      else hb_base now code (Some cid) (Some gid))"

subsection \<open>The authorising end of the handler\<close>

text \<open>Transmit expiry, AUTHORIZE and measurement configuration; \<open>g\<close> may have been renewed.\<close>

definition hb_authorize ::
    "env \<Rightarrow> bool \<Rightarrow> db \<Rightarrow> cbsd_row \<Rightarrow> pydict \<Rightarrow> pyval list \<Rightarrow> grant_row \<Rightarrow> hb_response res \<times> grant_row" where
  "hb_authorize en ask_meas d c req caps g =
     (let cid = dget req ''cbsdId''; gid = dget req ''grantId'' in
      case future_tx en d c g of
        Inl e \<Rightarrow> (Inl e, g)
      | Inr tx \<Rightarrow>
          (let g1 = g\<lparr>gr_tx := Some tx\<rparr>;
               g2 = snd (apply_grant_event (env_now en) g1 AUTHORIZE
                      [(''cbsdId'', cid), (''grantId'', gid),
                       (''operationState'', dget req ''operationState'')]);
               ask = (ask_meas \<and> PStr MEAS_WITH_GRANT \<in> set caps);
               g3 = (if ask then g2\<lparr>gr_meas := True\<rparr> else g2) in
           (Inr \<lparr>hb_tx = hb_fmt tx, hb_cbsd_id = Some cid, hb_grant_id = Some gid,
              hb_expire = (if dget req ''grantRenew'' = PBool True
                           then Some (hb_fmt (gr_expire g3)) else None),
              hb_interval = Some (interval_or_default g3),
              hb_meas = (if ask then Some [MEAS_WITH_GRANT] else None), hb_code = SUCCESS\<rparr>, g3)))"

definition hb_renew_and_authorize ::
    "env \<Rightarrow> bool \<Rightarrow> db \<Rightarrow> cbsd_row \<Rightarrow> pydict \<Rightarrow> pyval list \<Rightarrow> grant_row \<Rightarrow> hb_response res \<times> grant_row" where
  "hb_renew_and_authorize en ask_meas d c req caps g =
     (if dget req ''grantRenew'' = PBool True then
        (case apply_renewal en d g of
           (Inl e, g') \<Rightarrow> (Inl e, g')
         | (Inr renew, g') \<Rightarrow>
             if \<not> rn_ok renew
             then (Inr (hb_base (env_now en) (rn_code renew) (Some (dget req ''cbsdId''))
                     (Some (dget req ''grantId''))), g')
             else hb_authorize en ask_meas d c req caps g')
      else hb_authorize en ask_meas d c req caps g)"

text \<open>The checks from the federal databases on, in order.\<close>

definition hb_protect ::
    "env \<Rightarrow> bool \<Rightarrow> db \<Rightarrow> cbsd_row \<Rightarrow> pydict \<Rightarrow> grant_row \<Rightarrow> hb_response res \<times> grant_row" where
  "hb_protect en ask_meas d c req g =
     (let now = env_now en; cid = dget req ''cbsdId''; gid = dget req ''grantId'';
          base = (\<lambda>code. hb_base now code (Some cid) (Some gid)) in
      case heartbeat_federal_code d c g of
        Inl e \<Rightarrow> (Inl e, g)
      | Inr federal \<Rightarrow>
          if federal = Some TERMINATED_GRANT
          then (Inr (base TERMINATED_GRANT), persist_federal_termination now g cid gid)
          else if trunc_sec (gr_expire g) \<le> trunc_sec now
          then (Inr (base INVALID_PARAM), snd (apply_grant_event now g EXPIRE (hb_payload cid gid)))
          else (case grant_overlaps_wisp d g of
              Inl e \<Rightarrow> (Inl e, g)
            | Inr True \<Rightarrow>
                (Inr (base TERMINATED_GRANT),
                 snd (apply_grant_event now g TERMINATE (hb_payload cid gid)))
            | Inr False \<Rightarrow>
                if federal = Some SUSPENDED_GRANT then (Inr (hb_suspended now cid gid g), g)
                else (case cbsd_meas_capabilities (cb_reg c) of
                    Inl e \<Rightarrow> (Inl e, g)
                  | Inr caps \<Rightarrow>
                      (case (if gr_meas g \<and> PStr MEAS_WITH_GRANT \<in> set caps
                             then validate_meas_report (dget req ''measReport'') False else None) of
                         Some e \<Rightarrow> (Inr (base e), g)
                       | None \<Rightarrow> hb_renew_and_authorize en ask_meas d c req caps g))))"

text \<open>The checks of a grant whose CBSD's certificate the caller holds: the answer and the row.\<close>

definition hb_grant ::
    "env \<Rightarrow> bool \<Rightarrow> db \<Rightarrow> cbsd_row \<Rightarrow> pydict \<Rightarrow> grant_row \<Rightarrow> hb_response res \<times> grant_row" where
  "hb_grant en ask_meas d c req g =
     (let now = env_now en; cid = dget req ''cbsdId''; gid = dget req ''grantId'' in
      if is_cbsd_blacklisted d (PStr (cb_fcc_id c)) (PStr (cb_serial c))
      then (Inr (hb_base now BLACKLISTED (Some cid) (Some gid)), g)
      else if peer_has_grant_for_cbsd en d c
      then (Inr (hb_base now TERMINATED_GRANT (Some cid) (Some gid)),
            snd (apply_grant_event now g TERMINATE (hb_payload cid gid)))
      else (let life = heartbeat_operation_allowed now g (py_str en (dget req ''operationState'')) in
        if \<not> to_ok life then (Inr (gate_response now cid gid g (to_code life)), g)
        else (case hb_overlaps_active_dpa en d g of
            Inl e \<Rightarrow> (Inl e, g)
          | Inr True \<Rightarrow> (Inr (hb_suspended now cid gid g), g)
          | Inr False \<Rightarrow> hb_protect en ask_meas d c req g)))"

definition heartbeat_item ::
    "env \<Rightarrow> bool \<Rightarrow> string option \<Rightarrow> db \<Rightarrow> pydict \<Rightarrow> hb_response res \<times> db" where
  "heartbeat_item en ask_meas cert d req =
     (let now = env_now en; cid = dget req ''cbsdId''; gid = dget req ''grantId'' in
      if \<not> truthy cid \<or> \<not> truthy gid \<or> \<not> truthy (dget req ''operationState'')
      then (Inr (hb_base now MISSING_PARAM (if cid = PNone then None else Some cid)
              (if truthy gid \<and> truthy cid \<and> lock_grant_row d gid cid \<noteq> None
               then Some gid else None)), d)
      else if (case lock_cbsd_row d cid of
                 None \<Rightarrow> False | Some c \<Rightarrow> cbsd_certificate_mismatch c cert)
      then (Inr (hb_base now INVALID_PARAM None None), d)
      else (case (lock_grant_row d gid cid, lock_cbsd_row d cid) of
          (Some g, Some c) \<Rightarrow>
            (case hb_grant en ask_meas d c req g of (r, g') \<Rightarrow> (r, put_grant d g'))
        | _ \<Rightarrow> (Inr (hb_base now INVALID_PARAM (Some cid) None), d)))"

definition process_heartbeat ::
    "env \<Rightarrow> string option \<Rightarrow> db \<Rightarrow> pydict list \<Rightarrow> hb_response list res \<times> db" where
  "process_heartbeat en cert d requests =
     run_items (heartbeat_item en (admin_flag_set d FLAG_MEAS_HBT) cert) d requests"

subsection \<open>The invariant\<close>

lemma evolves_columns [evolve_intros]:
  "evolves g (g\<lparr>gr_tx := t\<rparr>)" "evolves g (g\<lparr>gr_meas := b\<rparr>)"
  by (simp_all add: evolves_def grant_in_sync_cong [of "g\<lparr>gr_tx := t\<rparr>" g]
      grant_in_sync_cong [of "g\<lparr>gr_meas := b\<rparr>" g])

lemma evolves_sync: "evolves g g' \<Longrightarrow> grant_in_sync g \<Longrightarrow> grant_in_sync g'"
  by (simp add: evolves_def)

lemma evolves_federal [evolve_intros]:
  assumes "grant_in_sync g"
  shows "evolves g (persist_federal_termination now g cid gid)"
proof -
  let ?r = "apply_grant_event now g TERMINATE (hb_payload cid gid)"
  have ev: "evolves g (snd ?r)" by (rule evolves_event [OF assms])
  have "evolves (snd ?r) (apply_grant_state (snd ?r) TERMINATED)"
    by (simp add: evolves_def apply_grant_state_in_sync) (simp add: apply_grant_state_def)
  with ev show ?thesis
    by (auto simp: persist_federal_termination_def Let_def case_prod_unfold intro: evolves_trans)
qed

lemma hb_authorize_evolves:
  assumes "grant_in_sync g"
  shows "evolves g (snd (hb_authorize en ask d c req caps g))"
proof -
  have "evolves g (snd (apply_grant_event now (g\<lparr>gr_tx := t\<rparr>) ev p))" for now t ev p
    using evolves_event [OF evolves_sync [OF evolves_columns(1) assms]] evolves_columns(1)
      evolves_trans by blast
  then show ?thesis
    by (auto simp: hb_authorize_def Let_def split: sum.split
        intro: evolve_intros evolves_trans [OF _ evolves_columns(2)])
qed

lemma hb_renew_evolves:
  assumes "grant_in_sync g"
  shows "evolves g (snd (hb_renew_and_authorize en ask d c req caps g))"
proof (cases "apply_renewal en d g")
  case (Pair r g')
  then have ev: "evolves g g'" using apply_renewal_evolves [of g en d] by simp
  have "evolves g (snd (hb_authorize en ask d c req caps g'))"
    using evolves_trans [OF ev hb_authorize_evolves [OF evolves_sync [OF ev assms]]] .
  then show ?thesis
    using ev hb_authorize_evolves [OF assms] Pair
    by (auto simp: hb_renew_and_authorize_def split: sum.split)
qed

lemma hb_protect_evolves:
  assumes "grant_in_sync g"
  shows "evolves g (snd (hb_protect en ask d c req g))"
proof -
  note steps = evolves_refl evolves_event [OF assms] evolves_federal [OF assms] hb_renew_evolves [OF assms]
  show ?thesis
    unfolding hb_protect_def Let_def
    by (simp split: sum.split option.split bool.split) (use steps in blast)
qed

lemma hb_grant_evolves:
  assumes "grant_in_sync g"
  shows "evolves g (snd (hb_grant en ask d c req g))"
  unfolding hb_grant_def Let_def
  by (auto split: sum.split bool.split intro: evolves_refl evolves_event [OF assms]
      hb_protect_evolves [OF assms])

lemma heartbeat_item_inv:
  assumes "sas_inv uuid d"
  shows "sas_inv uuid (snd (heartbeat_item en ask cert d req))"
proof -
  have "sas_inv uuid (put_grant d (snd (hb_grant en ask d c req g)))"
    if "lock_grant_row d gid cid = Some g" for c g gid cid
  proof -
    from lock_grant_rowD [OF that] have g: "g \<in> set (db_grants d)" by simp
    show ?thesis
      by (rule inv_put_grant [OF assms g hb_grant_evolves
            [OF grants_wfD(1) [OF sas_invD(1) [OF assms] g]]])
  qed
  then show ?thesis
    using assms by (auto simp: heartbeat_item_def Let_def case_prod_unfold split: option.split)
qed

interpretation heartbeat_batch: batch_service "heartbeat_item en ask cert" "sas_inv uuid"
  by unfold_locales (rule heartbeat_item_inv)

subsection \<open>The authorised heartbeat\<close>

lemma hb_base_simps [simp]:
  "hb_code (hb_base now code cid gid) = code" "hb_tx (hb_base now code cid gid) = hb_fmt (past_tx now)"
  "hb_code (hb_suspended now v w g) = SUSPENDED_GRANT"
  "hb_tx (hb_suspended now v w g) = hb_fmt (past_tx now)"
  by (simp_all add: hb_base_def hb_suspended_def)

lemma gate_response_simps [simp]:
  "hb_code (gate_response now cid gid g code) = code"
  "hb_tx (gate_response now cid gid g code) = hb_fmt (past_tx now)"
  by (simp_all add: gate_response_def)

lemma authorize_live:
  assumes "grant_in_sync g" and "\<not> gr_term g" and "\<not> grant_expired now g"
    and "complete_payload (ts_required (GRANT_TRANSITIONS AUTHORIZE)) p"
  shows "snd (apply_grant_event now g AUTHORIZE p) = apply_grant_state g AUTHORIZED"
proof -
  from assms(1) obtain s where s: "gr_state g = grant_state_value s" "s \<noteq> REQUESTED"
    "gr_term g = terminal_grant_state s" by (rule in_sync_state)
  then have "live_grant_state s"
    using assms(2) by (cases s) (auto simp: live_grant_state_def terminal_grant_state_def)
  with s assms(3) have "grant_step (resolve_grant_state now g) AUTHORIZE AUTHORIZED"
    by (simp add: resolve_named grant_step_simps)
  with assms(4) show ?thesis by (simp add: apply_grant_event_row)
qed

text \<open>The row an authorised heartbeat leaves, from the row \<open>g\<close> it authorised.\<close>

definition authorised_row :: "env \<Rightarrow> db \<Rightarrow> cbsd_row \<Rightarrow> hb_response \<Rightarrow> grant_row \<Rightarrow> grant_row \<Rightarrow> bool" where
  "authorised_row en d c resp g g' =
     (\<exists>tx. future_tx en d c g = Inr tx \<and> gr_tx g' = Some tx \<and> hb_tx resp = hb_fmt tx
        \<and> gr_expire g' = gr_expire g \<and> gr_state g' = grant_state_value AUTHORIZED
        \<and> gr_auth g' \<and> \<not> gr_term g')"

lemma hb_authorize_success:
  assumes "hb_authorize en ask d c req caps g = (Inr resp, g')"
    and "grant_in_sync g" and "\<not> gr_term g" and "\<not> grant_expired (env_now en) g"
    and ids: "truthy (dget req ''cbsdId'')" "truthy (dget req ''grantId'')"
    "truthy (dget req ''operationState'')"
  shows "authorised_row en d c resp g g'"
proof -
  from assms(1) obtain tx where tx: "future_tx en d c g = Inr tx"
    by (auto simp: hb_authorize_def Let_def split: sum.splits)
  let ?p = "[(''cbsdId'', dget req ''cbsdId''), (''grantId'', dget req ''grantId''),
             (''operationState'', dget req ''operationState'')]"
  let ?g = "g\<lparr>gr_tx := Some tx\<rparr>"
  have "complete_payload (ts_required (GRANT_TRANSITIONS AUTHORIZE)) ?p"
    using ids by (simp add: complete_payload_def)
  moreover have "grant_in_sync ?g" "\<not> gr_term ?g" "\<not> grant_expired (env_now en) ?g"
    using assms(2-4) evolves_sync [OF evolves_columns(1)] by (simp_all add: grant_expired_def)
  ultimately have row: "snd (apply_grant_event (env_now en) ?g AUTHORIZE ?p) = apply_grant_state ?g AUTHORIZED"
    by (intro authorize_live)
  define g2 where "g2 = apply_grant_state ?g AUTHORIZED"
  have "gr_tx g2 = Some tx" "gr_expire g2 = gr_expire g" "gr_state g2 = grant_state_value AUTHORIZED"
    "gr_auth g2" "\<not> gr_term g2"
    using assms(3) by (simp_all add: g2_def) (simp_all add: apply_grant_state_def)
  moreover have "hb_tx resp = hb_fmt tx" "g' = g2 \<or> g' = g2\<lparr>gr_meas := True\<rparr>"
    using assms(1) tx by (auto simp: hb_authorize_def Let_def row g2_def split: if_splits)
  ultimately show ?thesis using tx unfolding authorised_row_def by auto
qed

lemma compute_renewal_refusal:
  "compute_renewal en d g = Inr r \<Longrightarrow> \<not> rn_ok r \<Longrightarrow> rn_code r = INVALID_PARAM"
  by (auto simp: compute_renewal_def Let_def rbind_eq_Inr capped_renewal_def
      split: if_splits option.splits)

lemma compute_renewal_future:
  assumes "compute_renewal en d g = Inr r" and "rn_expire r = Some t"
  shows "trunc_sec (env_now en) < t \<and> trunc_sec t = t"
proof -
  have s: "0 < seconds 900" by (simp add: seconds_def)
  have "trunc_sec (seconds 900) = seconds 900" by (simp add: seconds_def trunc_sec_def)
  with assms s show ?thesis
    by (auto simp: compute_renewal_def Let_def rbind_eq_Inr trunc_sec_min
        dest!: capped_renewal_expire split: if_splits option.splits)
qed

lemma apply_renewal_verdict:
  assumes "apply_renewal en d g = (Inr r, g')"
  shows "(\<not> rn_ok r \<and> rn_code r = INVALID_PARAM) \<or>
    (rn_ok r \<and> \<not> grant_expired (env_now en) g' \<and> gr_term g' = gr_term g)"
proof -
  obtain r0 where r0: "compute_renewal en d g = Inr r0"
    using assms by (auto simp: apply_renewal_def split: sum.splits)
  show ?thesis
  proof (cases "rn_expire r0")
    case None
    then have "r = r0" using assms r0 by (simp add: apply_renewal_def)
    with None compute_renewal_verdict [OF r0] compute_renewal_refusal [OF r0] show ?thesis by simp
  next
    case (Some t)
    then have ok: "rn_ok r0" using compute_renewal_verdict [OF r0] by simp
    with assms r0 Some have r: "rn_ok r" "rn_expire r = Some t"
      by (auto simp: apply_renewal_def Let_def split: sum.splits if_splits)
    obtain stamp g2 where g2: "g2 = g\<lparr>gr_expire := t, gr_json := json_dumps (PDict (stamp_meta stamp (load_grant_meta g)))\<rparr>"
      and "sync_stored_cap en d g2 = Inr g'"
      by (rule apply_renewal_success [OF assms r(2)])
    then have "gr_expire g' = t" "gr_term g' = gr_term g"
      by (auto simp: sync_stored_cap_def Let_def rbind_eq_Inr split: pyval.splits if_splits option.splits)
    then show ?thesis
      using r(1) compute_renewal_future [OF r0 Some] by (simp add: grant_expired_def not_le)
  qed
qed

lemma hb_renew_success:
  assumes "hb_renew_and_authorize en ask d c req caps g = (Inr resp, g')" and "hb_code resp = SUCCESS"
    and "grant_in_sync g" and "\<not> gr_term g" and "\<not> grant_expired (env_now en) g"
    and ids: "truthy (dget req ''cbsdId'')" "truthy (dget req ''grantId'')"
    "truthy (dget req ''operationState'')"
  shows "\<exists>g1. authorised_row en d c resp g1 g'
    \<and> (if dget req ''grantRenew'' = PBool True
       then \<exists>r. apply_renewal en d g = (Inr r, g1) \<and> rn_ok r else g1 = g)"
proof (cases "dget req ''grantRenew'' = PBool True")
  case False
  with assms(1) have "hb_authorize en ask d c req caps g = (Inr resp, g')"
    by (simp add: hb_renew_and_authorize_def)
  from hb_authorize_success [OF this assms(3-5) ids] False show ?thesis by auto
next
  case True
  obtain v g1 where v: "apply_renewal en d g = (v, g1)" by (cases "apply_renewal en d g")
  with assms(1) True obtain r where r: "v = Inr r"
    by (auto simp: hb_renew_and_authorize_def split: sum.splits)
  note verdict = apply_renewal_verdict [OF v [unfolded r]]
  have ok: "rn_ok r"
  proof (rule ccontr)
    assume no: "\<not> rn_ok r"
    with assms(1) True v r have "resp = hb_base (env_now en) (rn_code r) (Some (dget req ''cbsdId''))
        (Some (dget req ''grantId''))"
      by (simp add: hb_renew_and_authorize_def)
    with no verdict assms(2) show False by simp
  qed
  with assms(1) True v r have auth: "hb_authorize en ask d c req caps g1 = (Inr resp, g')"
    by (simp add: hb_renew_and_authorize_def)
  have "evolves g g1" using apply_renewal_evolves [of g en d] v by simp
  then have "grant_in_sync g1" by (rule evolves_sync) (fact assms(3))
  moreover have "\<not> gr_term g1" "\<not> grant_expired (env_now en) g1"
    using verdict ok assms(4) by simp_all
  ultimately show ?thesis
    using hb_authorize_success [OF auth _ _ _ ids] True v r ok by auto
qed

lemma authorised_code: "hb_authorize en ask d c req caps g = (Inr resp, g') \<Longrightarrow> hb_code resp = SUCCESS"
  by (auto simp: hb_authorize_def Let_def split: sum.splits)

lemma hb_renew_past:
  assumes "hb_renew_and_authorize en ask d c req caps g = (Inr resp, g')" and "hb_code resp \<noteq> SUCCESS"
  shows "hb_tx resp = hb_fmt (past_tx (env_now en))"
  using assms authorised_code
  by (auto simp: hb_renew_and_authorize_def split: if_splits prod.splits sum.splits)

lemma gate_open:
  "to_ok (heartbeat_operation_allowed now g st) =
     (resolve_grant_state now g \<notin> {TERMINATED, RELINQUISHED, SUSPENDED}
      \<and> \<not> (st = ''AUTHORIZED'' \<and> resolve_grant_state now g = GRANTED))"
  by (cases "resolve_grant_state now g") (simp_all add: heartbeat_operation_allowed_def Let_def)

lemma hb_protect_cases:
  assumes "hb_protect en ask d c req g = (Inr resp, g')"
  obtains (stopped) "hb_tx resp = hb_fmt (past_tx (env_now en))" and "hb_code resp \<noteq> SUCCESS"
  | (clear) caps where "heartbeat_federal_code d c g = Inr None"
      and "trunc_sec (env_now en) < trunc_sec (gr_expire g)"
      and "grant_overlaps_wisp d g = Inr False"
      and "hb_renew_and_authorize en ask d c req caps g = (Inr resp, g')"
proof -
  from assms obtain federal where f: "heartbeat_federal_code d c g = Inr federal"
    by (auto simp: hb_protect_def Let_def split: sum.splits)
  show ?thesis
  proof (cases "federal = Some TERMINATED_GRANT \<or> trunc_sec (gr_expire g) \<le> trunc_sec (env_now en)")
    case True
    then show ?thesis using assms f stopped by (auto simp: hb_protect_def Let_def split: if_splits)
  next
    case open_: False
    with assms f obtain w where w: "grant_overlaps_wisp d g = Inr w"
      by (auto simp: hb_protect_def Let_def split: sum.splits)
    show ?thesis
    proof (cases "w \<or> federal = Some SUSPENDED_GRANT")
      case True
      then show ?thesis using assms f w open_ stopped
        by (auto simp: hb_protect_def Let_def split: bool.splits)
    next
      case False
      with assms f w open_ obtain caps where caps: "cbsd_meas_capabilities (cb_reg c) = Inr caps"
        by (auto simp: hb_protect_def Let_def split: sum.splits)
      have none: "federal = None"
        using f open_ False federal_code_values [of d c g] by (cases federal) auto
      let ?meas = "if gr_meas g \<and> PStr MEAS_WITH_GRANT \<in> set caps
                  then validate_meas_report (dget req ''measReport'') False else None"
      have eq: "hb_protect en ask d c req g = (case ?meas of
          Some e \<Rightarrow> (Inr (hb_base (env_now en) e (Some (dget req ''cbsdId'')) (Some (dget req ''grantId''))), g)
        | None \<Rightarrow> hb_renew_and_authorize en ask d c req caps g)"
        using f w open_ False caps by (simp add: hb_protect_def Let_def)
      show ?thesis
      proof (cases ?meas)
        case None
        then show ?thesis using clear [of caps] assms eq f none w False open_ by simp
      next
        case (Some e)
        then have "e \<noteq> 0" using meas_report_codes by (fastforce split: if_splits)
        with Some assms eq stopped show ?thesis by auto
      qed
    qed
  qed
qed

lemma hb_grant_cases:
  assumes "hb_grant en ask d c req g = (Inr resp, g')"
  obtains (stopped) "hb_tx resp = hb_fmt (past_tx (env_now en))" and "hb_code resp \<noteq> SUCCESS"
  | (clear) caps where "\<not> is_cbsd_blacklisted d (PStr (cb_fcc_id c)) (PStr (cb_serial c))"
      and "\<not> peer_has_grant_for_cbsd en d c"
      and "to_ok (heartbeat_operation_allowed (env_now en) g (py_str en (dget req ''operationState'')))"
      and "hb_overlaps_active_dpa en d g = Inr False"
      and "heartbeat_federal_code d c g = Inr None"
      and "trunc_sec (env_now en) < trunc_sec (gr_expire g)"
      and "grant_overlaps_wisp d g = Inr False"
      and "hb_renew_and_authorize en ask d c req caps g = (Inr resp, g')"
proof -
  let ?life = "heartbeat_operation_allowed (env_now en) g (py_str en (dget req ''operationState''))"
  have code: "\<not> to_ok ?life \<Longrightarrow> to_code ?life \<noteq> SUCCESS"
    by (auto simp: heartbeat_operation_allowed_def Let_def split: if_splits)
  show ?thesis
  proof (cases "is_cbsd_blacklisted d (PStr (cb_fcc_id c)) (PStr (cb_serial c))
      \<or> peer_has_grant_for_cbsd en d c \<or> \<not> to_ok ?life \<or> hb_overlaps_active_dpa en d g \<noteq> Inr False")
    case True
    then show ?thesis
      using assms stopped code
      by (auto simp: hb_grant_def Let_def split: if_splits sum.splits bool.splits)
  next
    case False
    then have "hb_protect en ask d c req g = (Inr resp, g')"
      using assms by (simp add: hb_grant_def Let_def)
    then show ?thesis
      by (cases rule: hb_protect_cases) (use False stopped clear in blast)+
  qed
qed

text \<open>
  Rows in state EXPIRED have an expiry in the past: they got there by it, and the clock does
  not go back.
\<close>

definition expired_past :: "time \<Rightarrow> db \<Rightarrow> bool" where
  "expired_past now d =
     (\<forall>g\<in>set (db_grants d). gr_state g = grant_state_value EXPIRED \<longrightarrow> grant_expired now g)"

text \<open>What an authorised heartbeat has checked, of the row as it was before the heartbeat.\<close>

definition may_transmit :: "env \<Rightarrow> db \<Rightarrow> cbsd_row \<Rightarrow> pydict \<Rightarrow> grant_row \<Rightarrow> bool" where
  "may_transmit en d c req g = (
     \<not> is_cbsd_blacklisted d (PStr (cb_fcc_id c)) (PStr (cb_serial c))
     \<and> \<not> peer_has_grant_for_cbsd en d c
     \<and> \<not> gr_term g \<and> trunc_sec (env_now en) < trunc_sec (gr_expire g)
     \<and> resolve_grant_state (env_now en) g \<in> {GRANTED, AUTHORIZED}
     \<and> (resolve_grant_state (env_now en) g = GRANTED \<longrightarrow>
          py_str en (dget req ''operationState'') \<noteq> ''AUTHORIZED'')
     \<and> hb_overlaps_active_dpa en d g = Inr False
     \<and> heartbeat_federal_code d c g = Inr None
     \<and> grant_overlaps_wisp d g = Inr False)"

text \<open>
  C5. While the clock does not go back, a heartbeat is answered with 0 only to the holder of the CBSD's certificate, for an own
  grant that is neither terminated, suspended nor expired and is clear of the blacklist, of
  peers, of active incumbents, of the federal databases and of WISP zones; the grant is then
  AUTHORIZED, and the transmit expiry in the row and in the answer passes neither the grant's
  expiry nor four minutes from now. Any other answer carries a transmit expiry in the past.
\<close>

theorem heartbeat_authorizes:
  assumes inv: "sas_inv uuid d" and past: "expired_past (env_now en) d"
    and item: "heartbeat_item en ask cert d req = (Inr resp, d')"
  shows "if hb_code resp = SUCCESS then
      \<exists>c g g1 g' tx. lock_cbsd_row d (dget req ''cbsdId'') = Some c
        \<and> \<not> cbsd_certificate_mismatch c cert
        \<and> lock_grant_row d (dget req ''grantId'') (dget req ''cbsdId'') = Some g
        \<and> may_transmit en d c req g \<and> d' = put_grant d g'
        \<and> (if dget req ''grantRenew'' = PBool True
           then \<exists>r. apply_renewal en d g = (Inr r, g1) \<and> rn_ok r else g1 = g)
        \<and> gr_state g' = grant_state_value AUTHORIZED \<and> gr_auth g' \<and> \<not> gr_term g'
        \<and> gr_expire g' = gr_expire g1 \<and> gr_tx g' = Some tx \<and> hb_tx resp = hb_fmt tx
        \<and> tx \<le> trunc_sec (gr_expire g') \<and> tx \<le> trunc_sec (env_now en) + seconds 240
    else hb_tx resp = hb_fmt (past_tx (env_now en))"
proof -
  let ?cid = "dget req ''cbsdId''" and ?gid = "dget req ''grantId''"
  show ?thesis
  proof (cases "truthy ?cid \<and> truthy ?gid \<and> truthy (dget req ''operationState'')
      \<and> (\<exists>c g. lock_cbsd_row d ?cid = Some c \<and> \<not> cbsd_certificate_mismatch c cert
            \<and> lock_grant_row d ?gid ?cid = Some g)")
    case False
    then have "hb_tx resp = hb_fmt (past_tx (env_now en)) \<and> hb_code resp \<noteq> SUCCESS"
      using item by (auto simp: heartbeat_item_def Let_def split: if_splits option.splits)
    then show ?thesis by simp
  next
    case True
    then obtain c g where c: "lock_cbsd_row d ?cid = Some c" "\<not> cbsd_certificate_mismatch c cert"
      and g: "lock_grant_row d ?gid ?cid = Some g" by blast
    have ids: "truthy ?cid" "truthy ?gid" "truthy (dget req ''operationState'')"
      using True by simp_all
    have mem: "g \<in> set (db_grants d)" using lock_grant_rowD [OF g] by simp
    have sync: "grant_in_sync g" by (rule grants_wfD(1) [OF sas_invD(1) [OF inv] mem])
    from item c g ids obtain g' where hb: "hb_grant en ask d c req g = (Inr resp, g')"
      and d': "d' = put_grant d g'"
      by (cases "hb_grant en ask d c req g") (auto simp: heartbeat_item_def)
    from hb show ?thesis
    proof (cases rule: hb_grant_cases)
      case stopped
      then show ?thesis by simp
    next
      case (clear caps)
      have exp: "\<not> grant_expired (env_now en) g" using clear(6) by (simp add: grant_expired_def)
      from sync obtain s where s: "gr_state g = grant_state_value s" "s \<noteq> REQUESTED"
        "gr_term g = terminal_grant_state s" by (rule in_sync_state)
      have res: "resolve_grant_state (env_now en) g = s"
        using resolve_named [OF s(1), of "env_now en"] exp by simp
      have live: "s \<in> {GRANTED, AUTHORIZED}"
        "s = GRANTED \<longrightarrow> py_str en (dget req ''operationState'') \<noteq> ''AUTHORIZED''"
        using clear(3) s(1,2) exp past mem res unfolding gate_open expired_past_def
        by (cases s; auto)+
      then have alive: "\<not> gr_term g" using s(3) by (auto simp: terminal_grant_state_def)
      have may: "may_transmit en d c req g"
        unfolding may_transmit_def res using clear(1,2,4-7) live alive by blast
      from hb_renew_success [OF clear(8) _ sync alive exp ids] show ?thesis
      proof (cases "hb_code resp = SUCCESS")
        case True
        then obtain g1 where g1: "authorised_row en d c resp g1 g'"
          "if dget req ''grantRenew'' = PBool True
           then \<exists>r. apply_renewal en d g = (Inr r, g1) \<and> rn_ok r else g1 = g"
          using hb_renew_success [OF clear(8) _ sync alive exp ids] by blast
        then obtain tx where tx: "future_tx en d c g1 = Inr tx" "gr_tx g' = Some tx"
          "hb_tx resp = hb_fmt tx" "gr_expire g' = gr_expire g1"
          "gr_state g' = grant_state_value AUTHORIZED" "gr_auth g'" "\<not> gr_term g'"
          unfolding authorised_row_def by blast
        have bounds: "tx \<le> trunc_sec (gr_expire g')" "tx \<le> trunc_sec (env_now en) + seconds 240"
          using transmit_expire_bounds [OF tx(1) [unfolded future_tx_def]] tx(4) by simp_all
        show ?thesis
          unfolding if_P [OF True]
          by (intro exI [of _ c] exI [of _ g] exI [of _ g1] exI [of _ g'] exI [of _ tx] conjI
              c g may d' g1(2) tx(2-7) bounds)
      next
        case False
        then show ?thesis using hb_renew_past [OF clear(8)] by simp
      qed
    qed
  qed
qed

text \<open>A heartbeat of the example grant a moment after it was made.\<close>

definition example_heartbeat :: pydict where
  "example_heartbeat = [(''cbsdId'', PStr ''F/S''), (''grantId'', PStr ''grant/1''),
     (''operationState'', PStr ''GRANTED'')]"

lemma example_quiet:
  "rows_of_kind example_db k = []" "db_peer_fad example_db = []"
  "db_black_fcc example_db = []" "db_black_serial example_db = []"
  by (simp_all add: rows_of_kind_def example_db_def empty_db_def)

lemma example_hb_parts:
  "\<not> is_cbsd_blacklisted example_db v w" "\<not> peer_has_grant_for_cbsd en example_db c"
  "hb_overlaps_active_dpa en example_db g = Inr False"
  "heartbeat_federal_code example_db example_cbsd g = Inr None"
  "grant_overlaps_wisp example_db g = Inr False"
  "cbsd_meas_capabilities (cb_reg example_cbsd) = Inr []"
proof -
  show "\<not> is_cbsd_blacklisted example_db v w"
    by (simp add: is_cbsd_blacklisted_def is_fcc_id_blacklisted_def example_quiet)
  show "\<not> peer_has_grant_for_cbsd en example_db c"
    by (simp add: peer_has_grant_for_cbsd_def peer_cbsd_records_def example_quiet List.map_filter_def)
  have "list_active_activations example_db = []" "list_catalogue example_db = []"
    "catalogue_dicts example_db = []"
    by (simp_all add: list_active_activations_def list_catalogue_def catalogue_dicts_def
        example_quiet List.map_filter_def)
  then show "hb_overlaps_active_dpa en example_db g = Inr False"
    by (simp add: hb_overlaps_active_dpa_def grant_on_any_movelist_def grant_overlaps_active_dpa_def
        grant_overlaps_esc_monitored_catalogue_def list_protected_dpa_channels_def
        grant_frequency_overlaps_protected_def)
  show "heartbeat_federal_code example_db example_cbsd g = Inr None"
    by (simp add: heartbeat_federal_code_def cbsd_lat_lon_def example_cbsd_def pget_or_empty_def por_def)
  show "grant_overlaps_wisp example_db g = Inr False"
    by (simp add: grant_overlaps_wisp_def load_injected_def example_quiet)
  show "cbsd_meas_capabilities (cb_reg example_cbsd) = Inr []"
    by (simp add: cbsd_meas_capabilities_def example_cbsd_def por_def)
qed

lemma example_inv: "sas_inv (\<lambda>n. replicate (Suc n) CHR ''1'') example_db"
  using example_db_wf by (simp add: sas_inv_def ids_issued_def)
    (simp add: example_db_def example_grant_def)

theorem heartbeat_authorizes_witness:
  "\<exists>resp d'. heartbeat_item example_env False None example_db example_heartbeat = (Inr resp, d')
     \<and> hb_code resp = 0 \<and> (\<exists>g'. d' = put_grant example_db g' \<and> gr_auth g')"
proof -
  let ?item = "heartbeat_item example_env False None example_db example_heartbeat"
  have ids: "dget example_heartbeat ''cbsdId'' = PStr ''F/S''"
    "dget example_heartbeat ''grantId'' = PStr ''grant/1''"
    "dget example_heartbeat ''operationState'' = PStr ''GRANTED''"
    "dget example_heartbeat ''grantRenew'' = PNone"
    by (simp_all add: example_heartbeat_def)
  have locks: "lock_cbsd_row example_db (PStr ''F/S'') = Some example_cbsd"
    "lock_grant_row example_db (PStr ''grant/1'') (PStr ''F/S'') = Some example_grant"
    "\<not> cbsd_certificate_mismatch example_cbsd None"
    by (simp_all add: lock_cbsd_row_def lock_grant_row_def example_db_def example_cbsd_def
        example_grant_def cbsd_certificate_mismatch_def)
  have exp: "\<not> grant_expired 0 example_grant"
    by (simp add: grant_expired_def example_grant_def trunc_sec_def seconds_def)
  have "resolve_grant_state 0 example_grant = GRANTED"
    using resolve_named [of example_grant GRANTED 0] exp by (simp add: example_grant_def)
  then have gate: "to_ok (heartbeat_operation_allowed 0 example_grant ''GRANTED'')"
    by (simp add: gate_open)
  have now: "env_now example_env = 0" by (simp add: example_env_def)
  have "catalogue_dicts example_db = []"
    by (simp add: catalogue_dicts_def list_catalogue_def example_quiet List.map_filter_def)
  then have "requires_dpa_neighborhood_tx_cap example_env example_db example_cbsd l h = Inr False" for l h
    by (cases "grant_overlaps_dpa_tx_expire_band l h")
      (simp_all add: requires_dpa_neighborhood_tx_cap_def evaluate_dpa_neighborhood_def)
  then obtain tx where tx: "future_tx example_env example_db example_cbsd example_grant = Inr tx"
    by (simp add: future_tx_def compute_transmit_expire_time_def transmit_expire_horizon_sec_def Let_def)
  have meas: "\<not> gr_meas example_grant" by (simp add: example_grant_def)
  have "\<exists>resp. fst ?item = Inr resp \<and> hb_code resp = 0"
    using exp gate tx meas
    by (simp add: heartbeat_item_def ids locks hb_grant_def example_hb_parts now hb_protect_def
        hb_renew_and_authorize_def hb_authorize_def grant_expired_def Let_def)
  then obtain resp d' where item: "?item = (Inr resp, d')" "hb_code resp = 0"
    by (metis prod.collapse)
  have "expired_past (env_now example_env) example_db"
    by (simp add: expired_past_def example_db_def) (simp add: example_grant_def)
  from heartbeat_authorizes [OF example_inv this item(1)] item show ?thesis by auto
qed

lemma persist_federal_row:
  "persist_federal_termination now g cid gid = apply_grant_state g TERMINATED"
  by (simp add: persist_federal_termination_def apply_grant_event_eq Let_def)

text \<open>
  When the federal databases call for termination, the heartbeat answers 500 and stores
  the grant as TERMINATED even when its expiry has passed, where the TERMINATE event alone is
  refused; from then on the lifecycle gate answers 500 to every heartbeat of the grant.
\<close>

theorem federal_termination_durable:
  assumes "heartbeat_federal_code d c g = Inr (Some TERMINATED_GRANT)"
  shows "hb_protect en ask d c req g =
      (Inr (hb_base (env_now en) TERMINATED_GRANT (Some (dget req ''cbsdId''))
              (Some (dget req ''grantId''))), apply_grant_state g TERMINATED)
    \<and> gr_term (snd (hb_protect en ask d c req g))
    \<and> (\<forall>now st. to_code (heartbeat_operation_allowed now (snd (hb_protect en ask d c req g)) st)
                 = TERMINATED_GRANT)"
proof -
  have eq: "hb_protect en ask d c req g =
      (Inr (hb_base (env_now en) TERMINATED_GRANT (Some (dget req ''cbsdId''))
              (Some (dget req ''grantId''))), apply_grant_state g TERMINATED)"
    using assms by (simp add: hb_protect_def Let_def persist_federal_row)
  have "resolve_grant_state now (apply_grant_state g TERMINATED) = TERMINATED" for now
    by (rule resolve_terminal) (simp_all add: terminal_grant_state_def)
  then have "to_code (heartbeat_operation_allowed now (apply_grant_state g TERMINATED) st)
      = TERMINATED_GRANT" for now st
    by (simp add: heartbeat_operation_allowed_def Let_def)
  with eq show ?thesis by (simp add: apply_grant_state_def)
qed

text \<open>The example grant, lapsed, when a scheduled DPA import has moved the DPA generation.\<close>

definition bumped_db :: db where
  "bumped_db = empty_db\<lparr>db_injected := [(''federal_sync_meta'', JDoc (PDict [(''dpa'', PInt 1)]))]\<rparr>"

definition placed_cbsd :: cbsd_row where
  "placed_cbsd = example_cbsd\<lparr>cb_reg := JDoc (PDict [(''installationParam'',
     PDict [(''latitude'', PInt 1), (''longitude'', PInt 1)])])\<rparr>"

theorem federal_termination_durable_witness:
  "grant_expired (seconds 1000) example_grant
   \<and> gr_term (snd (hb_protect (example_env\<lparr>env_now := seconds 1000\<rparr>) False bumped_db placed_cbsd
        example_heartbeat example_grant))"
proof -
  have loc: "cbsd_lat_lon placed_cbsd = Inr (Some (1, 1))"
    by (simp add: cbsd_lat_lon_def placed_cbsd_def pget_or_empty_def por_def)
  have meta: "get_sync_meta bumped_db = Inr \<lparr>sm_fss = 0, sm_gwbl = 0, sm_exz = 0, sm_dpa = 1\<rparr>"
    by (simp add: get_sync_meta_def load_kind_def rows_of_kind_def bumped_db_def meta_int_def por_def)
  have gmeta: "load_grant_meta example_grant = []" "gr_low example_grant = 3560000000"
    "gr_high example_grant = 3570000000"
    by (simp_all add: load_grant_meta_def example_grant_def)
  have "heartbeat_federal_code bumped_db placed_cbsd example_grant = Inr (Some 500)"
    by (simp add: heartbeat_federal_code_def loc meta gmeta federal_exz_code_def federal_dpa_code_def
        overlaps_def meta_int_def por_def)
  moreover have "grant_expired (seconds 1000) example_grant"
    by (simp add: grant_expired_def example_grant_def trunc_sec_def seconds_def)
  ultimately show ?thesis
    using federal_termination_durable [THEN conjunct2, THEN conjunct1] by blast
qed

end
