(* ===== verification/System.thy ===== *)
theory System
  imports Registration GrantService HeartbeatService
begin

text \<open>
  The procedures together: the state of the system is the clock and the database, a step is
  one batch of one procedure (or an administrative change of the other tables, or the clock
  advancing). Two contracts run through every procedure: expired rows keep an expiry in the
  past, and rows of a CBSD bound to another certificate are left alone.
\<close>

subsection \<open>Expired rows\<close>

definition expiry_ok :: "time \<Rightarrow> grant_row \<Rightarrow> bool" where
  "expiry_ok now g = (gr_state g = grant_state_value EXPIRED \<longrightarrow> grant_expired now g)"

lemma expired_past_rows: "expired_past now d = (\<forall>g\<in>set (db_grants d). expiry_ok now g)"
  by (simp add: expired_past_def expiry_ok_def)

lemma expiry_ok_state: "s \<noteq> EXPIRED \<Longrightarrow> expiry_ok now (apply_grant_state g s)"
  by (simp add: expiry_ok_def) (cases s; simp)

lemma expiry_ok_event:
  assumes "expiry_ok now g" and "ev = EXPIRE \<Longrightarrow> grant_expired now g"
  shows "expiry_ok now (snd (apply_grant_event now g ev p))"
proof (cases "ev = EXPIRE")
  case True
  with assms(2) have "grant_expired now (snd (apply_grant_event now g ev p))"
    by (simp add: grant_expired_def)
  then show ?thesis by (simp add: expiry_ok_def)
next
  case False
  then have "grant_target ev \<noteq> EXPIRED" by (cases ev) simp_all
  then show ?thesis using assms(1) expiry_ok_state by (simp add: apply_grant_event_row)
qed

lemma expired_past_put: "expired_past now d \<Longrightarrow> expiry_ok now g \<Longrightarrow> expired_past now (put_grant d g)"
  unfolding expired_past_rows by (rule grant_table.all_put)

lemma expired_past_put_all:
  "expired_past now d \<Longrightarrow> (\<And>g. g \<in> set gs \<Longrightarrow> expiry_ok now (f g)) \<Longrightarrow> expired_past now (put_all f d gs)"
  by (induction f d gs rule: put_all.induct) (simp_all add: expired_past_put)

lemma expired_past_frame:
  "expired_past now d \<Longrightarrow> set (db_grants d') \<subseteq> set (db_grants d) \<Longrightarrow> expired_past now d'"
  by (auto simp: expired_past_rows)

lemma expired_past_locked:
  "expired_past now d \<Longrightarrow> g \<in> set (lock_grants_for_cbsd d v) \<Longrightarrow> expiry_ok now g"
  by (simp add: expired_past_rows mem_lock_grants_for_cbsd)

lemma expired_past_later: "expired_past now d \<Longrightarrow> now \<le> later \<Longrightarrow> expired_past later d"
  using trunc_sec_mono [of now later] by (fastforce simp: expired_past_def grant_expired_def)

lemma expired_past_event:
  assumes "expired_past now d" and "g \<in> set (db_grants d)" and "ev \<noteq> EXPIRE"
  shows "expired_past now (put_grant d (snd (apply_grant_event now g ev p)))"
  by (rule expired_past_put [OF assms(1) expiry_ok_event])
    (use assms in \<open>simp_all add: expired_past_rows\<close>)

lemma relinquish_expired:
  "expired_past now d \<Longrightarrow> expired_past now (snd (relinquish_item now cert d req))"
  by (auto simp: relinquish_item_def Let_def case_prod_unfold split: option.split
      dest!: lock_grant_rowD intro!: expired_past_event)

lemma deregister_expired:
  assumes "expired_past now d"
  shows "expired_past now (snd (deregister_item now cert d req))"
proof -
  have "expired_past now (put_all (\<lambda>g. snd (apply_grant_event now g TERMINATE (terminate_payload v g)))
      d (lock_grants_for_cbsd d v))" for v
    by (intro expired_past_put_all assms expiry_ok_event) (auto intro: expired_past_locked [OF assms])
  then have "expired_past now (delete_cbsd (put_all (\<lambda>g. snd (apply_grant_event now g TERMINATE
      (terminate_payload v g))) d (lock_grants_for_cbsd d v)) c)" for v c
    by (rule expired_past_frame) (auto simp: delete_cbsd_def)
  then show ?thesis
    using assms by (auto simp: deregister_item_def Let_def delete_after_put split: option.split)
qed

lemma terminate_grants_expired:
  assumes "expired_past now d"
  shows "expired_past now (terminate_grants now d cid)"
  unfolding terminate_grants_def
proof (rule expired_past_put_all [OF assms])
  fix g assume "g \<in> set (lock_grants_for_cbsd d (PStr cid))"
  then have ok: "expiry_ok now g" by (rule expired_past_locked [OF assms])
  have "expiry_ok now (snd (apply_grant_event now g TERMINATE (terminate_payload (PStr cid) g)))"
    by (rule expiry_ok_event [OF ok]) simp
  with ok show "expiry_ok now (if gr_term g then g
      else snd (apply_grant_event now g TERMINATE (terminate_payload (PStr cid) g)))" by simp
qed

lemma register_expired:
  assumes "expired_past (env_now en) d"
  shows "expired_past (env_now en) (snd (register_item ext en cert d request))"
proof -
  have "expired_past (env_now en) (snd (persist_registration en cert d request merged))" for merged
  proof (cases rule: persist_registration_cases [of en cert d request merged])
    case 1
    with assms show ?thesis by simp
  next
    case (2 c)
    show ?thesis
      unfolding 2(3) snd_conv
      by (rule terminate_grants_expired, rule expired_past_frame [OF assms]) simp
  next
    case 3
    show ?thesis unfolding 3(2) snd_conv
      by (rule expired_past_frame [OF assms]) (simp add: add_cbsd_def)
  qed
  with assms show ?thesis by (auto simp: register_item_def case_prod_unfold split: sum.split)
qed

lemma grant_item_expired:
  assumes "expired_past (env_now en) (fst st)"
  shows "expired_past (env_now en) (fst (snd (grant_item ext en ask cert st req)))"
proof -
  obtain d pend where st: "st = (d, pend)" by (cases st)
  show ?thesis
  proof (cases rule: grant_item_cases [of ext en ask cert d pend req])
    case (refused r)
    then show ?thesis using assms st by simp
  next
    case (checked c pl)
    show ?thesis
    proof (cases rule: admit_grant_cases [of ext en cert d pend req pl])
      case (refused r)
      then show ?thesis using assms st checked(5) by simp
    next
      case (admitted c tx stamp g)
      have "gr_state g = grant_state_value GRANTED" by (simp add: admitted(7) new_grant_def)
      then show ?thesis
        using assms unfolding st checked(5) admitted(8)
        by (auto simp: expired_past_def add_grant_def)
    qed
  qed
qed

lemma expiry_ok_frame:
  "gr_state g' = gr_state g \<Longrightarrow> gr_expire g' = gr_expire g \<Longrightarrow> expiry_ok now g' = expiry_ok now g"
  by (simp add: expiry_ok_def grant_expired_def)

lemma renewal_expiry_ok:
  assumes "expiry_ok (env_now en) g"
  shows "expiry_ok (env_now en) (snd (apply_renewal en d g))"
proof (cases "\<exists>r t. compute_renewal en d g = Inr r \<and> rn_expire r = Some t")
  case False
  then have "snd (apply_renewal en d g) = g"
    by (auto simp: apply_renewal_def split: sum.split option.split)
  with assms show ?thesis by simp
next
  case True
  then have "resolve_grant_state (trunc_sec (env_now en)) g \<noteq> EXPIRED"
    by (auto simp: compute_renewal_def Let_def TERMINAL_GRANT_STATES_def split: if_splits)
  then have "gr_state g \<noteq> grant_state_value EXPIRED"
    by (auto simp: resolve_named [of g EXPIRED] live_grant_state_def)
  moreover obtain t j where "snd (apply_renewal en d g) = g\<lparr>gr_expire := t, gr_json := j\<rparr>"
    using renewed_rowE [OF apply_renewal_row] by metis
  ultimately show ?thesis by (simp add: expiry_ok_def)
qed

lemma authorize_expiry_ok:
  assumes "expiry_ok (env_now en) g"
  shows "expiry_ok (env_now en) (snd (hb_authorize en ask d c req caps g))"
proof -
  have "expiry_ok (env_now en) (g\<lparr>gr_tx := t\<rparr>)" for t
    using assms by (simp add: expiry_ok_def grant_expired_def)
  then have ev: "expiry_ok (env_now en) (snd (apply_grant_event (env_now en) (g\<lparr>gr_tx := t\<rparr>) AUTHORIZE p))"
    for t p by (rule expiry_ok_event) simp
  have "expiry_ok now (h\<lparr>gr_meas := b\<rparr>) = expiry_ok now h" for now h b
    by (rule expiry_ok_frame) simp_all
  with ev assms show ?thesis by (auto simp: hb_authorize_def Let_def split: sum.split)
qed

lemma hb_protect_expiry_ok:
  assumes "expiry_ok (env_now en) g"
  shows "expiry_ok (env_now en) (snd (hb_protect en ask d c req g))"
proof -
  have auth: "expiry_ok (env_now en) (snd (hb_renew_and_authorize en ask d c req caps g))" for caps
    using renewal_expiry_ok [OF assms, of d] authorize_expiry_ok [of en] assms
    by (cases "apply_renewal en d g")
      (auto simp: hb_renew_and_authorize_def split: sum.split)
  have fed: "expiry_ok (env_now en) (persist_federal_termination (env_now en) g v w)" for v w
    unfolding persist_federal_row by (rule expiry_ok_state) simp
  have ev: "expiry_ok (env_now en) (snd (apply_grant_event (env_now en) g TERMINATE p))" for p
    by (rule expiry_ok_event [OF assms]) simp
  have ex: "expiry_ok (env_now en) (snd (apply_grant_event (env_now en) g EXPIRE p))"
    if "trunc_sec (gr_expire g) \<le> trunc_sec (env_now en)" for p
    using expiry_ok_event [OF assms, of EXPIRE p] that by (simp add: grant_expired_def)
  show ?thesis
    unfolding hb_protect_def Let_def
    by (simp split: sum.split option.split bool.split) (use auth fed ev ex assms in blast)
qed

lemma heartbeat_expired:
  assumes "expired_past (env_now en) d"
  shows "expired_past (env_now en) (snd (heartbeat_item en ask cert d req))"
proof -
  have "expiry_ok (env_now en) (snd (hb_grant en ask d c req g))" if "expiry_ok (env_now en) g" for c g
    using that hb_protect_expiry_ok [OF that] expiry_ok_event [OF that, of TERMINATE]
    by (auto simp: hb_grant_def Let_def split: sum.split bool.split)
  moreover have "expiry_ok (env_now en) g" if "lock_grant_row d v w = Some g" for v w g
    using lock_grant_rowD [OF that] assms by (simp add: expired_past_rows)
  ultimately have "expired_past (env_now en) (put_grant d (snd (hb_grant en ask d c req g)))"
    if "lock_grant_row d v w = Some g" for v w c g
    using expired_past_put [OF assms] that by blast
  then show ?thesis
    using assms by (auto simp: heartbeat_item_def Let_def case_prod_unfold split: option.split)
qed

subsection \<open>Isolation of certificates\<close>

text \<open>
  The CBSDs bound to a certificate the caller does not hold keep their row and their grants.
\<close>

definition isolates :: "string option \<Rightarrow> db \<Rightarrow> db \<Rightarrow> bool" where
  "isolates cert d d' =
     (\<forall>c\<in>set (db_cbsds d). cbsd_certificate_mismatch c cert \<longrightarrow>
        c \<in> set (db_cbsds d') \<and>
        filter (\<lambda>g. gr_cbsd_id g = cb_id c) (db_grants d')
          = filter (\<lambda>g. gr_cbsd_id g = cb_id c) (db_grants d))"

lemma isolates_refl: "isolates cert d d"
  by (simp add: isolates_def)

lemma isolates_trans: "isolates cert d d1 \<Longrightarrow> isolates cert d1 d2 \<Longrightarrow> isolates cert d d2"
  by (simp add: isolates_def)

text \<open>A CBSD the caller may act for has another identifier than every isolated one.\<close>

lemma other_cbsd:
  assumes "cbsds_wf d" and "c \<in> set (db_cbsds d)" and "\<not> cbsd_certificate_mismatch c cert"
    and "x \<in> set (db_cbsds d)" and "cbsd_certificate_mismatch x cert"
  shows "cb_id x \<noteq> cb_id c" "cb_pk x \<noteq> cb_pk c"
proof -
  have "x \<noteq> c" using assms(3,5) by blast
  with assms(1,2,4) show "cb_id x \<noteq> cb_id c" "cb_pk x \<noteq> cb_pk c"
    by (auto simp: cbsds_wf_def distinct_map inj_on_def)
qed

lemma filter_put_grant:
  assumes "distinct (map gr_pk (db_grants d))" and "g \<in> set (db_grants d)" and "evolves g g'"
    and "gr_cbsd_id g \<noteq> i"
  shows "filter (\<lambda>g. gr_cbsd_id g = i) (db_grants (put_grant d g'))
       = filter (\<lambda>g. gr_cbsd_id g = i) (db_grants d)"
proof -
  have same: "r = g" if "r \<in> set (db_grants d)" "gr_pk r = gr_pk g" for r
    using grant_table.unique_key [OF assms(1) that(1) assms(2)] that(2) by simp
  have "filter (\<lambda>g. gr_cbsd_id g = i) (map (\<lambda>r. if gr_pk r = gr_pk g then g' else r) xs)
      = filter (\<lambda>g. gr_cbsd_id g = i) xs" if "set xs \<subseteq> set (db_grants d)" for xs
    using that same assms(3,4) by (induction xs) (auto simp: evolves_def)
  then show ?thesis
    using assms(3) unfolding grant_table.rows_put by (simp add: evolves_def)
qed

lemma isolates_put_grant:
  assumes wf: "db_wf d" and c: "c \<in> set (db_cbsds d)" "\<not> cbsd_certificate_mismatch c cert"
    and g: "g \<in> set (db_grants d)" "gr_cbsd_id g = cb_id c" and ev: "evolves g g'"
  shows "isolates cert d (put_grant d g')"
  unfolding isolates_def
proof (intro ballI impI conjI)
  fix x assume x: "x \<in> set (db_cbsds d)" "cbsd_certificate_mismatch x cert"
  then show "x \<in> set (db_cbsds (put_grant d g'))" by simp
  have "cb_id x \<noteq> cb_id c" using other_cbsd(1) [OF _ c x] wf by (simp add: db_wf_def)
  then show "filter (\<lambda>g. gr_cbsd_id g = cb_id x) (db_grants (put_grant d g'))
      = filter (\<lambda>g. gr_cbsd_id g = cb_id x) (db_grants d)"
    using filter_put_grant [OF locked_grants(3) [OF wf] g(1) ev, of "cb_id x"] g(2) by simp
qed

lemma isolates_put_all:
  assumes wf: "db_wf d" and c: "c \<in> set (db_cbsds d)" "\<not> cbsd_certificate_mismatch c cert"
    and ev: "\<And>g. g \<in> set (lock_grants_for_cbsd d (PStr (cb_id c))) \<Longrightarrow> evolves g (f g)"
  shows "isolates cert d (put_all f d (lock_grants_for_cbsd d (PStr (cb_id c))))"
  unfolding isolates_def
proof (intro ballI impI conjI)
  fix x assume x: "x \<in> set (db_cbsds d)" "cbsd_certificate_mismatch x cert"
  let ?gs = "lock_grants_for_cbsd d (PStr (cb_id c))"
  show "x \<in> set (db_cbsds (put_all f d ?gs))" using x by simp
  have ne: "cb_id x \<noteq> cb_id c" using other_cbsd(1) [OF _ c x] wf by (simp add: db_wf_def)
  have rows: "db_grants (put_all f d ?gs) = map (\<lambda>g. if g \<in> set ?gs then f g else g) (db_grants d)"
    by (rule put_all_grants) (use locked_grants [OF wf] ev in \<open>auto simp: evolves_def\<close>)
  have id: "gr_cbsd_id (f g) = cb_id c \<and> gr_cbsd_id g = cb_id c" if "g \<in> set ?gs" for g
    using ev [OF that] that by (simp add: evolves_def mem_lock_grants_for_cbsd)
  have "filter (\<lambda>g. gr_cbsd_id g = cb_id x) (map (\<lambda>g. if g \<in> set ?gs then f g else g) xs)
      = filter (\<lambda>g. gr_cbsd_id g = cb_id x) xs" for xs
    using id ne by (induction xs) auto
  then show "filter (\<lambda>g. gr_cbsd_id g = cb_id x) (db_grants (put_all f d ?gs))
      = filter (\<lambda>g. gr_cbsd_id g = cb_id x) (db_grants d)"
    unfolding rows .
qed

lemma isolates_delete:
  assumes wf: "db_wf d" and c: "c \<in> set (db_cbsds d)" "\<not> cbsd_certificate_mismatch c cert"
  shows "isolates cert d (delete_cbsd d c)"
  unfolding isolates_def
proof (intro ballI impI conjI)
  fix x assume x: "x \<in> set (db_cbsds d)" "cbsd_certificate_mismatch x cert"
  note ne = other_cbsd [OF _ c x]
  have cw: "cbsds_wf d" using wf by (simp add: db_wf_def)
  show "x \<in> set (db_cbsds (delete_cbsd d c))" using x ne(2) [OF cw] by (simp add: delete_cbsd_def)
  have "gr_cbsd_pk g \<noteq> cb_pk c" if "g \<in> set (db_grants d)" "gr_cbsd_id g = cb_id x" for g
    using owner_iff [OF wf c(1) that(1)] that(2) ne(1) [OF cw] by simp
  then show "filter (\<lambda>g. gr_cbsd_id g = cb_id x) (db_grants (delete_cbsd d c))
      = filter (\<lambda>g. gr_cbsd_id g = cb_id x) (db_grants d)"
    by (auto simp: delete_cbsd_def intro: filter_cong)
qed

lemma isolates_put_cbsd:
  assumes "db_wf d" and "c \<in> set (db_cbsds d)" "\<not> cbsd_certificate_mismatch c cert"
    and "cb_pk c' = cb_pk c"
  shows "isolates cert d (put_cbsd d c')"
  using assms other_cbsd(2) [OF _ assms(2,3)]
  by (auto simp: isolates_def db_wf_def intro: cbsd_table.mem_put_old)

lemma isolates_add_cbsd: "isolates cert d (add_cbsd d c)"
  by (simp add: isolates_def add_cbsd_def)

lemma isolates_add_grant:
  assumes wf: "db_wf d" and c: "c \<in> set (db_cbsds d)" "\<not> cbsd_certificate_mismatch c cert"
    and g: "gr_cbsd_id g = cb_id c"
  shows "isolates cert d (add_grant d g)"
  unfolding isolates_def
proof (intro ballI impI conjI)
  fix x assume x: "x \<in> set (db_cbsds d)" "cbsd_certificate_mismatch x cert"
  then show "x \<in> set (db_cbsds (add_grant d g))" by (simp add: add_grant_def)
  have "cb_id x \<noteq> cb_id c" using other_cbsd(1) [OF _ c x] wf by (simp add: db_wf_def)
  then show "filter (\<lambda>g. gr_cbsd_id g = cb_id x) (db_grants (add_grant d g))
      = filter (\<lambda>g. gr_cbsd_id g = cb_id x) (db_grants d)"
    using g by (simp add: add_grant_def)
qed
text \<open>Each item leaves the other certificates' CBSDs alone.\<close>

lemma relinquish_isolates:
  assumes inv: "sas_inv uuid d"
  shows "isolates cert d (snd (relinquish_item now cert d req))"
proof -
  have "isolates cert d (put_grant d (snd (apply_grant_event now g RELINQUISH p)))"
    if "lock_cbsd_row d v = Some c" "\<not> cbsd_certificate_mismatch c cert"
      "lock_grant_row d w v = Some g" for c g p v w
    by (rule isolates_put_grant [OF sas_invD(1) [OF inv] _ that(2) _ _ evolves_event])
      (use lock_cbsd_rowD [OF that(1)] lock_grant_rowD [OF that(3)]
        grants_wfD(1) [OF sas_invD(1) [OF inv]] in auto)
  then show ?thesis
    by (auto simp: relinquish_item_def Let_def case_prod_unfold isolates_refl split: option.split)
qed

lemma deregister_isolates:
  assumes inv: "sas_inv uuid d"
  shows "isolates cert d (snd (deregister_item now cert d req))"
proof -
  note wf = sas_invD(1) [OF inv]
  have "isolates cert d (delete_cbsd (put_all (\<lambda>g. snd (apply_grant_event now g TERMINATE
      (terminate_payload v g))) d (lock_grants_for_cbsd d v)) c)"
    if c: "lock_cbsd_row d v = Some c" "\<not> cbsd_certificate_mismatch c cert" for c v
  proof -
    let ?f = "\<lambda>g. snd (apply_grant_event now g TERMINATE (terminate_payload v g))"
    let ?d = "put_all ?f d (lock_grants_for_cbsd d v)"
    from lock_cbsd_rowD [OF c(1)] have mem: "c \<in> set (db_cbsds d)" and v: "v = PStr (cb_id c)" by auto
    have ev: "evolves g (?f g)" if "grant_in_sync g" for g by (rule evolves_event [OF that])
    have "isolates cert d ?d"
      unfolding v by (rule isolates_put_all [OF wf mem c(2)])
        (use locked_grants(2) [OF wf] grants_wfD(1) [OF wf] evolves_event in blast)
    moreover have "isolates cert ?d (delete_cbsd ?d c)"
      using sas_invD(1) [OF inv_terminate_all [OF inv ev]] mem c(2)
      by (intro isolates_delete) simp_all
    ultimately show ?thesis by (rule isolates_trans)
  qed
  then show ?thesis
    by (auto simp: deregister_item_def Let_def delete_after_put isolates_refl split: option.split)
qed

lemma register_isolates:
  assumes inv: "sas_inv uuid d"
  shows "isolates cert d (snd (register_item ext en cert d request))"
proof -
  note wf = sas_invD(1) [OF inv]
  have "isolates cert d (snd (persist_registration en cert d request merged))" for merged
  proof (cases rule: persist_registration_cases [of en cert d request merged])
    case 1
    then show ?thesis by (simp add: isolates_refl)
  next
    case (2 c)
    let ?c = "updated_cbsd en cert request merged c"
    let ?d = "put_cbsd d ?c"
    let ?f = "\<lambda>g. if gr_term g then g else snd (apply_grant_event (env_now en) g TERMINATE
        (terminate_payload (PStr (cb_id c)) g))"
    from lock_cbsd_rowD [OF 2(1)] have mem: "c \<in> set (db_cbsds d)"
      and id: "request_cbsd_id en request = cb_id c" by auto
    have inv': "sas_inv uuid ?d" by (rule inv_put_cbsd [OF inv mem]) simp_all
    note wf' = sas_invD(1) [OF inv']
    have "isolates cert d ?d" by (rule isolates_put_cbsd [OF wf mem 2(2)]) simp
    moreover have "isolates cert ?d (put_all ?f ?d (lock_grants_for_cbsd ?d (PStr (cb_id ?c))))"
    proof (rule isolates_put_all [OF wf'])
      show "?c \<in> set (db_cbsds ?d)" by (rule cbsd_table.mem_put_new [OF mem]) simp
      show "\<not> cbsd_certificate_mismatch ?c cert"
        using 2(2) by (auto simp: cbsd_certificate_mismatch_def split: option.splits)
      fix g assume "g \<in> set (lock_grants_for_cbsd ?d (PStr (cb_id ?c)))"
      then have "g \<in> set (db_grants ?d)" using locked_grants(2) [OF wf'] by blast
      from evolves_event [OF grants_wfD(1) [OF wf' this]] evolves_refl
      show "evolves g (?f g)" by simp
    qed
    ultimately have "isolates cert d (put_all ?f ?d (lock_grants_for_cbsd ?d (PStr (cb_id ?c))))"
      by (rule isolates_trans)
    then show ?thesis unfolding 2(3) snd_conv by (simp add: terminate_grants_def id)
  next
    case 3
    then show ?thesis by (simp add: isolates_add_cbsd)
  qed
  then show ?thesis
    by (auto simp: register_item_def case_prod_unfold isolates_refl split: sum.split)
qed

lemma grant_isolates:
  assumes inv: "sas_inv (env_uuid en) (fst st)"
  shows "isolates cert (fst st) (fst (snd (grant_item ext en ask cert st req)))"
proof -
  obtain d pend where st: "st = (d, pend)" by (cases st)
  show ?thesis
  proof (cases rule: grant_item_cases [of ext en ask cert d pend req])
    case (refused r)
    then show ?thesis using st by (simp add: isolates_refl)
  next
    case (checked c pl)
    show ?thesis
    proof (cases rule: admit_grant_cases [of ext en cert d pend req pl])
      case (refused r)
      then show ?thesis using st checked(5) by (simp add: isolates_refl)
    next
      case (admitted c tx stamp g)
      have "isolates cert d (add_grant d g)"
        by (rule isolates_add_grant [OF sas_invD(1) _ admitted(2)])
          (use inv st lock_cbsd_rowD [OF admitted(1)] in \<open>auto simp: admitted(7) new_grant_def\<close>)
      then show ?thesis unfolding st checked(5) admitted(8) by simp
    qed
  qed
qed

lemma heartbeat_isolates:
  assumes inv: "sas_inv uuid d"
  shows "isolates cert d (snd (heartbeat_item en ask cert d req))"
proof -
  have "isolates cert d (put_grant d (snd (hb_grant en ask d c req g)))"
    if "lock_cbsd_row d v = Some c" "\<not> cbsd_certificate_mismatch c cert"
      "lock_grant_row d w v = Some g" for c g v w
    by (rule isolates_put_grant [OF sas_invD(1) [OF inv] _ that(2) _ _ hb_grant_evolves])
      (use lock_cbsd_rowD [OF that(1)] lock_grant_rowD [OF that(3)]
        grants_wfD(1) [OF sas_invD(1) [OF inv]] in auto)
  then show ?thesis
    by (auto simp: heartbeat_item_def Let_def case_prod_unfold isolates_refl split: option.split if_splits)
qed

text \<open>The contract of every procedure, item by item and so for every batch.\<close>

definition kept :: "env \<Rightarrow> string option \<Rightarrow> db \<Rightarrow> db \<Rightarrow> bool" where
  "kept en cert d0 d = (sas_inv (env_uuid en) d \<and> expired_past (env_now en) d \<and> isolates cert d0 d)"

lemma kept_step:
  assumes "kept en cert d0 d" and "sas_inv (env_uuid en) d'" and "expired_past (env_now en) d'"
    and "isolates cert d d'"
  shows "kept en cert d0 d'"
  using assms by (auto simp: kept_def intro: isolates_trans)

lemma kept_start: "sas_inv (env_uuid en) d \<Longrightarrow> expired_past (env_now en) d \<Longrightarrow> kept en cert d d"
  by (simp add: kept_def isolates_refl)

interpretation registrations: batch_service "register_item ext en cert" "kept en cert d0"
proof
  fix d x assume k: "kept en cert d0 d"
  then show "kept en cert d0 (snd (register_item ext en cert d x))"
    by (intro kept_step [OF k] register_item_inv register_expired register_isolates [of "env_uuid en"])
      (simp_all add: kept_def)
qed

interpretation grants: batch_service "grant_item ext en ask cert" "\<lambda>st. kept en cert d0 (fst st)"
proof
  fix st :: "db \<times> (pyval \<Rightarrow> (int \<times> int) list)" and x
  assume k: "kept en cert d0 (fst st)"
  then show "kept en cert d0 (fst (snd (grant_item ext en ask cert st x)))"
    by (intro kept_step [OF k] grant_item_inv grant_item_expired grant_isolates)
      (simp_all add: kept_def)
qed

interpretation heartbeats: batch_service "heartbeat_item en ask cert" "kept en cert d0"
proof
  fix d x assume k: "kept en cert d0 d"
  then show "kept en cert d0 (snd (heartbeat_item en ask cert d x))"
    by (intro kept_step [OF k] heartbeat_item_inv heartbeat_expired heartbeat_isolates [of "env_uuid en"])
      (simp_all add: kept_def)
qed

interpretation relinquishments: batch_service "relinquish_item (env_now en) cert" "kept en cert d0"
proof
  fix d x assume k: "kept en cert d0 d"
  then show "kept en cert d0 (snd (relinquish_item (env_now en) cert d x))"
    by (intro kept_step [OF k] relinquish_item_inv relinquish_expired relinquish_isolates [of "env_uuid en"])
      (simp_all add: kept_def)
qed

interpretation deregistrations: batch_service "deregister_item (env_now en) cert" "kept en cert d0"
proof
  fix d x assume k: "kept en cert d0 d"
  then show "kept en cert d0 (snd (deregister_item (env_now en) cert d x))"
    by (intro kept_step [OF k] deregister_item_inv deregister_expired deregister_isolates [of "env_uuid en"])
      (simp_all add: kept_def)
qed

end
