(* ===== verification/Batch.thy ===== *)
theory Batch
  imports Timestamps HeartbeatService "HOL-Library.Sublist"
begin

text \<open>
  The frame of a CBSD procedure: parsing a batch item by item (services/cbsd_batch.py), the
  answer that keeps the cardinality and the order of the request, and the answer of every
  procedure to an unsupported protocol version (services/cbsd_version.py). What the schema
  library makes of one raw item is a parameter, \<open>item_model\<close>: the types of its validation
  errors, or the dumped model.
\<close>

abbreviation INVALID_VALUE :: int where "INVALID_VALUE \<equiv> 103"
abbreviation VERSION_UNSUPPORTED :: int where "VERSION_UNSUPPORTED \<equiv> 100"

type_synonym item_model = "pydict \<Rightarrow> string list + pydict"

definition winnf_code_from_validation_errors :: "string list \<Rightarrow> int" where
  "winnf_code_from_validation_errors errors =
     (if \<exists>t\<in>set errors. t \<in> {''missing'', ''missing_argument'',
           ''missing_positional_only_argument'', ''missing_keyword_only_argument''}
      then MISSING_PARAM else INVALID_VALUE)"

subsection \<open>Echoing identifiers\<close>

definition is_syntactically_valid_cbsd_id :: "pyval \<Rightarrow> bool" where
  "is_syntactically_valid_cbsd_id value =
     (case value of
        PStr s \<Rightarrow>
          count_list s (CHR ''/'') = 1 \<and> takeWhile (\<lambda>c. c \<noteq> CHR ''/'') s \<noteq> []
          \<and> tl (dropWhile (\<lambda>c. c \<noteq> CHR ''/'') s) \<noteq> [] \<and> \<not> list_ex is_space s
      | _ \<Rightarrow> False)"

definition should_echo_cbsd_id_on_schema_error :: "pyval \<Rightarrow> string \<Rightarrow> bool res" where
  "should_echo_cbsd_id_on_schema_error raw policy =
     (if policy = ''never'' then Inr False
      else (case raw of
          PDict d \<Rightarrow>
            if dget d ''cbsdId'' = PNone then Inr False
            else if policy = ''always'' then Inr True
            else if policy = ''syntactic''
            then Inr (is_syntactically_valid_cbsd_id (dget d ''cbsdId''))
            else Inl ValueError
        | _ \<Rightarrow> Inr False))"

subsection \<open>Parsing\<close>

record batch_parse =
  bp_codes :: "int option list"
  bp_items :: "pydict list"
  bp_index :: "nat list"

text \<open>\<open>{**a, **b}\<close>.\<close>

definition dmerge :: "pydict \<Rightarrow> pydict \<Rightarrow> pydict" where
  "dmerge a b = foldl (\<lambda>d (k, v). dset d k v) a b"

definition restore_nested :: "pydict \<Rightarrow> pydict \<Rightarrow> string \<Rightarrow> pydict" where
  "restore_nested raw dumped key =
     (case (dget raw key, dget dumped key) of
        (PDict r, PDict p) \<Rightarrow>
          dset dumped key (PDict (filter (\<lambda>(k, v). v \<noteq> PNone \<or> dhas r k) (dmerge r p)))
      | (PDict r, PNone) \<Rightarrow> dset dumped key (PDict r)
      | _ \<Rightarrow> dumped)"

definition payload_for_service :: "pydict \<Rightarrow> pydict \<Rightarrow> pydict" where
  "payload_for_service raw dumped =
     foldl (restore_nested raw) dumped [''installationParam'', ''airInterface'', ''measReport'', ''cbsdInfo'']"

text \<open>One raw item: a response code, or what the service is called with.\<close>

definition parse_item :: "item_model \<Rightarrow> pyval \<Rightarrow> int + pydict" where
  "parse_item model raw =
     (case raw of
        PDict d \<Rightarrow>
          (case model d of
             Inl errors \<Rightarrow> Inl (winnf_code_from_validation_errors errors)
           | Inr dumped \<Rightarrow> Inr (payload_for_service d dumped))
      | _ \<Rightarrow> Inl INVALID_VALUE)"

fun parse_items :: "item_model \<Rightarrow> nat \<Rightarrow> pyval list \<Rightarrow> batch_parse \<Rightarrow> batch_parse" where
  "parse_items model idx [] p = p"
| "parse_items model idx (raw # raws) p =
     parse_items model (Suc idx) raws
       (case parse_item model raw of
          Inl code \<Rightarrow> p\<lparr>bp_codes := bp_codes p @ [Some code]\<rparr>
        | Inr item \<Rightarrow> p\<lparr>bp_codes := bp_codes p @ [None], bp_items := bp_items p @ [item],
                         bp_index := bp_index p @ [idx]\<rparr>)"

text \<open>The message of the exception, or the parsed batch.\<close>

definition parse_item_batch :: "nat \<Rightarrow> item_model \<Rightarrow> pyval \<Rightarrow> string + batch_parse" where
  "parse_item_batch max_batch_size model raw_items =
     (case raw_items of
        PList raws \<Rightarrow>
          if length raws > max_batch_size
          then Inl (''batch exceeds MaximumBatchSize ('' @ show_nat max_batch_size @ '')'')
          else Inr (parse_items model 0 raws \<lparr>bp_codes = [], bp_items = [], bp_index = []\<rparr>)
      | _ \<Rightarrow> Inl ''batch must be a list'')"

subsection \<open>Merging the answers\<close>

abbreviation code_entry :: "int \<Rightarrow> string \<times> pyval" where
  "code_entry code \<equiv> (''response'', PDict [(''responseCode'', PInt code)])"

definition echo_field :: "string \<Rightarrow> pyval \<Rightarrow> pydict \<Rightarrow> string \<Rightarrow> pydict res" where
  "echo_field policy raw item key =
     (case raw of
        PDict d \<Rightarrow>
          if \<not> dhas d key \<or> dget d key = PNone then Inr item
          else rbind (if key = ''cbsdId'' then should_echo_cbsd_id_on_schema_error raw policy
                      else Inr True) (\<lambda>echo.
                 Inr (if echo then dset item key (dget d key) else item))
      | _ \<Rightarrow> Inr item)"

definition schema_slot :: "string list \<Rightarrow> string \<Rightarrow> pyval list \<Rightarrow> nat \<Rightarrow> int option \<Rightarrow> pydict option res" where
  "schema_slot echo_fields policy raws idx code =
     (case code of
        None \<Rightarrow> Inr None
      | Some c \<Rightarrow>
          rbind (if idx < length raws then rfold (echo_field policy (raws ! idx)) [code_entry c] echo_fields
                 else Inr [code_entry c]) (\<lambda>item. Inr (Some item)))"

fun place_responses :: "'r option list \<Rightarrow> nat list \<Rightarrow> 'r list \<Rightarrow> 'r option list res" where
  "place_responses out (i # is) (r # rs) =
     (if i < length out then place_responses (out[i := Some r]) is rs else Inl IndexError)"
| "place_responses out _ _ = Inr out"

definition merge_schema_and_service_responses ::
    "int option list \<Rightarrow> nat list \<Rightarrow> pydict list \<Rightarrow> pyval list \<Rightarrow> string list \<Rightarrow> string \<Rightarrow> pydict list res" where
  "merge_schema_and_service_responses codes index responses raws echo_fields policy =
     rbind (rmap (\<lambda>(idx, code). schema_slot echo_fields policy raws idx code)
             (enumerate 0 codes)) (\<lambda>out.
       if length responses \<noteq> length index then Inl ValueError
       else rbind (place_responses out index responses) (\<lambda>out.
         Inr (map (\<lambda>slot. case slot of None \<Rightarrow> [code_entry INVALID_VALUE] | Some item \<Rightarrow> item) out)))"

subsection \<open>Unsupported versions\<close>

record procedure_version_spec =
  pv_request_key :: string
  pv_response_key :: string
  pv_echo_fields :: "string list"
  pv_past_transmit :: bool

definition PROCEDURE_SPECS :: "(string \<times> procedure_version_spec) list" where
  "PROCEDURE_SPECS =
     [(''registration'', \<lparr>pv_request_key = ''registrationRequest'',
         pv_response_key = ''registrationResponse'', pv_echo_fields = [], pv_past_transmit = False\<rparr>),
      (''spectrumInquiry'', \<lparr>pv_request_key = ''spectrumInquiryRequest'',
         pv_response_key = ''spectrumInquiryResponse'', pv_echo_fields = [''cbsdId''],
         pv_past_transmit = False\<rparr>),
      (''grant'', \<lparr>pv_request_key = ''grantRequest'', pv_response_key = ''grantResponse'',
         pv_echo_fields = [''cbsdId''], pv_past_transmit = False\<rparr>),
      (''heartbeat'', \<lparr>pv_request_key = ''heartbeatRequest'', pv_response_key = ''heartbeatResponse'',
         pv_echo_fields = [''cbsdId'', ''grantId''], pv_past_transmit = True\<rparr>),
      (''relinquishment'', \<lparr>pv_request_key = ''relinquishmentRequest'',
         pv_response_key = ''relinquishmentResponse'', pv_echo_fields = [''cbsdId'', ''grantId''],
         pv_past_transmit = False\<rparr>),
      (''deregistration'', \<lparr>pv_request_key = ''deregistrationRequest'',
         pv_response_key = ''deregistrationResponse'', pv_echo_fields = [''cbsdId''],
         pv_past_transmit = False\<rparr>)]"

definition is_supported_cbsd_sas_version :: "string \<Rightarrow> bool" where
  "is_supported_cbsd_sas_version version = (py_strip version \<in> {''v1.2''})"

definition past_transmit_expire_time :: "time \<Rightarrow> string" where
  "past_transmit_expire_time now = strftime_z (trunc_sec now - seconds 1)"

definition build_unsupported_version_item ::
    "procedure_version_spec \<Rightarrow> time \<Rightarrow> pyval \<Rightarrow> pydict" where
  "build_unsupported_version_item spec now raw_item =
     (let item = [code_entry VERSION_UNSUPPORTED];
          item = (case raw_item of
              PDict d \<Rightarrow> foldl (\<lambda>item field. if dget d field \<noteq> PNone
                                  then dset item field (dget d field) else item)
                         item (pv_echo_fields spec)
            | _ \<Rightarrow> item)
      in if pv_past_transmit spec
         then dset item ''transmitExpireTime'' (PStr (past_transmit_expire_time now)) else item)"

text \<open>\<open>Inl\<close> of an exception; a rejected body is \<open>Inr\<close> of its message.\<close>

definition build_unsupported_version_body ::
    "string \<Rightarrow> nat \<Rightarrow> time \<Rightarrow> pyval \<Rightarrow> (string + pydict) res" where
  "build_unsupported_version_body procedure max_batch_size now body =
     (case map_of PROCEDURE_SPECS procedure of
        None \<Rightarrow> Inl KeyError
      | Some spec \<Rightarrow>
          Inr (case body of
              PDict b \<Rightarrow>
                (case (case dget b (pv_request_key spec) of
                         PNone \<Rightarrow> Some [] | PList xs \<Rightarrow> Some xs | _ \<Rightarrow> None) of
                   None \<Rightarrow> Inl (pv_request_key spec @ '' must be a list'')
                 | Some raw_items \<Rightarrow>
                     if length raw_items > max_batch_size
                     then Inl (''batch exceeds MaximumBatchSize ('' @ show_nat max_batch_size @ '')'')
                     else Inr [(pv_response_key spec, PList (map (\<lambda>raw.
                            PDict (build_unsupported_version_item spec now raw)) raw_items))])
            | _ \<Rightarrow> Inl ''request body must be a JSON object''))"

definition malformed_body_response :: "string \<Rightarrow> time \<Rightarrow> int \<Rightarrow> pydict res" where
  "malformed_body_response procedure now code =
     (case map_of PROCEDURE_SPECS procedure of
        None \<Rightarrow> Inl KeyError
      | Some spec \<Rightarrow>
          Inr [(pv_response_key spec, PList [PDict
            (if pv_past_transmit spec
             then [code_entry code, (''transmitExpireTime'', PStr (past_transmit_expire_time now))]
             else [code_entry code])])])"

text \<open>The catch-all route: HTTP status and content.\<close>

datatype http_reply = Http int pydict

definition unsupported_version ::
    "string \<Rightarrow> nat \<Rightarrow> time \<Rightarrow> string \<Rightarrow> pyval option \<Rightarrow> http_reply res" where
  "unsupported_version procedure max_batch_size now version body =
     (if is_supported_cbsd_sas_version version
      then Inr (Http 404 [(''detail'', PStr (''supported version must use /v1.2/'' @ procedure))])
      else (case body of
          None \<Rightarrow> rbind (malformed_body_response procedure now INVALID_VALUE) (\<lambda>c. Inr (Http 200 c))
        | Some b \<Rightarrow>
            rbind (build_unsupported_version_body procedure max_batch_size now b) (\<lambda>r. case r of
                Inl message \<Rightarrow>
                  if sublist ''MaximumBatchSize'' message
                  then Inr (Http 400 [(''detail'', PStr message), (''responseCode'', PInt INVALID_VALUE)])
                  else rbind (malformed_body_response procedure now INVALID_VALUE) (\<lambda>c. Inr (Http 200 c))
              | Inr payload \<Rightarrow> Inr (Http 200 payload))))"
subsection \<open>One pass over the batch\<close>

text \<open>
  The reference: every raw item is answered in its place, from its own validation errors or by
  the next answer of the service.
\<close>

fun batch_answers ::
    "item_model \<Rightarrow> string list \<Rightarrow> string \<Rightarrow> pyval list \<Rightarrow> pydict list \<Rightarrow> pydict list res" where
  "batch_answers model echo policy [] rs = Inr []"
| "batch_answers model echo policy (raw # raws) rs =
     (case parse_item model raw of
        Inl code \<Rightarrow>
          rbind (rfold (echo_field policy raw) [code_entry code] echo) (\<lambda>item.
          rbind (batch_answers model echo policy raws rs) (\<lambda>answers. Inr (item # answers)))
      | Inr _ \<Rightarrow>
          rbind (batch_answers model echo policy raws (tl rs)) (\<lambda>answers. Inr (hd rs # answers)))"

lemma batch_answers_length: "batch_answers m f p raws rs = Inr out \<Longrightarrow> length out = length raws"
  by (induction m f p raws rs arbitrary: out rule: batch_answers.induct)
    (auto simp: rbind_eq_Inr split: sum.splits)

abbreviation code_at :: "item_model \<Rightarrow> pyval \<Rightarrow> int option" where
  "code_at m raw \<equiv> (case parse_item m raw of Inl code \<Rightarrow> Some code | Inr _ \<Rightarrow> None)"

fun none_at :: "nat \<Rightarrow> 'a option list \<Rightarrow> nat list" where
  "none_at k [] = []"
| "none_at k (None # xs) = k # none_at (Suc k) xs"
| "none_at k (Some _ # xs) = none_at (Suc k) xs"

lemma parse_items_eq:
  "parse_items m k raws p =
     p\<lparr>bp_codes := bp_codes p @ map (code_at m) raws,
       bp_items := bp_items p @ concat (map (\<lambda>raw. case parse_item m raw of Inl _ \<Rightarrow> [] | Inr x \<Rightarrow> [x]) raws),
       bp_index := bp_index p @ none_at k (map (code_at m) raws)\<rparr>"
proof (induction raws arbitrary: k p)
  case Nil
  then show ?case by simp
next
  case (Cons raw raws)
  then show ?case by (cases "parse_item m raw") simp_all
qed

lemma items_at: "length (concat (map (\<lambda>raw. case parse_item m raw of Inl _ \<Rightarrow> [] | Inr x \<Rightarrow> [x]) raws))
    = length (none_at k (map (code_at m) raws))"
proof (induction raws arbitrary: k)
  case Nil
  then show ?case by simp
next
  case (Cons raw raws)
  show ?case using Cons.IH [of "Suc k"] by (cases "parse_item m raw") simp_all
qed

fun weave :: "'r option list \<Rightarrow> 'r list \<Rightarrow> 'r option list" where
  "weave [] rs = []"
| "weave (Some x # slots) rs = Some x # weave slots rs"
| "weave (None # slots) rs = Some (hd rs) # weave slots (tl rs)"

lemma place_weave:
  "length rs = length (none_at k slots) \<Longrightarrow> k = length pre
     \<Longrightarrow> place_responses (pre @ slots) (none_at k slots) rs = Inr (pre @ weave slots rs)"
proof (induction slots rs arbitrary: k pre rule: weave.induct)
  case (1 rs)
  then show ?case by simp
next
  case (2 x slots rs)
  then show ?case using 2(1) [of "Suc k" "pre @ [Some x]"] by simp
next
  case (3 slots rs)
  then obtain r rs' where rs: "rs = r # rs'" by (cases rs) auto
  with 3 show ?case using 3(1) [of "Suc k" "pre @ [Some r]"] by simp
qed

lemma schema_slot_at:
  assumes "idx < length raws"
  shows "schema_slot echo policy raws idx (Some c)
      = rbind (rfold (echo_field policy (raws ! idx)) [code_entry c] echo) (\<lambda>item. Inr (Some item))"
  using assms by (simp add: schema_slot_def)

lemma slots_none_at:
  "rmap (\<lambda>(idx, code). schema_slot echo policy raws idx code) (enumerate k codes) = Inr out
     \<Longrightarrow> none_at n out = none_at n codes"
proof (induction codes arbitrary: k n out)
  case Nil
  then show ?case by simp
next
  case (Cons c codes)
  then show ?case by (cases c) (auto simp: rbind_eq_Inr schema_slot_def)
qed

lemma weave_answers:
  "rbind (rmap (\<lambda>(idx, code). schema_slot echo policy (pre @ raws) idx code)
            (enumerate (length pre) (map (code_at m) raws)))
     (\<lambda>out. Inr (map (\<lambda>slot. case slot of None \<Rightarrow> [code_entry INVALID_VALUE] | Some item \<Rightarrow> item) (weave out rs)))
   = batch_answers m echo policy raws rs"
proof (induction raws arbitrary: pre rs)
  case Nil
  then show ?case by simp
next
  case (Cons raw raws)
  let ?tail = "rmap (\<lambda>(idx, code). schema_slot echo policy (pre @ raw # raws) idx code)
            (enumerate (Suc (length pre)) (map (code_at m) raws))"
  have ih: "rbind ?tail (\<lambda>out. Inr (map (\<lambda>slot. case slot of None \<Rightarrow> [code_entry INVALID_VALUE]
      | Some item \<Rightarrow> item) (weave out rs))) = batch_answers m echo policy raws rs" for rs
    using Cons [of "pre @ [raw]" rs] by simp
  show ?case
  proof (cases "parse_item m raw")
    case (Inl c)
    show ?thesis
    proof (cases "rfold (echo_field policy raw) [code_entry c] echo")
      case (Inl e)
      then show ?thesis using \<open>parse_item m raw = Inl c\<close> by (simp add: schema_slot_at)
    next
      case (Inr item)
      then show ?thesis using \<open>parse_item m raw = Inl c\<close> ih [of rs, symmetric]
        by (cases ?tail) (simp_all add: schema_slot_at)
    qed
  next
    case (Inr x)
    then show ?thesis using ih [of "tl rs", symmetric]
      by (cases ?tail) (simp_all add: schema_slot_def)
  qed
qed

text \<open>
  C31. Answering a CBSD batch: however validation splits the request, the merged reply is the one
  obtained by answering every item in its place, an invalid one with its own code and an item
  that reached the service with the service's answer to it; no answer is lost, moved or
  attached to another item, and the reply has one entry per request.
\<close>

theorem batch_reply_in_place:
  assumes "parse_item_batch n model (PList raws) = Inr p" and "length rs = length (bp_items p)"
  shows "merge_schema_and_service_responses (bp_codes p) (bp_index p) rs raws echo policy
           = batch_answers model echo policy raws rs
     \<and> bp_items p = concat (map (\<lambda>raw. case parse_item model raw of Inl _ \<Rightarrow> [] | Inr x \<Rightarrow> [x]) raws)"
proof -
  let ?items = "concat (map (\<lambda>raw. case parse_item model raw of Inl _ \<Rightarrow> [] | Inr x \<Rightarrow> [x]) raws)"
  from assms(1) have p: "bp_codes p = map (code_at model) raws" "bp_items p = ?items"
    "bp_index p = none_at 0 (map (code_at model) raws)"
    by (auto simp: parse_item_batch_def parse_items_eq split: if_splits)
  have len: "length rs = length (bp_index p)"
    using assms(2) items_at [of model raws 0] by (simp add: p)
  let ?slots = "rmap (\<lambda>(idx, code). schema_slot echo policy raws idx code) (enumerate 0 (bp_codes p))"
  have "merge_schema_and_service_responses (bp_codes p) (bp_index p) rs raws echo policy =
      rbind ?slots (\<lambda>out. Inr (map (\<lambda>slot. case slot of None \<Rightarrow> [code_entry INVALID_VALUE]
        | Some item \<Rightarrow> item) (weave out rs)))"
  proof (cases ?slots)
    case (Inl e)
    then show ?thesis by (simp add: merge_schema_and_service_responses_def)
  next
    case (Inr out)
    from slots_none_at [OF Inr] have "bp_index p = none_at 0 out" by (simp add: p)
    then show ?thesis
      using len place_weave [of rs 0 out "[]"] Inr
      by (simp add: merge_schema_and_service_responses_def)
  qed
  then show ?thesis using weave_answers [of echo policy "[]" raws model rs] p by simp
qed

text \<open>Three items, of which only the last is valid.\<close>

definition example_item_model :: item_model where
  "example_item_model d = (if dhas d ''cbsdId'' then Inr d else Inl [''missing''])"

theorem batch_reply_in_place_witness:
  "merge_schema_and_service_responses [Some 102, Some 103, None] [2]
     [[code_entry 0]] [PDict [(''grantId'', PStr ''g'')], PInt 3, PDict [(''cbsdId'', PStr ''a/b'')]]
     [''cbsdId'', ''grantId''] ''always''
   = batch_answers example_item_model [''cbsdId'', ''grantId''] ''always''
      [PDict [(''grantId'', PStr ''g'')], PInt 3, PDict [(''cbsdId'', PStr ''a/b'')]] [[code_entry 0]]
   \<and> batch_answers example_item_model [''cbsdId'', ''grantId''] ''always''
      [PDict [(''grantId'', PStr ''g'')], PInt 3, PDict [(''cbsdId'', PStr ''a/b'')]] [[code_entry 0]]
     = Inr [[code_entry 102, (''grantId'', PStr ''g'')], [code_entry 103], [code_entry 0]]"
proof -
  let ?raws = "[PDict [(''grantId'', PStr ''g'')], PInt 3, PDict [(''cbsdId'', PStr ''a/b'')]]"
  have "parse_item_batch 100 example_item_model (PList ?raws)
      = Inr \<lparr>bp_codes = [Some 102, Some 103, None], bp_items = [[(''cbsdId'', PStr ''a/b'')]], bp_index = [2]\<rparr>"
    by (simp add: parse_item_batch_def parse_item_def example_item_model_def
        winnf_code_from_validation_errors_def payload_for_service_def restore_nested_def)
  from batch_reply_in_place [OF this, of "[[code_entry 0]]" "[''cbsdId'', ''grantId'']" "''always''"]
  show ?thesis
    by (simp add: echo_field_def parse_item_def example_item_model_def
        winnf_code_from_validation_errors_def payload_for_service_def restore_nested_def)
qed
subsection \<open>The version answer\<close>

lemma spec_cases:
  assumes "map_of PROCEDURE_SPECS procedure = Some spec"
  shows "set (pv_echo_fields spec) \<subseteq> {''cbsdId'', ''grantId''}"
  using map_of_SomeD [OF assms] by (auto simp: PROCEDURE_SPECS_def)

lemma echoed_fields:
  assumes "set names \<subseteq> {''cbsdId'', ''grantId''}"
  shows "dget (foldl (\<lambda>item field. if dget d field \<noteq> PNone then dset item field (dget d field) else item)
            item names) k
       = (if k \<in> set names \<and> dget d k \<noteq> PNone then dget d k else dget item k)"
  using assms by (induction names arbitrary: item) auto

lemma past_transmit_readable:
  assumes "seconds 1 \<le> now" and "now < seconds 253402300800"
  shows "strptime_z (past_transmit_expire_time now) = Some (trunc_sec now - seconds 1)
     \<and> trunc_sec now - seconds 1 < now"
proof -
  have s: "trunc_sec (now - seconds 1) = trunc_sec now - seconds 1"
    by (simp add: trunc_sec_def seconds_def)
  have "fmt_transmit_expire (now - seconds 1) = past_transmit_expire_time now"
    by (simp add: fmt_transmit_expire_def past_transmit_expire_time_def s)
  moreover have "strptime_z (fmt_transmit_expire (now - seconds 1)) = Some (trunc_sec (now - seconds 1))"
  proof -
    have "trunc_sec (seconds 1) = seconds 1" by (simp add: trunc_sec_def seconds_def)
    then have "seconds 1 \<le> trunc_sec now" using trunc_sec_mono [OF assms(1)] by simp
    moreover have "trunc_sec now - seconds 1 < seconds 253402300800"
      using assms(2) trunc_sec_le [of now] by (simp add: seconds_def)
    moreover have "trunc_sec (trunc_sec now - seconds 1) = trunc_sec now - seconds 1"
      using trunc_sec_idem [of "now - seconds 1"] s by simp
    ultimately show ?thesis
      using strptime_strftime [of "trunc_sec now - seconds 1"] s by (simp add: fmt_transmit_expire_def)
  qed
  moreover have "trunc_sec now - seconds 1 < now"
    using trunc_sec_le [of now] by (simp add: seconds_def)
  ultimately show ?thesis by (simp add: s)
qed

text \<open>
  A batch sent to a protocol version the SAS does not support is answered item by item with
  response code 100 and nothing else than the identifiers of the request: one entry per item,
  in order, and a heartbeat's transmit expiry, read as a time, is already past.
\<close>

theorem unsupported_version_answers:
  assumes "map_of PROCEDURE_SPECS procedure = Some spec"
    and "\<not> is_supported_cbsd_sas_version version"
    and "dget b (pv_request_key spec) = PList raws" and "length raws \<le> n"
    and "seconds 1 \<le> now" and "now < seconds 253402300800"
  shows "\<exists>items. unsupported_version procedure n now version (Some (PDict b))
        = Inr (Http 200 [(pv_response_key spec, PList (map PDict items))])
     \<and> length items = length raws
     \<and> (\<forall>i<length raws. dget (items ! i) ''response'' = PDict [(''responseCode'', PInt 100)]
          \<and> (\<forall>k\<in>{''cbsdId'', ''grantId''}. dget (items ! i) k \<noteq> PNone
               \<longrightarrow> (\<exists>r. raws ! i = PDict r \<and> dget (items ! i) k = dget r k))
          \<and> (pv_past_transmit spec \<longrightarrow> (\<exists>s u. dget (items ! i) ''transmitExpireTime'' = PStr s
               \<and> strptime_z s = Some u \<and> u < now)))"
proof -
  let ?item = "build_unsupported_version_item spec now"
  have item: "dget (?item raw) ''response'' = PDict [(''responseCode'', PInt 100)]
      \<and> (\<forall>k\<in>{''cbsdId'', ''grantId''}. dget (?item raw) k \<noteq> PNone
           \<longrightarrow> (\<exists>r. raw = PDict r \<and> dget (?item raw) k = dget r k))
      \<and> (pv_past_transmit spec \<longrightarrow>
           dget (?item raw) ''transmitExpireTime'' = PStr (past_transmit_expire_time now))" for raw
    using spec_cases [OF assms(1)] echoed_fields [OF spec_cases [OF assms(1)]]
    by (cases raw) (auto simp: build_unsupported_version_item_def Let_def)
  have "unsupported_version procedure n now version (Some (PDict b))
      = Inr (Http 200 [(pv_response_key spec, PList (map PDict (map ?item raws)))])"
    using assms(1-4) by (simp add: unsupported_version_def build_unsupported_version_body_def comp_def)
  moreover have "dget (map ?item raws ! i) ''response'' = PDict [(''responseCode'', PInt 100)]
          \<and> (\<forall>k\<in>{''cbsdId'', ''grantId''}. dget (map ?item raws ! i) k \<noteq> PNone
               \<longrightarrow> (\<exists>r. raws ! i = PDict r \<and> dget (map ?item raws ! i) k = dget r k))
          \<and> (pv_past_transmit spec \<longrightarrow> (\<exists>s u. dget (map ?item raws ! i) ''transmitExpireTime'' = PStr s
               \<and> strptime_z s = Some u \<and> u < now))" if "i < length raws" for i
    using item [of "raws ! i"] past_transmit_readable [OF assms(5,6)] unfolding nth_map [OF that] by blast
  ultimately show ?thesis
    by (intro exI [of _ "map ?item raws"]) simp
qed

text \<open>A heartbeat of two items sent to version 1.1 in 2030.\<close>

theorem unsupported_version_answers_witness:
  "\<exists>items. unsupported_version ''heartbeat'' 100 (seconds 1893456000) ''v1.1''
        (Some (PDict [(''heartbeatRequest'', PList [PDict [(''cbsdId'', PStr ''a/b'')], PInt 1])]))
        = Inr (Http 200 [(''heartbeatResponse'', PList (map PDict items))]) \<and> length items = 2"
proof -
  have spec: "map_of PROCEDURE_SPECS ''heartbeat'' = Some \<lparr>pv_request_key = ''heartbeatRequest'',
      pv_response_key = ''heartbeatResponse'', pv_echo_fields = [''cbsdId'', ''grantId''],
      pv_past_transmit = True\<rparr>"
    by (simp add: PROCEDURE_SPECS_def)
  have version: "\<not> is_supported_cbsd_sas_version ''v1.1''"
    by (simp add: is_supported_cbsd_sas_version_def py_strip_def is_space_def)
  show ?thesis
    using unsupported_version_answers [OF spec version, where raws = "[PDict [(''cbsdId'', PStr ''a/b'')], PInt 1]"
        and n = 100 and now = "seconds 1893456000"
        and b = "[(''heartbeatRequest'', PList [PDict [(''cbsdId'', PStr ''a/b'')], PInt 1])]"]
    by (auto simp: seconds_def)
qed

end
