(* ===== verification/Certificates.thy ===== *)
theory Certificates
  imports Models
begin

text \<open>
  Who may call: the leaf checks on client certificates (services/certificate_policy.py), the
  identity bound to a request (services/mtls_auth.py) and the authorisation of the CBSD,
  SAS-to-SAS and administration interfaces (services/cbsd_auth.py, services/mtls_auth.py). A
  certificate is what the X.509 library reads from it; the check of a signature with the
  issuer's key is a parameter.
\<close>

datatype public_key = RSA nat | EC string | Other_key

record certificate =
  ce_sha1_hex :: string
  ce_not_before :: time
  ce_not_after :: time
  ce_basic_constraints :: "bool option"
  ce_extended_usage :: "string list option"
  ce_digital_signature :: "bool option"
  ce_key :: public_key
  ce_policies :: "string list option"
  ce_serial :: int
  ce_issuer :: string
  ce_subject :: string

abbreviation OID_ROLE_SAS :: string where "OID_ROLE_SAS \<equiv> ''1.3.6.1.4.1.46609.1.1.1''"
abbreviation OID_ROLE_INSTALLER :: string where "OID_ROLE_INSTALLER \<equiv> ''1.3.6.1.4.1.46609.1.1.2''"
abbreviation OID_ROLE_CBSD :: string where "OID_ROLE_CBSD \<equiv> ''1.3.6.1.4.1.46609.1.1.3''"
abbreviation OID_ROLE_DOMAIN_PROXY :: string where "OID_ROLE_DOMAIN_PROXY \<equiv> ''1.3.6.1.4.1.46609.1.1.4''"
abbreviation OID_ZONE :: string where "OID_ZONE \<equiv> ''1.3.6.1.4.1.46609.1.2''"

subsection \<open>Leaf checks\<close>

datatype cert_reject_reason =
    CERT_EXPIRED | NOT_YET_VALID | WRONG_ROLE | ZONE_POLICY | MISSING_EKU | BAD_KEY_USAGE
  | WRONG_KEY_TYPE | IS_CA | UNTRUSTED_CHAIN | REVOKED | CERT_BLACKLISTED

definition check_temporal :: "certificate \<Rightarrow> time \<Rightarrow> cert_reject_reason option" where
  "check_temporal cert now =
     (if now < ce_not_before cert then Some NOT_YET_VALID
      else if now > ce_not_after cert then Some CERT_EXPIRED else None)"

definition is_ca :: "certificate \<Rightarrow> bool" where
  "is_ca cert = (ce_basic_constraints cert = Some True)"

definition has_client_auth :: "certificate \<Rightarrow> bool" where
  "has_client_auth cert =
     (case ce_extended_usage cert of None \<Rightarrow> False | Some usages \<Rightarrow> ''1.3.6.1.5.5.7.3.2'' \<in> set usages)"

definition has_digital_signature :: "certificate \<Rightarrow> bool" where
  "has_digital_signature cert = (ce_digital_signature cert = Some True)"

definition key_type_allowed :: "certificate \<Rightarrow> bool" where
  "key_type_allowed cert =
     (case ce_key cert of RSA bits \<Rightarrow> 2048 \<le> bits | EC curve \<Rightarrow> curve = ''secp256r1'' | Other_key \<Rightarrow> False)"

definition certificate_policy_oids :: "certificate \<Rightarrow> string list" where
  "certificate_policy_oids cert = (case ce_policies cert of None \<Rightarrow> [] | Some ps \<Rightarrow> ps)"

text \<open>\<open>AA:BB:\<dots>\<close>, in upper case.\<close>

fun colon_pairs :: "string \<Rightarrow> string" where
  "colon_pairs (a # b # c # s) = a # b # CHR '':'' # colon_pairs (c # s)"
| "colon_pairs s = s"

definition sha1_fingerprint_colon :: "certificate \<Rightarrow> string" where
  "sha1_fingerprint_colon cert = colon_pairs (py_upper (ce_sha1_hex cert))"

text \<open>A revocation list is the serial numbers it lists.\<close>

definition check_revoked :: "certificate \<Rightarrow> int list list \<Rightarrow> bool" where
  "check_revoked cert crls = list_ex (\<lambda>crl. ce_serial cert \<in> set crl) crls"

definition check_chain :: "(certificate \<Rightarrow> certificate \<Rightarrow> bool) \<Rightarrow> certificate \<Rightarrow> certificate list \<Rightarrow> bool" where
  "check_chain verify cert roots =
     (roots = [] \<or> list_ex (\<lambda>root. ce_issuer cert = ce_subject root \<and> is_ca root \<and> verify cert root) roots)"

text \<open>What is loaded from disk for a check: roots (\<open>None\<close> when not configured) and lists.\<close>

record trust_context =
  tc_verify :: "certificate \<Rightarrow> certificate \<Rightarrow> bool"
  tc_roots :: "certificate list option"
  tc_crls :: "int list list"

definition validate_leaf ::
    "trust_context \<Rightarrow> time \<Rightarrow> string list \<Rightarrow> string list \<Rightarrow> string \<Rightarrow> certificate \<Rightarrow> cert_reject_reason option" where
  "validate_leaf tc now blacklisted allowed required_role cert =
     (case check_temporal cert now of
        Some reason \<Rightarrow> Some reason
      | None \<Rightarrow>
          if is_ca cert then Some IS_CA
          else if \<not> key_type_allowed cert then Some WRONG_KEY_TYPE
          else if \<not> has_client_auth cert then Some MISSING_EKU
          else if \<not> has_digital_signature cert then Some BAD_KEY_USAGE
          else if OID_ZONE \<in> set (certificate_policy_oids cert) then Some ZONE_POLICY
          else (let fingerprint = py_upper (sha1_fingerprint_colon cert) in
            if required_role \<notin> set (certificate_policy_oids cert)
               \<and> fingerprint \<notin> set (map py_upper allowed) then Some WRONG_ROLE
            else if fingerprint \<in> set (map py_upper blacklisted) then Some CERT_BLACKLISTED
            else if check_revoked cert (tc_crls tc) then Some REVOKED
            else (case tc_roots tc of
                None \<Rightarrow> None
              | Some roots \<Rightarrow> if check_chain (tc_verify tc) cert roots then None else Some UNTRUSTED_CHAIN)))"

definition validate_cbsd_certificate :: "trust_context \<Rightarrow> time \<Rightarrow> certificate \<Rightarrow> cert_reject_reason option" where
  "validate_cbsd_certificate tc now cert = validate_leaf tc now [] [] OID_ROLE_CBSD cert"

definition validate_domain_proxy_certificate :: "trust_context \<Rightarrow> time \<Rightarrow> certificate \<Rightarrow> cert_reject_reason option" where
  "validate_domain_proxy_certificate tc now cert = validate_leaf tc now [] [] OID_ROLE_DOMAIN_PROXY cert"

definition validate_sas_certificate :: "trust_context \<Rightarrow> time \<Rightarrow> certificate \<Rightarrow> cert_reject_reason option" where
  "validate_sas_certificate tc now cert = validate_leaf tc now [] [] OID_ROLE_SAS cert"

text \<open>The setting \<open>SAS_ADMIN_CERT_SHA1\<close>: comma-separated digests, brought to the colon form.\<close>

definition hex_digit :: "char \<Rightarrow> bool" where
  "hex_digit c = (is_digit c \<or> (65 \<le> (of_char c :: nat) \<and> (of_char c :: nat) \<le> 70))"

definition admin_fingerprint :: "string \<Rightarrow> string option" where
  "admin_fingerprint part =
     (let token = filter (\<lambda>c. c \<noteq> CHR '' '') (py_upper (py_strip part));
          hex_digits = filter (\<lambda>c. c \<noteq> CHR '':'') token in
      if token = [] then None
      else if length hex_digits \<noteq> 40 \<or> \<not> list_all hex_digit hex_digits then None
      else Some (colon_pairs hex_digits))"

definition load_admin_allowed_fingerprints :: "string \<Rightarrow> string list" where
  "load_admin_allowed_fingerprints setting =
     (let raw = py_strip setting in
      if raw = [] then [] else List.map_filter admin_fingerprint (split_on (CHR '','') raw))"

definition validate_admin_certificate :: "trust_context \<Rightarrow> time \<Rightarrow> string \<Rightarrow> certificate \<Rightarrow> cert_reject_reason option" where
  "validate_admin_certificate tc now setting cert =
     validate_leaf tc now [] (load_admin_allowed_fingerprints setting) OID_ROLE_SAS cert"

subsection \<open>The identity of a request\<close>

text \<open>The transport of a request: none or without TLS, or TLS with the peer's certificate, if any.\<close>

datatype peer = No_TLS | TLS "certificate option"

fun load_client_certificate :: "peer \<Rightarrow> certificate option" where
  "load_client_certificate No_TLS = None"
| "load_client_certificate (TLS c) = c"

datatype cbsd_client_role =
  ROLE_ABSENT | ROLE_CBSD | ROLE_DOMAIN_PROXY | ROLE_SAS | ROLE_INSTALLER | ROLE_UNKNOWN

definition classify_cbsd_client_role :: "certificate \<Rightarrow> cbsd_client_role" where
  "classify_cbsd_client_role cert =
     (let policies = set (certificate_policy_oids cert) in
      if OID_ROLE_DOMAIN_PROXY \<in> policies then ROLE_DOMAIN_PROXY
      else if OID_ROLE_CBSD \<in> policies then ROLE_CBSD
      else if OID_ROLE_SAS \<in> policies then ROLE_SAS
      else if OID_ROLE_INSTALLER \<in> policies then ROLE_INSTALLER
      else ROLE_UNKNOWN)"

definition role_certificate_ok :: "trust_context \<Rightarrow> time \<Rightarrow> certificate \<Rightarrow> cbsd_client_role \<Rightarrow> bool" where
  "role_certificate_ok tc now cert role =
     (case role of
        ROLE_CBSD \<Rightarrow> validate_cbsd_certificate tc now cert = None
      | ROLE_DOMAIN_PROXY \<Rightarrow> validate_domain_proxy_certificate tc now cert = None
      | _ \<Rightarrow> False)"

record cbsd_auth_context =
  au_hash :: "string option"
  au_role :: cbsd_client_role
  au_allowed :: bool
  au_denial :: "int option"

definition authorize_cbsd_operation :: "trust_context \<Rightarrow> time \<Rightarrow> peer \<Rightarrow> cbsd_auth_context" where
  "authorize_cbsd_operation tc now peer =
     (case load_client_certificate peer of
        None \<Rightarrow>
          if peer \<noteq> No_TLS
          then \<lparr>au_hash = None, au_role = ROLE_ABSENT, au_allowed = False, au_denial = Some 104\<rparr>
          else \<lparr>au_hash = None, au_role = ROLE_ABSENT, au_allowed = True, au_denial = None\<rparr>
      | Some cert \<Rightarrow>
          let role = classify_cbsd_client_role cert; hash = sha1_fingerprint_colon cert in
          if role \<notin> {ROLE_CBSD, ROLE_DOMAIN_PROXY} \<or> \<not> role_certificate_ok tc now cert role
          then \<lparr>au_hash = Some hash, au_role = role, au_allowed = False, au_denial = Some 104\<rparr>
          else \<lparr>au_hash = Some hash, au_role = role, au_allowed = True, au_denial = None\<rparr>)"

text \<open>The HTTP 403 of a refused administration or peer request is \<open>False\<close> or \<open>None\<close>.\<close>

definition require_admin_certificate :: "trust_context \<Rightarrow> time \<Rightarrow> string \<Rightarrow> peer \<Rightarrow> bool" where
  "require_admin_certificate tc now setting peer =
     (case load_client_certificate peer of
        None \<Rightarrow> peer = No_TLS
      | Some cert \<Rightarrow> validate_admin_certificate tc now setting cert = None)"

definition require_peer_sas :: "trust_context \<Rightarrow> time \<Rightarrow> db \<Rightarrow> peer \<Rightarrow> string option" where
  "require_peer_sas tc now d peer =
     (case load_client_certificate peer of
        None \<Rightarrow> None
      | Some cert \<Rightarrow>
          if validate_sas_certificate tc now cert \<noteq> None then None
          else (let hash = sha1_fingerprint_colon cert in
            if list_ex (\<lambda>p. pe_cert p = hash) (db_peers d)
               \<or> list_ex (\<lambda>p. py_upper (pe_cert p) = py_upper hash) (db_peers d)
            then Some hash else None))"
subsection \<open>Properties\<close>

text \<open>The hygiene every client certificate has to pass, whatever its role.\<close>

definition sound_leaf :: "trust_context \<Rightarrow> time \<Rightarrow> certificate \<Rightarrow> bool" where
  "sound_leaf tc now cert =
     (ce_not_before cert \<le> now \<and> now \<le> ce_not_after cert
      \<and> ce_basic_constraints cert \<noteq> Some True
      \<and> (case ce_key cert of RSA n \<Rightarrow> 2048 \<le> n | EC c \<Rightarrow> c = ''secp256r1'' | Other_key \<Rightarrow> False)
      \<and> (\<exists>us. ce_extended_usage cert = Some us \<and> ''1.3.6.1.5.5.7.3.2'' \<in> set us)
      \<and> ce_digital_signature cert = Some True
      \<and> OID_ZONE \<notin> set (certificate_policy_oids cert)
      \<and> (\<forall>crl\<in>set (tc_crls tc). ce_serial cert \<notin> set crl)
      \<and> (\<forall>roots. tc_roots tc = Some roots \<longrightarrow> roots \<noteq> [] \<longrightarrow>
           (\<exists>root\<in>set roots. ce_issuer cert = ce_subject root \<and> ce_basic_constraints root = Some True
              \<and> tc_verify tc cert root)))"

lemma validate_leaf_ok:
  "(validate_leaf tc now black allowed role cert = None) =
     (sound_leaf tc now cert
      \<and> py_upper (sha1_fingerprint_colon cert) \<notin> set (map py_upper black)
      \<and> (role \<in> set (certificate_policy_oids cert)
         \<or> py_upper (sha1_fingerprint_colon cert) \<in> set (map py_upper allowed)))"
proof -
  have chain: "(case tc_roots tc of None \<Rightarrow> None
        | Some roots \<Rightarrow> if check_chain (tc_verify tc) cert roots then None else Some UNTRUSTED_CHAIN) = None
      \<longleftrightarrow> (\<forall>roots. tc_roots tc = Some roots \<longrightarrow> roots \<noteq> [] \<longrightarrow>
           (\<exists>root\<in>set roots. ce_issuer cert = ce_subject root \<and> ce_basic_constraints root = Some True
              \<and> tc_verify tc cert root))"
    by (cases "tc_roots tc") (auto simp: check_chain_def is_ca_def list_ex_iff)
  have key: "key_type_allowed cert = (case ce_key cert of RSA n \<Rightarrow> 2048 \<le> n
      | EC c \<Rightarrow> c = ''secp256r1'' | Other_key \<Rightarrow> False)"
    by (simp add: key_type_allowed_def)
  have eku: "has_client_auth cert = (\<exists>us. ce_extended_usage cert = Some us \<and> ''1.3.6.1.5.5.7.3.2'' \<in> set us)"
    by (simp add: has_client_auth_def split: option.split)
  have crl: "check_revoked cert (tc_crls tc) = (\<not> (\<forall>crl\<in>set (tc_crls tc). ce_serial cert \<notin> set crl))"
    by (simp add: check_revoked_def list_ex_iff)
  show ?thesis
    unfolding sound_leaf_def key [symmetric] eku [symmetric] chain [symmetric]
    by (simp add: validate_leaf_def Let_def check_temporal_def is_ca_def has_digital_signature_def crl
        not_less conj_ac)
qed

text \<open>
  C33. Over TLS the CBSD interface admits exactly the holders of a sound client certificate, in
  date, with a strong key, for client authentication, not a CA, not of a ZONE, not revoked and
  signed by a trusted root, whose policies name the Domain Proxy role or else the CBSD role, and
  the identity it binds the request to is that certificate's fingerprint; everyone else is
  refused with code 104.
\<close>

theorem cbsd_interface_admits:
  "let auth = authorize_cbsd_operation tc now (TLS c) in
     (au_allowed auth =
        (\<exists>cert. c = Some cert \<and> sound_leaf tc now cert
           \<and> {OID_ROLE_DOMAIN_PROXY, OID_ROLE_CBSD} \<inter> set (certificate_policy_oids cert) \<noteq> {}))
     \<and> au_hash auth = map_option sha1_fingerprint_colon c
     \<and> au_denial auth = (if au_allowed auth then None else Some 104)"
proof (cases c)
  case None
  then show ?thesis by (simp add: authorize_cbsd_operation_def Let_def)
next
  case (Some cert)
  let ?ps = "set (certificate_policy_oids cert)"
  have roles: "role_certificate_ok tc now cert (classify_cbsd_client_role cert)
      = (sound_leaf tc now cert \<and> (OID_ROLE_DOMAIN_PROXY \<in> ?ps \<or> OID_ROLE_CBSD \<in> ?ps))"
    by (auto simp: role_certificate_ok_def classify_cbsd_client_role_def Let_def
        validate_cbsd_certificate_def validate_domain_proxy_certificate_def validate_leaf_ok)
  have "classify_cbsd_client_role cert \<in> {ROLE_CBSD, ROLE_DOMAIN_PROXY}
      = (OID_ROLE_DOMAIN_PROXY \<in> ?ps \<or> OID_ROLE_CBSD \<in> ?ps)"
    by (auto simp: classify_cbsd_client_role_def Let_def)
  with roles Some show ?thesis
    by (auto simp: authorize_cbsd_operation_def Let_def)
qed

text \<open>Every request of an administrator or a peer SAS over TLS passes the same hygiene.\<close>

lemma admin_interface_admits:
  assumes "require_admin_certificate tc now setting (TLS c)"
  shows "\<exists>cert. c = Some cert \<and> sound_leaf tc now cert"
  using assms
  by (auto simp: require_admin_certificate_def validate_admin_certificate_def validate_leaf_ok
      split: option.splits)

lemma peer_interface_admits:
  assumes "require_peer_sas tc now d peer = Some hash"
  shows "\<exists>cert. peer = TLS (Some cert) \<and> sound_leaf tc now cert \<and> hash = sha1_fingerprint_colon cert
    \<and> OID_ROLE_SAS \<in> set (certificate_policy_oids cert)
    \<and> (\<exists>p\<in>set (db_peers d). py_upper (pe_cert p) = py_upper hash)"
proof -
  obtain cert where c: "load_client_certificate peer = Some cert"
    using assms by (auto simp: require_peer_sas_def split: option.splits)
  then have "peer = TLS (Some cert)" by (cases peer) simp_all
  moreover have "validate_sas_certificate tc now cert = None" and hash: "hash = sha1_fingerprint_colon cert"
    using assms c by (auto simp: require_peer_sas_def Let_def split: if_splits)
  moreover have "\<exists>p\<in>set (db_peers d). pe_cert p = hash \<or> py_upper (pe_cert p) = py_upper hash"
    using assms c by (auto simp: require_peer_sas_def Let_def list_ex_iff split: if_splits)
  then have "\<exists>p\<in>set (db_peers d). py_upper (pe_cert p) = py_upper hash" by (metis (full_types))
  ultimately show ?thesis by (auto simp: validate_sas_certificate_def validate_leaf_ok)
qed

end
