(* ===== verification/CbsdRoutes.thy ===== *)
theory CbsdRoutes
  imports System Batch Certificates
begin

text \<open>
  The CBSD-to-SAS interface, version 1.2 (routes/cbsd_routes.py): authorisation of the caller,
  the batch of the request body, the service of the procedure and the answer, and the system as
  a step relation over the clock and the database, one request at a time. The answers of the
  services are written here as the dictionaries they return.
\<close>

subsection \<open>Answers as dictionaries\<close>

abbreviation entry :: "string \<Rightarrow> pyval option \<Rightarrow> pydict" where
  "entry k v \<equiv> (case v of None \<Rightarrow> [] | Some x \<Rightarrow> [(k, x)])"

definition reg_dict :: "reg_response \<Rightarrow> pydict" where
  "reg_dict r = entry ''cbsdId'' (map_option PStr (rr_cbsd_id r)) @ [code_entry (rr_code r)]
     @ entry ''measReportConfig'' (map_option (\<lambda>ms. PList (map PStr ms)) (rr_meas_config r))"

definition channel_dict :: "available_channel \<Rightarrow> pydict" where
  "channel_dict c =
     [(''frequencyRange'', PDict [(''lowFrequency'', PInt (ac_low c)), (''highFrequency'', PInt (ac_high c))]),
      (''channelType'', PStr (ac_type c)), (''ruleApplied'', PStr ''FCC_PART_96'')]"

definition siq_dict :: "siq_response \<Rightarrow> pydict" where
  "siq_dict r = entry ''cbsdId'' (sr_cbsd_id r)
     @ entry ''availableChannel'' (map_option (\<lambda>cs. PList (map (\<lambda>c. PDict (channel_dict c)) cs)) (sr_available r))
     @ [code_entry (sr_code r)]"

definition grant_dict :: "grant_response \<Rightarrow> pydict" where
  "grant_dict r = entry ''cbsdId'' (gn_cbsd_id r)
     @ (case gn_details r of None \<Rightarrow> []
        | Some g \<Rightarrow> [(''grantId'', PStr (gd_grant_id g)), (''grantExpireTime'', PStr (gd_expire g)),
                      (''transmitExpireTime'', PStr (gd_transmit_expire g)),
                      (''heartbeatInterval'', PInt (gd_interval g)), (''channelType'', PStr (gd_channel g))])
     @ [code_entry (gn_code r)]"

definition hb_dict :: "hb_response \<Rightarrow> pydict" where
  "hb_dict r = [(''transmitExpireTime'', PStr (hb_tx r)), code_entry (hb_code r)]
     @ entry ''cbsdId'' (hb_cbsd_id r) @ entry ''grantId'' (hb_grant_id r)
     @ entry ''grantExpireTime'' (map_option PStr (hb_expire r))
     @ entry ''heartbeatInterval'' (map_option PInt (hb_interval r))
     @ entry ''measReportConfig'' (map_option (\<lambda>ms. PList (map PStr ms)) (hb_meas r))"

definition rlq_dict :: "rlq_response \<Rightarrow> pydict" where
  "rlq_dict r = [code_entry (rl_code r)] @ entry ''cbsdId'' (rl_cbsd_id r) @ entry ''grantId'' (rl_grant_id r)"

definition drg_dict :: "drg_response \<Rightarrow> pydict" where
  "drg_dict r = [code_entry (dr_code r)] @ entry ''cbsdId'' (dr_cbsd_id r)"

subsection \<open>Procedures\<close>

datatype procedure =
  Registration | Spectrum_inquiry | Grant_request | Heartbeat | Relinquishment | Deregistration

fun procedure_name :: "procedure \<Rightarrow> string" where
  "procedure_name Registration = ''registration''"
| "procedure_name Spectrum_inquiry = ''spectrumInquiry''"
| "procedure_name Grant_request = ''grant''"
| "procedure_name Heartbeat = ''heartbeat''"
| "procedure_name Relinquishment = ''relinquishment''"
| "procedure_name Deregistration = ''deregistration''"

definition request_key :: "procedure \<Rightarrow> string" where
  "request_key p = procedure_name p @ ''Request''"

definition response_key :: "procedure \<Rightarrow> string" where
  "response_key p = procedure_name p @ ''Response''"

text \<open>
  What is not the program's: the external checks of the services, the schema library, and what
  is read from the disk to validate certificates.
\<close>

record sas_ext =
  sx_reg :: reg_ext
  sx_grant :: grant_ext
  sx_models :: "procedure \<Rightarrow> item_model"
  sx_trust :: trust_context
  sx_max_batch :: nat

text \<open>The service of each procedure on the items that passed validation.\<close>

definition dicts :: "('r \<Rightarrow> pydict) \<Rightarrow> 'r list res \<times> db \<Rightarrow> pydict list res \<times> db" where
  "dicts f r = (map_sum id (map f) (fst r), snd r)"

definition run_service ::
    "sas_ext \<Rightarrow> env \<Rightarrow> procedure \<Rightarrow> string option \<Rightarrow> db \<Rightarrow> pydict list \<Rightarrow> pydict list res \<times> db" where
  "run_service sx en p cert d items =
     (case p of
        Registration \<Rightarrow> dicts reg_dict (process_registration (sx_reg sx) en cert d items)
      | Spectrum_inquiry \<Rightarrow> dicts siq_dict (process_spectrum_inquiry cert d items, d)
      | Grant_request \<Rightarrow> dicts grant_dict (process_grant (sx_grant sx) en cert d items)
      | Heartbeat \<Rightarrow> dicts hb_dict (process_heartbeat en cert d items)
      | Relinquishment \<Rightarrow> dicts rlq_dict (process_relinquishment (env_now en) cert d items)
      | Deregistration \<Rightarrow> dicts drg_dict (process_deregistration (env_now en) cert d items))"

definition single_code_response :: "procedure \<Rightarrow> int \<Rightarrow> http_reply" where
  "single_code_response p code = Http 200 [(response_key p, PList [PDict [code_entry code]])]"

definition run_batch ::
    "sas_ext \<Rightarrow> env \<Rightarrow> procedure \<Rightarrow> peer \<Rightarrow> pydict \<Rightarrow> db \<Rightarrow> http_reply res \<times> db" where
  "run_batch sx en p peer body d =
     (let auth = authorize_cbsd_operation (sx_trust sx) (env_now en) peer in
      if \<not> au_allowed auth
      then (Inr (single_code_response p (case au_denial auth of
              None \<Rightarrow> 104 | Some c \<Rightarrow> if c = 0 then 104 else c)), d)
      else (case dget body (request_key p) of
          PNone \<Rightarrow> (Inr (single_code_response p MISSING_PARAM), d)
        | PList raws \<Rightarrow>
            (case parse_item_batch (sx_max_batch sx) (sx_models sx p) (PList raws) of
               Inl message \<Rightarrow>
                 (Inr (if sublist ''MaximumBatchSize'' message
                       then Http 400 [(''detail'', PStr message), (''responseCode'', PInt INVALID_VALUE)]
                       else single_code_response p INVALID_VALUE), d)
             | Inr parsed \<Rightarrow>
                 (case (if bp_items parsed = [] then (Inr [], d)
                        else run_service sx en p (au_hash auth) d (bp_items parsed)) of
                    (Inl e, d') \<Rightarrow> (Inl e, d')
                  | (Inr responses, d') \<Rightarrow>
                      (rbind (merge_schema_and_service_responses (bp_codes parsed) (bp_index parsed)
                          responses raws [''cbsdId'', ''grantId'']
                          (if p = Spectrum_inquiry then ''syntactic'' else ''always'')) (\<lambda>merged.
                        Inr (Http 200 [(response_key p, PList (map PDict merged))])), d')))
        | _ \<Rightarrow> (Inr (single_code_response p INVALID_VALUE), d)))"

subsection \<open>Every request keeps the contracts\<close>

lemma service_kept:
  assumes "kept en cert d0 d"
  shows "kept en cert d0 (snd (run_service sx en p cert d items))"
proof (cases p)
  case Registration
  have "snd (process_registration (sx_reg sx) en cert d items)
      = snd (run_items (register_item (sx_reg sx) en cert) d items)"
    by (simp add: process_registration_def split: prod.split sum.split)
  with Registration registrations.batch_inv [OF assms] show ?thesis
    by (simp add: run_service_def dicts_def)
next
  case Spectrum_inquiry
  with assms show ?thesis by (simp add: run_service_def dicts_def)
next
  case Grant_request
  have "snd (process_grant (sx_grant sx) en cert d items)
      = fst (snd (run_items (grant_item (sx_grant sx) en (admin_flag_set d FLAG_MEAS_REG) cert)
          (d, \<lambda>_. []) items))"
    by (simp add: process_grant_def case_prod_unfold)
  with Grant_request assms
    grants.batch_inv [of en cert d0 "(d, \<lambda>_. [])" "sx_grant sx" "admin_flag_set d FLAG_MEAS_REG" items]
  show ?thesis by (simp add: run_service_def dicts_def)
next
  case Heartbeat
  with heartbeats.batch_inv [OF assms] show ?thesis
    by (simp add: run_service_def dicts_def process_heartbeat_def)
next
  case Relinquishment
  with relinquishments.batch_inv [OF assms] show ?thesis
    by (simp add: run_service_def dicts_def process_relinquishment_def)
next
  case Deregistration
  with deregistrations.batch_inv [OF assms] show ?thesis
    by (simp add: run_service_def dicts_def process_deregistration_def)
qed

text \<open>The identity a request acts under.\<close>

abbreviation caller :: "sas_ext \<Rightarrow> env \<Rightarrow> peer \<Rightarrow> string option" where
  "caller sx en peer \<equiv> au_hash (authorize_cbsd_operation (sx_trust sx) (env_now en) peer)"

lemma run_batch_cases:
  obtains "snd (run_batch sx en p peer body d) = d"
  | items where "au_allowed (authorize_cbsd_operation (sx_trust sx) (env_now en) peer)"
      and "snd (run_batch sx en p peer body d) = snd (run_service sx en p (caller sx en peer) d items)"
proof (cases "au_allowed (authorize_cbsd_operation (sx_trust sx) (env_now en) peer)")
  case False
  then show ?thesis by (intro that(1)) (simp add: run_batch_def Let_def)
next
  case auth: True
  show ?thesis
  proof (cases "dget body (request_key p)")
    case (PList raws)
    show ?thesis
    proof (cases "parse_item_batch (sx_max_batch sx) (sx_models sx p) (PList raws)")
      case (Inl m)
      with auth PList show ?thesis by (intro that(1)) (simp add: run_batch_def Let_def)
    next
      case (Inr parsed)
      show ?thesis
      proof (cases "bp_items parsed = []")
        case True
        with auth PList Inr show ?thesis by (intro that(1)) (simp add: run_batch_def Let_def)
      next
        case False
        with auth PList Inr show ?thesis
          by (intro that(2) [of "bp_items parsed"])
            (simp_all add: run_batch_def Let_def split: prod.split sum.split)
      qed
    qed
  qed (use auth in \<open>auto intro!: that(1) simp: run_batch_def Let_def\<close>)
qed

lemma run_batch_kept:
  assumes "kept en (caller sx en peer) d0 d"
  shows "kept en (caller sx en peer) d0 (snd (run_batch sx en p peer body d))"
  by (cases rule: run_batch_cases [of sx en p peer body d]) (simp_all add: assms service_kept)

end
