(* ===== verification/Cpas.thy ===== *)
theory Cpas
  imports System "HOL-Library.AList" "HOL-Library.Sublist"
begin

text \<open>
  The daily coordination (services/cpas_service.py): merging the decisions of its constraint
  families (services/mcp_protection.py) and applying them to the grants. The evaluations that
  produce the decisions are in later theories.
\<close>

record cpas_decision =
  cd_pk :: "nat option"
  cd_grant_id :: string
  cd_cbsd_id :: string
  cd_reason :: string
  cd_action :: string
  cd_eirp :: "real option"
  cd_explanation :: string

subsection \<open>Merging\<close>

text \<open>The loop's dictionary by key, with the order of first insertion.\<close>

definition consider_decision :: "(nat \<times> cpas_decision) list \<Rightarrow> cpas_decision \<Rightarrow> (nat \<times> cpas_decision) list" where
  "consider_decision by_pk d =
     (case cd_pk d of
        None \<Rightarrow> by_pk
      | Some pk \<Rightarrow>
          (case map_of by_pk pk of
             None \<Rightarrow> by_pk @ [(pk, d)]
           | Some existing \<Rightarrow>
               if cd_action d = ''terminate''
                  \<or> (cd_action existing \<noteq> ''terminate'' \<and> cd_action d = ''reduce_power'')
               then map (\<lambda>(k, e). (k, if k = pk then d else e)) by_pk
               else by_pk))"

definition merge_constraint_decisions ::
    "cpas_decision list \<Rightarrow> cpas_decision list \<Rightarrow> cpas_decision list \<Rightarrow> cpas_decision list" where
  "merge_constraint_decisions peer iap dpa = map snd (foldl consider_decision [] (peer @ iap @ dpa))"

definition effective_eirp_by_grant_id :: "cpas_decision list \<Rightarrow> (string \<times> real) list" where
  "effective_eirp_by_grant_id ds =
     foldl (\<lambda>out d. case cd_eirp d of
              Some e \<Rightarrow> if cd_action d = ''reduce_power'' then AList.update (cd_grant_id d) e out else out
            | None \<Rightarrow> out) [] ds"

definition iap_terminated_grant_ids :: "cpas_decision list \<Rightarrow> string list" where
  "iap_terminated_grant_ids ds =
     map cd_grant_id (filter (\<lambda>d. cd_action d = ''terminate'' \<and> cd_reason d = ''iap'') ds)"

subsection \<open>Applying\<close>

definition cpas_payload :: "grant_row \<Rightarrow> cpas_decision \<Rightarrow> pydict" where
  "cpas_payload g d =
     [(''cbsdId'', PStr (gr_cbsd_id g)), (''grantId'', PStr (gr_id g)),
      (''reason'', PStr (cd_reason d)), (''explanation'', PStr (cd_explanation d))]"

text \<open>The row a decision is about, by identifier or else by key.\<close>

definition decision_row :: "db \<Rightarrow> cpas_decision \<Rightarrow> nat \<Rightarrow> grant_row option" where
  "decision_row d dec pk =
     (case lock_grant_row d (PStr (cd_grant_id dec)) (PStr (cd_cbsd_id dec)) of
        Some g \<Rightarrow> if gr_pk g = pk then Some g else List.find (\<lambda>g. gr_pk g = pk) (db_grants d)
      | None \<Rightarrow> List.find (\<lambda>g. gr_pk g = pk) (db_grants d))"

text \<open>The row after the decision, or \<open>None\<close> when it is skipped.\<close>

definition decided_row :: "time \<Rightarrow> cpas_decision \<Rightarrow> grant_row \<Rightarrow> grant_row option" where
  "decided_row now dec g =
     (if gr_term g \<or> prefix ''peer/'' (cd_grant_id dec) then None
      else (let action = (if cd_action dec = [] then ''terminate'' else cd_action dec) in
        if action = ''reduce_power''
        then (case cd_eirp dec of
            None \<Rightarrow> None
          | Some e \<Rightarrow>
              (case gr_eirp g of
                 Some m \<Rightarrow> if m \<le> e + 1 / 10 ^ 9 then None else Some (g\<lparr>gr_eirp := Some e\<rparr>)
               | None \<Rightarrow> Some (g\<lparr>gr_eirp := Some e\<rparr>)))
        else if action = ''suspend'' \<or> action = ''terminate''
        then (case apply_grant_event now g (if action = ''suspend'' then SUSPEND else TERMINATE)
                     (cpas_payload g dec) of
            (out, g') \<Rightarrow> if to_ok out then Some g' else None)
        else None))"

definition apply_decision :: "time \<Rightarrow> nat \<times> db \<Rightarrow> cpas_decision \<Rightarrow> nat \<times> db" where
  "apply_decision now st dec =
     (case st of (changed, d) \<Rightarrow>
        (case cd_pk dec of
           None \<Rightarrow> st
         | Some pk \<Rightarrow>
             (case decision_row d dec pk of
                None \<Rightarrow> st
              | Some g \<Rightarrow>
                  (case decided_row now dec g of
                     None \<Rightarrow> st | Some g' \<Rightarrow> (Suc changed, put_grant d g')))))"

definition apply_cpas_decisions :: "time \<Rightarrow> db \<Rightarrow> cpas_decision list \<Rightarrow> nat \<times> db" where
  "apply_cpas_decisions now d decisions = foldl (apply_decision now) (0, d) decisions"

subsection \<open>Decisions only restrict\<close>

definition restricts :: "grant_row \<Rightarrow> grant_row \<Rightarrow> bool" where
  "restricts g g' = (evolves g g' \<and> gr_expire g' = gr_expire g \<and> gr_channel g' = gr_channel g
     \<and> (\<forall>e. gr_eirp g = Some e \<longrightarrow> (\<exists>e'\<le>e. gr_eirp g' = Some e'))
     \<and> (gr_auth g' \<longrightarrow> gr_auth g) \<and> (gr_term g \<longrightarrow> g' = g))"

lemma restricts_refl: "restricts g g"
  by (simp add: restricts_def evolves_refl)

lemma restricts_trans: "restricts f g \<Longrightarrow> restricts g h \<Longrightarrow> restricts f h"
proof -
  assume a: "restricts f g" and b: "restricts g h"
  have "evolves f g" "evolves g h" using a b by (simp_all add: restricts_def)
  then have "evolves f h" by (rule evolves_trans)
  moreover have "\<exists>e'\<le>e. gr_eirp h = Some e'" if "gr_eirp f = Some e" for e
  proof -
    from a that obtain x where "x \<le> e" "gr_eirp g = Some x" by (auto simp: restricts_def)
    with b obtain y where "y \<le> x" "gr_eirp h = Some y" by (auto simp: restricts_def)
    with \<open>x \<le> e\<close> show ?thesis by (intro exI [of _ y]) simp
  qed
  ultimately show "restricts f h" using a b by (simp add: restricts_def)
qed

lemma evolves_eirp [evolve_intros]: "evolves g (g\<lparr>gr_eirp := e\<rparr>)"
  by (simp add: evolves_def grant_in_sync_cong [of "g\<lparr>gr_eirp := e\<rparr>" g])

lemma restricting_event:
  assumes "grant_in_sync g" and "\<not> gr_term g" and "ev \<in> {SUSPEND, TERMINATE}"
  shows "restricts g (snd (apply_grant_event now g ev p))"
proof -
  have frame: "gr_expire (apply_grant_state g s) = gr_expire g"
    "gr_channel (apply_grant_state g s) = gr_channel g" "gr_eirp (apply_grant_state g s) = gr_eirp g" for s
    by (simp_all add: apply_grant_state_def Let_def)
  have "gr_auth (apply_grant_state g (grant_target ev)) \<longrightarrow> gr_auth g"
    using assms(3) by (auto simp: apply_grant_state_def)
  then show ?thesis
    using evolves_event [OF assms(1), of now ev p] assms(2)
    by (auto simp: restricts_def apply_grant_event_row frame)
qed

lemma decided_row_restricts:
  assumes "decided_row now dec g = Some g'" and "grant_in_sync g"
  shows "restricts g g'"
proof -
  from assms(1) have live: "\<not> gr_term g" by (auto simp: decided_row_def split: if_splits)
  have eirp: "restricts g (g\<lparr>gr_eirp := Some e\<rparr>)" if "\<forall>m. gr_eirp g = Some m \<longrightarrow> e \<le> m" for e
    using that live evolves_eirp by (auto simp: restricts_def)
  have low: "e \<le> m" if "\<not> m \<le> e + 1 / 10 ^ 9" for e m :: real
  proof -
    have "(0::real) \<le> 1 / 10 ^ 9" by simp
    with that show ?thesis by linarith
  qed
  have ev: "restricts g (snd (apply_grant_event now g ev p))" if "ev \<in> {SUSPEND, TERMINATE}" for ev p
    by (rule restricting_event [OF assms(2) live that])
  from assms(1) eirp low ev show ?thesis
    by (fastforce simp: decided_row_def Let_def case_prod_unfold split: if_splits option.splits)
qed

lemma decided_row_expiry:
  assumes "decided_row now dec g = Some g'" and "expiry_ok now g"
  shows "expiry_ok now g'"
proof -
  have "expiry_ok now (snd (apply_grant_event now g ev p))" if "ev \<in> {SUSPEND, TERMINATE}" for ev p
    by (rule expiry_ok_event [OF assms(2)]) (use that in auto)
  moreover have "expiry_ok now (g\<lparr>gr_eirp := e\<rparr>)" for e
    using assms(2) expiry_ok_frame [of "g\<lparr>gr_eirp := e\<rparr>" g now] by simp
  ultimately show ?thesis
    using assms(1)
    by (auto simp: decided_row_def Let_def case_prod_unfold split: if_splits option.splits)
qed

lemma decision_row_mem: "decision_row d dec pk = Some g \<Longrightarrow> g \<in> set (db_grants d) \<and> gr_pk g = pk"
  by (auto simp: decision_row_def dest!: lock_grant_rowD split: option.splits if_splits)
    (auto simp: find_Some_iff in_set_conv_nth)

text \<open>A decision is skipped or writes one restricted row.\<close>

lemma apply_decision_cases:
  obtains "apply_decision now (n, d) dec = (n, d)"
  | g g' where "g \<in> set (db_grants d)" and "cd_pk dec = Some (gr_pk g)"
      and "decided_row now dec g = Some g'"
      and "apply_decision now (n, d) dec = (Suc n, put_grant d g')"
proof (cases "\<exists>pk g g'. cd_pk dec = Some pk \<and> decision_row d dec pk = Some g
    \<and> decided_row now dec g = Some g'")
  case True
  then obtain pk g g' where h: "cd_pk dec = Some pk" "decision_row d dec pk = Some g"
    "decided_row now dec g = Some g'" by blast
  with decision_row_mem [OF h(2)] show ?thesis
    by (intro that(2) [of g g']) (simp_all add: apply_decision_def)
next
  case False
  then show ?thesis by (intro that(1)) (auto simp: apply_decision_def split: option.split)
qed

lemma apply_decision_inv:
  assumes "sas_inv uuid (snd st)"
  shows "sas_inv uuid (snd (apply_decision now st dec))"
proof (cases rule: apply_decision_cases [of now "fst st" "snd st" dec])
  case 1
  with assms show ?thesis by simp
next
  case (2 g g')
  have "evolves g g'"
    using decided_row_restricts [OF 2(3)] grants_wfD(1) [OF sas_invD(1) [OF assms] 2(1)]
    by (simp add: restricts_def)
  from inv_put_grant [OF assms 2(1) this] 2(4) show ?thesis by simp
qed

lemma apply_decision_expired:
  assumes "expired_past now (snd st)"
  shows "expired_past now (snd (apply_decision now st dec))"
proof (cases rule: apply_decision_cases [of now "fst st" "snd st" dec])
  case 1
  with assms show ?thesis by simp
next
  case (2 g g')
  have "expiry_ok now g" using assms 2(1) by (simp add: expired_past_rows)
  from expired_past_put [OF assms decided_row_expiry [OF 2(3) this]] 2(4) show ?thesis by simp
qed

lemma apply_cpas_kept:
  assumes "sas_inv uuid d" and "expired_past now d"
  shows "sas_inv uuid (snd (apply_cpas_decisions now d ds))
    \<and> expired_past now (snd (apply_cpas_decisions now d ds))"
proof -
  have "sas_inv uuid (snd st) \<and> expired_past now (snd st) \<Longrightarrow>
      sas_inv uuid (snd (foldl (apply_decision now) st ds))
      \<and> expired_past now (snd (foldl (apply_decision now) st ds))" for st
    by (induction ds arbitrary: st) (simp_all add: apply_decision_inv apply_decision_expired)
  with assms show ?thesis by (simp add: apply_cpas_decisions_def)
qed
subsection \<open>Properties\<close>

text \<open>What the accumulated decisions say about the ones seen so far.\<close>

definition merged_from :: "cpas_decision list \<Rightarrow> (nat \<times> cpas_decision) list \<Rightarrow> bool" where
  "merged_from ds m = (distinct (map fst m)
     \<and> (\<forall>(pk, d)\<in>set m. cd_pk d = Some pk \<and> d \<in> set ds)
     \<and> (\<forall>d\<in>set ds. \<forall>pk. cd_pk d = Some pk \<longrightarrow> (\<exists>e. (pk, e) \<in> set m
           \<and> (cd_action d = ''terminate'' \<longrightarrow> cd_action e = ''terminate''))))"

text \<open>A decision that is already represented leaves the dictionary as it is.\<close>

lemma merged_kept:
  assumes "merged_from ds m"
    and "\<And>pk. cd_pk d = Some pk \<Longrightarrow> \<exists>e. (pk, e) \<in> set m
           \<and> (cd_action d = ''terminate'' \<longrightarrow> cd_action e = ''terminate'')"
  shows "merged_from (ds @ [d]) m"
proof -
  have "\<forall>(pk, x)\<in>set m. cd_pk x = Some pk \<and> x \<in> set (ds @ [d])"
    using assms(1) by (auto simp: merged_from_def)
  moreover have "\<exists>e. (pk, e) \<in> set m \<and> (cd_action c = ''terminate'' \<longrightarrow> cd_action e = ''terminate'')"
    if "c \<in> set (ds @ [d])" "cd_pk c = Some pk" for c pk
  proof (cases "c \<in> set ds")
    case True
    with assms(1) that(2) show ?thesis unfolding merged_from_def by blast
  next
    case False
    with that assms(2) show ?thesis by simp
  qed
  ultimately show ?thesis using assms(1) by (simp add: merged_from_def)
qed

lemma merged_step:
  assumes "merged_from ds m"
  shows "merged_from (ds @ [d]) (consider_decision m d)"
proof (cases "cd_pk d")
  case None
  with merged_kept [OF assms, of d] show ?thesis by (simp add: consider_decision_def)
next
  case (Some pk)
  from assms have dist: "distinct (map fst m)" by (simp add: merged_from_def)
  show ?thesis
  proof (cases "map_of m pk")
    case None
    then have "pk \<notin> fst ` set m" by (simp add: map_of_eq_None_iff)
    with assms Some None show ?thesis
      by (fastforce simp: merged_from_def consider_decision_def)
  next
    case old: (Some e)
    then have mem: "(pk, e) \<in> set m" by (rule map_of_SomeD)
    have only: "f = e" if "(pk, f) \<in> set m" for f
      using eq_key_imp_eq_value [OF dist that mem] .
    let ?new = "cd_action d = ''terminate'' \<or> (cd_action e \<noteq> ''terminate'' \<and> cd_action d = ''reduce_power'')"
    show ?thesis
    proof (cases ?new)
      case False
      then have "cd_action d = ''terminate'' \<longrightarrow> cd_action e = ''terminate''" by simp
      with Some mem have "merged_from (ds @ [d]) m"
        by (intro merged_kept [OF assms]) auto
      with False Some old show ?thesis
        unfolding consider_decision_def by (simp only: option.case if_False)
    next
      case True
      let ?m = "map (\<lambda>(k, e). (k, if k = pk then d else e)) m"
      have keys: "map fst ?m = map fst m" by (simp add: case_prod_unfold comp_def)
      have d: "distinct (map fst ?m)" unfolding keys by (rule dist)
      have sound: "\<forall>(k, x)\<in>set ?m. cd_pk x = Some k \<and> x \<in> set (ds @ [d])"
        using assms Some by (fastforce simp: merged_from_def)
      have "\<exists>x. (k, x) \<in> set ?m \<and> (cd_action c = ''terminate'' \<longrightarrow> cd_action x = ''terminate'')"
        if c: "c \<in> set (ds @ [d])" "cd_pk c = Some k" for c k
      proof (cases "k = pk")
        case k: True
        have "(k, d) \<in> set ?m" using mem k by (auto simp: image_iff intro!: bexI [of _ "(pk, e)"])
        moreover have "cd_action d = ''terminate''" if "cd_action c = ''terminate''"
        proof (cases "c = d")
          case False
          with c have "c \<in> set ds" by simp
          with assms c(2) that k only have "cd_action e = ''terminate''"
            unfolding merged_from_def by blast
          with True show ?thesis by simp
        qed (use that in simp)
        ultimately show ?thesis by blast
      next
        case k: False
        with c Some have "c \<in> set ds" by auto
        with assms c(2) obtain x where "(k, x) \<in> set m"
          "cd_action c = ''terminate'' \<longrightarrow> cd_action x = ''terminate''"
          unfolding merged_from_def by blast
        moreover from this(1) k have "(k, x) \<in> set ?m" by (auto simp: image_iff intro!: bexI [of _ "(k, x)"])
        ultimately show ?thesis by blast
      qed
      with d sound Some old True show ?thesis
        by (simp add: merged_from_def consider_decision_def)
    qed
  qed
qed

lemma merged_all: "merged_from ds m \<Longrightarrow> merged_from (ds @ es) (foldl consider_decision m es)"
proof (induction es arbitrary: ds m)
  case Nil
  then show ?case by simp
next
  case (Cons e es)
  from Cons.IH [OF merged_step [OF Cons.prems, of e]] show ?case by simp
qed

text \<open>
  The decisions of the three constraint families are merged into one decision per local
  grant, each of them a decision that was made; no grant anyone decided about is dropped and a
  termination by any family is never weakened by another.
\<close>

lemma merged_families:
  "let all = peer @ iap @ dpa; merged = merge_constraint_decisions peer iap dpa in
     distinct (map cd_pk merged) \<and> set merged \<subseteq> set all
     \<and> (\<forall>d\<in>set all. cd_pk d = None \<or> (\<exists>e\<in>set merged. cd_pk e = cd_pk d
          \<and> (cd_action e = ''terminate'' \<or> cd_action d \<noteq> ''terminate'')))"
proof -
  let ?m = "foldl consider_decision [] (peer @ iap @ dpa)"
  have m: "merged_from (peer @ iap @ dpa) ?m"
    using merged_all [of "[]" "[]" "peer @ iap @ dpa"] by (simp add: merged_from_def)
  have keys: "map cd_pk (map snd ?m) = map Some (map fst ?m)"
    using m by (auto simp: merged_from_def)
  moreover have "distinct (map Some (map fst ?m))"
    using m by (subst distinct_map) (simp only: merged_from_def inj_Some simp_thms)
  ultimately have "distinct (map cd_pk (map snd ?m))" by (simp only:)
  moreover have "set (map snd ?m) \<subseteq> set (peer @ iap @ dpa)"
    using m by (fastforce simp: merged_from_def)
  moreover have "cd_pk d = None \<or> (\<exists>e\<in>set (map snd ?m). cd_pk e = cd_pk d
      \<and> (cd_action e = ''terminate'' \<or> cd_action d \<noteq> ''terminate''))"
    if d: "d \<in> set (peer @ iap @ dpa)" for d
  proof (cases "cd_pk d")
    case (Some pk)
    with m d obtain e where e: "(pk, e) \<in> set ?m"
      "cd_action d = ''terminate'' \<longrightarrow> cd_action e = ''terminate''"
      unfolding merged_from_def by blast
    with m have "cd_pk e = Some pk" by (auto simp: merged_from_def)
    with e Some show ?thesis by force
  qed simp
  ultimately show ?thesis unfolding Let_def merge_constraint_decisions_def by blast
qed

text \<open>A power reduction of two grants, one of which a peer conflict terminates.\<close>

abbreviation sample_decision :: "nat \<Rightarrow> string \<Rightarrow> cpas_decision" where
  "sample_decision pk action \<equiv> \<lparr>cd_pk = Some pk, cd_grant_id = ''grant/1'', cd_cbsd_id = ''F/S'',
     cd_reason = ''iap'', cd_action = action, cd_eirp = Some 5, cd_explanation = ''''\<rparr>"

lemma applied_restricts:
  assumes "db_wf d"
  shows "list_all2 restricts (db_grants d) (db_grants (snd (apply_cpas_decisions now d decisions)))
     \<and> (snd (apply_cpas_decisions now d decisions))\<lparr>db_grants := []\<rparr> = d\<lparr>db_grants := []\<rparr>"
proof -
  have step: "list_all2 restricts (db_grants (snd st)) (db_grants (snd (apply_decision now st dec)))
      \<and> (snd (apply_decision now st dec))\<lparr>db_grants := []\<rparr> = (snd st)\<lparr>db_grants := []\<rparr>
      \<and> db_wf (snd (apply_decision now st dec))"
    if wf: "db_wf (snd st)" for st :: "nat \<times> db" and dec
  proof (cases rule: apply_decision_cases [of now "fst st" "snd st" dec])
    case 1
    with wf show ?thesis by (simp add: list_all2_refl restricts_refl)
  next
    case (2 g g')
    have r: "restricts g g'"
      by (rule decided_row_restricts [OF 2(3) grants_wfD(1) [OF wf 2(1)]])
    then have pk: "gr_pk g' = gr_pk g" and ev: "evolves g g'" by (simp_all add: restricts_def evolves_def)
    have same: "x = g" if "x \<in> set (db_grants (snd st))" "gr_pk x = gr_pk g'" for x
      using grant_table.unique_key [OF locked_grants(3) [OF wf] that(1) 2(1)] that(2) pk by simp
    have "list_all2 restricts xs (map (\<lambda>x. if gr_pk x = gr_pk g' then g' else x) xs)"
      if "set xs \<subseteq> set (db_grants (snd st))" for xs
      using that same r by (induction xs) (auto simp: restricts_refl)
    then show ?thesis
      using 2(4) wf_put_grant [OF wf 2(1) ev] by (simp add: put_grant_def)
  qed
  have "db_wf (snd st) \<Longrightarrow>
      list_all2 restricts (db_grants (snd st)) (db_grants (snd (foldl (apply_decision now) st decisions)))
      \<and> (snd (foldl (apply_decision now) st decisions))\<lparr>db_grants := []\<rparr> = (snd st)\<lparr>db_grants := []\<rparr>"
    for st :: "nat \<times> db"
  proof (induction decisions arbitrary: st)
    case Nil
    then show ?case by (simp add: list_all2_refl restricts_refl)
  next
    case (Cons dec ds)
    note s = step [OF Cons.prems, of dec]
    with Cons.IH [of "apply_decision now st dec"] show ?case
      by (auto intro: list_all2_trans [of restricts restricts restricts] restricts_trans)
  qed
  from this [of "(0, d)"] assms show ?thesis by (simp add: apply_cpas_decisions_def)
qed

text \<open>
  C25. Applying the decisions of a coordination run, whatever they are, only restricts: every
  grant row is afterwards the same grant on the same band until the same expiry, with at most
  the power it had, never newly authorised and unchanged if it was terminated; no row is added
  or removed and nothing but grants is touched.
\<close>

theorem cpas_only_restricts:
  assumes "db_wf d"
  shows "list_all2 restricts (db_grants d) (db_grants (snd (apply_cpas_decisions now d decisions)))
     \<and> (snd (apply_cpas_decisions now d decisions))\<lparr>db_grants := []\<rparr> = d\<lparr>db_grants := []\<rparr>"
  using assms by (rule applied_restricts)

text \<open>A termination and a power reduction applied to the example database.\<close>

theorem cpas_only_restricts_witness:
  "list_all2 restricts (db_grants example_db) (db_grants (snd (apply_cpas_decisions 0 example_db
      [sample_decision 0 ''reduce_power'', sample_decision 0 ''terminate''])))"
  by (rule conjunct1 [OF cpas_only_restricts]) (rule example_db_wf)

end
