(* ===== verification/Reachable.thy ===== *)
theory Reachable
  imports CbsdRoutes Cpas
begin

text \<open>
  The system as a step relation over its clock and its database: a step serves one request to
  the CBSD interface, applies the decisions of a coordination run, lets an operation that does
  not write registrations or grants change the other tables, or lets time pass. Reachability
  starts from the empty database.
\<close>

record sas_state =
  ss_now :: time
  ss_db :: db

text \<open>What an operation on the other tables leaves alone.\<close>

definition other_tables :: "db \<Rightarrow> db \<Rightarrow> bool" where
  "other_tables d d' = (db_cbsds d' = db_cbsds d \<and> db_grants d' = db_grants d
     \<and> db_next_cbsd d' = db_next_cbsd d \<and> db_next_grant d' = db_next_grant d)"

inductive sas_step :: "sas_ext \<Rightarrow> env \<Rightarrow> sas_state \<Rightarrow> sas_state \<Rightarrow> bool" for sx en where
  request: "sas_step sx en \<lparr>ss_now = now, ss_db = d\<rparr>
     \<lparr>ss_now = now, ss_db = snd (run_batch sx (en\<lparr>env_now := now\<rparr>) p peer body d)\<rparr>"
| coordination: "sas_step sx en \<lparr>ss_now = now, ss_db = d\<rparr>
     \<lparr>ss_now = now, ss_db = snd (apply_cpas_decisions now d decisions)\<rparr>"
| administration: "other_tables d d' \<Longrightarrow>
     sas_step sx en \<lparr>ss_now = now, ss_db = d\<rparr> \<lparr>ss_now = now, ss_db = d'\<rparr>"
| tick: "now \<le> later \<Longrightarrow> sas_step sx en \<lparr>ss_now = now, ss_db = d\<rparr> \<lparr>ss_now = later, ss_db = d\<rparr>"

inductive reachable :: "sas_ext \<Rightarrow> env \<Rightarrow> sas_state \<Rightarrow> bool" for sx en where
  start: "reachable sx en \<lparr>ss_now = now, ss_db = empty_db\<rparr>"
| step: "reachable sx en s \<Longrightarrow> sas_step sx en s s' \<Longrightarrow> reachable sx en s'"

inductive_cases sas_stepE: "sas_step sx en s s'"

definition state_ok :: "env \<Rightarrow> sas_state \<Rightarrow> bool" where
  "state_ok en s = (sas_inv (env_uuid en) (ss_db s) \<and> expired_past (ss_now s) (ss_db s))"

lemma step_ok:
  assumes "sas_step sx en s s'" and "state_ok en s"
  shows "state_ok en s'"
  using assms(1)
proof cases
  case (request now d p peer body)
  let ?en = "en\<lparr>env_now := now\<rparr>"
  have "kept ?en (caller sx ?en peer) d d"
    using assms(2) request(1) by (intro kept_start) (simp_all add: state_ok_def)
  from run_batch_kept [OF this, of p body] request show ?thesis by (simp add: state_ok_def kept_def)
next
  case (coordination now d decisions)
  with assms(2) apply_cpas_kept [of "env_uuid en" d now decisions] show ?thesis
    by (simp add: state_ok_def)
next
  case (administration d d' now)
  then have "sas_inv (env_uuid en) d' = sas_inv (env_uuid en) d"
    by (intro inv_frame) (simp_all add: other_tables_def)
  with administration assms(2) show ?thesis
    by (simp add: state_ok_def other_tables_def expired_past_def)
next
  case (tick now later d)
  with assms(2) expired_past_later [of now d later] show ?thesis by (simp add: state_ok_def)
qed

lemma reachable_ok: "reachable sx en s \<Longrightarrow> state_ok en s"
proof (induction rule: reachable.induct)
  case (start now)
  then show ?case
    by (simp add: state_ok_def sas_inv_def empty_db_wf empty_db_issued)
      (simp add: expired_past_def empty_db_def)
next
  case (step s s')
  then show ?case by (blast intro: step_ok)
qed

end
