(* ===== verification/Vincenty.thy ===== *)
theory Vincenty
  imports Geometry
begin

text \<open>
  The inverse distance on the ellipsoid (\<open>geodesic_distance_km\<close> of services/terrain/vincenty.py).
  Its iteration need not converge for points that face each other across the globe, so the loop is
  a partial function: \<open>None\<close> means that it never ends.
\<close>

definition atan2 :: "real \<Rightarrow> real \<Rightarrow> real" where
  "atan2 y x =
     (if 0 < x then arctan (y / x)
      else if x < 0 then (if 0 \<le> y then arctan (y / x) + pi else arctan (y / x) - pi)
      else if 0 < y then pi / 2 else if y < 0 then - (pi / 2) else 0)"

definition WGS84_A :: real where "WGS84_A = 63781370 / 10000"
definition WGS84_F :: real where "WGS84_F = 1 / (298257223563 / 10 ^ 9)"
definition WGS84_B :: real where "WGS84_B = (1 - WGS84_F) * WGS84_A"

text \<open>The variables the loop leaves behind.\<close>

record vincenty_vars =
  vv_lambda :: real
  vv_cos_sq_alpha :: real
  vv_cos_2_sigma_m :: real
  vv_sin_sigma :: real
  vv_cos_sigma :: real
  vv_sigma :: real

text \<open>One pass of the loop body; \<open>None\<close> is the early return of distance 0.\<close>

definition vincenty_step :: "real \<Rightarrow> real \<Rightarrow> real \<Rightarrow> real \<Rightarrow> vincenty_vars option" where
  "vincenty_step u1 u2 l_diff lmbda =
     (let sin_sigma = sqrt ((cos u2 * sin lmbda) ^ 2
                        + (cos u1 * sin u2 - sin u1 * cos u2 * cos lmbda) ^ 2);
          cos_sigma = sin u1 * sin u2 + cos u1 * cos u2 * cos lmbda;
          sigma = atan2 sin_sigma cos_sigma in
      if sin_sigma = 0 then None
      else (let sin_alpha = cos u1 * cos u2 * sin lmbda / sin_sigma;
                cos_sq_alpha = 1 - sin_alpha ^ 2;
                cos_2_sigma_m = (if cos_sq_alpha = 0 then 0
                                 else cos_sigma - 2 * sin u1 * sin u2 / cos_sq_alpha);
                c = (WGS84_F / 16) * cos_sq_alpha * (4 + WGS84_F * (4 - 3 * cos_sq_alpha)) in
            Some \<lparr>vv_lambda = l_diff + (1 - c) * WGS84_F * sin_alpha *
                    (sigma + c * sin_sigma * (cos_2_sigma_m + c * cos_sigma * (- 1 + 2 * cos_2_sigma_m ^ 2))),
                  vv_cos_sq_alpha = cos_sq_alpha, vv_cos_2_sigma_m = cos_2_sigma_m,
                  vv_sin_sigma = sin_sigma, vv_cos_sigma = cos_sigma, vv_sigma = sigma\<rparr>))"

partial_function (option) vincenty_loop ::
    "real \<Rightarrow> real \<Rightarrow> real \<Rightarrow> real \<Rightarrow> real \<Rightarrow> vincenty_vars \<Rightarrow> vincenty_vars option option" where
  "vincenty_loop accuracy u1 u2 l_diff prev v =
     (if \<bar>vv_lambda v - prev\<bar> > accuracy then
        (case vincenty_step u1 u2 l_diff (vv_lambda v) of
           None \<Rightarrow> Some None
         | Some v' \<Rightarrow> vincenty_loop accuracy u1 u2 l_diff (vv_lambda v) v')
      else Some (Some v))"

definition ellipsoid_distance :: "vincenty_vars \<Rightarrow> real" where
  "ellipsoid_distance v =
     (let usq = vv_cos_sq_alpha v * (WGS84_A ^ 2 - WGS84_B ^ 2) / WGS84_B ^ 2;
          a_coeff = 1 + usq / 16384 * (4096 + usq * (- 768 + usq * (320 - 175 * usq)));
          b_coeff = usq / 1024 * (256 + usq * (- 128 + usq * (74 - 47 * usq)));
          s = vv_sin_sigma v; m = vv_cos_2_sigma_m v;
          d_sigma = b_coeff * s *
            (m + (1 / 4) * b_coeff *
              (vv_cos_sigma v * (- 1 + 2 * m ^ 2)
               - (1 / 6) * b_coeff * m * (- 3 + 4 * s ^ 2) * (- 3 + 4 * m ^ 2))) in
      WGS84_B * a_coeff * (vv_sigma v - d_sigma))"

definition geodesic_distance_km :: "real \<Rightarrow> real \<Rightarrow> real \<Rightarrow> real \<Rightarrow> real res" where
  "geodesic_distance_km lat1 lon1 lat2 lon2 =
     (if lat1 = lat2 \<and> lon1 = lon2 then Inr 0
      else (let u1 = arctan ((1 - WGS84_F) * tan (radians lat1));
                u2 = arctan ((1 - WGS84_F) * tan (radians lat2));
                l_diff = radians lon2 - radians lon1 in
            case vincenty_loop (1 / 10 ^ 12) u1 u2 l_diff (9 * 10 ^ 40)
                   \<lparr>vv_lambda = l_diff, vv_cos_sq_alpha = 0, vv_cos_2_sigma_m = 0, vv_sin_sigma = 0,
                    vv_cos_sigma = 0, vv_sigma = 0\<rparr> of
              None \<Rightarrow> Inl NoReturn
            | Some None \<Rightarrow> Inr 0
            | Some (Some v) \<Rightarrow> Inr (ellipsoid_distance v)))"

text \<open>What the loop leaves behind when it ends: a pass that moved the longitude less than asked.\<close>

lemma vincenty_loop_ends:
  "vincenty_loop accuracy u1 u2 l_diff prev v = Some r \<Longrightarrow>
     (\<forall>w. r = Some w \<longrightarrow> w = v \<and> \<bar>vv_lambda v - prev\<bar> \<le> accuracy
        \<or> (\<exists>lmbda. vincenty_step u1 u2 l_diff lmbda = Some w \<and> \<bar>vv_lambda w - lmbda\<bar> \<le> accuracy))"
proof (rule vincenty_loop.raw_induct [where P = "\<lambda>accuracy u1 u2 l_diff prev v r.
      \<forall>w. r = Some w \<longrightarrow> w = v \<and> \<bar>vv_lambda v - prev\<bar> \<le> accuracy
        \<or> (\<exists>lmbda. vincenty_step u1 u2 l_diff lmbda = Some w \<and> \<bar>vv_lambda w - lmbda\<bar> \<le> accuracy)"])
  fix loop accuracy u1 u2 l_diff prev v r
  assume IH: "\<And>accuracy u1 u2 l_diff prev v r. loop accuracy u1 u2 l_diff prev v = Some r \<Longrightarrow>
      \<forall>w. r = Some w \<longrightarrow> w = v \<and> \<bar>vv_lambda v - prev\<bar> \<le> accuracy
        \<or> (\<exists>lmbda. vincenty_step u1 u2 l_diff lmbda = Some w \<and> \<bar>vv_lambda w - lmbda\<bar> \<le> accuracy)"
    and body: "(if \<bar>vv_lambda v - prev\<bar> > accuracy then
        (case vincenty_step u1 u2 l_diff (vv_lambda v) of
           None \<Rightarrow> Some None
         | Some v' \<Rightarrow> loop accuracy u1 u2 l_diff (vv_lambda v) v')
      else Some (Some v)) = Some r"
  show "\<forall>w. r = Some w \<longrightarrow> w = v \<and> \<bar>vv_lambda v - prev\<bar> \<le> accuracy
        \<or> (\<exists>lmbda. vincenty_step u1 u2 l_diff lmbda = Some w \<and> \<bar>vv_lambda w - lmbda\<bar> \<le> accuracy)"
  proof (cases "\<bar>vv_lambda v - prev\<bar> > accuracy")
    case False
    with body show ?thesis by auto
  next
    case True
    show ?thesis
    proof (cases "vincenty_step u1 u2 l_diff (vv_lambda v)")
      case None
      with True body show ?thesis by auto
    next
      case (Some v')
      with True body have "loop accuracy u1 u2 l_diff (vv_lambda v) v' = Some r" by simp
      from IH [OF this] Some show ?thesis by blast
    qed
  qed
qed

text \<open>
  On the same meridian of the globe the points are told apart by their latitudes only, and the loop
  ends after one pass.
\<close>

lemma same_longitude_step:
  assumes "vincenty_step u1 u2 0 0 = Some w"
  shows "vv_lambda w = 0"
  using assms by (auto simp: vincenty_step_def Let_def split: if_splits)

lemma same_longitude_returns: "\<exists>x. geodesic_distance_km lat1 lon lat2 lon = Inr x"
proof -
  let ?v = "\<lparr>vv_lambda = 0, vv_cos_sq_alpha = 0, vv_cos_2_sigma_m = 0, vv_sin_sigma = 0,
    vv_cos_sigma = 0, vv_sigma = 0\<rparr> :: vincenty_vars"
  have ends: "\<exists>r. vincenty_loop (1 / 10 ^ 12) u1 u2 0 (9 * 10 ^ 40) ?v = Some r" for u1 u2
  proof (cases "vincenty_step u1 u2 0 0")
    case None
    then show ?thesis by (subst vincenty_loop.simps) simp
  next
    case (Some w)
    with same_longitude_step [OF Some] show ?thesis
      by (subst vincenty_loop.simps, simp, subst vincenty_loop.simps, simp)
  qed
  obtain r where "vincenty_loop (1 / 10 ^ 12) (arctan ((1 - WGS84_F) * tan (radians lat1)))
      (arctan ((1 - WGS84_F) * tan (radians lat2))) 0 (9 * 10 ^ 40) ?v = Some r"
    using ends by blast
  then show ?thesis by (cases r) (simp_all add: geodesic_distance_km_def Let_def)
qed

end
