(* ===== verification/Iap.thy ===== *)
theory Iap
  imports Geometry "HOL-Library.AList" "HOL-Library.Char_ord" "HOL-Library.List_Lexorder"
begin

text \<open>
  The iterative allocation process (services/iap/models.py, aggregate.py and engine.py): the
  5 MHz channels of a protected entity, the neighbourhood of a protection point, the fair-share
  rounds that lower the EIRP of the interfering grants and the merge of the decisions of all
  points. The propagation model behind \<open>coupling\<close> is an argument; a Python list that the engine
  only reads and writes at the positions of the neighbours or of the channels is a function of the
  position. The explanation texts are left out.
\<close>

subsection \<open>Data\<close>

datatype iap_action = Keep | Reduce_Power | Suspend_Grant | Terminate_Grant

datatype entity_kind = ESC | FSS_COCHANNEL | FSS_BLOCKING | PPA | GWPZ | GENERIC

record frequency_channel =
  ch_low :: int
  ch_high :: int

record protection_point =
  pp_id :: string
  pp_lat :: real
  pp_lon :: real
  pp_low :: int
  pp_high :: int
  pp_threshold_dbm :: real
  pp_kind :: entity_kind
  pp_margin_db :: real
  pp_neighborhood_km :: "real option"
  pp_source :: "string option"
  pp_rx_height_m :: "real option"
  pp_rx_azimuth :: "real option"
  pp_rx_gains :: "real list option"

record grant_rf =
  rf_grant_id :: string
  rf_cbsd_id :: string
  rf_lat :: real
  rf_lon :: real
  rf_height_m :: real
  rf_height_is_agl :: bool
  rf_indoor :: bool
  rf_low :: int
  rf_high :: int
  rf_max_eirp :: real
  rf_managing :: bool
  rf_pk :: "nat option"
  rf_source :: "string option"
  rf_category :: "string option"
  rf_azimuth :: "real option"
  rf_beamwidth :: "real option"
  rf_gain :: "real option"

record channel_aggregate =
  ca_channel :: frequency_channel
  ca_aggregate_mw :: real
  ca_managing_mw :: real
  ca_threshold_mw :: real
  ca_fairshare_mw :: real
  ca_within :: bool

record iap_decision =
  id_grant_id :: string
  id_cbsd_id :: string
  id_pk :: "nat option"
  id_action :: iap_action
  id_authorized :: real
  id_initial :: real

record iap_point_result =
  ir_point :: protection_point
  ir_channels :: "frequency_channel list"
  ir_aggregates :: "channel_aggregate list"
  ir_decisions :: "iap_decision list"

record iap_config =
  cf_floor :: real
  cf_step :: real
  cf_max_iterations :: nat

type_synonym coupling = "grant_rf \<Rightarrow> protection_point \<Rightarrow> frequency_channel \<Rightarrow> real \<Rightarrow> real"

definition DEFAULT_EIRP_FLOOR_DBM_MHZ :: real where "DEFAULT_EIRP_FLOOR_DBM_MHZ = - 137"
definition EIRP_STEP_DB :: real where "EIRP_STEP_DB = 1"
definition IAPBW_HZ :: int where "IAPBW_HZ = 5000000"
definition ESC_CAT_A_HIGH_FREQ_HZ :: int where "ESC_CAT_A_HIGH_FREQ_HZ = 3660000000"

definition default_iap_config :: iap_config where
  "default_iap_config = \<lparr>cf_floor = DEFAULT_EIRP_FLOOR_DBM_MHZ, cf_step = EIRP_STEP_DB,
     cf_max_iterations = 10000\<rparr>"

definition dbm_to_mw :: "real \<Rightarrow> real" where
  "dbm_to_mw dbm = 10 powr (dbm / 10)"

definition apply_pre_iap_margin_db :: "real \<Rightarrow> real \<Rightarrow> real" where
  "apply_pre_iap_margin_db threshold_dbm margin_db = threshold_dbm - margin_db"

subsection \<open>Channels\<close>

text \<open>
  The cursor's loop of \<open>overlapping_iap_channels\<close>; a channel width that is not positive returns
  before it.
\<close>

function (sequential) channels_from :: "int \<Rightarrow> int \<Rightarrow> int \<Rightarrow> int \<Rightarrow> frequency_channel list" where
  "channels_from low high width cursor =
     (if cursor < high \<and> 0 < width
      then (if low < cursor + width then [\<lparr>ch_low = cursor, ch_high = cursor + width\<rparr>] else [])
           @ (if high + width < cursor + width then [] else channels_from low high width (cursor + width))
      else [])"
  by pat_completeness auto
termination
  by (relation "measure (\<lambda>(low, high, width, cursor). nat (high - cursor))") auto

declare channels_from.simps [simp del]

definition overlapping_iap_channels :: "int \<Rightarrow> int \<Rightarrow> int \<Rightarrow> int \<Rightarrow> frequency_channel list" where
  "overlapping_iap_channels origin width low high =
     (if high \<le> low \<or> width \<le> 0 then []
      else channels_from low high width (origin + ((max low origin - origin) div width) * width))"

definition category_upper :: "string option \<Rightarrow> string" where
  "category_upper c = py_upper (py_strip (case c of None \<Rightarrow> [] | Some s \<Rightarrow> s))"

definition grant_overlaps_channel :: "entity_kind \<Rightarrow> grant_rf \<Rightarrow> frequency_channel \<Rightarrow> bool" where
  "grant_overlaps_channel kind g ch =
     (rf_low g < ch_high ch \<and> ch_low ch < rf_high g \<and>
      \<not> (kind = ESC \<and> category_upper (rf_category g) = ''A''
         \<and> (ESC_CAT_A_HIGH_FREQ_HZ \<le> rf_low g \<or> ESC_CAT_A_HIGH_FREQ_HZ \<le> ch_low ch)))"

subsection \<open>Neighbourhood\<close>

definition iap_haversine_km :: "real \<Rightarrow> real \<Rightarrow> real \<Rightarrow> real \<Rightarrow> real" where
  "iap_haversine_km lat1 lon1 lat2 lon2 =
     (let phi1 = radians lat1; phi2 = radians lat2;
          d_phi = radians (lat2 - lat1); d_lambda = radians (lon2 - lon1);
          a = sin (d_phi / 2) ^ 2 + cos phi1 * cos phi2 * sin (d_lambda / 2) ^ 2 in
      2 * 6371 * arcsin (min 1 (sqrt a)))"

definition esc_neighborhood_km_for_category :: "string option \<Rightarrow> real" where
  "esc_neighborhood_km_for_category category =
     (case category of
        None \<Rightarrow> 80
      | Some c \<Rightarrow> (let cat = py_upper (py_strip c) in
          if cat = ''A'' then 40 else if cat = ''B'' then 80 else 80))"

definition in_neighborhood :: "protection_point \<Rightarrow> grant_rf \<Rightarrow> bool" where
  "in_neighborhood pt g =
     (rf_low g < pp_high pt \<and> pp_low pt < rf_high g \<and>
      (case (if pp_kind pt = ESC then Some (esc_neighborhood_km_for_category (rf_category g))
             else pp_neighborhood_km pt) of
         None \<Rightarrow> True
       | Some radius \<Rightarrow>
           \<not> iap_haversine_km (rf_lat g) (rf_lon g) (pp_lat pt) (pp_lon pt) > radius))"

definition grants_in_neighborhood :: "protection_point \<Rightarrow> grant_rf list \<Rightarrow> grant_rf list" where
  "grants_in_neighborhood pt grants = filter (in_neighborhood pt) grants"
subsection \<open>The rounds\<close>

text \<open>
  What a run at one point reads and never writes: the numbers of neighbours and of channels, which
  neighbour overlaps which channel, and the coupling at an EIRP.
\<close>

record iap_run =
  r_grants :: nat
  r_channels :: nat
  r_overlap :: "nat \<Rightarrow> nat \<Rightarrow> bool"
  r_coupling :: "nat \<Rightarrow> nat \<Rightarrow> real \<Rightarrow> real"
  r_floor :: real
  r_step :: real

record iap_state =
  s_eirp :: "nat \<Rightarrow> real"
  s_satisfied :: "nat \<Rightarrow> bool"
  s_removed :: "nat \<Rightarrow> bool"
  s_hit_floor :: "nat \<Rightarrow> bool"
  s_locked :: "nat \<times> nat \<Rightarrow> real option"
  s_threshold :: "nat \<Rightarrow> real"
  s_unsat :: "nat \<Rightarrow> nat"
  s_fairshare :: "nat \<Rightarrow> real"
  s_num_unsat :: nat

text \<open>
  The first pass: the channel loop of one grant, which stops at the first channel over its fair
  share. The second result is \<open>grant_ok\<close>, the third \<open>saw_overlap\<close>.
\<close>

fun scan_channels :: "iap_run \<Rightarrow> (nat \<Rightarrow> real) \<Rightarrow> nat \<Rightarrow> real \<Rightarrow> nat list \<Rightarrow> bool
    \<Rightarrow> (nat \<times> nat \<Rightarrow> real option) \<Rightarrow> (nat \<times> nat \<Rightarrow> real option) \<times> bool \<times> bool" where
  "scan_channels R fair g e [] saw locked = (locked, True, saw)"
| "scan_channels R fair g e (c # cs) saw locked =
     (if \<not> r_overlap R g c then scan_channels R fair g e cs saw locked
      else if r_coupling R g c e < fair c
           then scan_channels R fair g e cs True (locked((g, c) \<mapsto> r_coupling R g c e))
           else (locked, False, True))"

definition scan_grant :: "iap_run \<Rightarrow> iap_state \<Rightarrow> nat \<Rightarrow> iap_state" where
  "scan_grant R s g =
     (if s_removed s g \<or> s_satisfied s g then s
      else (case scan_channels R (s_fairshare s) g (s_eirp s g) [0..<r_channels R] False (s_locked s) of
              (locked, grant_ok, saw_overlap) \<Rightarrow>
                s\<lparr>s_locked := locked,
                  s_satisfied := (s_satisfied s)(g := grant_ok \<and> saw_overlap)\<rparr>))"

definition scan_pass :: "iap_run \<Rightarrow> iap_state \<Rightarrow> iap_state" where
  "scan_pass R s = foldl (scan_grant R) s [0..<r_grants R]"

text \<open>The fair share of a channel after its count or threshold changed.\<close>

definition share :: "real \<Rightarrow> nat \<Rightarrow> real" where
  "share threshold n = (if 0 < n then threshold / real n else 0)"

text \<open>The second pass: a satisfied grant's interference is taken off the thresholds.\<close>

definition lock_channel :: "iap_run \<Rightarrow> nat \<Rightarrow> iap_state \<Rightarrow> nat \<Rightarrow> iap_state" where
  "lock_channel R g s c =
     (if \<not> r_overlap R g c then s
      else (let locked = (case s_locked s (g, c) of
                            None \<Rightarrow> r_coupling R g c (s_eirp s g) | Some v \<Rightarrow> v);
                threshold = s_threshold s c - locked;
                n = s_unsat s c - 1 in
            s\<lparr>s_locked := (s_locked s)((g, c) \<mapsto> locked),
              s_threshold := (s_threshold s)(c := threshold),
              s_unsat := (s_unsat s)(c := n),
              s_fairshare := (s_fairshare s)(c := share threshold n)\<rparr>))"

definition lock_grant :: "iap_run \<Rightarrow> iap_state \<times> nat \<Rightarrow> nat \<Rightarrow> iap_state \<times> nat" where
  "lock_grant R st g =
     (case st of (s, newly_locked) \<Rightarrow>
        if s_removed s g \<or> \<not> s_satisfied s g then st
        else (let s' = foldl (lock_channel R g) (s\<lparr>s_num_unsat := s_num_unsat s - 1\<rparr>)
                         [0..<r_channels R] in
              (s'\<lparr>s_removed := (s_removed s')(g := True)\<rparr>, Suc newly_locked)))"

definition lock_pass :: "iap_run \<Rightarrow> iap_state \<Rightarrow> iap_state \<times> nat" where
  "lock_pass R s = foldl (lock_grant R) (s, 0) [0..<r_grants R]"

text \<open>The third pass, in a round that locked nothing: one step down, and out below the floor.\<close>

definition release_channel :: "iap_run \<Rightarrow> nat \<Rightarrow> iap_state \<Rightarrow> nat \<Rightarrow> iap_state" where
  "release_channel R g s c =
     (if \<not> r_overlap R g c then s
      else (let n = s_unsat s c - 1 in
            s\<lparr>s_unsat := (s_unsat s)(c := n),
              s_fairshare := (s_fairshare s)(c := share (s_threshold s c) n)\<rparr>))"

definition lower_grant :: "iap_run \<Rightarrow> iap_state \<Rightarrow> nat \<Rightarrow> iap_state" where
  "lower_grant R s g =
     (if s_removed s g \<or> s_satisfied s g then s
      else (let e = s_eirp s g - r_step R;
                s' = s\<lparr>s_eirp := (s_eirp s)(g := e)\<rparr> in
            if e < r_floor R
            then foldl (release_channel R g)
                   (s'\<lparr>s_hit_floor := (s_hit_floor s')(g := True),
                       s_removed := (s_removed s')(g := True),
                       s_satisfied := (s_satisfied s')(g := True),
                       s_num_unsat := s_num_unsat s' - 1\<rparr>)
                   [0..<r_channels R]
            else s'))"

definition lower_pass :: "iap_run \<Rightarrow> iap_state \<Rightarrow> iap_state" where
  "lower_pass R s = foldl (lower_grant R) s [0..<r_grants R]"

definition iap_round :: "iap_run \<Rightarrow> iap_state \<Rightarrow> iap_state" where
  "iap_round R s =
     (case lock_pass R (scan_pass R s) of
        (s', newly_locked) \<Rightarrow> if 0 < newly_locked then s' else lower_pass R s')"

primrec iap_loop :: "iap_run \<Rightarrow> nat \<Rightarrow> iap_state \<Rightarrow> iap_state" where
  "iap_loop R 0 s = s"
| "iap_loop R (Suc k) s = (if 0 < s_num_unsat s then iap_loop R k (iap_round R s) else s)"

subsection \<open>One protection point\<close>

definition iap_run_of :: "protection_point \<Rightarrow> grant_rf list \<Rightarrow> frequency_channel list \<Rightarrow> coupling
    \<Rightarrow> iap_config \<Rightarrow> iap_run" where
  "iap_run_of pt neighbors channels cpl cfg =
     \<lparr>r_grants = length neighbors, r_channels = length channels,
      r_overlap = (\<lambda>g c. grant_overlaps_channel (pp_kind pt) (neighbors ! g) (channels ! c)),
      r_coupling = (\<lambda>g c e. cpl (neighbors ! g) pt (channels ! c) e),
      r_floor = cf_floor cfg, r_step = cf_step cfg\<rparr>"

definition point_threshold_mw :: "protection_point \<Rightarrow> real" where
  "point_threshold_mw pt = dbm_to_mw (apply_pre_iap_margin_db (pp_threshold_dbm pt) (pp_margin_db pt))"

definition start_state :: "iap_run \<Rightarrow> real \<Rightarrow> (nat \<Rightarrow> real) \<Rightarrow> iap_state" where
  "start_state R threshold_mw eirp =
     (let unsat = (\<lambda>c. length (filter (\<lambda>g. r_overlap R g c) [0..<r_grants R])) in
      \<lparr>s_eirp = eirp, s_satisfied = (\<lambda>_. False), s_removed = (\<lambda>_. False),
       s_hit_floor = (\<lambda>_. False), s_locked = (\<lambda>_. None), s_threshold = (\<lambda>_. threshold_mw),
       s_unsat = unsat, s_fairshare = (\<lambda>c. share threshold_mw (unsat c)),
       s_num_unsat = r_grants R\<rparr>)"

text \<open>The interference a neighbour is charged with in the reported aggregate of a channel.\<close>

definition contribution :: "iap_run \<Rightarrow> iap_state \<Rightarrow> nat \<Rightarrow> nat \<Rightarrow> real option" where
  "contribution R s c g =
     (if \<not> r_overlap R g c then None
      else (case s_locked s (g, c) of
              Some mw \<Rightarrow> Some mw
            | None \<Rightarrow> if s_removed s g then None else Some (r_coupling R g c (s_eirp s g))))"

definition sum_interference_mw :: "real list \<Rightarrow> real" where
  "sum_interference_mw values = sum_list (map (max 0) values)"

definition aggregate_of :: "iap_run \<Rightarrow> (nat \<Rightarrow> bool) \<Rightarrow> real \<Rightarrow> frequency_channel \<Rightarrow> iap_state \<Rightarrow> nat
    \<Rightarrow> channel_aggregate" where
  "aggregate_of R managing threshold_mw channel s c =
     (let contribs = List.map_filter (\<lambda>g. map_option (Pair g) (contribution R s c g)) [0..<r_grants R];
          agg = sum_interference_mw (map snd contribs);
          n = max 1 (length contribs) in
      \<lparr>ca_channel = channel, ca_aggregate_mw = agg,
       ca_managing_mw = sum_list (map snd (filter (\<lambda>(g, mw). managing g) contribs)),
       ca_threshold_mw = threshold_mw, ca_fairshare_mw = threshold_mw / real n,
       ca_within = (agg \<le> threshold_mw + 1 / 10 ^ 15)\<rparr>)"

definition decide_grant :: "iap_run \<Rightarrow> iap_state \<Rightarrow> nat \<Rightarrow> grant_rf \<Rightarrow> iap_decision" where
  "decide_grant R s g rf =
     (let initial = rf_max_eirp rf; final = s_eirp s g;
          reduced = (final + 1 / 10 ^ 9 < initial);
          (action, auth) =
            (if s_hit_floor s g
                \<or> (\<not> list_ex (\<lambda>c. s_locked s (g, c) \<noteq> None) [0..<r_channels R]
                   \<and> s_removed s g \<and> reduced)
             then (Terminate_Grant, r_floor R)
             else if reduced then (Reduce_Power, final)
             else (Keep, final)) in
      \<lparr>id_grant_id = rf_grant_id rf, id_cbsd_id = rf_cbsd_id rf, id_pk = rf_pk rf,
       id_action = action, id_authorized = auth, id_initial = initial\<rparr>)"

definition keep_decision :: "grant_rf \<Rightarrow> iap_decision" where
  "keep_decision g =
     \<lparr>id_grant_id = rf_grant_id g, id_cbsd_id = rf_cbsd_id g, id_pk = rf_pk g,
      id_action = Keep, id_authorized = rf_max_eirp g, id_initial = rf_max_eirp g\<rparr>"

definition run_iap_for_point :: "int \<Rightarrow> protection_point \<Rightarrow> grant_rf list \<Rightarrow> coupling \<Rightarrow> iap_config
    \<Rightarrow> iap_point_result" where
  "run_iap_for_point origin pt grants cpl cfg =
     (let channels = overlapping_iap_channels origin IAPBW_HZ (pp_low pt) (pp_high pt);
          neighbors = grants_in_neighborhood pt grants in
      if channels = [] \<or> neighbors = []
      then \<lparr>ir_point = pt, ir_channels = channels, ir_aggregates = [],
            ir_decisions = map keep_decision (filter rf_managing grants)\<rparr>
      else
        (let R = iap_run_of pt neighbors channels cpl cfg;
             T = point_threshold_mw pt;
             s = iap_loop R (cf_max_iterations cfg)
                   (start_state R T (\<lambda>g. rf_max_eirp (neighbors ! g))) in
         \<lparr>ir_point = pt, ir_channels = channels,
          ir_aggregates = map (\<lambda>c. aggregate_of R (\<lambda>g. rf_managing (neighbors ! g)) T (channels ! c) s c)
                            [0..<length channels],
          ir_decisions = map (\<lambda>g. decide_grant R s g (neighbors ! g))
                           (filter (\<lambda>g. rf_managing (neighbors ! g)) [0..<length neighbors])\<rparr>))"

subsection \<open>All points\<close>

definition action_rank :: "iap_action \<Rightarrow> nat" where
  "action_rank a = (case a of Keep \<Rightarrow> 0 | Reduce_Power \<Rightarrow> 1 | Suspend_Grant \<Rightarrow> 2 | Terminate_Grant \<Rightarrow> 3)"

definition merge_two :: "iap_decision \<Rightarrow> iap_decision \<Rightarrow> iap_decision" where
  "merge_two prev d =
     (if action_rank (id_action d) > action_rank (id_action prev) then d
      else if id_action d = id_action prev \<and> id_action d = Reduce_Power
              \<and> id_authorized d < id_authorized prev then d
      else if action_rank (id_action d) = action_rank (id_action prev)
      then prev\<lparr>id_authorized := min (id_authorized prev) (id_authorized d)\<rparr>
      else prev)"

definition merge_step :: "(string \<times> iap_decision) list \<Rightarrow> iap_decision \<Rightarrow> (string \<times> iap_decision) list" where
  "merge_step best d =
     AList.update (id_grant_id d)
       (case map_of best (id_grant_id d) of None \<Rightarrow> d | Some prev \<Rightarrow> merge_two prev d) best"

definition merge_iap_decisions :: "iap_point_result list \<Rightarrow> iap_decision list" where
  "merge_iap_decisions results =
     (let best = foldl merge_step [] (concat (map ir_decisions results)) in
      map (\<lambda>k. the (map_of best k)) (sort (map fst best)))"

definition run_iap :: "int \<Rightarrow> protection_point list \<Rightarrow> grant_rf list \<Rightarrow> coupling \<Rightarrow> iap_config
    \<Rightarrow> iap_point_result list \<times> iap_decision list" where
  "run_iap origin points grants cpl cfg =
     (let results = map (\<lambda>p. run_iap_for_point origin p grants cpl cfg) points in
      (results, merge_iap_decisions results))"

end
