(* ===== verification/IapGrants.thy ===== *)
theory IapGrants
  imports Iap Models "HOL-Library.Product_Lexorder"
begin

text \<open>
  The grants the allocation, the admission and the coordination see: the local ones frozen from
  their rows (\<open>FrozenLocalGrantRf\<close> of services/cpas_service.py) and the ones read from the activity
  dumps of peer SASs (services/iap/peer_fad.py).
\<close>

subsection \<open>Reading floats\<close>

text \<open>\<open>float(v)\<close> under the handler \<open>except (TypeError, ValueError)\<close>.\<close>

definition try_float :: "pyval \<Rightarrow> real option" where
  "try_float v = (case py_float v of Inr r \<Rightarrow> Some r | Inl _ \<Rightarrow> None)"

text \<open>\<open>float(d[k])\<close> under the handler that also catches \<open>KeyError\<close>.\<close>

definition try_float_key :: "pydict \<Rightarrow> string \<Rightarrow> real option" where
  "try_float_key d k = (if dhas d k then try_float (dget d k) else None)"

subsection \<open>Frozen local grants\<close>

record frozen_grant =
  fz_pk :: nat
  fz_grant_id :: string
  fz_cbsd_id :: string
  fz_fcc_id :: string
  fz_serial :: string
  fz_low :: int
  fz_high :: int
  fz_max_eirp :: "real option"
  fz_state :: string
  fz_terminated :: bool
  fz_lat :: "real option"
  fz_lon :: "real option"
  fz_height :: "real option"
  fz_height_type :: string
  fz_indoor :: bool
  fz_category :: string
  fz_azimuth :: "real option"
  fz_beamwidth :: "real option"
  fz_gain :: "real option"

definition registration_dict :: "jtext \<Rightarrow> pydict" where
  "registration_dict j = (case json_loads j of Inr (PDict reg) \<Rightarrow> reg | _ \<Rightarrow> [])"

definition parse_installation_from_registration :: "env \<Rightarrow> jtext \<Rightarrow> pyval \<Rightarrow> pydict \<times> string" where
  "parse_installation_from_registration en j fallback =
     (let reg = registration_dict j;
          install = (case por (dget reg ''installationParam'') (PDict []) of PDict i \<Rightarrow> i | _ \<Rightarrow> []);
          category0 = (case fallback of PStr s \<Rightarrow> py_upper s | _ \<Rightarrow> []);
          category1 = (if truthy (dget reg ''cbsdCategory'')
                       then py_upper (py_str en (dget reg ''cbsdCategory'')) else category0) in
      (install, if category1 = ''A'' \<or> category1 = ''B'' then category1 else []))"

definition opt_float :: "pydict \<Rightarrow> string \<Rightarrow> real option" where
  "opt_float install key =
     (let raw = dget install key in
      if raw = PNone \<or> raw = PStr [] then None else try_float raw)"

definition frozen_local_grant_from_orm :: "env \<Rightarrow> grant_row \<Rightarrow> cbsd_row \<Rightarrow> frozen_grant" where
  "frozen_local_grant_from_orm en g c =
     (case parse_installation_from_registration en (cb_reg c) (cb_category c) of (install, category) \<Rightarrow>
        (let lat = try_float_key install ''latitude'';
             lon = (if lat = None then None else try_float_key install ''longitude'');
             height_type = py_upper (py_str en (por (dget install ''heightType'') (PStr ''AGL''))) in
         \<lparr>fz_pk = gr_pk g, fz_grant_id = gr_id g, fz_cbsd_id = gr_cbsd_id g, fz_fcc_id = cb_fcc_id c,
          fz_serial = cb_serial c, fz_low = gr_low g, fz_high = gr_high g, fz_max_eirp = gr_eirp g,
          fz_state = gr_state g, fz_terminated = gr_term g, fz_lat = lat, fz_lon = lon,
          fz_height = try_float (dget install ''height''),
          fz_height_type = (if height_type = ''AGL'' \<or> height_type = ''AMSL'' then height_type else ''AGL''),
          fz_indoor = truthy (dget install ''indoorDeployment''), fz_category = category,
          fz_azimuth = opt_float install ''antennaAzimuth'',
          fz_beamwidth = opt_float install ''antennaBeamwidth'',
          fz_gain = opt_float install ''antennaGain''\<rparr>))"

definition frozen_to_iap_grant_rf :: "frozen_grant \<Rightarrow> grant_rf option" where
  "frozen_to_iap_grant_rf f =
     (case (fz_lat f, fz_lon f) of
        (Some lat, Some lon) \<Rightarrow>
          Some \<lparr>rf_grant_id = fz_grant_id f, rf_cbsd_id = fz_cbsd_id f, rf_lat = lat, rf_lon = lon,
            rf_height_m = (case fz_height f of Some h \<Rightarrow> h | None \<Rightarrow> 0),
            rf_height_is_agl = (fz_height_type f \<noteq> ''AMSL''), rf_indoor = fz_indoor f,
            rf_low = fz_low f, rf_high = fz_high f,
            rf_max_eirp = (case fz_max_eirp f of Some e \<Rightarrow> e | None \<Rightarrow> 0),
            rf_managing = True, rf_pk = Some (fz_pk f), rf_source = None,
            rf_category = (if fz_category f = [] then None else Some (fz_category f)),
            rf_azimuth = fz_azimuth f, rf_beamwidth = fz_beamwidth f, rf_gain = fz_gain f\<rparr>
      | _ \<Rightarrow> None)"

text \<open>
  The active local grants with their CBSD, in the order of their keys; a grant whose CBSD is
  gone is skipped.
\<close>

definition frozen_active_grants :: "env \<Rightarrow> db \<Rightarrow> frozen_grant list" where
  "frozen_active_grants en d =
     List.map_filter (\<lambda>g. map_option (frozen_local_grant_from_orm en g) (lock_cbsd_row d (PStr (gr_cbsd_id g))))
       (filter (\<lambda>g. \<not> gr_term g) (db_grants d))"

definition collect_local_authorized_grants :: "env \<Rightarrow> db \<Rightarrow> grant_rf list" where
  "collect_local_authorized_grants en d = List.map_filter frozen_to_iap_grant_rf (frozen_active_grants en d)"

subsection \<open>Grants of peer SASs\<close>

definition peer_grant_rf_id :: "string \<Rightarrow> string \<Rightarrow> string" where
  "peer_grant_rf_id source_sas_id grant_id = ''peer/'' @ source_sas_id @ ''/'' @ grant_id"

definition peer_registration :: "pydict \<Rightarrow> pydict option" where
  "peer_registration record = (case dget record ''registration'' of PDict r \<Rightarrow> Some r | _ \<Rightarrow> None)"

definition dict_of :: "pyval \<Rightarrow> pydict option" where
  "dict_of v = (case v of PDict d \<Rightarrow> Some d | _ \<Rightarrow> None)"

definition peer_installation_param :: "pydict \<Rightarrow> pydict option" where
  "peer_installation_param record =
     (case peer_registration record of
        Some reg \<Rightarrow>
          (case dict_of (dget reg ''installationParam'') of
             Some install \<Rightarrow> Some install
           | None \<Rightarrow> dict_of (dget record ''installationParam''))
      | None \<Rightarrow> dict_of (dget record ''installationParam''))"

definition peer_cbsd_category_raw :: "pydict \<Rightarrow> pyval" where
  "peer_cbsd_category_raw record =
     (case peer_registration record of
        Some reg \<Rightarrow> if dhas reg ''cbsdCategory'' then dget reg ''cbsdCategory'' else dget record ''cbsdCategory''
      | None \<Rightarrow> dget record ''cbsdCategory'')"

definition peer_category :: "env \<Rightarrow> pydict \<Rightarrow> string option" where
  "peer_category en record =
     (let raw = peer_cbsd_category_raw record in
      if raw = PNone \<or> py_strip (py_str en raw) = [] then None
      else (let cat = py_upper (py_strip (py_str en raw)) in
            if cat = ''A'' \<or> cat = ''B'' then Some cat else None))"

text \<open>\<open>int(freq["lowFrequency"])\<close> and \<open>int(freq["highFrequency"])\<close>, \<open>KeyError\<close> and the like caught.\<close>

definition peer_grant_rf :: "env \<Rightarrow> string \<Rightarrow> grant_rf \<Rightarrow> pyval \<Rightarrow> grant_rf option" where
  "peer_grant_rf en src base grant =
     (case grant of
        PDict g \<Rightarrow>
          (let raw_id = py_strip (py_str en (por (dget g ''id'') (PStr []))) in
           if dget g ''terminated'' = PBool True \<or> raw_id = [] then None
           else (case dget g ''operationParam'' of
             PDict op \<Rightarrow>
               (case (try_float_key op ''maxEirp'',
                      rbind (pykey (PDict op) ''operationFrequencyRange'') (\<lambda>fr.
                      rbind (pykey fr ''lowFrequency'') (\<lambda>l. rbind (py_int l) (\<lambda>low.
                      rbind (pykey fr ''highFrequency'') (\<lambda>h. rbind (py_int h) (\<lambda>high. Inr (low, high))))))) of
                  (Some eirp, Inr (low, high)) \<Rightarrow>
                    if high \<le> low then None
                    else Some (base\<lparr>rf_grant_id := peer_grant_rf_id src raw_id, rf_low := low, rf_high := high,
                                    rf_max_eirp := eirp\<rparr>)
                | _ \<Rightarrow> None)
           | _ \<Rightarrow> None))
      | _ \<Rightarrow> None)"

definition opt_ant :: "pydict \<Rightarrow> string \<Rightarrow> real option" where
  "opt_ant install key = (if dget install key = PNone then None else try_float (dget install key))"

definition peer_base_rf :: "env \<Rightarrow> pydict \<Rightarrow> string \<Rightarrow> string \<Rightarrow> pydict \<Rightarrow> real \<Rightarrow> real \<Rightarrow> real \<Rightarrow> grant_rf" where
  "peer_base_rf en record src cbsd_id install lat lon height =
     \<lparr>rf_grant_id = [], rf_cbsd_id = cbsd_id, rf_lat = lat, rf_lon = lon, rf_height_m = height,
      rf_height_is_agl = (por (dget install ''heightType'') (PStr ''AGL'') \<noteq> PStr ''AMSL''),
      rf_indoor = truthy (dget install ''indoorDeployment''), rf_low = 0, rf_high = 0, rf_max_eirp = 0,
      rf_managing = False, rf_pk = None, rf_source = Some src, rf_category = peer_category en record,
      rf_azimuth = opt_ant install ''antennaAzimuth'', rf_beamwidth = opt_ant install ''antennaBeamwidth'',
      rf_gain = opt_ant install ''antennaGain''\<rparr>"

text \<open>The height is converted outside every handler, so a record with a malformed height raises.\<close>

definition grant_rf_infos_from_peer_cbsd_record :: "env \<Rightarrow> pydict \<Rightarrow> string \<Rightarrow> grant_rf list res" where
  "grant_rf_infos_from_peer_cbsd_record en record src =
     (let cbsd_id = py_strip (py_str en (por (dget record ''id'') (PStr []))) in
      if cbsd_id = [] then Inr []
      else (case peer_installation_param record of
        None \<Rightarrow> Inr []
      | Some install \<Rightarrow>
          (case (try_float_key install ''latitude'', try_float_key install ''longitude'') of
             (Some lat, Some lon) \<Rightarrow>
               rbind (py_float (por (dget install ''height'') (PFloat 0))) (\<lambda>height.
                 case dget record ''grants'' of
                   PList grants \<Rightarrow>
                     Inr (List.map_filter (peer_grant_rf en src (peer_base_rf en record src cbsd_id install lat lon height))
                            grants)
                 | _ \<Rightarrow> Inr [])
           | _ \<Rightarrow> Inr [])))"

definition source_key :: "grant_rf \<Rightarrow> string \<times> string" where
  "source_key g = ((case rf_source g of Some s \<Rightarrow> s | None \<Rightarrow> []), rf_grant_id g)"

definition grant_rf_infos_from_frozen_peer_cbsds :: "env \<Rightarrow> (nat \<times> pydict) list \<Rightarrow> grant_rf list res" where
  "grant_rf_infos_from_frozen_peer_cbsds en rows =
     rbind (rmap (\<lambda>(src, record). grant_rf_infos_from_peer_cbsd_record en record (show_nat src)) rows)
       (\<lambda>gs. Inr (sort_key source_key (concat gs)))"

text \<open>
  \<open>collect_peer_grants\<close> of services/iap/admission.py: a row that is not a JSON object raises. Rows are ordered by peer.
\<close>

definition peer_cbsd_rows :: "db \<Rightarrow> peer_fad_row list" where
  "peer_cbsd_rows d = sort_key pf_peer (filter (\<lambda>r. pf_type r = ''cbsd'') (db_peer_fad d))"

definition collect_peer_grants :: "env \<Rightarrow> db \<Rightarrow> grant_rf list res" where
  "collect_peer_grants en d =
     rbind (rmap (\<lambda>r. case json_loads_or_empty (pf_data r) of
                        Inr (PDict data) \<Rightarrow> Inr (pf_peer r, data) | _ \<Rightarrow> Inl IapAdmissionError) (peer_cbsd_rows d))
       (grant_rf_infos_from_frozen_peer_cbsds en)"

subsection \<open>Peer grants stay apart\<close>

lemma peer_grant_rf_shape:
  assumes "peer_grant_rf en src base grant = Some rf"
  shows "rf_managing rf = rf_managing base \<and> rf_pk rf = rf_pk base \<and> rf_low rf < rf_high rf
    \<and> (\<exists>k. rf_grant_id rf = peer_grant_rf_id src k)"
  using assms by (auto simp: peer_grant_rf_def Let_def split: pyval.splits option.splits sum.splits if_splits prod.splits)

lemma map_filter_mem: "y \<in> set (List.map_filter f xs) \<Longrightarrow> \<exists>x\<in>set xs. f x = Some y"
  by (induction xs) (auto simp: map_filter_simps split: option.splits)

lemma peer_base_shape [simp]:
  "\<not> rf_managing (peer_base_rf en record src cbsd_id install lat lon height)"
  "rf_pk (peer_base_rf en record src cbsd_id install lat lon height) = None"
  by (simp_all add: peer_base_rf_def)

lemma peer_record_shape:
  assumes "grant_rf_infos_from_peer_cbsd_record en record src = Inr gs" "rf \<in> set gs"
  shows "\<not> rf_managing rf \<and> rf_pk rf = None \<and> rf_low rf < rf_high rf \<and> take 5 (rf_grant_id rf) = ''peer/''"
proof -
  from assms obtain grants base where "gs = List.map_filter (peer_grant_rf en src base) grants"
    "\<not> rf_managing base" "rf_pk base = None"
    by (cases "dget record ''grants''")
      (auto simp: grant_rf_infos_from_peer_cbsd_record_def Let_def rbind_eq_Inr
        split: if_splits option.splits)
  with assms(2) show ?thesis
    by (auto simp: peer_grant_rf_id_def dest!: map_filter_mem peer_grant_rf_shape)
qed

lemma peer_grants_shape:
  assumes "grant_rf_infos_from_frozen_peer_cbsds en rows = Inr gs" "rf \<in> set gs"
  shows "\<not> rf_managing rf \<and> rf_pk rf = None \<and> rf_low rf < rf_high rf \<and> take 5 (rf_grant_id rf) = ''peer/''"
proof -
  from assms obtain gss where gss:
    "rmap (\<lambda>(src, record). grant_rf_infos_from_peer_cbsd_record en record (show_nat src)) rows = Inr gss"
    "rf \<in> set (concat gss)"
    by (auto simp: grant_rf_infos_from_frozen_peer_cbsds_def rbind_eq_Inr)
  then obtain i where i: "i < length gss" "rf \<in> set (gss ! i)"
    unfolding set_concat by (auto simp: set_conv_nth [of gss])
  with rmap_length [OF gss(1)] rmap_nth [OF gss(1), of i] show ?thesis
    using peer_record_shape [of en _ _ "gss ! i" rf] by (auto split: prod.splits)
qed

end
