(* ===== verification/Urls.thy ===== *)
theory Urls
  imports Sas_Prelude
begin

text \<open>
  The parts of \<open>urllib.parse\<close> the services rely on: \<open>urlsplit\<close> up to the authority, and the path
  \<open>urlparse\<close> reads. The further checks \<open>urlsplit\<close> makes of an authority, which depend on the
  Unicode tables and on the version of the library, are an argument.
\<close>

text \<open>\<open>s.partition(c)\<close> and \<open>s.rpartition(c)\<close>: the parts, and whether the separator is there.\<close>

definition partition_on :: "char \<Rightarrow> string \<Rightarrow> string \<times> bool \<times> string" where
  "partition_on c s = (takeWhile (\<lambda>x. x \<noteq> c) s, c \<in> set s, drop 1 (dropWhile (\<lambda>x. x \<noteq> c) s))"

definition rpartition_on :: "char \<Rightarrow> string \<Rightarrow> string \<times> bool \<times> string" where
  "rpartition_on c s =
     (case partition_on c (rev s) of
        (t, True, h) \<Rightarrow> (rev h, True, rev t)
      | (t, False, h) \<Rightarrow> ([], False, s))"

definition scheme_char :: "char \<Rightarrow> bool" where
  "scheme_char c =
     (let n = of_char c :: nat in
      (48 \<le> n \<and> n \<le> 57) \<or> (65 \<le> n \<and> n \<le> 90) \<or> (97 \<le> n \<and> n \<le> 122) \<or> c \<in> {CHR ''+'', CHR ''-'', CHR ''.''})"

definition split_scheme :: "string \<Rightarrow> string \<times> string" where
  "split_scheme url =
     (case partition_on (CHR '':'') url of
        (s, found, rest) \<Rightarrow>
          if found \<and> s \<noteq> [] \<and> \<not> is_digit (hd s) \<and> hd s \<notin> {CHR ''+'', CHR ''-'', CHR ''.''} \<and> list_all scheme_char s
          then (py_lower s, rest) else ([], url))"

text \<open>The characters \<open>urlsplit\<close> removes, and those it strips on the left.\<close>

definition removed_char :: "char \<Rightarrow> bool" where
  "removed_char c = (c \<in> {CHR 0x09, CHR 0x0A, CHR 0x0D})"

definition clean_url :: "string \<Rightarrow> string" where
  "clean_url url =
     filter (\<lambda>c. \<not> removed_char c) (dropWhile (\<lambda>c. (of_char c :: nat) \<le> 32) url)"

text \<open>Scheme, authority and the rest; an unbalanced bracket raises.\<close>

definition url_stop :: "char \<Rightarrow> bool" where
  "url_stop c = (c \<in> {CHR ''/'', CHR ''?'', CHR ''#''})"

definition urlsplit :: "(string \<Rightarrow> bool) \<Rightarrow> string \<Rightarrow> (string \<times> string \<times> string) res" where
  "urlsplit netloc_ok url =
     (case split_scheme (clean_url url) of
        (scheme, rest) \<Rightarrow>
          (let auth = take 2 rest = ''//'';
               netloc = (if auth then takeWhile (\<lambda>c. \<not> url_stop c) (drop 2 rest) else []);
               tail = (if auth then dropWhile (\<lambda>c. \<not> url_stop c) (drop 2 rest) else rest) in
           if (CHR ''['' \<in> set netloc) \<noteq> (CHR '']'' \<in> set netloc) \<or> \<not> netloc_ok netloc then Inl ValueError
           else Inr (scheme, netloc, tail)))"

text \<open>
  The path, without the query and the fragment, and without the parameters of its last segment when
  the scheme has them.
\<close>

definition USES_PARAMS :: "string list" where
  "USES_PARAMS = [[], ''ftp'', ''hdl'', ''prospero'', ''http'', ''https'', ''shttp'', ''rtsp'', ''rtsps'', ''rtspu'', ''sip'',
     ''sips'', ''mms'', ''sftp'', ''tel'']"

definition hier_path :: "string \<Rightarrow> string" where
  "hier_path rest =
     (let path = takeWhile (\<lambda>c. c \<noteq> CHR ''?'' \<and> c \<noteq> CHR ''#'') rest;
          final = rev (takeWhile (\<lambda>c. c \<noteq> CHR ''/'') (rev path)) in
      take (length path - length final) path @ takeWhile (\<lambda>c. c \<noteq> CHR '';'') final)"

definition path_of_url :: "string \<Rightarrow> string \<Rightarrow> string" where
  "path_of_url scheme rest =
     (if scheme \<in> set USES_PARAMS then hier_path rest else takeWhile (\<lambda>c. c \<noteq> CHR ''?'' \<and> c \<noteq> CHR ''#'') rest)"

end
