(* ===== verification/AdminInjection.thy ===== *)
theory AdminInjection
  imports Urls Protection Teardown "HOL-Library.AList"
begin

text \<open>
  The data-injection contracts (services/data_injection_service.py) with the FSS provenance map
  (services/fss_provenance.py): validation of the injected payloads, replacement by natural key,
  the generation counters and the all-or-nothing batch. The administrator's identity, the
  sorted JSON text of a value and the checks \<open>urlsplit\<close> makes of an authority are arguments.
\<close>

record inject_ext =
  ix_admin_id :: string
  ix_text :: "pyval \<Rightarrow> string"
  ix_netloc_ok :: "string \<Rightarrow> bool"

subsection \<open>Generations\<close>

text \<open>The numeric entries of the newest counter row.\<close>

definition numeric_entries :: "pydict \<Rightarrow> (string \<times> int) list" where
  "numeric_entries meta = List.map_filter (\<lambda>(k, v). case v of
       PBool b \<Rightarrow> Some (k, if b then 1 else 0)
     | PInt i \<Rightarrow> Some (k, i)
     | PFloat r \<Rightarrow> Some (k, trunc_real r)
     | _ \<Rightarrow> None) meta"

definition get_injection_generations :: "db \<Rightarrow> (string \<times> int) list" where
  "get_injection_generations d =
     (let rows = load_injected_dicts d ''injection_generation'' in
      if rows = [] then []
      else (case last rows of PDict meta \<Rightarrow> numeric_entries meta | _ \<Rightarrow> []))"

definition generation_of :: "(string \<times> int) list \<Rightarrow> string \<Rightarrow> int" where
  "generation_of meta key = (case map_of meta key of None \<Rightarrow> 0 | Some n \<Rightarrow> n)"

definition int_dict :: "(string \<times> int) list \<Rightarrow> pydict" where
  "int_dict meta = map (\<lambda>(k, n). (k, PInt n)) meta"

definition bump_injection_generation :: "db \<Rightarrow> string \<Rightarrow> int \<times> db" where
  "bump_injection_generation d key =
     (let meta = get_injection_generations d;
          meta1 = AList.update key (generation_of meta key + 1) meta;
          meta2 = AList.update ''schemaVersion'' 1 meta1 in
      (generation_of meta2 key,
       add_injected (delete_kind d ''injection_generation'') ''injection_generation'' (PDict (int_dict meta2))))"

subsection \<open>Natural keys\<close>

definition natural_key :: "env \<Rightarrow> inject_ext \<Rightarrow> string \<Rightarrow> pydict \<Rightarrow> string option" where
  "natural_key en ix kind payload =
     (if kind = ''database_url'' then
        (let db_type = py_upper (py_str en (por (dget payload ''type'') (PStr [])));
             url = py_strip (py_str en (por (dget payload ''url'') (PStr []))) in
         if db_type = [] \<or> url = [] then None else Some (db_type @ ''|'' @ url))
      else if kind = ''cluster_list'' then
        (case List.find (\<lambda>key. truthy (dget payload key)) [''userId'', ''ppaId'', ''palId''] of
           Some key \<Rightarrow> Some (key @ '':'' @ py_str en (dget payload key))
         | None \<Rightarrow> Some (ix_text ix (PDict payload)))
      else
        (case dget payload ''record'' of
           PDict r \<Rightarrow> (if r \<noteq> [] \<and> dget r ''id'' \<noteq> PNone then Some (py_str en (dget r ''id''))
                       else if dget payload ''id'' \<noteq> PNone then Some (py_str en (dget payload ''id''))
                       else None)
         | _ \<Rightarrow> if dget payload ''id'' \<noteq> PNone then Some (py_str en (dget payload ''id'')) else None))"

text \<open>The first row of the kind with the payload's key is overwritten; otherwise a row is added.\<close>

definition row_dict :: "jtext \<Rightarrow> pydict option" where
  "row_dict j = (case json_loads_or_empty j of Inr (PDict data) \<Rightarrow> Some data | _ \<Rightarrow> None)"

definition has_key :: "env \<Rightarrow> inject_ext \<Rightarrow> string \<Rightarrow> string \<Rightarrow> string \<times> jtext \<Rightarrow> bool" where
  "has_key en ix kind key row =
     (case row of (k, j) \<Rightarrow>
        k = kind \<and> (case row_dict j of
                      Some existing \<Rightarrow> natural_key en ix kind existing = Some key
                    | None \<Rightarrow> False))"

definition upsert :: "env \<Rightarrow> inject_ext \<Rightarrow> db \<Rightarrow> string \<Rightarrow> pydict \<Rightarrow> string option \<Rightarrow> db" where
  "upsert en ix d kind payload key =
     (case key of
        None \<Rightarrow> add_injected d kind (PDict payload)
      | Some k \<Rightarrow>
          if list_ex (has_key en ix kind k) (db_injected d)
          then d\<lparr>db_injected := update_first (has_key en ix kind k)
                    (\<lambda>(k', j). (k', json_dumps (PDict payload))) (db_injected d)\<rparr>
          else add_injected d kind (PDict payload))"

subsection \<open>Validation\<close>

definition as_number :: "pyval \<Rightarrow> real option" where
  "as_number v = (case v of
     PInt i \<Rightarrow> Some (of_int i)
   | PFloat r \<Rightarrow> Some r
   | PStr s \<Rightarrow> if py_strip s = [] then None else read_real (py_strip s)
   | _ \<Rightarrow> None)"

definition freq_range_ok :: "pydict \<Rightarrow> bool" where
  "freq_range_ok fr =
     (case (as_number (dget fr ''lowFrequency''), as_number (dget fr ''highFrequency'')) of
        (Some low, Some high) \<Rightarrow> low < high \<and> 0 < low
      | _ \<Rightarrow> False)"

definition lat_lon_ok :: "pyval \<Rightarrow> pyval \<Rightarrow> bool" where
  "lat_lon_ok lat lon =
     (case (as_number lat, as_number lon) of
        (Some la, Some lo) \<Rightarrow> - 90 \<le> la \<and> la \<le> 90 \<and> - 180 \<le> lo \<and> lo \<le> 180
      | _ \<Rightarrow> False)"

text \<open>
  \<open>deps[0]\<close> of a non-empty list when it is a non-empty dictionary, and its frequency range
  (\<open>(first.get("operationParam") or {}).get("operationFrequencyRange") or {}\<close>).
\<close>

definition first_deployment :: "pydict \<Rightarrow> pydict option" where
  "first_deployment record =
     (case dget record ''deploymentParam'' of
        PList (PDict first # deps) \<Rightarrow> if first = [] then None else Some first
      | _ \<Rightarrow> None)"

definition deployment_range :: "pydict \<Rightarrow> pyval res" where
  "deployment_range first =
     rbind (pget (por (dget first ''operationParam'') (PDict [])) ''operationFrequencyRange'')
       (\<lambda>fr. Inr (por fr (PDict [])))"

definition range_ok :: "pyval \<Rightarrow> bool" where
  "range_ok fr = (case fr of PDict r \<Rightarrow> freq_range_ok r | _ \<Rightarrow> False)"

definition fss_has_required_fields :: "env \<Rightarrow> pydict \<Rightarrow> bool res" where
  "fss_has_required_fields en payload =
     (case dget payload ''record'' of
        PDict record \<Rightarrow>
          (let rec_type = dget record ''type'' in
           if rec_type \<noteq> PNone \<and> py_upper (py_str en rec_type) \<noteq> ''FSS'' then Inr False
           else (case first_deployment record of
                   None \<Rightarrow> Inr False
                 | Some first \<Rightarrow>
                     (case por (dget first ''installationParam'') (PDict []) of
                        PDict inst \<Rightarrow>
                          rbind (deployment_range first) (\<lambda>fr.
                            Inr (range_ok fr \<and> lat_lon_ok (dget inst ''latitude'') (dget inst ''longitude'')))
                      | _ \<Rightarrow> Inr False)))
      | _ \<Rightarrow> Inr False)"

definition wisp_has_required_fields :: "pydict \<Rightarrow> bool res" where
  "wisp_has_required_fields payload =
     (case (dget payload ''record'', dget payload ''zone'') of
        (PDict record, PDict zone) \<Rightarrow>
          if \<not> truthy (dget record ''id'') \<or> \<not> truthy (dget record ''type'') then Inr False
          else (case first_deployment record of
                  None \<Rightarrow> Inr False
                | Some first \<Rightarrow>
                    rbind (deployment_range first) (\<lambda>fr.
                      Inr (range_ok fr \<and> dget zone ''type'' \<in>
                        {PStr ''FeatureCollection'', PStr ''Feature'', PStr ''Polygon'', PStr ''MultiPolygon''})))
      | _ \<Rightarrow> Inr False)"

text \<open>A PART 90 point without a zone, as a flat GWBL record.\<close>

definition gwbl_point_from_wisp_body :: "env \<Rightarrow> pydict \<Rightarrow> pydict option res" where
  "gwbl_point_from_wisp_body en payload =
     (if dget payload ''zone'' \<noteq> PNone then Inr None
      else (case dget payload ''record'' of
        PDict record \<Rightarrow>
          (let record_id = dget record ''id''; rec_type = dget record ''type'' in
           if record_id = PNone \<or> record_id = PStr [] then Inr None
           else if rec_type \<noteq> PNone \<and> py_upper (py_str en rec_type) = ''FSS'' then Inr None
           else (case first_deployment record of
             None \<Rightarrow> Inr None
           | Some first \<Rightarrow>
               (case por (dget first ''installationParam'') (PDict []) of
                  PDict inst \<Rightarrow>
                    if \<not> lat_lon_ok (dget inst ''latitude'') (dget inst ''longitude'') then Inr None
                    else rbind (deployment_range first) (\<lambda>fr.
                      if \<not> range_ok fr then Inr None
                      else rbind (py_float (dget inst ''latitude'')) (\<lambda>lat.
                           rbind (py_float (dget inst ''longitude'')) (\<lambda>lon.
                             Inr (Some [(''id'', PStr (py_str en record_id)), (''latitude'', PFloat lat),
                                        (''longitude'', PFloat lon)]))))
                | _ \<Rightarrow> Inr None)))
      | _ \<Rightarrow> Inr None))"

definition zone_record_acceptable :: "pydict \<Rightarrow> bool" where
  "zone_record_acceptable record = (dhas record ''zone'' \<or> dhas record ''usage'' \<or> dhas record ''ppaInfo'')"
subsection \<open>FSS provenance\<close>

definition provenance_entries :: "jtext \<Rightarrow> (string \<times> string) list" where
  "provenance_entries j =
     (case json_loads_or_empty j of
        Inr (PDict data) \<Rightarrow>
          (case dget data ''by_id'' of
             PDict by_id \<Rightarrow> List.map_filter (\<lambda>(k, v). if v = PStr ''federal_db_sync'' \<or> v = PStr ''admin_injected''
                 then map_option (Pair k) (str_of v) else None) by_id
           | _ \<Rightarrow> [])
      | _ \<Rightarrow> [])"

definition load_fss_provenance_map :: "db \<Rightarrow> (string \<times> string) list" where
  "load_fss_provenance_map d =
     foldl (\<lambda>out j. foldl (\<lambda>out (k, v). AList.update k v out) out (provenance_entries j)) []
       (rows_of_kind d ''fss_provenance'')"

text \<open>One row holds the whole map: the first one is overwritten, further rows go.\<close>

fun keep_first :: "string \<Rightarrow> jtext \<Rightarrow> (string \<times> jtext) list \<Rightarrow> (string \<times> jtext) list" where
  "keep_first kind raw [] = []"
| "keep_first kind raw ((k, j) # rows) =
     (if k = kind then (k, raw) # filter (\<lambda>(k', j'). k' \<noteq> kind) rows else (k, j) # keep_first kind raw rows)"

definition persist_fss_provenance_map :: "db \<Rightarrow> (string \<times> string) list \<Rightarrow> db" where
  "persist_fss_provenance_map d mapping =
     (if mapping = [] then delete_kind d ''fss_provenance''
      else (let payload = PDict [(''by_id'', PDict (map (\<lambda>(k, v). (k, PStr v)) mapping))] in
        if rows_of_kind d ''fss_provenance'' = [] then add_injected d ''fss_provenance'' payload
        else d\<lparr>db_injected := keep_first ''fss_provenance'' (json_dumps payload) (db_injected d)\<rparr>))"

definition set_fss_provenance :: "db \<Rightarrow> string \<Rightarrow> string \<Rightarrow> db res" where
  "set_fss_provenance d fss_id source =
     (if source \<noteq> ''federal_db_sync'' \<and> source \<noteq> ''admin_injected'' then Inl ValueError
      else Inr (persist_fss_provenance_map d (AList.update fss_id source (load_fss_provenance_map d))))"

subsection \<open>Persisting\<close>

text \<open>\<open>rewrite_zone_id\<close> of services/fad_service.py.\<close>

definition rewrite_zone_id :: "inject_ext \<Rightarrow> pyval \<Rightarrow> string \<Rightarrow> string res" where
  "rewrite_zone_id ix zone_id fallback =
     (let own = ''zone/ppa/'' @ ix_admin_id ix @ ''/'' in
      if \<not> truthy zone_id then Inr (own @ fallback)
      else (case zone_id of
        PStr s \<Rightarrow>
          (let parts = split_on (CHR ''/'') s in
           if 3 \<le> length parts \<and> parts ! 0 = ''zone'' \<and> parts ! 1 = ''ppa''
           then Inr (own @ (if 3 < length parts then join_with ''/'' (drop 3 parts) else fallback))
           else Inr (own @ fallback))
      | _ \<Rightarrow> Inl AttributeError))"

definition persist_zone_data :: "env \<Rightarrow> inject_ext \<Rightarrow> db \<Rightarrow> pyval \<Rightarrow> (string \<times> db) res" where
  "persist_zone_data en ix d body =
     (let payload = (case body of PDict p \<Rightarrow> p | _ \<Rightarrow> []) in
      case dget payload ''record'' of
        PDict record \<Rightarrow>
          rbind (rewrite_zone_id ix (dget record ''id'') ''0'') (\<lambda>zone_id.
            let record' = dset record ''id'' (PStr zone_id);
                payload' = dset payload ''record'' (PDict record') in
            if zone_record_acceptable record'
            then Inr (zone_id, snd (bump_injection_generation
                        (upsert en ix d ''zone'' payload' (Some zone_id)) ''zone''))
            else Inr (zone_id, d))
      | _ \<Rightarrow> rbind (rewrite_zone_id ix PNone ''0'') (\<lambda>zone_id. Inr (zone_id, d)))"

definition upsert_fss_record :: "env \<Rightarrow> inject_ext \<Rightarrow> db \<Rightarrow> pyval \<Rightarrow> (bool \<times> db) res" where
  "upsert_fss_record en ix d body =
     (case body of
        PDict payload \<Rightarrow>
          rbind (fss_has_required_fields en payload) (\<lambda>ok.
            if \<not> ok then Inr (False, d)
            else (let key = natural_key en ix ''fss'' payload;
                      d1 = upsert en ix d ''fss'' payload key in
              rbind (case key of
                       Some k \<Rightarrow> if k \<noteq> [] then set_fss_provenance d1 k ''admin_injected'' else Inr d1
                     | None \<Rightarrow> Inr d1) (\<lambda>d2.
              rbind (bump_sync_meta d2 ''fss'') (\<lambda>(n, d3).
                Inr (True, snd (bump_injection_generation d3 ''fss''))))))
      | _ \<Rightarrow> Inr (False, d))"

definition upsert_wisp_record :: "env \<Rightarrow> inject_ext \<Rightarrow> db \<Rightarrow> pyval \<Rightarrow> (bool \<times> db) res" where
  "upsert_wisp_record en ix d body =
     (case body of
        PDict payload \<Rightarrow>
          rbind (wisp_has_required_fields payload) (\<lambda>ok.
            if ok
            then Inr (True, snd (bump_injection_generation
                   (upsert en ix d ''wisp'' payload (natural_key en ix ''wisp'' payload)) ''wisp''))
            else rbind (gwbl_point_from_wisp_body en payload) (\<lambda>gwbl.
              case gwbl of
                None \<Rightarrow> Inr (False, d)
              | Some point \<Rightarrow>
                  rbind (bump_sync_meta (upsert en ix d ''gwbl'' point (natural_key en ix ''gwbl'' point))
                           ''gwbl'') (\<lambda>(n, d1).
                    Inr (True, snd (bump_injection_generation d1 ''gwbl'')))))
      | _ \<Rightarrow> Inr (False, d))"

text \<open>An address that does not parse counts as invalid.\<close>

definition is_valid_http_url :: "inject_ext \<Rightarrow> string \<Rightarrow> bool" where
  "is_valid_http_url ix url =
     (case urlsplit (ix_netloc_ok ix) (py_strip url) of
        Inl _ \<Rightarrow> False
      | Inr (scheme, netloc, _) \<Rightarrow> (scheme = ''http'' \<or> scheme = ''https'') \<and> netloc \<noteq> [])"

definition ALLOWED_DATABASE_TYPES :: "string list" where
  "ALLOWED_DATABASE_TYPES = [''PAL'', ''CPI'', ''FSS'', ''GWBL'', ''EXCLUSION_ZONE'', ''SCHEDULED_DPA'']"

definition persist_database_url :: "env \<Rightarrow> inject_ext \<Rightarrow> db \<Rightarrow> pyval \<Rightarrow> (bool \<times> db) res" where
  "persist_database_url en ix d body =
     (case body of
        PDict b \<Rightarrow>
          (let db_type = py_upper (py_strip (py_str en (por (dget b ''type'') (PStr []))));
               url = py_strip (py_str en (por (dget b ''url'') (PStr []))) in
           if db_type \<notin> set ALLOWED_DATABASE_TYPES \<or> \<not> is_valid_http_url ix url then Inr (False, d)
           else (let p0 = [(''type'', PStr db_type), (''url'', PStr url), (''schemaVersion'', PInt 1)];
                     checksum = por (dget b ''checksum'') (dget b ''checksumSha1'');
                     p1 = (if checksum \<noteq> PNone then dset p0 ''checksum'' (PStr (py_str en checksum)) else p0);
                     p2 = (if is_dict (dget b ''auth'') then dset p1 ''auth'' (dget b ''auth'') else p1) in
             Inr (True, snd (bump_injection_generation
               (upsert en ix d ''database_url'' p2 (natural_key en ix ''database_url'' p2)) ''database_url''))))
      | _ \<Rightarrow> Inr (False, d))"

definition truthy_id :: "pydict \<Rightarrow> bool" where
  "truthy_id body = (truthy (dget body ''id'')
     \<or> (case dget body ''record'' of PDict r \<Rightarrow> truthy (dget r ''id'') | _ \<Rightarrow> False))"

definition persist_esc_zone :: "env \<Rightarrow> inject_ext \<Rightarrow> db \<Rightarrow> pyval \<Rightarrow> (bool \<times> db) res" where
  "persist_esc_zone en ix d body =
     (case body of
        PDict b \<Rightarrow>
          if b = [] \<or> \<not> (truthy_id b \<or> truthy (dget b ''zoneId'') \<or> truthy (dget b ''escZoneId''))
          then Inr (False, d)
          else Inr (True, snd (bump_injection_generation
                 (upsert en ix d ''esc_zone'' b (natural_key en ix ''esc_zone'' b)) ''esc_zone''))
      | _ \<Rightarrow> Inr (False, d))"

definition persist_cluster_list :: "env \<Rightarrow> inject_ext \<Rightarrow> db \<Rightarrow> pyval \<Rightarrow> (bool \<times> db) res" where
  "persist_cluster_list en ix d body =
     (case body of
        PDict b \<Rightarrow>
          if b = [] \<or> \<not> list_ex (\<lambda>k. truthy (dget b k)) [''userId'', ''ppaId'', ''palId'', ''cbsdIds'', ''cbsdReferenceId'']
          then Inr (False, d)
          else Inr (True, snd (bump_injection_generation
                 (upsert en ix d ''cluster_list'' b (natural_key en ix ''cluster_list'' b)) ''cluster_list''))
      | _ \<Rightarrow> Inr (False, d))"

definition persist_sas_admin :: "env \<Rightarrow> inject_ext \<Rightarrow> db \<Rightarrow> pyval \<Rightarrow> (bool \<times> db) res" where
  "persist_sas_admin en ix d body =
     (case body of
        PDict b \<Rightarrow>
          (case dget b ''record'' of
             PDict r \<Rightarrow>
               if \<not> truthy (dget r ''id'') then Inr (False, d)
               else (let payload = [(''record'', PDict r), (''schemaVersion'', PInt 1)] in
                 Inr (True, snd (bump_injection_generation
                   (upsert en ix d ''sas_admin'' payload (natural_key en ix ''sas_admin'' payload)) ''sas_admin'')))
           | _ \<Rightarrow> Inr (False, d))
      | _ \<Rightarrow> Inr (False, d))"

text \<open>
  A batch: every item is validated first (\<open>InjectionValidationError\<close> is a \<open>ValueError\<close>); a raise
  of a writer rolls the transaction back.
\<close>

fun write_all :: "(db \<Rightarrow> pyval \<Rightarrow> (bool \<times> db) res) \<Rightarrow> db \<Rightarrow> pyval list \<Rightarrow> (nat \<times> db) res" where
  "write_all writer d [] = Inr (0, d)"
| "write_all writer d (item # items) =
     rbind (writer d item) (\<lambda>(ok, d1).
     rbind (write_all writer d1 items) (\<lambda>(n, d2). Inr (if ok then Suc n else n, d2)))"

fun validate_all :: "(pyval \<Rightarrow> bool res) \<Rightarrow> pyval list \<Rightarrow> unit res" where
  "validate_all validator [] = Inr ()"
| "validate_all validator (item # items) =
     rbind (validator item) (\<lambda>ok. if ok then validate_all validator items else Inl ValueError)"

definition upsert_batch :: "(pyval \<Rightarrow> bool res) \<Rightarrow> (db \<Rightarrow> pyval \<Rightarrow> (bool \<times> db) res) \<Rightarrow> db \<Rightarrow> pyval list
    \<Rightarrow> nat res \<times> db" where
  "upsert_batch validator writer d items =
     (if items = [] then (Inr 0, d)
      else (case rbind (validate_all validator items) (\<lambda>_. write_all writer d items) of
              Inl e \<Rightarrow> (Inl e, d)
            | Inr (n, d') \<Rightarrow> (Inr n, d')))"

subsection \<open>A generation counts its injections\<close>

lemma numeric_int_dict [simp]: "numeric_entries (int_dict meta) = meta"
  by (induction meta) (auto simp: numeric_entries_def int_dict_def map_filter_simps)

lemma generations_bumped:
  "get_injection_generations (snd (bump_injection_generation d key)) =
     AList.update ''schemaVersion'' 1
       (AList.update key (generation_of (get_injection_generations d) key + 1) (get_injection_generations d))"
  by (simp add: bump_injection_generation_def Let_def get_injection_generations_def [of "add_injected _ _ _"]
      load_injected_dicts_def load_kind_def)

lemma generation_after_bump:
  "generation_of (get_injection_generations (snd (bump_injection_generation d key))) k =
     (if k = ''schemaVersion'' then 1
      else if k = key then generation_of (get_injection_generations d) key + 1
      else generation_of (get_injection_generations d) k)"
  by (simp add: generations_bumped generation_of_def update_conv')

subsection \<open>Replacement by key\<close>

lemma filter_update_first:
  assumes "list_ex p xs" "\<And>x. p x \<Longrightarrow> f x = c" "p c" "length (filter p xs) \<le> 1"
  shows "filter p (update_first p f xs) = [c]"
  using assms(1,4) by (induction xs) (auto simp: assms(2,3))

lemma filter_not_update_first:
  assumes "\<And>x. p x \<Longrightarrow> p (f x)"
  shows "filter (\<lambda>x. \<not> p x) (update_first p f xs) = filter (\<lambda>x. \<not> p x) xs"
  by (induction xs) (auto simp: assms)

text \<open>Rows of a kind whose keys are pairwise different.\<close>

definition one_row_per_key :: "env \<Rightarrow> inject_ext \<Rightarrow> db \<Rightarrow> string \<Rightarrow> bool" where
  "one_row_per_key en ix d kind = (\<forall>key. length (filter (has_key en ix kind key) (db_injected d)) \<le> 1)"

lemma has_keyE:
  assumes "has_key en ix kind key row"
  obtains j existing where "row = (kind, j)" "row_dict j = Some existing"
    "natural_key en ix kind existing = Some key"
  using assms by (auto simp: has_key_def split: option.splits prod.splits)

lemma has_key_unique: "has_key en ix kind key row \<Longrightarrow> has_key en ix kind key' row \<Longrightarrow> key = key'"
  by (elim has_keyE) auto

lemma has_key_kind: "has_key en ix kind key row \<Longrightarrow> fst row = kind"
  by (elim has_keyE) auto

lemma has_key_new:
  "natural_key en ix kind payload = Some key \<Longrightarrow>
   has_key en ix kind key' (kind, json_dumps (PDict payload)) \<longleftrightarrow> key' = key"
  by (auto simp: has_key_def row_dict_def)

text \<open>
  C37. Injecting a record under its natural key keeps one row per key: the row of the same key
  is replaced by the new payload, or the payload is added, and every other row stays as it was and
  in its place. Injecting it again changes nothing further.
\<close>

theorem injected_record_replaces:
  assumes "one_row_per_key en ix d kind" "natural_key en ix kind payload = Some key"
  shows "filter (has_key en ix kind key) (db_injected (upsert en ix d kind payload (Some key)))
           = [(kind, json_dumps (PDict payload))]
    \<and> filter (\<lambda>r. \<not> has_key en ix kind key r) (db_injected (upsert en ix d kind payload (Some key)))
        = filter (\<lambda>r. \<not> has_key en ix kind key r) (db_injected d)
    \<and> one_row_per_key en ix (upsert en ix d kind payload (Some key)) kind
    \<and> upsert en ix (upsert en ix d kind payload (Some key)) kind payload (Some key)
        = upsert en ix d kind payload (Some key)"
proof -
  let ?p = "has_key en ix kind key" and ?new = "(kind, json_dumps (PDict payload))"
  let ?d = "upsert en ix d kind payload (Some key)"
  have new: "?p ?new" and other: "key' \<noteq> key \<Longrightarrow> \<not> has_key en ix kind key' ?new" for key'
    using has_key_new [OF assms(2)] by auto
  have over: "?p row \<Longrightarrow> (\<lambda>(k', j). (k', json_dumps (PDict payload))) row = ?new" for row
    by (auto elim!: has_keyE)
  have one: "length (filter ?p (db_injected d)) \<le> 1" using assms(1) by (simp add: one_row_per_key_def)
  have here: "filter ?p (db_injected ?d) = [?new]"
  proof (cases "list_ex ?p (db_injected d)")
    case True
    then show ?thesis using filter_update_first [OF True over new one] by (simp add: upsert_def)
  next
    case False
    then show ?thesis using new by (simp add: upsert_def add_injected_def list_ex_iff filter_empty_conv)
  qed
  have rest: "filter (\<lambda>r. \<not> ?p r) (db_injected ?d) = filter (\<lambda>r. \<not> ?p r) (db_injected d)"
  proof (cases "list_ex ?p (db_injected d)")
    case True
    then show ?thesis using filter_not_update_first [of ?p] over new by (simp add: upsert_def)
  next
    case False
    then show ?thesis using new by (simp add: upsert_def add_injected_def)
  qed
  have keyed: "one_row_per_key en ix ?d kind"
    unfolding one_row_per_key_def
  proof
    fix key'
    show "length (filter (has_key en ix kind key') (db_injected ?d)) \<le> 1"
    proof (cases "key' = key")
      case False
      have sub: "filter (has_key en ix kind key') xs
          = filter (has_key en ix kind key') (filter (\<lambda>r. \<not> ?p r) xs)" for xs
        using False has_key_unique by (induction xs) auto
      show ?thesis using assms(1) unfolding sub [of "db_injected ?d"] rest sub [symmetric]
        by (simp add: one_row_per_key_def)
    qed (simp add: here)
  qed
  have "upsert en ix ?d kind payload (Some key) = ?d"
  proof -
    have "update_first p f xs = xs" if "list_ex p xs" "\<And>x. p x \<Longrightarrow> f x = c" "filter p xs = [c]"
      for p f c and xs :: "(string \<times> jtext) list"
      using that(1,3) by (induction xs) (auto simp: that(2) split: if_splits)
    from this [OF _ over here] show ?thesis
      using here by (auto simp: upsert_def [of en ix ?d] list_ex_iff dest: filter_eq_ConsD)
  qed
  with here rest keyed show ?thesis by blast
qed
definition no_admin :: inject_ext where
  "no_admin = \<lparr>ix_admin_id = ''sas-core'', ix_text = (\<lambda>_. []), ix_netloc_ok = (\<lambda>_. True)\<rparr>"

definition two_fss_db :: db where
  "two_fss_db = empty_db\<lparr>db_injected :=
     [(''fss'', json_dumps (PDict [(''id'', PStr ''fss-1''), (''ttc'', PBool False)])),
      (''fss'', json_dumps (PDict [(''id'', PStr ''fss-2'')]))]\<rparr>"

lemma injected_record_replaces_witness:
  "db_injected (upsert example_env no_admin two_fss_db ''fss'' [(''id'', PStr ''fss-1'')] (Some ''fss-1''))
     = [(''fss'', json_dumps (PDict [(''id'', PStr ''fss-1'')])), (''fss'', json_dumps (PDict [(''id'', PStr ''fss-2'')]))]
   \<and> one_row_per_key example_env no_admin
       (upsert example_env no_admin two_fss_db ''fss'' [(''id'', PStr ''fss-1'')] (Some ''fss-1'')) ''fss''"
proof -
  have key: "natural_key example_env no_admin ''fss'' p = (if dget p ''id'' \<noteq> PNone then Some (py_str example_env (dget p ''id'')) else None)"
    if "dget p ''record'' = PNone" for p
    using that by (simp add: natural_key_def)
  have "one_row_per_key example_env no_admin two_fss_db ''fss''"
    by (simp add: one_row_per_key_def two_fss_db_def has_key_def row_dict_def key dget_def)
  moreover have "natural_key example_env no_admin ''fss'' [(''id'', PStr ''fss-1'')] = Some ''fss-1''"
    by (simp add: key dget_def)
  ultimately have "one_row_per_key example_env no_admin
      (upsert example_env no_admin two_fss_db ''fss'' [(''id'', PStr ''fss-1'')] (Some ''fss-1'')) ''fss''"
    using injected_record_replaces [of example_env no_admin two_fss_db "''fss''" "[(''id'', PStr ''fss-1'')]" "''fss-1''"]
    by blast
  then show ?thesis
    by (simp add: two_fss_db_def upsert_def has_key_def row_dict_def key dget_def)
qed

end
