(* ===== verification/ProtectionPoints.thy ===== *)
theory ProtectionPoints
  imports Neighborhood IapGrants AdminInjection
begin

text \<open>
  The protection points of the interference allocation (services/iap/protection_points.py): one
  or two points per FSS site, one per GWPZ, per PPA with a resolvable PAL and per ESC sensor, built
  from the injected payloads, and the records the coordination freezes. The band edges of the
  active spectrum profile are an argument. Malformed entities raise \<open>ProtectionEntityError\<close>.
  A frozen record is the document of its payload; the order of its keys is not kept apart.
\<close>

type_synonym band = "int \<times> int"

record iap_threshold_profile =
  th_esc :: real
  th_fss_cochannel :: real
  th_fss_blocking :: real
  th_ppa :: real
  th_gwpz :: real
  th_margin :: real

definition default_thresholds :: iap_threshold_profile where
  "default_thresholds = \<lparr>th_esc = - 109, th_fss_cochannel = - 129, th_fss_blocking = - 60,
     th_ppa = - 80, th_gwpz = - 80, th_margin = 1\<rparr>"

definition ESC_PASSBAND_LOW_HZ :: int where "ESC_PASSBAND_LOW_HZ = 3550000000"
definition ESC_PASSBAND_HIGH_HZ :: int where "ESC_PASSBAND_HIGH_HZ = 3680000000"
definition FSS_TTC_LOW_HZ :: int where "FSS_TTC_LOW_HZ = 3700000000"
definition FSS_TTC_HIGH_HZ :: int where "FSS_TTC_HIGH_HZ = 4200000000"
definition NEIGHBORHOOD_GWPZ_KM :: real where "NEIGHBORHOOD_GWPZ_KM = 40"
definition NEIGHBORHOOD_PPA_KM :: real where "NEIGHBORHOOD_PPA_KM = 40"
definition NEIGHBORHOOD_FSS_COCHANNEL_KM :: real where "NEIGHBORHOOD_FSS_COCHANNEL_KM = 150"
definition NEIGHBORHOOD_FSS_BLOCKING_KM :: real where "NEIGHBORHOOD_FSS_BLOCKING_KM = 40"
definition NEIGHBORHOOD_ESC_KM :: real where "NEIGHBORHOOD_ESC_KM = 80"

subsection \<open>Reading the payloads\<close>

definition present :: "'a option list \<Rightarrow> 'a list" where
  "present xs = List.map_filter (\<lambda>x. x) xs"

definition clip_frequency_to_cbrs :: "band \<Rightarrow> int \<Rightarrow> int \<Rightarrow> (int \<times> int) option" where
  "clip_frequency_to_cbrs band low_hz high_hz =
     (let low = max low_hz (fst band); high = min high_hz (snd band) in
      if high \<le> low then None else Some (low, high))"

definition freq_pair :: "pyval \<Rightarrow> (int \<times> int) option" where
  "freq_pair fr = (case read_range fr of
     Some (low, high) \<Rightarrow> if high \<le> low then None else Some (low, high)
   | None \<Rightarrow> None)"

definition geometry_from_zone_blob :: "pyval \<Rightarrow> pyval res" where
  "geometry_from_zone_blob zone =
     (case zone of
        PDict z \<Rightarrow>
          (let ztype = dget z ''type'';
               inner = (\<lambda>f. if is_dict (dget f ''geometry'') then dget f ''geometry'' else PNone) in
           if \<not> hashable ztype then Inl TypeError
           else if ztype = PStr ''Polygon'' \<or> ztype = PStr ''MultiPolygon'' then Inr zone
           else if ztype = PStr ''Feature'' then Inr (inner z)
           else if ztype = PStr ''FeatureCollection''
           then (case por (dget z ''features'') (PList []) of
                   PList (PDict f # rest) \<Rightarrow> Inr (inner f)
                 | _ \<Rightarrow> Inr PNone)
           else Inr PNone)
      | _ \<Rightarrow> Inr PNone)"

text \<open>
  \<open>a == b\<close> of two lists, dictionaries (whatever their order) or scalars; numbers compare by value
  at any depth.
\<close>

fun deep_eq :: "pyval \<Rightarrow> pyval \<Rightarrow> bool" and deep_eqs :: "pyval list \<Rightarrow> pyval list \<Rightarrow> bool" where
  "deep_eq (PList xs) (PList ys) = deep_eqs xs ys"
| "deep_eq (PDict a) (PDict b) =
     ((\<forall>(k, v)\<in>set a. \<exists>(k', w)\<in>set b. k' = k \<and> deep_eq v w)
      \<and> (\<forall>(k', w)\<in>set b. \<exists>(k, v)\<in>set a. k' = k \<and> deep_eq v w))"
| "deep_eq a b = py_eq a b"
| "deep_eqs (x # xs) (y # ys) = (deep_eq x y \<and> deep_eqs xs ys)"
| "deep_eqs xs ys = (xs = [] \<and> ys = [])"

text \<open>
  A vertex adds its longitude, then its latitude: one with a bad latitude has added its longitude
  only (\<open>polygon_representative_point\<close> of services/dpa_protection.py).
\<close>

definition add_vertex :: "real list \<times> real list \<Rightarrow> pyval \<Rightarrow> real list \<times> real list" where
  "add_vertex acc pt =
     (case pt of
        PList (x # y # rest) \<Rightarrow>
          (case py_float x of
             Inl _ \<Rightarrow> acc
           | Inr lon \<Rightarrow> (case py_float y of
               Inl _ \<Rightarrow> (fst acc @ [lon], snd acc)
             | Inr lat \<Rightarrow> (fst acc @ [lon], snd acc @ [lat])))
      | _ \<Rightarrow> acc)"

definition ring_mean :: "pyval list \<Rightarrow> (real \<times> real) option res" where
  "ring_mean ring =
     (case foldl add_vertex ([], []) (if deep_eq (hd ring) (last ring) then butlast ring else ring) of
        (lons, lats) \<Rightarrow>
          if lons = [] then Inr None
          else if lats = [] then Inl ZeroDivisionError
          else Inr (Some (sum_list lats / real (length lats), sum_list lons / real (length lons))))"

definition outer_ring :: "pydict \<Rightarrow> pyval" where
  "outer_ring g =
     (case (dget g ''type'', dget g ''coordinates'') of
        (PStr t, PList (first # rest)) \<Rightarrow>
          if t = ''Polygon'' then first
          else if t = ''MultiPolygon'' then (case first of PList (ring # holes) \<Rightarrow> ring | _ \<Rightarrow> PNone)
          else PNone
      | _ \<Rightarrow> PNone)"

definition point_geometry :: "pydict \<Rightarrow> (real \<times> real) option option" where
  "point_geometry g =
     (case (dget g ''type'', dget g ''coordinates'') of
        (PStr t, PList (x # y # rest)) \<Rightarrow>
          if t = ''Point''
          then Some (case (py_float x, py_float y) of (Inr lon, Inr lat) \<Rightarrow> Some (lat, lon) | _ \<Rightarrow> None)
          else None
      | _ \<Rightarrow> None)"

definition polygon_representative_point :: "pyval \<Rightarrow> (real \<times> real) option res" where
  "polygon_representative_point geometry =
     (case geometry of
        PDict g \<Rightarrow>
          (case point_geometry g of
             Some p \<Rightarrow> Inr p
           | None \<Rightarrow> (case outer_ring g of
               PList ring \<Rightarrow> if length ring < 3 then Inr None else ring_mean ring
             | _ \<Rightarrow> Inr None))
      | _ \<Rightarrow> Inr None)"

definition point_from_installation :: "pyval \<Rightarrow> (real \<times> real) option" where
  "point_from_installation inst =
     (case inst of
        PDict i \<Rightarrow>
          (case (try_float (dget i ''latitude''), try_float (dget i ''longitude'')) of
             (Some lat, Some lon) \<Rightarrow>
               if - 90 \<le> lat \<and> lat \<le> 90 \<and> - 180 \<le> lon \<and> lon \<le> 180 then Some (lat, lon) else None
           | _ \<Rightarrow> None)
      | _ \<Rightarrow> None)"

text \<open>\<open>payload["record"]\<close> when it is a dictionary, else the payload itself.\<close>

definition record_or_self :: "pydict \<Rightarrow> pydict" where
  "record_or_self payload = (case dget payload ''record'' of PDict r \<Rightarrow> r | _ \<Rightarrow> payload)"

text \<open>\<open>str(v or dflt).strip() or dflt\<close>.\<close>

definition strip_or :: "env \<Rightarrow> pyval \<Rightarrow> string \<Rightarrow> string" where
  "strip_or en v dflt =
     (let s = py_strip (py_str en (por v (PStr dflt))) in if s = [] then dflt else s)"

text \<open>\<open>isinstance(blob, dict) and ("lowFrequency" in blob or "highFrequency" in blob)\<close>.\<close>

definition names_range :: "pyval \<Rightarrow> bool" where
  "names_range blob = (case blob of PDict b \<Rightarrow> dhas b ''lowFrequency'' \<or> dhas b ''highFrequency'' | _ \<Rightarrow> False)"

subsection \<open>FSS sites\<close>

definition parse_fss_ttc :: "pydict \<Rightarrow> bool option res" where
  "parse_fss_ttc payload =
     (if \<not> dhas payload ''ttc'' then Inr None
      else (case dget payload ''ttc'' of
        PBool b \<Rightarrow> Inr (Some b)
      | PInt i \<Rightarrow> Inr (Some (i \<noteq> 0))
      | PFloat r \<Rightarrow> Inr (Some (r \<noteq> 0))
      | PStr s \<Rightarrow>
          (let text = py_upper (py_strip s) in
           if text \<in> {''TRUE'', ''1'', ''YES'', ''ON''} then Inr (Some True)
           else if text \<in> {''FALSE'', ''0'', ''NO'', ''OFF''} then Inr (Some False)
           else Inl ProtectionEntityError)
      | _ \<Rightarrow> Inl ProtectionEntityError))"

definition fss_record_and_loc_freq :: "pydict \<Rightarrow> (pydict \<times> (real \<times> real) \<times> int \<times> int) option res" where
  "fss_record_and_loc_freq payload =
     (let record = record_or_self payload in
      case dget record ''deploymentParam'' of
        PList (PDict first # deps) \<Rightarrow>
          rbind (pget (por (dget first ''operationParam'') (PDict [])) ''operationFrequencyRange'') (\<lambda>blob.
            if names_range blob
            then (case freq_pair blob of
                    None \<Rightarrow> Inl ProtectionEntityError
                  | Some fr \<Rightarrow> Inr (map_option (\<lambda>loc. (record, loc, fr))
                                     (point_from_installation (dget first ''installationParam''))))
            else Inr None)
      | _ \<Rightarrow> Inr None)"

definition fss_point :: "iap_threshold_profile \<Rightarrow> entity_kind \<Rightarrow> string \<Rightarrow> (real \<times> real) \<Rightarrow> int \<Rightarrow> int
    \<Rightarrow> protection_point" where
  "fss_point profile kind point_id loc low high =
     \<lparr>pp_id = (if kind = FSS_COCHANNEL then ''fss-cc:'' else ''fss-bl:'') @ point_id,
      pp_lat = fst loc, pp_lon = snd loc, pp_low = low, pp_high = high,
      pp_threshold_dbm = (if kind = FSS_COCHANNEL then th_fss_cochannel profile else th_fss_blocking profile),
      pp_kind = kind, pp_margin_db = th_margin profile,
      pp_neighborhood_km = Some (if kind = FSS_COCHANNEL then NEIGHBORHOOD_FSS_COCHANNEL_KM
                                 else NEIGHBORHOOD_FSS_BLOCKING_KM),
      pp_source = Some point_id, pp_rx_height_m = None, pp_rx_azimuth = None, pp_rx_gains = None\<rparr>"

definition fss_cochannel_points :: "iap_threshold_profile \<Rightarrow> band \<Rightarrow> string \<Rightarrow> (real \<times> real) \<Rightarrow> int \<Rightarrow> int
    \<Rightarrow> protection_point list" where
  "fss_cochannel_points profile band point_id loc fss_low fss_high =
     (if snd band \<le> fss_high \<and> fss_low < snd band
      then present [map_option (\<lambda>(low, high). fss_point profile FSS_COCHANNEL point_id loc low high)
                      (clip_frequency_to_cbrs band (max fss_low (fst band)) (snd band))]
      else [])"

definition fss_blocking_points :: "iap_threshold_profile \<Rightarrow> band \<Rightarrow> string \<Rightarrow> (real \<times> real) \<Rightarrow> int
    \<Rightarrow> protection_point list" where
  "fss_blocking_points profile band point_id loc fss_low =
     (if fst band < fss_low \<and> fst band < min fss_low (snd band)
      then [fss_point profile FSS_BLOCKING point_id loc (fst band) (min fss_low (snd band))] else [])"

definition protection_points_from_fss_payload ::
    "env \<Rightarrow> band \<Rightarrow> iap_threshold_profile \<Rightarrow> pydict \<Rightarrow> protection_point list res" where
  "protection_points_from_fss_payload en band profile payload =
     rbind (fss_record_and_loc_freq payload) (\<lambda>parsed.
       case parsed of
         None \<Rightarrow> Inr []
       | Some (record, loc, fss_low, fss_high) \<Rightarrow>
           if fss_low \<le> 0 \<or> fss_high \<le> fss_low then Inl ProtectionEntityError
           else rbind (parse_fss_ttc payload) (\<lambda>ttc.
             let point_id = strip_or en (dget record ''id'') ''fss'';
                 cochannel = fss_cochannel_points profile band point_id loc fss_low fss_high;
                 entirely_ttc_band = (FSS_TTC_LOW_HZ \<le> fss_low \<and> fss_high \<le> FSS_TTC_HIGH_HZ) in
             if entirely_ttc_band \<and> ttc = Some False then Inr cochannel
             else if entirely_ttc_band \<and> ttc = None then Inl ProtectionEntityError
             else Inr (cochannel @ fss_blocking_points profile band point_id loc fss_low)))"

subsection \<open>Grandfathered wireless zones\<close>

definition area_point :: "iap_threshold_profile \<Rightarrow> entity_kind \<Rightarrow> string \<Rightarrow> (real \<times> real) \<Rightarrow> int \<times> int
    \<Rightarrow> protection_point" where
  "area_point profile kind point_id loc edges =
     \<lparr>pp_id = (if kind = GWPZ then ''gwpz:'' else ''ppa:'') @ point_id,
      pp_lat = fst loc, pp_lon = snd loc, pp_low = fst edges, pp_high = snd edges,
      pp_threshold_dbm = (if kind = GWPZ then th_gwpz profile else th_ppa profile),
      pp_kind = kind, pp_margin_db = th_margin profile,
      pp_neighborhood_km = Some (if kind = GWPZ then NEIGHBORHOOD_GWPZ_KM else NEIGHBORHOOD_PPA_KM),
      pp_source = None, pp_rx_height_m = None, pp_rx_azimuth = None, pp_rx_gains = None\<rparr>"

definition wisp_range :: "band \<Rightarrow> pydict \<Rightarrow> (int \<times> int) res" where
  "wisp_range band record =
     rbind (case dget record ''deploymentParam'' of
              PList (PDict first # deps) \<Rightarrow>
                rbind (pget (por (dget first ''operationParam'') (PDict [])) ''operationFrequencyRange'')
                  (\<lambda>fr. Inr (freq_pair fr))
            | _ \<Rightarrow> Inr None) (\<lambda>fr.
       Inr (case fr of Some r \<Rightarrow> r | None \<Rightarrow> (max (fst band) 3650000000, snd band)))"

definition protection_point_from_wisp_payload ::
    "env \<Rightarrow> band \<Rightarrow> iap_threshold_profile \<Rightarrow> pydict \<Rightarrow> protection_point option res" where
  "protection_point_from_wisp_payload en band profile payload =
     (case dget payload ''record'' of
        PDict record \<Rightarrow>
          rbind (geometry_from_zone_blob (dget payload ''zone'')) (\<lambda>geom.
          rbind (polygon_representative_point geom) (\<lambda>loc.
            case loc of
              None \<Rightarrow> Inr None
            | Some p \<Rightarrow>
                rbind (wisp_range band record) (\<lambda>fr.
                  Inr (map_option (area_point profile GWPZ (strip_or en (dget record ''id'') ''gwpz'') p)
                         (clip_frequency_to_cbrs band (fst fr) (snd fr))))))
      | _ \<Rightarrow> Inr None)"

subsection \<open>PAL protection areas\<close>

definition or_else :: "'a option \<Rightarrow> 'a option \<Rightarrow> 'a option" where
  "or_else x y = (case x of Some a \<Rightarrow> Some a | None \<Rightarrow> y)"

definition range_key :: "pydict \<Rightarrow> (int \<times> int) option" where
  "range_key d = freq_pair (dget d ''operationFrequencyRange'')"

definition pal_freq_from_record :: "pydict \<Rightarrow> (int \<times> int) option" where
  "pal_freq_from_record pal =
     or_else (case por (dget pal ''channelAssignment'') (PDict []) of
                PDict channel \<Rightarrow>
                  or_else (case dget channel ''primaryAssignment'' of
                             PDict primary \<Rightarrow> or_else (range_key primary) (freq_pair (PDict primary))
                           | _ \<Rightarrow> None)
                    (range_key channel)
              | _ \<Rightarrow> None)
       (or_else (case dget pal ''palBlock'' of PDict block \<Rightarrow> freq_pair (PDict block) | _ \<Rightarrow> None)
          (range_key pal))"

definition index_pals :: "env \<Rightarrow> pyval list \<Rightarrow> (string \<times> pydict) list res" where
  "index_pals en pals =
     rfold (\<lambda>out pal. case pal of
         PDict p \<Rightarrow>
           rbind (if truthy (dget p ''palId'') then Inr (dget p ''palId'')
                  else pget (por (dget p ''record'') (PDict [])) ''palId'') (\<lambda>pid.
             Inr (if truthy pid then AList.update (py_str en pid) p out else out))
       | _ \<Rightarrow> Inr out) [] pals"

definition zone_pal_ranges :: "env \<Rightarrow> (string \<times> pydict) list \<Rightarrow> pydict \<Rightarrow> (int \<times> int) list res" where
  "zone_pal_ranges en pals record =
     rbind (pget (por (dget record ''ppaInfo'') (PDict [])) ''palId'') (\<lambda>pal_ids.
       Inr (case por pal_ids (PList []) of
              PList ids \<Rightarrow> List.map_filter
                (\<lambda>i. Option.bind (map_of pals (py_str en i)) pal_freq_from_record) ids
            | _ \<Rightarrow> []))"

definition protection_point_from_zone_payload ::
    "env \<Rightarrow> band \<Rightarrow> iap_threshold_profile \<Rightarrow> (string \<times> pydict) list \<Rightarrow> pydict
      \<Rightarrow> protection_point option res" where
  "protection_point_from_zone_payload en band profile pals payload =
     (let record = record_or_self payload in
      if dget record ''terminated'' = PBool True then Inr None
      else if dget record ''usage'' \<noteq> PStr ''PPA'' \<and> \<not> dhas record ''ppaInfo'' then Inr None
      else rbind (geometry_from_zone_blob (dget record ''zone'')) (\<lambda>geom.
           rbind (polygon_representative_point geom) (\<lambda>loc.
             case loc of
               None \<Rightarrow> Inr None
             | Some p \<Rightarrow>
                 rbind (zone_pal_ranges en pals record) (\<lambda>ranges.
                   if ranges = [] then Inr None
                   else Inr (map_option (area_point profile PPA (strip_or en (dget record ''id'') ''ppa'') p)
                          (clip_frequency_to_cbrs band (Min (fst ` set ranges)) (Max (snd ` set ranges))))))))"

subsection \<open>ESC sensors\<close>

text \<open>The 360 gains by angle; an angle never written stays \<open>None\<close> (the code's NaN).\<close>

definition add_gain :: "real option list \<Rightarrow> pyval \<Rightarrow> real option list res" where
  "add_gain gains entry =
     (case entry of
        PDict e \<Rightarrow>
          (case (rbind (pykey (PDict e) ''angle'') py_int, rbind (pykey (PDict e) ''gain'') py_float) of
             (Inr angle, Inr gain) \<Rightarrow>
               if angle < 0 \<or> 359 < angle then Inl ProtectionEntityError
               else Inr (gains[nat angle := Some gain])
           | _ \<Rightarrow> Inl ProtectionEntityError)
      | _ \<Rightarrow> Inl ProtectionEntityError)"

definition esc_gain_pattern_from_install :: "pydict \<Rightarrow> real list res" where
  "esc_gain_pattern_from_install install =
     (case dget install ''azimuthRadiationPattern'' of
        PList raw \<Rightarrow>
          if raw = [] then Inl ProtectionEntityError
          else rbind (rfold add_gain (replicate 360 None) raw) (\<lambda>gains.
                 if None \<in> set gains then Inl ProtectionEntityError else Inr (map the gains))
      | _ \<Rightarrow> Inl ProtectionEntityError)"

definition esc_installation :: "pydict \<Rightarrow> pydict option" where
  "esc_installation record =
     (case dget record ''installationParam'' of
        PDict i \<Rightarrow> Some i
      | _ \<Rightarrow> (case dget record ''deploymentParam'' of
                PList (PDict first # deps) \<Rightarrow> dict_of (dget first ''installationParam'')
              | _ \<Rightarrow> None))"

text \<open>The first blob that names an edge is the range; a bad one raises, none at all is the passband.\<close>

definition esc_range :: "pydict \<Rightarrow> (int \<times> int) res" where
  "esc_range record =
     (case List.find (\<lambda>key. names_range (dget record key))
             [''protectionFrequencyRange'', ''operationFrequencyRange''] of
        None \<Rightarrow> Inr (ESC_PASSBAND_LOW_HZ, ESC_PASSBAND_HIGH_HZ)
      | Some key \<Rightarrow> (case freq_pair (dget record key) of
            None \<Rightarrow> Inl ProtectionEntityError | Some fr \<Rightarrow> Inr fr))"

definition esc_point :: "iap_threshold_profile \<Rightarrow> string \<Rightarrow> (real \<times> real) \<Rightarrow> real \<Rightarrow> real \<Rightarrow> real list
    \<Rightarrow> int \<times> int \<Rightarrow> protection_point" where
  "esc_point profile rid loc height azimuth pattern edges =
     \<lparr>pp_id = ''esc:'' @ rid, pp_lat = fst loc, pp_lon = snd loc, pp_low = fst edges, pp_high = snd edges,
      pp_threshold_dbm = th_esc profile, pp_kind = ESC, pp_margin_db = th_margin profile,
      pp_neighborhood_km = Some NEIGHBORHOOD_ESC_KM, pp_source = None, pp_rx_height_m = Some height,
      pp_rx_azimuth = Some azimuth, pp_rx_gains = Some pattern\<rparr>"

definition protection_point_from_esc_sensor_record ::
    "env \<Rightarrow> band \<Rightarrow> iap_threshold_profile \<Rightarrow> string \<Rightarrow> pydict \<Rightarrow> protection_point option res" where
  "protection_point_from_esc_sensor_record en band profile record_id record =
     (case esc_installation record of
        None \<Rightarrow> Inr None
      | Some install \<Rightarrow>
          (case point_from_installation (PDict install) of
             None \<Rightarrow> Inr None
           | Some loc \<Rightarrow>
               (case (try_float (dget install ''height''), try_float (dget install ''antennaAzimuth'')) of
                  (Some height, Some azimuth) \<Rightarrow>
                    rbind (esc_gain_pattern_from_install install) (\<lambda>pattern.
                    rbind (esc_range record) (\<lambda>fr.
                      let rid = strip_or en (por (PStr record_id) (dget record ''id'')) ''esc'' in
                      Inr (map_option (esc_point profile rid loc height azimuth pattern)
                             (clip_frequency_to_cbrs band (fst fr) (snd fr)))))
                | _ \<Rightarrow> Inl ProtectionEntityError)))"

subsection \<open>Building the points\<close>

fun kind_text :: "entity_kind \<Rightarrow> string" where
  "kind_text ESC = ''esc''"
| "kind_text FSS_COCHANNEL = ''fss_cochannel''"
| "kind_text FSS_BLOCKING = ''fss_blocking''"
| "kind_text PPA = ''ppa''"
| "kind_text GWPZ = ''gwpz''"
| "kind_text GENERIC = ''generic''"

definition point_order :: "protection_point \<Rightarrow> string \<times> string \<times> int \<times> int" where
  "point_order p = (kind_text (pp_kind p), pp_id p, pp_low p, pp_high p)"

record protection_payloads =
  py_fss :: "pydict list"
  py_wisp :: "pydict list"
  py_zones :: "pydict list"
  py_esc :: "(string \<times> pydict) list"
  py_pals :: "pyval list"

definition build_protection_points_from_payloads ::
    "env \<Rightarrow> band \<Rightarrow> iap_threshold_profile \<Rightarrow> protection_payloads \<Rightarrow> protection_point list res" where
  "build_protection_points_from_payloads en band profile p =
     rbind (index_pals en (py_pals p)) (\<lambda>pals.
     rbind (rmap (protection_points_from_fss_payload en band profile) (py_fss p)) (\<lambda>fss.
     rbind (rmap (protection_point_from_wisp_payload en band profile) (py_wisp p)) (\<lambda>wisp.
     rbind (rmap (protection_point_from_zone_payload en band profile pals) (py_zones p)) (\<lambda>zones.
     rbind (rmap (\<lambda>(i, r). protection_point_from_esc_sensor_record en band profile i r) (py_esc p)) (\<lambda>esc.
       Inr (sort_key point_order (concat fss @ present wisp @ present zones @ present esc)))))))"

definition injected_records :: "db \<Rightarrow> string \<Rightarrow> pydict list" where
  "injected_records d kind = List.map_filter dict_of (load_injected_dicts d kind)"

definition esc_sensor_records :: "db \<Rightarrow> (string \<times> pydict) list" where
  "esc_sensor_records d =
     List.map_filter (\<lambda>(i, j). map_option (Pair i) (row_dict j)) (db_esc d)"

definition build_protection_points_from_db ::
    "env \<Rightarrow> band \<Rightarrow> iap_threshold_profile \<Rightarrow> db \<Rightarrow> protection_point list res" where
  "build_protection_points_from_db en band profile d =
     rbind (load_pal_records d False) (\<lambda>pals.
       build_protection_points_from_payloads en band profile
         \<lparr>py_fss = injected_records d ''fss'', py_wisp = injected_records d ''wisp'',
          py_zones = injected_records d ''zone'', py_esc = esc_sensor_records d, py_pals = pals\<rparr>)"

subsection \<open>Frozen records\<close>

text \<open>A frozen record: kind, identifier and text.\<close>

type_synonym frozen_record = "string \<times> string \<times> jtext"

fun esc_state_text :: "esc_state \<Rightarrow> string" where
  "esc_state_text CONNECTED = ''connected''"
| "esc_state_text DISCONNECTED = ''disconnected''"
| "esc_state_text ABSENT = ''absent''"
| "esc_state_text UNKNOWN = ''unknown''"
| "esc_state_text INVALID = ''invalid''"

text \<open>\<open>EscConnectivityError\<close> and an unknown state become \<open>ProtectionEntityError\<close> in the only caller.\<close>

definition parse_frozen_esc_connectivity :: "env \<Rightarrow> pyval \<Rightarrow> esc_state res" where
  "parse_frozen_esc_connectivity en payload =
     (case payload of
        PDict p \<Rightarrow>
          if dget p ''state'' = PNone then Inl ProtectionEntityError
          else (case List.find (\<lambda>s. esc_state_text s = py_str en (dget p ''state''))
                       [CONNECTED, DISCONNECTED, ABSENT, UNKNOWN, INVALID] of
                  None \<Rightarrow> Inl ProtectionEntityError | Some s \<Rightarrow> Inr s)
      | _ \<Rightarrow> Inl ProtectionEntityError)"

definition assert_frozen_esc_connectivity :: "env \<Rightarrow> frozen_record list \<Rightarrow> unit res" where
  "assert_frozen_esc_connectivity en records =
     (case List.find (\<lambda>(kind, i, j). kind = ''esc_state'') records of
        None \<Rightarrow> Inr ()
      | Some (kind, i, j) \<Rightarrow>
          (case json_loads_or_empty j of
             Inl _ \<Rightarrow> Inl ProtectionEntityError
           | Inr data \<Rightarrow> rbind (parse_frozen_esc_connectivity en data) (\<lambda>state.
               if state = INVALID \<or> state = UNKNOWN then Inl ProtectionEntityError else Inr ())))"

definition frozen_dicts :: "frozen_record list \<Rightarrow> string \<Rightarrow> (string \<times> pydict) list" where
  "frozen_dicts records kind =
     List.map_filter (\<lambda>(k, i, j). if k = kind then map_option (Pair i) (row_dict j) else None) records"

definition peer_esc_id :: "env \<Rightarrow> nat \<Rightarrow> pydict \<Rightarrow> string" where
  "peer_esc_id en idx record =
     ''peer:'' @ py_str en (por (dget record ''id'') (PStr (''peer-esc:'' @ show_nat idx)))"

definition protection_points_from_peer_esc_records ::
    "env \<Rightarrow> band \<Rightarrow> iap_threshold_profile \<Rightarrow> pydict list \<Rightarrow> protection_point list res" where
  "protection_points_from_peer_esc_records en band profile records =
     rbind (rmap (\<lambda>(idx, record). protection_point_from_esc_sensor_record en band profile
                    (peer_esc_id en idx record) record)
              (zip [0..<length records] records)) (\<lambda>ps. Inr (present ps))"

definition build_protection_points_from_frozen ::
    "env \<Rightarrow> band \<Rightarrow> iap_threshold_profile \<Rightarrow> pydict list \<Rightarrow> frozen_record list
      \<Rightarrow> protection_point list res" where
  "build_protection_points_from_frozen en band profile peer_esc records =
     rbind (assert_frozen_esc_connectivity en records) (\<lambda>_.
     rbind (build_protection_points_from_payloads en band profile
         \<lparr>py_fss = map snd (frozen_dicts records ''fss''), py_wisp = map snd (frozen_dicts records ''wisp''),
          py_zones = map snd (frozen_dicts records ''zone''), py_esc = frozen_dicts records ''esc_sensor'',
          py_pals = map (\<lambda>(i, p). PDict p) (frozen_dicts records ''pal'')\<rparr>) (\<lambda>points.
     if peer_esc = [] then Inr points
     else rbind (protection_points_from_peer_esc_records en band profile peer_esc) (\<lambda>more_points.
            Inr (sort_key point_order (points @ more_points)))))"

subsection \<open>Freezing\<close>

definition numbered :: "'a list \<Rightarrow> (nat \<times> 'a) list" where
  "numbered xs = zip [0..<length xs] xs"

definition frozen_id :: "env \<Rightarrow> string \<Rightarrow> nat \<Rightarrow> pydict \<Rightarrow> string" where
  "frozen_id en kind idx payload =
     (let record = record_or_self payload;
          record_id = py_str en (por (por (dget record ''id'') (dget record ''palId''))
                                     (por (dget payload ''palId'') (PStr []))) in
      if record_id = [] then kind @ '':'' @ show_nat idx else record_id)"

definition frozen_injected :: "env \<Rightarrow> db \<Rightarrow> string \<Rightarrow> frozen_record list" where
  "frozen_injected en d kind =
     map (\<lambda>(idx, p). (kind, frozen_id en kind idx p, json_dumps (PDict p))) (numbered (injected_records d kind))"

definition frozen_pal :: "env \<Rightarrow> nat \<times> pyval \<Rightarrow> frozen_record" where
  "frozen_pal en pal =
     (''pal'', py_str en (por (dget (or_empty_dict (snd pal)) ''palId'') (PStr (''pal:'' @ show_nat (fst pal)))),
      json_dumps (snd pal))"

definition frozen_zones :: "string \<Rightarrow> string \<Rightarrow> pyval list \<Rightarrow> frozen_record list res" where
  "frozen_zones kind prefix records =
     rmap (\<lambda>(idx, v). rbind (validate_exclusion_zone_record v) (\<lambda>_.
             Inr (kind, prefix @ show_nat idx, json_dumps v))) (numbered records)"

definition capture_exclusion_zone_records_for_freeze :: "db \<Rightarrow> frozen_record list res" where
  "capture_exclusion_zone_records_for_freeze d =
     rbind (frozen_zones ''exclusion_zone'' ''exz:'' (load_injected d ''exclusion_zone'')) (\<lambda>exz.
       if \<not> admin_flag_set d ''ntia_15_517'' then Inr exz
       else (let ntia = load_injected d ''ntia_exclusion_zones'' in
         if ntia = [] then Inl ExclusionZoneUnavailable
         else rbind (frozen_zones ''ntia_exclusion_zones'' ''ntia:'' ntia) (\<lambda>rows. Inr (exz @ rows))))"

definition capture_esc_connectivity_for_freeze :: "db \<Rightarrow> frozen_record" where
  "capture_esc_connectivity_for_freeze d =
     (let state = resolve_esc_connectivity d in
      (''esc_state'', ''connectivity'',
       json_dumps (PDict [(''state'', PStr (esc_state_text state)),
                          (''disconnected'', PBool (state = DISCONNECTED)), (''absent'', PBool (state = ABSENT))])))"

definition frozen_scheduled :: "db \<Rightarrow> frozen_record list" where
  "frozen_scheduled d =
     map (\<lambda>(idx, p). (''scheduled_dpa'', ''scheduled_dpa:'' @ show_nat idx, json_dumps (PDict p)))
       (numbered (injected_records d ''scheduled_dpa''))"

definition frozen_activation :: "env \<Rightarrow> nat \<times> pydict \<Rightarrow> frozen_record" where
  "frozen_activation en act =
     (let dpa_id = py_str en (por (dget (snd act) ''dpaId'') (PStr [])) in
      (''dpa_activation'', if dpa_id = [] then ''dpa_activation:'' @ show_nat (fst act) else dpa_id,
       json_dumps (PDict (snd act))))"

definition frozen_sensor :: "string \<times> jtext \<Rightarrow> frozen_record" where
  "frozen_sensor sensor =
     (''esc_sensor'', fst sensor, if snd sensor = JEmpty then json_dumps (PDict []) else snd sensor)"

definition record_order :: "frozen_record \<Rightarrow> string \<times> string" where
  "record_order r = (fst r, fst (snd r))"

definition capture_protection_records_for_freeze :: "env \<Rightarrow> db \<Rightarrow> frozen_record list res" where
  "capture_protection_records_for_freeze en d =
     rbind (load_pal_records d False) (\<lambda>pals.
     rbind (capture_exclusion_zone_records_for_freeze d) (\<lambda>zones.
       Inr (sort_key record_order
         (concat (map (frozen_injected en d) [''fss'', ''wisp'', ''zone'', ''gwbl''])
          @ map (frozen_pal en) (numbered pals) @ zones @ [capture_esc_connectivity_for_freeze d]
          @ frozen_scheduled d @ map (frozen_activation en) (numbered (injected_records d FLAG_DPA_ACTIVE))
          @ map frozen_sensor (db_esc d)))))"

end
