(* ===== verification/Admission.thy ===== *)
theory Admission
  imports ProtectionPoints Timestamps
begin

text \<open>
  The grant-time admission against the interference headroom (services/iap/admission.py), with the
  marker of the generation the last coordination evaluated, the request for another coordination
  (services/cpas_reevaluation.py), the exclusion of federal FSS sites (services/fss_provenance.py) and
  the resolution of points and coupling (services/mcp_protection.py). The coupling may raise; its
  factory and the switch \<open>sas_iap_enabled\<close> are arguments.
\<close>

type_synonym raising_coupling = "grant_rf \<Rightarrow> protection_point \<Rightarrow> frequency_channel \<Rightarrow> real \<Rightarrow> real res"

record iap_env =
  ie_enabled :: bool
  ie_coupling :: "raising_coupling res"
  ie_band :: band
  ie_origin :: int
  ie_thresholds :: iap_threshold_profile

subsection \<open>The proposed grant\<close>

definition PROPOSED_GRANT_ID :: string where "PROPOSED_GRANT_ID = ''__proposed__/iap_admission''"

definition cbsd_registration :: "cbsd_row \<Rightarrow> pydict" where
  "cbsd_registration c = (case row_dict (cb_reg c) of Some r \<Rightarrow> r | None \<Rightarrow> [])"

definition proposed_category :: "env \<Rightarrow> pydict \<Rightarrow> cbsd_row \<Rightarrow> string option" where
  "proposed_category en reg c =
     (let raw_cat = por (dget reg ''cbsdCategory'') (cb_category c) in
      if raw_cat = PNone \<or> raw_cat = PStr [] then None
      else (let cat = py_upper (py_strip (py_str en raw_cat)) in
            if cat = ''A'' \<or> cat = ''B'' then Some cat else None))"

definition proposed_grant_rf_info :: "env \<Rightarrow> cbsd_row \<Rightarrow> int \<Rightarrow> int \<Rightarrow> real \<Rightarrow> grant_rf res" where
  "proposed_grant_rf_info en c low_hz high_hz max_eirp =
     (let reg = cbsd_registration c in
      case dget reg ''installationParam'' of
        PDict install \<Rightarrow>
          (case (try_float_key install ''latitude'', try_float_key install ''longitude'') of
             (Some lat, Some lon) \<Rightarrow>
               (case try_float (por (dget install ''height'') (PFloat 0)) of
                  None \<Rightarrow> Inl IapAdmissionError
                | Some height \<Rightarrow> Inr
                    \<lparr>rf_grant_id = PROPOSED_GRANT_ID, rf_cbsd_id = cb_id c, rf_lat = lat, rf_lon = lon,
                     rf_height_m = height,
                     rf_height_is_agl =
                       (py_upper (py_str en (por (dget install ''heightType'') (PStr ''AGL''))) \<noteq> ''AMSL''),
                     rf_indoor = truthy (dget install ''indoorDeployment''), rf_low = low_hz,
                     rf_high = high_hz, rf_max_eirp = max_eirp, rf_managing = True, rf_pk = None,
                     rf_source = None, rf_category = proposed_category en reg c,
                     rf_azimuth = opt_ant install ''antennaAzimuth'',
                     rf_beamwidth = opt_ant install ''antennaBeamwidth'',
                     rf_gain = opt_ant install ''antennaGain''\<rparr>)
           | _ \<Rightarrow> Inl IapAdmissionError)
      | _ \<Rightarrow> Inl IapAdmissionError)"

subsection \<open>Generations\<close>

definition utc_now_iso :: "time \<Rightarrow> string" where
  "utc_now_iso t = butlast (strftime_z (trunc_sec t)) @ ''+00:00''"

record fingerprint =
  fp_peers :: pydict
  fp_injections :: pydict

definition peer_generations :: "db \<Rightarrow> pydict" where
  "peer_generations d =
     map (\<lambda>p. (show_nat (pe_pk p), case pe_last_gen p of None \<Rightarrow> PNone | Some g \<Rightarrow> PStr g))
       (sort_key pe_pk (db_peers d))"

definition current_generation_fingerprint :: "db \<Rightarrow> fingerprint" where
  "current_generation_fingerprint d =
     \<lparr>fp_peers = peer_generations d, fp_injections = int_dict (get_injection_generations d)\<rparr>"

text \<open>The newest row of the kind is overwritten.\<close>

definition put_newest :: "db \<Rightarrow> string \<Rightarrow> pyval \<Rightarrow> db" where
  "put_newest d kind v =
     (if admin_flag_set d kind
      then d\<lparr>db_injected := rev (update_first (\<lambda>(k, j). k = kind) (\<lambda>(k, j). (k, json_dumps v))
                               (rev (db_injected d)))\<rparr>
      else add_injected d kind v)"

definition record_iap_admission_generation :: "env \<Rightarrow> db \<Rightarrow> fingerprint option \<Rightarrow> db" where
  "record_iap_admission_generation en d fp =
     (let base = (case fp of Some b \<Rightarrow> b | None \<Rightarrow> current_generation_fingerprint d) in
      put_newest d ''iap_admission_generation''
        (PDict [(''peer_generations'', PDict (fp_peers base)),
                (''injection_generations'', PDict (fp_injections base)),
                (''recordedAt'', PStr (utc_now_iso (env_now en)))]))"

definition load_iap_admission_generation :: "db \<Rightarrow> pydict option" where
  "load_iap_admission_generation d =
     (case rev (rows_of_kind d ''iap_admission_generation'') of [] \<Rightarrow> None | j # older \<Rightarrow> row_dict j)"

definition mark_cpas_reevaluation_required :: "env \<Rightarrow> db \<Rightarrow> string \<Rightarrow> pydict \<Rightarrow> db" where
  "mark_cpas_reevaluation_required en d reason generation =
     set_admin_flag d ''cpas_reevaluation_required''
       (PDict [(''required'', PBool True), (''reason'', PStr reason),
               (''markedAt'', PStr (utc_now_iso (env_now en))), (''generation'', PDict generation)])"

definition clear_cpas_reevaluation_required :: "db \<Rightarrow> db" where
  "clear_cpas_reevaluation_required d = delete_kind d ''cpas_reevaluation_required''"

definition cpas_reevaluation_required :: "db \<Rightarrow> pydict option" where
  "cpas_reevaluation_required d =
     (case first_of_kind d ''cpas_reevaluation_required'' of
        None \<Rightarrow> None
      | Some j \<Rightarrow> (case row_dict j of
            Some data \<Rightarrow> if truthy (dget data ''required'') then Some data else None
          | None \<Rightarrow> None))"

definition generation_matches :: "db \<Rightarrow> pydict \<Rightarrow> bool" where
  "generation_matches d marker =
     (let live = current_generation_fingerprint d in
      deep_eq (dget marker ''peer_generations'') (PDict (fp_peers live))
      \<and> deep_eq (dget marker ''injection_generations'') (PDict (fp_injections live)))"

definition coherent_generation_available :: "db \<Rightarrow> bool" where
  "coherent_generation_available d =
     (cpas_reevaluation_required d = None
      \<and> (case load_iap_admission_generation d of None \<Rightarrow> False | Some marker \<Rightarrow> generation_matches d marker))"

definition admission_generation_indeterminate :: "db \<Rightarrow> bool" where
  "admission_generation_indeterminate d =
     (if cpas_reevaluation_required d \<noteq> None then True
      else (case load_iap_admission_generation d of None \<Rightarrow> True | Some marker \<Rightarrow> \<not> generation_matches d marker))"

subsection \<open>Headroom\<close>

record admission_channel =
  ac_point :: string
  ac_low :: int
  ac_high :: int
  ac_managing_mw :: real
  ac_peer_mw :: real
  ac_aggregate_mw :: real
  ac_threshold_mw :: real
  ac_residual_mw :: real
  ac_proposal_mw :: real
  ac_admit :: bool

record admission_decision =
  ad_allow :: bool
  ad_reason :: string
  ad_applicable :: bool
  ad_channels :: "admission_channel list"

definition HEADROOM_EPS_MW :: real where "HEADROOM_EPS_MW = 1 / 10 ^ 15"

definition nonneg_coupling :: "raising_coupling \<Rightarrow> grant_rf \<Rightarrow> protection_point \<Rightarrow> frequency_channel \<Rightarrow> real res" where
  "nonneg_coupling cpl g pt ch =
     rbind (cpl g pt ch (rf_max_eirp g)) (\<lambda>mw. if mw < 0 then Inl IapAdmissionError else Inr mw)"

definition add_baseline :: "raising_coupling \<Rightarrow> protection_point \<Rightarrow> frequency_channel \<Rightarrow> real \<times> real
    \<Rightarrow> grant_rf \<Rightarrow> (real \<times> real) res" where
  "add_baseline cpl pt ch acc g =
     (if \<not> grant_overlaps_channel (pp_kind pt) g ch then Inr acc
      else rbind (nonneg_coupling cpl g pt ch) (\<lambda>mw.
        Inr (if rf_managing g then (fst acc + mw, snd acc) else (fst acc, snd acc + mw))))"

definition channel_verdict :: "raising_coupling \<Rightarrow> grant_rf \<Rightarrow> grant_rf list
    \<Rightarrow> protection_point \<times> frequency_channel \<Rightarrow> admission_channel res" where
  "channel_verdict cpl proposed baseline pc =
     (case pc of (pt, ch) \<Rightarrow>
        let neighbors = grants_in_neighborhood pt (baseline @ [proposed]);
            baseline_n = filter (\<lambda>g. rf_grant_id g \<noteq> rf_grant_id proposed) neighbors;
            threshold = dbm_to_mw (apply_pre_iap_margin_db (pp_threshold_dbm pt) (pp_margin_db pt)) in
        rbind (rfold (add_baseline cpl pt ch) (0, 0) baseline_n) (\<lambda>(managing, peer).
        rbind (nonneg_coupling cpl proposed pt ch) (\<lambda>proposal.
          Inr \<lparr>ac_point = pp_id pt, ac_low = ch_low ch, ac_high = ch_high ch, ac_managing_mw = managing,
               ac_peer_mw = peer, ac_aggregate_mw = managing + peer, ac_threshold_mw = threshold,
               ac_residual_mw = threshold - (managing + peer), ac_proposal_mw = proposal,
               ac_admit = (proposal \<le> threshold - (managing + peer) + HEADROOM_EPS_MW)\<rparr>)))"

text \<open>The channels the loops come to, in their order.\<close>

definition point_channels :: "int \<Rightarrow> grant_rf \<Rightarrow> grant_rf list \<Rightarrow> protection_point
    \<Rightarrow> (protection_point \<times> frequency_channel) list" where
  "point_channels origin proposed baseline pt =
     (if list_ex (\<lambda>g. rf_grant_id g = rf_grant_id proposed) (grants_in_neighborhood pt (baseline @ [proposed]))
      then map (Pair pt) (filter (grant_overlaps_channel (pp_kind pt) proposed)
             (overlapping_iap_channels origin IAPBW_HZ (pp_low pt) (pp_high pt)))
      else [])"

definition applicable_channels :: "int \<Rightarrow> grant_rf \<Rightarrow> grant_rf list \<Rightarrow> protection_point list
    \<Rightarrow> (protection_point \<times> frequency_channel) list" where
  "applicable_channels origin proposed baseline points =
     concat (map (point_channels origin proposed baseline) points)"

text \<open>The results up to the first channel that does not admit.\<close>

fun verdicts :: "('a \<Rightarrow> admission_channel res) \<Rightarrow> 'a list \<Rightarrow> admission_channel list res" where
  "verdicts f [] = Inr []"
| "verdicts f (x # xs) = rbind (f x) (\<lambda>v.
     if ac_admit v then rbind (verdicts f xs) (\<lambda>vs. Inr (v # vs)) else Inr [v])"

definition evaluate_proposal_against_headroom :: "int \<Rightarrow> raising_coupling \<Rightarrow> grant_rf \<Rightarrow> grant_rf list
    \<Rightarrow> protection_point list \<Rightarrow> admission_decision res" where
  "evaluate_proposal_against_headroom origin cpl proposed baseline points =
     (let pairs = applicable_channels origin proposed baseline points in
      rbind (verdicts (channel_verdict cpl proposed baseline) pairs) (\<lambda>vs.
        if \<not> list_all ac_admit vs
        then Inr \<lparr>ad_allow = False, ad_reason = ''iap_headroom_exceeded'', ad_applicable = True, ad_channels = vs\<rparr>
        else if pairs = []
        then Inr \<lparr>ad_allow = True, ad_reason = ''no_applicable_iap_constraint'', ad_applicable = False,
                  ad_channels = vs\<rparr>
        else Inr \<lparr>ad_allow = True, ad_reason = ''within_iap_headroom'', ad_applicable = True,
                  ad_channels = vs\<rparr>))"

definition proposal_has_applicable_iap_constraint :: "int \<Rightarrow> grant_rf \<Rightarrow> protection_point list \<Rightarrow> bool" where
  "proposal_has_applicable_iap_constraint origin proposed points =
     (\<exists>pt\<in>set points. in_neighborhood pt proposed
        \<and> list_ex (grant_overlaps_channel (pp_kind pt) proposed)
            (overlapping_iap_channels origin IAPBW_HZ (pp_low pt) (pp_high pt)))"

subsection \<open>The points a proposal is held against\<close>

text \<open>A CBSD of a PPA's cluster list is not an interferer of that PPA.\<close>

definition cluster_refs :: "env \<Rightarrow> pydict \<Rightarrow> string list res" where
  "cluster_refs en record =
     rbind (pget (por (dget record ''ppaInfo'') (PDict [])) ''cbsdReferenceId'') (\<lambda>v.
     rbind (pyiter (por v (PList []))) (\<lambda>xs. Inr (map (py_str en) xs)))"

definition cluster_point_id :: "env \<Rightarrow> string list \<Rightarrow> pydict \<Rightarrow> string option res" where
  "cluster_point_id en refs payload =
     (let record = record_or_self payload in
      rbind (cluster_refs en record) (\<lambda>cluster.
        let rid = py_strip (py_str en (por (dget record ''id'') (PStr []))) in
        Inr (if set refs \<inter> set cluster = {} \<or> rid = [] then None else Some (''ppa:'' @ rid))))"

definition filter_points_for_proposed_cbsd ::
    "env \<Rightarrow> db \<Rightarrow> protection_point list \<Rightarrow> cbsd_row \<Rightarrow> protection_point list res" where
  "filter_points_for_proposed_cbsd en d points c =
     (if \<not> list_ex (\<lambda>p. pp_kind p = PPA) points then Inr points
      else rbind (rmap (cluster_point_id en [cb_id c, fad_cbsd_id en (cb_fcc_id c) (cb_serial c)])
                    (injected_records d ''zone'')) (\<lambda>ids.
        Inr (filter (\<lambda>p. \<not> (pp_kind p = PPA \<and> pp_id p \<in> set (present ids))) points)))"

definition fss_kind :: "entity_kind \<Rightarrow> bool" where
  "fss_kind kind = (kind = FSS_COCHANNEL \<or> kind = FSS_BLOCKING)"

definition fss_id_from_protection_point :: "protection_point \<Rightarrow> string option" where
  "fss_id_from_protection_point p =
     (case pp_source p of
        Some (c # sid) \<Rightarrow> Some (c # sid)
      | _ \<Rightarrow>
          if fss_kind (pp_kind p) \<and> (take 7 (pp_id p) = ''fss-cc:'' \<or> take 7 (pp_id p) = ''fss-bl:'')
             \<and> drop 7 (pp_id p) \<noteq> []
          then Some (drop 7 (pp_id p)) else None)"

definition exclude_federal_sync_fss_from_grant_admission ::
    "db \<Rightarrow> protection_point list \<Rightarrow> protection_point list" where
  "exclude_federal_sync_fss_from_grant_admission d points =
     (let mapping = load_fss_provenance_map d in
      filter (\<lambda>p. \<not> fss_kind (pp_kind p)
        \<or> Option.bind (fss_id_from_protection_point p) (map_of mapping) \<noteq> Some ''federal_db_sync'') points)"

definition admission_points :: "iap_env \<Rightarrow> env \<Rightarrow> db \<Rightarrow> cbsd_row \<Rightarrow> protection_point list res" where
  "admission_points ie en d c =
     rbind (build_protection_points_from_db en (ie_band ie) (ie_thresholds ie) d) (\<lambda>points.
     rbind (filter_points_for_proposed_cbsd en d points c) (\<lambda>points.
       Inr (exclude_federal_sync_fss_from_grant_admission d points)))"

subsection \<open>Points and coupling\<close>

text \<open>
  \<open>resolve_iap_context\<close>: the given points or the ones of the frozen records. Without points there
  is no coupling to resolve; a factory that raises leaves the coupling unavailable.
\<close>

datatype iap_points_source = Given "protection_point list" | Frozen "pydict list" "frozen_record list"

definition resolve_iap_points :: "iap_env \<Rightarrow> env \<Rightarrow> iap_points_source \<Rightarrow> protection_point list res" where
  "resolve_iap_points ie en src =
     (case src of
        Given points \<Rightarrow> Inr points
      | Frozen peer_esc records \<Rightarrow>
          build_protection_points_from_frozen en (ie_band ie) (ie_thresholds ie) peer_esc records)"

definition resolve_iap_context ::
    "iap_env \<Rightarrow> env \<Rightarrow> iap_points_source \<Rightarrow> (protection_point list \<times> raising_coupling option) res" where
  "resolve_iap_context ie en src =
     (if \<not> ie_enabled ie then Inr ([], None)
      else (case resolve_iap_points ie en src of
        Inl e \<Rightarrow> Inl (if e = ProtectionEntityError then IapCouplingUnavailable else e)
      | Inr points \<Rightarrow>
          if points = [] then Inr ([], None)
          else (case ie_coupling ie of
                  Inl e \<Rightarrow> Inl IapCouplingUnavailable
                | Inr cpl \<Rightarrow> Inr (points, Some cpl))))"

subsection \<open>The gate\<close>

definition other_baseline :: "grant_rf \<Rightarrow> int \<Rightarrow> int \<Rightarrow> grant_rf list \<Rightarrow> grant_rf list" where
  "other_baseline proposed low_hz high_hz baseline =
     filter (\<lambda>g. \<not> (rf_managing g \<and> rf_cbsd_id g = rf_cbsd_id proposed
                    \<and> rf_low g < high_hz \<and> low_hz < rf_high g)) baseline"

definition fails_headroom :: "iap_env \<Rightarrow> env \<Rightarrow> grant_rf \<Rightarrow> grant_rf list \<Rightarrow> protection_point list \<Rightarrow> bool" where
  "fails_headroom ie en proposed baseline points =
     (case resolve_iap_context ie en (Given points) of
        Inr (pts, Some cpl) \<Rightarrow>
          (case evaluate_proposal_against_headroom (ie_origin ie) cpl proposed baseline
                  (if pts = [] then points else pts) of
             Inr decision \<Rightarrow> \<not> ad_allow decision | Inl _ \<Rightarrow> True)
      | _ \<Rightarrow> True)"

definition applicable_violates :: "iap_env \<Rightarrow> env \<Rightarrow> db \<Rightarrow> grant_rf \<Rightarrow> int \<Rightarrow> int \<Rightarrow> protection_point list
    \<Rightarrow> bool res" where
  "applicable_violates ie en d proposed low_hz high_hz points =
     (if admission_generation_indeterminate d then Inr True
      else (case collect_peer_grants en d of
        Inl e \<Rightarrow> if e = IapAdmissionError then Inr True else Inl e
      | Inr peers \<Rightarrow>
          Inr (fails_headroom ie en proposed
                 (other_baseline proposed low_hz high_hz (collect_local_authorized_grants en d @ peers)) points)))"

definition proposed_grant_violates_iap :: "iap_env \<Rightarrow> env \<Rightarrow> db \<Rightarrow> cbsd_row \<Rightarrow> int \<Rightarrow> int \<Rightarrow> real \<Rightarrow> bool res" where
  "proposed_grant_violates_iap ie en d c low_hz high_hz max_eirp =
     (if \<not> ie_enabled ie then Inr False
      else (case admission_points ie en d c of
        Inl _ \<Rightarrow> Inr True
      | Inr points \<Rightarrow>
          if points = [] then Inr False
          else (case proposed_grant_rf_info en c low_hz high_hz max_eirp of
            Inl _ \<Rightarrow> Inr True
          | Inr proposed \<Rightarrow>
              if \<not> proposal_has_applicable_iap_constraint (ie_origin ie) proposed points then Inr False
              else applicable_violates ie en d proposed low_hz high_hz points)))"

end
