(* ===== verification/DpaProtection.thy ===== *)
theory DpaProtection
  imports Vincenty Admission Neighborhood
begin

text \<open>
  The interference protection of dynamic protection areas (services/dpa_protection.py with the path
  loss of services/propagation/rel1ext_dpa.py): path loss towards a protection point, the aggregate
  of the grants on a channel, the greedy move list, and the test of a proposed grant. The engines
  that compute the terrain model are an argument (\<open>rf_engines\<close>); a level in dBm may be minus or
  plus infinity.
\<close>

datatype level = MinusInf | Dbm real | PlusInf

record dpa_rf =
  dg_grant_id :: string
  dg_cbsd_id :: string
  dg_lat :: real
  dg_lon :: real
  dg_height :: real
  dg_is_agl :: bool
  dg_indoor :: bool
  dg_low :: int
  dg_high :: int
  dg_eirp :: real
  dg_managing :: bool
  dg_category :: string

record point_interference =
  pi_grant_id :: string
  pi_dbm :: real
  pi_mw :: real
  pi_loss :: real

type_synonym path_loss_fn = "dpa_rf \<Rightarrow> real \<Rightarrow> real \<Rightarrow> real \<Rightarrow> real res"
type_synonym elevation_fn = "real \<Rightarrow> real \<Rightarrow> real res"

record rf_engines =
  en_itm_loss :: path_loss_fn
  en_terrain :: elevation_fn

definition DEFAULT_DPA_MARGIN_DB :: real where "DEFAULT_DPA_MARGIN_DB = 0"
definition FREQ_MHZ_DEFAULT :: real where "FREQ_MHZ_DEFAULT = 3625"

subsection \<open>Path loss\<close>

definition F_2108_GHZ :: real where "F_2108_GHZ = 36 / 10"
definition P2108_LOSS_2KM_DB :: real where "P2108_LOSS_2KM_DB = 3050030179 / 10 ^ 8"
definition CLUTTER_TX_AGL_MAX_M :: real where "CLUTTER_TX_AGL_MAX_M = 6"
definition CLUTTER_DISTANCE_MIN_KM :: real where "CLUTTER_DISTANCE_MIN_KM = 1 / 4"
definition CLUTTER_DISTANCE_CAP_KM :: real where "CLUTTER_DISTANCE_CAP_KM = 2"
definition ACTIVITY_LOSS_FACTOR_DB :: real where "ACTIVITY_LOSS_FACTOR_DB = 8"

definition compose_dpa_pathloss_db :: "real \<Rightarrow> real \<Rightarrow> real \<Rightarrow> real" where
  "compose_dpa_pathloss_db itm_db clutter_db activity_loss_db = itm_db + clutter_db + activity_loss_db"

text \<open>The statistical clutter between the two distances.\<close>

definition statistical_clutter_db :: "real \<Rightarrow> real" where
  "statistical_clutter_db distance_km =
     (let l_l = - 2 * log 10 (10 powr (- 5 * log 10 F_2108_GHZ - 125 / 10) + 10 powr (- 165 / 10));
          l_s = 3298 / 100 + 239 / 10 * log 10 distance_km + 3 * log 10 F_2108_GHZ in
      - 5 * log 10 (10 powr (- (2 / 10) * l_l) + 10 powr (- (2 / 10) * l_s)))"

definition calc_p2108_clutter_db ::
    "real \<Rightarrow> real \<Rightarrow> real \<Rightarrow> real \<Rightarrow> real \<Rightarrow> bool \<Rightarrow> elevation_fn option \<Rightarrow> real res" where
  "calc_p2108_clutter_db lat_cbsd lon_cbsd height_cbsd lat_rx lon_rx amsl terrain =
     rbind (if amsl then (case terrain of
              None \<Rightarrow> Inl ValueError
            | Some elevation \<Rightarrow> rbind (elevation lat_cbsd lon_cbsd) (\<lambda>ground. Inr (height_cbsd - ground)))
            else Inr height_cbsd) (\<lambda>height_agl.
       if height_agl > CLUTTER_TX_AGL_MAX_M then Inr 0
       else rbind (geodesic_distance_km lat_cbsd lon_cbsd lat_rx lon_rx) (\<lambda>distance_km.
         Inr (if distance_km < CLUTTER_DISTANCE_MIN_KM then 0
              else if distance_km \<ge> CLUTTER_DISTANCE_CAP_KM then P2108_LOSS_2KM_DB
              else statistical_clutter_db distance_km)))"

definition free_space_path_loss_db :: "real \<Rightarrow> real \<Rightarrow> real \<Rightarrow> real \<Rightarrow> real res" where
  "free_space_path_loss_db lat_tx lon_tx lat_rx lon_rx =
     rbind (geodesic_distance_km lat_tx lon_tx lat_rx lon_rx) (\<lambda>d.
       Inr (20 * log 10 (max d (1 / 10 ^ 6)) + 20 * log 10 FREQ_MHZ_DEFAULT + 3244 / 100))"

datatype loss_model = ITM_REL1EXT | FREE_SPACE

text \<open>
  The height above ground that the free space branch computes is not used by its formula, but
  reading the terrain may fail.
\<close>

definition free_space_median :: "dpa_rf \<Rightarrow> real \<Rightarrow> real \<Rightarrow> elevation_fn option \<Rightarrow> real res" where
  "free_space_median g lat_rx lon_rx terrain =
     rbind (if dg_is_agl g then Inr 0
            else (case terrain of None \<Rightarrow> Inl TypeError | Some elevation \<Rightarrow> elevation (dg_lat g) (dg_lon g)))
       (\<lambda>_. free_space_path_loss_db (dg_lat g) (dg_lon g) lat_rx lon_rx)"

definition rel1ext_dpa_path_loss_db ::
    "dpa_rf \<Rightarrow> real \<Rightarrow> real \<Rightarrow> real option \<Rightarrow> loss_model \<Rightarrow> elevation_fn option \<Rightarrow> real res" where
  "rel1ext_dpa_path_loss_db g lat_rx lon_rx median mdl terrain =
     (if \<not> dg_is_agl g \<and> terrain = None then Inl PropagationUnavailableError
      else rbind (case median of
               Some m \<Rightarrow> Inr m
             | None \<Rightarrow> if mdl = FREE_SPACE then free_space_median g lat_rx lon_rx terrain
                       else Inl PropagationUnavailableError) (\<lambda>m.
        rbind (calc_p2108_clutter_db (dg_lat g) (dg_lon g) (dg_height g) lat_rx lon_rx
                 (\<not> dg_is_agl g) terrain) (\<lambda>clutter.
          Inr (compose_dpa_pathloss_db m clutter ACTIVITY_LOSS_FACTOR_DB))))"

text \<open>Any failure of an engine is \<open>DpaPathLossUnavailable\<close>.\<close>

definition unavailable_on_error :: "'a res \<Rightarrow> 'a res" where
  "unavailable_on_error r = (case r of Inl _ \<Rightarrow> Inl PropagationUnavailableError | Inr x \<Rightarrow> Inr x)"

definition wrap_terrain_elevation_backend :: "elevation_fn option \<Rightarrow> elevation_fn option" where
  "wrap_terrain_elevation_backend = map_option (\<lambda>elevation lat lon. unavailable_on_error (elevation lat lon))"

definition make_path_loss_fn :: "loss_model \<Rightarrow> path_loss_fn option \<Rightarrow> elevation_fn option \<Rightarrow> path_loss_fn" where
  "make_path_loss_fn mdl itm terrain g lat_rx lon_rx height_rx =
     (let terrain' = wrap_terrain_elevation_backend terrain in
      if mdl = FREE_SPACE then rel1ext_dpa_path_loss_db g lat_rx lon_rx None FREE_SPACE terrain'
      else (case itm of
              None \<Rightarrow> Inl PropagationUnavailableError
            | Some median \<Rightarrow> rbind (median g lat_rx lon_rx height_rx) (\<lambda>m.
                rel1ext_dpa_path_loss_db g lat_rx lon_rx (Some m) ITM_REL1EXT terrain')))"

definition load_rel1ext_backends :: "rf_engines res \<Rightarrow> (path_loss_fn \<times> elevation_fn) res" where
  "load_rel1ext_backends engines =
     rbind engines (\<lambda>e. Inr (\<lambda>g lat lon h. unavailable_on_error (en_itm_loss e g lat lon h),
                            \<lambda>lat lon. unavailable_on_error (en_terrain e lat lon)))"

definition default_rel1ext_path_loss_fn :: "rf_engines res \<Rightarrow> path_loss_fn res" where
  "default_rel1ext_path_loss_fn engines =
     (case load_rel1ext_backends engines of
        Inl PropagationUnavailableError \<Rightarrow> Inr (\<lambda>_ _ _ _. Inl PropagationUnavailableError)
      | Inl e \<Rightarrow> Inl e
      | Inr (itm, terrain) \<Rightarrow> Inr (make_path_loss_fn ITM_REL1EXT (Some itm) (Some terrain)))"

subsection \<open>Interference at the protection point\<close>

definition cochannel_eirp_dbm :: "dpa_rf \<Rightarrow> int \<Rightarrow> int \<Rightarrow> level" where
  "cochannel_eirp_dbm g low_hz high_hz =
     (let overlap_hz = max 0 (min (dg_high g) high_hz - max (dg_low g) low_hz) in
      if overlap_hz \<le> 0 then MinusInf
      else Dbm (dg_eirp g + 10 * log 10 (of_int overlap_hz / 10 ^ 6)))"

definition interference_dbm_at_point ::
    "path_loss_fn \<Rightarrow> dpa_rf \<Rightarrow> real \<Rightarrow> real \<Rightarrow> real \<Rightarrow> int \<Rightarrow> int \<Rightarrow> point_interference option res" where
  "interference_dbm_at_point fn g lat_rx lon_rx height_rx low_hz high_hz =
     (if dg_low g \<ge> high_hz \<or> dg_high g \<le> low_hz then Inr None
      else rbind (fn g lat_rx lon_rx height_rx) (\<lambda>loss.
        Inr (case cochannel_eirp_dbm g low_hz high_hz of
               Dbm eirp \<Rightarrow> Some \<lparr>pi_grant_id = dg_grant_id g, pi_dbm = eirp - loss,
                                pi_mw = dbm_to_mw (eirp - loss), pi_loss = loss\<rparr>
             | _ \<Rightarrow> None)))"

definition mw_to_dbm :: "real \<Rightarrow> level" where
  "mw_to_dbm mw = (if mw \<le> 0 then MinusInf else Dbm (10 * log 10 mw))"

fun level_le :: "level \<Rightarrow> real \<Rightarrow> bool" where
  "level_le MinusInf bound = True"
| "level_le (Dbm x) bound = (x \<le> bound)"
| "level_le PlusInf bound = False"

definition total_mw :: "point_interference list \<Rightarrow> real" where
  "total_mw contributions = sum_list (map (\<lambda>c. max 0 (pi_mw c)) contributions)"

definition aggregate_within_threshold :: "point_interference list \<Rightarrow> real \<Rightarrow> real \<Rightarrow> level \<times> bool" where
  "aggregate_within_threshold contributions threshold_dbm margin_db =
     (let agg = mw_to_dbm (total_mw contributions) in
      (agg, level_le agg (threshold_dbm + margin_db + 1 / 10 ^ 12)))"

text \<open>The loop takes the strongest interferer off until the rest is within the threshold.\<close>

fun movelist_loop :: "real \<Rightarrow> real \<Rightarrow> point_interference list \<Rightarrow> string list" where
  "movelist_loop threshold_dbm margin_db [] = []"
| "movelist_loop threshold_dbm margin_db (victim # remaining) =
     (if snd (aggregate_within_threshold (victim # remaining) threshold_dbm margin_db) then []
      else pi_grant_id victim # movelist_loop threshold_dbm margin_db remaining)"

definition build_movelist :: "point_interference list \<Rightarrow> real \<Rightarrow> real \<Rightarrow> string list" where
  "build_movelist contributions threshold_dbm margin_db =
     movelist_loop threshold_dbm margin_db (sort_key (\<lambda>c. - pi_mw c) contributions)"

definition overlapping_grants :: "protected_channel \<Rightarrow> dpa_rf list \<Rightarrow> dpa_rf list" where
  "overlapping_grants p grants = filter (\<lambda>g. dg_low g < pc_high p \<and> dg_high g > pc_low p) grants"

definition channel_interference ::
    "path_loss_fn \<Rightarrow> protected_channel \<Rightarrow> real \<times> real \<Rightarrow> dpa_rf list \<Rightarrow> point_interference list res" where
  "channel_interference fn p pt grants =
     rbind (rmap (\<lambda>g. interference_dbm_at_point fn g (fst pt) (snd pt) (pc_ref_height p) (pc_low p) (pc_high p)) grants)
       (\<lambda>hits. Inr (present hits))"

text \<open>
  A channel whose protection point or whose path loss cannot be computed counts as over the
  threshold, with every overlapping grant on the list.
\<close>

definition evaluate_protected_channel ::
    "path_loss_fn res \<Rightarrow> protected_channel \<Rightarrow> dpa_rf list
      \<Rightarrow> (point_interference list \<times> string list \<times> level \<times> bool) res" where
  "evaluate_protected_channel path_loss p grants =
     (let overlapping = overlapping_grants p grants;
          closed = ([], map dg_grant_id overlapping, PlusInf, False);
          th = pc_threshold p in
      rbind (polygon_representative_point (pc_geometry p)) (\<lambda>pt.
        case pt of
          None \<Rightarrow> Inr closed
        | Some latlon \<Rightarrow> rbind path_loss (\<lambda>fn.
            case channel_interference fn p latlon overlapping of
              Inl e \<Rightarrow> if e = PropagationUnavailableError then Inr closed else Inl e
            | Inr contribs \<Rightarrow>
                (case aggregate_within_threshold contribs th DEFAULT_DPA_MARGIN_DB of
                   (agg, ok) \<Rightarrow> Inr (contribs, build_movelist contribs th DEFAULT_DPA_MARGIN_DB, agg, ok)))))"

subsection \<open>Neighbourhood membership\<close>

definition category_or_A :: "string \<Rightarrow> string" where
  "category_or_A cat = (if cat = ''A'' \<or> cat = ''B'' then cat else ''A'')"

definition boundary_m :: "real option \<Rightarrow> real" where
  "boundary_m radius_km = (case radius_km of None \<Rightarrow> 0 | Some r \<Rightarrow> r * 1000)"

text \<open>The category of the registration, of the row, or of the fallback.\<close>

definition row_category :: "env \<Rightarrow> cbsd_row \<Rightarrow> string \<Rightarrow> string" where
  "row_category en c fallback =
     (let of_row = (if truthy (cb_category c) then py_upper (py_str en (cb_category c)) else fallback) in
      case json_loads_or_empty (cb_reg c) of
        Inr (PDict reg) \<Rightarrow> if truthy (dget reg ''cbsdCategory'') then py_upper (py_str en (dget reg ''cbsdCategory''))
                          else of_row
      | Inr _ \<Rightarrow> of_row
      | Inl _ \<Rightarrow> fallback)"

definition height_or_zero :: "pydict \<Rightarrow> real res" where
  "height_or_zero inst = (if dhas inst ''height'' then py_float (dget inst ''height'') else Inr 0)"

definition height_type_of :: "env \<Rightarrow> pydict \<Rightarrow> string" where
  "height_type_of en inst = py_str en (por (dget inst ''heightType'') (PStr ''AGL''))"

text \<open>\<open>None\<close> is the indeterminate answer.\<close>

definition cbsd_inside_protected_neighborhood :: "env \<Rightarrow> cbsd_row \<Rightarrow> protected_channel \<Rightarrow> bool option res" where
  "cbsd_inside_protected_neighborhood en c p =
     (if pc_geometry p = PNone then Inr None
      else (let inst = cbsd_installation c in
        case (try_float_key inst ''latitude'', try_float_key inst ''longitude'') of
          (Some lat, Some lon) \<Rightarrow>
            (case rbind (height_or_zero inst) (\<lambda>h. resolve_height_agl_m en lat lon h (height_type_of en inst)) of
               Inl _ \<Rightarrow> Inr None
             | Inr height_agl \<Rightarrow>
                 (let inst_cat = py_upper (py_str en (por (dget inst ''cbsdCategory'') (PStr ''A'')));
                      cat = category_or_A (row_category en c inst_cat);
                      radius = neighborhood_radius_km (pc_neighborhood p) cat
                                 (truthy (dget inst ''indoorDeployment'')) height_agl in
                  rbind (within_geojson_buffer_m lat lon (pc_geometry p) (boundary_m radius)) (\<lambda>w. Inr (Some w))))
        | _ \<Rightarrow> Inr None))"

definition rf_inside_protected_neighborhood :: "dpa_rf \<Rightarrow> protected_channel \<Rightarrow> bool option res" where
  "rf_inside_protected_neighborhood g p =
     (if pc_geometry p = PNone then Inr None
      else (let cat = category_or_A (py_upper (if dg_category g = [] then ''A'' else dg_category g));
                radius = neighborhood_radius_km (pc_neighborhood p) cat (dg_indoor g) (dg_height g) in
            rbind (within_geojson_buffer_m (dg_lat g) (dg_lon g) (pc_geometry p) (boundary_m radius))
              (\<lambda>w. Inr (Some w))))"

text \<open>\<open>filter_grants_in_neighborhood\<close>: only a grant that is surely outside is left out.\<close>

fun filter_grants_in_neighborhood :: "protected_channel \<Rightarrow> dpa_rf list \<Rightarrow> dpa_rf list res" where
  "filter_grants_in_neighborhood p [] = Inr []"
| "filter_grants_in_neighborhood p (g # grants) =
     rbind (rf_inside_protected_neighborhood g p) (\<lambda>inside.
     rbind (filter_grants_in_neighborhood p grants) (\<lambda>kept.
       Inr (if inside = Some False then kept else g # kept)))"

subsection \<open>The grants of an evaluation\<close>

definition dpa_grant_rf_from_cbsd_grant :: "env \<Rightarrow> cbsd_row \<Rightarrow> grant_row \<Rightarrow> dpa_rf option" where
  "dpa_grant_rf_from_cbsd_grant en c g =
     (let inst = cbsd_installation c in
      case (try_float_key inst ''latitude'', try_float_key inst ''longitude'', height_or_zero inst) of
        (Some lat, Some lon, Inr height) \<Rightarrow>
          (let fallback = (case json_loads_or_empty (cb_reg c) of
                 Inl _ \<Rightarrow> if truthy (cb_category c) then py_upper (py_str en (cb_category c)) else ''A''
               | Inr _ \<Rightarrow> ''A'') in
           Some \<lparr>dg_grant_id = gr_id g, dg_cbsd_id = cb_id c, dg_lat = lat, dg_lon = lon, dg_height = height,
             dg_is_agl = (py_upper (height_type_of en inst) \<noteq> ''AMSL''),
             dg_indoor = truthy (dget inst ''indoorDeployment''), dg_low = gr_low g, dg_high = gr_high g,
             dg_eirp = (case gr_eirp g of Some e \<Rightarrow> e | None \<Rightarrow> 0), dg_managing = True,
             dg_category = category_or_A (row_category en c fallback)\<rparr>)
      | _ \<Rightarrow> None)"

definition replace_eirp :: "(string \<times> real) list \<Rightarrow> dpa_rf \<Rightarrow> dpa_rf" where
  "replace_eirp eirps g =
     (case map_of eirps (dg_grant_id g) of Some e \<Rightarrow> g\<lparr>dg_eirp := e\<rparr> | None \<Rightarrow> g)"

definition live_dpa_grant :: "grant_row \<Rightarrow> bool" where
  "live_dpa_grant g =
     (\<not> gr_term g \<and> py_upper (gr_state g) \<noteq> ''RELINQUISHED'' \<and> py_upper (gr_state g) \<noteq> ''EXPIRED'')"

text \<open>With a frozen list of keys only its grants are read, in whatever state they are now.\<close>

definition collect_active_dpa_grants ::
    "env \<Rightarrow> db \<Rightarrow> nat list option \<Rightarrow> (string \<times> real) list \<Rightarrow> string list \<Rightarrow> dpa_rf list" where
  "collect_active_dpa_grants en d pks eirps exclude =
     List.map_filter (\<lambda>g.
         if gr_id g \<in> set exclude then None
         else Option.bind (lock_cbsd_row d (PStr (gr_cbsd_id g))) (\<lambda>c.
           map_option (replace_eirp eirps) (dpa_grant_rf_from_cbsd_grant en c g)))
       (filter (\<lambda>g. case pks of None \<Rightarrow> live_dpa_grant g | Some ks \<Rightarrow> gr_pk g \<in> set ks) (db_grants d))"

definition dpa_rf_of_peer :: "grant_rf \<Rightarrow> dpa_rf" where
  "dpa_rf_of_peer i =
     \<lparr>dg_grant_id = rf_grant_id i, dg_cbsd_id = rf_cbsd_id i, dg_lat = rf_lat i, dg_lon = rf_lon i,
      dg_height = rf_height_m i, dg_is_agl = rf_height_is_agl i, dg_indoor = rf_indoor i, dg_low = rf_low i,
      dg_high = rf_high i, dg_eirp = rf_max_eirp i, dg_managing = False, dg_category = ''A''\<rparr>"

definition dpa_grants_from_frozen_peer_cbsds :: "env \<Rightarrow> (nat \<times> pydict) list \<Rightarrow> dpa_rf list res" where
  "dpa_grants_from_frozen_peer_cbsds en rows =
     rbind (grant_rf_infos_from_frozen_peer_cbsds en rows) (\<lambda>infos. Inr (map dpa_rf_of_peer infos))"

subsection \<open>The test of a proposed grant\<close>

definition proposed_dpa_rf :: "env \<Rightarrow> cbsd_row \<Rightarrow> int \<Rightarrow> int \<Rightarrow> real \<Rightarrow> dpa_rf option" where
  "proposed_dpa_rf en c low_hz high_hz eirp =
     (let inst = cbsd_installation c in
      case (try_float_key inst ''latitude'', try_float_key inst ''longitude'', height_or_zero inst) of
        (Some lat, Some lon, Inr height) \<Rightarrow>
          Some \<lparr>dg_grant_id = ''__proposed__'', dg_cbsd_id = cb_id c, dg_lat = lat, dg_lon = lon,
            dg_height = height, dg_is_agl = (py_upper (height_type_of en inst) \<noteq> ''AMSL''),
            dg_indoor = truthy (dget inst ''indoorDeployment''), dg_low = low_hz, dg_high = high_hz,
            dg_eirp = eirp, dg_managing = True, dg_category = ''A''\<rparr>
      | _ \<Rightarrow> None)"

text \<open>The grants of the same CBSD on the frequencies of the proposal are replaced by it.\<close>

definition not_replaced :: "dpa_rf \<Rightarrow> dpa_rf \<Rightarrow> bool" where
  "not_replaced proposed g =
     (\<not> (dg_cbsd_id g = dg_cbsd_id proposed \<and> dg_low g < dg_high proposed \<and> dg_high g > dg_low proposed))"

definition channel_violated ::
    "env \<Rightarrow> path_loss_fn \<Rightarrow> cbsd_row \<Rightarrow> dpa_rf \<Rightarrow> dpa_rf list \<Rightarrow> protected_channel \<Rightarrow> bool res" where
  "channel_violated en fn c proposed existing p =
     rbind (cbsd_inside_protected_neighborhood en c p) (\<lambda>inside.
       case inside of
         Some False \<Rightarrow> Inr False
       | None \<Rightarrow> Inr True
       | Some True \<Rightarrow>
           rbind (filter_grants_in_neighborhood p existing) (\<lambda>near.
             case evaluate_protected_channel (Inr fn) p (filter (not_replaced proposed) near @ [proposed]) of
               Inl e \<Rightarrow> if e = PropagationUnavailableError then Inr True else Inl e
             | Inr (_, _, _, ok) \<Rightarrow> Inr (\<not> ok)))"

definition proposed_grant_violates_dpa ::
    "path_loss_fn res \<Rightarrow> env \<Rightarrow> db \<Rightarrow> cbsd_row \<Rightarrow> int \<Rightarrow> int \<Rightarrow> real \<Rightarrow> bool res" where
  "proposed_grant_violates_dpa path_loss en d c low_hz high_hz eirp =
     (let protected = grant_frequency_overlaps_protected (list_protected_dpa_channels en d) low_hz high_hz in
      if protected = [] then Inr False
      else (case proposed_dpa_rf en c low_hz high_hz eirp of
              None \<Rightarrow> Inr True
            | Some proposed \<Rightarrow>
                (let existing = collect_active_dpa_grants en d None [] [] in
                 rbind path_loss (\<lambda>fn. rany (channel_violated en fn c proposed existing) protected))))"

end
