(* ===== verification/DpaService.thy ===== *)
theory DpaService
  imports DpaProtection Teardown "HOL-Library.AList"
begin

text \<open>
  The catalogue and the activations of the dynamic protection areas (services/dpa_service.py) and
  the move lists kept on the activations (\<open>refresh_activation_movelists\<close> of
  services/dpa_protection.py). The files of the catalogue are given by name and by what their parser
  makes of them. \<open>dict(v)\<close> of a value that is no dictionary counts as a failure: the
  catalogue holds dictionaries where it is used.
\<close>

record dpa_definition =
  df_id :: string
  df_low :: int
  df_high :: int
  df_source :: string
  df_esc :: bool
  df_neighborhood :: pydict
  df_geometry :: pyval
  df_params :: pydict

definition range_dict :: "int \<Rightarrow> int \<Rightarrow> pyval" where
  "range_dict low_hz high_hz = PDict [(''lowFrequency'', PInt low_hz), (''highFrequency'', PInt high_hz)]"

definition definition_channels :: "dpa_definition \<Rightarrow> (int \<times> int) list" where
  "definition_channels f = channelize (df_low f) (df_high f) CHANNEL_HZ"

definition to_mapping :: "dpa_definition \<Rightarrow> pyval" where
  "to_mapping f = PDict
     [(''dpaId'', PStr (df_id f)), (''frequencyRange'', range_dict (df_low f) (df_high f)),
      (''escMonitored'', PBool (df_esc f)), (''source'', PStr (df_source f)),
      (''neighborhoodKm'', PDict (df_neighborhood f)), (''geometry'', df_geometry f),
      (''protectionParams'', PDict (df_params f)),
      (''channels'', PList (map (\<lambda>(low, high). range_dict low high) (definition_channels f))),
      (''movelist'', PList [])]"

abbreviation KIND_AUDIT :: string where "KIND_AUDIT \<equiv> ''dpa_audit''"

definition append_audit :: "env \<Rightarrow> db \<Rightarrow> string \<Rightarrow> pydict \<Rightarrow> db" where
  "append_audit en d event detail =
     add_injected d KIND_AUDIT
       (PDict ([(''event'', PStr event), (''at'', PStr (utc_now_iso (env_now en)))] @ detail))"

subsection \<open>Activations\<close>

definition activation_key :: "string \<Rightarrow> int \<Rightarrow> int \<Rightarrow> string" where
  "activation_key dpa_id low_hz high_hz = dpa_id @ ''|'' @ show_int low_hz @ ''|'' @ show_int high_hz"

definition activation_payload ::
    "env \<Rightarrow> string \<Rightarrow> int \<Rightarrow> int \<Rightarrow> string list \<Rightarrow> pyval \<Rightarrow> pydict" where
  "activation_payload en dpa_id low_hz high_hz movelist source =
     [(''dpaId'', PStr dpa_id), (''frequencyRange'', range_dict low_hz high_hz),
      (''activationKey'', PStr (activation_key dpa_id low_hz high_hz)),
      (''movelist'', PList (map PStr movelist)), (''activatedAt'', PStr (utc_now_iso (env_now en))),
      (''active'', PBool True)]
     @ (if truthy source then [(''source'', source)] else [])"

text \<open>\<open>int(fr.get(k, -1))\<close>.\<close>

definition int_or_minus_one :: "pyval \<Rightarrow> string \<Rightarrow> int res" where
  "int_or_minus_one fr k =
     (case fr of PDict r \<Rightarrow> py_int (if dhas r k then dget r k else PInt (- 1)) | _ \<Rightarrow> Inl AttributeError)"

definition activation_matches :: "string \<Rightarrow> int \<Rightarrow> int \<Rightarrow> pydict \<Rightarrow> bool res" where
  "activation_matches dpa_id low_hz high_hz data =
     (let fr = por (dget data ''frequencyRange'') (PDict []) in
      if dget data ''dpaId'' \<noteq> PStr dpa_id then Inr False
      else rbind (int_or_minus_one fr ''lowFrequency'') (\<lambda>low.
        if low \<noteq> low_hz then Inr False
        else rbind (int_or_minus_one fr ''highFrequency'') (\<lambda>high. Inr (high = high_hz))))"

text \<open>What a scan makes of one row: \<open>None\<close> when the row is of another kind or unreadable.\<close>

definition row_activation :: "string \<times> jtext \<Rightarrow> pydict option" where
  "row_activation row = (if fst row = FLAG_DPA_ACTIVE then activation_of (snd row) else None)"

text \<open>The first matching row gets the new payload and keeps its source; \<open>None\<close> if there is no such row.\<close>

fun replace_activation ::
    "env \<Rightarrow> string \<Rightarrow> int \<Rightarrow> int \<Rightarrow> string list \<Rightarrow> string option \<Rightarrow> (string \<times> jtext) list
      \<Rightarrow> (string \<times> jtext) list option res" where
  "replace_activation en dpa_id low_hz high_hz movelist source [] = Inr None"
| "replace_activation en dpa_id low_hz high_hz movelist source (row # rows) =
     rbind (case row_activation row of None \<Rightarrow> Inr False | Some data \<Rightarrow> activation_matches dpa_id low_hz high_hz data)
       (\<lambda>hit. if hit
         then (let old = (case row_activation row of Some data \<Rightarrow> dget data ''source'' | None \<Rightarrow> PNone);
                   src = (case source of Some s \<Rightarrow> PStr s | None \<Rightarrow> old) in
               Inr (Some ((FLAG_DPA_ACTIVE,
                   json_dumps (PDict (activation_payload en dpa_id low_hz high_hz movelist src))) # rows)))
         else rbind (replace_activation en dpa_id low_hz high_hz movelist source rows) (\<lambda>r.
                Inr (map_option (\<lambda>rest. row # rest) r)))"

definition upsert_activation ::
    "env \<Rightarrow> db \<Rightarrow> string \<Rightarrow> int \<Rightarrow> int \<Rightarrow> string list \<Rightarrow> string option \<Rightarrow> db res" where
  "upsert_activation en d dpa_id low_hz high_hz movelist source =
     rbind (replace_activation en dpa_id low_hz high_hz movelist source (db_injected d)) (\<lambda>r.
       Inr (case r of
              Some rows \<Rightarrow> d\<lparr>db_injected := rows\<rparr>
            | None \<Rightarrow> add_injected d FLAG_DPA_ACTIVE
                (PDict (activation_payload en dpa_id low_hz high_hz movelist
                   (case source of Some s \<Rightarrow> PStr s | None \<Rightarrow> PNone)))))"

definition insert_activation :: "env \<Rightarrow> db \<Rightarrow> string \<Rightarrow> int \<times> int \<Rightarrow> db" where
  "insert_activation en d dpa_id freq =
     add_injected d FLAG_DPA_ACTIVE (PDict (activation_payload en dpa_id (fst freq) (snd freq) [] PNone))"

fun remove_matching :: "string \<Rightarrow> int \<Rightarrow> int \<Rightarrow> (string \<times> jtext) list \<Rightarrow> ((string \<times> jtext) list \<times> bool) res" where
  "remove_matching dpa_id low_hz high_hz [] = Inr ([], False)"
| "remove_matching dpa_id low_hz high_hz (row # rows) =
     rbind (case row_activation row of None \<Rightarrow> Inr False | Some data \<Rightarrow> activation_matches dpa_id low_hz high_hz data)
       (\<lambda>hit. rbind (remove_matching dpa_id low_hz high_hz rows) (\<lambda>(rest, removed).
         Inr (if hit then (rest, True) else (row # rest, removed))))"

definition remove_activation :: "db \<Rightarrow> string \<Rightarrow> int \<Rightarrow> int \<Rightarrow> (bool \<times> db) res" where
  "remove_activation d dpa_id low_hz high_hz =
     rbind (remove_matching dpa_id low_hz high_hz (db_injected d)) (\<lambda>(rows, removed).
       Inr (removed, d\<lparr>db_injected := rows\<rparr>))"

subsection \<open>The catalogue\<close>

definition catalogue_payload :: "env \<Rightarrow> dpa_definition list \<Rightarrow> string list \<Rightarrow> pydict" where
  "catalogue_payload en definitions sources =
     [(''version'', PInt 1), (''loadedAt'', PStr (utc_now_iso (env_now en))),
      (''sources'', PList (map PStr sources)),
      (''bandPlanHz'', PDict [(''low'', PInt CBRS_LOW_HZ), (''high'', PInt CBRS_HIGH_HZ), (''channel'', PInt CHANNEL_HZ)]),
      (''dpas'', PList (map to_mapping definitions))]"

definition persist_catalogue :: "env \<Rightarrow> db \<Rightarrow> dpa_definition list \<Rightarrow> string list \<Rightarrow> db" where
  "persist_catalogue en d definitions sources =
     (let raw = json_dumps (PDict (catalogue_payload en definitions sources)) in
      if rows_of_kind d KIND_CATALOGUE \<noteq> []
      then d\<lparr>db_injected := update_first (\<lambda>(k, j). k = KIND_CATALOGUE) (\<lambda>(k, j). (k, raw)) (db_injected d)\<rparr>
      else add_injected d KIND_CATALOGUE (PDict (catalogue_payload en definitions sources)))"

definition py_dict :: "pyval \<Rightarrow> pydict res" where
  "py_dict v = (case v of PDict r \<Rightarrow> Inr r | _ \<Rightarrow> Inl TypeError)"

definition numeric_distances :: "pydict \<Rightarrow> pydict" where
  "numeric_distances nb =
     List.map_filter (\<lambda>(k, v). case num_of v of Some r \<Rightarrow> Some (k, PFloat r) | None \<Rightarrow> None) nb"

definition definition_from_mapping :: "env \<Rightarrow> pyval \<Rightarrow> dpa_definition option res" where
  "definition_from_mapping en item =
     (case item of
        PDict r \<Rightarrow>
          if \<not> truthy (dget r ''dpaId'') then Inr None
          else (case read_range (por (dget r ''frequencyRange'') (PDict [])) of
                  None \<Rightarrow> Inr None
                | Some (low, high) \<Rightarrow>
                    rbind (py_dict (por (dget r ''neighborhoodKm'') (PDict []))) (\<lambda>nb.
                    rbind (py_dict (por (dget r ''protectionParams'') (PDict []))) (\<lambda>params.
                      Inr (Some \<lparr>df_id = py_str en (dget r ''dpaId''), df_low = low, df_high = high,
                        df_source = py_str en (por (dget r ''source'') (PStr [])), df_esc = esc_monitored r,
                        df_neighborhood = numeric_distances nb,
                        df_geometry = (if is_dict (dget r ''geometry'') then dget r ''geometry'' else PNone),
                        df_params = params\<rparr>))))
      | _ \<Rightarrow> Inr None)"

text \<open>Definitions by identifier: a later one takes the place of an earlier one.\<close>

definition by_definition_id :: "(string \<times> dpa_definition) list \<Rightarrow> dpa_definition list \<Rightarrow> (string \<times> dpa_definition) list" where
  "by_definition_id = foldl (\<lambda>acc f. AList.update (df_id f) f acc)"

definition rebuilt_definitions :: "env \<Rightarrow> db \<Rightarrow> dpa_definition list res" where
  "rebuilt_definitions en d =
     rbind (rmap (\<lambda>item. definition_from_mapping en item) (list_catalogue d)) (\<lambda>fs. Inr (present fs))"

definition prior_sources :: "env \<Rightarrow> db \<Rightarrow> string list" where
  "prior_sources en d =
     (case rows_of_kind d KIND_CATALOGUE of
        [] \<Rightarrow> []
      | j # _ \<Rightarrow> (case json_loads_or_empty j of
          Inr (PDict prior) \<Rightarrow> (case dget prior ''sources'' of PList xs \<Rightarrow> map (py_str en) xs | _ \<Rightarrow> [])
        | _ \<Rightarrow> []))"

text \<open>\<open>list(dict.fromkeys(xs))\<close>: the first of equal elements stays.\<close>

definition first_occurrences :: "'a list \<Rightarrow> 'a list" where
  "first_occurrences xs = rev (remdups (rev xs))"

definition upsert_catalogue_definitions ::
    "env \<Rightarrow> db \<Rightarrow> dpa_definition list \<Rightarrow> string \<Rightarrow> (dpa_definition list \<times> db) res" where
  "upsert_catalogue_definitions en d definitions source_label =
     rbind (rebuilt_definitions en d) (\<lambda>stored.
       let merged = map snd (by_definition_id (by_definition_id [] stored) definitions);
           sources = first_occurrences (prior_sources en d @ [source_label]) in
       Inr (merged, persist_catalogue en d merged sources))"

definition all_channels :: "dpa_definition list \<Rightarrow> (string \<times> int \<times> int) list" where
  "all_channels definitions =
     concat (map (\<lambda>f. if df_esc f then map (\<lambda>ch. (df_id f, ch)) (definition_channels f) else []) definitions)"

definition activate_all_esc_monitored :: "env \<Rightarrow> db \<Rightarrow> dpa_definition list \<Rightarrow> int \<times> db" where
  "activate_all_esc_monitored en d definitions =
     (int (length (all_channels definitions)),
      foldl (\<lambda>d (dpa_id, ch). insert_activation en d dpa_id ch) d (all_channels definitions))"

type_synonym kml_files = "(string \<times> dpa_definition list res) list"

definition load_catalogue_from_paths :: "kml_files \<Rightarrow> dpa_definition list res" where
  "load_catalogue_from_paths files =
     rbind (rmap snd files) (\<lambda>parsed. Inr (map snd (by_definition_id [] (concat parsed))))"

definition load_dpas :: "env \<Rightarrow> kml_files \<Rightarrow> db \<Rightarrow> (pydict \<times> db) res" where
  "load_dpas en files d =
     (if files = [] then Inl FileNotFoundError
      else rbind (load_catalogue_from_paths files) (\<lambda>definitions.
        if definitions = [] then Inl ValueError
        else (let names = map fst files;
                  d1 = persist_catalogue en (snd (clear_activations d)) definitions names;
                  (n, d2) = activate_all_esc_monitored en d1 definitions;
                  counts = [(''catalogueSize'', PInt (int (length definitions))), (''activations'', PInt n)] in
              Inr (counts @ [(''sources'', PList (map PStr names))],
                   append_audit en d2 ''load_dpas'' ((''sources'', PList (map PStr names)) # counts)))))"

definition bulk_definition :: "env \<Rightarrow> pydict \<Rightarrow> dpa_definition res" where
  "bulk_definition en r =
     rbind (pykey (PDict r) ''frequencyRange'') (\<lambda>fr.
     rbind (pykey fr ''lowFrequency'') (\<lambda>l. rbind (py_int l) (\<lambda>low.
     rbind (pykey fr ''highFrequency'') (\<lambda>h. rbind (py_int h) (\<lambda>high.
     rbind (py_dict (por (dget r ''neighborhoodKm'') (PDict []))) (\<lambda>nb.
     rbind (py_dict (por (dget r ''protectionParams'') (PDict []))) (\<lambda>params.
       Inr \<lparr>df_id = py_str en (dget r ''dpaId''), df_low = low, df_high = high,
         df_source = py_str en (por (dget r ''source'') (PStr [])), df_esc = esc_monitored r,
         df_neighborhood = nb, df_geometry = dget r ''geometry'', df_params = params\<rparr>)))))))"

definition bulk_dpa_activation :: "env \<Rightarrow> kml_files \<Rightarrow> db \<Rightarrow> bool option \<Rightarrow> (pydict \<times> db) res" where
  "bulk_dpa_activation en files d activate =
     (case activate of
        None \<Rightarrow> Inr ([(''ok'', PBool False), (''reason'', PStr ''activate_required'')], d)
      | Some False \<Rightarrow>
          (case clear_activations d of (cleared, d1) \<Rightarrow>
             Inr ([(''ok'', PBool True), (''activate'', PBool False), (''activations'', PInt 0), (''cleared'', PInt cleared)],
                  append_audit en d1 ''bulk_deactivate'' [(''cleared'', PInt cleared)]))
      | Some True \<Rightarrow>
          if list_catalogue d = []
          then rbind (load_dpas en files d) (\<lambda>(result, d1).
                 Inr ([(''ok'', PBool True), (''activate'', PBool True)] @ result, d1))
          else rbind (rmap (bulk_definition en)
                        (filter (\<lambda>r. truthy (dget r ''dpaId'')) (catalogue_dicts d))) (\<lambda>definitions.
                 case activate_all_esc_monitored en (snd (clear_activations d)) definitions of (n, d1) \<Rightarrow>
                   Inr ([(''ok'', PBool True), (''activate'', PBool True), (''activations'', PInt n)],
                        append_audit en d1 ''bulk_activate'' [(''activations'', PInt n)])))"

subsection \<open>Move lists\<close>

text \<open>The move list of one activation, or \<open>None\<close> where its row is skipped.\<close>

definition activation_movelist ::
    "env \<Rightarrow> path_loss_fn res \<Rightarrow> protected_channel list \<Rightarrow> dpa_rf list \<Rightarrow> pydict
      \<Rightarrow> (string \<times> int \<times> int \<times> string list) option res" where
  "activation_movelist en path_loss protected grants act =
     (case read_range (por (dget act ''frequencyRange'') (PDict [])) of
        None \<Rightarrow> Inr None
      | Some (low, high) \<Rightarrow>
          (case List.find (\<lambda>p. pc_dpa_id p = dpa_id_of en act \<and> pc_low p = low \<and> pc_high p = high) protected of
             None \<Rightarrow> Inr None
           | Some channel \<Rightarrow>
               rbind (filter_grants_in_neighborhood channel grants) (\<lambda>near.
               rbind (evaluate_protected_channel path_loss channel near) (\<lambda>(_, moved, _, _).
                 Inr (Some (dpa_id_of en act, low, high,
                   filter (\<lambda>gid. gid \<in> dg_grant_id ` set (filter dg_managing near)) moved))))))"

text \<open>A failure on the way keeps the rows written before it.\<close>

fun upsert_all :: "env \<Rightarrow> db \<Rightarrow> (string \<times> int \<times> int \<times> string list) list \<Rightarrow> exn option \<times> db" where
  "upsert_all en d [] = (None, d)"
| "upsert_all en d ((dpa_id, low, high, moved) # pending) =
     (case upsert_activation en d dpa_id low high moved None of
        Inl e \<Rightarrow> (Some e, d) | Inr d' \<Rightarrow> upsert_all en d' pending)"

text \<open>The grants of a run: the frozen local ones, or those collected now, and the peers'.\<close>

definition movelist_grants ::
    "env \<Rightarrow> db \<Rightarrow> nat list option \<Rightarrow> dpa_rf list option \<Rightarrow> dpa_rf list \<Rightarrow> (string \<times> real) list \<Rightarrow> string list
      \<Rightarrow> dpa_rf list" where
  "movelist_grants en d pks local peers eirps exclude =
     (case local of
        Some grants \<Rightarrow> filter (\<lambda>g. dg_grant_id g \<notin> set exclude) (map (replace_eirp eirps) grants)
      | None \<Rightarrow> collect_active_dpa_grants en d pks eirps exclude) @ peers"

definition refresh_activation_movelists ::
    "env \<Rightarrow> path_loss_fn res \<Rightarrow> db \<Rightarrow> dpa_rf list \<Rightarrow> int res \<times> db" where
  "refresh_activation_movelists en path_loss d grants =
     (let protected = filter (\<lambda>p. pc_reason p = ACTIVE) (list_protected_dpa_channels en d) in
      case rmap (activation_movelist en path_loss protected grants) (list_active_activations d) of
        Inl e \<Rightarrow> (Inl e, d)
      | Inr found \<Rightarrow>
          (case upsert_all en d (present found) of
             (Some e, d') \<Rightarrow> (Inl e, d')
           | (None, d') \<Rightarrow> (Inr (int (length (present found))), d')))"

text \<open>The exceptions \<open>refresh_or_fail_closed_movelists\<close> handles.\<close>

definition movelist_failure :: "exn \<Rightarrow> bool" where
  "movelist_failure e =
     (e \<in> {PropagationUnavailableError, TerrainError, ValueError, JSONDecodeError, TypeError, KeyError})"

definition conservative_movelist :: "dpa_rf list \<Rightarrow> int \<Rightarrow> int \<Rightarrow> string list" where
  "conservative_movelist grants low_hz high_hz =
     map dg_grant_id (filter (\<lambda>g. dg_low g < high_hz \<and> dg_high g > low_hz) grants)"

definition refresh_or_fail_closed_movelists ::
    "env \<Rightarrow> path_loss_fn res \<Rightarrow> db \<Rightarrow> (string \<times> int \<times> int) list \<Rightarrow> unit res \<times> db" where
  "refresh_or_fail_closed_movelists en path_loss d channels =
     (case refresh_activation_movelists en path_loss d (movelist_grants en d None None [] [] []) of
        (Inr _, d1) \<Rightarrow> (Inr (), d1)
      | (Inl e, d1) \<Rightarrow>
          if \<not> movelist_failure e then (Inl e, d1)
          else (let grants = collect_active_dpa_grants en d1 None [] [] in
            case upsert_all en d1 (map (\<lambda>(dpa_id, low, high).
                    (dpa_id, low, high, conservative_movelist grants low high)) channels) of
              (Some e', d2) \<Rightarrow> (Inl e', d2)
            | (None, d2) \<Rightarrow> (Inr (), d2)))"

subsection \<open>Activation requests\<close>

definition parse_request_freq :: "pydict \<Rightarrow> (int \<times> int) option" where
  "parse_request_freq body =
     (if \<not> is_dict (dget body ''frequencyRange'') then None
      else (case read_range (dget body ''frequencyRange'') of
              None \<Rightarrow> None
            | Some (low, high) \<Rightarrow> if high \<le> low then None else Some (low, high)))"

definition channel_in_definition :: "pydict \<Rightarrow> int \<times> int \<Rightarrow> bool" where
  "channel_in_definition item freq =
     (case dget item ''channels'' of
        PList (ch # chs) \<Rightarrow> list_ex (\<lambda>c. is_dict c \<and> read_range c = Some freq) (ch # chs)
      | _ \<Rightarrow> (case (if dhas item ''frequencyRange'' then read_range (dget item ''frequencyRange'') else None) of
                None \<Rightarrow> False
              | Some (low, high) \<Rightarrow> freq \<in> set (channelize low high CHANNEL_HZ)))"

definition refused_request :: "string \<Rightarrow> pydict \<Rightarrow> pydict" where
  "refused_request reason more_fields = [(''ok'', PBool False), (''reason'', PStr reason)] @ more_fields"

text \<open>The stripped identifier and the range of a request that has both.\<close>

definition request_channel :: "pydict \<Rightarrow> (string \<times> int \<times> int) option" where
  "request_channel body =
     (case (dget body ''dpaId'', parse_request_freq body) of
        (PStr s, Some freq) \<Rightarrow> if py_strip s = [] then None else Some (py_strip s, freq)
      | _ \<Rightarrow> None)"

definition activate_dpa :: "env \<Rightarrow> path_loss_fn res \<Rightarrow> db \<Rightarrow> pydict \<Rightarrow> pydict res \<times> db" where
  "activate_dpa en path_loss d body =
     (case request_channel body of
        None \<Rightarrow> (Inr (refused_request ''invalid_request'' []), d)
      | Some (dpa_id, low, high) \<Rightarrow>
          (let named = [(''dpaId'', PStr dpa_id)]; freq = [(''frequencyRange'', range_dict low high)] in
           case get_catalogue_definition d dpa_id of
             None \<Rightarrow> (Inr (refused_request ''unknown_dpaId'' named), d)
           | Some item \<Rightarrow>
               if \<not> channel_in_definition (or_empty_dict item) (low, high)
               then (Inr (refused_request ''channel_not_in_catalogue'' (named @ freq)), d)
               else (case upsert_activation en d dpa_id low high [] None of
                   Inl e \<Rightarrow> (Inl e, d)
                 | Inr d1 \<Rightarrow>
                     (case refresh_or_fail_closed_movelists en path_loss d1 [(dpa_id, low, high)] of
                        (Inl e, d2) \<Rightarrow> (Inl e, d)
                      | (Inr _, d2) \<Rightarrow>
                          (Inr ((''ok'', PBool True) # named @ freq),
                           append_audit en d2 ''activate'' (named @ freq))))))"

definition deactivate_dpa :: "env \<Rightarrow> db \<Rightarrow> pydict \<Rightarrow> pydict res \<times> db" where
  "deactivate_dpa en d body =
     (case request_channel body of
        None \<Rightarrow> (Inr (refused_request ''invalid_request'' []), d)
      | Some (dpa_id, low, high) \<Rightarrow>
          (case remove_activation d dpa_id low high of
             Inl e \<Rightarrow> (Inl e, d)
           | Inr (removed, d1) \<Rightarrow>
               (let detail = [(''dpaId'', PStr dpa_id), (''frequencyRange'', range_dict low high),
                              (''removed'', PBool removed)] in
                (Inr ((''ok'', PBool True) # detail), append_audit en d1 ''deactivate'' detail))))"

definition reset_dpa_state :: "db \<Rightarrow> db" where
  "reset_dpa_state d = delete_kind (delete_kind (delete_kind d KIND_CATALOGUE) FLAG_DPA_ACTIVE) KIND_AUDIT"

end
