(* ===== verification/CpasEvaluate.thy ===== *)
theory CpasEvaluate
  imports Cpas DpaService
begin

text \<open>
  The evaluation of a coordination run (services/cpas_service.py): the frozen snapshot, the rules
  against the data of peer SASs, the exclusions before the allocation
  (services/iap/pre_iap_exclusions.py), the interference allocation and the DPA move lists, merged into
  one decision per grant.

  Arguments are the interference coupling the production factory makes (or its failure), the switch of the
  allocation, the band edges and the \<open>peer_esc\<close> and \<open>peer_ppa\<close> rules of the spectrum profile and the
  path loss towards DPAs (\<open>cpas_env\<close>). The coupling, once made, answers: one that raises in the middle of
  an allocation aborts the run like a factory that raises. A failed evaluation raises, and every
  caller rolls the session back.
\<close>

record cpas_env =
  ce_enabled :: bool
  ce_coupling :: "coupling res"
  ce_band :: band
  ce_origin :: int
  ce_thresholds :: iap_threshold_profile
  ce_peer_esc :: "pydict option"
  ce_peer_ppa :: "pydict option"
  ce_path_loss :: "path_loss_fn res"

definition iap_env_of :: "cpas_env \<Rightarrow> iap_env" where
  "iap_env_of ce =
     \<lparr>ie_enabled = ce_enabled ce,
      ie_coupling = rbind (ce_coupling ce) (\<lambda>cpl. Inr (\<lambda>g pt ch e. Inr (cpl g pt ch e))),
      ie_band = ce_band ce, ie_origin = ce_origin ce, ie_thresholds = ce_thresholds ce\<rparr>"

subsection \<open>The snapshot\<close>

type_synonym peer_record = "nat \<times> string \<times> string \<times> jtext"

record cpas_snapshot =
  cs_frozen_at :: string
  cs_pks :: "nat list"
  cs_peer_report :: pydict
  cs_peer_count :: int
  cs_peer_records :: "peer_record list"
  cs_local :: "frozen_grant list"
  cs_protection :: "frozen_record list"
  cs_generation :: fingerprint

definition frozen_peer_rows :: "db \<Rightarrow> peer_record list" where
  "frozen_peer_rows d =
     map (\<lambda>r. (pf_peer r, pf_type r, pf_record_id r, pf_data r))
       (sort_key (\<lambda>r. (pf_peer r, pf_type r)) (db_peer_fad d))"

definition freeze_cpas_snapshot :: "env \<Rightarrow> db \<Rightarrow> pydict \<Rightarrow> cpas_snapshot res" where
  "freeze_cpas_snapshot en d peer_sync_report =
     (case capture_protection_records_for_freeze en d of
        Inl e \<Rightarrow> Inl (if exz_failure e then CpasRfEvaluationError else e)
      | Inr records \<Rightarrow>
          (let local = frozen_active_grants en d; peers = frozen_peer_rows d in
           Inr \<lparr>cs_frozen_at = utc_now_iso (env_now en), cs_pks = map fz_pk local,
                cs_peer_report = peer_sync_report, cs_peer_count = int (length peers),
                cs_peer_records = peers, cs_local = local, cs_protection = records,
                cs_generation = current_generation_fingerprint d\<rparr>))"

definition frozen_peer_records :: "cpas_snapshot \<Rightarrow> string \<Rightarrow> pydict list" where
  "frozen_peer_records snap record_type =
     List.map_filter (\<lambda>(peer, rt, rid, j). if rt = record_type then row_dict j else None) (cs_peer_records snap)"

definition frozen_peer_cbsd_rows :: "cpas_snapshot \<Rightarrow> (nat \<times> pydict) list" where
  "frozen_peer_cbsd_rows snap =
     List.map_filter (\<lambda>(peer, rt, rid, j). if rt = ''cbsd'' then map_option (Pair peer) (row_dict j) else None)
       (cs_peer_records snap)"

text \<open>A snapshot that carries only keys is filled from the live rows.\<close>

definition snapshot_grants :: "env \<Rightarrow> db \<Rightarrow> cpas_snapshot \<Rightarrow> frozen_grant list" where
  "snapshot_grants en d snap =
     (if cs_local snap \<noteq> [] then cs_local snap
      else List.map_filter (\<lambda>g. map_option (frozen_local_grant_from_orm en g) (lock_cbsd_row d (PStr (gr_cbsd_id g))))
             (filter (\<lambda>g. gr_pk g \<in> set (cs_pks snap)) (db_grants d)))"

definition frozen_to_dpa_grant_rf :: "frozen_grant \<Rightarrow> dpa_rf option" where
  "frozen_to_dpa_grant_rf f =
     (case (fz_lat f, fz_lon f) of
        (Some lat, Some lon) \<Rightarrow>
          Some \<lparr>dg_grant_id = fz_grant_id f, dg_cbsd_id = fz_cbsd_id f, dg_lat = lat, dg_lon = lon,
            dg_height = (case fz_height f of Some h \<Rightarrow> h | None \<Rightarrow> 0), dg_is_agl = (fz_height_type f \<noteq> ''AMSL''),
            dg_indoor = fz_indoor f, dg_low = fz_low f, dg_high = fz_high f,
            dg_eirp = (case fz_max_eirp f of Some e \<Rightarrow> e | None \<Rightarrow> 0), dg_managing = True,
            dg_category = fz_category f\<rparr>
      | _ \<Rightarrow> None)"

subsection \<open>Rules against peer SASs\<close>

definition frozen_peer_has_grant_for_cbsd :: "env \<Rightarrow> frozen_grant \<Rightarrow> pydict list \<Rightarrow> bool" where
  "frozen_peer_has_grant_for_cbsd en f records =
     (\<exists>record\<in>set records. dget record ''id'' = PStr (fad_cbsd_id en (fz_fcc_id f) (fz_serial f))
        \<and> active_peer_grants record \<noteq> [])"

definition frozen_pal_index :: "env \<Rightarrow> frozen_record list \<Rightarrow> (string \<times> pydict) list" where
  "frozen_pal_index en records =
     foldl (\<lambda>out (i, p). if truthy (dget p ''palId'') then AList.update (py_str en (dget p ''palId'')) p out else out)
       [] (frozen_dicts records ''pal'')"

definition get_default :: "pydict \<Rightarrow> string \<Rightarrow> pyval \<Rightarrow> pyval" where
  "get_default d k v = (if dhas d k then dget d k else v)"

definition peer_esc_params :: "cpas_env \<Rightarrow> (real \<times> int \<times> int) res" where
  "peer_esc_params ce =
     (case ce_peer_esc ce of
        None \<Rightarrow> Inr (40000, fst (ce_band ce), snd (ce_band ce))
      | Some params \<Rightarrow>
          rbind (py_float (get_default params ''radius_m'' (PFloat 40000))) (\<lambda>radius.
          rbind (py_int (get_default params ''low_hz'' (PInt (fst (ce_band ce))))) (\<lambda>low.
          rbind (py_int (get_default params ''high_hz'' (PInt (snd (ce_band ce))))) (\<lambda>high.
            Inr (radius, low, high)))))"

definition peer_ppa_buffer_m :: "cpas_env \<Rightarrow> real res" where
  "peer_ppa_buffer_m ce =
     (case ce_peer_ppa ce of
        None \<Rightarrow> Inr 1000
      | Some params \<Rightarrow> py_float (get_default params ''buffer_m'' (PFloat 1000)))"

definition indexed_pal :: "env \<Rightarrow> (string \<times> pydict) list \<Rightarrow> pyval \<Rightarrow> pydict option res" where
  "indexed_pal en pals pal_id =
     (case map_of pals (py_str en pal_id) of
        Some p \<Rightarrow> Inr (Some p)
      | None \<Rightarrow> rbind (check_hash pal_id) (\<lambda>_. Inr None))"

definition pal_range :: "pydict \<Rightarrow> (int \<times> int) option res" where
  "pal_range pal =
     (case pal_freq_from_record pal of Some r \<Rightarrow> Inr (Some r) | None \<Rightarrow> pal_freq (PDict pal))"

definition ppa_protected_ranges :: "env \<Rightarrow> (string \<times> pydict) list \<Rightarrow> pydict \<Rightarrow> (int \<times> int) list res" where
  "ppa_protected_ranges en pals ppa =
     rbind (pget (por (dget ppa ''ppaInfo'') (PDict [])) ''palId'') (\<lambda>ids.
       if \<not> truthy ids then Inr []
       else rbind (pyiter ids) (\<lambda>pal_ids.
            rbind (rmap (\<lambda>pal_id. rbind (indexed_pal en pals pal_id) (\<lambda>pal.
                     case pal of None \<Rightarrow> Inr None | Some p \<Rightarrow> pal_range p)) pal_ids) (\<lambda>rs. Inr (present rs))))"

definition peer_ppa_hits :: "env \<Rightarrow> real \<Rightarrow> real \<Rightarrow> frozen_grant \<Rightarrow> (string \<times> pydict) list \<Rightarrow> real \<Rightarrow> pydict \<Rightarrow> bool res" where
  "peer_ppa_hits en lat lon f pals buffer_m record =
     (if (dget record ''usage'' \<noteq> PStr ''PPA'' \<and> \<not> dhas record ''ppaInfo'')
         \<or> dget record ''terminated'' = PBool True
      then Inr False
      else rbind (within_geojson_buffer_m lat lon (dget record ''zone'') buffer_m) (\<lambda>near.
        if \<not> near then Inr False
        else rbind (ppa_protected_ranges en pals record) (\<lambda>ranges.
               Inr (\<exists>(low, high)\<in>set ranges. freq_overlaps (fz_low f) (fz_high f) low high))))"

definition frozen_conflicts_peer_ppa ::
    "cpas_env \<Rightarrow> env \<Rightarrow> frozen_grant \<Rightarrow> pydict list \<Rightarrow> (string \<times> pydict) list \<Rightarrow> bool res" where
  "frozen_conflicts_peer_ppa ce en f peer_zones pals =
     (case (fz_lat f, fz_lon f) of
        (Some lat, Some lon) \<Rightarrow>
          rbind (peer_ppa_buffer_m ce) (\<lambda>buffer_m. rany (peer_ppa_hits en lat lon f pals buffer_m) peer_zones)
      | _ \<Rightarrow> Inr False)"

definition peer_esc_near :: "real \<Rightarrow> real \<Rightarrow> real \<Rightarrow> pydict \<Rightarrow> bool res" where
  "peer_esc_near radius_m lat lon record =
     (let inst = por (dget record ''installationParam'') (PDict []) in
      rbind (pget inst ''latitude'') (\<lambda>a. rbind (pget inst ''longitude'') (\<lambda>b.
        if a = PNone \<or> b = PNone then Inr False
        else rbind (py_float a) (\<lambda>esc_lat. rbind (py_float b) (\<lambda>esc_lon.
               Inr (haversine_m lat lon esc_lat esc_lon \<le> radius_m))))))"

definition frozen_conflicts_peer_esc :: "cpas_env \<Rightarrow> frozen_grant \<Rightarrow> pydict list \<Rightarrow> bool res" where
  "frozen_conflicts_peer_esc ce f records =
     rbind (peer_esc_params ce) (\<lambda>(radius_m, esc_low, esc_high).
       if \<not> freq_overlaps (fz_low f) (fz_high f) esc_low esc_high then Inr False
       else (case (fz_lat f, fz_lon f) of
               (Some lat, Some lon) \<Rightarrow> rany (peer_esc_near radius_m lat lon) records
             | _ \<Rightarrow> Inr False))"

text \<open>The first peer rule a grant that is not terminated breaks.\<close>

definition peer_reason ::
    "cpas_env \<Rightarrow> env \<Rightarrow> cpas_snapshot \<Rightarrow> frozen_grant \<Rightarrow> string option res" where
  "peer_reason ce en snap f =
     (if fz_terminated f then Inr None
      else if frozen_peer_has_grant_for_cbsd en f (frozen_peer_records snap ''cbsd'')
      then Inr (Some ''peer_same_cbsd_grant'')
      else rbind (frozen_conflicts_peer_ppa ce en f (frozen_peer_records snap ''zone'')
                    (frozen_pal_index en (cs_protection snap))) (\<lambda>ppa.
        if ppa then Inr (Some ''peer_ppa'')
        else rbind (frozen_conflicts_peer_esc ce f (frozen_peer_records snap ''esc_sensor'')) (\<lambda>esc.
          Inr (if esc then Some ''peer_esc'' else None))))"

subsection \<open>Exclusions before the allocation\<close>

definition FSS_GWBL_KM :: real where "FSS_GWBL_KM = 150"
definition FSS_TTC_PURGE_KM :: real where "FSS_TTC_PURGE_KM = 40"

definition exclusion_payloads :: "frozen_record list \<Rightarrow> string \<Rightarrow> pydict list" where
  "exclusion_payloads records kind = map snd (frozen_dicts records kind)"

definition frozen_exz_records :: "frozen_record list \<Rightarrow> pydict list" where
  "frozen_exz_records records =
     exclusion_payloads records ''exclusion_zone'' @ exclusion_payloads records ''ntia_exclusion_zones''"

definition wisps_from_protection_records :: "frozen_record list \<Rightarrow> pydict list" where
  "wisps_from_protection_records records = map snd (frozen_dicts records ''wisp'')"

text \<open>The operation parameters are read outside the handler: a malformed one raises.\<close>

definition fss_lat_lon_freq :: "pydict \<Rightarrow> (real \<times> real \<times> int \<times> int) option res" where
  "fss_lat_lon_freq payload =
     (case dget (record_or_self payload) ''deploymentParam'' of
        PList (PDict dep # deps) \<Rightarrow>
          rbind (pget (por (dget dep ''operationParam'') (PDict [])) ''operationFrequencyRange'') (\<lambda>v.
            let inst = por (dget dep ''installationParam'') (PDict []); fr = por v (PDict []) in
            Inr (case rbind (pykey inst ''latitude'') (\<lambda>a. rbind (py_float a) (\<lambda>lat.
                      rbind (pykey inst ''longitude'') (\<lambda>b. rbind (py_float b) (\<lambda>lon.
                      rbind (pykey fr ''lowFrequency'') (\<lambda>l. rbind (py_int l) (\<lambda>low.
                      rbind (pykey fr ''highFrequency'') (\<lambda>h. rbind (py_int h) (\<lambda>high.
                        Inr (lat, lon, low, high))))))))) of
                   Inr c \<Rightarrow> Some c | Inl _ \<Rightarrow> None))
      | _ \<Rightarrow> Inr None)"

definition gwbl_points :: "pydict list \<Rightarrow> (real \<times> real) list" where
  "gwbl_points payloads =
     List.map_filter (\<lambda>r. case (try_float_key r ''latitude'', try_float_key r ''longitude'') of
         (Some lat, Some lon) \<Rightarrow> Some (lat, lon) | _ \<Rightarrow> None) payloads"

definition exz_excludes :: "frozen_record list \<Rightarrow> real \<Rightarrow> real \<Rightarrow> int \<Rightarrow> int \<Rightarrow> bool res" where
  "exz_excludes records lat lon low high =
     (case rany (\<lambda>r. exz_record_hits lat lon low high (PDict r)) (frozen_exz_records records) of
        Inl e \<Rightarrow> Inl (if e = ExclusionZoneError then ProtectionEntityError else e)
      | Inr b \<Rightarrow> Inr b)"

definition quiet_excludes :: "env \<Rightarrow> db \<Rightarrow> frozen_grant \<Rightarrow> real \<Rightarrow> real \<Rightarrow> string option res" where
  "quiet_excludes en d f lat lon =
     (let cat = (if fz_category f = [] then ''A'' else fz_category f);
          bw = (if fz_high f > fz_low f then Some (of_int (fz_high f - fz_low f) / 1000000) else None) in
      case quiet_zone_blocks_location en d lat lon (PStr cat) bw of
        Inl e \<Rightarrow> Inl (if e = RuntimeError then ProtectionEntityError else e)
      | Inr reason \<Rightarrow> Inr (map_option (\<lambda>q. ''quiet_zone_'' @ q) reason))"

definition gwpz_excludes :: "frozen_record list \<Rightarrow> real \<Rightarrow> real \<Rightarrow> int \<Rightarrow> int \<Rightarrow> bool res" where
  "gwpz_excludes records lat lon low high =
     rany (\<lambda>wisp. rbind (gwpz_blocks lat lon low high (PDict wisp)) (\<lambda>r. Inr (r = Some True)))
       (wisps_from_protection_records records)"

definition fss_gwbl_excludes :: "frozen_record list \<Rightarrow> real \<Rightarrow> real \<Rightarrow> int \<Rightarrow> int \<Rightarrow> bool res" where
  "fss_gwbl_excludes records lat lon low high =
     (let gwbles = gwbl_points (exclusion_payloads records ''gwbl'') in
      if gwbles = [] \<or> \<not> freq_overlaps low high FSS_GWBL_LOW_HZ FSS_GWBL_HIGH_HZ then Inr False
      else rany (\<lambda>fss. rbind (fss_lat_lon_freq fss) (\<lambda>coords.
             Inr (case coords of
                    None \<Rightarrow> False
                  | Some (f_lat, f_lon, _, _) \<Rightarrow>
                      haversine_m lat lon f_lat f_lon \<le> FSS_GWBL_KM * 1000
                      \<and> (\<exists>(g_lat, g_lon)\<in>set gwbles. haversine_m f_lat f_lon g_lat g_lon \<le> FSS_GWBL_KM * 1000))))
           (exclusion_payloads records ''fss''))"

definition fss_ttc_excludes :: "frozen_record list \<Rightarrow> real \<Rightarrow> real \<Rightarrow> bool res" where
  "fss_ttc_excludes records lat lon =
     rany (\<lambda>fss. rbind (parse_fss_ttc fss) (\<lambda>ttc. rbind (fss_lat_lon_freq fss) (\<lambda>coords.
             Inr (case coords of
                    None \<Rightarrow> False
                  | Some (f_lat, f_lon, _, f_high) \<Rightarrow>
                      ttc = Some True \<and> FSS_TTC_LOW_HZ < f_high
                      \<and> haversine_m lat lon f_lat f_lon \<le> FSS_TTC_PURGE_KM * 1000))))
       (exclusion_payloads records ''fss'')"

text \<open>The first exclusion that meets a grant; one without a position is left alone.\<close>

definition pre_iap_reason :: "env \<Rightarrow> db \<Rightarrow> frozen_record list \<Rightarrow> frozen_grant \<Rightarrow> string option res" where
  "pre_iap_reason en d records f =
     (case (fz_terminated f, fz_lat f, fz_lon f) of
        (False, Some lat, Some lon) \<Rightarrow>
          rbind (exz_excludes records lat lon (fz_low f) (fz_high f)) (\<lambda>exz.
          if exz then Inr (Some ''exz_exclusion'')
          else rbind (quiet_excludes en d f lat lon) (\<lambda>quiet.
          if quiet \<noteq> None then Inr quiet
          else rbind (gwpz_excludes records lat lon (fz_low f) (fz_high f)) (\<lambda>gwpz.
          if gwpz then Inr (Some ''gwpz_exclusion'')
          else rbind (fss_gwbl_excludes records lat lon (fz_low f) (fz_high f)) (\<lambda>gwbl.
          if gwbl then Inr (Some ''fss_gwbl_exclusion'')
          else rbind (fss_ttc_excludes records lat lon) (\<lambda>ttc.
            Inr (if ttc then Some ''fss_ttc_purge'' else None))))))
      | _ \<Rightarrow> Inr None)"

text \<open>The first hit of a key.\<close>

fun unique_hits :: "nat list \<Rightarrow> (frozen_grant \<times> string) list \<Rightarrow> (frozen_grant \<times> string) list" where
  "unique_hits seen [] = []"
| "unique_hits seen ((f, reason) # hits) =
     (if fz_pk f \<in> set seen then unique_hits seen hits
      else (f, reason) # unique_hits (fz_pk f # seen) hits)"

definition evaluate_pre_iap_exclusions ::
    "env \<Rightarrow> db \<Rightarrow> frozen_grant list \<Rightarrow> frozen_record list \<Rightarrow> (frozen_grant \<times> string) list res" where
  "evaluate_pre_iap_exclusions en d local_grants records =
     rbind (rmap (\<lambda>f. rbind (pre_iap_reason en d records f) (\<lambda>r. Inr (map_option (Pair f) r))) local_grants)
       (\<lambda>hits. Inr (unique_hits [] (present hits)))"

subsection \<open>Decisions\<close>

definition terminate_decision :: "frozen_grant \<Rightarrow> string \<Rightarrow> cpas_decision" where
  "terminate_decision f reason =
     \<lparr>cd_pk = Some (fz_pk f), cd_grant_id = fz_grant_id f, cd_cbsd_id = fz_cbsd_id f, cd_reason = reason,
      cd_action = ''terminate'', cd_eirp = None, cd_explanation = reason\<rparr>"

definition peer_rule_decisions :: "cpas_env \<Rightarrow> env \<Rightarrow> cpas_snapshot \<Rightarrow> frozen_grant list \<Rightarrow> cpas_decision list res" where
  "peer_rule_decisions ce en snap local =
     rbind (rmap (\<lambda>f. rbind (peer_reason ce en snap f) (\<lambda>r. Inr (map_option (terminate_decision f) r))) local)
       (\<lambda>ds. Inr (present ds))"

definition decided_pks :: "cpas_decision list \<Rightarrow> nat list" where
  "decided_pks ds = present (map cd_pk ds)"

definition pre_iap_decisions ::
    "env \<Rightarrow> db \<Rightarrow> cpas_snapshot \<Rightarrow> frozen_grant list \<Rightarrow> cpas_decision list \<Rightarrow> cpas_decision list res" where
  "pre_iap_decisions en d snap local peer =
     (case evaluate_pre_iap_exclusions en d local (cs_protection snap) of
        Inl e \<Rightarrow> Inl (if e = ProtectionEntityError then CpasRfEvaluationError else e)
      | Inr hits \<Rightarrow>
          Inr (map (\<lambda>(f, reason). terminate_decision f reason)
                 (filter (\<lambda>(f, reason). fz_pk f \<notin> set (decided_pks peer)) hits)))"

definition iap_sort_key :: "grant_rf \<Rightarrow> int \<times> int \<times> string \<times> string" where
  "iap_sort_key g =
     (if rf_managing g then 0 else 1, case rf_pk g of Some pk \<Rightarrow> int pk | None \<Rightarrow> 10 ^ 18,
      case rf_source g of Some s \<Rightarrow> s | None \<Rightarrow> [], rf_grant_id g)"

definition allocation_grants ::
    "env \<Rightarrow> cpas_snapshot \<Rightarrow> frozen_grant list \<Rightarrow> nat list \<Rightarrow> grant_rf list res" where
  "allocation_grants en snap local decided =
     rbind (grant_rf_infos_from_frozen_peer_cbsds en (frozen_peer_cbsd_rows snap)) (\<lambda>peers.
       Inr (sort_key iap_sort_key
         (List.map_filter frozen_to_iap_grant_rf
            (filter (\<lambda>f. \<not> (fz_terminated f \<or> fz_pk f \<in> set decided)) local) @ peers)))"

definition action_text :: "iap_action \<Rightarrow> string" where
  "action_text a = (case a of Keep \<Rightarrow> ''keep'' | Reduce_Power \<Rightarrow> ''reduce_power''
     | Suspend_Grant \<Rightarrow> ''suspend'' | Terminate_Grant \<Rightarrow> ''terminate'')"

text \<open>
  A decision that changes a local grant (a peer's has no key); the allocation's explanation text is
  left out. Keys of rows start at 1 in the tables, so the test \<open>not grant_pk\<close> is one for a missing key.
\<close>

definition cpas_of_iap :: "iap_decision \<Rightarrow> cpas_decision option" where
  "cpas_of_iap item =
     (case id_pk item of
        None \<Rightarrow> None
      | Some pk \<Rightarrow>
          if id_action item = Keep then None
          else Some \<lparr>cd_pk = Some pk, cd_grant_id = id_grant_id item, cd_cbsd_id = id_cbsd_id item,
                     cd_reason = ''iap'', cd_action = action_text (id_action item),
                     cd_eirp = Some (id_authorized item), cd_explanation = []\<rparr>)"

definition evaluate_iap_decisions_from_frozen ::
    "env \<Rightarrow> int \<Rightarrow> cpas_snapshot \<Rightarrow> frozen_grant list \<Rightarrow> nat list \<Rightarrow> protection_point list \<Rightarrow> coupling
      \<Rightarrow> cpas_decision list res" where
  "evaluate_iap_decisions_from_frozen en origin snap local decided points cpl =
     rbind (allocation_grants en snap local decided) (\<lambda>grants.
       Inr (if \<not> list_ex rf_managing grants then []
            else List.map_filter cpas_of_iap (snd (run_iap origin points grants cpl default_iap_config))))"

definition allocation_decisions ::
    "cpas_env \<Rightarrow> env \<Rightarrow> cpas_snapshot \<Rightarrow> frozen_grant list \<Rightarrow> nat list \<Rightarrow> cpas_decision list res" where
  "allocation_decisions ce en snap local decided =
     (case resolve_iap_context (iap_env_of ce) en
             (Frozen (frozen_peer_records snap ''esc_sensor'') (cs_protection snap)) of
        Inl e \<Rightarrow> Inl (if e = IapCouplingUnavailable then CpasRfEvaluationError else e)
      | Inr (points, made) \<Rightarrow>
          (case (made, ce_coupling ce) of
             (Some _, Inr cpl) \<Rightarrow>
               if points = [] then Inr []
               else evaluate_iap_decisions_from_frozen en (ce_origin ce) snap local decided points cpl
           | _ \<Rightarrow> Inr []))"

definition frozen_dpa_grants ::
    "frozen_grant list \<Rightarrow> nat list \<Rightarrow> string list \<Rightarrow> (string \<times> real) list \<Rightarrow> dpa_rf list" where
  "frozen_dpa_grants local decided exclude eirps =
     map (replace_eirp eirps)
       (List.map_filter frozen_to_dpa_grant_rf
          (filter (\<lambda>f. fz_pk f \<notin> set decided \<and> fz_grant_id f \<notin> set exclude) local))"

definition movelist_decisions :: "db \<Rightarrow> frozen_grant list \<Rightarrow> nat list \<Rightarrow> cpas_decision list" where
  "movelist_decisions d local decided =
     map (\<lambda>f. terminate_decision f ''dpa_movelist'')
       (filter (\<lambda>f. fz_pk f \<notin> set decided \<and> grant_on_any_movelist d (fz_grant_id f)) local)"

definition terminated_pks :: "cpas_decision list \<Rightarrow> nat list" where
  "terminated_pks ds = decided_pks (filter (\<lambda>x. cd_action x = ''terminate'') ds)"

text \<open>The move lists are rewritten with the effective powers, and name the grants to end.\<close>

definition dpa_stage ::
    "cpas_env \<Rightarrow> env \<Rightarrow> db \<Rightarrow> cpas_snapshot \<Rightarrow> frozen_grant list \<Rightarrow> cpas_decision list \<Rightarrow> cpas_decision list
      \<Rightarrow> (cpas_decision list \<times> db) res" where
  "dpa_stage ce en d snap local peer iap =
     (let decided = decided_pks peer @ terminated_pks iap;
          frozen_dpa = frozen_dpa_grants local decided (iap_terminated_grant_ids iap)
                         (effective_eirp_by_grant_id iap) in
      rbind (dpa_grants_from_frozen_peer_cbsds en (frozen_peer_cbsd_rows snap)) (\<lambda>peers.
        if frozen_dpa = [] \<and> peers = [] then Inr (merge_constraint_decisions peer iap [], d)
        else (case refresh_activation_movelists en (ce_path_loss ce) d
                     (movelist_grants en d None (Some frozen_dpa) peers [] []) of
                (Inl e, d') \<Rightarrow> Inl (if movelist_failure e then CpasRfEvaluationError else e)
              | (Inr _, d') \<Rightarrow>
                  (let dpa = movelist_decisions d' local decided;
                       kept = filter (\<lambda>x. \<not> (cd_grant_id x \<in> cd_grant_id ` set dpa
                                              \<and> cd_action x = ''reduce_power'')) iap in
                   Inr (merge_constraint_decisions peer kept dpa, d')))))"

definition evaluate_cpas_protections ::
    "cpas_env \<Rightarrow> env \<Rightarrow> db \<Rightarrow> cpas_snapshot \<Rightarrow> (cpas_decision list \<times> db) res" where
  "evaluate_cpas_protections ce en d snap =
     (if cs_pks snap = [] \<and> cs_local snap = [] then Inr ([], d)
      else (let local = snapshot_grants en d snap in
        rbind (peer_rule_decisions ce en snap local) (\<lambda>by_peer.
        rbind (pre_iap_decisions en d snap local by_peer) (\<lambda>excluded.
          let peer = by_peer @ excluded in
          if filter (\<lambda>f. \<not> fz_terminated f \<and> fz_pk f \<notin> set (decided_pks peer)) local = []
          then Inr (merge_constraint_decisions peer [] [], d)
          else rbind (allocation_decisions ce en snap local (decided_pks peer)) (\<lambda>iap.
                 dpa_stage ce en d snap local peer iap)))))"

definition apply_peer_conflict_to_local_grants :: "cpas_env \<Rightarrow> env \<Rightarrow> db \<Rightarrow> db res" where
  "apply_peer_conflict_to_local_grants ce en d =
     rbind (freeze_cpas_snapshot en d []) (\<lambda>snap.
     rbind (evaluate_cpas_protections ce en d snap) (\<lambda>(ds, d1).
       case apply_cpas_decisions (env_now en) d1 ds of
         (changed, d2) \<Rightarrow> Inr (if changed = 0 then d else d2)))"

end
