(* ===== verification/CpasSchedule.thy ===== *)
theory CpasSchedule
  imports DpaService
begin

text \<open>
  The daily schedule of the coordination (services/cpas_schedule_service.py) with the start of a run
  (\<open>trigger_daily_activities\<close> of services/cpas_service.py): the flag that arms it, the window of local
  hours, the record of the last success, and one tick of the scheduler. Arguments are the three environment
  variables, the time zones (a name gives the local hour and the text of the local date of an instant, or is
  unknown) and the outcome of handing a run to a worker. The dispatch lock makes a tick one step.
\<close>

record schedule_ext =
  sd_timezone :: string
  sd_start :: string
  sd_end :: string
  sd_zone :: "string \<Rightarrow> (time \<Rightarrow> int \<times> string) option"

definition FLAG_SCHEDULE_ENABLED :: string where "FLAG_SCHEDULE_ENABLED = ''scheduled_daily_activities''"
definition KIND_SCHEDULE_AUDIT :: string where "KIND_SCHEDULE_AUDIT = ''cpas_schedule_audit''"
definition KIND_SCHEDULE_META :: string where "KIND_SCHEDULE_META = ''cpas_schedule_meta''"
definition FLAG_CPAS_RUNNING :: string where "FLAG_CPAS_RUNNING = ''cpas_running''"
definition DEFAULT_TIMEZONE :: string where "DEFAULT_TIMEZONE = ''US/Pacific''"

lemmas schedule_kinds = FLAG_SCHEDULE_ENABLED_def KIND_SCHEDULE_AUDIT_def KIND_SCHEDULE_META_def FLAG_CPAS_RUNNING_def

subsection \<open>Configuration\<close>

definition env_int :: "string \<Rightarrow> int \<Rightarrow> int" where
  "env_int raw dflt =
     (if py_strip raw = [] then dflt else (case read_int (py_strip raw) of None \<Rightarrow> dflt | Some v \<Rightarrow> v))"

definition clamp_hour :: "int \<Rightarrow> int" where
  "clamp_hour v = max 0 (min 23 v)"

definition schedule_timezone_name :: "schedule_ext \<Rightarrow> string" where
  "schedule_timezone_name sd = (if py_strip (sd_timezone sd) = [] then DEFAULT_TIMEZONE else py_strip (sd_timezone sd))"

definition resolve_schedule_zone :: "schedule_ext \<Rightarrow> (time \<Rightarrow> int \<times> string) res" where
  "resolve_schedule_zone sd =
     (case sd_zone sd (schedule_timezone_name sd) of None \<Rightarrow> Inl ValueError | Some z \<Rightarrow> Inr z)"

definition schedule_start_hour :: "schedule_ext \<Rightarrow> int" where
  "schedule_start_hour sd = clamp_hour (env_int (sd_start sd) 2)"

definition schedule_end_hour :: "schedule_ext \<Rightarrow> int" where
  "schedule_end_hour sd = clamp_hour (env_int (sd_end sd) 4)"

definition local_now :: "schedule_ext \<Rightarrow> time \<Rightarrow> (int \<times> string) res" where
  "local_now sd t = rbind (resolve_schedule_zone sd) (\<lambda>z. Inr (z t))"

definition hour_in_window :: "int \<Rightarrow> int \<Rightarrow> int \<Rightarrow> bool" where
  "hour_in_window start stop hour =
     (if start = stop then False
      else if start < stop then start \<le> hour \<and> hour < stop
      else start \<le> hour \<or> hour < stop)"

definition is_within_cpas_window :: "schedule_ext \<Rightarrow> time \<Rightarrow> bool res" where
  "is_within_cpas_window sd t =
     rbind (local_now sd t) (\<lambda>(hour, date).
       Inr (hour_in_window (clamp_hour (schedule_start_hour sd)) (clamp_hour (schedule_end_hour sd)) hour))"

subsection \<open>Persistence\<close>

definition append_schedule_audit :: "env \<Rightarrow> db \<Rightarrow> string \<Rightarrow> pydict \<Rightarrow> db" where
  "append_schedule_audit en d event detail =
     add_injected d KIND_SCHEDULE_AUDIT
       (PDict ([(''event'', PStr event), (''at'', PStr (utc_now_iso (env_now en)))] @ detail))"

definition load_meta :: "db \<Rightarrow> pydict" where
  "load_meta d =
     (case first_of_kind d KIND_SCHEDULE_META of
        None \<Rightarrow> [] | Some j \<Rightarrow> (case row_dict j of Some meta \<Rightarrow> meta | None \<Rightarrow> []))"

text \<open>The first row of a kind is overwritten, or a row is added.\<close>

definition put_first :: "db \<Rightarrow> string \<Rightarrow> pyval \<Rightarrow> db" where
  "put_first d kind v =
     (if admin_flag_set d kind
      then d\<lparr>db_injected := update_first (\<lambda>(k, j). k = kind) (\<lambda>(k, j). (k, json_dumps v)) (db_injected d)\<rparr>
      else add_injected d kind v)"

definition save_meta :: "db \<Rightarrow> pydict \<Rightarrow> db" where
  "save_meta d meta = put_first d KIND_SCHEDULE_META (PDict meta)"

definition is_schedule_enabled :: "db \<Rightarrow> bool" where
  "is_schedule_enabled d =
     (case first_of_kind d FLAG_SCHEDULE_ENABLED of
        None \<Rightarrow> False
      | Some j \<Rightarrow> (case row_dict j of
            Some payload \<Rightarrow> dhas payload ''enabled'' \<and> truthy (dget payload ''enabled'')
          | None \<Rightarrow> False))"

definition enable_scheduled_daily_activities :: "schedule_ext \<Rightarrow> env \<Rightarrow> db \<Rightarrow> (pydict \<times> db) res" where
  "enable_scheduled_daily_activities sd en d =
     rbind (resolve_schedule_zone sd) (\<lambda>_.
       let payload = [(''enabled'', PBool True), (''enabledAt'', PStr (utc_now_iso (env_now en))),
             (''timezone'', PStr (schedule_timezone_name sd)), (''startHour'', PInt (schedule_start_hour sd)),
             (''endHour'', PInt (schedule_end_hour sd))] in
       Inr (payload, append_schedule_audit en (put_first d FLAG_SCHEDULE_ENABLED (PDict payload))
                       ''schedule_enabled'' payload))"

definition mark_scheduled_success_if_applicable :: "schedule_ext \<Rightarrow> env \<Rightarrow> db \<Rightarrow> db res" where
  "mark_scheduled_success_if_applicable sd en d =
     (if \<not> is_schedule_enabled d then Inr d
      else rbind (is_within_cpas_window sd (env_now en)) (\<lambda>inside.
        if \<not> inside then Inr d
        else rbind (local_now sd (env_now en)) (\<lambda>(hour, date).
          let meta = dset (dset (load_meta d) ''lastSuccessfulLocalDate'' (PStr date))
                       ''lastSuccessfulAt'' (PStr (utc_now_iso (env_now en))) in
          Inr (append_schedule_audit en (save_meta d meta) ''cpas_end_ok'' [(''localDate'', PStr date)]))))"

definition reset_schedule_state :: "db \<Rightarrow> db" where
  "reset_schedule_state d =
     delete_kind (delete_kind (delete_kind d FLAG_SCHEDULE_ENABLED) KIND_SCHEDULE_META) KIND_SCHEDULE_AUDIT"

subsection \<open>Starting a run\<close>

definition is_cpas_running :: "db \<Rightarrow> bool" where
  "is_cpas_running d = admin_flag_set d FLAG_CPAS_RUNNING"

definition get_daily_activities_completed :: "db \<Rightarrow> bool" where
  "get_daily_activities_completed d = (\<not> is_cpas_running d)"

definition clear_cpas_running_flag :: "db \<Rightarrow> db" where
  "clear_cpas_running_flag d = clear_admin_flags d FLAG_CPAS_RUNNING"

text \<open>The flag is set before the run is handed over; a failure to hand over clears it again.\<close>

definition trigger_daily_activities :: "unit res \<Rightarrow> db \<Rightarrow> unit res \<times> db" where
  "trigger_daily_activities dispatch d =
     (if is_cpas_running d then (Inr (), d)
      else (let d1 = set_admin_flag d FLAG_CPAS_RUNNING PNone in
        case dispatch of
          Inl e \<Rightarrow> (Inl e, clear_cpas_running_flag d1)
        | Inr _ \<Rightarrow> (Inr (), d1)))"

subsection \<open>A tick\<close>

datatype tick = Skipped string | Dispatch_Failed | Dispatched string

definition attempt_meta :: "env \<Rightarrow> db \<Rightarrow> string \<Rightarrow> pydict" where
  "attempt_meta en d today =
     dset (dset (load_meta d) ''lastAttemptLocalDate'' (PStr today))
       ''lastAttemptAt'' (PStr (utc_now_iso (env_now en)))"

definition tick_scheduled_cpas :: "schedule_ext \<Rightarrow> env \<Rightarrow> unit res \<Rightarrow> db \<Rightarrow> tick \<times> db" where
  "tick_scheduled_cpas sd en dispatch d =
     (if \<not> is_schedule_enabled d then (Skipped ''disabled'', d)
      else (case local_now sd (env_now en) of
        Inl _ \<Rightarrow> (Skipped ''invalid_timezone'', d)
      | Inr (hour, today) \<Rightarrow>
          if is_within_cpas_window sd (env_now en) \<noteq> Inr True then (Skipped ''outside_window'', d)
          else if dget (load_meta d) ''lastSuccessfulLocalDate'' = PStr today
          then (Skipped ''already_succeeded_today'', d)
          else if is_cpas_running d then (Skipped ''cpas_running'', d)
          else (let d1 = append_schedule_audit en d ''cpas_start''
                           [(''localDate'', PStr today), (''timezone'', PStr (schedule_timezone_name sd)),
                            (''localHour'', PInt hour)];
                    d2 = save_meta d1 (attempt_meta en d today) in
             case trigger_daily_activities dispatch d2 of
               (Inl _, d3) \<Rightarrow> (Dispatch_Failed, append_schedule_audit en d3 ''cpas_dispatch_error''
                                                    [(''localDate'', PStr today)])
             | (Inr _, d3) \<Rightarrow> (Dispatched today, d3))))"

text \<open>One turn of the scheduler's loop.\<close>

definition scheduler_turn :: "schedule_ext \<Rightarrow> env \<Rightarrow> unit res \<Rightarrow> db \<Rightarrow> db" where
  "scheduler_turn sd en dispatch d =
     (if is_schedule_enabled d then snd (tick_scheduled_cpas sd en dispatch d) else d)"

subsection \<open>One success a day\<close>

lemma first_of_kind_put_first: "first_of_kind (put_first d kind v) k = (if k = kind then Some (json_dumps v) else first_of_kind d k)"
proof (cases "admin_flag_set d kind")
  case True
  have "map snd (filter (\<lambda>x. fst x = k) (update_first (\<lambda>(a, j). a = kind) (\<lambda>(a, j). (a, json_dumps v)) xs))
      = (if k = kind \<and> kind \<in> fst ` set xs
         then json_dumps v # tl (map snd (filter (\<lambda>x. fst x = k) xs)) else map snd (filter (\<lambda>x. fst x = k) xs))"
    for xs :: "(string \<times> jtext) list"
    by (induction xs) (auto simp: image_iff, force)
  with True show ?thesis
    by (auto simp: put_first_def first_of_kind_def rows_of_kind_def case_prod_unfold admin_flag_set_keys image_iff)
next
  case False
  then have "rows_of_kind d kind = []"
    by (auto simp: rows_of_kind_def admin_flag_set_def filter_empty_conv)
  with False show ?thesis by (simp add: put_first_def first_of_kind_def split: list.split)
qed

lemma admin_flag_put_first: "admin_flag_set (put_first d kind v) k = (k = kind \<or> admin_flag_set d k)"
proof (cases "admin_flag_set d kind")
  case True
  have "map fst (update_first (\<lambda>(k, j). k = kind) (\<lambda>(k, j). (k, json_dumps v)) (db_injected d)) = map fst (db_injected d)"
    by (auto intro!: update_first_keys)
  from arg_cong [OF this, of set] True show ?thesis
    by (auto simp: put_first_def admin_flag_set_keys)
next
  case False
  then show ?thesis by (auto simp: put_first_def admin_flag_set_keys add_injected_def)
qed

lemma load_meta_save [simp]: "load_meta (save_meta d meta) = meta"
  by (simp add: load_meta_def save_meta_def first_of_kind_put_first row_dict_def)

lemma load_meta_rows: "rows_of_kind d' KIND_SCHEDULE_META = rows_of_kind d KIND_SCHEDULE_META \<Longrightarrow> load_meta d' = load_meta d"
  by (simp add: load_meta_def first_of_kind_def)

lemma load_meta_audit [simp]: "load_meta (append_schedule_audit en d event detail) = load_meta d"
  by (rule load_meta_rows) (simp add: append_schedule_audit_def schedule_kinds)

lemma load_meta_clear [simp]: "load_meta (clear_cpas_running_flag d) = load_meta d"
  by (rule load_meta_rows)
    (auto simp: clear_cpas_running_flag_def clear_admin_flags_def rows_of_kind_def schedule_kinds case_prod_unfold
      intro!: arg_cong [where f = "map snd"] filter_cong)

text \<open>
  What can happen while the schedule is armed, as a step with the instant it happens at and what a tick
  answers: a tick, the end of a run (a successful one records the day), or anything that leaves the
  schedule's own record alone.
\<close>

inductive schedule_steps :: "schedule_ext \<Rightarrow> env \<Rightarrow> db \<Rightarrow> (time \<times> tick option) list \<Rightarrow> db \<Rightarrow> bool"
  for sd :: schedule_ext and en :: env
where
  stop: "schedule_steps sd en d [] d"
| tick: "tick_scheduled_cpas sd (en\<lparr>env_now := t\<rparr>) dispatch d = (a, d1) \<Longrightarrow> schedule_steps sd en d1 trace d'
    \<Longrightarrow> schedule_steps sd en d ((t, Some a) # trace) d'"
| run_ends: "mark_scheduled_success_if_applicable sd (en\<lparr>env_now := t\<rparr>) d = Inr d1
    \<Longrightarrow> schedule_steps sd en (clear_cpas_running_flag d1) trace d' \<Longrightarrow> schedule_steps sd en d ((t, None) # trace) d'"
| run_fails: "schedule_steps sd en (clear_cpas_running_flag d) trace d' \<Longrightarrow> schedule_steps sd en d ((t, None) # trace) d'"
| other: "rows_of_kind d1 KIND_SCHEDULE_META = rows_of_kind d KIND_SCHEDULE_META
    \<Longrightarrow> schedule_steps sd en d1 trace d' \<Longrightarrow> schedule_steps sd en d ((t, None) # trace) d'"

definition day_done :: "db \<Rightarrow> string \<Rightarrow> bool" where
  "day_done d date = (dget (load_meta d) ''lastSuccessfulLocalDate'' = PStr date)"

definition local_day :: "schedule_ext \<Rightarrow> time \<Rightarrow> string \<Rightarrow> bool" where
  "local_day sd t date = (\<exists>hour. local_now sd t = Inr (hour, date))"

lemma marked_day:
  assumes "mark_scheduled_success_if_applicable sd en d = Inr d1" and "local_day sd (env_now en) date"
  shows "d1 = d \<or> day_done d1 date"
  using assms
  by (auto simp: mark_scheduled_success_if_applicable_def local_day_def day_done_def rbind_eq_Inr Let_def
      split: if_splits)

lemma tick_on_done_day:
  assumes "tick_scheduled_cpas sd en dispatch d = (a, d1)" and "day_done d date" and "local_day sd (env_now en) date"
  shows "d1 = d \<and> (\<exists>reason. a = Skipped reason)"
  using assms
  by (auto simp: tick_scheduled_cpas_def day_done_def local_day_def Let_def split: if_splits)

lemma done_day_steps:
  assumes "schedule_steps sd en d trace d'" and "day_done d date" and "\<forall>(t, a)\<in>set trace. local_day sd t date"
  shows "\<forall>(t, a)\<in>set trace. a = None \<or> (\<exists>reason. a = Some (Skipped reason))"
  using assms
proof (induction rule: schedule_steps.induct)
  case (stop d)
  then show ?case by simp
next
  case (tick t dispatch d a d1 trace d')
  then have "d1 = d \<and> (\<exists>reason. a = Skipped reason)"
    using tick_on_done_day [OF tick.hyps(1) tick.prems(1)] by simp
  with tick show ?case by simp
next
  case (run_ends t d d1 trace d')
  then have "day_done d1 date" using marked_day [OF run_ends.hyps(1)] by auto
  then have "day_done (clear_cpas_running_flag d1) date" by (simp add: day_done_def)
  with run_ends show ?case by simp
next
  case (run_fails d trace d' t)
  then show ?case by (simp add: day_done_def)
next
  case (other d1 d trace d' t)
  then show ?case using load_meta_rows [OF other.hyps(1)] by (simp add: day_done_def)
qed

text \<open>
  C15. At most one successful coordination per local day: once a run has succeeded inside the window of
  an armed schedule, no tick of that local day starts another, whatever happens in between - further
  runs that end or fail, changes of any other data - until the date changes or the record is reset.
\<close>

theorem one_success_a_day:
  assumes "is_schedule_enabled d0" and "is_within_cpas_window sd (env_now en0) = Inr True"
    and "local_day sd (env_now en0) date"
    and "mark_scheduled_success_if_applicable sd en0 d0 = Inr d"
    and "schedule_steps sd en d trace d'" and "\<forall>(t, a)\<in>set trace. local_day sd t date"
  shows "\<forall>(t, a)\<in>set trace. a = None \<or> (\<exists>reason. a = Some (Skipped reason))"
proof -
  have "day_done d date"
    using assms(1-4)
    by (auto simp: mark_scheduled_success_if_applicable_def local_day_def day_done_def Let_def)
  from done_day_steps [OF assms(5) this assms(6)] show ?thesis .
qed

text \<open>
  A tick starts a run exactly when the schedule is armed, the zone is known, the local hour lies in
  the window, the day has no success yet and no run is under way; it then sets the running flag, which it
  clears again if the run cannot be handed over. Every other tick leaves the database as it is.
\<close>

theorem tick_starts_a_run:
  "let (a, d') = tick_scheduled_cpas sd en dispatch d;
       due = (is_schedule_enabled d \<and> is_within_cpas_window sd (env_now en) = Inr True
              \<and> (\<nexists>date. local_day sd (env_now en) date \<and> day_done d date) \<and> \<not> is_cpas_running d) in
     (due = (\<forall>reason. a \<noteq> Skipped reason))
     \<and> (due = (a = Dispatch_Failed \<or> (\<exists>date. a = Dispatched date \<and> local_day sd (env_now en) date)))
     \<and> (\<not> due \<longrightarrow> d' = d)
     \<and> (due \<longrightarrow> (a = Dispatch_Failed) = (dispatch \<noteq> Inr ()) \<and> is_cpas_running d' = (dispatch = Inr ()))"
proof -
  let ?due = "is_schedule_enabled d \<and> is_within_cpas_window sd (env_now en) = Inr True
              \<and> (\<nexists>date. local_day sd (env_now en) date \<and> day_done d date) \<and> \<not> is_cpas_running d"
  obtain a d' where t: "tick_scheduled_cpas sd en dispatch d = (a, d')" by (cases "tick_scheduled_cpas sd en dispatch d")
  show ?thesis
  proof (cases ?due)
    case False
    with t have "d' = d \<and> (\<exists>reason. a = Skipped reason)"
      by (auto simp: tick_scheduled_cpas_def is_within_cpas_window_def local_day_def day_done_def Let_def
          split: if_splits sum.splits)
    with False t show ?thesis by (auto simp: Let_def)
  next
    case True
    then obtain hour today where day: "local_now sd (env_now en) = Inr (hour, today)"
      by (auto simp: is_within_cpas_window_def rbind_eq_Inr)
    have flags: "is_cpas_running (append_schedule_audit en x e det) = is_cpas_running x"
      "is_cpas_running (save_meta x m) = is_cpas_running x" for x e det m
      by (simp add: is_cpas_running_def append_schedule_audit_def admin_flag_set_keys add_injected_def schedule_kinds)
        (simp add: is_cpas_running_def save_meta_def admin_flag_put_first schedule_kinds)
    have set: "is_cpas_running (set_admin_flag x FLAG_CPAS_RUNNING PNone)"
      "\<not> is_cpas_running (clear_cpas_running_flag x)" for x
      by (simp_all add: is_cpas_running_def clear_cpas_running_flag_def admin_flag_after_set admin_flag_after_clear)
    from True day t set flags show ?thesis
      by (cases dispatch)
        (auto simp: tick_scheduled_cpas_def trigger_daily_activities_def local_day_def day_done_def Let_def)
  qed
qed

subsection \<open>A day in the life of the schedule\<close>

definition example_schedule :: schedule_ext where
  "example_schedule = \<lparr>sd_timezone = [], sd_start = [], sd_end = [],
     sd_zone = (\<lambda>name. if name = ''US/Pacific'' then Some (\<lambda>t. (t div 3600000000 mod 24, ''day'')) else None)\<rparr>"

definition armed_db :: db where
  "armed_db = empty_db\<lparr>db_injected := [(FLAG_SCHEDULE_ENABLED, JDoc (PDict [(''enabled'', PBool True)]))]\<rparr>"

definition schedule_env :: env where
  "schedule_env = \<lparr>env_now = 3 * 3600000000, env_uuid = (\<lambda>_. []), env_isoformat = (\<lambda>_. None), env_sha1_hex = (\<lambda>s. s),
     env_elevation = (\<lambda>_ _. Inr 0), env_fcc_offices = [], env_repr = (\<lambda>_. [])\<rparr>"

lemma armed: "is_schedule_enabled armed_db" "is_within_cpas_window example_schedule (3 * 3600000000) = Inr True"
  "local_day example_schedule t ''day''" "local_now example_schedule (3 * 3600000000) = Inr (3, ''day'')"
  by (simp_all add: is_schedule_enabled_def armed_db_def first_of_kind_def rows_of_kind_def row_dict_def
      is_within_cpas_window_def local_now_def resolve_schedule_zone_def schedule_timezone_name_def example_schedule_def
      py_strip_def DEFAULT_TIMEZONE_def hour_in_window_def schedule_start_hour_def schedule_end_hour_def env_int_def
      clamp_hour_def local_day_def)

theorem one_success_a_day_witness:
  "\<exists>d a. mark_scheduled_success_if_applicable example_schedule schedule_env armed_db = Inr d
     \<and> fst (tick_scheduled_cpas example_schedule (schedule_env\<lparr>env_now := 3 * 3600000000\<rparr>) (Inr ()) d) = a
     \<and> (\<exists>reason. a = Skipped reason)"
proof -
  have now: "env_now schedule_env = 3 * 3600000000" by (simp add: schedule_env_def)
  obtain d where d: "mark_scheduled_success_if_applicable example_schedule schedule_env armed_db = Inr d"
    using armed by (simp add: mark_scheduled_success_if_applicable_def now Let_def)
  obtain a d' where t: "tick_scheduled_cpas example_schedule (schedule_env\<lparr>env_now := 3 * 3600000000\<rparr>) (Inr ()) d = (a, d')"
    by (cases "tick_scheduled_cpas example_schedule (schedule_env\<lparr>env_now := 3 * 3600000000\<rparr>) (Inr ()) d")
  have "schedule_steps example_schedule schedule_env d [(3 * 3600000000, Some a)] d'"
    by (rule schedule_steps.tick [OF t schedule_steps.stop])
  from one_success_a_day [OF armed(1) _ _ d this, of "''day''"] armed(2,3) now
  have "\<exists>reason. a = Skipped reason" by auto
  with d t show ?thesis by auto
qed

theorem tick_starts_a_run_witness:
  "\<exists>d'. tick_scheduled_cpas example_schedule schedule_env (Inr ()) armed_db = (Dispatched ''day'', d')
     \<and> is_cpas_running d'"
proof -
  have now: "env_now schedule_env = 3 * 3600000000" by (simp add: schedule_env_def)
  have fresh: "\<not> day_done armed_db date" "\<not> is_cpas_running armed_db" for date
    by (simp_all add: day_done_def load_meta_def armed_db_def first_of_kind_def rows_of_kind_def is_cpas_running_def
        admin_flag_set_def schedule_kinds)
  obtain a d' where t: "tick_scheduled_cpas example_schedule schedule_env (Inr ()) armed_db = (a, d')"
    by (cases "tick_scheduled_cpas example_schedule schedule_env (Inr ()) armed_db")
  have day: "local_day example_schedule (3 * 3600000000) date \<Longrightarrow> date = ''day''" for date
    using armed(4) by (auto simp: local_day_def)
  from tick_starts_a_run [of example_schedule schedule_env "Inr ()" armed_db] armed(1,2) fresh t now day show ?thesis
    by (auto simp: Let_def)
qed

end
