(* ===== verification/Fad.thy ===== *)
theory Fad
  imports ProtectionPoints Timestamps "HOL-Library.Sublist"
begin

text \<open>
  The full activity dump a SAS offers its peers (services/fad_service.py): the records of the
  registered CBSDs, of the zones and of the ESC sensors, the pages of one type, the manifest, the
  integrity check and the publication. The routes that serve it are in \<open>FadRoutes\<close>.

  The tables \<open>fad_dumps\<close> and \<open>fad_files\<close> are a state of their own, next to \<open>db\<close>. The text
  \<open>json.dumps\<close> makes of a document in UTF-8 is an argument (\<open>fx_bytes\<close>), as is the primary key
  of a zone row, which only names a zone that has no identifier (\<open>fx_zone_row\<close>), and the settings.
  The advisory lock makes a publication one step.
\<close>

record fad_ext =
  fx_inject :: inject_ext
  fx_public_base :: string
  fx_version :: string
  fx_max_records :: string
  fx_zone_row :: "nat \<Rightarrow> nat"
  fx_bytes :: "jtext \<Rightarrow> string"

record fad_dump =
  fd_pk :: nat
  fd_generation :: string
  fd_description :: string
  fd_manifest :: jtext
  fd_ready :: bool
  fd_published :: bool

record fad_file =
  ff_dump :: nat
  ff_type :: string
  ff_path :: string
  ff_checksum :: pyval
  ff_bytes :: pyval
  ff_content :: jtext

record fad_state =
  fs_dumps :: "fad_dump list"
  fs_files :: "fad_file list"
  fs_next :: nat

definition MANIFEST_MAX_FILES :: nat where "MANIFEST_MAX_FILES = 101"
definition DEFAULT_MAX_RECORDS_PER_FILE :: int where "DEFAULT_MAX_RECORDS_PER_FILE = 500"
definition RECORD_TYPES :: "string list" where
  "RECORD_TYPES = [''cbsd'', ''zone'', ''esc_sensor'', ''coordination'']"

definition REGISTRATION_FIELDS :: "string list" where
  "REGISTRATION_FIELDS = [''fccId'', ''cbsdCategory'', ''callSign'', ''airInterface'', ''measCapability'',
     ''installationParam'', ''groupingParam'']"

definition max_records_per_file :: "fad_ext \<Rightarrow> nat" where
  "max_records_per_file fx =
     (let raw = py_strip (fx_max_records fx) in
      nat (if raw = [] then DEFAULT_MAX_RECORDS_PER_FILE
           else (case read_int raw of
                   None \<Rightarrow> DEFAULT_MAX_RECORDS_PER_FILE
                 | Some v \<Rightarrow> max 1 (min v 10000))))"

lemma page_size_bounds: "1 \<le> max_records_per_file fx" "max_records_per_file fx \<le> 10000"
  by (auto simp: max_records_per_file_def DEFAULT_MAX_RECORDS_PER_FILE_def Let_def split: option.split)

subsection \<open>Identifiers\<close>

definition cbsd_reference_id :: "env \<Rightarrow> string \<Rightarrow> string \<Rightarrow> string" where
  "cbsd_reference_id en fcc_id serial = fcc_id @ ''/'' @ env_sha1_hex en serial"

lemma fad_cbsd_id_reference: "fad_cbsd_id en f s = ''cbsd/'' @ cbsd_reference_id en f s"
  by (simp add: fad_cbsd_id_def cbsd_reference_id_def)

definition rewrite_esc_sensor_id :: "inject_ext \<Rightarrow> string option \<Rightarrow> string" where
  "rewrite_esc_sensor_id ix record_id =
     (let own = ''esc_sensor/'' @ ix_admin_id ix @ ''/'' in
      case record_id of
        Some (c # cs) \<Rightarrow>
          (let parts = split_on (CHR ''/'') (c # cs) in
           if 3 \<le> length parts \<and> parts ! 0 = ''esc_sensor'' then own @ join_with ''/'' (drop 2 parts)
           else if 2 \<le> length parts \<and> parts ! 0 = ''esc_sensor'' then own @ parts ! 1
           else own @ c # cs)
      | _ \<Rightarrow> own @ ''0'')"

subsection \<open>CBSD records\<close>

text \<open>\<open>k in v\<close> for a string \<open>k\<close>.\<close>

definition py_contains :: "string \<Rightarrow> pyval \<Rightarrow> bool res" where
  "py_contains k v =
     (case v of
        PDict d \<Rightarrow> Inr (dhas d k)
      | PList xs \<Rightarrow> Inr (PStr k \<in> set xs)
      | PStr s \<Rightarrow> Inr (sublist k s)
      | _ \<Rightarrow> Inl TypeError)"

definition copy_field :: "pyval \<Rightarrow> pydict \<Rightarrow> string \<Rightarrow> pydict res" where
  "copy_field reg out key =
     rbind (py_contains key reg) (\<lambda>found.
       if \<not> found then Inr out
       else rbind (pykey reg key) (\<lambda>v. Inr (if v = PNone then out else dset out key v)))"

definition build_registration :: "pyval \<Rightarrow> pydict res" where
  "build_registration reg =
     rbind (rfold (copy_field reg) [] REGISTRATION_FIELDS) (\<lambda>out.
       case dget out ''installationParam'' of
         PDict inst \<Rightarrow>
           Inr (dset out ''installationParam''
             (PDict (if dget inst ''antennaAzimuth'' = PNone then dset inst ''antennaBeamwidth'' (PInt 360)
                     else inst)))
       | _ \<Rightarrow> Inr out)"

definition operation_param_from_grant :: "grant_row \<Rightarrow> pydict res" where
  "operation_param_from_grant g =
     (let req = (case json_loads_or_empty (gr_json g) of Inr v \<Rightarrow> v | Inl _ \<Rightarrow> PDict []);
          own = [(''maxEirp'', case gr_eirp g of Some e \<Rightarrow> PFloat e | None \<Rightarrow> PNone),
                 (''operationFrequencyRange'',
                    PDict [(''lowFrequency'', PInt (gr_low g)), (''highFrequency'', PInt (gr_high g))])] in
      rbind (pget req ''operationParam'') (\<lambda>op.
        case op of
          PDict p \<Rightarrow> Inr (if dhas p ''operationFrequencyRange'' then p else own)
        | _ \<Rightarrow> Inr own))"

definition build_grant_record :: "grant_row \<Rightarrow> pyval res" where
  "build_grant_record g =
     rbind (operation_param_from_grant g) (\<lambda>op.
       Inr (PDict [(''id'', PStr (gr_id g)), (''channelType'', PStr (gr_channel g)),
         (''grantExpireTime'', PStr (fmt_transmit_expire (gr_expire g))), (''operationParam'', PDict op),
         (''requestedOperationParam'', PDict op), (''terminated'', PBool (gr_term g))]))"

text \<open>Only registered CBSDs, with their grants that are not terminated.\<close>

definition dumped_cbsds :: "db \<Rightarrow> cbsd_row list" where
  "dumped_cbsds d = filter (\<lambda>c. cb_state c = ''REGISTERED'') (db_cbsds d)"

definition dumped_grants :: "db \<Rightarrow> cbsd_row \<Rightarrow> grant_row list" where
  "dumped_grants d c = filter (\<lambda>g. gr_cbsd_pk g = cb_pk c \<and> \<not> gr_term g) (db_grants d)"

definition build_cbsd_record :: "env \<Rightarrow> db \<Rightarrow> cbsd_row \<Rightarrow> pyval res" where
  "build_cbsd_record en d c =
     (let reg = (case json_loads_or_empty (cb_reg c) of Inr v \<Rightarrow> v | Inl _ \<Rightarrow> PDict []) in
      rbind (build_registration reg) (\<lambda>r.
      rbind (rmap build_grant_record (dumped_grants d c)) (\<lambda>gs.
        Inr (PDict [(''id'', PStr (fad_cbsd_id en (cb_fcc_id c) (cb_serial c))),
                    (''registration'', PDict r), (''grants'', PList gs)]))))"

definition build_cbsd_records :: "env \<Rightarrow> db \<Rightarrow> pyval list res" where
  "build_cbsd_records en d = rmap (build_cbsd_record en d) (dumped_cbsds d)"

subsection \<open>Zone and sensor records\<close>

definition operational_to_reference_id :: "env \<Rightarrow> db \<Rightarrow> string \<Rightarrow> string" where
  "operational_to_reference_id en d ref =
     (case lock_cbsd_row d (PStr ref) of
        Some c \<Rightarrow> cbsd_reference_id en (cb_fcc_id c) (cb_serial c)
      | None \<Rightarrow>
          (let parts = split_on (CHR ''/'') ref in
           if length parts = 2 \<and> length (parts ! 1) = 40 then ref
           else if take 5 ref = ''cbsd/'' then drop 5 ref
           else if length parts = 2 then cbsd_reference_id en (parts ! 0) (parts ! 1)
           else ref))"

definition zone_ppa_info :: "env \<Rightarrow> db \<Rightarrow> pydict \<Rightarrow> pydict res" where
  "zone_ppa_info en d record =
     (case dget record ''ppaInfo'' of
        PDict info \<Rightarrow>
          rbind (pyiter (por (dget info ''cbsdReferenceId'') (PList []))) (\<lambda>refs.
            Inr (dset record ''ppaInfo'' (PDict (dset info ''cbsdReferenceId''
              (PList (map (\<lambda>r. PStr (operational_to_reference_id en d (py_str en r))) refs))))))
      | _ \<Rightarrow> Inr record)"

text \<open>One row: \<open>None\<close> where the loop skips it.\<close>

definition build_zone_record :: "fad_ext \<Rightarrow> env \<Rightarrow> db \<Rightarrow> nat \<times> jtext \<Rightarrow> pyval option res" where
  "build_zone_record fx en d row =
     (case json_loads_or_empty (snd row) of
        Inl _ \<Rightarrow> Inr None
      | Inr payload \<Rightarrow>
          rbind (pget payload ''record'') (\<lambda>inner.
            case por inner payload of
              PDict record \<Rightarrow>
                (if (dget record ''usage'' \<noteq> PNone \<and> dget record ''usage'' \<noteq> PStr ''PPA''
                     \<and> \<not> dhas record ''ppaInfo'')
                    \<or> dget record ''terminated'' = PBool True
                 then Inr None
                 else rbind (rewrite_zone_id (fx_inject fx) (dget record ''id'')
                              (show_nat (fx_zone_row fx (fst row)))) (\<lambda>zone_id.
                      rbind (zone_ppa_info en d (dset record ''id'' (PStr zone_id))) (\<lambda>r. Inr (Some (PDict r)))))
            | _ \<Rightarrow> Inr None))"

definition build_zone_records :: "fad_ext \<Rightarrow> env \<Rightarrow> db \<Rightarrow> pyval list res" where
  "build_zone_records fx en d =
     rbind (rmap (build_zone_record fx en d) (numbered (rows_of_kind d ''zone''))) (\<lambda>rs. Inr (present rs))"

definition build_esc_record :: "string \<times> jtext \<Rightarrow> pyval option" where
  "build_esc_record row =
     (case json_loads_or_empty (snd row) of
        Inr (PDict record) \<Rightarrow> Some (PDict (dset record ''id'' (PStr (fst row))))
      | _ \<Rightarrow> None)"

definition build_esc_records :: "db \<Rightarrow> pyval list" where
  "build_esc_records d = List.map_filter build_esc_record (db_esc d)"

definition build_coordination_records :: "db \<Rightarrow> pyval list" where
  "build_coordination_records d = []"

definition build_records :: "fad_ext \<Rightarrow> env \<Rightarrow> db \<Rightarrow> string \<Rightarrow> pyval list res" where
  "build_records fx en d record_type =
     (if record_type = ''cbsd'' then build_cbsd_records en d
      else if record_type = ''zone'' then build_zone_records fx en d
      else if record_type = ''esc_sensor'' then Inr (build_esc_records d)
      else if record_type = ''coordination'' then Inr (build_coordination_records d)
      else Inl KeyError)"

subsection \<open>Pages and files\<close>

function (sequential) pages_from :: "nat \<Rightarrow> 'a list \<Rightarrow> 'a list list" where
  "pages_from page_size [] = []"
| "pages_from page_size (x # xs) =
     (if page_size = 0 then [] else take page_size (x # xs) # pages_from page_size (drop page_size (x # xs)))"
  by pat_completeness auto
termination by (relation "measure (\<lambda>(n, xs). length xs)") auto

definition chunk_records :: "'a list \<Rightarrow> nat \<Rightarrow> 'a list list" where
  "chunk_records records page_size = (if records = [] then [[]] else pages_from page_size records)"

definition sha1_of :: "fad_ext \<Rightarrow> env \<Rightarrow> jtext \<Rightarrow> pyval" where
  "sha1_of fx en content = PStr (env_sha1_hex en (fx_bytes fx content))"

definition byte_length :: "fad_ext \<Rightarrow> jtext \<Rightarrow> int" where
  "byte_length fx content = int (length (fx_bytes fx content))"

definition make_dump_file ::
    "fad_ext \<Rightarrow> env \<Rightarrow> string \<Rightarrow> string \<Rightarrow> pyval list \<Rightarrow> string \<Rightarrow> pydict \<times> string \<times> jtext" where
  "make_dump_file fx en record_type filename record_data timestamp =
     (let content = json_dumps (PDict [(''startTime'', PStr timestamp), (''endTime'', PStr timestamp),
                                       (''recordData'', PList record_data)]);
          url_path = ''/'' @ fx_version fx @ ''/'' @ record_type @ ''/'' @ filename in
      ([(''url'', PStr (fx_public_base fx @ url_path)), (''checksum'', sha1_of fx en content),
        (''size'', PInt (byte_length fx content)), (''version'', PStr (fx_version fx)),
        (''recordType'', PStr record_type)], url_path, content))"

definition assert_entry_matches_content :: "fad_ext \<Rightarrow> env \<Rightarrow> pydict \<Rightarrow> jtext \<Rightarrow> unit res" where
  "assert_entry_matches_content fx en entry content =
     (if dget entry ''checksum'' \<noteq> sha1_of fx en content then Inl RuntimeError
      else rbind (py_int (por (dget entry ''size'') (PInt (- 1)))) (\<lambda>n.
        if n \<noteq> byte_length fx content then Inl RuntimeError else Inr ()))"

record fad_row =
  fr_type :: string
  fr_path :: string
  fr_content :: jtext
  fr_entry :: pydict

record fad_payload =
  sn_timestamp :: string
  sn_description :: string
  sn_manifest :: jtext
  sn_rows :: "fad_row list"

definition dump_filename :: "string \<Rightarrow> nat \<Rightarrow> string" where
  "dump_filename record_type page_index = ''activity_dump_file_'' @ record_type @ show_nat page_index @ ''.json''"

definition page_row :: "fad_ext \<Rightarrow> env \<Rightarrow> string \<Rightarrow> string \<Rightarrow> nat \<times> pyval list \<Rightarrow> fad_row res" where
  "page_row fx en timestamp record_type page =
     (case make_dump_file fx en record_type (dump_filename record_type (fst page)) (snd page) timestamp of
        (entry, url_path, content) \<Rightarrow>
          rbind (assert_entry_matches_content fx en entry content) (\<lambda>_.
            Inr \<lparr>fr_type = record_type, fr_path = url_path, fr_content = content, fr_entry = entry\<rparr>))"

definition type_rows :: "fad_ext \<Rightarrow> env \<Rightarrow> db \<Rightarrow> string \<Rightarrow> string \<Rightarrow> fad_row list res" where
  "type_rows fx en d timestamp record_type =
     rbind (build_records fx en d record_type) (\<lambda>records.
       rmap (page_row fx en timestamp record_type)
         (numbered (chunk_records records (max_records_per_file fx))))"

definition times_match :: "string \<Rightarrow> jtext \<Rightarrow> bool res" where
  "times_match timestamp content =
     rbind (json_loads content) (\<lambda>body.
     rbind (pget body ''startTime'') (\<lambda>t0.
     rbind (pget body ''endTime'') (\<lambda>t1. Inr (t0 = PStr timestamp \<and> t1 = PStr timestamp))))"

definition check_times :: "string \<Rightarrow> fad_row \<Rightarrow> unit res" where
  "check_times timestamp row =
     rbind (times_match timestamp (fr_content row)) (\<lambda>ok. if ok then Inr () else Inl RuntimeError)"

definition FAD_DESCRIPTION :: string where "FAD_DESCRIPTION = ''Full activity dump files''"

definition build_snapshot_payload :: "fad_ext \<Rightarrow> env \<Rightarrow> db \<Rightarrow> fad_payload res" where
  "build_snapshot_payload fx en d =
     (let timestamp = fmt_transmit_expire (env_now en) in
      rbind (rmap (type_rows fx en d timestamp) RECORD_TYPES) (\<lambda>rowss.
        let rows = concat rowss in
        if length rows > MANIFEST_MAX_FILES then Inl RuntimeError
        else rbind (rmap (check_times timestamp) rows) (\<lambda>_.
          Inr \<lparr>sn_timestamp = timestamp, sn_description = FAD_DESCRIPTION,
               sn_manifest = json_dumps (PDict [(''files'', PList (map (\<lambda>r. PDict (fr_entry r)) rows)),
                 (''generationDateTime'', PStr timestamp), (''description'', PStr FAD_DESCRIPTION)]),
               sn_rows = rows\<rparr>)))"

subsection \<open>Integrity\<close>

definition dump_file_at :: "fad_state \<Rightarrow> nat \<Rightarrow> string \<Rightarrow> fad_file option" where
  "dump_file_at fs pk path = List.find (\<lambda>f. ff_dump f = pk \<and> ff_path f = path) (fs_files fs)"

text \<open>\<open>urlparse(entry["url"]).path or ""\<close>: an empty value has no path, another one that is no text cannot be decoded.\<close>

definition entry_path :: "fad_ext \<Rightarrow> pyval \<Rightarrow> string res" where
  "entry_path fx url =
     (if \<not> truthy url then Inr ''/''
      else (case url of
        PStr u \<Rightarrow>
          rbind (urlsplit (ix_netloc_ok (fx_inject fx)) u) (\<lambda>(scheme, _, tail).
            let p = path_of_url scheme tail in Inr (if take 1 p = ''/'' then p else CHR ''/'' # p))
      | _ \<Rightarrow> Inl AttributeError))"

definition not_ok :: "string \<Rightarrow> pydict" where
  "not_ok reason = [(''ok'', PBool False), (''reason'', PStr reason)]"

text \<open>The first required key an entry lacks.\<close>

fun missing_key :: "pyval \<Rightarrow> string list \<Rightarrow> string option res" where
  "missing_key entry [] = Inr None"
| "missing_key entry (k # ks) =
     rbind (py_contains k entry) (\<lambda>found. if found then missing_key entry ks else Inr (Some k))"

text \<open>What the loop finds wrong with one entry, from its file on.\<close>

definition file_fault :: "fad_ext \<Rightarrow> env \<Rightarrow> pyval \<Rightarrow> pydict \<Rightarrow> pyval \<Rightarrow> pyval \<Rightarrow> jtext \<Rightarrow> pydict option res" where
  "file_fault fx en gen where_at checksum n content =
     (case assert_entry_matches_content fx en [(''checksum'', checksum), (''size'', n)] content of
        Inl e \<Rightarrow>
          if e \<noteq> RuntimeError then Inl e
          else Inr (Some (not_ok (if checksum \<noteq> sha1_of fx en content
                 then ''FAD checksum mismatch against file body''
                 else ''FAD size mismatch against file body'') @ where_at))
      | Inr _ \<Rightarrow>
          rbind (json_loads content) (\<lambda>body.
          rbind (pget body ''startTime'') (\<lambda>t0. rbind (pget body ''endTime'') (\<lambda>t1.
            Inr (if t0 \<noteq> gen \<or> t1 \<noteq> gen then Some (not_ok ''timestamp_mismatch'' @ where_at) else None)))))"

definition entry_fault :: "fad_ext \<Rightarrow> env \<Rightarrow> fad_state \<Rightarrow> nat \<Rightarrow> pyval \<Rightarrow> pyval \<Rightarrow> pydict option res" where
  "entry_fault fx en fs pk gen entry =
     rbind (missing_key entry [''url'', ''checksum'', ''size'', ''version'', ''recordType'']) (\<lambda>missing.
       case missing of
         Some k \<Rightarrow> Inr (Some (not_ok (''missing_entry_'' @ k)))
       | None \<Rightarrow>
           rbind (pykey entry ''url'') (\<lambda>url. rbind (entry_path fx url) (\<lambda>path.
             let where_at = [(''path'', PStr path)] in
             (case dump_file_at fs pk path of
               None \<Rightarrow> Inr (Some (not_ok ''file_row_missing'' @ where_at))
             | Some f \<Rightarrow>
                 rbind (pykey entry ''checksum'') (\<lambda>checksum. rbind (pykey entry ''size'') (\<lambda>n.
                   file_fault fx en gen where_at checksum n (ff_content f)))))))"

fun first_fault :: "('a \<Rightarrow> pydict option res) \<Rightarrow> 'a list \<Rightarrow> pydict option res" where
  "first_fault f [] = Inr None"
| "first_fault f (x # xs) = rbind (f x) (\<lambda>r. case r of Some fault \<Rightarrow> Inr (Some fault) | None \<Rightarrow> first_fault f xs)"

definition present_types :: "pyval list \<Rightarrow> pyval list res" where
  "present_types entries = rmap (\<lambda>e. rbind (pykey e ''recordType'') check_hash) entries"

definition integrity_report :: "fad_dump \<Rightarrow> pyval \<Rightarrow> pyval list \<Rightarrow> pyval list \<Rightarrow> pydict" where
  "integrity_report target gen entries types =
     (let missing = filter (\<lambda>t. PStr t \<notin> set types) RECORD_TYPES in
      if missing \<noteq> [] then not_ok ''missing_record_types'' @ [(''missing'', PList (map PStr missing))]
      else [(''ok'', PBool True), (''generationDateTime'', gen), (''fileCount'', PInt (int (length entries))),
            (''dumpId'', PInt (int (fd_pk target))), (''published'', PBool (fd_published target)),
            (''ready'', PBool (fd_ready target))])"

definition get_published_dump :: "fad_state \<Rightarrow> fad_dump option" where
  "get_published_dump fs = List.find fd_published (rev (fs_dumps fs))"

definition verify_ready_dump_integrity ::
    "fad_ext \<Rightarrow> env \<Rightarrow> fad_state \<Rightarrow> fad_dump option \<Rightarrow> pydict res" where
  "verify_ready_dump_integrity fx en fs dump =
     (case (case dump of Some t \<Rightarrow> Some t | None \<Rightarrow> get_published_dump fs) of
        None \<Rightarrow> Inr (not_ok ''no_ready_dump'')
      | Some target \<Rightarrow>
          (case json_loads_or_empty (fd_manifest target) of
             Inl _ \<Rightarrow> Inr (not_ok ''bad_manifest_json'')
           | Inr manifest \<Rightarrow>
               rbind (pget manifest ''files'') (\<lambda>files.
                 case files of
                   PList (e # es) \<Rightarrow>
                     (let entries = e # es in
                      if \<not> dhas (or_empty_dict manifest) ''generationDateTime''
                      then Inr (not_ok ''missing_generationDateTime'')
                      else if \<not> dhas (or_empty_dict manifest) ''description''
                      then Inr (not_ok ''missing_description'')
                      else (let gen = dget (or_empty_dict manifest) ''generationDateTime'' in
                        rbind (first_fault (entry_fault fx en fs (fd_pk target) gen) entries) (\<lambda>fault.
                          case fault of
                            Some report \<Rightarrow> Inr report
                          | None \<Rightarrow> rbind (present_types entries) (\<lambda>types.
                              Inr (integrity_report target gen entries types)))))
                 | _ \<Rightarrow> Inr (not_ok ''missing_files''))))"

subsection \<open>Publication\<close>

definition file_of_row :: "nat \<Rightarrow> fad_row \<Rightarrow> fad_file" where
  "file_of_row pk row =
     \<lparr>ff_dump = pk, ff_type = fr_type row, ff_path = fr_path row,
      ff_checksum = dget (fr_entry row) ''checksum'', ff_bytes = dget (fr_entry row) ''size'',
      ff_content = fr_content row\<rparr>"

text \<open>A failure raises: the rows of the attempt are rolled back with the transaction.\<close>

definition publish_snapshot ::
    "fad_ext \<Rightarrow> env \<Rightarrow> fad_state \<Rightarrow> fad_payload \<Rightarrow> (fad_dump \<times> fad_state) res" where
  "publish_snapshot fx en fs payload =
     (let dump = \<lparr>fd_pk = fs_next fs, fd_generation = sn_timestamp payload,
                  fd_description = sn_description payload, fd_manifest = sn_manifest payload,
                  fd_ready = True, fd_published = False\<rparr>;
          written = \<lparr>fs_dumps = fs_dumps fs @ [dump],
                     fs_files = fs_files fs @ map (file_of_row (fs_next fs)) (sn_rows payload),
                     fs_next = Suc (fs_next fs)\<rparr> in
      rbind (verify_ready_dump_integrity fx en written (Some dump)) (\<lambda>report.
        if \<not> truthy (dget report ''ok'') then Inl RuntimeError
        else (let current = dump\<lparr>fd_published := True\<rparr> in
          Inr (current, written\<lparr>fs_dumps :=
                 map (\<lambda>x. if fd_published x then x\<lparr>fd_published := False\<rparr> else x) (fs_dumps fs) @ [current]\<rparr>))))"

definition create_full_activity_dump ::
    "fad_ext \<Rightarrow> env \<Rightarrow> db \<Rightarrow> fad_state \<Rightarrow> (fad_dump \<times> fad_state) res" where
  "create_full_activity_dump fx en d fs =
     rbind (build_snapshot_payload fx en d) (publish_snapshot fx en fs)"

subsection \<open>Serving\<close>

definition get_latest_ready_dump :: "fad_state \<Rightarrow> fad_dump option" where
  "get_latest_ready_dump fs = get_published_dump fs"

text \<open>A bare file name is looked up by its suffix when it names one file of the dump.\<close>

definition get_dump_file_by_path :: "fad_state \<Rightarrow> string \<Rightarrow> fad_file option" where
  "get_dump_file_by_path fs url_path =
     (case get_published_dump fs of
        None \<Rightarrow> None
      | Some dump \<Rightarrow>
          (let raw = py_strip url_path in
           if raw = [] \<or> CHR 0x5C \<in> set raw \<or> ''..'' \<in> set (split_on (CHR ''/'') raw) then None
           else (case dump_file_at fs (fd_pk dump) (if take 1 raw = ''/'' then raw else CHR ''/'' # raw) of
               Some f \<Rightarrow> Some f
             | None \<Rightarrow>
                 (case filter (\<lambda>s. s \<noteq> []) (split_on (CHR ''/'') raw) of
                    [filename] \<Rightarrow>
                      (if filename = ''.'' \<or> filename = ''..'' \<or> CHR ''/'' \<in> set filename
                          \<or> CHR 0x5C \<in> set filename then None
                       else (case filter (\<lambda>f. ff_dump f = fd_pk dump
                                   \<and> suffix (CHR ''/'' # filename) (ff_path f)) (fs_files fs) of
                           [f] \<Rightarrow> Some f | _ \<Rightarrow> None))
                  | _ \<Rightarrow> None))))"

end
