(* ===== verification/CpasPipeline.thy ===== *)
theory CpasPipeline
  imports CpasEvaluate CpasSchedule Fad
begin

text \<open>
  A coordination run (\<open>execute_cpas_pipeline\<close> of services/cpas_service.py): synchronise, freeze,
  preview, then in one critical section check that the data are still those of the snapshot, decide,
  apply, publish the activity dump, record the day and stamp the admission.

  Arguments are the two synchronisations, which talk to other systems and commit what they write, the
  request context that goes into the audit, and the text of an exception. The locks make the critical
  section one step. A failure rolls back to the last commit and leaves an audit row; the refusal of a
  drifted generation commits its request for another run first.
\<close>

record pipeline_ext =
  px_cpas :: cpas_env
  px_schedule :: schedule_ext
  px_fad :: fad_ext
  px_context :: pydict
  px_error_text :: "exn \<Rightarrow> string"
  px_sync_databases :: "db \<Rightarrow> unit res \<times> db"
  px_sync_peers :: "db \<Rightarrow> pydict res \<times> db"

type_synonym store = "db \<times> fad_state"

definition append_cpas_audit :: "pipeline_ext \<Rightarrow> env \<Rightarrow> db \<Rightarrow> string \<Rightarrow> pydict \<Rightarrow> db" where
  "append_cpas_audit px en d event detail =
     add_injected d ''cpas_pipeline_audit''
       (PDict ([(''event'', PStr event), (''at'', PStr (utc_now_iso (env_now en)))] @ px_context px @ detail))"

definition generation_dict :: "fingerprint \<Rightarrow> pydict" where
  "generation_dict fp =
     [(''peer_generations'', PDict (fp_peers fp)), (''injection_generations'', PDict (fp_injections fp))]"

definition authorization_generation_matches :: "fingerprint \<Rightarrow> fingerprint \<Rightarrow> bool" where
  "authorization_generation_matches frozen live =
     (deep_eq (PDict (fp_peers frozen)) (PDict (fp_peers live))
      \<and> deep_eq (PDict (fp_injections frozen)) (PDict (fp_injections live)))"

definition stage :: "string \<Rightarrow> pydict \<Rightarrow> pyval" where
  "stage name extra = PDict ([(''name'', PStr name), (''ok'', PBool True)] @ extra)"

definition stage_name :: "pyval \<Rightarrow> pyval" where
  "stage_name s = dget (or_empty_dict s) ''name''"

definition decision_dict :: "cpas_decision \<Rightarrow> pyval" where
  "decision_dict x =
     PDict [(''grant_id'', PStr (cd_grant_id x)), (''cbsd_id'', PStr (cd_cbsd_id x)), (''reason'', PStr (cd_reason x))]"

definition completed_detail ::
    "fad_dump \<Rightarrow> nat \<Rightarrow> pyval list \<Rightarrow> cpas_decision list \<Rightarrow> fingerprint \<Rightarrow> pydict" where
  "completed_detail dump changed stages decisions fp =
     [(''dumpId'', PInt (int (fd_pk dump))), (''terminatedGrants'', PInt (int changed)),
      (''stages'', PList (map stage_name stages
         @ [PStr ''apply_decisions_and_generate_fad'', PStr ''finalize_status_audit''])),
      (''decisions'', PList (map decision_dict decisions)),
      (''iapAdmissionGeneration'', PDict (generation_dict fp))]"

record section_result =
  sr_changed :: nat
  sr_dump :: fad_dump
  sr_decisions :: "cpas_decision list"

text \<open>The section past the check: a raise here leaves nothing behind.\<close>

definition apply_and_publish ::
    "pipeline_ext \<Rightarrow> env \<Rightarrow> store \<Rightarrow> cpas_snapshot \<Rightarrow> pyval list \<Rightarrow> (section_result \<times> store) res" where
  "apply_and_publish px en st snap stages =
     rbind (evaluate_cpas_protections (px_cpas px) en (fst st) snap) (\<lambda>(decisions, d1).
       let (changed, d2) = apply_cpas_decisions (env_now en) d1 decisions in
       rbind (create_full_activity_dump (px_fad px) en d2 (snd st)) (\<lambda>(dump, fs).
       rbind (mark_scheduled_success_if_applicable (px_schedule px) en d2) (\<lambda>d3.
         let d4 = record_iap_admission_generation en (clear_cpas_reevaluation_required d3) (Some (cs_generation snap));
             d5 = append_cpas_audit px en d4 ''cpas_completed''
                    (completed_detail dump changed stages decisions (cs_generation snap)) in
         Inr (\<lparr>sr_changed = changed, sr_dump = dump, sr_decisions = decisions\<rparr>, (d5, fs)))))"

definition mark_drift :: "env \<Rightarrow> db \<Rightarrow> cpas_snapshot \<Rightarrow> db" where
  "mark_drift en d snap =
     mark_cpas_reevaluation_required en d ''generation_drift_before_cpas_apply''
       [(''frozen'', PDict (generation_dict (cs_generation snap))),
        (''live'', PDict (generation_dict (current_generation_fingerprint d)))]"

text \<open>\<open>committed\<close> is the state a rollback returns to, \<open>st\<close> what the session sees.\<close>

definition run_pipeline_critical_section ::
    "pipeline_ext \<Rightarrow> env \<Rightarrow> store \<Rightarrow> store \<Rightarrow> cpas_snapshot \<Rightarrow> pyval list \<Rightarrow> section_result res \<times> store" where
  "run_pipeline_critical_section px en committed st snap stages =
     (if \<not> authorization_generation_matches (cs_generation snap) (current_generation_fingerprint (fst st))
      then (Inl CpasGenerationDriftError, (mark_drift en (fst st) snap, snd st))
      else (case apply_and_publish px en st snap stages of
              Inl e \<Rightarrow> (Inl e, committed)
            | Inr (r, st') \<Rightarrow> (Inr r, st')))"

definition pipeline_failed :: "pipeline_ext \<Rightarrow> env \<Rightarrow> exn \<Rightarrow> pyval list \<Rightarrow> store \<Rightarrow> pydict res \<times> store" where
  "pipeline_failed px en e stages st =
     (Inl e, (append_cpas_audit px en (fst st) ''cpas_failed''
                [(''error'', PStr (px_error_text px e)), (''stages'', PList stages)], snd st))"

definition freeze_stage :: "cpas_snapshot \<Rightarrow> pyval" where
  "freeze_stage snap =
     stage ''freeze_snapshot'' [(''frozen_at'', PStr (cs_frozen_at snap)),
       (''active_grants'', PInt (int (length (cs_pks snap)))), (''peer_records'', PInt (cs_peer_count snap))]"

definition applied_stage :: "section_result \<Rightarrow> fingerprint \<Rightarrow> pyval" where
  "applied_stage r fp =
     stage ''apply_decisions_and_generate_fad'' [(''dump_id'', PInt (int (fd_pk (sr_dump r)))),
       (''terminated'', PInt (int (sr_changed r))), (''decision_count'', PInt (int (length (sr_decisions r)))),
       (''iap_admission_generation'', PDict (generation_dict fp))]"

definition pipeline_report :: "section_result \<Rightarrow> pyval list \<Rightarrow> pydict" where
  "pipeline_report r stages =
     [(''ok'', PBool True), (''stages'', PList stages), (''dump_id'', PInt (int (fd_pk (sr_dump r)))),
      (''terminated_grants'', PInt (int (sr_changed r))), (''decisions'', PList (map decision_dict (sr_decisions r)))]"

text \<open>From the frozen snapshot on.\<close>

definition run_frozen ::
    "pipeline_ext \<Rightarrow> env \<Rightarrow> store \<Rightarrow> cpas_snapshot \<Rightarrow> pyval list \<Rightarrow> pydict res \<times> store" where
  "run_frozen px en st snap stages0 =
     (let stages1 = stages0 @ [freeze_stage snap] in
      case evaluate_cpas_protections (px_cpas px) en (fst st) snap of
        Inl e \<Rightarrow> pipeline_failed px en e stages1 st
      | Inr (preview, d1) \<Rightarrow>
          (let stages2 = stages1 @ [stage ''evaluate_protections'' [(''decision_count'', PInt (int (length preview)))]] in
           case run_pipeline_critical_section px en st (d1, snd st) snap stages2 of
             (Inl e, st') \<Rightarrow> pipeline_failed px en e stages2 st'
           | (Inr r, st') \<Rightarrow>
               (Inr (pipeline_report r (stages2 @ [applied_stage r (cs_generation snap),
                                                   stage ''finalize_status_audit'' []])), st')))"

definition execute_cpas_pipeline :: "pipeline_ext \<Rightarrow> env \<Rightarrow> store \<Rightarrow> pydict res \<times> store" where
  "execute_cpas_pipeline px en st =
     (case px_sync_databases px (fst st) of
        (Inl e, d1) \<Rightarrow> pipeline_failed px en e [] (d1, snd st)
      | (Inr _, d1) \<Rightarrow>
          (let stages1 = [stage ''sync_databases'' []] in
           case px_sync_peers px d1 of
             (Inl e, d2) \<Rightarrow> pipeline_failed px en e stages1 (d2, snd st)
           | (Inr report, d2) \<Rightarrow>
               (let stages2 = stages1 @ [stage ''sync_peer_fads''
                      [(''peers'', dget report ''peers''), (''ok_peers'', dget report ''ok''),
                       (''failed_peers'', dget report ''failed'')]] in
                case freeze_cpas_snapshot en d2 report of
                  Inl e \<Rightarrow> pipeline_failed px en e stages2 (d2, snd st)
                | Inr snap \<Rightarrow> run_frozen px en (d2, snd st) snap stages2)))"

text \<open>The worker: whatever the outcome, the running flag is cleared at the end.\<close>

definition run_certification_cpas :: "pipeline_ext \<Rightarrow> env \<Rightarrow> store \<Rightarrow> store" where
  "run_certification_cpas px en st =
     (case execute_cpas_pipeline px en st of (_, st') \<Rightarrow> (clear_cpas_running_flag (fst st'), snd st'))"

end
