(* ===== verification/FadSafety.thy ===== *)
theory FadSafety
  imports Fad
begin

text \<open>
  What a publication of the full activity dump promises: the pages of a record type are a partition of
  its records, the published dump is the only one, its manifest names files whose text has the
  announced checksum and size, and nothing of the earlier dumps is lost.
\<close>

subsection \<open>Pages\<close>

lemma concat_pages: "0 < n \<Longrightarrow> concat (pages_from n xs) = xs"
  by (induction n xs rule: pages_from.induct) (auto simp del: take.simps drop.simps simp: append_take_drop_id)

lemma pages_bounded: "p \<in> set (pages_from n xs) \<Longrightarrow> length p \<le> n \<and> p \<noteq> []"
  by (induction n xs rule: pages_from.induct) (auto split: if_splits)

lemma concat_chunks: "0 < n \<Longrightarrow> concat (chunk_records xs n) = xs"
  by (simp add: chunk_records_def concat_pages)

lemma chunks_bounded: "p \<in> set (chunk_records xs n) \<Longrightarrow> length p \<le> n"
  using pages_bounded by (auto simp: chunk_records_def split: if_splits)

lemma chunks_nonempty: "0 < n \<Longrightarrow> chunk_records xs n \<noteq> []"
  by (cases xs) (auto simp: chunk_records_def)

text \<open>As many pages as the records need, one if there are none.\<close>

lemma pages_count: "0 < n \<Longrightarrow> length (pages_from n xs) = (length xs + n - 1) div n"
proof (induction n xs rule: pages_from.induct)
  case (1 n)
  then show ?case by simp
next
  case (2 n x xs)
  show ?case
  proof (cases "n \<le> length (x # xs)")
    case True
    then have "length (x # xs) + n - 1 = (length (x # xs) - n + n - 1) + n" using 2 by simp
    then have "(length (x # xs) + n - 1) div n = Suc ((length (drop n (x # xs)) + n - 1) div n)"
      using 2(2) by (simp only: div_add_self2 length_drop)
    moreover have "length (pages_from n (x # xs)) = Suc (length (pages_from n (drop n (x # xs))))"
      using 2(2) by (simp del: drop.simps)
    moreover have "length (pages_from n (drop n (x # xs))) = (length (drop n (x # xs)) + n - 1) div n"
      using 2 by (simp del: drop.simps)
    ultimately show ?thesis by (simp only:)
  next
    case False
    then have "drop n (x # xs) = []" by simp
    moreover from False have "(length (x # xs) + n - 1) div n = 1"
      by (intro div_nat_eqI) simp_all
    ultimately show ?thesis using 2(2) by simp
  qed
qed

lemma numbered_facts [simp]: "map snd (numbered xs) = xs" "length (numbered xs) = length xs"
  by (simp_all add: numbered_def)

subsection \<open>The rows of a snapshot\<close>

definition page_records :: "jtext \<Rightarrow> pyval list" where
  "page_records content =
     (case content of
        JDoc (PDict body) \<Rightarrow> (case dget body ''recordData'' of PList rs \<Rightarrow> rs | _ \<Rightarrow> [])
      | _ \<Rightarrow> [])"

lemma page_rowD:
  assumes "page_row fx en ts t p = Inr r"
  shows "fr_type r = t \<and> page_records (fr_content r) = snd p"
  using assms
  by (auto simp: page_row_def make_dump_file_def Let_def rbind_eq_Inr json_dumps_def page_records_def)

lemma page_rows_content:
  "rmap (page_row fx en ts t) ps = Inr rows \<Longrightarrow>
     map fr_type rows = replicate (length ps) t \<and> map (page_records \<circ> fr_content) rows = map snd ps"
  by (induction ps arbitrary: rows) (auto simp: rbind_eq_Inr dest!: page_rowD)

lemma type_rowsD:
  assumes "type_rows fx en d ts t = Inr rows"
  obtains records where "build_records fx en d t = Inr records"
    and "\<forall>r\<in>set rows. fr_type r = t"
    and "map (page_records \<circ> fr_content) rows = chunk_records records (max_records_per_file fx)"
proof -
  from assms obtain records where r: "build_records fx en d t = Inr records"
    "rmap (page_row fx en ts t) (numbered (chunk_records records (max_records_per_file fx))) = Inr rows"
    by (auto simp: type_rows_def rbind_eq_Inr)
  from page_rows_content [OF r(2)] have m: "map fr_type rows
      = replicate (length (chunk_records records (max_records_per_file fx))) t"
    and c: "map (page_records \<circ> fr_content) rows = chunk_records records (max_records_per_file fx)"
    by simp_all
  have "fr_type r = t" if "r \<in> set rows" for r
    using arg_cong [OF m, of set] that by auto
  with r(1) c that show ?thesis by blast
qed

lemma rows_of_type:
  assumes "rmap (type_rows fx en d ts) types = Inr rowss" and "distinct types" and "t \<in> set types"
  obtains rows where "filter (\<lambda>r. fr_type r = t) (concat rowss) = rows"
    and "type_rows fx en d ts t = Inr rows"
proof -
  have "type_rows fx en d ts t = Inr (filter (\<lambda>r. fr_type r = t) (concat rowss))"
    using assms
  proof (induction types arbitrary: rowss)
    case Nil
    then show ?case by simp
  next
    case (Cons u us)
    then obtain rows rest where h: "type_rows fx en d ts u = Inr rows"
      "rmap (type_rows fx en d ts) us = Inr rest" "rowss = rows # rest"
      by (auto simp: rbind_eq_Inr)
    from type_rowsD [OF h(1)] have u: "\<forall>r\<in>set rows. fr_type r = u" by metis
    have none: "filter (\<lambda>r. fr_type r = v) (concat rest) = []" if "v \<notin> set us" for v
    proof -
      have "fr_type r \<noteq> v" if r: "r \<in> set (concat rest)" for r
      proof -
        from r obtain i where i: "i < length rest" "r \<in> set (rest ! i)"
          unfolding set_concat by (auto simp: set_conv_nth [of rest])
        then have l: "i < length us" using rmap_length [OF h(2)] by simp
        from rmap_nth [OF h(2) l] i(2) have "fr_type r = us ! i" by (metis type_rowsD)
        with l \<open>v \<notin> set us\<close> show ?thesis by auto
      qed
      then show ?thesis by (simp add: filter_empty_conv)
    qed
    show ?case
    proof (cases "t = u")
      case True
      with u have "filter (\<lambda>r. fr_type r = t) rows = rows" by (simp add: filter_True)
      with True h none Cons.prems(2) show ?thesis by simp
    next
      case False
      with u have "filter (\<lambda>r. fr_type r = t) rows = []" by (auto simp: filter_empty_conv)
      with False Cons h show ?thesis by simp
    qed
  qed
  with that show ?thesis by blast
qed

subsection \<open>Integrity\<close>

lemma not_ok_dget [simp]: "dget (not_ok r @ xs) ''ok'' = PBool False" "dget (not_ok r) ''ok'' = PBool False"
  by (simp_all add: not_ok_def)

lemma file_fault_not_ok:
  "file_fault fx en gen w checksum n content = Inr (Some report) \<Longrightarrow> dget report ''ok'' = PBool False"
  by (cases "assert_entry_matches_content fx en [(''checksum'', checksum), (''size'', n)] content")
    (auto simp: file_fault_def rbind_eq_Inr split: if_splits)

lemma entry_fault_not_ok:
  "entry_fault fx en fs pk gen entry = Inr (Some report) \<Longrightarrow> dget report ''ok'' = PBool False"
  by (auto simp: entry_fault_def rbind_eq_Inr Let_def dest: file_fault_not_ok split: option.splits)

lemma first_fault_not_ok:
  "first_fault (entry_fault fx en fs pk gen) es = Inr (Some report) \<Longrightarrow> dget report ''ok'' = PBool False"
proof (induction es)
  case Nil
  then show ?case by simp
next
  case (Cons e es)
  from Cons.prems obtain r where r: "entry_fault fx en fs pk gen e = Inr r"
    "(case r of Some fault \<Rightarrow> Inr (Some fault) | None \<Rightarrow> first_fault (entry_fault fx en fs pk gen) es)
       = Inr (Some report)"
    by (auto simp: rbind_eq_Inr)
  show ?case
  proof (cases r)
    case None
    with r Cons.IH show ?thesis by simp
  next
    case (Some fault)
    with r entry_fault_not_ok show ?thesis by simp
  qed
qed

lemma first_fault_None: "first_fault f es = Inr None \<Longrightarrow> e \<in> set es \<Longrightarrow> f e = Inr None"
  by (induction es) (auto simp: rbind_eq_Inr split: option.splits)

text \<open>What an entry without a fault says of its file.\<close>

definition entry_served :: "fad_ext \<Rightarrow> env \<Rightarrow> fad_state \<Rightarrow> nat \<Rightarrow> pyval \<Rightarrow> bool" where
  "entry_served fx en fs pk entry =
     (\<exists>e path f. entry = PDict e \<and> entry_path fx (dget e ''url'') = Inr path
        \<and> dump_file_at fs pk path = Some f \<and> dget e ''checksum'' = sha1_of fx en (ff_content f)
        \<and> py_int (por (dget e ''size'') (PInt (- 1))) = Inr (byte_length fx (ff_content f)))"

lemma entry_fault_None:
  assumes "entry_fault fx en fs pk gen entry = Inr None"
  shows "entry_served fx en fs pk entry"
proof -
  have dict: "\<exists>e. v = PDict e \<and> dget e k = w" if "pykey v k = Inr w" for v k w
    using that by (cases v) (auto split: if_splits)
  from assms obtain url path f checksum n where h: "pykey entry ''url'' = Inr url" "entry_path fx url = Inr path"
    "dump_file_at fs pk path = Some f" "pykey entry ''checksum'' = Inr checksum" "pykey entry ''size'' = Inr n"
    "file_fault fx en gen [(''path'', PStr path)] checksum n (ff_content f) = Inr None"
    by (auto simp: entry_fault_def rbind_eq_Inr Let_def split: option.splits)
  from h(6) have "checksum = sha1_of fx en (ff_content f)
      \<and> py_int (por n (PInt (- 1))) = Inr (byte_length fx (ff_content f))"
    by (auto simp: file_fault_def assert_entry_matches_content_def rbind_eq_Inr split: sum.splits if_splits)
  with h dict [OF h(1)] dict [OF h(4)] dict [OF h(5)] show ?thesis
    by (auto simp: entry_served_def)
qed

lemma third_branch:
  "(if a then Inr x else if b then Inr y else z) = Inr r \<Longrightarrow> x \<noteq> r \<Longrightarrow> y \<noteq> r \<Longrightarrow> z = Inr r"
  by (auto split: if_splits)

lemma verified_entries:
  assumes "verify_ready_dump_integrity fx en fs (Some dump) = Inr report" and "truthy (dget report ''ok'')"
    and "fd_manifest dump = json_dumps (PDict m)" and "dget m ''files'' = PList entries"
  shows "\<forall>e\<in>set entries. entry_served fx en fs (fd_pk dump) e"
proof -
  let ?ff = "first_fault (entry_fault fx en fs (fd_pk dump) (dget m ''generationDateTime'')) entries"
  from assms(2) have ok: "report \<noteq> not_ok r" for r by (auto simp: not_ok_def)
  from assms ok obtain e es where es: "entries = e # es"
    by (cases entries) (auto simp: verify_ready_dump_integrity_def)
  have body: "or_empty_dict (PDict m) = m" by (cases m) (simp_all add: or_empty_dict_def por_def)
  have "verify_ready_dump_integrity fx en fs (Some dump) =
      (if \<not> dhas m ''generationDateTime'' then Inr (not_ok ''missing_generationDateTime'')
       else if \<not> dhas m ''description'' then Inr (not_ok ''missing_description'')
       else rbind ?ff (\<lambda>fault. case fault of
              Some report \<Rightarrow> Inr report
            | None \<Rightarrow> rbind (present_types entries) (\<lambda>types.
                Inr (integrity_report dump (dget m ''generationDateTime'') entries types))))"
    by (simp only: verify_ready_dump_integrity_def option.case assms(3,4) loads_dumps sum.case pget.simps
        rbind_Inr es pyval.case list.case body Let_def)
  from this [unfolded assms(1), symmetric] ok [symmetric] ok [symmetric]
  have "rbind ?ff (\<lambda>fault. case fault of
              Some report \<Rightarrow> Inr report
            | None \<Rightarrow> rbind (present_types entries) (\<lambda>types.
                Inr (integrity_report dump (dget m ''generationDateTime'') entries types))) = Inr report"
    by (rule third_branch)
  then have "?ff = Inr None \<or> ?ff = Inr (Some report)"
  proof (cases ?ff)
    case (Inr fault)
    with \<open>rbind ?ff _ = Inr report\<close> show ?thesis by (cases fault) simp_all
  qed simp
  moreover have "?ff \<noteq> Inr (Some report)"
  proof
    assume "?ff = Inr (Some report)"
    from first_fault_not_ok [OF this] assms(2) show False by simp
  qed
  ultimately have ff: "?ff = Inr None" by blast
  show ?thesis
  proof
    fix e assume "e \<in> set entries"
    from entry_fault_None [OF first_fault_None [OF ff this]] show "entry_served fx en fs (fd_pk dump) e" .
  qed
qed

subsection \<open>Publication\<close>

definition fad_wf :: "fad_state \<Rightarrow> bool" where
  "fad_wf fs = ((\<forall>x\<in>set (fs_dumps fs). fd_pk x < fs_next fs) \<and> (\<forall>f\<in>set (fs_files fs). ff_dump f < fs_next fs)
     \<and> distinct (map fd_pk (fs_dumps fs)))"

definition dump_files :: "fad_state \<Rightarrow> fad_dump \<Rightarrow> string \<Rightarrow> fad_file list" where
  "dump_files fs dump t = filter (\<lambda>f. ff_dump f = fd_pk dump \<and> ff_type f = t) (fs_files fs)"

lemma publishedD:
  assumes "publish_snapshot fx en fs p = Inr (dump, fs')"
  shows "fd_pk dump = fs_next fs" and "fd_published dump" and "fd_manifest dump = sn_manifest p"
    and "fs_files fs' = fs_files fs @ map (file_of_row (fs_next fs)) (sn_rows p)"
    and "fs_dumps fs' = map (\<lambda>x. if fd_published x then x\<lparr>fd_published := False\<rparr> else x) (fs_dumps fs) @ [dump]"
    and "fs_next fs' = Suc (fs_next fs)"
    and "sn_manifest p = json_dumps (PDict m) \<Longrightarrow> dget m ''files'' = PList entries \<Longrightarrow>
       \<forall>e\<in>set entries. entry_served fx en fs' (fd_pk dump) e"
proof -
  let ?dump = "\<lparr>fd_pk = fs_next fs, fd_generation = sn_timestamp p, fd_description = sn_description p,
     fd_manifest = sn_manifest p, fd_ready = True, fd_published = False\<rparr>"
  let ?w = "\<lparr>fs_dumps = fs_dumps fs @ [?dump],
     fs_files = fs_files fs @ map (file_of_row (fs_next fs)) (sn_rows p), fs_next = Suc (fs_next fs)\<rparr>"
  from assms obtain report where v: "verify_ready_dump_integrity fx en ?w (Some ?dump) = Inr report"
    and ok: "truthy (dget report ''ok'')"
    and d: "dump = ?dump\<lparr>fd_published := True\<rparr>"
    and fs': "fs' = ?w\<lparr>fs_dumps :=
        map (\<lambda>x. if fd_published x then x\<lparr>fd_published := False\<rparr> else x) (fs_dumps fs) @ [dump]\<rparr>"
    by (auto simp: publish_snapshot_def Let_def rbind_eq_Inr split: if_splits)
  from d fs' show "fd_pk dump = fs_next fs" "fd_published dump" "fd_manifest dump = sn_manifest p"
    "fs_files fs' = fs_files fs @ map (file_of_row (fs_next fs)) (sn_rows p)"
    "fs_dumps fs' = map (\<lambda>x. if fd_published x then x\<lparr>fd_published := False\<rparr> else x) (fs_dumps fs) @ [dump]"
    "fs_next fs' = Suc (fs_next fs)"
    by simp_all
  assume "sn_manifest p = json_dumps (PDict m)" "dget m ''files'' = PList entries"
  with verified_entries [OF v ok, of m entries]
  have "\<forall>e\<in>set entries. entry_served fx en ?w (fs_next fs) e" by simp
  moreover have "fs_files fs' = fs_files ?w" using fs' by simp
  ultimately show "\<forall>e\<in>set entries. entry_served fx en fs' (fd_pk dump) e"
    using d by (simp add: entry_served_def dump_file_at_def)
qed

lemma snapshotD:
  assumes "build_snapshot_payload fx en d = Inr p"
  obtains rowss where "rmap (type_rows fx en d (fmt_transmit_expire (env_now en))) RECORD_TYPES = Inr rowss"
    and "sn_rows p = concat rowss" and "length (sn_rows p) \<le> MANIFEST_MAX_FILES"
    and "sn_manifest p = json_dumps (PDict [(''files'', PList (map (\<lambda>r. PDict (fr_entry r)) (sn_rows p))),
           (''generationDateTime'', PStr (sn_timestamp p)), (''description'', PStr FAD_DESCRIPTION)])"
  using assms by (auto simp: build_snapshot_payload_def Let_def rbind_eq_Inr split: if_splits)

text \<open>The files of one type of a new dump hold the records of that type, in order.\<close>

lemma published_pages:
  assumes "build_snapshot_payload fx en d = Inr p" and "publish_snapshot fx en fs p = Inr (dump, fs')"
    and "fad_wf fs" and "t \<in> set RECORD_TYPES"
  obtains records where "build_records fx en d t = Inr records"
    and "map (page_records \<circ> ff_content) (dump_files fs' dump t) = chunk_records records (max_records_per_file fx)"
proof -
  from snapshotD [OF assms(1)] obtain rowss where
    r: "rmap (type_rows fx en d (fmt_transmit_expire (env_now en))) RECORD_TYPES = Inr rowss"
    and c: "sn_rows p = concat rowss" by metis
  note pub = publishedD [OF assms(2)]
  have "distinct RECORD_TYPES" by (simp add: RECORD_TYPES_def)
  from rows_of_type [OF r this assms(4)] obtain rows where
    rows: "filter (\<lambda>r. fr_type r = t) (sn_rows p) = rows"
    and tr: "type_rows fx en d (fmt_transmit_expire (env_now en)) t = Inr rows" unfolding c by metis
  have old: "filter (\<lambda>f. ff_dump f = fs_next fs \<and> ff_type f = t) (fs_files fs) = []"
    using assms(3) by (auto simp: fad_wf_def filter_empty_conv)
  have "dump_files fs' dump t = map (file_of_row (fs_next fs)) rows"
    by (simp add: dump_files_def pub(1,4) old filter_map comp_def file_of_row_def flip: rows)
  then have "map (page_records \<circ> ff_content) (dump_files fs' dump t) = map (page_records \<circ> fr_content) rows"
    by (simp add: comp_def file_of_row_def)
  with type_rowsD [OF tr] that show ?thesis by metis
qed

text \<open>
  C11. A publication of the full activity dump that returns leaves exactly one published dump, the one
  it returns, and that is what the peers are served. For each of the four record types its files,
  joined in order, are the records of that type, none with more than the configured number. Every
  entry of its manifest leads by its URL to a file of the dump whose text has the announced checksum
  and size, there are at most 101 of them, and all earlier files and dumps are still there.
\<close>

theorem publication_serves_the_records:
  assumes "create_full_activity_dump fx en d fs = Inr (dump, fs')" and "fad_wf fs"
  shows "filter fd_published (fs_dumps fs') = [dump] \<and> get_published_dump fs' = Some dump \<and> fad_wf fs'
     \<and> map fd_pk (fs_dumps fs') = map fd_pk (fs_dumps fs) @ [fd_pk dump]
     \<and> take (length (fs_files fs)) (fs_files fs') = fs_files fs
     \<and> (\<forall>t\<in>set RECORD_TYPES.
          build_records fx en d t = Inr (concat (map (page_records \<circ> ff_content) (dump_files fs' dump t)))
          \<and> (\<forall>f\<in>set (dump_files fs' dump t). length (page_records (ff_content f)) \<le> max_records_per_file fx))
     \<and> (\<exists>m entries. fd_manifest dump = json_dumps (PDict m) \<and> dget m ''files'' = PList entries
          \<and> length entries \<le> MANIFEST_MAX_FILES
          \<and> (\<forall>e\<in>set entries. entry_served fx en fs' (fd_pk dump) e))"
proof -
  from assms(1) obtain p where p: "build_snapshot_payload fx en d = Inr p"
    and pub0: "publish_snapshot fx en fs p = Inr (dump, fs')"
    by (auto simp: create_full_activity_dump_def rbind_eq_Inr)
  note pub = publishedD [OF pub0]
  let ?old = "map (\<lambda>x. if fd_published x then x\<lparr>fd_published := False\<rparr> else x) (fs_dumps fs)"
  have none: "filter fd_published ?old = []" by (auto simp: filter_empty_conv)
  have pks: "map fd_pk ?old = map fd_pk (fs_dumps fs)" by simp
  have "filter fd_published (fs_dumps fs') = [dump]" using pub(2,5) none by simp
  moreover have "get_published_dump fs' = Some dump" using pub(2,5) by (simp add: get_published_dump_def)
  moreover have keys: "map fd_pk (fs_dumps fs') = map fd_pk (fs_dumps fs) @ [fd_pk dump]"
    unfolding pub(5) map_append pks by simp
  moreover have "fad_wf fs'"
  proof -
    have "fd_pk x < fs_next fs'" if "x \<in> set (fs_dumps fs')" for x
      using that assms(2) unfolding pub(5,6) by (auto simp: fad_wf_def pub(1) intro: less_SucI)
    moreover have "ff_dump f < fs_next fs'" if "f \<in> set (fs_files fs')" for f
      using that assms(2) unfolding pub(4,6) by (auto simp: fad_wf_def file_of_row_def intro: less_SucI)
    moreover have "distinct (map fd_pk (fs_dumps fs'))"
      using assms(2) unfolding keys by (auto simp: fad_wf_def pub(1))
    ultimately show ?thesis by (simp add: fad_wf_def)
  qed
  moreover have "take (length (fs_files fs)) (fs_files fs') = fs_files fs" by (simp add: pub(4))
  moreover have "build_records fx en d t = Inr (concat (map (page_records \<circ> ff_content) (dump_files fs' dump t)))
      \<and> (\<forall>f\<in>set (dump_files fs' dump t). length (page_records (ff_content f)) \<le> max_records_per_file fx)"
    if t: "t \<in> set RECORD_TYPES" for t
  proof -
    from published_pages [OF p pub0 assms(2) t] obtain records where
      r: "build_records fx en d t = Inr records"
      and m: "map (page_records \<circ> ff_content) (dump_files fs' dump t) = chunk_records records (max_records_per_file fx)"
      by metis
    have "page_records (ff_content f) \<in> set (chunk_records records (max_records_per_file fx))"
      if "f \<in> set (dump_files fs' dump t)" for f
      using that unfolding m [symmetric] by auto
    with r m page_size_bounds(1) [of fx] show ?thesis by (auto simp: concat_chunks dest!: chunks_bounded)
  qed
  moreover from snapshotD [OF p] have man: "sn_manifest p = json_dumps (PDict
      [(''files'', PList (map (\<lambda>r. PDict (fr_entry r)) (sn_rows p))),
       (''generationDateTime'', PStr (sn_timestamp p)), (''description'', PStr FAD_DESCRIPTION)])"
    and len: "length (sn_rows p) \<le> MANIFEST_MAX_FILES" by metis+
  from pub(7) [OF man, of "map (\<lambda>r. PDict (fr_entry r)) (sn_rows p)"] man len pub(3)
  have "\<exists>m entries. fd_manifest dump = json_dumps (PDict m) \<and> dget m ''files'' = PList entries
      \<and> length entries \<le> MANIFEST_MAX_FILES \<and> (\<forall>e\<in>set entries. entry_served fx en fs' (fd_pk dump) e)"
    by (intro exI conjI) auto
  ultimately show ?thesis by blast
qed

subsection \<open>A publication that succeeds\<close>

lemma digit_char_inj: "m < 10 \<Longrightarrow> n < 10 \<Longrightarrow> digit_char m = digit_char n \<Longrightarrow> m = n"
  by (metis of_char_digit add_left_cancel)

lemma show_nat_small: "n < 10 \<Longrightarrow> show_nat n = [digit_char n]"
  by (subst show_nat.simps) simp

lemma show_nat_large: "\<not> n < 10 \<Longrightarrow> show_nat n = show_nat (n div 10) @ [digit_char (n mod 10)]"
  by (subst show_nat.simps) simp

lemma show_nat_nonempty [simp]: "show_nat n \<noteq> []"
  by (cases "n < 10") (simp_all add: show_nat_small show_nat_large)

lemma show_nat_inj: "show_nat m = show_nat n \<Longrightarrow> m = n"
proof (induction m arbitrary: n rule: less_induct)
  case (less m)
  show ?case
  proof (cases "m < 10 \<or> n < 10")
    case True
    have sizes: "length (show_nat k) = 1 \<longleftrightarrow> k < 10" for k
      by (cases "k < 10") (simp_all add: show_nat_small show_nat_large)
    have both: "m < 10" "n < 10" using True sizes [of m] sizes [of n] less.prems by auto
    with less.prems show ?thesis by (simp add: show_nat_small digit_char_inj)
  next
    case False
    with less.prems have eq: "show_nat (m div 10) = show_nat (n div 10)"
      "digit_char (m mod 10) = digit_char (n mod 10)" by (simp_all add: show_nat_large)
    from False have "m div 10 < m" by simp
    from less.IH [OF this eq(1)] have "m div 10 = n div 10" .
    moreover have "m mod 10 = n mod 10" by (rule digit_char_inj [OF _ _ eq(2)]) simp_all
    ultimately show ?thesis by (metis div_mult_mod_eq)
  qed
qed

lemma show_nat_digits: "c \<in> set (show_nat n) \<Longrightarrow> 48 \<le> (of_char c :: nat) \<and> (of_char c :: nat) \<le> 57"
proof (induction n rule: less_induct)
  case (less n)
  show ?case
  proof (cases "n < 10")
    case True
    with less.prems show ?thesis by (simp add: show_nat_small)
  next
    case False
    with less.prems consider "c \<in> set (show_nat (n div 10))" | "c = digit_char (n mod 10)"
      by (auto simp: show_nat_large)
    then show ?thesis
    proof cases
      case 1
      from False have "n div 10 < n" by simp
      from less.IH [OF this 1] show ?thesis .
    next
      case 2
      with of_char_digit [of "n mod 10"] show ?thesis by simp
    qed
  qed
qed

text \<open>
  A public base address without a path: the URL of a file is the base and the file's own path, and
  \<open>urlparse\<close> gives the latter back.
\<close>

definition plain_scheme :: "string \<Rightarrow> bool" where
  "plain_scheme s = (s \<noteq> [] \<and> \<not> is_digit (hd s) \<and> hd s \<notin> {CHR ''+'', CHR ''-'', CHR ''.''} \<and> list_all scheme_char s)"

definition plain_base :: "fad_ext \<Rightarrow> bool" where
  "plain_base fx =
     (\<exists>scheme host. fx_public_base fx = scheme @ ''://'' @ host \<and> plain_scheme scheme
        \<and> list_all (\<lambda>c. \<not> url_stop c \<and> \<not> removed_char c) host
        \<and> (CHR ''['' \<in> set host) = (CHR '']'' \<in> set host) \<and> ix_netloc_ok (fx_inject fx) host
        \<and> list_all (\<lambda>c. c \<noteq> CHR ''?'' \<and> c \<noteq> CHR ''#'' \<and> \<not> removed_char c) (fx_version fx))"

lemma takeWhile_all: "\<forall>x\<in>set xs. P x \<Longrightarrow> takeWhile P (xs @ ys) = xs @ takeWhile P ys"
  by (induction xs) auto

lemma dropWhile_all: "\<forall>x\<in>set xs. P x \<Longrightarrow> dropWhile P (xs @ ys) = dropWhile P ys"
  by (induction xs) auto

lemma kept_code: "13 < (of_char c :: nat) \<Longrightarrow> \<not> removed_char c"
  by (auto simp: removed_char_def)

lemma kept_literals [simp]:
  "\<not> removed_char (CHR ''/'')" "\<not> removed_char (CHR '':'')" "\<not> removed_char (CHR ''_'')"
  by (simp_all add: kept_code)

lemma kept_parts:
  "list_all (\<lambda>c. \<not> removed_char c) (show_nat n)" "t \<in> set RECORD_TYPES \<Longrightarrow> list_all (\<lambda>c. \<not> removed_char c) t"
  "list_all (\<lambda>c. \<not> removed_char c) ''.json''"
proof -
  show "list_all (\<lambda>c. \<not> removed_char c) (show_nat n)"
    using show_nat_digits [of _ n] kept_code by (fastforce simp: list_all_iff)
  show "t \<in> set RECORD_TYPES \<Longrightarrow> list_all (\<lambda>c. \<not> removed_char c) t" "list_all (\<lambda>c. \<not> removed_char c) ''.json''"
    by (auto simp: RECORD_TYPES_def kept_code)
qed

lemma scheme_charD:
  "scheme_char c \<Longrightarrow> c \<noteq> CHR '':'' \<and> \<not> removed_char c \<and> \<not> (of_char c :: nat) \<le> 32"
  by (auto simp: scheme_char_def removed_char_def Let_def)

lemma urlsplit_base:
  assumes "plain_scheme scheme" and "list_all (\<lambda>c. \<not> url_stop c \<and> \<not> removed_char c) host"
    and "(CHR ''['' \<in> set host) = (CHR '']'' \<in> set host)" and "ok host"
    and "list_all (\<lambda>c. \<not> removed_char c) path" and "path = [] \<or> url_stop (hd path)"
  shows "urlsplit ok ((scheme @ ''://'' @ host) @ path) = Inr (py_lower scheme, host, path)"
proof -
  let ?rest = "''//'' @ host @ path"
  have sch: "\<forall>c\<in>set scheme. c \<noteq> CHR '':'' \<and> \<not> removed_char c \<and> \<not> (of_char c :: nat) \<le> 32"
    using assms(1) scheme_charD by (auto simp: plain_scheme_def list_all_iff)
  have url: "(scheme @ ''://'' @ host) @ path = scheme @ CHR '':'' # ?rest" by simp
  have clean: "clean_url (scheme @ CHR '':'' # ?rest) = scheme @ CHR '':'' # ?rest"
  proof -
    have "dropWhile (\<lambda>c. (of_char c :: nat) \<le> 32) (scheme @ CHR '':'' # ?rest) = scheme @ CHR '':'' # ?rest"
      using sch assms(1) by (cases scheme) (auto simp: plain_scheme_def)
    moreover have "\<forall>c\<in>set (scheme @ CHR '':'' # ?rest). \<not> removed_char c"
      using sch assms(2,5) by (auto simp: list_all_iff)
    ultimately show ?thesis unfolding clean_url_def by (simp only: filter_id_conv)
  qed
  have "takeWhile (\<lambda>x. x \<noteq> CHR '':'') (scheme @ CHR '':'' # ?rest) = scheme"
    "dropWhile (\<lambda>x. x \<noteq> CHR '':'') (scheme @ CHR '':'' # ?rest) = CHR '':'' # ?rest"
    using sch by (simp_all add: takeWhile_all dropWhile_all)
  then have split: "split_scheme (scheme @ CHR '':'' # ?rest) = (py_lower scheme, ?rest)"
    using assms(1) unfolding split_scheme_def partition_on_def plain_scheme_def by simp
  have net: "takeWhile (\<lambda>c. \<not> url_stop c) (host @ path) = host" "dropWhile (\<lambda>c. \<not> url_stop c) (host @ path) = path"
  proof -
    have "takeWhile (\<lambda>c. \<not> url_stop c) path = [] \<and> dropWhile (\<lambda>c. \<not> url_stop c) path = path"
      using assms(6) by (cases path) simp_all
    moreover have "\<forall>c\<in>set host. \<not> url_stop c" using assms(2) by (simp add: list_all_iff)
    ultimately show "takeWhile (\<lambda>c. \<not> url_stop c) (host @ path) = host" "dropWhile (\<lambda>c. \<not> url_stop c) (host @ path) = path"
      by (simp_all add: takeWhile_all dropWhile_all)
  qed
  have two: "take 2 ?rest = ''//''" "drop 2 ?rest = host @ path" by simp_all
  show ?thesis
    unfolding urlsplit_def url clean split prod.case Let_def two net using assms(3,4) by simp
qed

lemma plain_url_path:
  assumes "path = CHR ''/'' # dir @ CHR ''/'' # name" and "set path \<inter> {CHR ''?'', CHR ''#''} = {}"
    and "set name \<inter> {CHR ''/'', CHR '';''} = {}"
  shows "path_of_url scheme path = path"
proof -
  have noq: "takeWhile (\<lambda>c. c \<noteq> CHR ''?'' \<and> c \<noteq> CHR ''#'') path = path"
    using assms(2) by (auto simp: takeWhile_eq_all_conv)
  have rev: "rev path = rev name @ CHR ''/'' # rev dir @ [CHR ''/'']" using assms(1) by simp
  have "takeWhile (\<lambda>c. c \<noteq> CHR ''/'') (rev path) = rev name"
    unfolding rev by (subst takeWhile_all) (use assms(3) in auto)
  then have final: "rev (takeWhile (\<lambda>c. c \<noteq> CHR ''/'') (rev path)) = name" by simp
  have "takeWhile (\<lambda>c. c \<noteq> CHR '';'') name = name"
    using assms(3) by (auto simp: takeWhile_eq_all_conv)
  moreover have "take (length path - length name) path @ name = path" using assms(1) by simp
  ultimately show ?thesis
    unfolding path_of_url_def hier_path_def Let_def noq final by (simp only: if_cancel)
qed

definition file_path :: "fad_ext \<Rightarrow> string \<Rightarrow> nat \<Rightarrow> string" where
  "file_path fx t k = ''/'' @ fx_version fx @ ''/'' @ t @ ''/'' @ dump_filename t k"

text \<open>The row of one page, when its text is not empty.\<close>

definition dump_row :: "fad_ext \<Rightarrow> env \<Rightarrow> string \<Rightarrow> string \<Rightarrow> nat \<times> pyval list \<Rightarrow> fad_row" where
  "dump_row fx en ts t p =
     (case make_dump_file fx en t (dump_filename t (fst p)) (snd p) ts of
        (entry, url_path, content) \<Rightarrow> \<lparr>fr_type = t, fr_path = url_path, fr_content = content, fr_entry = entry\<rparr>)"

lemma dump_row_fields:
  "fr_type (dump_row fx en ts t p) = t" "fr_path (dump_row fx en ts t p) = file_path fx t (fst p)"
  by (simp_all add: dump_row_def make_dump_file_def file_path_def Let_def)

lemma dump_row_entry_type:
  "fr_entry (dump_row fx en ts t p) = (''url'', PStr (fx_public_base fx @ file_path fx t (fst p)))
     # (''checksum'', sha1_of fx en (fr_content (dump_row fx en ts t p)))
     # (''size'', PInt (byte_length fx (fr_content (dump_row fx en ts t p))))
     # [(''version'', PStr (fx_version fx)), (''recordType'', PStr t)]"
  by (simp add: dump_row_def make_dump_file_def file_path_def Let_def)

lemma page_row_written:
  assumes "\<forall>j. fx_bytes fx j \<noteq> []"
  shows "page_row fx en ts t p = Inr (dump_row fx en ts t p)"
  using assms
  by (auto simp: page_row_def dump_row_def make_dump_file_def assert_entry_matches_content_def por_def
      byte_length_def Let_def split: if_splits)

lemma rmap_each: "(\<And>x. x \<in> set xs \<Longrightarrow> f x = Inr (g x)) \<Longrightarrow> rmap f xs = Inr (map g xs)"
  by (induction xs) auto

definition snapshot_rows :: "fad_ext \<Rightarrow> env \<Rightarrow> string \<Rightarrow> (string \<Rightarrow> pyval list) \<Rightarrow> fad_row list" where
  "snapshot_rows fx en ts recs =
     concat (map (\<lambda>t. map (dump_row fx en ts t) (numbered (chunk_records (recs t) (max_records_per_file fx))))
               RECORD_TYPES)"

lemma snapshot_rowE:
  assumes "r \<in> set (snapshot_rows fx en ts recs)"
  obtains t p where "t \<in> set RECORD_TYPES" and "r = dump_row fx en ts t p"
  using assms by (auto simp: snapshot_rows_def)

lemma snapshot_payload_built:
  assumes "\<forall>t\<in>set RECORD_TYPES. build_records fx en d t = Inr (recs t)" and "\<forall>j. fx_bytes fx j \<noteq> []"
    and "length (snapshot_rows fx en (fmt_transmit_expire (env_now en)) recs) \<le> MANIFEST_MAX_FILES"
  obtains p where "build_snapshot_payload fx en d = Inr p"
    and "sn_rows p = snapshot_rows fx en (sn_timestamp p) recs"
    and "sn_timestamp p = fmt_transmit_expire (env_now en)"
proof -
  let ?ts = "fmt_transmit_expire (env_now en)"
  let ?rows = "snapshot_rows fx en ?ts recs"
  have tr: "type_rows fx en d ?ts t
      = Inr (map (dump_row fx en ?ts t) (numbered (chunk_records (recs t) (max_records_per_file fx))))"
    if "t \<in> set RECORD_TYPES" for t
    using that assms(1) rmap_each [of _ "page_row fx en ?ts t", OF page_row_written [OF assms(2)]]
    by (simp add: type_rows_def)
  have times: "check_times ?ts (dump_row fx en ?ts t q) = Inr ()" for t q
    by (simp add: check_times_def times_match_def dump_row_def make_dump_file_def Let_def)
  have "rmap (check_times ?ts) ?rows = Inr (map (\<lambda>_. ()) ?rows)"
    by (rule rmap_each) (metis times snapshot_rowE)
  with rmap_each [of RECORD_TYPES "type_rows fx en d ?ts", OF tr] assms(3) that show ?thesis
    by (simp add: build_snapshot_payload_def Let_def snapshot_rows_def)
qed

lemma file_path_inj:
  assumes "file_path fx t k = file_path fx u l" and "t \<in> set RECORD_TYPES" and "u \<in> set RECORD_TYPES"
  shows "t = u \<and> k = l"
proof -
  from assms have "t = u" by (auto simp: file_path_def RECORD_TYPES_def)
  with assms(1) show ?thesis by (auto simp: file_path_def dump_filename_def dest: show_nat_inj)
qed

lemma numbered_keys: "map fst (numbered xs) = [0..<length xs]"
  by (simp add: numbered_def)

lemma snapshot_paths_distinct: "distinct (map fr_path (snapshot_rows fx en ts recs))"
proof -
  have one: "distinct (map (\<lambda>p. file_path fx t (fst p)) (numbered (xs :: pyval list list)))"
    if "t \<in> set RECORD_TYPES" for t xs
  proof -
    have "map (\<lambda>p. file_path fx t (fst p)) (numbered xs) = map (file_path fx t) [0..<length xs]"
      by (simp flip: numbered_keys)
    moreover have "inj (file_path fx t)" using file_path_inj that by (auto intro!: injI)
    ultimately show ?thesis by (simp add: distinct_map inj_on_subset [OF _ subset_UNIV])
  qed
  have "distinct (map fr_path (concat (map (\<lambda>t. map (dump_row fx en ts t) (numbered (pages t))) types)))"
    if "distinct types" "set types \<subseteq> set RECORD_TYPES" for types and pages :: "string \<Rightarrow> pyval list list"
    using that
  proof (induction types)
    case Nil
    then show ?case by simp
  next
    case (Cons u us)
    have "fr_path a \<noteq> fr_path b"
      if "a \<in> set (map (dump_row fx en ts u) (numbered (pages u)))"
        "b \<in> set (concat (map (\<lambda>t. map (dump_row fx en ts t) (numbered (pages t))) us))" for a b
      using that Cons.prems file_path_inj [of fx u _ _ _] by (auto simp: dump_row_fields) blast
    then have disjoint: "set (map fr_path (map (dump_row fx en ts u) (numbered (pages u))))
        \<inter> set (map fr_path (concat (map (\<lambda>t. map (dump_row fx en ts t) (numbered (pages t))) us))) = {}"
      unfolding set_map [of fr_path] by blast
    have "distinct (map fr_path (map (dump_row fx en ts u) (numbered (pages u))))"
      using one [of u "pages u"] Cons.prems by (simp add: dump_row_fields comp_def)
    with Cons disjoint show ?case
      unfolding list.map(2) [of _ u us] concat.simps map_append distinct_append by simp
  qed
  from this [of RECORD_TYPES] show ?thesis
    unfolding snapshot_rows_def by (simp add: RECORD_TYPES_def)
qed

lemma find_sole: "distinct (map g xs) \<Longrightarrow> x \<in> set xs \<Longrightarrow> List.find (\<lambda>y. g y = g x) xs = Some x"
  by (induction xs) (auto simp: image_iff)

lemma written_row_found:
  assumes "distinct (map fr_path rows)" and "r \<in> set rows" and "\<forall>f\<in>set old. ff_dump f \<noteq> pk"
    and "fs_files fs = old @ map (file_of_row pk) rows"
  shows "dump_file_at fs pk (fr_path r) = Some (file_of_row pk r)"
proof -
  have "List.find (\<lambda>f. ff_dump f = pk \<and> ff_path f = fr_path r) (map (file_of_row pk) xs)
      = map_option (file_of_row pk) (List.find (\<lambda>y. fr_path y = fr_path r) xs)" for xs
    by (induction xs) (simp_all add: file_of_row_def)
  moreover have "List.find (\<lambda>f. ff_dump f = pk \<and> ff_path f = fr_path r) (old @ ys)
      = List.find (\<lambda>f. ff_dump f = pk \<and> ff_path f = fr_path r) ys" for ys
    using assms(3) by (induction old) auto
  ultimately show ?thesis
    using find_sole [OF assms(1,2)] by (simp add: dump_file_at_def assms(4))
qed

text \<open>A written row is found again by its URL and has no fault.\<close>

lemma written_row_served:
  assumes "plain_base fx" and "\<forall>j. fx_bytes fx j \<noteq> []"
    and "distinct (map fr_path rows)" and "r \<in> set rows" and "r = dump_row fx en ts t p" and "t \<in> set RECORD_TYPES"
    and "\<forall>f\<in>set old. ff_dump f \<noteq> pk"
    and "fs_files fs = old @ map (file_of_row pk) rows"
  shows "entry_fault fx en fs pk (PStr ts) (PDict (fr_entry r)) = Inr None"
proof -
  from assms(1) obtain scheme host where b: "fx_public_base fx = scheme @ ''://'' @ host" "plain_scheme scheme"
    "list_all (\<lambda>c. \<not> url_stop c \<and> \<not> removed_char c) host" "(CHR ''['' \<in> set host) = (CHR '']'' \<in> set host)"
    "ix_netloc_ok (fx_inject fx) host"
    and version: "list_all (\<lambda>c. c \<noteq> CHR ''?'' \<and> c \<noteq> CHR ''#'' \<and> \<not> removed_char c) (fx_version fx)"
    by (auto simp: plain_base_def)
  let ?path = "file_path fx t (fst p)" and ?name = "dump_filename t (fst p)"
  have digits: "set (show_nat (fst p)) \<inter> {CHR ''/'', CHR '';'', CHR ''?'', CHR ''#''} = {}"
    using show_nat_digits [of _ "fst p"] by fastforce
  have name: "set ?name \<inter> {CHR ''/'', CHR '';''} = {}" "set ?name \<inter> {CHR ''?'', CHR ''#''} = {}"
    using assms(6) digits by (auto simp: dump_filename_def RECORD_TYPES_def)
  have type: "set t \<inter> {CHR ''?'', CHR ''#''} = {}" using assms(6) by (auto simp: RECORD_TYPES_def)
  have path: "?path = CHR ''/'' # (fx_version fx @ ''/'' @ t) @ CHR ''/'' # ?name" by (simp add: file_path_def)
  have noq: "set ?path \<inter> {CHR ''?'', CHR ''#''} = {}"
    unfolding path using version type name(2) by (auto simp: list_all_iff)
  have "list_all (\<lambda>c. \<not> removed_char c) (fx_version fx)" using version by (simp add: list_all_iff)
  then have kept: "list_all (\<lambda>c. \<not> removed_char c) ?path"
    using kept_parts(1) kept_parts(2) [OF assms(6)] by (simp add: file_path_def dump_filename_def kept_code)
  have url: "urlsplit (ix_netloc_ok (fx_inject fx)) (fx_public_base fx @ ?path) = Inr (py_lower scheme, host, ?path)"
    unfolding b(1) by (rule urlsplit_base [where ok = "ix_netloc_ok (fx_inject fx)", OF b(2-5) kept]) (simp_all add: path url_stop_def)
  have start: "take 1 ?path = ''/''" by (simp add: file_path_def)
  have at: "dump_file_at fs pk ?path = Some (file_of_row pk r)"
    using written_row_found [OF assms(3,4,7,8)] assms(5) by (simp add: dump_row_fields)
  have content: "ff_content (file_of_row pk r) = fr_content r" by (simp add: file_of_row_def)
  have entry: "fr_entry r = [(''url'', PStr (fx_public_base fx @ ?path)), (''checksum'', sha1_of fx en (fr_content r)),
      (''size'', PInt (byte_length fx (fr_content r))), (''version'', PStr (fx_version fx)), (''recordType'', PStr t)]"
    and body: "fr_content r = json_dumps (PDict [(''startTime'', PStr ts), (''endTime'', PStr ts),
        (''recordData'', PList (snd p))])"
    using assms(5) by (simp_all add: dump_row_def make_dump_file_def Let_def file_path_def)
  have "file_fault fx en (PStr ts) w (sha1_of fx en (fr_content r)) (PInt (byte_length fx (fr_content r)))
      (fr_content r) = Inr None" for w
    using assms(2) by (simp add: file_fault_def assert_entry_matches_content_def por_def byte_length_def body)
  moreover have "entry_path fx (PStr (fx_public_base fx @ ?path)) = Inr ?path"
  proof -
    have "truthy (PStr (fx_public_base fx @ ?path))" by (simp add: b(1))
    then show ?thesis
      using start plain_url_path [OF path noq name(1)] by (simp add: entry_path_def url Let_def)
  qed
  ultimately show ?thesis
    unfolding entry_fault_def entry
    by (simp add: py_contains_def at content Let_def)
qed

lemma first_fault_clear: "(\<And>e. e \<in> set es \<Longrightarrow> f e = Inr None) \<Longrightarrow> first_fault f es = Inr None"
  by (induction es) auto

lemma snapshot_types: "t \<in> set RECORD_TYPES \<Longrightarrow> t \<in> set (map fr_type (snapshot_rows fx en ts recs))"
proof -
  assume t: "t \<in> set RECORD_TYPES"
  let ?pages = "numbered (chunk_records (recs t) (max_records_per_file fx))"
  have "?pages \<noteq> []"
    using chunks_nonempty [of "max_records_per_file fx" "recs t"] page_size_bounds(1) [of fx]
    by (simp add: numbered_def)
  then obtain q where "q \<in> set ?pages" by (cases ?pages) auto
  with t have "dump_row fx en ts t q \<in> set (snapshot_rows fx en ts recs)" by (auto simp: snapshot_rows_def)
  then have "fr_type (dump_row fx en ts t q) \<in> set (map fr_type (snapshot_rows fx en ts recs))"
    unfolding set_map by (rule imageI)
  then show "t \<in> set (map fr_type (snapshot_rows fx en ts recs))" by (simp only: dump_row_fields)
qed

lemma publish_snapshot_returns:
  assumes "plain_base fx" and "\<forall>j. fx_bytes fx j \<noteq> []" and "fad_wf fs"
    and "sn_rows p = snapshot_rows fx en (sn_timestamp p) recs"
    and "sn_manifest p = json_dumps (PDict [(''files'', PList (map (\<lambda>r. PDict (fr_entry r)) (sn_rows p))),
           (''generationDateTime'', PStr (sn_timestamp p)), (''description'', PStr FAD_DESCRIPTION)])"
  shows "\<exists>dump fs'. publish_snapshot fx en fs p = Inr (dump, fs')"
proof -
  let ?rows = "snapshot_rows fx en (sn_timestamp p) recs" and ?pk = "fs_next fs"
  let ?dump = "\<lparr>fd_pk = fs_next fs, fd_generation = sn_timestamp p, fd_description = sn_description p,
     fd_manifest = sn_manifest p, fd_ready = True, fd_published = False\<rparr>"
  let ?w = "\<lparr>fs_dumps = fs_dumps fs @ [?dump],
     fs_files = fs_files fs @ map (file_of_row (fs_next fs)) (sn_rows p), fs_next = Suc (fs_next fs)\<rparr>"
  let ?es = "map (\<lambda>r. PDict (fr_entry r)) ?rows"
  have old: "\<forall>f\<in>set (fs_files fs). ff_dump f \<noteq> ?pk" using assms(3) by (auto simp: fad_wf_def)
  have clear: "first_fault (entry_fault fx en ?w ?pk (PStr (sn_timestamp p))) ?es = Inr None"
  proof (rule first_fault_clear)
    fix e assume "e \<in> set ?es"
    then obtain r where r: "r \<in> set ?rows" "e = PDict (fr_entry r)" by auto
    from snapshot_rowE [OF r(1)] obtain t q where tq: "t \<in> set RECORD_TYPES"
      "r = dump_row fx en (sn_timestamp p) t q" by metis
    show "entry_fault fx en ?w ?pk (PStr (sn_timestamp p)) e = Inr None"
      unfolding r(2)
      by (rule written_row_served [OF assms(1,2) snapshot_paths_distinct r(1) tq(2,1) old]) (simp add: assms(4))
  qed
  have ty: "dget (fr_entry r) ''recordType'' = PStr (fr_type r) \<and> dhas (fr_entry r) ''recordType''"
    if "r \<in> set ?rows" for r
    by (rule snapshot_rowE [OF that]) (simp add: dump_row_entry_type dump_row_fields)
  have types: "present_types ?es = Inr (map (\<lambda>r. PStr (fr_type r)) ?rows)"
  proof -
    have "rmap (\<lambda>e. rbind (pykey e ''recordType'') check_hash) (map (\<lambda>r. PDict (fr_entry r)) rs)
        = Inr (map (\<lambda>r. PStr (fr_type r)) rs)" if "set rs \<subseteq> set ?rows" for rs
      using that ty by (induction rs) (auto simp: check_hash_def)
    then show ?thesis by (simp add: present_types_def)
  qed
  have all: "filter (\<lambda>t. PStr t \<notin> set (map (\<lambda>r. PStr (fr_type r)) ?rows)) RECORD_TYPES = []"
    using snapshot_types [of _ fx en "sn_timestamp p" recs] by (force simp: filter_empty_conv)
  have "?es \<noteq> []" using snapshot_types [of "''cbsd''" fx en "sn_timestamp p" recs] by (auto simp: RECORD_TYPES_def)
  then obtain e es where es: "?es = e # es" by (cases ?es) auto
  have "or_empty_dict (PDict [(''files'', PList ?es), (''generationDateTime'', PStr (sn_timestamp p)),
      (''description'', PStr FAD_DESCRIPTION)]) = [(''files'', PList ?es),
      (''generationDateTime'', PStr (sn_timestamp p)), (''description'', PStr FAD_DESCRIPTION)]"
    by (simp add: or_empty_dict_def por_def)
  then have "verify_ready_dump_integrity fx en ?w (Some ?dump)
      = Inr (integrity_report ?dump (PStr (sn_timestamp p)) ?es (map (\<lambda>r. PStr (fr_type r)) ?rows))"
    using clear types es by (simp add: verify_ready_dump_integrity_def assms(4,5) Let_def)
  moreover have "dget (integrity_report ?dump (PStr (sn_timestamp p)) ?es (map (\<lambda>r. PStr (fr_type r)) ?rows)) ''ok''
      = PBool True"
    unfolding integrity_report_def Let_def all by simp
  ultimately show ?thesis by (simp add: publish_snapshot_def Let_def)
qed

lemma snapshot_too_large:
  assumes "\<forall>t\<in>set RECORD_TYPES. build_records fx en d t = Inr (recs t)" and "\<forall>j. fx_bytes fx j \<noteq> []"
    and "MANIFEST_MAX_FILES < length (snapshot_rows fx en (fmt_transmit_expire (env_now en)) recs)"
  shows "build_snapshot_payload fx en d = Inl RuntimeError"
proof -
  let ?ts = "fmt_transmit_expire (env_now en)"
  have "type_rows fx en d ?ts t
      = Inr (map (dump_row fx en ?ts t) (numbered (chunk_records (recs t) (max_records_per_file fx))))"
    if "t \<in> set RECORD_TYPES" for t
    using that assms(1) rmap_each [of _ "page_row fx en ?ts t", OF page_row_written [OF assms(2)]]
    by (simp add: type_rows_def)
  from rmap_each [of RECORD_TYPES "type_rows fx en d ?ts", OF this] assms(3) show ?thesis
    by (simp add: build_snapshot_payload_def Let_def snapshot_rows_def)
qed

definition page_count :: "nat \<Rightarrow> nat \<Rightarrow> nat" where
  "page_count page_size n = max 1 ((n + page_size - 1) div page_size)"

lemma chunks_count: "0 < n \<Longrightarrow> length (chunk_records xs n) = page_count n (length xs)"
proof -
  assume n: "0 < n"
  have "1 \<le> (length xs + n - 1) div n" if "xs \<noteq> []"
  proof -
    from that have "n \<le> length xs + n - 1" by (cases xs) simp_all
    from div_le_mono [OF this, of n] n show ?thesis by simp
  qed
  then have "page_count n (length xs) = (length xs + n - 1) div n" if "xs \<noteq> []"
    unfolding page_count_def using that by (intro max_absorb2)
  moreover have "page_count n 0 = 1" using n by (simp add: page_count_def)
  ultimately show ?thesis
    using pages_count [OF n, of xs] unfolding chunk_records_def by (cases "xs = []") auto
qed

lemma snapshot_length:
  "length (snapshot_rows fx en ts recs)
     = (\<Sum>t\<leftarrow>RECORD_TYPES. page_count (max_records_per_file fx) (length (recs t)))"
proof -
  have "0 < max_records_per_file fx" using page_size_bounds(1) [of fx] by simp
  then show ?thesis by (simp add: snapshot_rows_def length_concat comp_def chunks_count)
qed

lemma publication_returns:
  assumes "\<forall>t\<in>set RECORD_TYPES. build_records fx en d t = Inr (recs t)"
    and "plain_base fx" and "\<forall>j. fx_bytes fx j \<noteq> []" and "fad_wf fs"
    and "(\<Sum>t\<leftarrow>RECORD_TYPES. page_count (max_records_per_file fx) (length (recs t))) \<le> MANIFEST_MAX_FILES"
  shows "\<exists>dump fs'. create_full_activity_dump fx en d fs = Inr (dump, fs')"
proof -
  have "length (snapshot_rows fx en (fmt_transmit_expire (env_now en)) recs) \<le> MANIFEST_MAX_FILES"
    using assms(5) by (simp add: snapshot_length)
  from snapshot_payload_built [OF assms(1,3) this] obtain p where p: "build_snapshot_payload fx en d = Inr p"
    "sn_rows p = snapshot_rows fx en (sn_timestamp p) recs" by metis
  from snapshotD [OF p(1)] have "sn_manifest p = json_dumps (PDict
      [(''files'', PList (map (\<lambda>r. PDict (fr_entry r)) (sn_rows p))),
       (''generationDateTime'', PStr (sn_timestamp p)), (''description'', PStr FAD_DESCRIPTION)])" by metis
  from publish_snapshot_returns [OF assms(2,3,4) p(2) this] p(1) show ?thesis
    by (simp add: create_full_activity_dump_def)
qed

text \<open>
  C16. A publication completes exactly when its pages fit the manifest: with records that can be
  built, a public base address without a path and the tables as publications leave them, the dump is
  created and passes its own integrity check if the pages of the four record types, one at least for
  each, are at most 101, and is refused otherwise.
\<close>

theorem publication_completes:
  assumes "\<forall>t\<in>set RECORD_TYPES. build_records fx en d t = Inr (recs t)"
    and "plain_base fx" and "\<forall>j. fx_bytes fx j \<noteq> []" and "fad_wf fs"
  shows "(\<exists>dump fs'. create_full_activity_dump fx en d fs = Inr (dump, fs'))
     \<longleftrightarrow> (\<Sum>t\<leftarrow>RECORD_TYPES. page_count (max_records_per_file fx) (length (recs t))) \<le> MANIFEST_MAX_FILES"
proof (cases "(\<Sum>t\<leftarrow>RECORD_TYPES. page_count (max_records_per_file fx) (length (recs t))) \<le> MANIFEST_MAX_FILES")
  case True
  with publication_returns [OF assms True] show ?thesis by simp
next
  case False
  then have "build_snapshot_payload fx en d = Inl RuntimeError"
    by (intro snapshot_too_large [OF assms(1,3)]) (simp add: snapshot_length)
  with False show ?thesis by (simp add: create_full_activity_dump_def)
qed

subsection \<open>Three sensors on pages of two\<close>

definition example_fx :: fad_ext where
  "example_fx = \<lparr>fx_inject = \<lparr>ix_admin_id = ''sas'', ix_text = (\<lambda>_. []), ix_netloc_ok = (\<lambda>_. True)\<rparr>, fx_public_base = ''https://sas'',
     fx_version = ''v1.3'', fx_max_records = ''2'', fx_zone_row = (\<lambda>i. i), fx_bytes = (\<lambda>_. ''x'')\<rparr>"

definition fad_env :: env where
  "fad_env = \<lparr>env_now = 0, env_uuid = (\<lambda>_. []), env_isoformat = (\<lambda>_. None), env_sha1_hex = (\<lambda>s. s),
     env_elevation = (\<lambda>_ _. Inr 0), env_fcc_offices = [], env_repr = (\<lambda>_. [])\<rparr>"

definition sensors_db :: db where
  "sensors_db = empty_db\<lparr>db_esc := [(''s1'', JEmpty), (''s2'', JEmpty), (''s3'', JEmpty)]\<rparr>"

definition sensor_records :: "string \<Rightarrow> pyval list" where
  "sensor_records t = (if t = ''esc_sensor''
     then map (\<lambda>s. PDict [(''id'', PStr s)]) [''s1'', ''s2'', ''s3''] else [])"

abbreviation no_dumps :: fad_state where "no_dumps \<equiv> \<lparr>fs_dumps = [], fs_files = [], fs_next = 0\<rparr>"

lemma sensor_records_built: "\<forall>t\<in>set RECORD_TYPES. build_records example_fx fad_env sensors_db t = Inr (sensor_records t)"
  by (simp add: RECORD_TYPES_def build_records_def build_cbsd_records_def dumped_cbsds_def build_zone_records_def
      build_esc_records_def build_esc_record_def build_coordination_records_def sensor_records_def sensors_db_def
      empty_db_def rows_of_kind_def numbered_def present_def map_filter_simps)

lemma example_fx_plain: "plain_base example_fx" "\<forall>j. fx_bytes example_fx j \<noteq> []" "fad_wf no_dumps"
  "max_records_per_file example_fx = 2"
proof -
  show "plain_base example_fx"
    unfolding plain_base_def example_fx_def
    by (intro exI [of _ "''https''"] exI [of _ "''sas''"])
      (simp add: plain_scheme_def is_digit_def scheme_char_def url_stop_def removed_char_def)
  show "max_records_per_file example_fx = 2"
    by (simp add: max_records_per_file_def example_fx_def py_strip_def is_space_def read_int_def read_nat_def
        is_digit_def digit_val_def)
qed (simp_all add: example_fx_def fad_wf_def)

lemma sensor_pages:
  "(\<Sum>t\<leftarrow>RECORD_TYPES. page_count (max_records_per_file example_fx) (length (sensor_records t))) \<le> MANIFEST_MAX_FILES"
  by (simp add: example_fx_plain(4) RECORD_TYPES_def sensor_records_def page_count_def MANIFEST_MAX_FILES_def)

lemmas example_publication = publication_returns [OF sensor_records_built example_fx_plain(1,2,3) sensor_pages]

theorem publication_completes_witness:
  "\<exists>dump fs'. create_full_activity_dump example_fx fad_env sensors_db no_dumps = Inr (dump, fs')"
  using publication_completes [OF sensor_records_built example_fx_plain(1,2,3)] sensor_pages by simp

theorem publication_serves_the_records_witness:
  "\<exists>dump fs'. create_full_activity_dump example_fx fad_env sensors_db no_dumps = Inr (dump, fs')
     \<and> get_published_dump fs' = Some dump
     \<and> concat (map (page_records \<circ> ff_content) (dump_files fs' dump ''esc_sensor''))
         = map (\<lambda>s. PDict [(''id'', PStr s)]) [''s1'', ''s2'', ''s3'']"
proof -
  from example_publication obtain dump fs' where
    p: "create_full_activity_dump example_fx fad_env sensors_db no_dumps = Inr (dump, fs')" by blast
  have "''esc_sensor'' \<in> set RECORD_TYPES" by (simp add: RECORD_TYPES_def)
  with publication_serves_the_records [OF p example_fx_plain(3)] p sensor_records_built
  show ?thesis by (auto simp: sensor_records_def)
qed

end
