(* ===== verification/FrozenPoints.thy ===== *)
theory FrozenPoints
  imports ProtectionPoints "HOL-Library.Multiset"
begin

text \<open>
  What the builders of the protection points promise: every point is well formed for its kind and
  lies in the band, and the records frozen by the coordination give the points of the live database.
\<close>

subsection \<open>Well-formed points\<close>

definition threshold_of :: "iap_threshold_profile \<Rightarrow> entity_kind \<Rightarrow> real" where
  "threshold_of profile kind = (case kind of ESC \<Rightarrow> th_esc profile | FSS_COCHANNEL \<Rightarrow> th_fss_cochannel profile
     | FSS_BLOCKING \<Rightarrow> th_fss_blocking profile | PPA \<Rightarrow> th_ppa profile | GWPZ \<Rightarrow> th_gwpz profile | GENERIC \<Rightarrow> 0)"

definition neighborhood_of :: "entity_kind \<Rightarrow> real" where
  "neighborhood_of kind = (case kind of ESC \<Rightarrow> 80 | FSS_COCHANNEL \<Rightarrow> 150 | _ \<Rightarrow> 40)"

definition on_earth :: "real \<Rightarrow> real \<Rightarrow> bool" where
  "on_earth lat lon = (- 90 \<le> lat \<and> lat \<le> 90 \<and> - 180 \<le> lon \<and> lon \<le> 180)"

definition point_wf :: "band \<Rightarrow> iap_threshold_profile \<Rightarrow> protection_point \<Rightarrow> bool" where
  "point_wf band profile p =
     (fst band \<le> pp_low p \<and> pp_low p < pp_high p \<and> pp_high p \<le> snd band
      \<and> pp_kind p \<noteq> GENERIC \<and> pp_threshold_dbm p = threshold_of profile (pp_kind p)
      \<and> pp_margin_db p = th_margin profile \<and> pp_neighborhood_km p = Some (neighborhood_of (pp_kind p))
      \<and> (case pp_rx_gains p of Some gains \<Rightarrow> pp_kind p = ESC \<and> length gains = 360 | None \<Rightarrow> pp_kind p \<noteq> ESC)
      \<and> (pp_kind p = PPA \<or> pp_kind p = GWPZ \<or> on_earth (pp_lat p) (pp_lon p)))"

lemmas neighborhoods = NEIGHBORHOOD_GWPZ_KM_def NEIGHBORHOOD_PPA_KM_def NEIGHBORHOOD_FSS_COCHANNEL_KM_def
  NEIGHBORHOOD_FSS_BLOCKING_KM_def NEIGHBORHOOD_ESC_KM_def

lemma clipped_in_band:
  "clip_frequency_to_cbrs band low high = Some (l, h) \<Longrightarrow> fst band \<le> l \<and> l < h \<and> h \<le> snd band"
  by (auto simp: clip_frequency_to_cbrs_def Let_def split: if_splits)

lemma installed_on_earth: "point_from_installation inst = Some (lat, lon) \<Longrightarrow> on_earth lat lon"
  by (cases inst) (auto simp: point_from_installation_def on_earth_def split: option.splits if_splits)

lemma area_point_wf:
  "kind = PPA \<or> kind = GWPZ \<Longrightarrow> fst band \<le> l \<Longrightarrow> l < h \<Longrightarrow> h \<le> snd band
    \<Longrightarrow> point_wf band profile (area_point profile kind i loc (l, h))"
  by (auto simp: point_wf_def area_point_def threshold_of_def neighborhood_of_def neighborhoods)

lemma fss_point_wf:
  "kind = FSS_COCHANNEL \<or> kind = FSS_BLOCKING \<Longrightarrow> fst band \<le> l \<Longrightarrow> l < h \<Longrightarrow> h \<le> snd band
    \<Longrightarrow> on_earth (fst loc) (snd loc) \<Longrightarrow> point_wf band profile (fss_point profile kind i loc l h)"
  by (auto simp: point_wf_def fss_point_def threshold_of_def neighborhood_of_def neighborhoods)

lemma esc_point_wf:
  "fst band \<le> l \<Longrightarrow> l < h \<Longrightarrow> h \<le> snd band \<Longrightarrow> on_earth (fst loc) (snd loc) \<Longrightarrow> length gains = 360
    \<Longrightarrow> point_wf band profile (esc_point profile i loc height azimuth gains (l, h))"
  by (auto simp: point_wf_def esc_point_def threshold_of_def neighborhood_of_def neighborhoods)

lemma fss_loc_on_earth:
  assumes "fss_record_and_loc_freq payload = Inr (Some (r, loc, fr))"
  shows "on_earth (fst loc) (snd loc)"
proof -
  from assms obtain inst where "point_from_installation inst = Some loc"
    by (auto simp: fss_record_and_loc_freq_def Let_def rbind_eq_Inr
        split: pyval.splits list.splits if_splits option.splits)
  then show ?thesis using installed_on_earth [of inst "fst loc" "snd loc"] by simp
qed

lemma set_present [simp]: "p \<in> set (present xs) \<longleftrightarrow> Some p \<in> set xs"
  unfolding present_def by (induction xs) (auto split: option.splits)

lemma fss_cochannel_wf:
  assumes "on_earth (fst loc) (snd loc)" "p \<in> set (fss_cochannel_points profile band i loc low high)"
  shows "point_wf band profile p"
proof -
  from assms(2) obtain l h where "clip_frequency_to_cbrs band (max low (fst band)) (snd band) = Some (l, h)"
    "p = fss_point profile FSS_COCHANNEL i loc l h"
    by (auto simp: fss_cochannel_points_def eq_commute [of "Some p"] split: if_splits)
  with assms(1) clipped_in_band [of band _ _ l h] show ?thesis by (auto intro!: fss_point_wf)
qed

lemma fss_blocking_wf:
  assumes "on_earth (fst loc) (snd loc)" "p \<in> set (fss_blocking_points profile band i loc low)"
  shows "point_wf band profile p"
proof -
  from assms(2) have "fst band < min low (snd band)"
    "p = fss_point profile FSS_BLOCKING i loc (fst band) (min low (snd band))"
    by (auto simp: fss_blocking_points_def split: if_splits)
  with assms(1) show ?thesis by (auto intro!: fss_point_wf)
qed

lemma fss_points_wf:
  assumes "protection_points_from_fss_payload en band profile payload = Inr ps" "p \<in> set ps"
  shows "point_wf band profile p"
proof (cases "fss_record_and_loc_freq payload")
  case (Inr parsed)
  show ?thesis
  proof (cases parsed)
    case None
    with Inr assms show ?thesis by (simp add: protection_points_from_fss_payload_def)
  next
    case (Some found)
    obtain r loc low high where found: "found = (r, loc, low, high)" by (metis prod.exhaust)
    with Inr Some have "on_earth (fst loc) (snd loc)" using fss_loc_on_earth by blast
    with Inr Some found assms show ?thesis
      by (auto simp: protection_points_from_fss_payload_def rbind_eq_Inr Let_def
          split: if_splits intro: fss_cochannel_wf fss_blocking_wf)
  qed
qed (use assms in \<open>simp add: protection_points_from_fss_payload_def\<close>)

lemma wisp_point_wf:
  "protection_point_from_wisp_payload en band profile payload = Inr (Some p) \<Longrightarrow> point_wf band profile p"
  by (auto simp: protection_point_from_wisp_payload_def rbind_eq_Inr
      split: pyval.splits option.splits dest!: clipped_in_band intro!: area_point_wf)

lemma zone_point_wf:
  "protection_point_from_zone_payload en band profile pals payload = Inr (Some p) \<Longrightarrow> point_wf band profile p"
  by (auto simp: protection_point_from_zone_payload_def rbind_eq_Inr Let_def
      split: if_splits option.splits dest!: clipped_in_band intro!: area_point_wf)

lemma add_gain_length: "add_gain gains entry = Inr gains' \<Longrightarrow> length gains' = length gains"
  by (cases entry) (auto simp: add_gain_def split: sum.splits if_splits)

lemma esc_pattern_length:
  assumes "esc_gain_pattern_from_install install = Inr gains"
  shows "length gains = 360"
proof -
  from assms obtain raw gs where "rfold add_gain (replicate 360 None) raw = Inr gs" "gains = map the gs"
    by (auto simp: esc_gain_pattern_from_install_def rbind_eq_Inr split: pyval.splits if_splits)
  moreover from this(1) have "length gs = 360"
    using rfold_inv [of "\<lambda>gs. length gs = 360" add_gain "replicate 360 None" raw gs] add_gain_length by auto
  ultimately show ?thesis by simp
qed

lemma esc_sensor_point_wf:
  assumes "protection_point_from_esc_sensor_record en band profile i r = Inr (Some p)"
  shows "point_wf band profile p"
  using assms installed_on_earth esc_pattern_length
  by (fastforce simp: protection_point_from_esc_sensor_record_def rbind_eq_Inr Let_def
      split: option.splits dest!: clipped_in_band intro!: esc_point_wf)

lemma rmap_all: "rmap f xs = Inr ys \<Longrightarrow> (\<And>x y. f x = Inr y \<Longrightarrow> P y) \<Longrightarrow> \<forall>y\<in>set ys. P y"
  by (induction xs arbitrary: ys) (auto simp: rbind_eq_Inr)

lemma payload_points_wf:
  assumes "build_protection_points_from_payloads en band profile payloads = Inr ps" "p \<in> set ps"
  shows "point_wf band profile p"
proof -
  let ?wf = "\<lambda>p. point_wf band profile p"
  from assms obtain pals fss wisp zones esc where
      "rmap (protection_points_from_fss_payload en band profile) (py_fss payloads) = Inr fss"
      "rmap (protection_point_from_wisp_payload en band profile) (py_wisp payloads) = Inr wisp"
      "rmap (protection_point_from_zone_payload en band profile pals) (py_zones payloads) = Inr zones"
      "rmap (\<lambda>(i, r). protection_point_from_esc_sensor_record en band profile i r) (py_esc payloads) = Inr esc"
    and ps: "ps = sort_key point_order (concat fss @ present wisp @ present zones @ present esc)"
    by (auto simp: build_protection_points_from_payloads_def rbind_eq_Inr)
  then have "\<forall>y\<in>set fss. \<forall>p\<in>set y. ?wf p" "\<forall>y\<in>set wisp. \<forall>p. y = Some p \<longrightarrow> ?wf p"
      "\<forall>y\<in>set zones. \<forall>p. y = Some p \<longrightarrow> ?wf p" "\<forall>y\<in>set esc. \<forall>p. y = Some p \<longrightarrow> ?wf p"
    by (elim rmap_all; auto intro: fss_points_wf wisp_point_wf zone_point_wf esc_sensor_point_wf)+
  with assms(2) show ?thesis unfolding ps by auto
qed

lemma peer_points_wf:
  assumes "protection_points_from_peer_esc_records en band profile records = Inr ps" "p \<in> set ps"
  shows "point_wf band profile p"
proof -
  from assms(1) obtain qs where "rmap (\<lambda>(idx, r). protection_point_from_esc_sensor_record en band profile
       (peer_esc_id en idx r) r) (zip [0..<length records] records) = Inr qs" "ps = present qs"
    by (auto simp: protection_points_from_peer_esc_records_def rbind_eq_Inr)
  moreover from this(1) have "\<forall>y\<in>set qs. \<forall>p. y = Some p \<longrightarrow> point_wf band profile p"
    by (elim rmap_all) (auto intro: esc_sensor_point_wf)
  ultimately show ?thesis using assms(2) by simp
qed

text \<open>
  C30. Every protection point the builders make, from the live database or from the frozen
  records with those of the peers, is well formed: its range is non-empty and inside the band, its
  threshold, margin and neighbourhood are those of its kind, it is never of the generic kind, exactly
  the ESC points carry a receiver pattern and it has one gain per degree, and the points read from
  an installation lie on the globe.
\<close>

theorem built_points_are_well_formed:
  assumes "build_protection_points_from_db en band profile d = Inr ps
    \<or> build_protection_points_from_frozen en band profile peer_esc records = Inr ps" "p \<in> set ps"
  shows "point_wf band profile p"
  using assms
  by (auto simp: build_protection_points_from_db_def build_protection_points_from_frozen_def rbind_eq_Inr
      split: if_splits intro: payload_points_wf peer_points_wf)

subsection \<open>Freezing loses nothing\<close>

lemma rmap_eq_Inr: "rmap f xs = Inr ys \<longleftrightarrow> (\<forall>x\<in>set xs. \<exists>y. f x = Inr y) \<and> ys = map (\<lambda>x. projr (f x)) xs"
  by (induction xs arbitrary: ys) (auto simp: rbind_eq_Inr)

lemma rmap_mset:
  "rmap f xs = Inr ys \<Longrightarrow> mset xs' = mset xs \<Longrightarrow> \<exists>ys'. rmap f xs' = Inr ys' \<and> mset ys' = mset ys"
  using mset_eq_setD [of xs' xs] by (auto simp: rmap_eq_Inr)

lemma mset_map_filter:
  "mset xs = mset ys \<Longrightarrow> mset (List.map_filter f xs) = mset (List.map_filter f ys)"
  by (simp add: List.map_filter_def)

lemma mset_concat_eq: "mset xs = mset ys \<Longrightarrow> mset (concat xs) = mset (concat ys)"
  by (metis mset_concat mset_map sum_mset_sum_list)

definition of_kind :: "string \<Rightarrow> frozen_record list \<Rightarrow> frozen_record list" where
  "of_kind k rows = filter (\<lambda>r. fst r = k) rows"

lemma of_kind_append [simp]: "of_kind k (xs @ ys) = of_kind k xs @ of_kind k ys"
  by (simp add: of_kind_def)

lemma of_kind_Cons: "of_kind k (r # rows) = (if fst r = k then r # of_kind k rows else of_kind k rows)"
  by (simp add: of_kind_def)

lemma of_kind_sorted: "of_kind k (sort_key record_order rows) = sort_key record_order (of_kind k rows)"
  by (simp add: of_kind_def filter_sort)

lemma of_kind_same: "(\<And>r. r \<in> set rows \<Longrightarrow> fst r = k') \<Longrightarrow> of_kind k rows = (if k = k' then rows else [])"
  by (induction rows) (auto simp: of_kind_def)

lemma frozen_kinds [simp]:
  "fst (frozen_pal en pal) = ''pal''" "fst (capture_esc_connectivity_for_freeze d) = ''esc_state''"
  "fst (frozen_activation en act) = ''dpa_activation''" "fst (frozen_sensor sensor) = ''esc_sensor''"
  by (simp_all only: frozen_pal_def capture_esc_connectivity_for_freeze_def frozen_activation_def
      frozen_sensor_def Let_def fst_conv)

lemma of_kind_map: "(\<And>x. fst (f x) = k') \<Longrightarrow> of_kind k (map f xs) = (if k = k' then map f xs else [])"
  by (rule of_kind_same) auto

lemma of_kind_parts:
  "of_kind k (frozen_injected en d kind) = (if k = kind then frozen_injected en d kind else [])"
  "of_kind k (map (frozen_pal en) pals) = (if k = ''pal'' then map (frozen_pal en) pals else [])"
  "of_kind k (frozen_scheduled d) = (if k = ''scheduled_dpa'' then frozen_scheduled d else [])"
  "of_kind k (map (frozen_activation en) acts)
     = (if k = ''dpa_activation'' then map (frozen_activation en) acts else [])"
  "of_kind k (map frozen_sensor sensors) = (if k = ''esc_sensor'' then map frozen_sensor sensors else [])"
  unfolding frozen_injected_def frozen_scheduled_def
  by (rule of_kind_map, simp add: case_prod_unfold)
    (rule of_kind_map, simp, rule of_kind_map, simp add: case_prod_unfold,
      (rule of_kind_map, simp)+)

lemma of_kind_zones:
  assumes "capture_exclusion_zone_records_for_freeze d = Inr zones"
    "k \<noteq> ''exclusion_zone''" "k \<noteq> ''ntia_exclusion_zones''"
  shows "of_kind k zones = []"
proof -
  have "of_kind k out = []" if "frozen_zones kind prefix vs = Inr out" "k \<noteq> kind" for kind prefix vs out
    using that by (subst of_kind_same [of _ kind])
      (auto simp: frozen_zones_def rmap_eq_Inr rbind_eq_Inr dest!: bspec)
  with assms show ?thesis
    by (auto simp: capture_exclusion_zone_records_for_freeze_def rbind_eq_Inr Let_def split: if_splits)
qed

lemma map_filter_filter:
  "(\<And>x. f x \<noteq> None \<Longrightarrow> P x) \<Longrightarrow> List.map_filter f (filter P xs) = List.map_filter f xs"
  by (induction xs) (auto split: option.splits)

lemma frozen_dicts_of_kind: "frozen_dicts rows k = frozen_dicts (of_kind k rows) k"
  unfolding frozen_dicts_def of_kind_def
  by (rule map_filter_filter [symmetric]) (auto split: if_splits)

lemma numbered_snd [simp]: "map snd (numbered xs) = xs"
  by (simp add: numbered_def)

lemma map_filter_map: "List.map_filter f (map g xs) = List.map_filter (\<lambda>x. f (g x)) xs"
  by (induction xs) (auto split: option.splits)

lemma map_filter_Some: "List.map_filter (\<lambda>x. Some (g x)) xs = map g xs"
  by (induction xs) auto

lemma row_dict_dumps [simp]: "row_dict (json_dumps (PDict p)) = Some p"
  by (simp add: row_dict_def)

lemma row_dict_or_empty: "row_dict (if j = JEmpty then json_dumps (PDict []) else j) = row_dict j"
  by (cases j) (simp_all add: row_dict_def json_dumps_def)

lemma frozen_injected_dicts:
  "map snd (frozen_dicts (frozen_injected en d kind) kind) = injected_records d kind"
  by (simp add: frozen_dicts_def frozen_injected_def map_filter_map case_prod_unfold map_filter_Some
      comp_def numbered_def)

lemma frozen_dicts_Cons:
  "frozen_dicts (r # rows) k = (case if fst r = k then map_option (Pair (fst (snd r))) (row_dict (snd (snd r))) else None
     of None \<Rightarrow> frozen_dicts rows k | Some y \<Rightarrow> y # frozen_dicts rows k)"
  by (simp add: frozen_dicts_def case_prod_unfold split: option.split)

lemma frozen_sensor_row [simp]:
  "fst (snd (frozen_sensor s)) = fst s" "row_dict (snd (snd (frozen_sensor s))) = row_dict (snd s)"
  unfolding frozen_sensor_def fst_conv snd_conv row_dict_or_empty by (rule refl)+

lemma frozen_sensor_dicts: "frozen_dicts (map frozen_sensor (db_esc d)) ''esc_sensor'' = esc_sensor_records d"
proof -
  have "frozen_dicts (map frozen_sensor xs) ''esc_sensor''
      = List.map_filter (\<lambda>(i, j). map_option (Pair i) (row_dict j)) xs" for xs
  proof (induction xs)
    case (Cons x xs)
    then show ?case by (simp add: frozen_dicts_Cons case_prod_unfold split: option.split)
  qed (simp add: frozen_dicts_def)
  then show ?thesis by (simp add: esc_sensor_records_def)
qed

lemma mset_frozen_dicts:
  "mset rows = mset rows' \<Longrightarrow> mset (frozen_dicts rows k) = mset (frozen_dicts rows' k)"
  unfolding frozen_dicts_def by (rule mset_map_filter)

text \<open>PAL records are indexed by their identifier; the later one of an identifier counts.\<close>

lemma loaded_pals_have_ids:
  assumes "load_pal_records d active = Inr pals" "v \<in> set pals"
  shows "\<exists>p. v = PDict p \<and> truthy (dget p ''palId'')"
proof -
  let ?P = "\<lambda>pals. \<forall>v\<in>set pals. \<exists>p. v = PDict p \<and> truthy (dget p ''palId'')"
  have table: "?P (fst acc)" if "load_pal_table d active = Inr acc" for acc
    by (rule rfold_inv [of "\<lambda>acc. ?P (fst acc)", OF _ _ that [unfolded load_pal_table_def]])
      (auto simp: Let_def rbind_eq_Inr split: if_splits prod.splits)
  from assms(1) obtain pals0 seen where t: "load_pal_table d active = Inr (pals0, seen)"
    and legacy: "rfold (\<lambda>pals j. case json_loads_or_empty j of
           Inr (PDict r) \<Rightarrow>
             (let pal_id = dget r ''palId'' in
              if \<not> truthy pal_id then Inr pals
              else rbind (check_hash pal_id) (\<lambda>k.
                if py_in k seen then Inr pals
                else rbind (if active then is_active_pal r else Inr True) (\<lambda>active.
                  Inr (if active then pals @ [PDict r] else pals))))
         | _ \<Rightarrow> Inr pals) pals0 (rows_of_kind d ''pal'') = Inr pals"
    by (auto simp: load_pal_records_def rbind_eq_Inr)
  have "?P pals"
    using table [OF t] by (intro rfold_inv [of ?P, OF _ _ legacy])
      (auto simp: Let_def rbind_eq_Inr split: sum.splits pyval.splits if_splits)
  with assms(2) show ?thesis by blast
qed

definition pal_key :: "env \<Rightarrow> pyval \<Rightarrow> string" where
  "pal_key en v = py_str en (dget (or_empty_dict v) ''palId'')"

lemma or_empty_dict_PDict [simp]: "or_empty_dict (PDict p) = p"
  by (simp add: or_empty_dict_def por_def)

definition keyed_pals :: "env \<Rightarrow> pyval list \<Rightarrow> (string \<times> pydict) list" where
  "keyed_pals en pals = map (\<lambda>v. (pal_key en v, or_empty_dict v)) pals"

lemma index_pals_map:
  assumes "\<forall>v\<in>set pals. \<exists>p. v = PDict p \<and> truthy (dget p ''palId'')"
  shows "\<exists>out. index_pals en pals = Inr out \<and> map_of out = map_of (rev (keyed_pals en pals))"
  using assms
proof (induction pals rule: rev_induct)
  case (snoc v pals)
  then obtain p out where v: "v = PDict p" "truthy (dget p ''palId'')"
    and out: "index_pals en pals = Inr out" "map_of out = map_of (rev (keyed_pals en pals))"
    by auto
  show ?case
    using v out by (auto simp: index_pals_def rfold_append keyed_pals_def pal_key_def update_conv')
qed (simp add: index_pals_def keyed_pals_def)

lemma map_of_filter_key: "map_of xs k = map_of (filter (\<lambda>x. fst x = k) xs) k"
  by (induction xs) auto

lemma filter_frozen_dicts:
  "filter (\<lambda>x. fst x = i) (frozen_dicts rows k) = frozen_dicts (filter (\<lambda>r. fst (snd r) = i) rows) k"
proof (induction rows)
  case (Cons r rows)
  then show ?case by (simp add: frozen_dicts_Cons split: option.split)
qed (simp add: frozen_dicts_def)

lemma frozen_pal_row:
  assumes "v = PDict p" "truthy (dget p ''palId'')"
  shows "fst (snd (frozen_pal en (n, v))) = pal_key en v"
    and "row_dict (snd (snd (frozen_pal en (n, v)))) = Some p"
  using assms by (auto simp: frozen_pal_def pal_key_def por_def)

lemma frozen_pal_dicts:
  assumes "\<forall>v\<in>set pals. \<exists>p. v = PDict p \<and> truthy (dget p ''palId'')"
  shows "frozen_dicts (map (frozen_pal en) (numbered pals)) ''pal'' = keyed_pals en pals"
proof -
  have "frozen_dicts (map (frozen_pal en) (zip ns pals)) ''pal'' = keyed_pals en pals"
    if "length ns = length pals" for ns
    using that assms
    by (induction ns pals rule: list_induct2)
      (auto simp: frozen_dicts_Cons keyed_pals_def frozen_pal_row, auto simp: frozen_dicts_def)
  then show ?thesis by (simp add: numbered_def)
qed

lemma sorted_keys_same:
  "filter (\<lambda>x. fst x = i) (frozen_dicts (sort_key record_order (of_kind k rows)) k)
     = filter (\<lambda>x. fst x = i) (frozen_dicts (of_kind k rows) k)"
proof -
  have "sort_key record_order rs = rs" if "\<forall>r\<in>set rs. fst r = k \<and> fst (snd r) = i" for rs
  proof (rule sort_key_id_if_sorted)
    have "map record_order rs = map (\<lambda>_. (k, i)) rs" using that by (simp add: record_order_def)
    then show "sorted (map record_order rs)" by (simp add: map_replicate_const)
  qed
  then show ?thesis by (simp add: filter_frozen_dicts filter_sort of_kind_def)
qed

lemma zone_point_map_of:
  assumes "map_of pals = map_of pals'"
  shows "protection_point_from_zone_payload en band profile pals
    = protection_point_from_zone_payload en band profile pals'"
proof -
  have "zone_pal_ranges en pals = zone_pal_ranges en pals'"
    unfolding zone_pal_ranges_def assms by (rule refl)
  then show ?thesis by (intro ext) (simp only: protection_point_from_zone_payload_def)
qed

definition live_payloads :: "db \<Rightarrow> pyval list \<Rightarrow> protection_payloads" where
  "live_payloads d pals = \<lparr>py_fss = injected_records d ''fss'', py_wisp = injected_records d ''wisp'',
     py_zones = injected_records d ''zone'', py_esc = esc_sensor_records d, py_pals = pals\<rparr>"

definition frozen_payloads :: "frozen_record list \<Rightarrow> protection_payloads" where
  "frozen_payloads records =
     \<lparr>py_fss = map snd (frozen_dicts records ''fss''), py_wisp = map snd (frozen_dicts records ''wisp''),
      py_zones = map snd (frozen_dicts records ''zone''), py_esc = frozen_dicts records ''esc_sensor'',
      py_pals = map (\<lambda>(i, p). PDict p) (frozen_dicts records ''pal'')\<rparr>"

definition same_index :: "env \<Rightarrow> pyval list \<Rightarrow> pyval list \<Rightarrow> bool" where
  "same_index en pals pals' = (\<exists>out out'. index_pals en pals = Inr out \<and> index_pals en pals' = Inr out'
     \<and> map_of out = map_of out')"

text \<open>The same payloads in another order give the same points.\<close>

lemma points_of_reordered_payloads:
  assumes "mset (py_fss q) = mset (py_fss p)" "mset (py_wisp q) = mset (py_wisp p)"
    "mset (py_zones q) = mset (py_zones p)" "mset (py_esc q) = mset (py_esc p)"
    "same_index en (py_pals q) (py_pals p)"
    and "build_protection_points_from_payloads en band profile p = Inr ps"
  shows "\<exists>ps'. build_protection_points_from_payloads en band profile q = Inr ps' \<and> mset ps' = mset ps"
proof -
  let ?esc = "\<lambda>(i, r). protection_point_from_esc_sensor_record en band profile i r"
  from assms(5) obtain pals pals' where pals: "index_pals en (py_pals q) = Inr pals'"
    "index_pals en (py_pals p) = Inr pals" "map_of pals' = map_of pals"
    by (auto simp: same_index_def)
  from assms(6) pals(2) obtain fss wisp zones esc where built:
      "rmap (protection_points_from_fss_payload en band profile) (py_fss p) = Inr fss"
      "rmap (protection_point_from_wisp_payload en band profile) (py_wisp p) = Inr wisp"
      "rmap (protection_point_from_zone_payload en band profile pals) (py_zones p) = Inr zones"
      "rmap ?esc (py_esc p) = Inr esc"
    and ps: "ps = sort_key point_order (concat fss @ present wisp @ present zones @ present esc)"
    by (auto simp: build_protection_points_from_payloads_def rbind_eq_Inr)
  note zone = zone_point_map_of [OF pals(3)]
  from rmap_mset [OF built(1) assms(1)] rmap_mset [OF built(2) assms(2)] rmap_mset [OF built(3) assms(3)]
    rmap_mset [OF built(4) assms(4)]
  obtain fss' wisp' zones' esc' where
      "rmap (protection_points_from_fss_payload en band profile) (py_fss q) = Inr fss'"
      "rmap (protection_point_from_wisp_payload en band profile) (py_wisp q) = Inr wisp'"
      "rmap (protection_point_from_zone_payload en band profile pals') (py_zones q) = Inr zones'"
      "rmap ?esc (py_esc q) = Inr esc'"
    and ms: "mset fss' = mset fss" "mset wisp' = mset wisp" "mset zones' = mset zones" "mset esc' = mset esc"
    unfolding zone by blast
  then have "build_protection_points_from_payloads en band profile q
      = Inr (sort_key point_order (concat fss' @ present wisp' @ present zones' @ present esc'))"
    using pals(1) by (simp add: build_protection_points_from_payloads_def)
  moreover have "mset (concat fss' @ present wisp' @ present zones' @ present esc') = mset ps"
    unfolding ps present_def mset_sort mset_append mset_concat_eq [OF ms(1)]
      mset_map_filter [OF ms(2)] mset_map_filter [OF ms(3)] mset_map_filter [OF ms(4)] by (rule refl)
  ultimately show ?thesis by simp
qed

definition captured_rows :: "env \<Rightarrow> db \<Rightarrow> pyval list \<Rightarrow> frozen_record list \<Rightarrow> frozen_record list" where
  "captured_rows en d pals zones =
     concat (map (frozen_injected en d) [''fss'', ''wisp'', ''zone'', ''gwbl''])
     @ map (frozen_pal en) (numbered pals) @ zones @ [capture_esc_connectivity_for_freeze d]
     @ frozen_scheduled d @ map (frozen_activation en) (numbered (injected_records d FLAG_DPA_ACTIVE))
     @ map frozen_sensor (db_esc d)"

lemma captured_kinds:
  assumes "capture_exclusion_zone_records_for_freeze d = Inr zones"
  shows "of_kind ''fss'' (captured_rows en d pals zones) = frozen_injected en d ''fss''"
    and "of_kind ''wisp'' (captured_rows en d pals zones) = frozen_injected en d ''wisp''"
    and "of_kind ''zone'' (captured_rows en d pals zones) = frozen_injected en d ''zone''"
    and "of_kind ''pal'' (captured_rows en d pals zones) = map (frozen_pal en) (numbered pals)"
    and "of_kind ''esc_state'' (captured_rows en d pals zones) = [capture_esc_connectivity_for_freeze d]"
    and "of_kind ''esc_sensor'' (captured_rows en d pals zones) = map frozen_sensor (db_esc d)"
  using of_kind_zones [OF assms]
  by (simp_all add: captured_rows_def of_kind_parts of_kind_Cons)

lemma captured_dicts:
  "mset (frozen_dicts (sort_key record_order rows) k) = mset (frozen_dicts (of_kind k rows) k)"
  unfolding frozen_dicts_of_kind [of rows, symmetric] by (rule mset_frozen_dicts) simp

lemma sorted_dicts:
  "frozen_dicts (sort_key record_order rows) k = frozen_dicts (sort_key record_order (of_kind k rows)) k"
  by (subst frozen_dicts_of_kind) (simp only: of_kind_sorted)

lemma captured_payloads:
  assumes "capture_exclusion_zone_records_for_freeze d = Inr zones"
    "records = sort_key record_order (captured_rows en d pals zones)"
  shows "mset (py_fss (frozen_payloads records)) = mset (injected_records d ''fss'')"
    and "mset (py_wisp (frozen_payloads records)) = mset (injected_records d ''wisp'')"
    and "mset (py_zones (frozen_payloads records)) = mset (injected_records d ''zone'')"
    and "mset (py_esc (frozen_payloads records)) = mset (esc_sensor_records d)"
  unfolding frozen_payloads_def assms(2)
  unfolding protection_payloads.simps mset_map captured_dicts captured_kinds [OF assms(1)]
    frozen_sensor_dicts mset_map [symmetric] frozen_injected_dicts
  by (rule refl)+

lemma captured_pal_index:
  assumes "load_pal_records d False = Inr pals" "capture_exclusion_zone_records_for_freeze d = Inr zones"
    "records = sort_key record_order (captured_rows en d pals zones)"
  shows "same_index en (py_pals (frozen_payloads records)) pals"
proof -
  let ?L = "frozen_dicts records ''pal''" and ?xs = "keyed_pals en pals"
  have ids: "\<forall>v\<in>set pals. \<exists>p. v = PDict p \<and> truthy (dget p ''palId'')"
    using loaded_pals_have_ids [OF assms(1)] by blast
  have xs: "frozen_dicts (of_kind ''pal'' (captured_rows en d pals zones)) ''pal'' = ?xs"
    by (simp add: captured_kinds [OF assms(2)] frozen_pal_dicts [OF ids])
  have same: "filter (\<lambda>x. fst x = k) ?L = filter (\<lambda>x. fst x = k) ?xs" for k
    using sorted_keys_same [of k "''pal''" "captured_rows en d pals zones"]
    unfolding xs assms(3) sorted_dicts [of "captured_rows en d pals zones"] .
  have mem: "x \<in> set ?L \<longleftrightarrow> x \<in> set ?xs" for x
  proof -
    have "x \<in> set l \<longleftrightarrow> x \<in> set (filter (\<lambda>y. fst y = fst x) l)" for l
      by simp
    from this [of ?L] this [of ?xs] show ?thesis unfolding same by blast
  qed
  then have entry: "truthy (dget p ''palId'') \<and> i = pal_key en (PDict p)" if "(i, p) \<in> set ?L" for i p
    using that ids by (force simp: keyed_pals_def)
  then have "keyed_pals en (map (\<lambda>(i, p). PDict p) ?L) = ?L"
    by (auto simp: keyed_pals_def intro!: map_idI)
  moreover have "map_of (rev ?L) = map_of (rev ?xs)"
    by (rule ext, subst (1 2) map_of_filter_key) (simp add: same flip: rev_filter)
  moreover have "\<forall>v\<in>set (map (\<lambda>(i, p). PDict p) ?L). \<exists>p. v = PDict p \<and> truthy (dget p ''palId'')"
    using entry by auto
  ultimately show ?thesis
    using index_pals_map [OF ids, of en] index_pals_map [of "map (\<lambda>(i, p). PDict p) ?L" en]
    by (fastforce simp: same_index_def frozen_payloads_def)
qed

lemma captured_connectivity:
  assumes "capture_exclusion_zone_records_for_freeze d = Inr zones"
    "records = sort_key record_order (captured_rows en d pals zones)" "resolve_esc_connectivity d \<noteq> INVALID"
  shows "assert_frozen_esc_connectivity en records = Inr ()"
proof -
  have find: "List.find (\<lambda>(kind, i, j). kind = k) rs = (case of_kind k rs of [] \<Rightarrow> None | r # rest \<Rightarrow> Some r)"
    for k rs by (induction rs) (auto simp: of_kind_def)
  have "resolve_esc_connectivity d \<noteq> UNKNOWN"
    by (auto simp: resolve_esc_connectivity_def split: option.splits bool.splits)
  then show ?thesis using assms(3)
    by (cases "resolve_esc_connectivity d")
      (simp_all add: assert_frozen_esc_connectivity_def find assms(2) of_kind_sorted captured_kinds [OF assms(1)]
        capture_esc_connectivity_for_freeze_def parse_frozen_esc_connectivity_def Let_def)
qed

text \<open>
  C29. Freezing loses no protection: unless the state of the sensing network cannot be read,
  the points the coordination builds from the records frozen for its generation are exactly the points
  the live database gives, each as often as there.
\<close>

theorem frozen_points_are_the_live_ones:
  assumes "capture_protection_records_for_freeze en d = Inr records" "resolve_esc_connectivity d \<noteq> INVALID"
    "build_protection_points_from_db en band profile d = Inr ps"
  shows "\<exists>ps'. build_protection_points_from_frozen en band profile [] records = Inr ps' \<and> mset ps' = mset ps"
proof -
  from assms(1) obtain pals zones where pals: "load_pal_records d False = Inr pals"
    and zones: "capture_exclusion_zone_records_for_freeze d = Inr zones"
    and records: "records = sort_key record_order (captured_rows en d pals zones)"
    by (auto simp: capture_protection_records_for_freeze_def captured_rows_def rbind_eq_Inr)
  from assms(3) pals have live: "build_protection_points_from_payloads en band profile (live_payloads d pals) = Inr ps"
    by (simp add: build_protection_points_from_db_def live_payloads_def)
  have "\<exists>ps'. build_protection_points_from_payloads en band profile (frozen_payloads records) = Inr ps'
      \<and> mset ps' = mset ps"
    using captured_payloads [OF zones records] captured_pal_index [OF pals zones records]
    by (intro points_of_reordered_payloads [OF _ _ _ _ _ live]) (simp_all add: live_payloads_def)
  then show ?thesis
    using captured_connectivity [OF zones records assms(2)]
    by (auto simp: build_protection_points_from_frozen_def frozen_payloads_def)
qed

subsection \<open>A site in the band\<close>

definition cbrs_band :: band where
  "cbrs_band = (3550000000, 3700000000)"

definition example_fss :: pydict where
  "example_fss = [(''record'', PDict [(''id'', PStr ''f1''), (''deploymentParam'', PList [PDict
     [(''installationParam'', PDict [(''latitude'', PInt 40), (''longitude'', PInt (- 100))]),
      (''operationParam'', PDict [(''operationFrequencyRange'',
         PDict [(''lowFrequency'', PInt 3600000000), (''highFrequency'', PInt 4200000000)])])]])])]"

definition fss_db :: db where
  "fss_db = empty_db\<lparr>db_injected := [(''fss'', json_dumps (PDict example_fss))]\<rparr>"

definition fss_db_points :: "protection_point list" where
  "fss_db_points = [fss_point default_thresholds FSS_BLOCKING ''f1'' (40, - 100) 3550000000 3600000000,
     fss_point default_thresholds FSS_COCHANNEL ''f1'' (40, - 100) 3600000000 3700000000]"

lemma fss_db_payloads:
  "injected_records fss_db ''fss'' = [example_fss]" "injected_records fss_db ''wisp'' = []"
  "injected_records fss_db ''zone'' = []" "injected_records fss_db ''gwbl'' = []"
  "injected_records fss_db ''scheduled_dpa'' = []" "injected_records fss_db ''dpa_active'' = []"
  "esc_sensor_records fss_db = []" "load_pal_records fss_db False = Inr []"
  "load_injected fss_db ''exclusion_zone'' = []" "db_esc fss_db = []"
  by (simp_all add: injected_records_def load_injected_dicts_def load_kind_def rows_of_kind_def fss_db_def
      dict_of_def esc_sensor_records_def empty_db_def load_pal_records_def load_pal_table_def load_injected_def)

lemma example_fss_points:
  "protection_points_from_fss_payload example_env cbrs_band default_thresholds example_fss
     = Inr (rev fss_db_points)"
  by (simp add: protection_points_from_fss_payload_def fss_record_and_loc_freq_def record_or_self_def
      example_fss_def por_def names_range_def freq_pair_def read_range_def point_from_installation_def
      try_float_def parse_fss_ttc_def strip_or_def py_strip_def is_space_def Let_def FSS_TTC_LOW_HZ_def
      fss_cochannel_points_def fss_blocking_points_def present_def clip_frequency_to_cbrs_def cbrs_band_def
      fss_db_points_def)

lemma fss_db_built:
  "build_protection_points_from_db example_env cbrs_band default_thresholds fss_db = Inr fss_db_points"
proof -
  have "sort_key point_order (rev fss_db_points) = fss_db_points"
    by (simp add: fss_db_points_def point_order_def fss_point_def)
  then show ?thesis
    by (simp add: build_protection_points_from_db_def build_protection_points_from_payloads_def index_pals_def
        fss_db_payloads example_fss_points present_def)
qed

lemma built_points_are_well_formed_witness:
  "list_all (point_wf cbrs_band default_thresholds) fss_db_points"
  using built_points_are_well_formed [OF disjI1 [OF fss_db_built]] by (auto simp: list_all_iff)

lemma frozen_points_are_the_live_ones_witness:
  "\<exists>records ps'. capture_protection_records_for_freeze example_env fss_db = Inr records
     \<and> build_protection_points_from_frozen example_env cbrs_band default_thresholds [] records = Inr ps'
     \<and> mset ps' = mset fss_db_points"
proof -
  have flag: "strict_flag fss_db kind key = Some None" if "kind \<noteq> ''fss''" for kind key
    using that by (simp add: strict_flag_def first_of_kind_def rows_of_kind_def fss_db_def empty_db_def)
  have "\<not> admin_flag_set fss_db ''ntia_15_517''"
    by (simp add: admin_flag_set_def fss_db_def empty_db_def)
  then have "\<exists>records. capture_protection_records_for_freeze example_env fss_db = Inr records"
    by (simp add: capture_protection_records_for_freeze_def capture_exclusion_zone_records_for_freeze_def
        fss_db_payloads frozen_zones_def numbered_def)
  moreover have "resolve_esc_connectivity fss_db \<noteq> INVALID"
    by (simp add: resolve_esc_connectivity_def flag)
  ultimately show ?thesis using frozen_points_are_the_live_ones [OF _ _ fss_db_built] by blast
qed

end
