(* ===== verification/AdmissionSafety.thy ===== *)
theory AdmissionSafety
  imports Admission FrozenPoints GrantService
begin

text \<open>
  What the grant-time admission promises: a proposal that passes leaves every protection point it
  can reach within its threshold, on top of everything authorised already, and passes only while the
  generation of the last coordination is still the current one.
\<close>

subsection \<open>Headroom\<close>

definition local_baseline :: "protection_point \<Rightarrow> frequency_channel \<Rightarrow> grant_rf list \<Rightarrow> grant_rf list" where
  "local_baseline pt ch baseline =
     filter (\<lambda>g. in_neighborhood pt g \<and> grant_overlaps_channel (pp_kind pt) g ch) baseline"

text \<open>The interference of the baseline and of the proposal at one point and channel.\<close>

definition channel_kept :: "raising_coupling \<Rightarrow> grant_rf \<Rightarrow> grant_rf list \<Rightarrow> protection_point
    \<Rightarrow> frequency_channel \<Rightarrow> bool" where
  "channel_kept cpl proposed baseline pt ch =
     (\<exists>mws own. rmap (\<lambda>g. cpl g pt ch (rf_max_eirp g)) (local_baseline pt ch baseline) = Inr mws
        \<and> cpl proposed pt ch (rf_max_eirp proposed) = Inr own
        \<and> sum_list mws + own
            \<le> dbm_to_mw (apply_pre_iap_margin_db (pp_threshold_dbm pt) (pp_margin_db pt)) + HEADROOM_EPS_MW)"

definition headroom_kept :: "int \<Rightarrow> raising_coupling \<Rightarrow> grant_rf \<Rightarrow> grant_rf list \<Rightarrow> protection_point list \<Rightarrow> bool" where
  "headroom_kept origin cpl proposed baseline points =
     (\<forall>pt\<in>set points. in_neighborhood pt proposed \<longrightarrow>
       (\<forall>ch\<in>set (overlapping_iap_channels origin IAPBW_HZ (pp_low pt) (pp_high pt)).
          grant_overlaps_channel (pp_kind pt) proposed ch \<longrightarrow> channel_kept cpl proposed baseline pt ch))"

lemma verdicts_admit:
  "verdicts f xs = Inr vs \<Longrightarrow> list_all ac_admit vs \<Longrightarrow> x \<in> set xs \<Longrightarrow> \<exists>v. f x = Inr v \<and> ac_admit v"
  by (induction xs arbitrary: vs) (auto simp: rbind_eq_Inr split: if_splits)

lemma baseline_sum:
  "rfold (add_baseline cpl pt ch) acc gs = Inr (m, p) \<Longrightarrow>
     \<exists>mws. rmap (\<lambda>g. cpl g pt ch (rf_max_eirp g)) (filter (\<lambda>g. grant_overlaps_channel (pp_kind pt) g ch) gs) = Inr mws
       \<and> m + p = fst acc + snd acc + sum_list mws"
proof (induction gs arbitrary: acc)
  case (Cons g gs)
  show ?case
  proof (cases "grant_overlaps_channel (pp_kind pt) g ch")
    case False
    then show ?thesis using Cons by (simp add: add_baseline_def)
  next
    case True
    from Cons.prems obtain acc' where acc1: "add_baseline cpl pt ch acc g = Inr acc'"
      and rest: "rfold (add_baseline cpl pt ch) acc' gs = Inr (m, p)"
      by (auto simp: rbind_eq_Inr)
    from acc1 True obtain mw where mw: "cpl g pt ch (rf_max_eirp g) = Inr mw"
      and acc': "fst acc' + snd acc' = fst acc + snd acc + mw"
      by (auto simp: add_baseline_def nonneg_coupling_def rbind_eq_Inr split: if_splits)
    from Cons.IH [OF rest] acc' mw True show ?thesis by auto
  qed
qed simp

lemma baseline_without_proposal:
  assumes "\<forall>g\<in>set baseline. rf_grant_id g \<noteq> rf_grant_id proposed"
  shows "filter (\<lambda>g. rf_grant_id g \<noteq> rf_grant_id proposed) (grants_in_neighborhood pt (baseline @ [proposed]))
    = filter (in_neighborhood pt) baseline"
  using assms by (auto simp: grants_in_neighborhood_def intro!: filter_cong)

lemma admitted_channel_kept:
  assumes "channel_verdict cpl proposed baseline (pt, ch) = Inr v" "ac_admit v"
    "\<forall>g\<in>set baseline. rf_grant_id g \<noteq> rf_grant_id proposed"
  shows "channel_kept cpl proposed baseline pt ch"
proof -
  let ?gs = "filter (in_neighborhood pt) baseline"
  from assms(1,2) obtain m p own where sums: "rfold (add_baseline cpl pt ch) (0, 0) ?gs = Inr (m, p)"
    and own: "cpl proposed pt ch (rf_max_eirp proposed) = Inr own"
    and le: "own \<le> dbm_to_mw (apply_pre_iap_margin_db (pp_threshold_dbm pt) (pp_margin_db pt))
               - (m + p) + HEADROOM_EPS_MW"
    by (auto simp: channel_verdict_def Let_def baseline_without_proposal [OF assms(3)]
        nonneg_coupling_def rbind_eq_Inr split: if_splits)
  from baseline_sum [OF sums] own le show ?thesis
    by (auto simp: channel_kept_def local_baseline_def conj_commute)
qed

lemma allowed_keeps_headroom:
  assumes "evaluate_proposal_against_headroom origin cpl proposed baseline points = Inr decision"
    "ad_allow decision" "\<forall>g\<in>set baseline. rf_grant_id g \<noteq> rf_grant_id proposed"
  shows "headroom_kept origin cpl proposed baseline points"
  unfolding headroom_kept_def
proof (intro ballI impI)
  fix pt ch
  assume pt: "pt \<in> set points" "in_neighborhood pt proposed"
    and ch: "ch \<in> set (overlapping_iap_channels origin IAPBW_HZ (pp_low pt) (pp_high pt))"
      "grant_overlaps_channel (pp_kind pt) proposed ch"
  then have "list_ex (\<lambda>g. rf_grant_id g = rf_grant_id proposed) (grants_in_neighborhood pt (baseline @ [proposed]))"
    by (simp add: grants_in_neighborhood_def)
  with ch have "(pt, ch) \<in> set (point_channels origin proposed baseline pt)"
    by (simp add: point_channels_def)
  with pt(1) have "(pt, ch) \<in> set (applicable_channels origin proposed baseline points)"
    unfolding applicable_channels_def set_concat set_map by blast
  note member = this
  from assms(1,2) obtain vs where vs:
    "verdicts (channel_verdict cpl proposed baseline) (applicable_channels origin proposed baseline points) = Inr vs"
    "list_all ac_admit vs"
    by (auto simp: evaluate_proposal_against_headroom_def Let_def rbind_eq_Inr split: if_splits)
  from verdicts_admit [OF vs member] obtain v where
    "channel_verdict cpl proposed baseline (pt, ch) = Inr v" "ac_admit v" by blast
  then show "channel_kept cpl proposed baseline pt ch" by (rule admitted_channel_kept [OF _ _ assms(3)])
qed

text \<open>What passing the gate means for the proposal of a CBSD.\<close>

definition iap_cleared :: "iap_env \<Rightarrow> env \<Rightarrow> db \<Rightarrow> cbsd_row \<Rightarrow> int \<Rightarrow> int \<Rightarrow> real \<Rightarrow> bool" where
  "iap_cleared ie en d c low_hz high_hz eirp =
     (\<exists>points. admission_points ie en d c = Inr points \<and> (points = [] \<or>
       (\<exists>proposed. proposed_grant_rf_info en c low_hz high_hz eirp = Inr proposed
         \<and> (\<not> proposal_has_applicable_iap_constraint (ie_origin ie) proposed points
            \<or> (coherent_generation_available d
               \<and> (\<exists>peers cpl. collect_peer_grants en d = Inr peers \<and> ie_coupling ie = Inr cpl
                   \<and> headroom_kept (ie_origin ie) cpl proposed
                       (other_baseline proposed low_hz high_hz (collect_local_authorized_grants en d @ peers))
                       points))))))"

lemma proposed_id: "proposed_grant_rf_info en c low high e = Inr rf \<Longrightarrow> rf_grant_id rf = PROPOSED_GRANT_ID"
  by (auto simp: proposed_grant_rf_info_def Let_def split: pyval.splits option.splits)

lemma local_ids:
  assumes "g \<in> set (collect_local_authorized_grants en d)"
  shows "rf_grant_id g \<in> gr_id ` set (db_grants d)"
proof -
  from assms obtain f where f: "f \<in> set (frozen_active_grants en d)" "frozen_to_iap_grant_rf f = Some g"
    by (auto simp: collect_local_authorized_grants_def dest: map_filter_mem)
  then obtain r c where "r \<in> set (db_grants d)" "f = frozen_local_grant_from_orm en r c"
    by (auto simp: frozen_active_grants_def dest!: map_filter_mem)
  moreover from f(2) have "rf_grant_id g = fz_grant_id f"
    by (auto simp: frozen_to_iap_grant_rf_def split: option.splits)
  ultimately show ?thesis
    by (auto simp: frozen_local_grant_from_orm_def Let_def split: prod.splits)
qed

lemma baseline_ids:
  assumes "PROPOSED_GRANT_ID \<notin> gr_id ` set (db_grants d)" "collect_peer_grants en d = Inr peers"
    "g \<in> set (other_baseline proposed low high (collect_local_authorized_grants en d @ peers))"
  shows "rf_grant_id g \<noteq> PROPOSED_GRANT_ID"
proof -
  from assms(3) have "g \<in> set (collect_local_authorized_grants en d) \<or> g \<in> set peers"
    by (auto simp: other_baseline_def)
  then show ?thesis
  proof
    assume "g \<in> set peers"
    with assms(2) have "take 5 (rf_grant_id g) = ''peer/''"
      using peer_grants_shape by (auto simp: collect_peer_grants_def rbind_eq_Inr)
    then show ?thesis by (auto simp: PROPOSED_GRANT_ID_def)
  next
    assume "g \<in> set (collect_local_authorized_grants en d)"
    from local_ids [OF this] assms(1) show ?thesis by auto
  qed
qed

lemma indeterminate_not_coherent: "admission_generation_indeterminate d = (\<not> coherent_generation_available d)"
  by (auto simp: admission_generation_indeterminate_def coherent_generation_available_def split: option.splits)

lemma passed_gate:
  assumes "proposed_grant_violates_iap ie en d c low high eirp = Inr False" "ie_enabled ie"
    "PROPOSED_GRANT_ID \<notin> gr_id ` set (db_grants d)"
  shows "iap_cleared ie en d c low high eirp"
proof -
  from assms(1,2) obtain points where points: "admission_points ie en d c = Inr points"
    by (auto simp: proposed_grant_violates_iap_def split: sum.splits)
  show ?thesis
  proof (cases "points = []")
    case False
    with assms(1,2) points obtain rf where rf: "proposed_grant_rf_info en c low high eirp = Inr rf"
      by (auto simp: proposed_grant_violates_iap_def split: sum.splits)
    show ?thesis
    proof (cases "proposal_has_applicable_iap_constraint (ie_origin ie) rf points")
      case True
      with assms(1,2) points rf False have "applicable_violates ie en d rf low high points = Inr False"
        by (simp add: proposed_grant_violates_iap_def)
      then obtain peers where gen: "coherent_generation_available d"
        and peers: "collect_peer_grants en d = Inr peers"
        and pass: "\<not> fails_headroom ie en rf
          (other_baseline rf low high (collect_local_authorized_grants en d @ peers)) points"
        by (auto simp: applicable_violates_def indeterminate_not_coherent split: if_splits sum.splits)
      from pass assms(2) False obtain cpl decision where "ie_coupling ie = Inr cpl"
        "evaluate_proposal_against_headroom (ie_origin ie) cpl rf
          (other_baseline rf low high (collect_local_authorized_grants en d @ peers)) points = Inr decision"
        "ad_allow decision"
        by (auto simp: fails_headroom_def resolve_iap_context_def resolve_iap_points_def
            split: sum.splits)
      then show ?thesis
        using points rf gen peers allowed_keeps_headroom baseline_ids [OF assms(3) peers] proposed_id [OF rf]
        unfolding iap_cleared_def by metis
    qed (use points rf in \<open>auto simp: iap_cleared_def\<close>)
  qed (use points in \<open>auto simp: iap_cleared_def\<close>)
qed

text \<open>
  C7. A proposal that the admission lets pass is safe: no protection point is in its way, or
  the coordination's generation is current and at every point in whose neighbourhood it lies, on every
  channel it overlaps, the interference of all grants authorised before, local at their current power
  and of the peers, plus its own stays within the point's threshold less the margin. Whatever cannot
  be evaluated on the way is refused.
\<close>

theorem admission_keeps_headroom:
  assumes "proposed_grant_violates_iap ie en d c low high eirp = Inr False" "ie_enabled ie"
    "PROPOSED_GRANT_ID \<notin> gr_id ` set (db_grants d)"
  shows "iap_cleared ie en d c low high eirp"
  using assms by (rule passed_gate)

text \<open>
  C28. The Grant service only adds grants that passed the admission: with the model's admission
  in its place, the row a successful request adds is cleared for its own channel and power.
\<close>

theorem granted_means_cleared:
  assumes "grant_item ext en ask cert (d, pend) req = (r, (d', pend'))" "d' \<noteq> d"
    "ge_iap ext = proposed_grant_violates_iap ie en" "ie_enabled ie"
    "PROPOSED_GRANT_ID \<notin> gr_id ` set (db_grants d)"
  shows "\<exists>c g e. lock_cbsd_row d (dget req ''cbsdId'') = Some c \<and> d' = add_grant d g \<and> gr_eirp g = Some e
    \<and> iap_cleared ie en d c (gr_low g) (gr_high g) e"
proof (cases rule: grant_item_cases [of ext en ask cert d pend req])
  case (refused r)
  then show ?thesis using assms(1,2) by simp
next
  case (checked c pl)
  show ?thesis
  proof (cases rule: admit_grant_cases [of ext en cert d pend req pl])
    case (refused r)
    then show ?thesis using assms(1,2) checked(5) by simp
  next
    case (admitted c' tx stamp g)
    have "gr_low g = pl_low pl" "gr_high g = pl_high pl" "gr_eirp g = Some (pl_eirp pl)"
      by (simp_all add: admitted(7) new_grant_def)
    moreover have "d' = add_grant d g" using assms(1) checked(5) admitted(8) by simp
    ultimately show ?thesis
      using passed_gate [OF admitted(5) [unfolded assms(3)] assms(4,5)] admitted(1) by auto
  qed
qed

subsection \<open>The generation\<close>

lemma deep_eq_int [simp]: "deep_eq v (PInt n) \<longleftrightarrow> num_of v = Some (of_int n)"
  by (cases v) (auto simp: py_eq_def)

lemma dict_eqD:
  assumes "deep_eq (PDict a) (PDict b)"
  shows "(k, v) \<in> set a \<Longrightarrow> \<exists>w. (k, w) \<in> set b \<and> deep_eq v w"
    and "(k, w) \<in> set b \<Longrightarrow> \<exists>v. (k, v) \<in> set a \<and> deep_eq v w"
  using assms by (fastforce simp del: deep_eq_int)+

lemma int_dict_eqD:
  assumes "deep_eq v (PDict (int_dict a))" "deep_eq v (PDict (int_dict b))" "distinct (map fst a)" "distinct (map fst b)"
  shows "map_of a = map_of b"
proof -
  from assms(1) obtain m where m: "v = PDict m"
    by (cases v) (auto simp: py_eq_def split: option.splits)
  have entry: "(k, n) \<in> set b" if "deep_eq v (PDict (int_dict a))" "deep_eq v (PDict (int_dict b))"
    "(k, n) \<in> set a" for a b k and n :: int
  proof -
    have "(k, PInt n) \<in> set (int_dict a)" using that(3) by (auto simp: int_dict_def)
    with dict_eqD(2) [OF that(1) [unfolded m]] obtain w where w: "(k, w) \<in> set m" "deep_eq w (PInt n)"
      by blast
    with dict_eqD(1) [OF that(2) [unfolded m]] obtain w' where "(k, w') \<in> set (int_dict b)" "deep_eq w w'"
      by blast
    moreover from this(1) obtain n' where "w' = PInt n'" "(k, n') \<in> set b" by (auto simp: int_dict_def)
    ultimately show ?thesis using w(2) by (simp del: deep_eq.simps)
  qed
  then have "set a = set b" using assms(1,2) by auto
  with assms(3,4) show ?thesis by (simp add: map_of_inject_set)
qed

lemma deep_eq_refl [simp]: "deep_eq v v"
proof (induction v)
  case (PList xs)
  then have "deep_eqs xs xs" by (induction xs) auto
  then show ?case by simp
next
  case (PDict d)
  have "\<exists>(k', w)\<in>set d. k' = k \<and> deep_eq v w" "\<exists>(k', w)\<in>set d. k = k' \<and> deep_eq w v"
    if "(k, v) \<in> set d" for k v
    using PDict.IH [of "(k, v)" v] that by auto
  then show ?case unfolding deep_eq.simps by (auto simp del: deep_eq.simps)
qed auto

lemma rows_put_newest:
  "rows_of_kind (put_newest d kind v) k =
     (if k = kind then butlast (rows_of_kind d kind) @ [json_dumps v] else rows_of_kind d k)"
proof (cases "admin_flag_set d kind")
  case True
  let ?p = "\<lambda>(k, j). k = kind" and ?f = "\<lambda>(k, j). (k, json_dumps v)"
  let ?rows = "\<lambda>k xs. map snd (filter (\<lambda>(k', j). k' = k) xs)"
  have other: "?rows k (update_first ?p ?f xs) = ?rows k xs" if "k \<noteq> kind" for k and xs :: "(string \<times> jtext) list"
    using that by (induction xs) auto
  have same: "?rows kind (update_first ?p ?f xs) = json_dumps v # tl (?rows kind xs)"
    if "?rows kind xs \<noteq> []" for xs :: "(string \<times> jtext) list"
    using that by (induction xs) auto
  from True have "?rows kind (rev (db_injected d)) \<noteq> []"
    by (force simp: admin_flag_set_def filter_empty_conv)
  with True other [of k "rev (db_injected d)"] same [of "rev (db_injected d)"] show ?thesis
    unfolding put_newest_def rows_of_kind_def by (simp flip: rev_filter rev_map) (metis butlast_rev rev_filter rev_map rev_rev_ident)
next
  case False
  then have "rows_of_kind d kind = []" by (force simp: admin_flag_set_def rows_of_kind_def filter_empty_conv)
  with False show ?thesis by (simp add: put_newest_def)
qed

lemma marker_recorded:
  "load_iap_admission_generation (record_iap_admission_generation en d fp) =
     Some [(''peer_generations'', PDict (fp_peers (case fp of Some b \<Rightarrow> b | None \<Rightarrow> current_generation_fingerprint d))),
       (''injection_generations'', PDict (fp_injections (case fp of Some b \<Rightarrow> b | None \<Rightarrow> current_generation_fingerprint d))),
       (''recordedAt'', PStr (utc_now_iso (env_now en)))]"
  by (simp add: load_iap_admission_generation_def record_iap_admission_generation_def rows_put_newest Let_def)

lemma put_newest_frame [simp]: "db_peers (put_newest d kind v) = db_peers d"
  by (simp add: put_newest_def add_injected_def)

lemma marker_frame:
  "current_generation_fingerprint (record_iap_admission_generation en d fp) = current_generation_fingerprint d"
  "cpas_reevaluation_required (record_iap_admission_generation en d fp) = cpas_reevaluation_required d"
  by (simp_all add: current_generation_fingerprint_def peer_generations_def record_iap_admission_generation_def
      Let_def get_injection_generations_def load_injected_dicts_def load_kind_def rows_put_newest
      cpas_reevaluation_required_def first_of_kind_def)

lemma restamped_is_coherent:
  "coherent_generation_available (record_iap_admission_generation en d None) \<longleftrightarrow> cpas_reevaluation_required d = None"
  unfolding coherent_generation_available_def marker_recorded marker_frame generation_matches_def Let_def
  by (simp add: deep_eq_refl del: deep_eq.simps)

lemma bump_frame:
  "k \<noteq> ''injection_generation'' \<Longrightarrow>
     rows_of_kind (snd (bump_injection_generation d key)) k = rows_of_kind d k"
  by (simp add: bump_injection_generation_def Let_def)

subsection \<open>A proposal in reach of a site\<close>

definition silent_coupling :: raising_coupling where
  "silent_coupling = (\<lambda>_ _ _ _. Inr 0)"

definition example_iap_env :: iap_env where
  "example_iap_env = \<lparr>ie_enabled = True, ie_coupling = Inr silent_coupling, ie_band = cbrs_band,
     ie_origin = 3550000000, ie_thresholds = default_thresholds\<rparr>"

definition site_db :: db where
  "site_db = record_iap_admission_generation example_env fss_db None"

definition site_cbsd :: cbsd_row where
  "site_cbsd = example_cbsd\<lparr>cb_reg := json_dumps (PDict [(''installationParam'',
     PDict [(''latitude'', PInt 40), (''longitude'', PInt (- 100))])])\<rparr>"

lemma site_coherent: "coherent_generation_available site_db"
  by (simp add: site_db_def restamped_is_coherent cpas_reevaluation_required_def first_of_kind_def
      rows_of_kind_def fss_db_def empty_db_def)

lemma site_rows: "rows_of_kind site_db k = (if k = ''iap_admission_generation'' then rows_of_kind site_db k else rows_of_kind fss_db k)"
  by (simp add: site_db_def record_iap_admission_generation_def rows_put_newest Let_def)

lemma site_tables: "db_pals site_db = []" "db_esc site_db = []" "db_grants site_db = []" "db_peer_fad site_db = []"
  by (simp_all add: site_db_def record_iap_admission_generation_def put_newest_def Let_def add_injected_def
      fss_db_def empty_db_def)

lemma site_rows_of: "k \<noteq> ''iap_admission_generation'' \<Longrightarrow> rows_of_kind site_db k = rows_of_kind fss_db k"
  by (subst site_rows) simp

text \<open>Whatever else is injected: the rows below decide the points.\<close>

lemma fss_points:
  assumes "\<forall>k\<in>{''pal'', ''fss'', ''wisp'', ''zone'', ''gwbl'', ''fss_provenance''}. rows_of_kind d k = rows_of_kind fss_db k"
    and "db_pals d = []" and "db_esc d = []"
  shows "admission_points example_iap_env example_env d c = Inr fss_db_points"
proof -
  have "build_protection_points_from_db example_env cbrs_band default_thresholds d
      = build_protection_points_from_db example_env cbrs_band default_thresholds fss_db"
    using assms
    by (simp add: build_protection_points_from_db_def load_pal_records_def load_pal_table_def
        injected_records_def load_injected_dicts_def load_kind_def esc_sensor_records_def)
      (simp add: fss_db_def empty_db_def)
  moreover have "\<not> list_ex (\<lambda>p. pp_kind p = PPA) fss_db_points"
    by (simp add: fss_db_points_def fss_point_def)
  moreover have "load_fss_provenance_map d = []"
    using assms(1) unfolding load_fss_provenance_map_def
    by simp (simp add: rows_of_kind_def fss_db_def empty_db_def)
  ultimately show ?thesis
    by (simp add: admission_points_def example_iap_env_def fss_db_built filter_points_for_proposed_cbsd_def
        exclude_federal_sync_fss_from_grant_admission_def)
qed

lemma site_points: "admission_points example_iap_env example_env site_db site_cbsd = Inr fss_db_points"
  by (rule fss_points) (simp_all add: site_rows_of site_tables)

lemma silent_verdicts:
  "\<exists>vs. verdicts (channel_verdict silent_coupling rf []) pcs = Inr vs \<and> list_all ac_admit vs"
proof (induction pcs)
  case (Cons pc pcs)
  have "0 < dbm_to_mw x" for x by (simp add: dbm_to_mw_def)
  then have "0 \<le> dbm_to_mw x + HEADROOM_EPS_MW" for x
    by (simp add: HEADROOM_EPS_MW_def add_nonneg_nonneg less_imp_le)
  then have "\<exists>v. channel_verdict silent_coupling rf [] pc = Inr v \<and> ac_admit v"
    by (cases pc) (auto simp: channel_verdict_def Let_def grants_in_neighborhood_def nonneg_coupling_def
        silent_coupling_def)
  with Cons show ?case by auto
qed simp

lemma site_proposal_passes:
  "proposed_grant_violates_iap example_iap_env example_env site_db site_cbsd 3610000000 3620000000 20 = Inr False"
proof -
  obtain rf where rf: "proposed_grant_rf_info example_env site_cbsd 3610000000 3620000000 20 = Inr rf"
    by (simp add: proposed_grant_rf_info_def cbsd_registration_def site_cbsd_def try_float_key_def try_float_def
        por_def Let_def)
  obtain vs where vs: "verdicts (channel_verdict silent_coupling rf [])
      (applicable_channels 3550000000 rf [] fss_db_points) = Inr vs" "list_all ac_admit vs"
    using silent_verdicts by blast
  then have "\<not> fails_headroom example_iap_env example_env rf [] fss_db_points"
    by (simp add: fails_headroom_def resolve_iap_context_def resolve_iap_points_def example_iap_env_def
        evaluate_proposal_against_headroom_def Let_def) (simp add: fss_db_points_def)
  moreover have "collect_peer_grants example_env site_db = Inr []"
    by (simp add: collect_peer_grants_def peer_cbsd_rows_def site_tables grant_rf_infos_from_frozen_peer_cbsds_def)
  moreover have "collect_local_authorized_grants example_env site_db = []"
    by (simp add: collect_local_authorized_grants_def frozen_active_grants_def site_tables)
  ultimately have "applicable_violates example_iap_env example_env site_db rf 3610000000 3620000000 fss_db_points
      = Inr False"
    by (simp add: applicable_violates_def indeterminate_not_coherent site_coherent other_baseline_def)
  then show ?thesis
    by (simp add: proposed_grant_violates_iap_def site_points rf)
qed

lemma admission_keeps_headroom_witness:
  "iap_cleared example_iap_env example_env site_db site_cbsd 3610000000 3620000000 20"
  using admission_keeps_headroom [OF site_proposal_passes]
  by (simp add: example_iap_env_def site_tables)

definition gated_ext :: grant_ext where
  "gated_ext = example_grant_ext\<lparr>ge_iap := proposed_grant_violates_iap example_iap_env example_env\<rparr>"

lemma gated_check:
  "check_operation gated_ext example_env example_db example_cbsd example_grant_request = Inr (Inr example_plan)"
proof -
  have "ge_border gated_ext = ge_border example_grant_ext" "ge_dpa gated_ext = ge_dpa example_grant_ext"
    by (simp_all add: gated_ext_def)
  then have "location_blocks gated_ext = location_blocks example_grant_ext"
    "border_blocks gated_ext = border_blocks example_grant_ext"
    by (intro ext; simp only: location_blocks_def border_blocks_def)+
  then have "plan_grant gated_ext = plan_grant example_grant_ext"
    by (intro ext) (simp only: plan_grant_def)
  then show ?thesis using example_check by (simp only: check_operation_def)
qed

lemma gated_passes:
  "ge_iap gated_ext example_db example_cbsd 3570000000 3580000000 10 = Inr False"
proof -
  have "admission_points example_iap_env example_env example_db example_cbsd = Inr []"
    by (simp add: admission_points_def build_protection_points_from_db_def injected_records_def
        load_injected_dicts_def load_kind_def example_injected load_pal_records_def load_pal_table_def
        esc_sensor_records_def build_protection_points_from_payloads_def index_pals_def present_def
        filter_points_for_proposed_cbsd_def exclude_federal_sync_fss_from_grant_admission_def Let_def)
      (simp add: example_db_def empty_db_def)
  then show ?thesis by (simp add: gated_ext_def proposed_grant_violates_iap_def)
qed

lemma granted_means_cleared_witness:
  "\<exists>(g :: grant_row) e. iap_cleared example_iap_env example_env example_db example_cbsd (gr_low g) (gr_high g) e"
proof (rule example_item [OF gated_check gated_passes])
  fix resp det g pend
  assume item: "grant_item gated_ext example_env False None (example_db, \<lambda>_. []) example_grant_request
       = (Inr resp, (add_grant example_db g, pend))"
  have "PROPOSED_GRANT_ID \<notin> gr_id ` set (db_grants example_db)"
    by (simp add: example_db_def example_grant_def PROPOSED_GRANT_ID_def)
  moreover have "db_grants (add_grant example_db g) \<noteq> db_grants example_db"
    by (simp add: add_grant_def)
  then have "add_grant example_db g \<noteq> example_db" by metis
  moreover have "ge_iap gated_ext = proposed_grant_violates_iap example_iap_env example_env"
    by (simp add: gated_ext_def)
  moreover have "ie_enabled example_iap_env" by (simp add: example_iap_env_def)
  ultimately obtain c e and g' :: grant_row where "lock_cbsd_row example_db (PStr ''F/S'') = Some c"
    "iap_cleared example_iap_env example_env example_db c (gr_low g') (gr_high g') e"
    using granted_means_cleared [OF item, of example_iap_env] by (simp add: example_grant_request_def) blast
  then show ?thesis by (auto simp: example_lock)
qed

end
