(* ===== verification/DpaSafety.thy ===== *)
theory DpaSafety
  imports DpaProtection GrantService FrozenPoints
begin

text \<open>
  What the interference protection of dynamic protection areas promises: the move list restores the
  threshold and no shorter one does, the grants that stay on a channel keep its point within the
  threshold, and a grant is added only when the aggregate with it stays within the threshold of
  every protected channel it can reach.
\<close>

subsection \<open>The threshold\<close>

abbreviation within_th :: "point_interference list \<Rightarrow> real \<Rightarrow> real \<Rightarrow> bool" where
  "within_th cs th margin \<equiv> snd (aggregate_within_threshold cs th margin)"

lemma level_le_mw: "level_le (mw_to_dbm mw) l \<longleftrightarrow> mw \<le> dbm_to_mw l"
proof (cases "mw \<le> 0")
  case True
  have "0 \<le> dbm_to_mw l" by (simp add: dbm_to_mw_def)
  with True show ?thesis by (simp add: mw_to_dbm_def)
next
  case False
  then have "log 10 mw \<le> l / 10 \<longleftrightarrow> mw \<le> 10 powr (l / 10)" by (intro log_le_iff) auto
  moreover have "log 10 mw \<le> l / 10 \<longleftrightarrow> 10 * log 10 mw \<le> l" by auto
  ultimately show ?thesis using False by (simp only: mw_to_dbm_def dbm_to_mw_def if_False level_le.simps)
qed

lemma within_iff: "within_th cs th margin \<longleftrightarrow> total_mw cs \<le> dbm_to_mw (th + margin + 1 / 10 ^ 12)"
  by (simp add: aggregate_within_threshold_def Let_def level_le_mw)

lemma total_mw_simps [simp]:
  "total_mw [] = 0" "total_mw (c # cs) = max 0 (pi_mw c) + total_mw cs"
  "total_mw (xs @ ys) = total_mw xs + total_mw ys"
  by (simp_all add: total_mw_def)

lemma total_mw_nonneg: "0 \<le> total_mw cs"
  by (induction cs) auto

lemma within_Nil [simp]: "within_th [] th margin"
  by (simp add: within_iff dbm_to_mw_def)

lemma total_mw_mset: "total_mw cs = sum_mset (image_mset (\<lambda>c. max 0 (pi_mw c)) (mset cs))"
  by (simp add: total_mw_def flip: sum_mset_sum_list)

lemma total_mw_filter: "total_mw (filter P cs) \<le> total_mw cs"
  by (induction cs) auto

lemma total_mw_perm: "mset xs = mset ys \<Longrightarrow> total_mw xs = total_mw ys"
  by (simp add: total_mw_mset)

subsection \<open>The greedy list\<close>

lemma movelist_loop_prefix:
  "\<exists>k \<le> length cs. movelist_loop th margin cs = map pi_grant_id (take k cs)
     \<and> within_th (drop k cs) th margin \<and> (\<forall>j<k. \<not> within_th (drop j cs) th margin)"
proof (induction cs)
  case (Cons c cs)
  show ?case
  proof (cases "within_th (c # cs) th margin")
    case True
    then show ?thesis by (intro exI [of _ 0]) simp
  next
    case False
    from Cons.IH obtain k where k: "k \<le> length cs" "movelist_loop th margin cs = map pi_grant_id (take k cs)"
      "within_th (drop k cs) th margin" "\<forall>j<k. \<not> within_th (drop j cs) th margin" by blast
    have "\<not> within_th (drop j (c # cs)) th margin" if "j < Suc k" for j
      using that False k(4) by (cases j) auto
    with False k show ?thesis by (intro exI [of _ "Suc k"]) simp
  qed
qed simp

text \<open>The \<open>n\<close> smallest elements of a descending list sum up to no more than any \<open>n\<close> of them.\<close>

lemma smallest_sum:
  fixes f :: "'a \<Rightarrow> real"
  assumes "sorted_wrt (\<lambda>x y. f y \<le> f x) xs" "\<And>x. 0 \<le> f x" "K \<subseteq># mset xs" "n \<le> size K"
  shows "sum_list (map f (drop (length xs - n) xs)) \<le> sum_mset (image_mset f K)"
  using assms
proof (induction xs arbitrary: K n)
  case (Cons x xs)
  have pos: "0 \<le> sum_mset (image_mset f M)" for M
    using Cons.prems(2) by (induction M) (auto intro: add_nonneg_nonneg)
  have IH: "sum_list (map f (drop (length xs - m) xs)) \<le> sum_mset (image_mset f M)"
    if "M \<subseteq># mset xs" "m \<le> size M" for M m
    using Cons that by simp
  show ?case
  proof (cases "x \<in># K")
    case False
    have K: "K \<subseteq># mset xs"
      unfolding subseteq_mset_def
    proof
      fix a
      have "count K a \<le> count (mset (x # xs)) a"
        using Cons.prems(3) by (rule mset_subset_eq_count)
      with False show "count K a \<le> count (mset xs) a"
        by (cases "a = x") (auto simp: not_in_iff)
    qed
    then have "n \<le> length xs" using Cons.prems(4) size_mset_mono [OF K] by simp
    with IH [OF K Cons.prems(4)] show ?thesis by (simp add: Suc_diff_le)
  next
    case True
    then obtain K' where K': "K = add_mset x K'" by (metis multi_member_split)
    with Cons.prems(3) have sub: "K' \<subseteq># mset xs" by simp
    show ?thesis
    proof (cases "n \<le> size K'")
      case True
      then have "n \<le> length xs" using size_mset_mono [OF sub] by simp
      with IH [OF sub True] Cons.prems(2) [of x] K' show ?thesis by (simp add: Suc_diff_le)
    next
      case False
      then have n: "n = Suc (size K')" using Cons.prems(4) K' by simp
      from sub obtain D where D: "mset xs = K' + D" by (auto simp: mset_subset_eq_exists_conv)
      then have len: "length xs = size K' + size D" by (metis size_mset size_union)
      show ?thesis
      proof (cases D)
        case empty
        then have "sum_list (map f xs) = sum_mset (image_mset f K')"
          using D by (simp flip: sum_mset_sum_list)
        with n K' len empty show ?thesis by simp
      next
        case (add y D')
        then have y: "add_mset y K' \<subseteq># mset xs" using D by simp
        have "y \<in> set xs" using D add by (metis set_mset_mset union_iff union_single_eq_member)
        then have "f y \<le> f x" using Cons.prems(1) by simp
        moreover have "sum_list (map f (drop (length xs - n) xs)) \<le> f y + sum_mset (image_mset f K')"
          using IH [OF y, of n] n by simp
        moreover have "length (x # xs) - n = Suc (length xs - n)" using len add n by simp
        ultimately show ?thesis using K' by simp
      qed
    qed
  qed
qed simp

lemma strongest_first:
  "sorted_wrt (\<lambda>x y. max 0 (pi_mw y) \<le> max 0 (pi_mw x)) (sort_key (\<lambda>c. - pi_mw c) cs)"
proof -
  have "sorted (map (\<lambda>c. - pi_mw c) (sort_key (\<lambda>c. - pi_mw c) cs))" by simp
  then have "sorted_wrt (\<lambda>x y. - pi_mw x \<le> - pi_mw y) (sort_key (\<lambda>c. - pi_mw c) cs)"
    by (simp add: sorted_map)
  then show ?thesis by (rule sorted_wrt_mono_rel [rotated]) auto
qed
lemma build_movelist_prefix:
  obtains k where "k \<le> length cs"
    "build_movelist cs th margin = map pi_grant_id (take k (sort_key (\<lambda>c. - pi_mw c) cs))"
    "within_th (drop k (sort_key (\<lambda>c. - pi_mw c) cs)) th margin"
    "\<And>j. j < k \<Longrightarrow> \<not> within_th (drop j (sort_key (\<lambda>c. - pi_mw c) cs)) th margin"
  using movelist_loop_prefix [of "sort_key (\<lambda>c. - pi_mw c) cs" th margin]
  by (auto simp: build_movelist_def)

lemma greedy_keeps_most:
  assumes "\<And>j. j < k \<Longrightarrow> \<not> within_th (drop j (sort_key (\<lambda>c. - pi_mw c) cs)) th margin" "k \<le> length cs"
    "mset keep \<subseteq># mset cs" "within_th keep th margin"
  shows "length keep \<le> length cs - k"
proof (rule ccontr)
  let ?xs = "sort_key (\<lambda>c. - pi_mw c) cs"
  assume "\<not> ?thesis"
  then have more: "Suc (length cs - k) \<le> length keep" by simp
  moreover have "length keep \<le> length cs" using size_mset_mono [OF assms(3)] by simp
  ultimately have k: "0 < k" "length cs - Suc (length cs - k) = k - 1" using assms(2) by auto
  have "total_mw (drop (length ?xs - Suc (length cs - k)) ?xs) \<le> total_mw keep"
    unfolding total_mw_mset [of keep] unfolding total_mw_def
    by (rule smallest_sum [OF strongest_first]) (use assms(3) more in auto)
  then have "total_mw (drop (k - 1) ?xs) \<le> total_mw keep" using k(2) by simp
  with assms(4) have "within_th (drop (k - 1) ?xs) th margin" by (simp add: within_iff)
  with assms(1) [of "k - 1"] k(1) show False by simp
qed

text \<open>
  C40. The move list is the strongest interferers of the channel, in order. The contributions that
  stay are within the threshold, and no other choice of contributions to keep that is within the
  threshold keeps more of them: the greedy list is as short as a list can be.
\<close>

theorem movelist_is_shortest:
  "let ranked = sort_key (\<lambda>c. - pi_mw c) cs; moved = build_movelist cs th margin;
       stay = drop (length moved) ranked in
   moved = map pi_grant_id (take (length moved) ranked)
   \<and> snd (aggregate_within_threshold stay th margin)
   \<and> (mset keep \<subseteq># mset cs \<and> snd (aggregate_within_threshold keep th margin)
        \<longrightarrow> length keep \<le> length stay)"
proof -
  obtain k where k: "k \<le> length cs"
    "build_movelist cs th margin = map pi_grant_id (take k (sort_key (\<lambda>c. - pi_mw c) cs))"
    "within_th (drop k (sort_key (\<lambda>c. - pi_mw c) cs)) th margin"
    "\<And>j. j < k \<Longrightarrow> \<not> within_th (drop j (sort_key (\<lambda>c. - pi_mw c) cs)) th margin"
    by (rule build_movelist_prefix [of cs th margin]) blast
  from k(1,2) have "length (build_movelist cs th margin) = k" by simp
  with k greedy_keeps_most [OF k(4) k(1), of keep] show ?thesis by (simp add: Let_def)
qed

subsection \<open>Channels\<close>

definition unmoved :: "string list \<Rightarrow> dpa_rf list \<Rightarrow> dpa_rf list" where
  "unmoved moved grants = filter (\<lambda>g. dg_grant_id g \<notin> set moved) grants"

lemma interference_id:
  "interference_dbm_at_point fn g lat lon h low high = Inr (Some c) \<Longrightarrow> pi_grant_id c = dg_grant_id g"
  by (cases "cochannel_eirp_dbm g low high")
    (auto simp: interference_dbm_at_point_def rbind_eq_Inr split: if_splits)

lemma present_simps [simp]:
  "present [] = []" "present (None # xs) = present xs" "present (Some x # xs) = x # present xs"
  by (simp_all add: present_def List.map_filter_simps)

lemma channel_interference_simps:
  "channel_interference fn p pt [] = Inr []"
  "channel_interference fn p pt (g # gs) =
     rbind (interference_dbm_at_point fn g (fst pt) (snd pt) (pc_ref_height p) (pc_low p) (pc_high p)) (\<lambda>hit.
     rbind (channel_interference fn p pt gs) (\<lambda>cs. Inr (case hit of None \<Rightarrow> cs | Some c \<Rightarrow> c # cs)))"
  by (auto simp: channel_interference_def rbind_def split: sum.splits option.splits)

lemma channel_interference_unmoved:
  "channel_interference fn p pt gs = Inr cs \<Longrightarrow>
     channel_interference fn p pt (unmoved moved gs) = Inr (filter (\<lambda>c. pi_grant_id c \<notin> set moved) cs)"
proof (induction gs arbitrary: cs)
  case Nil
  then show ?case by (simp add: channel_interference_simps unmoved_def)
next
  case (Cons g gs)
  from Cons.prems obtain hit cs' where hit:
    "interference_dbm_at_point fn g (fst pt) (snd pt) (pc_ref_height p) (pc_low p) (pc_high p) = Inr hit"
    "channel_interference fn p pt gs = Inr cs'" "cs = (case hit of None \<Rightarrow> cs' | Some c \<Rightarrow> c # cs')"
    by (auto simp: channel_interference_simps rbind_eq_Inr)
  from Cons.IH [OF hit(2)] hit(1,3) show ?case
    by (cases hit) (auto simp: unmoved_def channel_interference_simps dest: interference_id)
qed

lemma unmoved_within:
  "within_th (filter (\<lambda>c. pi_grant_id c \<notin> set (build_movelist cs th margin)) cs) th margin"
proof -
  obtain k where k: "build_movelist cs th margin = map pi_grant_id (take k (sort_key (\<lambda>c. - pi_mw c) cs))"
    "within_th (drop k (sort_key (\<lambda>c. - pi_mw c) cs)) th margin"
    by (rule build_movelist_prefix [of cs th margin]) blast
  let ?xs = "sort_key (\<lambda>c. - pi_mw c) cs" and ?P = "\<lambda>c. pi_grant_id c \<notin> set (build_movelist cs th margin)"
  have "total_mw (filter ?P cs) = total_mw (filter ?P ?xs)"
    by (rule total_mw_perm) simp
  also have "filter ?P ?xs = filter ?P (take k ?xs) @ filter ?P (drop k ?xs)"
    by (metis append_take_drop_id filter_append)
  also have "filter ?P (take k ?xs) = []"
    unfolding k(1) by (auto simp: filter_empty_conv)
  finally show ?thesis using k(2) total_mw_filter [of ?P "drop k ?xs"] by (simp add: within_iff)
qed

text \<open>The two ways an evaluation returns.\<close>

lemma evaluation_cases:
  assumes "evaluate_protected_channel (Inr fn) p grants = Inr (contribs, moved, agg, ok)"
  obtains (closed) "unmoved moved (overlapping_grants p grants) = []" "\<not> ok"
  | (computed) pt where "polygon_representative_point (pc_geometry p) = Inr (Some pt)"
      "channel_interference fn p pt (overlapping_grants p grants) = Inr contribs"
      "moved = build_movelist contribs (pc_threshold p) DEFAULT_DPA_MARGIN_DB"
      "ok = within_th contribs (pc_threshold p) DEFAULT_DPA_MARGIN_DB"
proof -
  let ?over = "overlapping_grants p grants"
  have gone: "unmoved (map dg_grant_id ?over) ?over = []"
    by (auto simp: unmoved_def filter_empty_conv)
  from assms obtain pt where pt: "polygon_representative_point (pc_geometry p) = Inr pt"
    by (auto simp: evaluate_protected_channel_def Let_def rbind_eq_Inr)
  show thesis
  proof (cases pt)
    case None
    with assms pt gone show ?thesis by (intro closed) (auto simp: evaluate_protected_channel_def)
  next
    case (Some latlon)
    show ?thesis
    proof (cases "channel_interference fn p latlon ?over")
      case (Inl e)
      with assms pt Some gone show ?thesis
        by (intro closed) (auto simp: evaluate_protected_channel_def split: if_splits)
    next
      case (Inr cs)
      with assms pt Some show ?thesis
        by (intro computed [of latlon]) (auto simp: evaluate_protected_channel_def Let_def split: prod.splits)
    qed
  qed
qed

text \<open>
  C18. When the evaluation of a protected channel gives a move list, the grants that are not on it keep
  the aggregate at the protection point within the threshold; when there is no such point, none of
  the overlapping grants is left. A channel the evaluation accepts is within its threshold with all
  of its grants. Path losses that cannot be computed leave no grant on the channel.
\<close>

theorem unmoved_grants_protect_channel:
  assumes "evaluate_protected_channel (Inr fn) p grants = Inr (contribs, moved, agg, ok)"
    and "overlapping = overlapping_grants p grants"
  shows "case polygon_representative_point (pc_geometry p) of
      Inr (Some pt) \<Rightarrow>
        (\<exists>cs. channel_interference fn p pt (unmoved moved overlapping) = Inr cs
            \<and> snd (aggregate_within_threshold cs (pc_threshold p) DEFAULT_DPA_MARGIN_DB))
        \<and> (ok \<longrightarrow> channel_interference fn p pt overlapping = Inr contribs
                 \<and> snd (aggregate_within_threshold contribs (pc_threshold p) DEFAULT_DPA_MARGIN_DB))
    | _ \<Rightarrow> unmoved moved overlapping = [] \<and> \<not> ok"
  using assms(1)
proof (cases rule: evaluation_cases)
  case closed
  then show ?thesis
    by (auto simp: assms(2) channel_interference_simps split: sum.splits option.splits)
next
  case (computed pt)
  then show ?thesis
    using channel_interference_unmoved [OF computed(2), of moved]
      unmoved_within [of contribs "pc_threshold p" DEFAULT_DPA_MARGIN_DB]
    by (auto simp: assms(2))
qed

subsection \<open>The proposed grant\<close>

text \<open>
  What the test of a proposal that passes says of one protected channel: the CBSD is outside its
  neighbourhood, or the aggregate of the grants near it and of the proposal is within the threshold.
\<close>

definition channel_clear :: "env \<Rightarrow> path_loss_fn \<Rightarrow> cbsd_row \<Rightarrow> dpa_rf \<Rightarrow> dpa_rf list \<Rightarrow> protected_channel \<Rightarrow> bool" where
  "channel_clear en fn c proposed existing p =
     (cbsd_inside_protected_neighborhood en c p = Inr (Some False)
      \<or> (cbsd_inside_protected_neighborhood en c p = Inr (Some True)
         \<and> (\<exists>near pt cs. filter_grants_in_neighborhood p existing = Inr near
              \<and> polygon_representative_point (pc_geometry p) = Inr (Some pt)
              \<and> channel_interference fn p pt (overlapping_grants p (filter (not_replaced proposed) near @ [proposed]))
                  = Inr cs
              \<and> snd (aggregate_within_threshold cs (pc_threshold p) DEFAULT_DPA_MARGIN_DB))))"

definition dpa_cleared :: "path_loss_fn \<Rightarrow> env \<Rightarrow> db \<Rightarrow> cbsd_row \<Rightarrow> int \<Rightarrow> int \<Rightarrow> real \<Rightarrow> bool" where
  "dpa_cleared fn en d c low_hz high_hz eirp =
     (let protected = grant_frequency_overlaps_protected (list_protected_dpa_channels en d) low_hz high_hz in
      protected = [] \<or> (\<exists>proposed. proposed_dpa_rf en c low_hz high_hz eirp = Some proposed
        \<and> (\<forall>p\<in>set protected. channel_clear en fn c proposed (collect_active_dpa_grants en d None [] []) p)))"

lemma accepted_channel:
  assumes "evaluate_protected_channel (Inr fn) p grants = Inr (contribs, moved, agg, True)"
  shows "\<exists>pt cs. polygon_representative_point (pc_geometry p) = Inr (Some pt)
    \<and> channel_interference fn p pt (overlapping_grants p grants) = Inr cs
    \<and> snd (aggregate_within_threshold cs (pc_threshold p) DEFAULT_DPA_MARGIN_DB)"
  using assms by (cases rule: evaluation_cases) auto

lemma channel_not_violated:
  assumes "channel_violated en fn c proposed existing p = Inr False"
  shows "channel_clear en fn c proposed existing p"
proof -
  from assms obtain inside where ins: "cbsd_inside_protected_neighborhood en c p = Inr inside"
    by (auto simp: channel_violated_def rbind_eq_Inr)
  show ?thesis
  proof (cases "inside = Some False")
    case True
    with ins show ?thesis by (simp add: channel_clear_def)
  next
    case False
    with assms ins have T: "inside = Some True"
      by (auto simp: channel_violated_def split: option.splits bool.splits)
    with assms ins obtain near where near: "filter_grants_in_neighborhood p existing = Inr near"
      by (auto simp: channel_violated_def rbind_eq_Inr)
    with assms ins T obtain cs moved agg where
      "evaluate_protected_channel (Inr fn) p (filter (not_replaced proposed) near @ [proposed]) = Inr (cs, moved, agg, True)"
      by (auto simp: channel_violated_def split: sum.splits if_splits)
    from accepted_channel [OF this] ins T near show ?thesis by (auto simp: channel_clear_def)
  qed
qed

lemma passed_dpa_test:
  assumes "proposed_grant_violates_dpa (Inr fn) en d c low high eirp = Inr False"
  shows "dpa_cleared fn en d c low high eirp"
proof (cases "grant_frequency_overlaps_protected (list_protected_dpa_channels en d) low high = []")
  case True
  then show ?thesis by (simp add: dpa_cleared_def)
next
  case False
  with assms obtain rf where rf: "proposed_dpa_rf en c low high eirp = Some rf"
    "rany (channel_violated en fn c rf (collect_active_dpa_grants en d None [] []))
       (grant_frequency_overlaps_protected (list_protected_dpa_channels en d) low high) = Inr False"
    by (auto simp: proposed_grant_violates_dpa_def split: option.splits)
  with rany_False [OF rf(2)] channel_not_violated show ?thesis by (auto simp: dpa_cleared_def Let_def)
qed

lemma dpa_test_of_location:
  assumes "location_blocks ext en d c lat lon low high eirp = Inr False"
  shows "ge_dpa ext d c low high eirp = Inr False"
  by (rule rany_False [OF assms [unfolded location_blocks_def]]) simp

text \<open>
  C17. The Grant service adds a grant for a CBSD whose position is known only when the DPA test
  passed for it: for every protected channel its frequencies overlap, the CBSD is outside the
  neighbourhood, or the aggregate at the protection point, of the grants in the neighbourhood
  and of the new one, is within the threshold of the channel. Whatever cannot be
  evaluated (the membership, the protection point, the path loss) adds nothing.
\<close>

theorem granted_means_dpa_cleared:
  assumes "grant_item ext en fin cert (d, pend) req = (Inr resp, (d', pend'))" and "d' \<noteq> d"
    and "ge_dpa ext = proposed_grant_violates_dpa (Inr fn) en"
  shows "\<exists>c (g :: grant_row) eirp. lock_cbsd_row d (dget req ''cbsdId'') = Some c \<and> d' = add_grant d g
    \<and> gr_eirp g = Some eirp
    \<and> (grant_cbsd_location c = Inr None \<or> dpa_cleared fn en d c (gr_low g) (gr_high g) eirp)"
proof (cases rule: grant_item_cases [of ext en fin cert d pend req])
  case (refused r)
  then show ?thesis using assms(1,2) by simp
next
  case (checked c pl)
  show ?thesis
  proof (cases rule: admit_grant_cases [of ext en cert d pend req pl])
    case (refused r)
    then show ?thesis using assms(1,2) checked(5) by simp
  next
    case (admitted c' tx stamp g)
    obtain cap where "plan_grant ext en d c (pl_low pl) (pl_high pl) (pl_eirp pl) = Inr (Inr pl)"
      by (rule check_operation_plan [OF checked(4)])
    then obtain loc where loc: "grant_cbsd_location c = Inr loc"
      "\<And>lat lon. loc = Some (lat, lon) \<Longrightarrow>
         location_blocks ext en d c lat lon (pl_low pl) (pl_high pl) (pl_eirp pl) = Inr False"
      by (auto elim: plan_grantE)
    have "dpa_cleared fn en d c (pl_low pl) (pl_high pl) (pl_eirp pl)" if "loc = Some (lat, lon)" for lat lon
      using dpa_test_of_location [OF loc(2) [OF that]] assms(3) by (simp add: passed_dpa_test)
    then have "loc = None \<or> dpa_cleared fn en d c (pl_low pl) (pl_high pl) (pl_eirp pl)"
      by (cases loc) auto
    moreover have "gr_low g = pl_low pl" "gr_high g = pl_high pl" "gr_eirp g = Some (pl_eirp pl)"
      by (simp_all add: admitted(7) new_grant_def)
    moreover have "d' = add_grant d g" using assms(1) checked(5) admitted(8) by simp
    ultimately show ?thesis using loc(1) checked(1) by auto
  qed
qed
subsection \<open>Examples\<close>

text \<open>Two grants on one channel: the near one arrives 200 dB above the far one.\<close>

definition example_dpa_rf :: "string \<Rightarrow> dpa_rf" where
  "example_dpa_rf name = \<lparr>dg_grant_id = name, dg_cbsd_id = name, dg_lat = 40, dg_lon = - 75, dg_height = 6,
     dg_is_agl = True, dg_indoor = False, dg_low = 3600000000, dg_high = 3610000000, dg_eirp = 20,
     dg_managing = True, dg_category = ''A''\<rparr>"

definition example_loss :: path_loss_fn where
  "example_loss g lat lon h = Inr (if dg_grant_id g = ''near'' then 100 else 300)"

definition example_channel :: protected_channel where
  "example_channel = \<lparr>pc_dpa_id = ''East_1'', pc_low = 3600000000, pc_high = 3610000000, pc_reason = ACTIVE,
     pc_geometry = PDict [(''type'', PStr ''Point''), (''coordinates'', PList [PFloat (- 75), PFloat 40])],
     pc_neighborhood = [], pc_params = [], pc_threshold = - 144, pc_ref_height = 50\<rparr>"

definition example_hit :: "string \<Rightarrow> real \<Rightarrow> point_interference" where
  "example_hit name loss = \<lparr>pi_grant_id = name, pi_dbm = 30 - loss, pi_mw = dbm_to_mw (30 - loss), pi_loss = loss\<rparr>"

lemma dbm_to_mw_le [simp]: "dbm_to_mw x \<le> dbm_to_mw y \<longleftrightarrow> x \<le> y"
  by (simp add: dbm_to_mw_def)

lemma dbm_to_mw_pos [simp]: "0 < dbm_to_mw x" "0 \<le> dbm_to_mw x"
  by (simp_all add: dbm_to_mw_def)

lemma example_list:
  "build_movelist [example_hit ''near'' 100, example_hit ''far'' 300] (- 144) DEFAULT_DPA_MARGIN_DB = [''near'']"
proof -
  have "\<not> within_th [example_hit ''near'' 100, example_hit ''far'' 300] (- 144) DEFAULT_DPA_MARGIN_DB"
  proof
    assume "within_th [example_hit ''near'' 100, example_hit ''far'' 300] (- 144) DEFAULT_DPA_MARGIN_DB"
    then have "dbm_to_mw (- 70) + dbm_to_mw (- 270) \<le> dbm_to_mw (- 144 + DEFAULT_DPA_MARGIN_DB + 1 / 10 ^ 12)"
      unfolding within_iff by (simp add: example_hit_def max_def del: dbm_to_mw_le)
    with dbm_to_mw_pos(2) [of "- 270"]
    have "dbm_to_mw (- 70) \<le> dbm_to_mw (- 144 + DEFAULT_DPA_MARGIN_DB + 1 / 10 ^ 12)" by linarith
    then show False unfolding dbm_to_mw_le by (simp add: DEFAULT_DPA_MARGIN_DB_def)
  qed
  moreover have "within_th [example_hit ''far'' 300] (- 144) DEFAULT_DPA_MARGIN_DB"
    unfolding within_iff by (simp add: example_hit_def max_def DEFAULT_DPA_MARGIN_DB_def)
  moreover have "sort_key (\<lambda>c. - pi_mw c) [example_hit ''near'' 100, example_hit ''far'' 300]
      = [example_hit ''near'' 100, example_hit ''far'' 300]"
    by (simp add: example_hit_def)
  ultimately show ?thesis
    unfolding build_movelist_def by (simp add: example_hit_def)
qed

lemma example_evaluation:
  "evaluate_protected_channel (Inr example_loss) example_channel [example_dpa_rf ''near'', example_dpa_rf ''far'']
    = Inr ([example_hit ''near'' 100, example_hit ''far'' 300], [''near''],
           aggregate_within_threshold [example_hit ''near'' 100, example_hit ''far'' 300] (- 144) DEFAULT_DPA_MARGIN_DB)"
proof -
  have hit: "interference_dbm_at_point example_loss (example_dpa_rf name) lat lon h 3600000000 3610000000
      = Inr (Some (example_hit name (if name = ''near'' then 100 else 300)))" for name lat lon h
    by (simp add: interference_dbm_at_point_def example_loss_def example_dpa_rf_def cochannel_eirp_dbm_def
        example_hit_def)
  have "overlapping_grants example_channel [example_dpa_rf ''near'', example_dpa_rf ''far'']
      = [example_dpa_rf ''near'', example_dpa_rf ''far'']"
    by (simp add: overlapping_grants_def example_channel_def example_dpa_rf_def)
  moreover have "polygon_representative_point (pc_geometry example_channel) = Inr (Some (40, - 75))"
    by (simp add: example_channel_def polygon_representative_point_def point_geometry_def)
  moreover have "pc_low example_channel = 3600000000" "pc_high example_channel = 3610000000"
    "pc_threshold example_channel = - 144"
    by (simp_all add: example_channel_def)
  ultimately show ?thesis
    by (simp add: evaluate_protected_channel_def channel_interference_simps hit example_list Let_def
        split: prod.splits)
qed

theorem movelist_is_shortest_witness:
  "length (drop 1 (sort_key (\<lambda>c. - pi_mw c) [example_hit ''near'' 100, example_hit ''far'' 300]))
     \<ge> length [example_hit ''far'' 300]"
proof -
  have "within_th [example_hit ''far'' 300] (- 144) DEFAULT_DPA_MARGIN_DB"
    unfolding within_iff by (simp add: example_hit_def max_def DEFAULT_DPA_MARGIN_DB_def)
  then show ?thesis
    using movelist_is_shortest [of "[example_hit ''near'' 100, example_hit ''far'' 300]" "- 144"
        DEFAULT_DPA_MARGIN_DB "[example_hit ''far'' 300]"]
    unfolding Let_def example_list by simp
qed

theorem unmoved_grants_protect_channel_witness:
  "\<exists>cs. channel_interference example_loss example_channel (40, - 75) [example_dpa_rf ''far''] = Inr cs
     \<and> snd (aggregate_within_threshold cs (- 144) DEFAULT_DPA_MARGIN_DB)"
proof -
  have "polygon_representative_point (pc_geometry example_channel) = Inr (Some (40, - 75))"
    by (simp add: example_channel_def polygon_representative_point_def point_geometry_def)
  moreover have "unmoved [''near''] (overlapping_grants example_channel [example_dpa_rf ''near'', example_dpa_rf ''far''])
      = [example_dpa_rf ''far'']"
    by (simp add: unmoved_def overlapping_grants_def example_channel_def example_dpa_rf_def)
  moreover have "pc_threshold example_channel = - 144" by (simp add: example_channel_def)
  moreover obtain agg ok where agg:
    "aggregate_within_threshold [example_hit ''near'' 100, example_hit ''far'' 300] (- 144) DEFAULT_DPA_MARGIN_DB
       = (agg, ok)" by fastforce
  ultimately show ?thesis
    using unmoved_grants_protect_channel [OF example_evaluation [unfolded agg] refl] by simp
qed

definition dpa_gated_ext :: grant_ext where
  "dpa_gated_ext = example_grant_ext\<lparr>ge_dpa := proposed_grant_violates_dpa (Inr example_loss) example_env\<rparr>"

theorem granted_means_dpa_cleared_witness:
  "\<exists>g :: grant_row. fst (snd (grant_item dpa_gated_ext example_env False None (example_db, \<lambda>_. [])
      example_grant_request)) = add_grant example_db g"
proof -
  have reg: "cbsd_reg example_cbsd = PDict []" by (simp add: cbsd_reg_def example_cbsd_def)
  have loc: "grant_cbsd_location example_cbsd = Inr None"
    by (simp add: grant_cbsd_location_def reg pget_or_empty_def por_def)
  have "ge_border dpa_gated_ext = ge_border example_grant_ext" by (simp add: dpa_gated_ext_def)
  then have "border_blocks dpa_gated_ext = border_blocks example_grant_ext"
    by (intro ext; simp only: border_blocks_def)+
  with loc have "plan_grant dpa_gated_ext example_env d example_cbsd = plan_grant example_grant_ext example_env d example_cbsd" for d
    by (intro ext) (simp add: plan_grant_def cong: sum.case_cong)
  then have check: "check_operation dpa_gated_ext example_env example_db example_cbsd example_grant_request
      = Inr (Inr example_plan)"
    using example_check by (simp only: check_operation_def)
  show ?thesis
  proof (rule example_item [OF check])
    show "ge_iap dpa_gated_ext example_db example_cbsd 3570000000 3580000000 10 = Inr False"
      by (simp add: dpa_gated_ext_def example_grant_ext_def)
  next
    fix resp det g pend
    assume item: "grant_item dpa_gated_ext example_env False None (example_db, \<lambda>_. []) example_grant_request
       = (Inr resp, (add_grant example_db g, pend))"
    have "db_grants (add_grant example_db g) \<noteq> db_grants example_db"
      by (simp add: add_grant_def)
    then have "add_grant example_db g \<noteq> example_db" by metis
    with granted_means_dpa_cleared [OF item, of example_loss] show ?thesis
      by (auto simp: dpa_gated_ext_def item [unfolded dpa_gated_ext_def])
  qed
qed

end
