(* ===== verification/DpaActivation.thy ===== *)
theory DpaActivation
  imports DpaService DpaSafety
begin

text \<open>
  What the activation of a dynamic protection area promises: after a successful request the channel
  is among those to protect, its row carries a move list, and the grants that are not on the list
  leave the channel within its threshold, also when the interference could not be computed.
\<close>

subsection \<open>Rows\<close>

definition is_activation :: "pydict \<Rightarrow> string \<Rightarrow> int \<Rightarrow> int \<Rightarrow> string list \<Rightarrow> bool" where
  "is_activation data dpa_id low high moved =
     (dget data ''dpaId'' = PStr dpa_id \<and> dget data ''frequencyRange'' = range_dict low high
      \<and> dget data ''movelist'' = PList (map PStr moved))"

lemma read_range_dict [simp]: "read_range (range_dict low high) = Some (low, high)"
  "por (range_dict low high) v = range_dict low high"
  by (simp_all add: range_dict_def read_range_def por_def)

lemma payload_is_activation: "is_activation (activation_payload en dpa_id low high moved src) dpa_id low high moved"
  by (simp add: is_activation_def activation_payload_def)

lemma payload_row [simp]:
  "row_activation (FLAG_DPA_ACTIVE, json_dumps (PDict (activation_payload en dpa_id low high moved src)))
    = Some (activation_payload en dpa_id low high moved src)"
  by (simp add: row_activation_def activation_of_def activation_payload_def)

lemma activation_matches_itself:
  assumes "is_activation data dpa_id low high moved"
  shows "activation_matches dpa_id' low' high' data = Inr (dpa_id' = dpa_id \<and> low' = low \<and> high' = high)"
proof -
  have "int_or_minus_one (range_dict low high) ''lowFrequency'' = Inr low"
    "int_or_minus_one (range_dict low high) ''highFrequency'' = Inr high"
    by (simp_all add: int_or_minus_one_def range_dict_def)
  with assms show ?thesis by (auto simp: activation_matches_def is_activation_def Let_def)
qed

lemma active_rows:
  "data \<in> set (list_active_activations d) \<longleftrightarrow> (\<exists>row\<in>set (db_injected d). row_activation row = Some data)"
  by (force simp: list_active_activations_def rows_of_kind_def row_activation_def List.map_filter_def)

lemma replace_present:
  "replace_activation en dpa_id low high moved src rows = Inr (Some rows') \<Longrightarrow>
     \<exists>row\<in>set rows'. \<exists>data. row_activation row = Some data \<and> is_activation data dpa_id low high moved"
proof (induction rows arbitrary: rows')
  case (Cons row rows)
  then show ?case
    using payload_is_activation by (auto simp: rbind_eq_Inr Let_def split: if_splits)
qed simp

lemma replace_keeps:
  "replace_activation en dpa_id low high moved src rows = Inr (Some rows') \<Longrightarrow> row \<in> set rows
    \<Longrightarrow> row_activation row = Some data \<Longrightarrow> activation_matches dpa_id low high data \<noteq> Inr True \<Longrightarrow> row \<in> set rows'"
  by (induction rows arbitrary: rows') (auto simp: rbind_eq_Inr Let_def split: if_splits)

lemma replace_other_kinds:
  "replace_activation en dpa_id low high moved src rows = Inr (Some rows') \<Longrightarrow> kind \<noteq> FLAG_DPA_ACTIVE \<Longrightarrow>
     filter (\<lambda>(k, j). k = kind) rows' = filter (\<lambda>(k, j). k = kind) rows"
proof (induction rows arbitrary: rows')
  case (Cons row rows)
  have "fst row = FLAG_DPA_ACTIVE" if "row_activation row = Some data" for data
    using that by (auto simp: row_activation_def split: if_splits)
  with Cons show ?case
    by (cases row) (auto simp: rbind_eq_Inr Let_def split: if_splits option.splits)
qed simp

lemma upsert_cases:
  assumes "upsert_activation en d dpa_id low high moved src = Inr d'"
  obtains (replaced) rows where "replace_activation en dpa_id low high moved src (db_injected d) = Inr (Some rows)"
      "d' = d\<lparr>db_injected := rows\<rparr>"
  | (added) v where "d' = add_injected d FLAG_DPA_ACTIVE (PDict (activation_payload en dpa_id low high moved v))"
  using assms by (auto simp: upsert_activation_def rbind_eq_Inr split: option.splits)

lemma upsert_present:
  assumes "upsert_activation en d dpa_id low high moved src = Inr d'"
  shows "\<exists>data\<in>set (list_active_activations d'). is_activation data dpa_id low high moved"
  using assms
proof (cases rule: upsert_cases)
  case (replaced rows)
  with replace_present [OF replaced(1)] show ?thesis unfolding Bex_def active_rows by auto
next
  case (added v)
  then have "(FLAG_DPA_ACTIVE, json_dumps (PDict (activation_payload en dpa_id low high moved v))) \<in> set (db_injected d')"
    by (simp add: add_injected_def)
  then show ?thesis using payload_is_activation payload_row unfolding Bex_def active_rows by blast
qed

lemma upsert_keeps:
  assumes "upsert_activation en d dpa_id low high moved src = Inr d'" "data \<in> set (list_active_activations d)"
    "is_activation data dpa_id' low' high' moved'" "(dpa_id', low', high') \<noteq> (dpa_id, low, high)"
  shows "data \<in> set (list_active_activations d')"
proof -
  from assms(2) obtain row where row: "row \<in> set (db_injected d)" "row_activation row = Some data"
    unfolding active_rows by blast
  from assms(4) activation_matches_itself [OF assms(3)] have "activation_matches dpa_id low high data \<noteq> Inr True"
    by auto
  note miss = this
  have "row \<in> set (db_injected d')"
    using assms(1) by (cases rule: upsert_cases) (use row miss in \<open>auto simp: add_injected_def elim: replace_keeps\<close>)
  with row(2) show ?thesis unfolding active_rows by blast
qed

lemma upsert_frame:
  assumes "upsert_activation en d dpa_id low high moved src = Inr d'"
  shows "db_grants d' = db_grants d" "db_cbsds d' = db_cbsds d"
    "kind \<noteq> FLAG_DPA_ACTIVE \<Longrightarrow> rows_of_kind d' kind = rows_of_kind d kind"
proof -
  show "db_grants d' = db_grants d" "db_cbsds d' = db_cbsds d"
    using assms by (cases rule: upsert_cases; simp)+
  show "rows_of_kind d' kind = rows_of_kind d kind" if "kind \<noteq> FLAG_DPA_ACTIVE"
    using assms
  proof (cases rule: upsert_cases)
    case (replaced rows)
    then show ?thesis using replace_other_kinds [OF replaced(1) that] by (simp add: rows_of_kind_def)
  next
    case (added v)
    then show ?thesis using that by simp
  qed
qed

definition same_site :: "db \<Rightarrow> db \<Rightarrow> bool" where
  "same_site d d' = (db_grants d' = db_grants d \<and> db_cbsds d' = db_cbsds d
     \<and> rows_of_kind d' KIND_CATALOGUE = rows_of_kind d KIND_CATALOGUE)"

lemma same_site_refl: "same_site d d"
  by (simp add: same_site_def)

lemma same_site_trans: "same_site d d1 \<Longrightarrow> same_site d1 d2 \<Longrightarrow> same_site d d2"
  by (simp add: same_site_def)

lemma upsert_same_site: "upsert_activation en d dpa_id low high moved src = Inr d' \<Longrightarrow> same_site d d'"
  using upsert_frame by (simp add: same_site_def)

lemma upsert_all_same_site: "upsert_all en d pending = (r, d') \<Longrightarrow> same_site d d'"
proof (induction en d pending rule: upsert_all.induct)
  case (2 en d dpa_id low high moved pending)
  then show ?case
    by (auto split: sum.splits intro: same_site_refl dest: upsert_same_site elim: same_site_trans)
qed (simp add: same_site_refl)

text \<open>A channel all of whose pending lists agree has that list on a row afterwards.\<close>

lemma upsert_all_present:
  "upsert_all en d pending = (None, d') \<Longrightarrow>
   (dpa_id, low, high, moved) \<in> set pending
     \<or> (\<exists>data\<in>set (list_active_activations d). is_activation data dpa_id low high moved) \<Longrightarrow>
   (\<And>m. (dpa_id, low, high, m) \<in> set pending \<Longrightarrow> m = moved) \<Longrightarrow>
   \<exists>data\<in>set (list_active_activations d'). is_activation data dpa_id low high moved"
proof (induction en d pending rule: upsert_all.induct)
  case (1 en d)
  then show ?case by simp
next
  case (2 en d dpa_id' low' high' moved' pending)
  from "2.prems"(1) obtain d1 where d1: "upsert_activation en d dpa_id' low' high' moved' None = Inr d1"
    "upsert_all en d1 pending = (None, d')"
    by (auto split: sum.splits)
  show ?case
  proof (rule "2.IH" [OF d1])
    show "m = moved" if "(dpa_id, low, high, m) \<in> set pending" for m
      using "2.prems"(3) [of m] that by simp
    show "(dpa_id, low, high, moved) \<in> set pending
      \<or> (\<exists>data\<in>set (list_active_activations d1). is_activation data dpa_id low high moved)"
    proof (cases "(dpa_id, low, high) = (dpa_id', low', high')")
      case True
      then show ?thesis using "2.prems"(3) [of moved'] upsert_present [OF d1(1)] by auto
    next
      case False
      then show ?thesis using "2.prems"(2) upsert_keeps [OF d1(1)] by auto
    qed
  qed
qed

subsection \<open>Protected channels\<close>

text \<open>The channel an activation of a catalogue item stands for.\<close>

definition channel_of :: "env \<Rightarrow> pydict \<Rightarrow> int \<Rightarrow> int \<Rightarrow> protection_reason \<Rightarrow> protected_channel" where
  "channel_of en item low high reason =
     (let params = or_empty_dict (dget item ''protectionParams'') in
      \<lparr>pc_dpa_id = dpa_id_of en item, pc_low = low, pc_high = high, pc_reason = reason,
       pc_geometry = (if is_dict (dget item ''geometry'') then dget item ''geometry'' else PNone),
       pc_neighborhood = clean_floats (por (dget item ''neighborhoodKm'') (PDict [])),
       pc_params = params, pc_threshold = float_or params ''protectionCritDbmPer10MHz'' (- 144),
       pc_ref_height = float_or params ''refHeightMeters'' 50\<rparr>)"

lemma channel_of_key [simp]:
  "pc_dpa_id (channel_of en item low high reason) = dpa_id_of en item"
  "pc_low (channel_of en item low high reason) = low" "pc_high (channel_of en item low high reason) = high"
  "pc_reason (channel_of en item low high reason) = reason"
  by (simp_all add: channel_of_def Let_def)

lemma protect_add_channel:
  "protect_add en item low high reason out =
     (if dpa_id_of en item = [] \<or> (\<exists>p\<in>set out. pc_dpa_id p = dpa_id_of en item \<and> pc_low p = low \<and> pc_high p = high)
      then out else out @ [channel_of en item low high reason])"
  by (auto simp: protect_add_def channel_of_def Let_def)

definition keyed :: "string \<Rightarrow> int \<Rightarrow> int \<Rightarrow> protected_channel \<Rightarrow> bool" where
  "keyed dpa_id low high p = (pc_dpa_id p = dpa_id \<and> pc_low p = low \<and> pc_high p = high)"

lemma py_strip_idem [simp]: "py_strip (py_strip s) = py_strip s"
proof -
  have drop: "dropWhile is_space (dropWhile is_space xs) = dropWhile is_space xs" for xs
    by (simp add: dropWhile_idem)
  have "dropWhile is_space (rev (dropWhile is_space (rev xs))) = rev (dropWhile is_space (rev xs))"
    if "dropWhile is_space xs = xs" for xs
  proof (cases xs)
    case (Cons x ys)
    with that have x: "\<not> is_space x" by (metis dropWhile_eq_self_iff list.distinct(1) list.sel(1))
    have "rev (dropWhile is_space (rev ys @ [x])) = x # rev (dropWhile is_space (rev ys))"
      using x by (simp add: dropWhile_append)
    with Cons x show ?thesis by simp
  qed simp
  from this [OF drop] show ?thesis by (simp add: py_strip_def drop)
qed

text \<open>An item found by a stripped identifier has that identifier.\<close>

lemma found_item_id:
  assumes "catalogue_by_id d (py_strip s) = Some item"
  shows "dpa_id_of en item = py_strip s"
  using find_SomeD [OF assms [unfolded catalogue_by_id_def]]
  by (cases "py_strip s = []") (auto simp: dpa_id_of_def por_def, simp add: py_strip_def)

lemma found_item: "catalogue_by_id d (dpa_id_of en act) = Some item \<Longrightarrow> dpa_id_of en item = dpa_id_of en act"
  using found_item_id [of d "py_str en (por (dget act ''dpaId'') (PStr []))" item en] by (simp add: dpa_id_of_def)

definition from_catalogue :: "env \<Rightarrow> db \<Rightarrow> protected_channel \<Rightarrow> bool" where
  "from_catalogue en d p = (pc_reason p = ACTIVE \<longrightarrow>
     (\<exists>item. catalogue_by_id d (pc_dpa_id p) = Some item \<and> p = channel_of en item (pc_low p) (pc_high p) ACTIVE))"

lemma activation_from_catalogue:
  "\<forall>p\<in>set out. from_catalogue en d p \<Longrightarrow> \<forall>p\<in>set (protect_activation en d out act). from_catalogue en d p"
  by (auto simp: protect_activation_def protect_add_channel from_catalogue_def found_item split: option.splits)

lemma catalogue_channel_inactive:
  "p \<in> set (protect_catalogue_channel en d item out ch) \<Longrightarrow> p \<in> set out \<or> pc_reason p \<noteq> ACTIVE"
  by (auto simp: protect_catalogue_channel_def protect_add_channel split: option.splits if_splits)

lemma foldl_mem_or:
  assumes "\<And>out x. p \<in> set (f out x) \<Longrightarrow> p \<in> set out \<or> Q"
  shows "p \<in> set (foldl f out xs) \<Longrightarrow> p \<in> set out \<or> Q"
proof (induction xs arbitrary: out)
  case (Cons x xs)
  from Cons.prems have "p \<in> set (foldl f (f out x) xs)" by simp
  from Cons.IH [OF this] assms [of out x] show ?case by blast
qed simp

lemma catalogue_item_inactive:
  "p \<in> set (protect_catalogue_item en d out item) \<Longrightarrow> p \<in> set out \<or> pc_reason p \<noteq> ACTIVE"
  using foldl_mem_or [of p "protect_catalogue_channel en d item" "pc_reason p \<noteq> ACTIVE" out,
      OF catalogue_channel_inactive]
  by (auto simp: protect_catalogue_item_def split: pyval.splits)

lemma active_channels_from_catalogue:
  assumes "p \<in> set (list_protected_dpa_channels en d)"
  shows "from_catalogue en d p"
proof (cases "pc_reason p = ACTIVE")
  case True
  let ?out = "foldl (protect_activation en d) [] (list_active_activations d)"
  from assms True have "p \<in> set ?out"
    using foldl_mem_or [of p "protect_catalogue_item en d" "pc_reason p \<noteq> ACTIVE" ?out "catalogue_dicts d",
        OF catalogue_item_inactive]
    by (auto simp: list_protected_dpa_channels_def)
  moreover have "\<forall>p\<in>set (foldl (protect_activation en d) out acts). from_catalogue en d p"
    if "\<forall>p\<in>set out. from_catalogue en d p" for out acts
    using that by (induction acts arbitrary: out) (auto dest: activation_from_catalogue)
  from this [of "[]"] have "\<forall>p\<in>set ?out. from_catalogue en d p" by simp
  ultimately show ?thesis by blast
qed (simp add: from_catalogue_def)

text \<open>An activation of a catalogue item is a protected channel.\<close>

lemma protect_add_keeps: "set out \<subseteq> set (protect_add en item low high reason out)"
  by (auto simp: protect_add_channel)

lemma foldl_keeps:
  assumes "\<And>out x. set out \<subseteq> set (f out x)"
  shows "set out \<subseteq> set (foldl f out xs)"
  using assms by (induction xs arbitrary: out) (simp, metis foldl_Cons subset_trans)

lemma protect_keeps:
  "set out \<subseteq> set (protect_activation en d out act)" "set out \<subseteq> set (protect_catalogue_channel en d item out ch)"
  "set out \<subseteq> set (protect_catalogue_item en d out item)"
proof -
  show "set out \<subseteq> set (protect_activation en d out act)" for out
    using protect_add_keeps by (auto simp: protect_activation_def split: option.splits)
  have ch: "set out \<subseteq> set (protect_catalogue_channel en d item out ch)" for out ch
    using protect_add_keeps by (auto simp: protect_catalogue_channel_def split: option.splits)
  then show "set out \<subseteq> set (protect_catalogue_channel en d item out ch)" .
  show "set out \<subseteq> set (protect_catalogue_item en d out item)"
    using foldl_keeps [of "protect_catalogue_channel en d item", OF ch]
    by (auto simp: protect_catalogue_item_def split: pyval.splits)
qed

lemma activation_adds:
  assumes "is_activation data (py_strip s) low high moved" "py_strip s \<noteq> []"
    "catalogue_by_id d (py_strip s) = Some item" "\<forall>p\<in>set out. pc_reason p = ACTIVE"
  shows "\<exists>p\<in>set (protect_activation en d out data). keyed (py_strip s) low high p \<and> pc_reason p = ACTIVE"
proof -
  have id: "dpa_id_of en data = py_strip s"
    using assms(1,2) by (simp add: is_activation_def dpa_id_of_def por_def)
  have "read_range (por (dget data ''frequencyRange'') (PDict [])) = Some (low, high)"
    using assms(1) by (simp add: is_activation_def)
  then show ?thesis
    using assms(2-4) found_item_id [OF assms(3)]
    by (auto simp: protect_activation_def id protect_add_channel keyed_def)
qed

lemma activations_active:
  "\<forall>p\<in>set out. pc_reason p = ACTIVE \<Longrightarrow> \<forall>p\<in>set (protect_activation en d out act). pc_reason p = ACTIVE"
  by (auto simp: protect_activation_def protect_add_channel split: option.splits)

lemma activation_protected:
  assumes "data \<in> set (list_active_activations d)" "is_activation data (py_strip s) low high moved"
    "py_strip s \<noteq> []" "catalogue_by_id d (py_strip s) = Some item"
  shows "\<exists>p\<in>set (list_protected_dpa_channels en d). keyed (py_strip s) low high p \<and> pc_reason p = ACTIVE"
proof -
  have "\<exists>p\<in>set (foldl (protect_activation en d) out acts). keyed (py_strip s) low high p \<and> pc_reason p = ACTIVE"
    if "data \<in> set acts" "\<forall>p\<in>set out. pc_reason p = ACTIVE" for out acts
    using that
  proof (induction acts arbitrary: out)
    case (Cons act acts)
    show ?case
    proof (cases "data = act")
      case True
      with activation_adds [OF assms(2-4) Cons.prems(2)] obtain p where
        "p \<in> set (protect_activation en d out act)" "keyed (py_strip s) low high p \<and> pc_reason p = ACTIVE" by blast
      then show ?thesis
        using foldl_keeps [of "protect_activation en d", OF protect_keeps(1), of "protect_activation en d out act" acts]
        by auto
    next
      case False
      with Cons activations_active [OF Cons.prems(2)] show ?thesis by simp
    qed
  qed simp
  from this [OF assms(1), of "[]"] foldl_keeps [of "protect_catalogue_item en d", OF protect_keeps(3)]
  show ?thesis by (auto simp: list_protected_dpa_channels_def)
qed
subsection \<open>Move lists\<close>

text \<open>
  How a channel is served by a move list: the grants in its neighbourhood that are not on the list
  keep the aggregate at its point within the threshold, or none of the overlapping grants is left.
\<close>

definition channel_served :: "env \<Rightarrow> path_loss_fn \<Rightarrow> db \<Rightarrow> protected_channel \<Rightarrow> string list \<Rightarrow> bool" where
  "channel_served en fn d p moved =
     (let grants = collect_active_dpa_grants en d None [] [] in
      unmoved moved (overlapping_grants p grants) = []
      \<or> (\<exists>near. filter_grants_in_neighborhood p grants = Inr near
          \<and> (unmoved moved (overlapping_grants p near) = []
             \<or> (\<exists>pt cs. polygon_representative_point (pc_geometry p) = Inr (Some pt)
                  \<and> channel_interference fn p pt (unmoved moved (overlapping_grants p near)) = Inr cs
                  \<and> snd (aggregate_within_threshold cs (pc_threshold p) DEFAULT_DPA_MARGIN_DB)))))"

lemma evaluated_unmoved:
  assumes "evaluate_protected_channel (Inr fn) p near = Inr (contribs, moved, agg, ok)"
  shows "unmoved moved (overlapping_grants p near) = []
    \<or> (\<exists>pt cs. polygon_representative_point (pc_geometry p) = Inr (Some pt)
         \<and> channel_interference fn p pt (unmoved moved (overlapping_grants p near)) = Inr cs
         \<and> snd (aggregate_within_threshold cs (pc_threshold p) DEFAULT_DPA_MARGIN_DB))"
  using assms
proof (cases rule: evaluation_cases)
  case (computed pt)
  then show ?thesis
    using channel_interference_unmoved [OF computed(2), of moved]
      unmoved_within [of contribs "pc_threshold p" DEFAULT_DPA_MARGIN_DB] by auto
qed simp

lemma filter_grants_subset: "filter_grants_in_neighborhood p grants = Inr near \<Longrightarrow> set near \<subseteq> set grants"
  by (induction grants arbitrary: near) (fastforce simp: rbind_eq_Inr split: if_splits)+

lemma collected_managing:
  "g \<in> set (collect_active_dpa_grants en d pks eirps exclude) \<Longrightarrow> dg_managing g"
  by (auto simp: collect_active_dpa_grants_def dpa_grant_rf_from_cbsd_grant_def replace_eirp_def Let_def
      bind_eq_Some_conv dest!: map_filter_mem split: if_splits option.splits sum.splits)

lemma unmoved_managing:
  assumes "\<forall>g\<in>set near. dg_managing g"
  shows "unmoved (filter (\<lambda>gid. gid \<in> dg_grant_id ` set (filter dg_managing near)) moved) (overlapping_grants p near)
    = unmoved moved (overlapping_grants p near)"
  using assms by (auto simp: unmoved_def overlapping_grants_def intro!: filter_cong)

lemma activation_movelist_serves:
  assumes "activation_movelist en (Inr fn) protected (collect_active_dpa_grants en d None [] []) act
      = Inr (Some (dpa_id, low, high, moved))"
  shows "\<exists>p. List.find (\<lambda>p. pc_dpa_id p = dpa_id \<and> pc_low p = low \<and> pc_high p = high) protected = Some p
    \<and> channel_served en fn d p moved"
proof -
  let ?grants = "collect_active_dpa_grants en d None [] []"
  from assms obtain p near contribs m agg ok where p: "dpa_id = dpa_id_of en act"
    "List.find (\<lambda>p. pc_dpa_id p = dpa_id \<and> pc_low p = low \<and> pc_high p = high) protected = Some p"
    and near: "filter_grants_in_neighborhood p ?grants = Inr near"
    and ev: "evaluate_protected_channel (Inr fn) p near = Inr (contribs, m, agg, ok)"
    and moved: "moved = filter (\<lambda>gid. gid \<in> dg_grant_id ` set (filter dg_managing near)) m"
    by (auto simp: activation_movelist_def rbind_eq_Inr split: option.splits)
  have "\<forall>g\<in>set near. dg_managing g"
    using filter_grants_subset [OF near] collected_managing by blast
  from unmoved_managing [OF this] evaluated_unmoved [OF ev] near p show ?thesis
    unfolding moved channel_served_def Let_def by auto
qed

lemma same_site_collect:
  assumes "same_site d d'"
  shows "collect_active_dpa_grants en d' pks eirps exclude = collect_active_dpa_grants en d pks eirps exclude"
proof -
  have "lock_cbsd_row d' = lock_cbsd_row d"
    using assms by (intro ext) (simp add: same_site_def lock_cbsd_row_def)
  then show ?thesis
    using assms unfolding collect_active_dpa_grants_def by (simp add: same_site_def cong: if_cong)
qed

lemma same_site_served: "same_site d d' \<Longrightarrow> channel_served en fn d' p moved = channel_served en fn d p moved"
  by (simp add: channel_served_def same_site_collect)

lemma same_site_catalogue:
  assumes "same_site d d'"
  shows "catalogue_by_id d' s = catalogue_by_id d s"
  using assms by (simp add: same_site_def catalogue_by_id_def catalogue_dicts_def list_catalogue_def)

text \<open>The pending lists of a refresh that went through: the same list for the same channel.\<close>

definition pending_movelists ::
    "env \<Rightarrow> path_loss_fn res \<Rightarrow> db \<Rightarrow> dpa_rf list \<Rightarrow> (string \<times> int \<times> int \<times> string list) option list res" where
  "pending_movelists en path_loss d grants =
     rmap (activation_movelist en path_loss
        (filter (\<lambda>p. pc_reason p = ACTIVE) (list_protected_dpa_channels en d)) grants) (list_active_activations d)"

lemma movelist_of_channel:
  assumes "activation_movelist en pl protected grants a = Inr (Some (dpa_id, low, high, m1))"
    "activation_movelist en pl protected grants b = Inr (Some (dpa_id, low, high, m2))"
  shows "m1 = m2"
  using assms by (auto simp: activation_movelist_def rbind_eq_Inr split: option.splits)

lemma rmap_mem: "rmap f xs = Inr ys \<Longrightarrow> x \<in> set xs \<Longrightarrow> \<exists>y. f x = Inr y \<and> y \<in> set ys"
  by (induction xs arbitrary: ys) (auto simp: rbind_eq_Inr)

lemma find_found: "List.find P xs = Some x \<Longrightarrow> x \<in> set xs \<and> P x"
  by (induction xs) (auto split: if_splits)

lemma refresh_serves:
  assumes refresh: "refresh_activation_movelists en (Inr fn) d (collect_active_dpa_grants en d None [] []) = (Inr n, d')"
    and data: "data \<in> set (list_active_activations d)" "is_activation data (py_strip s) low high m0"
    and item: "py_strip s \<noteq> []" "catalogue_by_id d (py_strip s) = Some item"
  shows "\<exists>new p moved. new \<in> set (list_active_activations d') \<and> is_activation new (py_strip s) low high moved
    \<and> p = channel_of en item low high ACTIVE \<and> channel_served en fn d p moved \<and> same_site d d'"
proof -
  let ?grants = "collect_active_dpa_grants en d None [] []"
  let ?protected = "filter (\<lambda>p. pc_reason p = ACTIVE) (list_protected_dpa_channels en d)"
  let ?key = "\<lambda>p. pc_dpa_id p = py_strip s \<and> pc_low p = low \<and> pc_high p = high"
  from refresh obtain found where found: "rmap (activation_movelist en (Inr fn) ?protected ?grants)
      (list_active_activations d) = Inr found" and stored: "upsert_all en d (present found) = (None, d')"
    by (auto simp: refresh_activation_movelists_def Let_def split: sum.splits prod.splits option.splits)
  have each: "\<exists>act\<in>set (list_active_activations d). activation_movelist en (Inr fn) ?protected ?grants act = Inr (Some x)"
    if "x \<in> set (present found)" for x
    using that found unfolding rmap_eq_Inr by fastforce
  from activation_protected [OF data item] obtain p0 where "p0 \<in> set ?protected" "?key p0"
    by (auto simp: keyed_def)
  then obtain p where p: "List.find ?key ?protected = Some p"
    by (cases "List.find ?key ?protected") (auto simp: find_None_iff)
  from find_found [OF p] have "p \<in> set ?protected" "?key p" by blast+
  then have canon: "p = channel_of en item low high ACTIVE"
    using active_channels_from_catalogue [of p en d] item by (auto simp: from_catalogue_def)
  from rmap_mem [OF found data(1)]
  obtain y where y: "activation_movelist en (Inr fn) ?protected ?grants data = Inr y" "y \<in> set found" by blast
  have id: "dpa_id_of en data = py_strip s" "read_range (por (dget data ''frequencyRange'') (PDict [])) = Some (low, high)"
    using data(2) item(1) by (simp_all add: is_activation_def dpa_id_of_def por_def range_dict_def read_range_def)
  from y(1) p obtain moved where moved: "y = Some (py_strip s, low, high, moved)"
    by (auto simp: activation_movelist_def id rbind_eq_Inr)
  from activation_movelist_serves [OF y(1) [unfolded moved]] p have served: "channel_served en fn d p moved" by auto
  have "\<exists>new\<in>set (list_active_activations d'). is_activation new (py_strip s) low high moved"
  proof (rule upsert_all_present [OF stored])
    show "(py_strip s, low, high, moved) \<in> set (present found)
      \<or> (\<exists>data\<in>set (list_active_activations d). is_activation data (py_strip s) low high moved)"
      using y(2) moved by simp
    show "m = moved" if "(py_strip s, low, high, m) \<in> set (present found)" for m
      using each [OF that] y(1) moved by (auto intro: movelist_of_channel)
  qed
  with canon served upsert_all_same_site [OF stored] show ?thesis by blast
qed

lemma conservative_serves:
  assumes "pc_low p = low" "pc_high p = high"
  shows "channel_served en fn d p (conservative_movelist (collect_active_dpa_grants en d None [] []) low high)"
  using assms by (auto simp: channel_served_def Let_def unmoved_def overlapping_grants_def conservative_movelist_def
      filter_empty_conv)

lemma refresh_same_site: "refresh_activation_movelists en pl d grants = (r, d') \<Longrightarrow> same_site d d'"
  by (auto simp: refresh_activation_movelists_def Let_def same_site_refl
      split: sum.splits prod.splits option.splits dest: upsert_all_same_site)

lemma fail_closed_serves:
  assumes refresh: "refresh_or_fail_closed_movelists en (Inr fn) d [(py_strip s, low, high)] = (Inr u, d')"
    and data: "data \<in> set (list_active_activations d)" "is_activation data (py_strip s) low high m0"
    and item: "py_strip s \<noteq> []" "catalogue_by_id d (py_strip s) = Some item"
  shows "\<exists>new moved. new \<in> set (list_active_activations d') \<and> is_activation new (py_strip s) low high moved
    \<and> channel_served en fn d (channel_of en item low high ACTIVE) moved \<and> same_site d d'"
proof -
  obtain r d1 where r: "refresh_activation_movelists en (Inr fn) d (collect_active_dpa_grants en d None [] []) = (r, d1)"
    by fastforce
  show ?thesis
  proof (cases r)
    case (Inr n)
    with refresh r have "d' = d1"
      by (simp add: refresh_or_fail_closed_movelists_def movelist_grants_def)
    with refresh_serves [OF r [unfolded Inr] data item] show ?thesis by blast
  next
    case (Inl e)
    let ?moved = "conservative_movelist (collect_active_dpa_grants en d1 None [] []) low high"
    from Inl r refresh have stored: "upsert_all en d1 [(py_strip s, low, high, ?moved)] = (None, d')"
      by (simp add: refresh_or_fail_closed_movelists_def movelist_grants_def Let_def
          split: if_splits prod.splits option.splits)
    have "\<exists>new\<in>set (list_active_activations d'). is_activation new (py_strip s) low high ?moved"
      by (rule upsert_all_present [OF stored]) auto
    moreover have "channel_served en fn d (channel_of en item low high ACTIVE) ?moved"
      using conservative_serves [of "channel_of en item low high ACTIVE" low high en fn d]
      by (simp add: same_site_collect [OF refresh_same_site [OF r]])
    moreover have "same_site d d'"
      using refresh_same_site [OF r] upsert_all_same_site [OF stored] by (rule same_site_trans)
    ultimately show ?thesis by blast
  qed
qed

lemma found_in_catalogue:
  assumes "get_catalogue_definition d s = Some item"
  shows "\<exists>r. catalogue_by_id d s = Some r"
proof -
  obtain r where "PDict r \<in> set (list_catalogue d)" "dget r ''dpaId'' = PStr s"
    using find_found [OF assms [unfolded get_catalogue_definition_def]] by (cases item) auto
  then have "\<exists>r\<in>set (catalogue_dicts d). dget r ''dpaId'' = PStr s"
    by (force simp: catalogue_dicts_def List.map_filter_def)
  then show ?thesis
    by (cases "catalogue_by_id d s") (auto simp: catalogue_by_id_def find_None_iff)
qed

subsection \<open>Activation\<close>

text \<open>
  C8. A successful activation of a dynamic protection area takes effect at once: the channel is
  one of those that must be protected, its row holds a move list, and the managed grants that are
  not on that list leave it served: those in its neighbourhood keep the aggregate at its point
  within the threshold, or, when the interference could not be evaluated, no grant on its
  frequencies is left. (The list is what the heartbeat suspends.)
\<close>

theorem activation_protects_channel:
  assumes "activate_dpa en (Inr fn) d body = (Inr resp, d')" and "dget resp ''ok'' = PBool True"
  shows "\<exists>dpa_id low high data moved p. request_channel body = Some (dpa_id, low, high)
    \<and> data \<in> set (list_active_activations d') \<and> is_activation data dpa_id low high moved
    \<and> p \<in> set (list_protected_dpa_channels en d') \<and> keyed dpa_id low high p
    \<and> channel_served en fn d' p moved"
proof -
  from assms(2) have ok: "resp \<noteq> refused_request reason more" for reason more
    by (auto simp: refused_request_def)
  from assms(1) ok obtain dpa_id low high item0 d1 u d2 where
    req: "request_channel body = Some (dpa_id, low, high)"
    and item0: "get_catalogue_definition d dpa_id = Some item0"
    and up: "upsert_activation en d dpa_id low high [] None = Inr d1"
    and fresh: "refresh_or_fail_closed_movelists en (Inr fn) d1 [(dpa_id, low, high)] = (Inr u, d2)"
    and d': "d' = append_audit en d2 ''activate''
      [(''dpaId'', PStr dpa_id), (''frequencyRange'', range_dict low high)]"
    by (auto simp: activate_dpa_def Let_def split: option.splits if_splits sum.splits prod.splits)
  from req obtain s where s: "dpa_id = py_strip s" "py_strip s \<noteq> []"
    by (auto simp: request_channel_def split: pyval.splits option.splits if_splits)
  from found_in_catalogue [OF item0] obtain item where item: "catalogue_by_id d dpa_id = Some item" by blast
  have site1: "same_site d d1" using up by (rule upsert_same_site)
  from upsert_present [OF up] obtain data0 where
    data0: "data0 \<in> set (list_active_activations d1)" "is_activation data0 dpa_id low high []" by blast
  have item1: "catalogue_by_id d1 (py_strip s) = Some item"
    using item same_site_catalogue [OF site1] s(1) by simp
  from fail_closed_serves [OF fresh [unfolded s(1)] data0(1) data0(2) [unfolded s(1)] s(2) item1]
  obtain new moved where new: "new \<in> set (list_active_activations d2)" "is_activation new (py_strip s) low high moved"
    and served: "channel_served en fn d1 (channel_of en item low high ACTIVE) moved" and site2: "same_site d1 d2"
    by blast
  have site3: "same_site d2 d'"
    by (simp add: d' append_audit_def same_site_def)
  have act': "list_active_activations d' = list_active_activations d2"
    by (simp add: d' append_audit_def list_active_activations_def)
  have site: "same_site d1 d'" using site2 site3 by (rule same_site_trans)
  have item': "catalogue_by_id d' (py_strip s) = Some item"
    using item1 same_site_catalogue [OF site] by simp
  from activation_protected [of new d' s low high moved item en] new act' s(2) item' obtain p where
    p: "p \<in> set (list_protected_dpa_channels en d')" "keyed (py_strip s) low high p" "pc_reason p = ACTIVE" by auto
  then have "p = channel_of en item low high ACTIVE"
    using active_channels_from_catalogue [OF p(1)] item' by (auto simp: from_catalogue_def keyed_def)
  with served same_site_served [OF site] have "channel_served en fn d' p moved" by simp
  with p new act' req s(1) show ?thesis by auto
qed
subsection \<open>Example\<close>

definition example_item :: pydict where
  "example_item = [(''dpaId'', PStr ''East_1''), (''channels'', PList [range_dict 3600000000 3610000000]),
     (''geometry'', PDict [(''type'', PStr ''Point''), (''coordinates'', PList [PFloat (- 75), PFloat 40])])]"

definition dpa_db :: db where
  "dpa_db = empty_db\<lparr>db_injected := [(KIND_CATALOGUE, json_dumps (PDict [(''dpas'', PList [PDict example_item])]))]\<rparr>"

definition activation_body :: pydict where
  "activation_body = [(''dpaId'', PStr ''East_1''), (''frequencyRange'', range_dict 3600000000 3610000000)]"

lemma dpa_db_catalogue: "list_catalogue dpa_db = [PDict example_item]"
  by (simp add: list_catalogue_def rows_of_kind_def dpa_db_def)

lemma strip_example: "py_strip ''East_1'' = ''East_1''"
  by (simp add: py_strip_def is_space_def Let_def)

lemma evaluate_no_grants:
  assumes "polygon_representative_point (pc_geometry p) = Inr pt"
  shows "\<exists>r. evaluate_protected_channel (Inr fn) p [] = Inr r"
  using assms by (cases pt) (auto simp: evaluate_protected_channel_def overlapping_grants_def
      channel_interference_simps Let_def split: prod.splits)

lemma example_refresh:
  assumes d1: "d1 = add_injected dpa_db FLAG_DPA_ACTIVE
      (PDict (activation_payload en ''East_1'' 3600000000 3610000000 [] PNone))"
  shows "\<exists>u d2. refresh_or_fail_closed_movelists en (Inr fn) d1 [(''East_1'', 3600000000, 3610000000)] = (Inr u, d2)"
proof -
  let ?data = "activation_payload en ''East_1'' 3600000000 3610000000 [] PNone"
  let ?protected = "filter (\<lambda>p. pc_reason p = ACTIVE) (list_protected_dpa_channels en d1)"
  have act: "list_active_activations d1 = [?data]"
    by (simp add: d1 list_active_activations_def dpa_db_def rows_of_kind_def add_injected_def List.map_filter_def
        activation_of_def activation_payload_def)
  have none: "collect_active_dpa_grants en d1 None [] [] = []"
    by (simp add: collect_active_dpa_grants_def d1 dpa_db_def empty_db_def List.map_filter_simps)
  have geometry: "polygon_representative_point (pc_geometry p) = Inr (Some (40, - 75))" if "p \<in> set ?protected" for p
  proof -
    from that active_channels_from_catalogue [of p en d1] obtain item where
      item: "catalogue_by_id d1 (pc_dpa_id p) = Some item" "p = channel_of en item (pc_low p) (pc_high p) ACTIVE"
      by (auto simp: from_catalogue_def)
    have "catalogue_dicts d1 = [example_item]"
      by (simp add: catalogue_dicts_def list_catalogue_def d1 rows_of_kind_def dpa_db_def add_injected_def
          List.map_filter_simps)
    with item(1) have "item = example_item" by (auto simp: catalogue_by_id_def split: if_splits)
    moreover have "pc_geometry (channel_of en example_item low high reason) = dget example_item ''geometry''" for low high reason
      by (simp add: channel_of_def Let_def example_item_def)
    ultimately have "pc_geometry p = dget example_item ''geometry''"
      using arg_cong [OF item(2), of pc_geometry] by simp
    then show ?thesis
      by (simp add: example_item_def polygon_representative_point_def point_geometry_def)
  qed
  have key: "dpa_id_of en ?data = ''East_1''"
    by (simp add: dpa_id_of_def activation_payload_def por_def strip_example)
  have range: "read_range (por (dget ?data ''frequencyRange'') (PDict [])) = Some (3600000000, 3610000000)"
    by (simp add: activation_payload_def)
  have "\<exists>y. activation_movelist en (Inr fn) ?protected [] ?data = Inr y
      \<and> (\<forall>x. y = Some x \<longrightarrow> (\<exists>m. x = (''East_1'', 3600000000, 3610000000, m)))"
  proof (cases "List.find (\<lambda>p. pc_dpa_id p = ''East_1'' \<and> pc_low p = 3600000000 \<and> pc_high p = 3610000000) ?protected")
    case None
    then show ?thesis by (simp add: activation_movelist_def range key)
  next
    case (Some p)
    from find_found [OF Some] geometry [of p] have "polygon_representative_point (pc_geometry p) = Inr (Some (40, - 75))"
      by blast
    from evaluate_no_grants [OF this, of fn] obtain r where "evaluate_protected_channel (Inr fn) p [] = Inr r" by blast
    with Some show ?thesis by (cases r) (simp add: activation_movelist_def range key)
  qed
  then obtain y where y: "activation_movelist en (Inr fn) ?protected [] ?data = Inr y"
    and shape: "\<And>x. y = Some x \<Longrightarrow> \<exists>m. x = (''East_1'', 3600000000, 3610000000, m)" by blast
  have up: "\<exists>d2. upsert_activation en d1 ''East_1'' 3600000000 3610000000 m None = Inr d2" for m
  proof -
    have "activation_matches ''East_1'' 3600000000 3610000000 ?data = Inr True"
      using activation_matches_itself [OF payload_is_activation, of "''East_1''" 3600000000 3610000000] by simp
    then show ?thesis
      using payload_row [of en "''East_1''" 3600000000 3610000000 "[]" PNone]
      by (simp add: upsert_activation_def d1 dpa_db_def add_injected_def Let_def row_activation_def [of "(KIND_CATALOGUE, j)" for j]
          del: payload_row)
  qed
  have "\<exists>n d2. refresh_activation_movelists en (Inr fn) d1 [] = (Inr n, d2)"
  proof (cases y)
    case None
    then show ?thesis by (simp add: refresh_activation_movelists_def act y Let_def)
  next
    case (Some x)
    from shape [OF this] obtain m where m: "x = (''East_1'', 3600000000, 3610000000, m)" by blast
    from up [of m] obtain d2 where "upsert_activation en d1 ''East_1'' 3600000000 3610000000 m None = Inr d2" by blast
    with Some m show ?thesis by (simp add: refresh_activation_movelists_def act y Let_def)
  qed
  then show ?thesis by (auto simp: refresh_or_fail_closed_movelists_def movelist_grants_def none)
qed

theorem activation_protects_channel_witness:
  "\<exists>d' data moved. activate_dpa example_env (Inr example_loss) dpa_db activation_body
       = (Inr [(''ok'', PBool True), (''dpaId'', PStr ''East_1''), (''frequencyRange'', range_dict 3600000000 3610000000)], d')
     \<and> data \<in> set (list_active_activations d') \<and> is_activation data ''East_1'' 3600000000 3610000000 moved"
proof -
  have req: "request_channel activation_body = Some (''East_1'', 3600000000, 3610000000)"
    by (simp add: request_channel_def activation_body_def parse_request_freq_def strip_example)
      (simp add: range_dict_def)
  have found: "get_catalogue_definition dpa_db ''East_1'' = Some (PDict example_item)"
    by (simp add: get_catalogue_definition_def dpa_db_catalogue) (simp add: example_item_def)
  have channel: "channel_in_definition example_item (3600000000, 3610000000)"
    by (simp add: channel_in_definition_def example_item_def) (simp add: range_dict_def)
  have up: "upsert_activation example_env dpa_db ''East_1'' 3600000000 3610000000 [] None
      = Inr (add_injected dpa_db FLAG_DPA_ACTIVE
          (PDict (activation_payload example_env ''East_1'' 3600000000 3610000000 [] PNone)))"
    by (simp add: upsert_activation_def dpa_db_def row_activation_def)
  from example_refresh [OF refl] obtain u d2 where
    "refresh_or_fail_closed_movelists example_env (Inr example_loss) (add_injected dpa_db FLAG_DPA_ACTIVE
        (PDict (activation_payload example_env ''East_1'' 3600000000 3610000000 [] PNone)))
        [(''East_1'', 3600000000, 3610000000)] = (Inr u, d2)" by blast
  then obtain d' where act: "activate_dpa example_env (Inr example_loss) dpa_db activation_body
       = (Inr [(''ok'', PBool True), (''dpaId'', PStr ''East_1''), (''frequencyRange'', range_dict 3600000000 3610000000)], d')"
    by (simp add: activate_dpa_def req found channel up Let_def)
  from activation_protects_channel [OF act] act req show ?thesis by auto
qed

end
