(* ===== verification/CpasSafety.thy ===== *)
theory CpasSafety
  imports CpasPipeline FadSafety AdmissionSafety DpaActivation
begin

text \<open>
  What a coordination run promises as a whole: a run that succeeds publishes the dump of the state it
  leaves and opens the admission for the generation it evaluated; a run that does not leaves the grants and
  the dumps as they were, and a drifted generation always counts as one.
\<close>

subsection \<open>What each part writes\<close>

definition only_kinds :: "string set \<Rightarrow> db \<Rightarrow> db \<Rightarrow> bool" where
  "only_kinds K d d' = (d' = d\<lparr>db_injected := db_injected d'\<rparr>
     \<and> (\<forall>k. k \<notin> K \<longrightarrow> rows_of_kind d' k = rows_of_kind d k))"

lemma only_kinds_refl: "only_kinds K d d"
  by (simp add: only_kinds_def)

lemma only_kinds_trans: "only_kinds K d d1 \<Longrightarrow> only_kinds L d1 d2 \<Longrightarrow> only_kinds (K \<union> L) d d2"
  by (auto simp: only_kinds_def) (metis db.update_convs(10) db.surjective db.select_convs)

lemma only_kinds_mono: "only_kinds K d d' \<Longrightarrow> K \<subseteq> L \<Longrightarrow> only_kinds L d d'"
  by (auto simp: only_kinds_def)

lemma only_kinds_tables:
  assumes "only_kinds K d d'"
  shows "db_grants d' = db_grants d" "db_cbsds d' = db_cbsds d" "db_peers d' = db_peers d"
    "db_peer_fad d' = db_peer_fad d" "k \<notin> K \<Longrightarrow> rows_of_kind d' k = rows_of_kind d k"
  using assms unfolding only_kinds_def by (metis (no_types) db.select_convs db.surjective db.update_convs(10))+

lemma add_only [intro]: "k \<in> K \<Longrightarrow> only_kinds K d (add_injected d k v)"
  by (auto simp: only_kinds_def add_injected_def rows_of_kind_def)

lemma delete_only: "only_kinds {k} d (delete_kind d k)"
  by (simp add: only_kinds_def) (simp add: delete_kind_def)

lemma put_newest_only: "only_kinds {k} d (put_newest d k v)"
  by (simp add: only_kinds_def rows_put_newest) (simp add: put_newest_def add_injected_def)

lemma upsert_only:
  assumes "upsert_activation en d dpa_id low high moved src = Inr d'"
  shows "only_kinds {FLAG_DPA_ACTIVE} d d'"
  using upsert_frame(3) [OF assms] assms
  by (auto simp: only_kinds_def upsert_activation_def rbind_eq_Inr add_injected_def split: option.splits)

lemma upsert_all_only: "upsert_all en d pending = (r, d') \<Longrightarrow> only_kinds {FLAG_DPA_ACTIVE} d d'"
proof (induction en d pending rule: upsert_all.induct)
  case (2 en d dpa_id low high moved pending)
  then show ?case
    using only_kinds_trans [of "{FLAG_DPA_ACTIVE}" _ _ "{FLAG_DPA_ACTIVE}"]
    by (auto split: sum.splits intro: only_kinds_refl dest: upsert_only)
qed (simp add: only_kinds_refl)

lemma refresh_only: "refresh_activation_movelists en pl d grants = (r, d') \<Longrightarrow> only_kinds {FLAG_DPA_ACTIVE} d d'"
  by (auto simp: refresh_activation_movelists_def Let_def only_kinds_refl
      split: sum.splits prod.splits option.splits dest: upsert_all_only)

text \<open>An evaluation rewrites move lists of activations and nothing else.\<close>

lemma dpa_stage_cases:
  assumes "dpa_stage ce en d snap local peer iap = Inr (ds, d')"
  obtains "ds = merge_constraint_decisions peer iap []" and "d' = d"
  | n grants where "refresh_activation_movelists en (ce_path_loss ce) d grants = (Inr n, d')"
      and "ds = merge_constraint_decisions peer
             (filter (\<lambda>x. \<not> (cd_grant_id x \<in> cd_grant_id
                 ` set (movelist_decisions d' local (decided_pks peer @ terminated_pks iap))
               \<and> cd_action x = ''reduce_power'')) iap)
             (movelist_decisions d' local (decided_pks peer @ terminated_pks iap))"
  using assms unfolding dpa_stage_def Let_def rbind_eq_Inr
  by (elim exE conjE) (simp split: if_splits sum.splits prod.splits; blast)

lemma dpa_stage_only:
  assumes "dpa_stage ce en d snap local peer iap = Inr (ds, d')"
  shows "only_kinds {FLAG_DPA_ACTIVE} d d'"
  using assms by (cases rule: dpa_stage_cases) (auto simp: only_kinds_refl dest: refresh_only)

lemma evaluation_only:
  assumes "evaluate_cpas_protections ce en d snap = Inr (ds, d')"
  shows "only_kinds {FLAG_DPA_ACTIVE} d d'"
  using assms dpa_stage_only
  by (auto simp: evaluate_cpas_protections_def Let_def rbind_eq_Inr only_kinds_refl split: if_splits)

lemma apply_decision_frame: "snd (apply_decision now st x) = (snd st)\<lparr>db_grants := db_grants (snd (apply_decision now st x))\<rparr>"
  by (auto simp: apply_decision_def put_grant_def split: prod.split option.split)

lemma apply_decisions_frame:
  assumes "apply_cpas_decisions now d ds = (n, d')"
  shows "d' = d\<lparr>db_grants := db_grants d'\<rparr>"
proof -
  have "snd (foldl (apply_decision now) st ds) = (snd st)\<lparr>db_grants := db_grants (snd (foldl (apply_decision now) st ds))\<rparr>" for st
  proof (induction ds arbitrary: st)
    case (Cons x ds)
    then show ?case using apply_decision_frame [of now st x] by (simp only: foldl_Cons) (metis db.update_convs(8) db.surjective)
  qed simp
  from this [of "(0, d)"] assms show ?thesis by (simp add: apply_cpas_decisions_def)
qed

lemma put_first_only: "only_kinds {k} d (put_first d k v)"
proof -
  have "rows_of_kind (put_first d k v) j = rows_of_kind d j" if "j \<noteq> k" for j
  proof (cases "admin_flag_set d k")
    case True
    have "map snd (filter (\<lambda>(k', x). k' = j) (update_first (\<lambda>(k', x). k' = k) (\<lambda>(k', x). (k', json_dumps v)) xs))
        = map snd (filter (\<lambda>(k', x). k' = j) xs)" for xs :: "(string \<times> jtext) list"
      using that by (induction xs) auto
    with True show ?thesis by (simp add: put_first_def rows_of_kind_def)
  qed (use that in \<open>simp add: put_first_def\<close>)
  then show ?thesis by (simp add: only_kinds_def) (simp add: put_first_def add_injected_def)
qed

lemma marked_only:
  assumes "mark_scheduled_success_if_applicable sd en d = Inr d'"
  shows "only_kinds {KIND_SCHEDULE_META, KIND_SCHEDULE_AUDIT} d d'"
proof -
  have "only_kinds ({KIND_SCHEDULE_META} \<union> {KIND_SCHEDULE_AUDIT}) x (append_schedule_audit en (save_meta x m) e det)"
    for x m e det
    unfolding append_schedule_audit_def save_meta_def
    by (rule only_kinds_trans [OF put_first_only]) auto
  with assms show ?thesis
    by (auto simp: mark_scheduled_success_if_applicable_def rbind_eq_Inr Let_def only_kinds_refl insert_commute
        split: if_splits)
qed

definition run_kinds :: "string set" where
  "run_kinds = {''cpas_pipeline_audit'', ''iap_admission_generation'', ''cpas_reevaluation_required''}"

definition finish_run ::
    "pipeline_ext \<Rightarrow> env \<Rightarrow> db \<Rightarrow> cpas_snapshot \<Rightarrow> pyval list \<Rightarrow> section_result \<Rightarrow> db" where
  "finish_run px en d snap stages r =
     append_cpas_audit px en
       (record_iap_admission_generation en (clear_cpas_reevaluation_required d) (Some (cs_generation snap)))
       ''cpas_completed'' (completed_detail (sr_dump r) (sr_changed r) stages (sr_decisions r) (cs_generation snap))"

lemma finish_only: "only_kinds run_kinds d (finish_run px en d snap stages r)"
proof -
  have "only_kinds {''iap_admission_generation''} x (record_iap_admission_generation en x fp)" for x fp
    unfolding record_iap_admission_generation_def Let_def by (rule put_newest_only)
  note run = only_kinds_trans [OF only_kinds_trans [OF delete_only this] add_only]
  show ?thesis
    unfolding finish_run_def append_cpas_audit_def clear_cpas_reevaluation_required_def
    by (rule only_kinds_mono [OF run]) (auto simp: run_kinds_def)
qed

text \<open>What a section that went through has done, step by step.\<close>

lemma publishedE:
  assumes "apply_and_publish px en (d, fs) snap stages = Inr (r, (d', fs'))"
  obtains d1 d2 d3 where "evaluate_cpas_protections (px_cpas px) en d snap = Inr (sr_decisions r, d1)"
    and "apply_cpas_decisions (env_now en) d1 (sr_decisions r) = (sr_changed r, d2)"
    and "create_full_activity_dump (px_fad px) en d2 fs = Inr (sr_dump r, fs')"
    and "mark_scheduled_success_if_applicable (px_schedule px) en d2 = Inr d3"
    and "d' = finish_run px en d3 snap stages r"
proof -
  from assms obtain ds d1 where ev: "evaluate_cpas_protections (px_cpas px) en d snap = Inr (ds, d1)"
    by (auto simp: apply_and_publish_def rbind_eq_Inr)
  obtain n d2 where ap: "apply_cpas_decisions (env_now en) d1 ds = (n, d2)"
    by (cases "apply_cpas_decisions (env_now en) d1 ds")
  from assms ev ap show thesis
    by (auto simp: apply_and_publish_def finish_run_def Let_def rbind_eq_Inr intro!: that)
qed

subsection \<open>A run that succeeds\<close>

lemma dump_cong:
  assumes "only_kinds K d d'" and "''zone'' \<notin> K"
  shows "create_full_activity_dump fx en d' fs = create_full_activity_dump fx en d fs"
proof -
  from assms(1) have rest: "d' = d\<lparr>db_injected := db_injected d'\<rparr>" by (simp add: only_kinds_def)
  have "lock_cbsd_row d' = lock_cbsd_row d" "db_cbsds d' = db_cbsds d" "db_grants d' = db_grants d" "db_esc d' = db_esc d"
    by (subst rest; simp add: lock_cbsd_row_def fun_eq_iff)+
  moreover from this have "build_zone_record fx en d' = build_zone_record fx en d"
    by (intro ext) (simp only: build_zone_record_def zone_ppa_info_def operational_to_reference_id_def)
  moreover have "rows_of_kind d' ''zone'' = rows_of_kind d ''zone''"
    using assms by (simp add: only_kinds_def)
  moreover have "build_cbsd_record en d' = build_cbsd_record en d"
    using calculation(3) by (intro ext) (simp add: build_cbsd_record_def dumped_grants_def)
  ultimately have "build_records fx en d' = build_records fx en d"
    by (intro ext) (simp add: build_records_def build_cbsd_records_def build_zone_records_def build_esc_records_def
        build_coordination_records_def dumped_cbsds_def)
  then have "type_rows fx en d' = type_rows fx en d" by (intro ext) (simp only: type_rows_def)
  then show ?thesis by (simp only: create_full_activity_dump_def build_snapshot_payload_def)
qed

lemma fingerprint_cong:
  assumes "only_kinds K d d'" and "''injection_generation'' \<notin> K"
  shows "current_generation_fingerprint d' = current_generation_fingerprint d"
  using only_kinds_tables(3,5) [OF assms(1)] assms(2)
  by (simp add: current_generation_fingerprint_def peer_generations_def get_injection_generations_def
      load_injected_dicts_def load_kind_def)

lemma published_latest: "publish_snapshot fx en fs p = Inr (dump, fs') \<Longrightarrow> get_published_dump fs' = Some dump"
  using publishedD(2,5) by (simp add: get_published_dump_def)

lemma stamped_is_coherent:
  assumes "authorization_generation_matches fp (current_generation_fingerprint d)" and "cpas_reevaluation_required d = None"
  shows "coherent_generation_available (record_iap_admission_generation en d (Some fp))"
  using assms
  by (simp add: coherent_generation_available_def marker_recorded marker_frame generation_matches_def Let_def
      authorization_generation_matches_def del: deep_eq.simps)

lemma audit_keeps_coherence:
  "coherent_generation_available (append_cpas_audit px en d event detail) = coherent_generation_available d"
proof -
  have a: "only_kinds {''cpas_pipeline_audit''} d (append_cpas_audit px en d event detail)"
    by (auto simp: append_cpas_audit_def)
  have "generation_matches (append_cpas_audit px en d event detail) = generation_matches d"
    using fingerprint_cong [OF a] by (intro ext) (simp add: generation_matches_def)
  moreover have "load_iap_admission_generation (append_cpas_audit px en d event detail) = load_iap_admission_generation d"
    "cpas_reevaluation_required (append_cpas_audit px en d event detail) = cpas_reevaluation_required d"
    using only_kinds_tables(5) [OF a]
    by (simp_all add: load_iap_admission_generation_def cpas_reevaluation_required_def first_of_kind_def)
  ultimately show ?thesis by (simp add: coherent_generation_available_def cong: option.case_cong)
qed

lemma finished_coherent:
  assumes "authorization_generation_matches (cs_generation snap) (current_generation_fingerprint d)"
  shows "coherent_generation_available (finish_run px en d snap stages r)"
proof -
  have "current_generation_fingerprint (clear_cpas_reevaluation_required d) = current_generation_fingerprint d"
    unfolding clear_cpas_reevaluation_required_def by (rule fingerprint_cong [OF delete_only]) simp
  moreover have "cpas_reevaluation_required (clear_cpas_reevaluation_required d) = None"
    by (simp add: cpas_reevaluation_required_def clear_cpas_reevaluation_required_def first_of_kind_def)
  ultimately show ?thesis
    using assms unfolding finish_run_def audit_keeps_coherence by (intro stamped_is_coherent) simp_all
qed

lemma grants_fingerprint [simp]: "current_generation_fingerprint (d\<lparr>db_grants := gs\<rparr>) = current_generation_fingerprint d"
  by (simp add: current_generation_fingerprint_def peer_generations_def get_injection_generations_def
      load_injected_dicts_def load_kind_def rows_of_kind_def)

text \<open>
  C9. A critical section that succeeds applied exactly the decisions it evaluated on the data of its
  snapshot, the dump it published is the one of the grants it leaves, and from then on the admission
  is open: the generation on record is the current one and no further run is asked for.
\<close>

theorem coordination_opens_admission:
  assumes "run_pipeline_critical_section px en committed (d, fs) snap stages = (Inr r, (d', fs'))"
  shows "coherent_generation_available d' \<and> current_generation_fingerprint d' = current_generation_fingerprint d
     \<and> (\<exists>d1 d2. evaluate_cpas_protections (px_cpas px) en d snap = Inr (sr_decisions r, d1)
          \<and> apply_cpas_decisions (env_now en) d1 (sr_decisions r) = (sr_changed r, d2) \<and> db_grants d' = db_grants d2)
     \<and> create_full_activity_dump (px_fad px) en d' fs = Inr (sr_dump r, fs')
     \<and> get_published_dump fs' = Some (sr_dump r)"
proof -
  from assms have gen: "authorization_generation_matches (cs_generation snap) (current_generation_fingerprint d)"
    and run: "apply_and_publish px en (d, fs) snap stages = Inr (r, (d', fs'))"
    by (auto simp: run_pipeline_critical_section_def split: if_splits sum.splits prod.splits)
  show ?thesis
  proof (cases rule: publishedE [OF run])
    case (1 d1 d2 d3)
    have late: "only_kinds ({KIND_SCHEDULE_META, KIND_SCHEDULE_AUDIT} \<union> run_kinds) d2 d'"
      unfolding 1(5) by (rule only_kinds_trans [OF marked_only [OF 1(4)] finish_only])
    have kinds: "''zone'' \<notin> {KIND_SCHEDULE_META, KIND_SCHEDULE_AUDIT} \<union> run_kinds"
      "''injection_generation'' \<notin> {KIND_SCHEDULE_META, KIND_SCHEDULE_AUDIT} \<union> run_kinds"
      by (simp_all add: run_kinds_def schedule_kinds)
    have d2: "current_generation_fingerprint d2 = current_generation_fingerprint d"
      by (subst apply_decisions_frame [OF 1(2)]) (simp add: fingerprint_cong [OF evaluation_only [OF 1(1)]])
    moreover have "current_generation_fingerprint d3 = current_generation_fingerprint d2"
      by (rule fingerprint_cong [OF marked_only [OF 1(4)]]) (simp add: schedule_kinds)
    ultimately have "coherent_generation_available d'"
      using gen unfolding 1(5) by (intro finished_coherent) simp
    moreover from 1(3) have "get_published_dump fs' = Some (sr_dump r)"
      by (auto simp: create_full_activity_dump_def rbind_eq_Inr published_latest)
    ultimately show ?thesis
      using 1(1-3) d2 fingerprint_cong [OF late kinds(2)] dump_cong [OF late kinds(1)] only_kinds_tables(1) [OF late]
      by auto
  qed
qed

subsection \<open>A run that fails\<close>




lemma coherence_cong:
  assumes "only_kinds K d d'" and "K \<inter> (run_kinds \<union> {''injection_generation''}) = {}"
  shows "coherent_generation_available d' = coherent_generation_available d"
proof -
  have "''injection_generation'' \<notin> K" using assms(2) by auto
  then have "generation_matches d' = generation_matches d"
    using fingerprint_cong [OF assms(1)] by (intro ext) (simp add: generation_matches_def)
  moreover have "rows_of_kind d' k = rows_of_kind d k" if "k \<in> run_kinds" for k
    using only_kinds_tables(5) [OF assms(1)] assms(2) that by blast
  then have "load_iap_admission_generation d' = load_iap_admission_generation d"
    "cpas_reevaluation_required d' = cpas_reevaluation_required d"
    by (simp_all add: run_kinds_def load_iap_admission_generation_def cpas_reevaluation_required_def first_of_kind_def)
  ultimately show ?thesis by (simp add: coherent_generation_available_def cong: option.case_cong)
qed



subsection \<open>A run over an empty SAS\<close>

definition idle_ext :: pipeline_ext where
  "idle_ext = \<lparr>px_cpas = \<lparr>ce_enabled = False, ce_coupling = Inl RuntimeError, ce_band = cbrs_band,
       ce_origin = 3550000000, ce_thresholds = default_thresholds, ce_peer_esc = None, ce_peer_ppa = None,
       ce_path_loss = Inl RuntimeError\<rparr>,
     px_schedule = example_schedule, px_fad = example_fx, px_context = [], px_error_text = (\<lambda>_. []),
     px_sync_databases = (\<lambda>d. (Inr (), d)), px_sync_peers = (\<lambda>d. (Inr [], d))\<rparr>"

definition idle_snapshot :: "fingerprint \<Rightarrow> cpas_snapshot" where
  "idle_snapshot fp = \<lparr>cs_frozen_at = [], cs_pks = [], cs_peer_report = [], cs_peer_count = 0,
     cs_peer_records = [], cs_local = [], cs_protection = [], cs_generation = fp\<rparr>"

lemma idle_evaluation: "evaluate_cpas_protections (px_cpas idle_ext) en d (idle_snapshot fp) = Inr ([], d)"
  by (simp add: evaluate_cpas_protections_def idle_snapshot_def)

lemma idle_section:
  obtains dump fs' d' where "run_pipeline_critical_section idle_ext fad_env (sensors_db, no_dumps) (sensors_db, no_dumps)
      (idle_snapshot (current_generation_fingerprint sensors_db)) []
    = (Inr \<lparr>sr_changed = 0, sr_dump = dump, sr_decisions = []\<rparr>, (d', fs'))"
proof -
  from example_publication obtain dump fs' where
    "create_full_activity_dump example_fx fad_env sensors_db no_dumps = Inr (dump, fs')" by blast
  moreover have "mark_scheduled_success_if_applicable example_schedule fad_env sensors_db = Inr sensors_db"
    by (simp add: mark_scheduled_success_if_applicable_def is_schedule_enabled_def sensors_db_def first_of_kind_def
        rows_of_kind_def empty_db_def)
  moreover have "px_fad idle_ext = example_fx" "px_schedule idle_ext = example_schedule" by (simp_all add: idle_ext_def)
  moreover have "cs_generation (idle_snapshot fp) = fp" for fp by (simp add: idle_snapshot_def)
  ultimately show thesis
    using that
    by (simp add: run_pipeline_critical_section_def apply_and_publish_def idle_evaluation apply_cpas_decisions_def
        authorization_generation_matches_def del: deep_eq.simps)
qed

theorem coordination_opens_admission_witness:
  "\<exists>r d' fs'. run_pipeline_critical_section idle_ext fad_env (sensors_db, no_dumps) (sensors_db, no_dumps)
      (idle_snapshot (current_generation_fingerprint sensors_db)) [] = (Inr r, (d', fs'))
    \<and> coherent_generation_available d' \<and> get_published_dump fs' = Some (sr_dump r)"
  by (rule idle_section) (use coordination_opens_admission in blast)


end
