(* ===== verification/IapRounds.thy ===== *)
theory IapRounds
  imports Iap
begin

text \<open>
  The rounds of the allocation: every pass in closed form, the invariant of the loop (what each
  channel's threshold has left is what the locked grants do not use, its fair share is that budget
  divided among the grants still unsatisfied), the safety of the result and the number of
  rounds that is enough.
\<close>

subsection \<open>The channel loops in closed form\<close>

definition lock_value :: "iap_run \<Rightarrow> iap_state \<Rightarrow> nat \<Rightarrow> nat \<Rightarrow> real" where
  "lock_value R s g c =
     (case s_locked s (g, c) of None \<Rightarrow> r_coupling R g c (s_eirp s g) | Some v \<Rightarrow> v)"

lemma foldl_upt_Suc: "foldl f s [0..<Suc k] = f (foldl f s [0..<k]) k"
  by simp

lemma foldl_lock_channel:
  "foldl (lock_channel R g) s [0..<k] =
     s\<lparr>s_locked := (\<lambda>(h, c). if h = g \<and> c < k \<and> r_overlap R g c then Some (lock_value R s g c)
                             else s_locked s (h, c)),
       s_threshold := (\<lambda>c. if c < k \<and> r_overlap R g c then s_threshold s c - lock_value R s g c
                           else s_threshold s c),
       s_unsat := (\<lambda>c. if c < k \<and> r_overlap R g c then s_unsat s c - 1 else s_unsat s c),
       s_fairshare := (\<lambda>c. if c < k \<and> r_overlap R g c
                           then share (s_threshold s c - lock_value R s g c) (s_unsat s c - 1)
                           else s_fairshare s c)\<rparr>"
proof (induction k)
  case 0
  show ?case by simp
next
  case (Suc k)
  show ?case
    unfolding foldl_upt_Suc Suc
    by (intro iap_state.equality) (auto simp: lock_channel_def fun_eq_iff less_Suc_eq lock_value_def Let_def split: option.split)
qed

lemma foldl_release_channel:
  "foldl (release_channel R g) s [0..<k] =
     s\<lparr>s_unsat := (\<lambda>c. if c < k \<and> r_overlap R g c then s_unsat s c - 1 else s_unsat s c),
       s_fairshare := (\<lambda>c. if c < k \<and> r_overlap R g c
                           then share (s_threshold s c) (s_unsat s c - 1) else s_fairshare s c)\<rparr>"
proof (induction k)
  case 0
  show ?case by simp
next
  case (Suc k)
  show ?case
    unfolding foldl_upt_Suc Suc
    by (intro iap_state.equality) (auto simp: release_channel_def fun_eq_iff less_Suc_eq Let_def)
qed

text \<open>What one grant's scan says when it finds every channel within its fair share.\<close>

lemma scan_channels_other:
  "scan_channels R fair g e cs saw locked = (locked', ok, saw') \<Longrightarrow> h \<noteq> g \<Longrightarrow> locked' (h, c) = locked (h, c)"
  by (induction R fair g e cs saw locked rule: scan_channels.induct) (auto split: if_splits)

lemma scan_channels_kept:
  "scan_channels R fair g e cs saw locked = (locked', ok, saw') \<Longrightarrow> c \<notin> set cs \<Longrightarrow>
   locked' (g, c) = locked (g, c)"
  by (induction R fair g e cs saw locked rule: scan_channels.induct) (auto split: if_splits)

lemma scan_channels_ok:
  "scan_channels R fair g e cs saw locked = (locked', True, saw') \<Longrightarrow> distinct cs \<Longrightarrow>
   (saw' \<longleftrightarrow> saw \<or> (\<exists>c\<in>set cs. r_overlap R g c)) \<and>
   (\<forall>c\<in>set cs. r_overlap R g c \<longrightarrow>
      locked' (g, c) = Some (r_coupling R g c e) \<and> r_coupling R g c e < fair c)"
proof (induction R fair g e cs saw locked rule: scan_channels.induct)
  case (1 R fair g e saw locked)
  then show ?case by simp
next
  case (2 R fair g e c cs saw locked)
  show ?case
  proof (cases "r_overlap R g c")
    case False
    then show ?thesis using 2 by auto
  next
    case True
    with 2(3) have below: "r_coupling R g c e < fair c"
      and rest: "scan_channels R fair g e cs True (locked((g, c) \<mapsto> r_coupling R g c e))
                   = (locked', True, saw')"
      by (auto split: if_splits)
    have "locked' (g, c) = Some (r_coupling R g c e)"
      using scan_channels_kept [OF rest, of c] 2(4) by simp
    moreover from 2(2) [OF _ below rest] True 2(4)
    have "saw' \<and> (\<forall>c\<in>set cs. r_overlap R g c \<longrightarrow>
        locked' (g, c) = Some (r_coupling R g c e) \<and> r_coupling R g c e < fair c)" by simp
    ultimately show ?thesis using True below by simp
  qed
qed

subsection \<open>The invariant\<close>

definition pending :: "iap_run \<Rightarrow> iap_state \<Rightarrow> nat set" where
  "pending R s = {g. g < r_grants R \<and> \<not> s_removed s g}"

definition pending_on :: "iap_run \<Rightarrow> iap_state \<Rightarrow> nat \<Rightarrow> nat set" where
  "pending_on R s c = {g. g < r_grants R \<and> r_overlap R g c \<and> \<not> s_removed s g}"

definition survivors :: "iap_run \<Rightarrow> iap_state \<Rightarrow> nat \<Rightarrow> nat set" where
  "survivors R s c = {g. g < r_grants R \<and> r_overlap R g c \<and> s_removed s g \<and> \<not> s_hit_floor s g}"

definition spent :: "iap_run \<Rightarrow> iap_state \<Rightarrow> nat \<Rightarrow> real" where
  "spent R s c = (\<Sum>g\<in>survivors R s c. r_coupling R g c (s_eirp s g))"

definition settled :: "iap_run \<Rightarrow> iap_state \<Rightarrow> nat \<Rightarrow> bool" where
  "settled R s g = ((\<exists>c<r_channels R. r_overlap R g c) \<and>
     (\<forall>c<r_channels R. r_overlap R g c \<longrightarrow> s_locked s (g, c) = Some (r_coupling R g c (s_eirp s g))))"

definition books :: "iap_run \<Rightarrow> real \<Rightarrow> iap_state \<Rightarrow> bool" where
  "books R T s =
     (s_num_unsat s = card (pending R s)
      \<and> (\<forall>c<r_channels R. s_unsat s c = card (pending_on R s c)
           \<and> s_threshold s c = T - spent R s c
           \<and> s_fairshare s c = share (s_threshold s c) (s_unsat s c))
      \<and> (\<forall>g<r_grants R. (s_hit_floor s g \<longrightarrow> s_removed s g) \<and> (s_removed s g \<longrightarrow> s_satisfied s g)
           \<and> (s_removed s g \<and> \<not> s_hit_floor s g \<longrightarrow> settled R s g)))"

definition round_inv :: "iap_run \<Rightarrow> real \<Rightarrow> iap_state \<Rightarrow> bool" where
  "round_inv R T s =
     (books R T s \<and> (\<forall>c<r_channels R. 0 \<le> s_threshold s c)
      \<and> (\<forall>g<r_grants R. s_satisfied s g \<longrightarrow> s_removed s g))"

text \<open>
  Within a round: \<open>F\<close> is the fair share the scan compared with; the grants found satisfied use
  less than it on every channel, so the budget covers it for every pending grant.
\<close>

definition lock_inv :: "iap_run \<Rightarrow> real \<Rightarrow> (nat \<Rightarrow> real) \<Rightarrow> iap_state \<Rightarrow> bool" where
  "lock_inv R T F s =
     (books R T s \<and> (\<forall>c<r_channels R. 0 \<le> F c \<and> F c * real (s_unsat s c) \<le> s_threshold s c)
      \<and> (\<forall>g<r_grants R. s_satisfied s g \<and> \<not> s_removed s g \<longrightarrow>
           settled R s g \<and> (\<forall>c<r_channels R. r_overlap R g c \<longrightarrow> r_coupling R g c (s_eirp s g) < F c)))"

lemma finite_pending [simp]: "finite (pending R s)" "finite (pending_on R s c)" "finite (survivors R s c)"
  by (auto simp: pending_def pending_on_def survivors_def)

lemma round_to_lock: "round_inv R T s \<Longrightarrow> lock_inv R T (s_fairshare s) s"
  by (auto simp: round_inv_def lock_inv_def books_def share_def)

lemma scan_grant_same [simp]:
  "s_eirp (scan_grant R s g) = s_eirp s" "s_removed (scan_grant R s g) = s_removed s"
  "s_hit_floor (scan_grant R s g) = s_hit_floor s" "s_threshold (scan_grant R s g) = s_threshold s"
  "s_unsat (scan_grant R s g) = s_unsat s" "s_fairshare (scan_grant R s g) = s_fairshare s"
  "s_num_unsat (scan_grant R s g) = s_num_unsat s"
  by (auto simp: scan_grant_def split: prod.split)

lemma scan_grant_removed: "s_removed s g \<or> s_satisfied s g \<Longrightarrow> scan_grant R s g = s"
  by (simp add: scan_grant_def)

lemma scan_grant_other:
  "h \<noteq> g \<Longrightarrow> s_locked (scan_grant R s g) (h, c) = s_locked s (h, c)
   \<and> s_satisfied (scan_grant R s g) h = s_satisfied s h"
  by (auto simp: scan_grant_def split: prod.split dest: scan_channels_other)

lemma scan_grant_satisfied:
  assumes "\<not> s_removed s g" "\<not> s_satisfied s g" "s_satisfied (scan_grant R s g) g"
  shows "settled R (scan_grant R s g) g"
    and "c < r_channels R \<Longrightarrow> r_overlap R g c \<Longrightarrow> r_coupling R g c (s_eirp s g) < s_fairshare s c"
proof -
  obtain locked ok saw where sc:
    "scan_channels R (s_fairshare s) g (s_eirp s g) [0..<r_channels R] False (s_locked s) = (locked, ok, saw)"
    by (metis prod_cases3)
  with assms have "ok" "saw" by (auto simp: scan_grant_def)
  with sc have ok: "scan_channels R (s_fairshare s) g (s_eirp s g) [0..<r_channels R] False (s_locked s)
      = (locked, True, True)" by simp
  have locked: "s_locked (scan_grant R s g) = locked"
    using assms(1,2) ok by (simp add: scan_grant_def)
  from scan_channels_ok [OF ok] locked show "settled R (scan_grant R s g) g"
    by (auto simp: settled_def)
  from scan_channels_ok [OF ok]
  show "c < r_channels R \<Longrightarrow> r_overlap R g c \<Longrightarrow> r_coupling R g c (s_eirp s g) < s_fairshare s c"
    by auto
qed

lemma pending_cong:
  "s_removed s' = s_removed s \<Longrightarrow> pending R s' = pending R s \<and> pending_on R s' c = pending_on R s c"
  by (simp add: pending_def pending_on_def)

lemma scan_grant_settled:
  "settled R s h \<Longrightarrow> h \<noteq> g \<Longrightarrow> settled R (scan_grant R s g) h"
  by (auto simp: settled_def scan_grant_other)

lemma spent_scan [simp]: "spent R (scan_grant R s g) c = spent R s c"
  by (simp add: spent_def survivors_def)

lemma pending_scan [simp]:
  "pending R (scan_grant R s g) = pending R s" "pending_on R (scan_grant R s g) c = pending_on R s c"
  by (simp_all add: pending_def pending_on_def)

lemma scan_grant_lock_inv:
  assumes "lock_inv R T F s" "s_fairshare s = F"
  shows "lock_inv R T F (scan_grant R s g)"
proof (cases "s_removed s g \<or> s_satisfied s g")
  case True
  then show ?thesis using assms(1) by (simp add: scan_grant_removed)
next
  case False
  have settled: "settled R (scan_grant R s g) h"
    if "settled R s h" "s_removed s h \<or> s_satisfied s h" for h
    using that False by (cases "h = g") (auto intro: scan_grant_settled)
  have satisfied: "s_satisfied (scan_grant R s g) h" if "s_satisfied s h" for h
    using that False by (cases "h = g") (auto simp: scan_grant_other)
  have books: "books R T (scan_grant R s g)"
    using assms(1) settled satisfied by (auto simp: lock_inv_def books_def)
  have new: "settled R (scan_grant R s g) h
      \<and> (\<forall>c<r_channels R. r_overlap R h c \<longrightarrow> r_coupling R h c (s_eirp s h) < F c)"
    if "h < r_grants R" "s_satisfied (scan_grant R s g) h" "\<not> s_removed s h" for h
  proof (cases "h = g")
    case True
    then show ?thesis using scan_grant_satisfied [of s g R] False that assms(2) by auto
  next
    case other: False
    with that have "s_satisfied s h" by (simp add: scan_grant_other)
    with that assms(1) settled show ?thesis by (auto simp: lock_inv_def)
  qed
  show ?thesis using books new assms(1) by (auto simp: lock_inv_def)
qed

lemma scan_pass_inv:
  assumes "round_inv R T s"
  shows "lock_inv R T (s_fairshare s) (scan_pass R s) \<and> s_eirp (scan_pass R s) = s_eirp s
    \<and> s_removed (scan_pass R s) = s_removed s"
proof -
  have "lock_inv R T F (foldl (scan_grant R) s gs) \<and> s_eirp (foldl (scan_grant R) s gs) = s_eirp s
      \<and> s_removed (foldl (scan_grant R) s gs) = s_removed s"
    if "lock_inv R T F s" "s_fairshare s = F" for F gs s
    using that by (induction gs arbitrary: s) (auto simp: scan_grant_lock_inv)
  then show ?thesis using round_to_lock [OF assms] by (simp add: scan_pass_def)
qed
subsection \<open>The second pass\<close>

text \<open>The state after a satisfied grant is locked.\<close>

lemma lock_grant_closed:
  assumes "settled R s g" "\<not> s_removed s g" "s_satisfied s g"
  shows "lock_grant R (s, k) g =
    (s\<lparr>s_num_unsat := s_num_unsat s - 1,
       s_locked := (\<lambda>(h, c). if h = g \<and> c < r_channels R \<and> r_overlap R g c
                             then Some (r_coupling R g c (s_eirp s g)) else s_locked s (h, c)),
       s_threshold := (\<lambda>c. if c < r_channels R \<and> r_overlap R g c
                           then s_threshold s c - r_coupling R g c (s_eirp s g) else s_threshold s c),
       s_unsat := (\<lambda>c. if c < r_channels R \<and> r_overlap R g c then s_unsat s c - 1 else s_unsat s c),
       s_fairshare := (\<lambda>c. if c < r_channels R \<and> r_overlap R g c
                           then share (s_threshold s c - r_coupling R g c (s_eirp s g)) (s_unsat s c - 1)
                           else s_fairshare s c),
       s_removed := (s_removed s)(g := True)\<rparr>, Suc k)"
proof -
  have "lock_value R (s\<lparr>s_num_unsat := s_num_unsat s - 1\<rparr>) g c = r_coupling R g c (s_eirp s g)"
    if "c < r_channels R" "r_overlap R g c" for c
    using assms(1) that by (simp add: settled_def lock_value_def)
  then show ?thesis
    using assms(2,3)
    by (simp add: lock_grant_def Let_def foldl_lock_channel)
      (intro iap_state.equality; auto simp: fun_eq_iff)
qed

lemma pending_without:
  assumes "s_removed s' = (s_removed s)(g := True)" "g < r_grants R"
  shows "pending R s' = pending R s - {g}"
    and "r_overlap R g c \<Longrightarrow> pending_on R s' c = pending_on R s c - {g}"
    and "\<not> r_overlap R g c \<Longrightarrow> pending_on R s' c = pending_on R s c"
  using assms by (auto simp: pending_def pending_on_def)

lemma card_pending_less:
  assumes "g < r_grants R" "\<not> s_removed s g"
  shows "0 < card (pending R s)" and "r_overlap R g c \<Longrightarrow> 0 < card (pending_on R s c)"
  using assms by (auto simp: card_gt_0_iff pending_def pending_on_def)

lemma lock_grant_inv:
  assumes inv: "lock_inv R T F s" and g: "g < r_grants R"
  shows "lock_inv R T F (fst (lock_grant R (s, k) g))"
proof (cases "s_removed s g \<or> \<not> s_satisfied s g")
  case True
  then show ?thesis using inv by (simp add: lock_grant_def)
next
  case False
  with inv g have settled: "settled R s g"
    and small: "\<And>c. c < r_channels R \<Longrightarrow> r_overlap R g c \<Longrightarrow> r_coupling R g c (s_eirp s g) < F c"
    by (auto simp: lock_inv_def)
  let ?s = "fst (lock_grant R (s, k) g)"
  note closed = lock_grant_closed [OF settled, of k]
  from False closed have rem: "s_removed ?s = (s_removed s)(g := True)"
    and same: "s_eirp ?s = s_eirp s" "s_satisfied ?s = s_satisfied s" "s_hit_floor ?s = s_hit_floor s"
    and locked: "\<And>h c. s_locked ?s (h, c) = (if h = g \<and> c < r_channels R \<and> r_overlap R g c
                      then Some (r_coupling R g c (s_eirp s g)) else s_locked s (h, c))"
    by auto
  have num: "s_num_unsat ?s = card (pending R ?s)"
    using False closed inv g card_pending_less(1) [OF g, of s] pending_without(1) [OF rem g]
    by (simp add: lock_inv_def books_def) (simp add: pending_def)
  have not_floor: "\<not> s_hit_floor s g" using inv g False by (auto simp: lock_inv_def books_def)
  have chan: "s_unsat ?s c = card (pending_on R ?s c) \<and> s_threshold ?s c = T - spent R ?s c
      \<and> s_fairshare ?s c = share (s_threshold ?s c) (s_unsat ?s c)
      \<and> F c * real (s_unsat ?s c) \<le> s_threshold ?s c" if c: "c < r_channels R" for c
  proof (cases "r_overlap R g c")
    case ov: True
    have u: "s_unsat s c = card (pending_on R s c)" and t: "s_threshold s c = T - spent R s c"
      and b: "F c * real (s_unsat s c) \<le> s_threshold s c"
      using inv c by (auto simp: lock_inv_def books_def)
    have pos: "0 < s_unsat s c" using card_pending_less(2) [OF g _ ov] False u by simp
    have "survivors R ?s c = insert g (survivors R s c)" "g \<notin> survivors R s c"
      using rem same g ov False not_floor by (auto simp: survivors_def)
    then have sp: "spent R ?s c = r_coupling R g c (s_eirp s g) + spent R s c"
      using same by (simp add: spent_def)
    have u': "s_unsat ?s c = s_unsat s c - 1"
      and t': "s_threshold ?s c = s_threshold s c - r_coupling R g c (s_eirp s g)"
      and f': "s_fairshare ?s c = share (s_threshold ?s c) (s_unsat ?s c)"
      using closed False c ov by auto
    have "F c * real (s_unsat ?s c) = F c * real (s_unsat s c) - F c"
      using pos u' by (simp add: of_nat_diff algebra_simps)
    also have "\<dots> \<le> s_threshold ?s c" using b t' small [OF c ov] by simp
    finally show ?thesis
      using u u' t t' f' sp pending_without(2) [OF rem g ov] g ov False by (auto simp: pending_on_def)
  next
    case ov: False
    have "survivors R ?s c = survivors R s c" using rem same ov by (auto simp: survivors_def)
    then have "spent R ?s c = spent R s c" using same by (simp add: spent_def)
    moreover have "s_unsat ?s c = s_unsat s c" "s_threshold ?s c = s_threshold s c"
      "s_fairshare ?s c = s_fairshare s c"
      using closed False c ov by auto
    ultimately show ?thesis
      using inv c pending_without(3) [OF rem g ov] by (auto simp: lock_inv_def books_def)
  qed
  have settled': "settled R ?s h" if "settled R s h" for h
    using that same locked by (auto simp: settled_def)
  have grants: "(s_hit_floor ?s h \<longrightarrow> s_removed ?s h) \<and> (s_removed ?s h \<longrightarrow> s_satisfied ?s h)
      \<and> (s_removed ?s h \<and> \<not> s_hit_floor ?s h \<longrightarrow> settled R ?s h)" if "h < r_grants R" for h
  proof (cases "h = g")
    case True
    then show ?thesis using same rem False settled' [OF settled] by simp
  next
    case other: False
    then show ?thesis using inv that same rem settled' by (auto simp: lock_inv_def books_def)
  qed
  have rest: "settled R ?s h \<and> (\<forall>c<r_channels R. r_overlap R h c \<longrightarrow> r_coupling R h c (s_eirp ?s h) < F c)"
    if "h < r_grants R" "s_satisfied ?s h" "\<not> s_removed ?s h" for h
    using that rem same settled' inv by (auto simp: lock_inv_def split: if_splits)
  have "\<forall>c<r_channels R. 0 \<le> F c" using inv by (simp add: lock_inv_def)
  then show ?thesis unfolding lock_inv_def books_def using num chan grants rest by blast
qed
text \<open>
  The whole pass: every satisfied grant is locked, and each one locked is one grant less
  pending.
\<close>

lemma lock_grant_effect:
  assumes "lock_inv R T F s" "g < r_grants R"
  shows "s_eirp (fst (lock_grant R (s, k) g)) = s_eirp s"
    and "s_satisfied (fst (lock_grant R (s, k) g)) = s_satisfied s"
    and "s_removed (fst (lock_grant R (s, k) g)) h \<longleftrightarrow> s_removed s h \<or> (h = g \<and> s_satisfied s g)"
    and "s_num_unsat (fst (lock_grant R (s, k) g)) + snd (lock_grant R (s, k) g) = s_num_unsat s + k"
    and "snd (lock_grant R (s, k) g) = k \<Longrightarrow> fst (lock_grant R (s, k) g) = s"
    and "k \<le> snd (lock_grant R (s, k) g)"
proof -
  consider "s_removed s g \<or> \<not> s_satisfied s g" | "\<not> s_removed s g" "s_satisfied s g" by blast
  then have "s_eirp (fst (lock_grant R (s, k) g)) = s_eirp s
    \<and> s_satisfied (fst (lock_grant R (s, k) g)) = s_satisfied s
    \<and> (s_removed (fst (lock_grant R (s, k) g)) h \<longleftrightarrow> s_removed s h \<or> (h = g \<and> s_satisfied s g))
    \<and> s_num_unsat (fst (lock_grant R (s, k) g)) + snd (lock_grant R (s, k) g) = s_num_unsat s + k
    \<and> (snd (lock_grant R (s, k) g) = k \<longrightarrow> fst (lock_grant R (s, k) g) = s)
    \<and> k \<le> snd (lock_grant R (s, k) g)"
  proof cases
    case 1
    then show ?thesis by (auto simp: lock_grant_def)
  next
    case 2
    with assms have settled: "settled R s g" by (auto simp: lock_inv_def)
    have "0 < s_num_unsat s"
      using assms card_pending_less(1) [OF assms(2) 2(1)] by (simp add: lock_inv_def books_def)
    then show ?thesis using 2 by (auto simp: lock_grant_closed [OF settled])
  qed
  then show "s_eirp (fst (lock_grant R (s, k) g)) = s_eirp s"
    and "s_satisfied (fst (lock_grant R (s, k) g)) = s_satisfied s"
    and "s_removed (fst (lock_grant R (s, k) g)) h \<longleftrightarrow> s_removed s h \<or> (h = g \<and> s_satisfied s g)"
    and "s_num_unsat (fst (lock_grant R (s, k) g)) + snd (lock_grant R (s, k) g) = s_num_unsat s + k"
    and "snd (lock_grant R (s, k) g) = k \<Longrightarrow> fst (lock_grant R (s, k) g) = s"
    and "k \<le> snd (lock_grant R (s, k) g)"
    by blast+
qed

lemma foldl_lock_grant:
  assumes "lock_inv R T F s" "set gs \<subseteq> {..<r_grants R}" "foldl (lock_grant R) (s, k) gs = (s', k')"
  shows "lock_inv R T F s' \<and> s_eirp s' = s_eirp s \<and> s_satisfied s' = s_satisfied s
    \<and> (\<forall>h. s_removed s' h \<longleftrightarrow> s_removed s h \<or> (h \<in> set gs \<and> s_satisfied s h))
    \<and> s_num_unsat s' + k' = s_num_unsat s + k \<and> k \<le> k' \<and> (k' = k \<longrightarrow> s' = s)"
  using assms
proof (induction gs arbitrary: s k)
  case Nil
  then show ?case by simp
next
  case (Cons g gs)
  obtain s1 k1 where step: "lock_grant R (s, k) g = (s1, k1)" by fastforce
  have g: "g < r_grants R" using Cons.prems(2) by simp
  note eff = lock_grant_effect [OF Cons.prems(1) g, of k, unfolded step fst_conv snd_conv]
  have "lock_inv R T F s1" using lock_grant_inv [OF Cons.prems(1) g, of k] step by simp
  from Cons.IH [OF this, of k1] Cons.prems(2,3) step eff show ?case by auto
qed

subsection \<open>The third pass\<close>

lemma lower_grant_closed:
  assumes "\<not> s_removed s g" "\<not> s_satisfied s g"
  shows "lower_grant R s g =
    (if s_eirp s g - r_step R < r_floor R
     then s\<lparr>s_eirp := (s_eirp s)(g := s_eirp s g - r_step R),
            s_satisfied := (s_satisfied s)(g := True), s_removed := (s_removed s)(g := True),
            s_hit_floor := (s_hit_floor s)(g := True),
            s_unsat := (\<lambda>c. if c < r_channels R \<and> r_overlap R g c then s_unsat s c - 1 else s_unsat s c),
            s_fairshare := (\<lambda>c. if c < r_channels R \<and> r_overlap R g c
                                then share (s_threshold s c) (s_unsat s c - 1) else s_fairshare s c),
            s_num_unsat := s_num_unsat s - 1\<rparr>
     else s\<lparr>s_eirp := (s_eirp s)(g := s_eirp s g - r_step R)\<rparr>)"
  using assms
  by (auto simp: lower_grant_def Let_def foldl_release_channel fun_eq_iff intro!: iap_state.equality)

lemma lower_grant_skip: "s_removed s g \<or> s_satisfied s g \<Longrightarrow> lower_grant R s g = s"
  by (simp add: lower_grant_def)

lemma round_inv_chan:
  assumes "round_inv R T s" "c < r_channels R"
  shows "s_unsat s c = card (pending_on R s c)" "s_threshold s c = T - spent R s c"
    "s_fairshare s c = share (s_threshold s c) (s_unsat s c)" "0 \<le> s_threshold s c"
  using assms unfolding round_inv_def books_def by blast+

lemma round_inv_num: "round_inv R T s \<Longrightarrow> s_num_unsat s = card (pending R s)"
  by (simp add: round_inv_def books_def)

lemma lower_grant_inv:
  assumes inv: "round_inv R T s" and g: "g < r_grants R"
  shows "round_inv R T (lower_grant R s g)"
proof (cases "s_removed s g \<or> s_satisfied s g")
  case True
  then show ?thesis using inv by (simp add: lower_grant_skip)
next
  case False
  let ?s = "lower_grant R s g"
  note closed = lower_grant_closed [of s g R]
  have same: "s_threshold ?s = s_threshold s" "s_locked ?s = s_locked s"
    "\<And>h. h \<noteq> g \<Longrightarrow> s_eirp ?s h = s_eirp s h \<and> s_removed ?s h = s_removed s h
       \<and> s_satisfied ?s h = s_satisfied s h \<and> s_hit_floor ?s h = s_hit_floor s h"
    using closed False by auto
  have gone: "\<not> (s_removed ?s g \<and> \<not> s_hit_floor ?s g)" using closed False by auto
  have surv: "survivors R ?s c = survivors R s c" for c
  proof -
    have "h \<in> survivors R ?s c \<longleftrightarrow> h \<in> survivors R s c" for h
      using same(3) [of h] gone False by (cases "h = g") (auto simp: survivors_def)
    then show ?thesis by blast
  qed
  have spent: "spent R ?s c = spent R s c" for c
  proof -
    have "s_eirp ?s h = s_eirp s h" if "h \<in> survivors R s c" for h
      using same(3) [of h] that False by (cases "h = g") (auto simp: survivors_def)
    then show ?thesis by (simp add: spent_def surv)
  qed
  have settled: "settled R ?s h" if "settled R s h" "h \<noteq> g" for h
    using that same by (auto simp: settled_def)
  have grants: "(s_hit_floor ?s h \<longrightarrow> s_removed ?s h) \<and> (s_removed ?s h \<longrightarrow> s_satisfied ?s h)
      \<and> (s_removed ?s h \<and> \<not> s_hit_floor ?s h \<longrightarrow> settled R ?s h)
      \<and> (s_satisfied ?s h \<longrightarrow> s_removed ?s h)" if h: "h < r_grants R" for h
  proof (cases "h = g")
    case True
    then show ?thesis using closed False inv g by (auto simp: round_inv_def books_def)
  next
    case other: False
    have "(s_hit_floor s h \<longrightarrow> s_removed s h) \<and> (s_removed s h \<longrightarrow> s_satisfied s h)
        \<and> (s_removed s h \<and> \<not> s_hit_floor s h \<longrightarrow> settled R s h)
        \<and> (s_satisfied s h \<longrightarrow> s_removed s h)"
      using inv h unfolding round_inv_def books_def by blast
    then show ?thesis using same(3) [OF other] settled other by simp
  qed
  have books: "s_num_unsat ?s = card (pending R ?s)
      \<and> (\<forall>c<r_channels R. s_unsat ?s c = card (pending_on R ?s c)
           \<and> s_fairshare ?s c = share (s_threshold ?s c) (s_unsat ?s c))"
  proof (cases "s_eirp s g - r_step R < r_floor R")
    case True
    have rem: "s_removed ?s = (s_removed s)(g := True)" using closed False True by simp
    have chan: "s_unsat ?s c = card (pending_on R ?s c)
        \<and> s_fairshare ?s c = share (s_threshold ?s c) (s_unsat ?s c)" if "c < r_channels R" for c
    proof (cases "r_overlap R g c")
      case ov: True
      have "g \<in> pending_on R s c" using g ov False by (simp add: pending_on_def)
      then show ?thesis
        using round_inv_chan(1,3) [OF inv that] that closed False True ov pending_without(2) [OF rem g ov]
        by simp
    next
      case ov: False
      then show ?thesis
        using round_inv_chan(1,3) [OF inv that] ov closed False True pending_without(3) [OF rem g ov]
        by simp
    qed
    have "g \<in> pending R s" using g False by (simp add: pending_def)
    then have "s_num_unsat ?s = card (pending R ?s)"
      using round_inv_num [OF inv] closed False True pending_without(1) [OF rem g] by simp
    with chan show ?thesis by blast
  next
    case above: False
    have eqs: "s_removed ?s = s_removed s" "s_num_unsat ?s = s_num_unsat s" "s_unsat ?s = s_unsat s"
      "s_fairshare ?s = s_fairshare s" "s_threshold ?s = s_threshold s"
      using closed False above by simp_all
    note pend = pending_cong [OF eqs(1), of R]
    show ?thesis unfolding eqs(2-5) conjunct1 [OF pend] conjunct2 [OF pend]
      using round_inv_num [OF inv] round_inv_chan(1,3) [OF inv] by blast
  qed
  have thr: "\<forall>c<r_channels R. s_threshold ?s c = T - spent R ?s c \<and> 0 \<le> s_threshold ?s c"
    using round_inv_chan(2,4) [OF inv] same spent by simp
  show ?thesis unfolding round_inv_def books_def using grants books thr by blast
qed
subsection \<open>A round\<close>

lemma round_inv_satisfied: "round_inv R T s \<Longrightarrow> g < r_grants R \<Longrightarrow> s_satisfied s g \<longleftrightarrow> s_removed s g"
  by (auto simp: round_inv_def books_def)

text \<open>One step down for a grant of the third pass, and out when it falls below the floor.\<close>

lemma lower_grant_effect:
  assumes "round_inv R T s" "g < r_grants R"
  shows "s_eirp (lower_grant R s g) h =
      (if h = g \<and> \<not> s_removed s g then s_eirp s g - r_step R else s_eirp s h)"
    and "s_removed (lower_grant R s g) h \<longleftrightarrow>
      s_removed s h \<or> (h = g \<and> s_eirp s g - r_step R < r_floor R)"
proof -
  consider "s_removed s g" "s_satisfied s g" | "\<not> s_removed s g" "\<not> s_satisfied s g"
    using round_inv_satisfied [OF assms] by blast
  then have "s_eirp (lower_grant R s g) h =
        (if h = g \<and> \<not> s_removed s g then s_eirp s g - r_step R else s_eirp s h)
      \<and> (s_removed (lower_grant R s g) h \<longleftrightarrow>
           s_removed s h \<or> (h = g \<and> \<not> s_removed s g \<and> s_eirp s g - r_step R < r_floor R))"
    by cases (auto simp: lower_grant_skip lower_grant_closed)
  then show "s_eirp (lower_grant R s g) h =
      (if h = g \<and> \<not> s_removed s g then s_eirp s g - r_step R else s_eirp s h)"
    and "s_removed (lower_grant R s g) h \<longleftrightarrow>
      s_removed s h \<or> (h = g \<and> s_eirp s g - r_step R < r_floor R)"
    by auto
qed

lemma foldl_lower_grant:
  assumes "round_inv R T s" "set gs \<subseteq> {..<r_grants R}" "distinct gs"
  shows "round_inv R T (foldl (lower_grant R) s gs)
    \<and> (\<forall>h. s_eirp (foldl (lower_grant R) s gs) h =
             (if h \<in> set gs \<and> \<not> s_removed s h then s_eirp s h - r_step R else s_eirp s h))
    \<and> (\<forall>h. s_removed (foldl (lower_grant R) s gs) h \<longleftrightarrow>
             s_removed s h \<or> (h \<in> set gs \<and> s_eirp s h - r_step R < r_floor R))"
  using assms
proof (induction gs arbitrary: s)
  case Nil
  then show ?case by simp
next
  case (Cons g gs)
  have g: "g < r_grants R" using Cons.prems(2) by simp
  have inv: "round_inv R T (lower_grant R s g)" by (rule lower_grant_inv [OF Cons.prems(1) g])
  have "set gs \<subseteq> {..<r_grants R}" "distinct gs" "g \<notin> set gs" using Cons.prems by auto
  with Cons.IH [OF inv] lower_grant_effect [OF Cons.prems(1) g] show ?case by auto
qed

lemma lock_to_round:
  assumes "lock_inv R T F s" "\<forall>g<r_grants R. s_satisfied s g \<longrightarrow> s_removed s g"
  shows "round_inv R T s"
proof -
  have "0 \<le> s_threshold s c" if "c < r_channels R" for c
  proof -
    have "0 \<le> F c * real (s_unsat s c)" "F c * real (s_unsat s c) \<le> s_threshold s c"
      using assms(1) that by (auto simp: lock_inv_def)
    then show ?thesis by linarith
  qed
  with assms show ?thesis by (simp add: round_inv_def lock_inv_def)
qed
lemma lock_pass_effect:
  assumes inv: "round_inv R T s" and lock: "lock_pass R (scan_pass R s) = (s', k)"
  shows "round_inv R T s'" "s_eirp s' = s_eirp s" "\<forall>h. s_removed s h \<longrightarrow> s_removed s' h"
    "s_num_unsat s' + k = s_num_unsat s" "k = 0 \<Longrightarrow> s_removed s' = s_removed s"
proof -
  let ?s = "scan_pass R s" and ?F = "s_fairshare s"
  have scanned: "lock_inv R T ?F ?s" and same: "s_eirp ?s = s_eirp s" "s_removed ?s = s_removed s"
    using scan_pass_inv [OF inv] by auto
  have num: "s_num_unsat ?s = s_num_unsat s"
    using scanned inv same pending_cong [OF same(2)] by (simp add: lock_inv_def round_inv_def books_def)
  have all: "set [0..<r_grants R] \<subseteq> {..<r_grants R}" by auto
  have fold: "foldl (lock_grant R) (?s, 0) [0..<r_grants R] = (s', k)" using lock by (simp add: lock_pass_def)
  note eff = foldl_lock_grant [OF scanned all fold]
  show "round_inv R T s'"
    by (rule lock_to_round [of R T ?F]) (use eff in auto)
  show "s_eirp s' = s_eirp s" "\<forall>h. s_removed s h \<longrightarrow> s_removed s' h"
    "s_num_unsat s' + k = s_num_unsat s" "k = 0 \<Longrightarrow> s_removed s' = s_removed s"
    using eff same num by auto
qed

lemma lower_pass_effect:
  assumes "round_inv R T s"
  shows "round_inv R T (lower_pass R s)"
    and "s_eirp (lower_pass R s) h =
      (if h < r_grants R \<and> \<not> s_removed s h then s_eirp s h - r_step R else s_eirp s h)"
    and "s_removed (lower_pass R s) h \<longleftrightarrow>
      s_removed s h \<or> (h < r_grants R \<and> s_eirp s h - r_step R < r_floor R)"
  using foldl_lower_grant [OF assms, of "[0..<r_grants R]"]
  by (auto simp: lower_pass_def lessThan_atLeast0)

lemma iap_round_inv:
  assumes "round_inv R T s"
  shows "round_inv R T (iap_round R s)"
proof -
  obtain s' k where lock: "lock_pass R (scan_pass R s) = (s', k)" by fastforce
  show ?thesis
    using lock_pass_effect(1) [OF assms lock] lower_pass_effect(1) lock by (simp add: iap_round_def)
qed

text \<open>
  What a round does to the pending grants: it locks some of them at their EIRP, or it lowers
  every one of them by a step.
\<close>

lemma iap_round_effect:
  assumes inv: "round_inv R T s"
  obtains (locks) "s_eirp (iap_round R s) = s_eirp s" "\<forall>h. s_removed s h \<longrightarrow> s_removed (iap_round R s) h"
      "s_num_unsat (iap_round R s) < s_num_unsat s"
  | (lowers) "\<forall>h. s_eirp (iap_round R s) h =
        (if h < r_grants R \<and> \<not> s_removed s h then s_eirp s h - r_step R else s_eirp s h)"
      "\<forall>h. s_removed (iap_round R s) h \<longleftrightarrow>
        s_removed s h \<or> (h < r_grants R \<and> s_eirp s h - r_step R < r_floor R)"
proof -
  obtain s' k where lock: "lock_pass R (scan_pass R s) = (s', k)" by fastforce
  note eff = lock_pass_effect [OF inv lock]
  show thesis
  proof (cases "0 < k")
    case True
    then show thesis using eff lock by (intro locks) (auto simp: iap_round_def)
  next
    case False
    then show thesis using eff lock lower_pass_effect [OF eff(1)] by (intro lowers) (auto simp: iap_round_def)
  qed
qed

subsection \<open>The loop\<close>

lemma iap_loop_inv: "round_inv R T s \<Longrightarrow> round_inv R T (iap_loop R k s)"
  by (induction k arbitrary: s) (auto simp: iap_round_inv)

lemma iap_round_lowers:
  assumes "round_inv R T s" "0 \<le> r_step R"
  shows "s_eirp (iap_round R s) g \<le> s_eirp s g"
  using assms(1)
proof (cases rule: iap_round_effect)
  case locks
  then show ?thesis by simp
next
  case lowers
  then show ?thesis using assms(2) by simp
qed

lemma iap_loop_lowers:
  assumes "round_inv R T s" "0 \<le> r_step R"
  shows "s_eirp (iap_loop R k s) g \<le> s_eirp s g"
  using assms(1)
proof (induction k arbitrary: s)
  case (Suc k)
  have "s_eirp (iap_loop R k (iap_round R s)) g \<le> s_eirp (iap_round R s) g"
    by (rule Suc.IH [OF iap_round_inv [OF Suc.prems]])
  also have "\<dots> \<le> s_eirp s g" by (rule iap_round_lowers [OF Suc.prems assms(2)])
  finally show ?case by simp
qed simp

text \<open>
  Enough rounds: a round locks a pending grant or takes a step off all of them, and no grant
  survives more steps than separate it from the floor.
\<close>

lemma pending_mono: "\<forall>h. s_removed s h \<longrightarrow> s_removed s' h \<Longrightarrow> pending R s' \<subseteq> pending R s"
  by (auto simp: pending_def)

lemma iap_round_progress:
  assumes inv: "round_inv R T s" and busy: "0 < s_num_unsat s" and pos: "0 \<le> r_step R"
    and high: "\<forall>g\<in>pending R s. s_eirp s g < r_floor R + r_step R * real K"
  obtains K' where "s_num_unsat (iap_round R s) + K' < s_num_unsat s + K"
    and "\<forall>g\<in>pending R (iap_round R s). s_eirp (iap_round R s) g < r_floor R + r_step R * real K'"
proof -
  let ?s = "iap_round R s"
  have num: "s_num_unsat s = card (pending R s)" "s_num_unsat ?s = card (pending R ?s)"
    using inv iap_round_inv [OF inv] by (auto simp: round_inv_def books_def)
  from inv show thesis
  proof (cases rule: iap_round_effect)
    case locks
    then have "\<forall>g\<in>pending R ?s. s_eirp ?s g < r_floor R + r_step R * real K"
      using high pending_mono [OF locks(2), of R] by auto
    with locks(3) that [of K] show thesis by simp
  next
    case lowers
    have sub: "pending R ?s \<subseteq> pending R s" by (rule pending_mono) (use lowers in blast)
    then have le: "s_num_unsat ?s \<le> s_num_unsat s" unfolding num by (intro card_mono) auto
    have step: "s_eirp ?s g = s_eirp s g - r_step R \<and> \<not> s_eirp s g - r_step R < r_floor R"
      if "g \<in> pending R ?s" for g
      using that sub lowers by (auto simp: pending_def)
    show thesis
    proof (cases K)
      case 0
      have "pending R ?s = {}" using step high sub 0 pos by fastforce
      then show thesis using that [of 0] busy num(2) 0 by simp
    next
      case (Suc n)
      have "s_eirp ?s g < r_floor R + r_step R * real n" if "g \<in> pending R ?s" for g
        using step [OF that] bspec [OF high, of g] sub that Suc by (auto simp: algebra_simps)
      then show thesis using that [of n] le Suc by simp
    qed
  qed
qed
lemma iap_loop_converges:
  assumes "round_inv R T s" "0 \<le> r_step R"
    and "\<forall>g\<in>pending R s. s_eirp s g < r_floor R + r_step R * real K"
    and "s_num_unsat s + K \<le> k"
  shows "s_num_unsat (iap_loop R k s) = 0"
  using assms(1,3,4)
proof (induction k arbitrary: s K)
  case 0
  then show ?case by simp
next
  case (Suc k)
  show ?case
  proof (cases "0 < s_num_unsat s")
    case True
    obtain K' where "s_num_unsat (iap_round R s) + K' < s_num_unsat s + K"
      and "\<forall>g\<in>pending R (iap_round R s). s_eirp (iap_round R s) g < r_floor R + r_step R * real K'"
      by (rule iap_round_progress [OF Suc.prems(1) True assms(2) Suc.prems(2)])
    with Suc.IH [OF iap_round_inv [OF Suc.prems(1)], of K'] Suc.prems(3) True show ?thesis by simp
  qed simp
qed

lemma start_state_inv:
  assumes "0 \<le> T"
  shows "round_inv R T (start_state R T e)"
proof -
  have "length (filter (\<lambda>g. r_overlap R g c) [0..<r_grants R]) = card {g. g < r_grants R \<and> r_overlap R g c}" for c
  proof -
    have "length (filter (\<lambda>g. r_overlap R g c) [0..<r_grants R])
        = card (set (filter (\<lambda>g. r_overlap R g c) [0..<r_grants R]))"
      by (rule distinct_card [symmetric]) simp
    also have "set (filter (\<lambda>g. r_overlap R g c) [0..<r_grants R]) = {g. g < r_grants R \<and> r_overlap R g c}"
      by auto
    finally show ?thesis .
  qed
  with assms show ?thesis
    by (simp add: round_inv_def books_def start_state_def pending_def pending_on_def spent_def survivors_def)
qed

text \<open>
  When no grant is left unsatisfied, every one is removed: those not at the floor are locked on
  some channel, and together they fit the threshold of every channel.
\<close>

lemma converged_grants:
  assumes "round_inv R T s" "s_num_unsat s = 0" "g < r_grants R"
  shows "s_removed s g" and "\<not> s_hit_floor s g \<Longrightarrow> settled R s g"
proof -
  have "pending R s = {}" using round_inv_num [OF assms(1)] assms(2) by simp
  then show "s_removed s g" using assms(3) by (auto simp: pending_def)
  then show "\<not> s_hit_floor s g \<Longrightarrow> settled R s g" using assms(1,3) by (simp add: round_inv_def books_def)
qed

lemma converged_budget:
  assumes "round_inv R T s" "s_num_unsat s = 0" "c < r_channels R"
  shows "(\<Sum>g | g < r_grants R \<and> r_overlap R g c \<and> \<not> s_hit_floor s g. r_coupling R g c (s_eirp s g)) \<le> T"
proof -
  have "survivors R s c = {g. g < r_grants R \<and> r_overlap R g c \<and> \<not> s_hit_floor s g}"
    using converged_grants(1) [OF assms(1,2)] by (auto simp: survivors_def)
  then show ?thesis using round_inv_chan(2,4) [OF assms(1,3)] by (simp add: spent_def)
qed

subsection \<open>The decisions at a point\<close>

definition point_run :: "protection_point \<Rightarrow> grant_rf list \<Rightarrow> frequency_channel list \<Rightarrow> coupling
    \<Rightarrow> iap_config \<Rightarrow> iap_state" where
  "point_run pt neighbors channels cpl cfg =
     iap_loop (iap_run_of pt neighbors channels cpl cfg) (cf_max_iterations cfg)
       (start_state (iap_run_of pt neighbors channels cpl cfg) (point_threshold_mw pt)
          (\<lambda>g. rf_max_eirp (neighbors ! g)))"

lemma iap_run_of_simps [simp]:
  "r_grants (iap_run_of pt ns cs cpl cfg) = length ns" "r_channels (iap_run_of pt ns cs cpl cfg) = length cs"
  "r_overlap (iap_run_of pt ns cs cpl cfg) g c = grant_overlaps_channel (pp_kind pt) (ns ! g) (cs ! c)"
  "r_coupling (iap_run_of pt ns cs cpl cfg) g c e = cpl (ns ! g) pt (cs ! c) e"
  "r_floor (iap_run_of pt ns cs cpl cfg) = cf_floor cfg" "r_step (iap_run_of pt ns cs cpl cfg) = cf_step cfg"
  by (simp_all add: iap_run_of_def)

lemma ir_channels_run [simp]:
  "ir_channels (run_iap_for_point origin pt grants cpl cfg)
     = overlapping_iap_channels origin IAPBW_HZ (pp_low pt) (pp_high pt)"
  by (simp add: run_iap_for_point_def Let_def)

lemma ir_decisions_run:
  assumes "overlapping_iap_channels origin IAPBW_HZ (pp_low pt) (pp_high pt) = channels" "channels \<noteq> []"
    and "grants_in_neighborhood pt grants = neighbors" "neighbors \<noteq> []"
  shows "ir_decisions (run_iap_for_point origin pt grants cpl cfg) =
    map (\<lambda>g. decide_grant (iap_run_of pt neighbors channels cpl cfg)
               (point_run pt neighbors channels cpl cfg) g (neighbors ! g))
        (filter (\<lambda>g. rf_managing (neighbors ! g)) [0..<length neighbors])"
  using assms by (simp add: run_iap_for_point_def Let_def point_run_def)

lemma point_threshold_positive: "0 < point_threshold_mw pt"
  by (simp add: point_threshold_mw_def dbm_to_mw_def)

lemma point_run_inv:
  "round_inv (iap_run_of pt ns cs cpl cfg) (point_threshold_mw pt) (point_run pt ns cs cpl cfg)"
  unfolding point_run_def
  by (intro iap_loop_inv start_state_inv less_imp_le [OF point_threshold_positive])

text \<open>
  The size of the work: the neighbours, and the steps from the highest EIRP to the floor.
\<close>

definition enough_rounds :: "iap_config \<Rightarrow> grant_rf list \<Rightarrow> nat \<Rightarrow> bool" where
  "enough_rounds cfg grants K =
     (0 \<le> cf_step cfg \<and> length grants + K \<le> cf_max_iterations cfg
      \<and> (\<forall>g\<in>set grants. rf_max_eirp g < cf_floor cfg + cf_step cfg * real K))"

lemma enough_rounds_filter: "enough_rounds cfg grants K \<Longrightarrow> enough_rounds cfg (filter P grants) K"
  by (auto simp: enough_rounds_def intro: order_trans [OF add_right_mono [OF length_filter_le]])

lemma point_run_converges:
  assumes "enough_rounds cfg ns K"
  shows "s_num_unsat (point_run pt ns cs cpl cfg) = 0"
  unfolding point_run_def
proof (rule iap_loop_converges [where K = K])
  show "round_inv (iap_run_of pt ns cs cpl cfg) (point_threshold_mw pt)
     (start_state (iap_run_of pt ns cs cpl cfg) (point_threshold_mw pt) (\<lambda>g. rf_max_eirp (ns ! g)))"
    by (intro start_state_inv less_imp_le [OF point_threshold_positive])
qed (use assms in \<open>auto simp: enough_rounds_def start_state_def pending_def\<close>)

lemma decide_grant_converged:
  assumes "enough_rounds cfg ns K" "g < length ns"
  shows "id_action (decide_grant (iap_run_of pt ns cs cpl cfg) (point_run pt ns cs cpl cfg) g rf) = Terminate_Grant
      \<longleftrightarrow> s_hit_floor (point_run pt ns cs cpl cfg) g"
proof -
  let ?R = "iap_run_of pt ns cs cpl cfg" and ?s = "point_run pt ns cs cpl cfg"
  have "list_ex (\<lambda>c. s_locked ?s (g, c) \<noteq> None) [0..<r_channels ?R]" if "\<not> s_hit_floor ?s g"
  proof -
    have "settled ?R ?s g"
      using converged_grants(2) [OF point_run_inv point_run_converges [OF assms(1)]] assms(2) that by simp
    then show ?thesis by (force simp: settled_def list_ex_iff)
  qed
  then show ?thesis by (auto simp: decide_grant_def Let_def)
qed

lemma decide_grant_authorized:
  "id_action (decide_grant R s g rf) \<noteq> Terminate_Grant \<Longrightarrow> id_authorized (decide_grant R s g rf) = s_eirp s g"
  by (auto simp: decide_grant_def Let_def split: if_splits)

lemma point_run_eirp:
  assumes "0 \<le> cf_step cfg"
  shows "s_eirp (point_run pt ns cs cpl cfg) g \<le> rf_max_eirp (ns ! g)"
proof -
  have "round_inv (iap_run_of pt ns cs cpl cfg) (point_threshold_mw pt)
     (start_state (iap_run_of pt ns cs cpl cfg) (point_threshold_mw pt) (\<lambda>g. rf_max_eirp (ns ! g)))"
    by (intro start_state_inv less_imp_le [OF point_threshold_positive])
  from iap_loop_lowers [OF this, of "cf_max_iterations cfg" g] assms
  show ?thesis unfolding point_run_def by (simp add: start_state_def Let_def)
qed

end
