(* ===== verification/IapSafety.thy ===== *)
theory IapSafety
  imports IapRounds
begin

text \<open>
  What the allocation promises: at every protection point and on every 5 MHz channel the
  grants it lets transmit fit the threshold, also after the decisions of all points are merged;
  the rounds allowed are enough; and the grants no channel of the point hears.
\<close>

subsection \<open>One point\<close>

lemma decide_grant_id [simp]: "id_grant_id (decide_grant R s i g) = rf_grant_id g"
  by (simp add: decide_grant_def Let_def split: prod.split)

lemma filter_positions: "filter P xs = map ((!) xs) (filter (\<lambda>i. P (xs ! i)) [0..<length xs])"
  by (metis (no_types, lifting) filter_cong filter_map map_nth o_apply)

lemma zip_map_map: "zip (map f xs) (map h xs) = map (\<lambda>x. (f x, h x)) xs"
  by (induction xs) auto

lemma sum_list_positions:
  fixes f :: "nat \<Rightarrow> real"
  assumes "\<And>i. i < n \<Longrightarrow> 0 \<le> f i"
  shows "sum_list (map (\<lambda>i. if Q i then f i else 0) (filter P [0..<n])) \<le> (\<Sum>i | i < n \<and> Q i. f i)"
proof -
  have "sum_list (map (\<lambda>i. if Q i then f i else 0) (filter P [0..<n]))
      = (\<Sum>i\<in>set (filter P [0..<n]). if Q i then f i else 0)"
    by (simp add: sum_list_distinct_conv_sum_set)
  also have "\<dots> = (\<Sum>i\<in>{i. i < n \<and> P i \<and> Q i}. f i)"
    by (rule sum.mono_neutral_cong_right) auto
  also have "\<dots> \<le> (\<Sum>i | i < n \<and> Q i. f i)"
    using assms by (intro sum_mono2) auto
  finally show ?thesis .
qed

text \<open>The interference a decision lets a grant cause on a channel.\<close>

definition allowed_mw :: "coupling \<Rightarrow> protection_point \<Rightarrow> frequency_channel \<Rightarrow> grant_rf \<Rightarrow> iap_decision \<Rightarrow> real" where
  "allowed_mw cpl pt ch g d =
     (if grant_overlaps_channel (pp_kind pt) g ch \<and> id_action d \<noteq> Terminate_Grant
      then cpl g pt ch (id_authorized d) else 0)"

lemma point_allowed:
  assumes enough: "enough_rounds cfg ns K" and nonneg: "\<And>g ch e. 0 \<le> cpl g pt ch e" and c: "c < length cs"
  shows "(\<Sum>i\<leftarrow>filter P [0..<length ns]. allowed_mw cpl pt (cs ! c) (ns ! i)
            (decide_grant (iap_run_of pt ns cs cpl cfg) (point_run pt ns cs cpl cfg) i (ns ! i)))
         \<le> point_threshold_mw pt"
proof -
  let ?R = "iap_run_of pt ns cs cpl cfg" and ?s = "point_run pt ns cs cpl cfg"
  let ?Q = "\<lambda>i. r_overlap ?R i c \<and> \<not> s_hit_floor ?s i"
  have "(\<Sum>i\<leftarrow>filter P [0..<length ns]. allowed_mw cpl pt (cs ! c) (ns ! i) (decide_grant ?R ?s i (ns ! i)))
      = (\<Sum>i\<leftarrow>filter P [0..<length ns]. if ?Q i then r_coupling ?R i c (s_eirp ?s i) else 0)"
    using decide_grant_converged [OF enough]
    by (intro arg_cong [where f = sum_list] map_cong) (auto simp: allowed_mw_def decide_grant_authorized)
  also have "\<dots> \<le> (\<Sum>i | i < length ns \<and> ?Q i. r_coupling ?R i c (s_eirp ?s i))"
    by (rule sum_list_positions) (simp add: nonneg)
  also have "\<dots> \<le> point_threshold_mw pt"
    using converged_budget [of ?R "point_threshold_mw pt" ?s c, OF point_run_inv point_run_converges [OF enough]] c
    by simp
  finally show ?thesis .
qed

text \<open>
  At convergence the managed grants a point's decisions let transmit, at the EIRP these
  authorise, cause at most the threshold on each of the point's channels: for every neighbour,
  however the propagation model couples it, provided interference is never negative and the rounds
  allowed cover the neighbours and the steps from the highest EIRP to the floor.
\<close>

theorem iap_point_protects:
  assumes "enough_rounds cfg grants K"
    and "\<And>g ch e. 0 \<le> cpl g pt ch e"
    and "ch \<in> set (overlapping_iap_channels origin IAPBW_HZ (pp_low pt) (pp_high pt))"
  shows "(\<Sum>(g, d)\<leftarrow>zip (filter rf_managing (grants_in_neighborhood pt grants))
                     (ir_decisions (run_iap_for_point origin pt grants cpl cfg)).
            allowed_mw cpl pt ch g d) \<le> point_threshold_mw pt"
proof (cases "grants_in_neighborhood pt grants = []")
  case True
  then show ?thesis using less_imp_le [OF point_threshold_positive] by simp
next
  case False
  define ns where "ns = grants_in_neighborhood pt grants"
  define cs where "cs = overlapping_iap_channels origin IAPBW_HZ (pp_low pt) (pp_high pt)"
  from assms(3) obtain c where c: "c < length cs" "cs ! c = ch" by (auto simp: cs_def in_set_conv_nth)
  have "enough_rounds cfg ns K"
    unfolding ns_def grants_in_neighborhood_def by (rule enough_rounds_filter [OF assms(1)])
  note allowed = point_allowed [of cfg ns K cpl pt c cs, OF this assms(2) c(1), unfolded c(2)]
  have "cs \<noteq> []" "ns \<noteq> []" using c(1) False by (auto simp: ns_def)
  with ir_decisions_run [of origin pt cs grants ns cpl cfg]
  have dec: "ir_decisions (run_iap_for_point origin pt grants cpl cfg) =
    map (\<lambda>g. decide_grant (iap_run_of pt ns cs cpl cfg) (point_run pt ns cs cpl cfg) g (ns ! g))
        (filter (\<lambda>g. rf_managing (ns ! g)) [0..<length ns])"
    by (simp add: ns_def cs_def)
  show ?thesis
    unfolding ns_def [symmetric] filter_positions [of rf_managing ns] dec zip_map_map map_map o_def prod.case
    by (rule allowed)
qed
text \<open>
  C26. The rounds end with every neighbour decided, well before the limit on the iterations:
  each round locks a grant or takes a step off all the others, so as many rounds as there are
  neighbours and steps between the highest EIRP and the floor are enough. With the code's limit of
  10000, floor of -137 dBm/MHz and step of 1 dB this covers 9800 grants of at most 62 dBm/MHz.
\<close>

theorem iap_allocation_completes:
  assumes "enough_rounds cfg neighbors K"
  shows "s_num_unsat (iap_loop (iap_run_of pt neighbors channels cpl cfg) (cf_max_iterations cfg)
           (start_state (iap_run_of pt neighbors channels cpl cfg) (point_threshold_mw pt)
              (\<lambda>g. rf_max_eirp (neighbors ! g)))) = 0"
  using point_run_converges [OF assms] by (simp add: point_run_def)

subsection \<open>Grants no channel hears\<close>

text \<open>
  A neighbour that overlaps none of the considered channels (an ESC neighbour of category A
  at 3660 MHz or above) is not left alone: it is never satisfied, so the rounds take it
  down to the floor and its decision is to terminate, although it cannot interfere.
\<close>

theorem unheard_grant_terminated:
  assumes "enough_rounds cfg grants K"
    and "channels = overlapping_iap_channels origin IAPBW_HZ (pp_low pt) (pp_high pt)" "channels \<noteq> []"
    and "g \<in> set (grants_in_neighborhood pt grants)" "rf_managing g"
    and "\<forall>ch\<in>set channels. \<not> grant_overlaps_channel (pp_kind pt) g ch"
  shows "\<exists>d\<in>set (ir_decisions (run_iap_for_point origin pt grants cpl cfg)).
           id_grant_id d = rf_grant_id g \<and> id_action d = Terminate_Grant"
proof -
  define ns where "ns = grants_in_neighborhood pt grants"
  let ?R = "iap_run_of pt ns channels cpl cfg" and ?s = "point_run pt ns channels cpl cfg"
  from assms(4) obtain i where i: "i < length ns" "ns ! i = g" by (auto simp: ns_def in_set_conv_nth)
  have enough: "enough_rounds cfg ns K"
    unfolding ns_def grants_in_neighborhood_def by (rule enough_rounds_filter [OF assms(1)])
  have "\<not> settled ?R ?s i" using i assms(6) by (simp add: settled_def)
  then have "s_hit_floor ?s i"
    using converged_grants(2) [OF point_run_inv point_run_converges [OF enough]] i(1) by auto
  then have act: "id_action (decide_grant ?R ?s i (ns ! i)) = Terminate_Grant"
    using decide_grant_converged [OF enough i(1)] by simp
  have "i \<in> set (filter (\<lambda>g. rf_managing (ns ! g)) [0..<length ns])" using i assms(5) by simp
  moreover have "id_grant_id (decide_grant ?R ?s i (ns ! i)) = rf_grant_id g" using i by simp
  moreover have "ir_decisions (run_iap_for_point origin pt grants cpl cfg) =
    map (\<lambda>g. decide_grant ?R ?s g (ns ! g)) (filter (\<lambda>g. rf_managing (ns ! g)) [0..<length ns])"
    using ir_decisions_run [OF assms(2) [symmetric] assms(3) ns_def [symmetric]] i(1) by force
  ultimately show ?thesis using act by (intro bexI [of _ "decide_grant ?R ?s i (ns ! i)"]) auto
qed

subsection \<open>Merging the points\<close>

text \<open>
  The shape of a decision about a grant of a given initial EIRP, and when one decision is at
  least as strict as another.
\<close>

definition well_decided :: "real \<Rightarrow> iap_decision \<Rightarrow> bool" where
  "well_decided initial d = (case id_action d of
      Keep \<Rightarrow> initial \<le> id_authorized d + 1 / 10 ^ 9
    | Reduce_Power \<Rightarrow> id_authorized d + 1 / 10 ^ 9 < initial
    | Suspend_Grant \<Rightarrow> False
    | Terminate_Grant \<Rightarrow> True)"

definition at_least_as_strict :: "iap_decision \<Rightarrow> iap_decision \<Rightarrow> bool" where
  "at_least_as_strict m d =
     (id_grant_id m = id_grant_id d \<and> action_rank (id_action d) \<le> action_rank (id_action m)
      \<and> (id_action m \<noteq> Terminate_Grant \<longrightarrow> id_authorized m \<le> id_authorized d))"

lemma merge_two_strict:
  assumes "well_decided e prev" "well_decided e d" "id_grant_id prev = id_grant_id d"
  shows "at_least_as_strict (merge_two prev d) prev" "at_least_as_strict (merge_two prev d) d"
    "well_decided e (merge_two prev d)" "id_grant_id (merge_two prev d) = id_grant_id d"
  using assms
  by (cases "id_action prev"; cases "id_action d";
      auto simp: merge_two_def at_least_as_strict_def well_decided_def action_rank_def)+

lemma strict_trans: "at_least_as_strict a b \<Longrightarrow> at_least_as_strict b c \<Longrightarrow> at_least_as_strict a c"
  by (cases "id_action a"; cases "id_action b"; cases "id_action c";
      auto simp: at_least_as_strict_def action_rank_def)

lemma strict_refl: "at_least_as_strict d d"
  by (simp add: at_least_as_strict_def)

definition merged_upto :: "(string \<Rightarrow> real) \<Rightarrow> iap_decision list \<Rightarrow> (string \<times> iap_decision) list \<Rightarrow> bool" where
  "merged_upto initial ds best =
     ((\<forall>k m. map_of best k = Some m \<longrightarrow> id_grant_id m = k \<and> well_decided (initial k) m)
      \<and> (\<forall>d\<in>set ds. \<exists>m. map_of best (id_grant_id d) = Some m \<and> at_least_as_strict m d))"

lemma merge_step_merged:
  assumes "merged_upto initial ds best" "well_decided (initial (id_grant_id d)) d"
  shows "merged_upto initial (ds @ [d]) (merge_step best d)"
proof -
  let ?k = "id_grant_id d"
  define m where "m = (case map_of best ?k of None \<Rightarrow> d | Some prev \<Rightarrow> merge_two prev d)"
  have m: "at_least_as_strict m d" "id_grant_id m = ?k" "well_decided (initial ?k) m"
    and old: "\<And>prev. map_of best ?k = Some prev \<Longrightarrow> at_least_as_strict m prev"
    using assms merge_two_strict [of "initial ?k" _ d]
    by (auto simp: m_def merged_upto_def strict_refl split: option.splits)
  have step: "map_of (merge_step best d) = (map_of best)(?k \<mapsto> m)"
    by (simp add: merge_step_def m_def update_conv')
  have "\<exists>m'. map_of (merge_step best d) (id_grant_id d') = Some m' \<and> at_least_as_strict m' d'"
    if "d' \<in> set ds" for d'
  proof -
    from that assms(1) obtain p where "map_of best (id_grant_id d') = Some p" "at_least_as_strict p d'"
      by (auto simp: merged_upto_def)
    then show ?thesis using old strict_trans by (cases "id_grant_id d' = ?k") (auto simp: step)
  qed
  moreover have "map_of (merge_step best d) ?k = Some m" by (simp add: step)
  ultimately show ?thesis using assms(1) m by (auto simp: merged_upto_def step)
qed

lemma merge_foldl:
  assumes "merged_upto initial ds best" "\<forall>d\<in>set ds'. well_decided (initial (id_grant_id d)) d"
  shows "merged_upto initial (ds @ ds') (foldl merge_step best ds')"
  using assms
proof (induction ds' arbitrary: ds best)
  case (Cons d ds')
  from Cons.IH [OF merge_step_merged] Cons.prems show ?case by fastforce
qed simp

text \<open>The merged decision for a grant.\<close>

definition merged_for :: "iap_decision list \<Rightarrow> string \<Rightarrow> iap_decision option" where
  "merged_for ds k = List.find (\<lambda>d. id_grant_id d = k) ds"

lemma merged_for_strict:
  assumes "\<forall>d\<in>set (concat (map ir_decisions results)). well_decided (initial (id_grant_id d)) d"
    and "d \<in> set (concat (map ir_decisions results))"
  obtains m where "merged_for (merge_iap_decisions results) (id_grant_id d) = Some m" "at_least_as_strict m d"
proof -
  define best where "best = foldl merge_step [] (concat (map ir_decisions results))"
  have "merged_upto initial [] []" by (simp add: merged_upto_def)
  from merge_foldl [OF this assms(1)]
  have best: "merged_upto initial (concat (map ir_decisions results)) best" by (simp add: best_def)
  from best assms(2) obtain m where m: "map_of best (id_grant_id d) = Some m" "at_least_as_strict m d"
    unfolding merged_upto_def by blast
  have own: "id_grant_id (the (map_of best k)) = k" if "k \<in> set (map fst best)" for k
    using that best by (auto simp: merged_upto_def dest!: weak_map_of_SomeI)
  have find: "List.find (\<lambda>x. id_grant_id x = k) (map (\<lambda>k. the (map_of best k)) ks) = Some (the (map_of best k))"
    if "k \<in> set ks" "set ks \<subseteq> set (map fst best)" for k ks
    using that own by (induction ks) auto
  have "id_grant_id d \<in> set (map fst best)" using m(1) by (force dest: map_of_SomeD)
  then have "merged_for (merge_iap_decisions results) (id_grant_id d) = Some m"
    using find [of "id_grant_id d" "sort (map fst best)"] m(1)
    by (simp add: merged_for_def merge_iap_decisions_def best_def [symmetric] Let_def)
  with m(2) that show thesis by blast
qed
lemma decisions_well_decided:
  assumes "d \<in> set (ir_decisions (run_iap_for_point origin pt grants cpl cfg))"
  obtains g where "g \<in> set grants" "id_grant_id d = rf_grant_id g" "well_decided (rf_max_eirp g) d"
proof -
  have dec: "id_grant_id (decide_grant R s i g) = rf_grant_id g \<and> well_decided (rf_max_eirp g) (decide_grant R s i g)"
    for R s i g
    by (auto simp: decide_grant_def well_decided_def Let_def)
  have "set (grants_in_neighborhood pt grants) \<subseteq> set grants" by (auto simp: grants_in_neighborhood_def)
  then have nb: "grants_in_neighborhood pt grants ! i \<in> set grants"
    if "i < length (grants_in_neighborhood pt grants)" for i
    using that nth_mem by blast
  consider (kept) g where "g \<in> set grants" "d = keep_decision g"
    | (decided) R s i where "i < length (grants_in_neighborhood pt grants)"
        "d = decide_grant R s i (grants_in_neighborhood pt grants ! i)"
    using assms by (auto simp: run_iap_for_point_def Let_def split: if_splits)
  then show thesis
  proof cases
    case kept
    with that [of g] show thesis by (simp add: keep_decision_def well_decided_def)
  next
    case decided
    with that [OF nb] dec show thesis by simp
  qed
qed

definition initial_eirp :: "grant_rf list \<Rightarrow> string \<Rightarrow> real" where
  "initial_eirp grants k = (case map_of (map (\<lambda>g. (rf_grant_id g, rf_max_eirp g)) grants) k of
     Some e \<Rightarrow> e | None \<Rightarrow> 0)"

lemma initial_eirp_known:
  assumes "distinct (map rf_grant_id grants)" "g \<in> set grants"
  shows "initial_eirp grants (rf_grant_id g) = rf_max_eirp g"
proof -
  have "distinct (map fst (map (\<lambda>g. (rf_grant_id g, rf_max_eirp g)) grants))"
    using assms(1) by (simp add: o_def)
  then have "map_of (map (\<lambda>g. (rf_grant_id g, rf_max_eirp g)) grants) (rf_grant_id g) = Some (rf_max_eirp g)"
    using assms(2) by (intro map_of_is_SomeI) auto
  then show ?thesis by (simp add: initial_eirp_def)
qed

lemma allowed_strict:
  assumes "at_least_as_strict m d" "\<And>g pt ch e. 0 \<le> cpl g pt ch e"
    and "\<And>g pt ch e e'. e \<le> e' \<Longrightarrow> cpl g pt ch e \<le> cpl g pt ch e'"
  shows "allowed_mw cpl pt ch g m \<le> allowed_mw cpl pt ch g d"
  using assms by (cases "id_action m"; cases "id_action d";
      auto simp: at_least_as_strict_def allowed_mw_def action_rank_def)

lemma merged_decisions_protect:
  assumes "enough_rounds cfg grants K" "distinct (map rf_grant_id grants)"
    and "\<And>g pt ch e. 0 \<le> cpl g pt ch e"
    and "\<And>g pt ch e e'. e \<le> e' \<Longrightarrow> cpl g pt ch e \<le> cpl g pt ch e'"
    and "pt \<in> set points" "ch \<in> set (overlapping_iap_channels origin IAPBW_HZ (pp_low pt) (pp_high pt))"
  shows "(\<Sum>g\<leftarrow>filter rf_managing (grants_in_neighborhood pt grants).
            allowed_mw cpl pt ch g (the (merged_for (snd (run_iap origin points grants cpl cfg)) (rf_grant_id g))))
         \<le> point_threshold_mw pt"
proof (cases "grants_in_neighborhood pt grants = []")
  case True
  then show ?thesis using less_imp_le [OF point_threshold_positive] by simp
next
  case False
  define ns where "ns = grants_in_neighborhood pt grants"
  define cs where "cs = overlapping_iap_channels origin IAPBW_HZ (pp_low pt) (pp_high pt)"
  define results where "results = map (\<lambda>p. run_iap_for_point origin p grants cpl cfg) points"
  let ?dec = "\<lambda>i. decide_grant (iap_run_of pt ns cs cpl cfg) (point_run pt ns cs cpl cfg) i (ns ! i)"
  let ?m = "\<lambda>i. the (merged_for (merge_iap_decisions results) (rf_grant_id (ns ! i)))"
  let ?I = "filter (\<lambda>i. rf_managing (ns ! i)) [0..<length ns]"
  from assms(6) obtain c where c: "c < length cs" "cs ! c = ch" by (auto simp: cs_def in_set_conv_nth)
  have "cs \<noteq> []" "ns \<noteq> []" using c(1) False by (auto simp: ns_def)
  with ir_decisions_run [of origin pt cs grants ns cpl cfg]
  have dec: "ir_decisions (run_iap_for_point origin pt grants cpl cfg) = map ?dec ?I"
    by (simp add: ns_def cs_def)
  have well: "\<forall>d\<in>set (concat (map ir_decisions results)).
      well_decided (initial_eirp grants (id_grant_id d)) d"
    using initial_eirp_known [OF assms(2)]
    by (auto simp: results_def elim!: decisions_well_decided)
  have strict: "at_least_as_strict (?m i) (?dec i)" if "i \<in> set ?I" for i
  proof -
    have "?dec i \<in> set (ir_decisions (run_iap_for_point origin pt grants cpl cfg))"
      using that unfolding dec by auto
    with assms(5) have "?dec i \<in> set (concat (map ir_decisions results))"
      unfolding results_def by auto
    then obtain m where "merged_for (merge_iap_decisions results) (id_grant_id (?dec i)) = Some m"
      "at_least_as_strict m (?dec i)"
      using merged_for_strict [OF well] by blast
    then show ?thesis by simp
  qed
  have "(\<Sum>i\<leftarrow>?I. allowed_mw cpl pt ch (ns ! i) (?m i)) \<le> (\<Sum>i\<leftarrow>?I. allowed_mw cpl pt ch (ns ! i) (?dec i))"
    by (rule sum_list_mono) (rule allowed_strict [OF strict assms(3,4)])
  also have "\<dots> \<le> point_threshold_mw pt"
  proof -
    have "enough_rounds cfg ns K"
      unfolding ns_def grants_in_neighborhood_def by (rule enough_rounds_filter [OF assms(1)])
    from point_allowed [of cfg ns K cpl pt c cs, OF this assms(3) c(1)] c(2) show ?thesis by simp
  qed
  finally show ?thesis
    unfolding ns_def [symmetric] filter_positions [of rf_managing ns] map_map o_def run_iap_def Let_def snd_conv
      results_def [symmetric] .
qed

text \<open>
  C6. The merged decisions protect every point at once: on each channel of each
  protection point the managed neighbours of the point, each at the EIRP its merged decision
  authorises and the terminated ones silent, together stay within the threshold. The propagation
  model is any coupling that is never negative and grows with the EIRP.
\<close>

theorem run_iap_protects:
  assumes "enough_rounds cfg grants K" "distinct (map rf_grant_id grants)"
    and "\<And>g pt ch e. 0 \<le> cpl g pt ch e"
    and "\<And>g pt ch e e'. e \<le> e' \<Longrightarrow> cpl g pt ch e \<le> cpl g pt ch e'"
    and "pt \<in> set points" "ch \<in> set (overlapping_iap_channels origin IAPBW_HZ (pp_low pt) (pp_high pt))"
  shows "(\<Sum>g\<leftarrow>filter rf_managing (grants_in_neighborhood pt grants).
            allowed_mw cpl pt ch g (the (merged_for (snd (run_iap origin points grants cpl cfg)) (rf_grant_id g))))
         \<le> point_threshold_mw pt"
  using assms by (rule merged_decisions_protect)

subsection \<open>A concrete point\<close>

text \<open>
  One GENERIC point over two channels and an ESC one above 3660 MHz; two grants at 30 dBm/MHz, and
  a coupling that loses 100 dB and grows with the EIRP.
\<close>

definition example_point :: protection_point where
  "example_point = \<lparr>pp_id = ''p'', pp_lat = 0, pp_lon = 0, pp_low = 3560000000, pp_high = 3570000000,
     pp_threshold_dbm = - 80, pp_kind = GENERIC, pp_margin_db = 1, pp_neighborhood_km = None,
     pp_source = None, pp_rx_height_m = None, pp_rx_azimuth = None, pp_rx_gains = None\<rparr>"

definition example_esc_point :: protection_point where
  "example_esc_point = example_point\<lparr>pp_kind := ESC, pp_low := 3665000000, pp_high := 3670000000\<rparr>"

definition example_rf :: "string \<Rightarrow> grant_rf" where
  "example_rf k = \<lparr>rf_grant_id = k, rf_cbsd_id = k, rf_lat = 0, rf_lon = 0, rf_height_m = 5,
     rf_height_is_agl = True, rf_indoor = False, rf_low = 3560000000, rf_high = 3670000000, rf_max_eirp = 30,
     rf_managing = True, rf_pk = Some 1, rf_source = None, rf_category = Some ''a '', rf_azimuth = None,
     rf_beamwidth = None, rf_gain = None\<rparr>"

definition example_coupling :: coupling where
  "example_coupling g pt ch e = dbm_to_mw (e - 100)"

lemma example_coupling_ok: "0 \<le> example_coupling g pt ch e"
  "e \<le> e' \<Longrightarrow> example_coupling g pt ch e \<le> example_coupling g pt ch e'"
  by (simp_all add: example_coupling_def dbm_to_mw_def)

lemma example_rounds: "enough_rounds default_iap_config [example_rf ''a'', example_rf ''b''] 168"
  by (simp add: enough_rounds_def default_iap_config_def example_rf_def DEFAULT_EIRP_FLOOR_DBM_MHZ_def
      EIRP_STEP_DB_def)

lemma example_iap_channels:
  "overlapping_iap_channels 3550000000 IAPBW_HZ 3560000000 3570000000
     = [\<lparr>ch_low = 3560000000, ch_high = 3565000000\<rparr>, \<lparr>ch_low = 3565000000, ch_high = 3570000000\<rparr>]"
  "overlapping_iap_channels 3550000000 IAPBW_HZ 3665000000 3670000000
     = [\<lparr>ch_low = 3665000000, ch_high = 3670000000\<rparr>]"
  by (simp_all add: overlapping_iap_channels_def IAPBW_HZ_def channels_from.simps)

theorem iap_point_protects_witness:
  "(\<Sum>(g, d)\<leftarrow>zip (filter rf_managing (grants_in_neighborhood example_point [example_rf ''a'', example_rf ''b'']))
        (ir_decisions (run_iap_for_point 3550000000 example_point [example_rf ''a'', example_rf ''b'']
           example_coupling default_iap_config)).
      allowed_mw example_coupling example_point \<lparr>ch_low = 3560000000, ch_high = 3565000000\<rparr> g d)
   \<le> point_threshold_mw example_point"
  by (rule iap_point_protects [where origin = 3550000000, OF example_rounds example_coupling_ok(1)])
    (simp add: example_point_def example_iap_channels)

theorem iap_allocation_completes_witness:
  "s_num_unsat (iap_loop (iap_run_of example_point [example_rf ''a'', example_rf ''b'']
        [\<lparr>ch_low = 3560000000, ch_high = 3565000000\<rparr>] example_coupling default_iap_config)
      (cf_max_iterations default_iap_config)
      (start_state (iap_run_of example_point [example_rf ''a'', example_rf ''b'']
          [\<lparr>ch_low = 3560000000, ch_high = 3565000000\<rparr>] example_coupling default_iap_config)
        (point_threshold_mw example_point) (\<lambda>g. rf_max_eirp ([example_rf ''a'', example_rf ''b''] ! g)))) = 0"
  by (rule iap_allocation_completes [OF example_rounds])

theorem run_iap_protects_witness:
  "(\<Sum>g\<leftarrow>filter rf_managing (grants_in_neighborhood example_point [example_rf ''a'', example_rf ''b'']).
      allowed_mw example_coupling example_point \<lparr>ch_low = 3560000000, ch_high = 3565000000\<rparr> g
        (the (merged_for (snd (run_iap 3550000000 [example_esc_point, example_point]
           [example_rf ''a'', example_rf ''b''] example_coupling default_iap_config)) (rf_grant_id g))))
   \<le> point_threshold_mw example_point"
  by (rule run_iap_protects [where origin = 3550000000, OF example_rounds _ example_coupling_ok])
    (simp_all add: example_point_def example_iap_channels example_rf_def)

theorem unheard_grant_terminated_witness:
  "\<exists>d\<in>set (ir_decisions (run_iap_for_point 3550000000 example_esc_point [example_rf ''a'', example_rf ''b'']
        example_coupling default_iap_config)).
     id_grant_id d = ''a'' \<and> id_action d = Terminate_Grant"
proof -
  have near: "example_rf ''a'' \<in> set (grants_in_neighborhood example_esc_point [example_rf ''a'', example_rf ''b''])"
    by (simp add: grants_in_neighborhood_def in_neighborhood_def example_esc_point_def example_point_def
        example_rf_def iap_haversine_km_def esc_neighborhood_km_for_category_def radians_def Let_def)
  have "category_upper (Some ''a '') = ''A''"
    by code_simp
  then show ?thesis
    using unheard_grant_terminated [OF example_rounds refl _ near, where cpl = example_coupling and origin = 3550000000]
    by (simp add: example_esc_point_def example_point_def example_iap_channels example_rf_def
        grant_overlaps_channel_def ESC_CAT_A_HIGH_FREQ_HZ_def)
qed

subsection \<open>The channels tile the band\<close>

lemma channels_from_bounds:
  assumes "c \<in> set (channels_from low high w cursor)" "0 < w"
  shows "ch_high c = ch_low c + w \<and> ch_low c < high \<and> low < ch_high c \<and> w dvd (ch_low c - cursor)"
  using assms
proof (induction low high w cursor rule: channels_from.induct)
  case (1 low high w cursor)
  show ?case
  proof (cases "cursor < high")
    case True
    from 1(2) 1(3) True consider "c = \<lparr>ch_low = cursor, ch_high = cursor + w\<rparr>" "low < cursor + w"
      | "c \<in> set (channels_from low high w (cursor + w))"
      by (subst (asm) channels_from.simps) (auto split: if_splits)
    then show ?thesis
    proof cases
      case 1
      then show ?thesis using True by simp
    next
      case 2
      have "ch_low c - cursor = (ch_low c - (cursor + w)) + w" by simp
      moreover from "1.IH" [of] True 2 \<open>0 < w\<close> have "ch_high c = ch_low c + w \<and> ch_low c < high \<and> low < ch_high c
          \<and> w dvd (ch_low c - (cursor + w))" by simp
      ultimately show ?thesis by (metis dvd_add dvd_refl)
    qed
  next
    case False
    then show ?thesis using 1(2) by (subst (asm) channels_from.simps) simp
  qed
qed

lemma channels_from_cover:
  assumes "cursor \<le> x" "x < high" "low \<le> x" "0 < w"
  shows "\<exists>c\<in>set (channels_from low high w cursor). ch_low c \<le> x \<and> x < ch_high c"
  using assms
proof (induction low high w cursor rule: channels_from.induct)
  case (1 low high w cursor)
  show ?case
  proof (cases "x < cursor + w")
    case True
    with 1(2-5) show ?thesis by (subst channels_from.simps) simp
  next
    case False
    with 1 have "\<exists>c\<in>set (channels_from low high w (cursor + w)). ch_low c \<le> x \<and> x < ch_high c" by simp
    with False 1(2-5) show ?thesis by (subst channels_from.simps) auto
  qed
qed

text \<open>Two pieces of one grid that share a point are the same piece.\<close>

lemma grid_unique:
  fixes a b w x :: int
  assumes "w dvd (a - origin)" "w dvd (b - origin)" "a \<le> x" "x < a + w" "b \<le> x" "x < b + w"
  shows "a = b"
proof -
  have "w dvd (a - b)" using dvd_diff [OF assms(1,2)] by simp
  moreover have "\<bar>a - b\<bar> < w" using assms(3-6) by linarith
  ultimately show ?thesis using zdvd_not_zless [of "\<bar>a - b\<bar>" w] by (cases "a = b") auto
qed

text \<open>
  The allocation channels of an entity tile its band: each is a piece of the grid that
  starts at the band's origin and overlaps the entity's range, and every frequency of the range at
  or above the origin lies in exactly one of them.
\<close>

theorem iap_channels_tile:
  assumes "0 < width" "low < high" "channels = overlapping_iap_channels origin width low high"
  shows "(\<forall>c\<in>set channels. ch_high c = ch_low c + width \<and> ch_low c < high \<and> low < ch_high c
            \<and> width dvd (ch_low c - origin))
    \<and> (\<forall>x. max low origin \<le> x \<and> x < high \<longrightarrow> (\<exists>!c. c \<in> set channels \<and> ch_low c \<le> x \<and> x < ch_high c))"
proof -
  define start where "start = origin + ((max low origin - origin) div width) * width"
  have start_eq: "start = max low origin - (max low origin - origin) mod width"
    by (simp add: start_def minus_mod_eq_div_mult [symmetric])
  have start: "start \<le> max low origin" "width dvd (start - origin)"
    using assms(1) by (simp only: start_eq, simp) (simp add: start_def)
  have channels: "channels = channels_from low high width start"
    using assms by (simp add: overlapping_iap_channels_def start_def)
  have grid: "ch_high c = ch_low c + width \<and> ch_low c < high \<and> low < ch_high c \<and> width dvd (ch_low c - origin)"
    if "c \<in> set channels" for c
  proof -
    have "ch_low c - origin = (ch_low c - start) + (start - origin)" by simp
    then show ?thesis
      using channels_from_bounds [of c low high width start] that assms(1) start(2)
      by (metis channels dvd_add)
  qed
  have cover: "\<exists>c\<in>set channels. ch_low c \<le> x \<and> x < ch_high c" if "max low origin \<le> x" "x < high" for x
    using channels_from_cover [of start x high low width] that start(1) assms(1) channels by simp
  have unique: "c = c'" if "c \<in> set channels" "c' \<in> set channels" "ch_low c \<le> x" "x < ch_high c"
    "ch_low c' \<le> x" "x < ch_high c'" for c c' x
    using grid_unique [of width "ch_low c" origin "ch_low c'" x] grid [OF that(1)] grid [OF that(2)] that
    by (intro frequency_channel.equality) auto
  show ?thesis using grid cover unique by blast
qed

theorem iap_channels_tile_witness:
  "(0::int) < IAPBW_HZ \<and> (\<exists>!c. c \<in> set (overlapping_iap_channels 3550000000 IAPBW_HZ 3560000000 3570000000)
     \<and> ch_low c \<le> 3566000000 \<and> 3566000000 < ch_high c)"
  using iap_channels_tile [of IAPBW_HZ 3560000000 3570000000 _ 3550000000, OF _ _ refl]
  by (simp add: IAPBW_HZ_def)

end
