(* ===== verification/CpasProtects.thy ===== *)
theory CpasProtects
  imports CpasSafety IapSafety
begin

text \<open>
  What the coordination achieves on the air: after its decisions are applied, the local grants of the
  snapshot that may still transmit keep every protection point within its threshold, each at the power its
  row then holds.
\<close>

subsection \<open>The allocation's decisions, one per grant\<close>

definition decides_about :: "grant_rf list \<Rightarrow> iap_decision \<Rightarrow> bool" where
  "decides_about grants m =
     (\<exists>g\<in>set grants. id_grant_id m = rf_grant_id g \<and> id_pk m = rf_pk g \<and> well_decided (rf_max_eirp g) m)"

lemma point_decides_about:
  assumes "d \<in> set (ir_decisions (run_iap_for_point origin pt grants cpl cfg))"
  shows "decides_about grants d"
proof -
  have dec: "id_grant_id (decide_grant R s i g) = rf_grant_id g \<and> id_pk (decide_grant R s i g) = rf_pk g
      \<and> well_decided (rf_max_eirp g) (decide_grant R s i g)" for R s i g
    by (auto simp: decide_grant_def well_decided_def Let_def)
  have nb: "grants_in_neighborhood pt grants ! i \<in> set grants"
    if "i < length (grants_in_neighborhood pt grants)" for i
    using nth_mem [OF that] by (auto simp: grants_in_neighborhood_def)
  have keep: "well_decided (rf_max_eirp g) (keep_decision g)" for g
    by (simp add: keep_decision_def well_decided_def)
  from assms consider (remain) g where "g \<in> set grants" "d = keep_decision g"
    | (decided) R s i where "i < length (grants_in_neighborhood pt grants)"
        "d = decide_grant R s i (grants_in_neighborhood pt grants ! i)"
    by (auto simp: run_iap_for_point_def Let_def split: if_splits)
  then show ?thesis
    unfolding decides_about_def by cases (use dec nb keep in \<open>auto simp: keep_decision_def\<close>)
qed

lemma merge_two_about:
  assumes "distinct (map rf_grant_id grants)" and "decides_about grants prev" and "decides_about grants d"
    and "id_grant_id prev = id_grant_id d"
  shows "decides_about grants (merge_two prev d)"
proof -
  from assms(2,3) obtain g h where g: "g \<in> set grants" "id_grant_id prev = rf_grant_id g" "id_pk prev = rf_pk g"
      "well_decided (rf_max_eirp g) prev"
    and h: "h \<in> set grants" "id_grant_id d = rf_grant_id h" "id_pk d = rf_pk h" "well_decided (rf_max_eirp h) d"
    by (auto simp: decides_about_def)
  have "g = h" using assms(1,4) g(1,2) h(1,2) by (metis distinct_map inj_onD)
  with merge_two_strict [OF g(4) _ assms(4)] h
  have "well_decided (rf_max_eirp g) (merge_two prev d)" "id_grant_id (merge_two prev d) = rf_grant_id g" by simp_all
  moreover have "id_pk (merge_two prev d) = rf_pk g"
    using g(3) h(3) \<open>g = h\<close> by (simp add: merge_two_def)
  ultimately show ?thesis using g(1) by (auto simp: decides_about_def)
qed

definition keyed_about :: "grant_rf list \<Rightarrow> (string \<times> iap_decision) list \<Rightarrow> bool" where
  "keyed_about grants best = (distinct (map fst best)
     \<and> (\<forall>(k, m)\<in>set best. id_grant_id m = k \<and> decides_about grants m))"

lemma merge_step_about:
  assumes "distinct (map rf_grant_id grants)" and "keyed_about grants best" and "decides_about grants d"
  shows "keyed_about grants (merge_step best d)"
proof -
  define m where "m = (case map_of best (id_grant_id d) of None \<Rightarrow> d | Some prev \<Rightarrow> merge_two prev d)"
  have m: "decides_about grants m \<and> id_grant_id m = id_grant_id d"
  proof (cases "map_of best (id_grant_id d)")
    case (Some prev)
    with assms(2) have prev: "id_grant_id prev = id_grant_id d" "decides_about grants prev"
      by (auto simp: keyed_about_def dest!: map_of_SomeD)
    moreover have "id_grant_id (merge_two prev d) = id_grant_id d" using prev(1) by (simp add: merge_two_def)
    ultimately show ?thesis using Some merge_two_about [OF assms(1) prev(2) assms(3)] by (simp add: m_def)
  qed (simp add: m_def assms(3))
  have upd: "set (AList.update k v xs) \<subseteq> insert (k, v) (set xs)" for k :: string and v :: iap_decision and xs
    by (induction xs) auto
  have "id_grant_id x = k \<and> decides_about grants x" if "(k, x) \<in> set (AList.update (id_grant_id d) m best)" for k x
  proof -
    from that upd have "(k, x) = (id_grant_id d, m) \<or> (k, x) \<in> set best" by blast
    with m assms(2) show ?thesis by (auto simp: keyed_about_def)
  qed
  moreover have "distinct (map fst (AList.update (id_grant_id d) m best))"
    using assms(2) by (simp add: keyed_about_def distinct_update)
  ultimately show ?thesis by (auto simp: keyed_about_def merge_step_def m_def [symmetric])
qed

lemma run_iap_about:
  assumes "distinct (map rf_grant_id grants)" and "M = snd (run_iap origin points grants cpl cfg)"
  shows "distinct (map id_grant_id M)" and "\<forall>m\<in>set M. decides_about grants m"
proof -
  define ds where "ds = concat (map ir_decisions (map (\<lambda>p. run_iap_for_point origin p grants cpl cfg) points))"
  define best where "best = foldl merge_step [] ds"
  have all: "\<forall>d\<in>set ds. decides_about grants d" by (auto simp: ds_def dest: point_decides_about)
  have "keyed_about grants (foldl merge_step b xs)" if "keyed_about grants b" "\<forall>d\<in>set xs. decides_about grants d" for b xs
    using that
  proof (induction xs arbitrary: b)
    case (Cons x xs)
    then show ?case using merge_step_about [OF assms(1) Cons.prems(1), of x] by simp
  qed simp
  from this [OF _ all, of "[]"] have best: "keyed_about grants best"
    unfolding best_def by (simp add: keyed_about_def [of _ "[]"])
  have M: "M = map (\<lambda>k. the (map_of best k)) (sort (map fst best))"
    by (simp add: assms(2) run_iap_def merge_iap_decisions_def best_def ds_def Let_def)
  have at_key: "id_grant_id (the (map_of best k)) = k \<and> decides_about grants (the (map_of best k))"
    if "k \<in> set (map fst best)" for k
  proof -
    from that obtain x where "(k, x) \<in> set best" by (metis (no_types, lifting) imageE list.set_map prod.collapse)
    then obtain m where "map_of best k = Some m" by (auto dest!: weak_map_of_SomeI)
    with best map_of_SomeD [OF this] show ?thesis by (auto simp: keyed_about_def)
  qed
  then have "map id_grant_id M = sort (map fst best)" unfolding M map_map by (intro map_idI) simp
  with best show "distinct (map id_grant_id M)" by (simp add: keyed_about_def)
  show "\<forall>m\<in>set M. decides_about grants m" using at_key by (simp add: M)
qed

lemma neighbour_decided:
  assumes "distinct (map rf_grant_id grants)" and "pt \<in> set points"
    and "ch \<in> set (overlapping_iap_channels origin IAPBW_HZ (pp_low pt) (pp_high pt))"
    and "g \<in> set grants" and "rf_managing g" and "in_neighborhood pt g"
  obtains m where "merged_for (snd (run_iap origin points grants cpl cfg)) (rf_grant_id g) = Some m"
    and "m \<in> set (snd (run_iap origin points grants cpl cfg))" and "id_grant_id m = rf_grant_id g"
proof -
  let ?ns = "grants_in_neighborhood pt grants" and ?results = "map (\<lambda>p. run_iap_for_point origin p grants cpl cfg) points"
  from assms(4,6) have "g \<in> set ?ns" by (simp add: grants_in_neighborhood_def)
  then obtain i where i: "i < length ?ns" "?ns ! i = g" by (metis in_set_conv_nth)
  from assms(3) i have "overlapping_iap_channels origin IAPBW_HZ (pp_low pt) (pp_high pt) \<noteq> []" "?ns \<noteq> []" by auto
  from ir_decisions_run [OF refl this(1) refl this(2)] i assms(5)
  obtain d where d: "d \<in> set (ir_decisions (run_iap_for_point origin pt grants cpl cfg))" "id_grant_id d = rf_grant_id g"
    by force
  with assms(2) have "d \<in> set (concat (map ir_decisions ?results))" by auto
  moreover have "\<forall>d\<in>set (concat (map ir_decisions ?results)). well_decided (initial_eirp grants (id_grant_id d)) d"
    using initial_eirp_known [OF assms(1)] by (auto elim!: decisions_well_decided)
  ultimately obtain m where m: "merged_for (merge_iap_decisions ?results) (rf_grant_id g) = Some m"
    using merged_for_strict d(2) by metis
  then have "m \<in> set (merge_iap_decisions ?results) \<and> id_grant_id m = rf_grant_id g"
    by (auto simp: merged_for_def find_Some_iff)
  with m that show thesis by (simp add: run_iap_def Let_def)
qed

subsection \<open>Rows after the decisions\<close>

definition transmit_eirp :: "grant_row \<Rightarrow> real" where
  "transmit_eirp g = (case gr_eirp g of Some e \<Rightarrow> e | None \<Rightarrow> 0)"

definition may_transmit :: "time \<Rightarrow> grant_row \<Rightarrow> bool" where
  "may_transmit now g = (\<not> gr_term g \<and> live_grant_state (resolve_grant_state now g))"

definition row_of :: "db \<Rightarrow> nat \<Rightarrow> grant_row option" where
  "row_of d pk = List.find (\<lambda>g. gr_pk g = pk) (db_grants d)"

definition addressable :: "grant_row \<Rightarrow> bool" where
  "addressable g = (gr_id g \<noteq> [] \<and> gr_cbsd_id g \<noteq> [])"

definition decided :: "time \<Rightarrow> cpas_decision \<Rightarrow> grant_row \<Rightarrow> grant_row" where
  "decided now x g = (case decided_row now x g of Some g' \<Rightarrow> g' | None \<Rightarrow> g)"

lemma event_pk [simp]: "gr_pk (snd (apply_grant_event now g ev p)) = gr_pk g"
  by (simp add: apply_grant_event_row apply_grant_state_def Let_def)

lemma decided_row_cases:
  assumes "decided_row now x g = Some g'"
  obtains e where "cd_eirp x = Some e" and "g' = g\<lparr>gr_eirp := Some e\<rparr>"
  | ev where "ev \<in> {SUSPEND, TERMINATE}" and "g' = snd (apply_grant_event now g ev (cpas_payload g x))"
proof -
  let ?a = "if cd_action x = [] then ''terminate'' else cd_action x"
  show thesis
  proof (cases "?a = ''reduce_power''")
    case True
    with assms that(1) show thesis by (simp add: decided_row_def split: if_split_asm option.split_asm)
  next
    case False
    with assms have "g' = snd (apply_grant_event now g (if ?a = ''suspend'' then SUSPEND else TERMINATE) (cpas_payload g x))"
      unfolding decided_row_def Let_def case_prod_unfold by (simp only: if_False split: if_split_asm) simp_all
    then show thesis by (intro that(2)) simp_all
  qed
qed

lemma decided_pk [simp]: "gr_pk (decided now x g) = gr_pk g"
  by (cases "decided_row now x g") (auto simp: decided_def elim!: decided_row_cases)

lemma find_pk: "distinct (map gr_pk gs) \<Longrightarrow> g \<in> set gs \<Longrightarrow> List.find (\<lambda>x. gr_pk x = gr_pk g) gs = Some g"
  by (induction gs) auto

lemma decision_row_of:
  assumes "distinct (map gr_pk (db_grants d))"
  shows "decision_row d x pk = row_of d pk"
proof (cases "lock_grant_row d (PStr (cd_grant_id x)) (PStr (cd_cbsd_id x))")
  case (Some g)
  then have "g \<in> set (db_grants d)" by (auto dest: lock_grant_rowD)
  with Some find_pk [OF assms this] show ?thesis by (auto simp: decision_row_def row_of_def)
qed (simp add: decision_row_def row_of_def)

lemma row_of_put:
  "row_of (put_grant d g) pk = (if pk = gr_pk g then map_option (\<lambda>_. g) (row_of d pk) else row_of d pk)"
proof -
  have "List.find (\<lambda>x. gr_pk x = pk) (map (\<lambda>r. if gr_pk r = gr_pk g then g else r) gs)
      = (if pk = gr_pk g then map_option (\<lambda>_. g) (List.find (\<lambda>x. gr_pk x = pk) gs) else List.find (\<lambda>x. gr_pk x = pk) gs)" for gs
    by (induction gs) auto
  then show ?thesis by (simp add: row_of_def put_grant_def)
qed

lemma put_pks: "gr_pk g = pk \<Longrightarrow> map gr_pk (db_grants (put_grant d g)) = map gr_pk (db_grants d)"
  by (simp add: put_grant_def)

lemma apply_decision_row:
  assumes "distinct (map gr_pk (db_grants d))"
  shows "row_of (snd (apply_decision now (n, d) x)) pk
      = (if cd_pk x = Some pk then map_option (decided now x) (row_of d pk) else row_of d pk)"
    and "map gr_pk (db_grants (snd (apply_decision now (n, d) x))) = map gr_pk (db_grants d)"
proof -
  have pk: "gr_pk g = p" if "row_of d p = Some g" for p g
    using that by (auto simp: row_of_def find_Some_iff)
  have remain: "gr_pk g' = gr_pk g" if "decided_row now x g = Some g'" for g g'
    using decided_pk [of now x g] that by (simp add: decided_def)
  show "row_of (snd (apply_decision now (n, d) x)) pk
      = (if cd_pk x = Some pk then map_option (decided now x) (row_of d pk) else row_of d pk)"
    using pk remain
    by (auto simp: apply_decision_def decision_row_of [OF assms] row_of_put decided_def split: option.splits)
  show "map gr_pk (db_grants (snd (apply_decision now (n, d) x))) = map gr_pk (db_grants d)"
    by (auto simp: apply_decision_def put_grant_def split: option.splits)
qed

text \<open>With one decision per key, every row is decided once.\<close>

lemma applied_row:
  assumes "distinct (map gr_pk (db_grants d))" and "distinct (map cd_pk ds)" and "apply_cpas_decisions now d ds = (n, d')"
  shows "row_of d' pk = (case List.find (\<lambda>x. cd_pk x = Some pk) ds of
      None \<Rightarrow> row_of d pk | Some x \<Rightarrow> map_option (decided now x) (row_of d pk))"
proof -
  have "row_of (snd (foldl (apply_decision now) st ds)) pk = (case List.find (\<lambda>x. cd_pk x = Some pk) ds of
      None \<Rightarrow> row_of (snd st) pk | Some x \<Rightarrow> map_option (decided now x) (row_of (snd st) pk))"
    if "distinct (map gr_pk (db_grants (snd st)))" for st
    using assms(2) that
  proof (induction ds arbitrary: st)
    case (Cons x ds)
    obtain k e where st: "st = (k, e)" by (cases st)
    note row = apply_decision_row [of e now k x]
    have rest: "List.find (\<lambda>y. cd_pk y = Some pk) ds = None" if "cd_pk x = Some pk"
      using Cons.prems(1) that by (force simp: find_None_iff)
    from Cons row st show ?case by (cases "cd_pk x = Some pk") (simp_all add: rest cong: option.case_cong)
  qed simp
  from this [of "(0, d)"] assms(1,3) show ?thesis by (simp add: apply_cpas_decisions_def cong: option.case_cong)
qed

lemma terminated_silent:
  assumes "cd_action x = ''terminate''" and "\<not> prefix ''peer/'' (cd_grant_id x)" and "addressable g"
  shows "\<not> may_transmit now (decided now x g)"
proof (cases "gr_term g")
  case True
  then show ?thesis by (simp add: decided_def decided_row_def may_transmit_def)
next
  case False
  let ?r = "apply_grant_event now g TERMINATE (cpas_payload g x)"
  have row: "decided_row now x g = (if to_ok (fst ?r) then Some (snd ?r) else None)"
    using assms(1,2) False by (simp add: decided_row_def case_prod_unfold)
  have full: "complete_payload (ts_required (GRANT_TRANSITIONS TERMINATE)) (cpas_payload g x)"
    using assms(3) by (simp add: complete_payload_def cpas_payload_def addressable_def)
  show ?thesis
  proof (cases "to_ok (fst ?r)")
    case True
    with row full show ?thesis
      by (auto simp: decided_def may_transmit_def apply_grant_event_row apply_grant_event_ok apply_grant_state_def Let_def)
  next
    case refused: False
    with full have "\<not> grant_step (resolve_grant_state now g) TERMINATE TERMINATED"
      by (simp add: apply_grant_event_ok)
    then have "\<not> live_grant_state (resolve_grant_state now g)" by (simp add: grant_step_simps)
    with row refused show ?thesis by (simp add: decided_def may_transmit_def)
  qed
qed

lemma reduced_power:
  assumes "cd_action x = ''reduce_power''" and "cd_eirp x = Some e" and "\<not> prefix ''peer/'' (cd_grant_id x)"
    and "may_transmit now (decided now x g)"
  shows "transmit_eirp (decided now x g) \<le> e + 1 / 10 ^ 9"
proof -
  have "\<not> gr_term g" using assms(4) by (auto simp: decided_def decided_row_def may_transmit_def)
  then have "decided now x g = (case gr_eirp g of
      Some m \<Rightarrow> if m \<le> e + 1 / 10 ^ 9 then g else g\<lparr>gr_eirp := Some e\<rparr> | None \<Rightarrow> g\<lparr>gr_eirp := Some e\<rparr>)"
    using assms(1-3) by (simp add: decided_def decided_row_def split: option.split)
  then show ?thesis by (simp add: transmit_eirp_def split: option.splits)
qed

subsection \<open>The families of an evaluation\<close>

definition terminates_one_of :: "frozen_grant list \<Rightarrow> cpas_decision \<Rightarrow> bool" where
  "terminates_one_of local x = (\<exists>f\<in>set local. \<exists>reason. x = terminate_decision f reason)"

lemma rmap_from: "rmap f xs = Inr ys \<Longrightarrow> y \<in> set ys \<Longrightarrow> \<exists>x\<in>set xs. f x = Inr y"
  by (metis in_set_conv_nth rmap_length rmap_nth)

lemma peer_rules_terminate:
  "peer_rule_decisions ce en snap local = Inr ds \<Longrightarrow> x \<in> set ds \<Longrightarrow> terminates_one_of local x"
proof -
  assume "peer_rule_decisions ce en snap local = Inr ds" and x: "x \<in> set ds"
  then obtain os where os: "rmap (\<lambda>f. rbind (peer_reason ce en snap f) (\<lambda>r. Inr (map_option (terminate_decision f) r))) local = Inr os"
    and "ds = present os" by (auto simp: peer_rule_decisions_def rbind_eq_Inr)
  with x have "Some x \<in> set os" by (auto simp: present_def dest: map_filter_mem)
  from rmap_from [OF os this] show ?thesis by (auto simp: terminates_one_of_def rbind_eq_Inr)
qed

lemma unique_hits_subset: "set (unique_hits seen hits) \<subseteq> set hits"
  by (induction seen hits rule: unique_hits.induct) auto

lemma exclusions_terminate:
  "pre_iap_decisions en d snap local peer = Inr ds \<Longrightarrow> x \<in> set ds \<Longrightarrow> terminates_one_of local x"
proof -
  assume "pre_iap_decisions en d snap local peer = Inr ds" and x: "x \<in> set ds"
  then obtain hits where hits: "evaluate_pre_iap_exclusions en d local (cs_protection snap) = Inr hits"
    and "ds = map (\<lambda>(f, reason). terminate_decision f reason) (filter (\<lambda>(f, reason). fz_pk f \<notin> set (decided_pks peer)) hits)"
    by (auto simp: pre_iap_decisions_def split: sum.splits)
  with x obtain f reason where f: "(f, reason) \<in> set hits" "x = terminate_decision f reason" by auto
  from hits obtain os where os: "rmap (\<lambda>f. rbind (pre_iap_reason en d (cs_protection snap) f)
      (\<lambda>r. Inr (map_option (Pair f) r))) local = Inr os" and "hits = unique_hits [] (present os)"
    by (auto simp: evaluate_pre_iap_exclusions_def rbind_eq_Inr)
  with f(1) unique_hits_subset have "(f, reason) \<in> set (present os)" by blast
  then have "Some (f, reason) \<in> set os" by (auto simp: present_def dest: map_filter_mem)
  from rmap_from [OF os this] have "f \<in> set local" by (auto simp: rbind_eq_Inr)
  with f(2) show ?thesis by (auto simp: terminates_one_of_def)
qed

definition unresolved :: "cpas_decision list \<Rightarrow> frozen_grant \<Rightarrow> bool" where
  "unresolved peer f = (\<not> fz_terminated f \<and> fz_pk f \<notin> set (decided_pks peer))"

lemma evaluation_parts:
  assumes "evaluate_cpas_protections ce en d snap = Inr (ds, d1)" and "cs_local snap \<noteq> []"
  obtains peer iap remain dpa where "ds = merge_constraint_decisions peer remain dpa"
    and "\<forall>x\<in>set (peer @ dpa). terminates_one_of (cs_local snap) x" and "set remain \<subseteq> set iap"
    and "\<forall>x\<in>set iap. x \<in> set remain \<or> cd_grant_id x \<in> cd_grant_id ` set dpa"
    and "if list_ex (unresolved peer) (cs_local snap)
         then allocation_decisions ce en snap (cs_local snap) (decided_pks peer) = Inr iap else iap = []"
proof -
  let ?local = "cs_local snap"
  from assms(2) have live: "snapshot_grants en d snap = ?local" by (simp add: snapshot_grants_def)
  from assms live obtain by_peer excluded where peer: "peer_rule_decisions ce en snap ?local = Inr by_peer"
    "pre_iap_decisions en d snap ?local by_peer = Inr excluded"
    and rest: "(if filter (unresolved (by_peer @ excluded)) ?local = []
       then Inr (merge_constraint_decisions (by_peer @ excluded) [] [], d)
       else rbind (allocation_decisions ce en snap ?local (decided_pks (by_peer @ excluded)))
         (\<lambda>iap. dpa_stage ce en d snap ?local (by_peer @ excluded) iap)) = Inr (ds, d1)"
    by (auto simp: evaluate_cpas_protections_def unresolved_def [abs_def] Let_def rbind_eq_Inr)
  let ?peer = "by_peer @ excluded"
  have ends: "\<forall>x\<in>set ?peer. terminates_one_of ?local x"
    using peer_rules_terminate [OF peer(1)] exclusions_terminate [OF peer(2)] by auto
  show thesis
  proof (cases "filter (unresolved ?peer) ?local = []")
    case True
    with rest ends that [of ?peer "[]" "[]" "[]"] show thesis by (auto simp: filter_empty_conv list_ex_iff)
  next
    case False
    then have some: "list_ex (unresolved ?peer) ?local" by (auto simp: filter_empty_conv list_ex_iff)
    with False rest obtain iap where iap: "allocation_decisions ce en snap ?local (decided_pks ?peer) = Inr iap"
      and stage: "dpa_stage ce en d snap ?local ?peer iap = Inr (ds, d1)"
      by (auto simp: rbind_eq_Inr)
    from stage show thesis
    proof (cases rule: dpa_stage_cases)
      case 1
      with iap ends some that [of ?peer iap "[]" iap] show thesis by simp
    next
      case (2 n grants)
      have "\<forall>x\<in>set (movelist_decisions d1 ?local pks). terminates_one_of ?local x" for pks
        by (auto simp: movelist_decisions_def terminates_one_of_def)
      with iap ends some show thesis by (intro that [OF 2(2), where iap = iap]) auto
    qed
  qed
qed

subsection \<open>What becomes of a local grant\<close>

definition frozen_eirp :: "frozen_grant \<Rightarrow> real" where
  "frozen_eirp f = (case fz_max_eirp f of Some e \<Rightarrow> e | None \<Rightarrow> 0)"

text \<open>
  The snapshot still describes the rows: each of its grants has its row, with no more power than was
  frozen, and keys and identifiers tell the grants apart.
\<close>

definition snapshot_holds :: "cpas_snapshot \<Rightarrow> db \<Rightarrow> bool" where
  "snapshot_holds snap d = (distinct (map fz_pk (cs_local snap)) \<and> distinct (map fz_grant_id (cs_local snap))
     \<and> distinct (map gr_pk (db_grants d))
     \<and> (\<forall>f\<in>set (cs_local snap). \<not> prefix ''peer/'' (fz_grant_id f)
          \<and> (\<exists>g. row_of d (fz_pk f) = Some g \<and> addressable g \<and> transmit_eirp g \<le> frozen_eirp f
               \<and> (fz_terminated f \<longrightarrow> gr_term g))))"

definition peer_rfs :: "env \<Rightarrow> cpas_snapshot \<Rightarrow> grant_rf list" where
  "peer_rfs en snap = (case grant_rf_infos_from_frozen_peer_cbsds en (frozen_peer_cbsd_rows snap) of
     Inr rfs \<Rightarrow> rfs | Inl _ \<Rightarrow> [])"

text \<open>The grants the allocation sees, of the SAS and of its peers.\<close>

definition snapshot_rfs :: "env \<Rightarrow> cpas_snapshot \<Rightarrow> grant_rf list" where
  "snapshot_rfs en snap = List.map_filter frozen_to_iap_grant_rf (cs_local snap) @ peer_rfs en snap"

lemma same_frozen:
  assumes "snapshot_holds snap d" and "f \<in> set (cs_local snap)" and "h \<in> set (cs_local snap)"
  shows "fz_pk f = fz_pk h \<Longrightarrow> f = h" and "fz_grant_id f = fz_grant_id h \<Longrightarrow> f = h"
  using assms by (auto simp: snapshot_holds_def distinct_map dest: inj_onD)

lemma frozen_rf:
  assumes "frozen_to_iap_grant_rf f = Some rf"
  shows "rf_grant_id rf = fz_grant_id f" "rf_pk rf = Some (fz_pk f)" "rf_managing rf" "rf_max_eirp rf = frozen_eirp f"
  using assms by (auto simp: frozen_to_iap_grant_rf_def frozen_eirp_def split: option.splits)

lemma rf_of_snapshot:
  assumes "rf \<in> set (snapshot_rfs en snap)" and "rf_pk rf = Some pk"
  obtains f where "f \<in> set (cs_local snap)" "frozen_to_iap_grant_rf f = Some rf" "fz_pk f = pk"
proof -
  have "rf \<notin> set (peer_rfs en snap)"
  proof
    assume "rf \<in> set (peer_rfs en snap)"
    with assms(2) show False
      by (cases "grant_rf_infos_from_frozen_peer_cbsds en (frozen_peer_cbsd_rows snap)")
        (auto simp: peer_rfs_def dest: peer_grants_shape)
  qed
  with assms(1) obtain f where "f \<in> set (cs_local snap)" "frozen_to_iap_grant_rf f = Some rf"
    by (auto simp: snapshot_rfs_def dest: map_filter_mem)
  with frozen_rf(2) assms(2) that show thesis by auto
qed

lemma cpas_of_iapD:
  assumes "cpas_of_iap m = Some x"
  shows "cd_pk x = id_pk m" "cd_grant_id x = id_grant_id m" "cd_action x = action_text (id_action m)"
    "cd_eirp x = Some (id_authorized m)" "id_action m \<noteq> Keep"
  using assms by (auto simp: cpas_of_iap_def split: option.splits if_splits)

lemma map_filter_in: "f x = Some y \<Longrightarrow> x \<in> set xs \<Longrightarrow> y \<in> set (List.map_filter f xs)"
  by (induction xs) (auto simp: map_filter_simps split: option.split)

text \<open>The decisions of the allocation, as they enter the merge.\<close>

definition allocated :: "env \<Rightarrow> cpas_snapshot \<Rightarrow> iap_decision list \<Rightarrow> bool" where
  "allocated en snap M = (distinct (map id_grant_id M) \<and> (\<forall>m\<in>set M. decides_about (snapshot_rfs en snap) m))"

lemma allocated_local:
  assumes "allocated en snap M" and "m \<in> set M" and "id_pk m = Some pk"
  obtains f where "f \<in> set (cs_local snap)" "fz_pk f = pk" "id_grant_id m = fz_grant_id f"
proof -
  from assms obtain rf where "rf \<in> set (snapshot_rfs en snap)" "id_grant_id m = rf_grant_id rf" "rf_pk rf = Some pk"
    by (auto simp: allocated_def decides_about_def)
  with that show thesis by (metis rf_of_snapshot frozen_rf(1))
qed

text \<open>A decision that names a local grant's key is a termination, or the allocation's own.\<close>

lemma decision_about:
  assumes "snapshot_holds snap d" and "f \<in> set (cs_local snap)"
    and "\<forall>x\<in>set (peer @ dpa). terminates_one_of (cs_local snap) x"
    and "set remain \<subseteq> set (List.map_filter cpas_of_iap M)" and "allocated en snap M"
    and "x \<in> set (peer @ remain @ dpa)" and "cd_pk x = Some (fz_pk f)"
  shows "cd_grant_id x = fz_grant_id f"
    and "cd_action x = ''terminate'' \<or> (\<exists>m\<in>set M. id_grant_id m = fz_grant_id f \<and> cpas_of_iap m = Some x)"
proof -
  have "cd_grant_id x = fz_grant_id f
    \<and> (cd_action x = ''terminate'' \<or> (\<exists>m\<in>set M. id_grant_id m = fz_grant_id f \<and> cpas_of_iap m = Some x))"
  proof (cases "x \<in> set (peer @ dpa)")
    case True
    with assms(3) obtain h r where h: "h \<in> set (cs_local snap)" "x = terminate_decision h r"
      unfolding terminates_one_of_def by blast
    with assms(7) have "fz_pk f = fz_pk h" by (simp add: terminate_decision_def)
    with same_frozen(1) [OF assms(1,2) h(1)] have "h = f" by simp
    with h(2) show ?thesis by (simp add: terminate_decision_def)
  next
    case False
    with assms(4,6) obtain m where m: "m \<in> set M" "cpas_of_iap m = Some x" by (auto dest: map_filter_mem)
    with assms(7) have "id_pk m = Some (fz_pk f)" by (simp add: cpas_of_iapD(1))
    from allocated_local [OF assms(5) m(1) this] obtain h where
      "h \<in> set (cs_local snap)" "fz_pk h = fz_pk f" "id_grant_id m = fz_grant_id h" by metis
    with same_frozen(1) [OF assms(1,2), of h] have "id_grant_id m = fz_grant_id f" by simp
    with m cpas_of_iapD(2) [OF m(2)] show ?thesis by auto
  qed
  then show "cd_grant_id x = fz_grant_id f"
    "cd_action x = ''terminate'' \<or> (\<exists>m\<in>set M. id_grant_id m = fz_grant_id f \<and> cpas_of_iap m = Some x)"
    by blast+
qed

text \<open>The row of a local grant after the decisions: what its one decision makes of it.\<close>

lemma row_decided:
  assumes "snapshot_holds snap d" and "f \<in> set (cs_local snap)"
    and "ds = merge_constraint_decisions peer remain dpa"
    and "apply_cpas_decisions now d ds = (n, d2)" and "row_of d2 (fz_pk f) = Some g"
  obtains (untouched) g0 where "row_of d (fz_pk f) = Some g0" "g = g0"
      "\<forall>x\<in>set (peer @ remain @ dpa). cd_pk x \<noteq> Some (fz_pk f)"
  | (settled) g0 x where "row_of d (fz_pk f) = Some g0" "g = decided now x g0" "x \<in> set (peer @ remain @ dpa)"
      "cd_pk x = Some (fz_pk f)"
      "\<forall>y\<in>set (peer @ remain @ dpa). cd_pk y = Some (fz_pk f) \<longrightarrow> cd_action y = ''terminate''
         \<longrightarrow> cd_action x = ''terminate''"
proof -
  note fam = merged_families [of peer remain dpa, unfolded Let_def, folded assms(3)]
  from assms(1,2) obtain g0 where g0: "row_of d (fz_pk f) = Some g0" by (auto simp: snapshot_holds_def)
  from assms(1) fam have row: "row_of d2 (fz_pk f) = (case List.find (\<lambda>x. cd_pk x = Some (fz_pk f)) ds of
      None \<Rightarrow> Some g0 | Some x \<Rightarrow> Some (decided now x g0))"
    using applied_row [OF _ _ assms(4)] g0 by (simp add: snapshot_holds_def split: option.split)
  show thesis
  proof (cases "List.find (\<lambda>x. cd_pk x = Some (fz_pk f)) ds")
    case None
    with fam have "\<forall>x\<in>set (peer @ remain @ dpa). cd_pk x \<noteq> Some (fz_pk f)" by (fastforce simp: find_None_iff)
    with None row assms(5) g0 untouched show thesis by simp
  next
    case (Some x)
    then have x: "x \<in> set ds" "cd_pk x = Some (fz_pk f)" by (auto simp: find_Some_iff)
    have only: "y = x" if "y \<in> set ds" "cd_pk y = Some (fz_pk f)" for y
      using fam that x by (simp add: distinct_map inj_on_def)
    have "cd_action x = ''terminate''"
      if y: "y \<in> set (peer @ remain @ dpa)" "cd_pk y = Some (fz_pk f)" "cd_action y = ''terminate''" for y
      using fam y only by fastforce
    with Some row assms(5) g0 x fam settled show thesis by auto
  qed
qed

lemma local_outcome:
  assumes holds: "snapshot_holds snap d" and f: "f \<in> set (cs_local snap)" "frozen_to_iap_grant_rf f = Some rf"
    and ds: "ds = merge_constraint_decisions peer remain dpa"
    and ends: "\<forall>x\<in>set (peer @ dpa). terminates_one_of (cs_local snap) x"
    and part: "set remain \<subseteq> set iap" "\<forall>x\<in>set iap. x \<in> set remain \<or> cd_grant_id x \<in> cd_grant_id ` set dpa"
    and iap: "iap = List.map_filter cpas_of_iap M" "allocated en snap M"
    and ids: "distinct (map rf_grant_id (snapshot_rfs en snap))"
    and m: "m \<in> set M" "id_grant_id m = rf_grant_id rf"
    and ap: "apply_cpas_decisions now d ds = (n, d2)"
    and row: "row_of d2 (fz_pk f) = Some g" "may_transmit now g"
  shows "id_action m \<noteq> Terminate_Grant \<and> transmit_eirp g \<le> id_authorized m + 1 / 10 ^ 9"
proof -
  have rf: "rf \<in> set (snapshot_rfs en snap)"
    using map_filter_in [of frozen_to_iap_grant_rf, OF f(2,1)] by (simp add: snapshot_rfs_def)
  from iap(2) m obtain rf' where rf': "rf' \<in> set (snapshot_rfs en snap)" "rf_grant_id rf' = rf_grant_id rf"
    "id_pk m = rf_pk rf'" "well_decided (rf_max_eirp rf') m"
    by (auto simp: allocated_def decides_about_def)
  with ids rf have "rf' = rf" by (simp add: distinct_map inj_on_def)
  with rf'(3,4) frozen_rf [OF f(2)] have about: "well_decided (frozen_eirp f) m" "id_pk m = Some (fz_pk f)" by simp_all
  note own = decision_about [OF holds f(1) ends part(1) [unfolded iap(1)] iap(2)]
  from holds f(1) obtain g1 where g1: "row_of d (fz_pk f) = Some g1" "addressable g1" "transmit_eirp g1 \<le> frozen_eirp f"
    and local: "\<not> prefix ''peer/'' (fz_grant_id f)" by (auto simp: snapshot_holds_def)
  from holds f(1) ds ap row(1) show ?thesis
  proof (cases rule: row_decided)
    case (untouched g0)
    have "id_action m = Keep"
    proof (rule ccontr)
      assume "id_action m \<noteq> Keep"
      with about(2) obtain x where x0: "cpas_of_iap m = Some x" by (auto simp: cpas_of_iap_def)
      then have x: "x \<in> set iap" "cd_pk x = Some (fz_pk f)" "cd_grant_id x = fz_grant_id f"
        using map_filter_in [of cpas_of_iap, OF x0 m(1)] iap(1) about(2) m(2) frozen_rf(1) [OF f(2)] cpas_of_iapD [OF x0]
        by simp_all
      from part(2) x(1) have "x \<in> set remain \<or> cd_grant_id x \<in> cd_grant_id ` set dpa" by blast
      with untouched(3) x(2,3) obtain y where y: "y \<in> set dpa" "cd_grant_id y = fz_grant_id f" by auto
      then have "terminates_one_of (cs_local snap) y" using ends by simp
      then obtain h r where h: "h \<in> set (cs_local snap)" "y = terminate_decision h r"
        unfolding terminates_one_of_def by blast
      with y(2) have "fz_grant_id f = fz_grant_id h" by (simp add: terminate_decision_def)
      from same_frozen(2) [OF holds f(1) h(1) this] h(2) have "cd_pk y = Some (fz_pk f)"
        by (simp add: terminate_decision_def)
      with untouched(3) y(1) show False by simp
    qed
    with untouched g1 about(1) show ?thesis by (simp add: well_decided_def)
  next
    case (settled g0 x)
    then have g: "g = decided now x g1" using g1(1) by simp
    note x = own [OF settled(3,4)]
    with terminated_silent [of x g1 now] local g1(2) row(2) g have act: "cd_action x \<noteq> ''terminate''" by auto
    with x(2) obtain m' where "m' \<in> set M" "id_grant_id m' = fz_grant_id f" "cpas_of_iap m' = Some x" by blast
    moreover from this m frozen_rf(1) [OF f(2)] iap(2) have "m' = m" by (simp add: allocated_def distinct_map inj_on_def)
    ultimately have made: "cpas_of_iap m = Some x" by simp
    with act cpas_of_iapD(3) [OF made] cpas_of_iapD(5) [OF made] about(1) have "id_action m = Reduce_Power"
      by (cases "id_action m"; simp add: well_decided_def action_text_def)
    with cpas_of_iapD [OF made] reduced_power [of x _ now g1] g x(1) local row(2) show ?thesis
      by (simp add: action_text_def)
  qed
qed

text \<open>A grant that a peer rule or an exclusion decided about, or that was over before, is off the air.\<close>

lemma resolved_silent:
  assumes "snapshot_holds snap d" and "f \<in> set (cs_local snap)" and "\<not> unresolved peer f"
    and "ds = merge_constraint_decisions peer remain dpa"
    and "\<forall>x\<in>set (peer @ dpa). terminates_one_of (cs_local snap) x"
    and "set remain \<subseteq> set (List.map_filter cpas_of_iap M)" and "allocated en snap M"
    and "apply_cpas_decisions now d ds = (n, d2)" and "row_of d2 (fz_pk f) = Some g"
  shows "\<not> may_transmit now g"
proof -
  from assms(1,2) obtain g1 where g1: "row_of d (fz_pk f) = Some g1" "addressable g1" "fz_terminated f \<longrightarrow> gr_term g1"
    and local: "\<not> prefix ''peer/'' (fz_grant_id f)" by (auto simp: snapshot_holds_def)
  have over: "decided now x g1 = g1" if "gr_term g1" for x using that by (simp add: decided_def decided_row_def)
  have "\<exists>y\<in>set peer. cd_pk y = Some pk" if "pk \<in> set (decided_pks peer)" for pk
    using that by (fastforce simp: decided_pks_def present_def dest: map_filter_mem)
  with assms(3) have "fz_terminated f \<or> (\<exists>y\<in>set peer. cd_pk y = Some (fz_pk f))"
    by (auto simp: unresolved_def)
  moreover have "cd_action y = ''terminate''" if "y \<in> set peer" for y
  proof -
    from that assms(5) have "terminates_one_of (cs_local snap) y" by simp
    then obtain h r where "y = terminate_decision h r" unfolding terminates_one_of_def by blast
    then show ?thesis by (simp add: terminate_decision_def)
  qed
  ultimately have some: "fz_terminated f \<or> (\<exists>y\<in>set peer. cd_pk y = Some (fz_pk f) \<and> cd_action y = ''terminate'')" by blast
  from assms(1,2,4,8,9) show ?thesis
  proof (cases rule: row_decided)
    case (untouched g0)
    with some g1 show ?thesis by (auto simp: may_transmit_def)
  next
    case (settled g0 x)
    show ?thesis
    proof (cases "fz_terminated f")
      case True
      with settled(1,2) g1 over show ?thesis by (simp add: may_transmit_def)
    next
      case False
      with some settled(5) have "cd_action x = ''terminate''" by auto
      with terminated_silent [of x g1 now] decision_about(1) [OF assms(1,2,5,6,7) settled(3,4)] local g1 settled(1,2)
      show ?thesis by simp
    qed
  qed
qed

subsection \<open>The points\<close>

text \<open>What a local grant of the snapshot may put on a channel of a point after the decisions.\<close>

definition on_air_mw :: "time \<Rightarrow> coupling \<Rightarrow> protection_point \<Rightarrow> frequency_channel \<Rightarrow> db \<Rightarrow> frozen_grant \<Rightarrow> real" where
  "on_air_mw now cpl pt ch d f =
     (case (frozen_to_iap_grant_rf f, row_of d (fz_pk f)) of
        (Some rf, Some g) \<Rightarrow>
          if in_neighborhood pt rf \<and> grant_overlaps_channel (pp_kind pt) rf ch \<and> may_transmit now g
          then cpl rf pt ch (transmit_eirp g - 1 / 10 ^ 9) else 0
      | _ \<Rightarrow> 0)"

lemma sublist_rfs:
  assumes "distinct (map rf_grant_id (List.map_filter f xs @ ps))"
  shows "distinct (map rf_grant_id (List.map_filter f (filter P xs) @ ps))"
    and "set (List.map_filter f (filter P xs)) \<subseteq> set (List.map_filter f xs)"
    and "length (List.map_filter f (filter P xs)) \<le> length (List.map_filter f xs)"
proof -
  show sub: "set (List.map_filter f (filter P xs)) \<subseteq> set (List.map_filter f xs)" for xs
    by (induction xs) (auto simp: map_filter_simps split: option.split)
  show "length (List.map_filter f (filter P xs)) \<le> length (List.map_filter f xs)" for xs
    by (induction xs) (auto simp: map_filter_simps split: option.split)
  from assms show "distinct (map rf_grant_id (List.map_filter f (filter P xs) @ ps))"
  proof (induction xs)
    case (Cons x xs)
    then show ?case using sub [of xs] by (cases "f x") (auto simp: map_filter_simps)
  qed simp
qed

lemma allocation_made:
  assumes "allocation_decisions ce en snap local pks = Inr iap"
    and "resolve_iap_context (iap_env_of ce) en (Frozen (frozen_peer_records snap ''esc_sensor'') (cs_protection snap))
      = Inr (points, Some made)"
    and "ce_coupling ce = Inr cpl" and "points \<noteq> []"
  obtains grants where "mset grants = mset (List.map_filter frozen_to_iap_grant_rf
      (filter (\<lambda>f. \<not> fz_terminated f \<and> fz_pk f \<notin> set pks) local) @ peer_rfs en snap)"
    and "iap = (if \<not> list_ex rf_managing grants then []
           else List.map_filter cpas_of_iap (snd (run_iap (ce_origin ce) points grants cpl default_iap_config)))"
proof -
  from assms obtain grants where g: "allocation_grants en snap local pks = Inr grants"
    and iap: "iap = (if \<not> list_ex rf_managing grants then []
           else List.map_filter cpas_of_iap (snd (run_iap (ce_origin ce) points grants cpl default_iap_config)))"
    by (auto simp: allocation_decisions_def evaluate_iap_decisions_from_frozen_def rbind_eq_Inr split: sum.splits)
  then have "mset grants = mset (List.map_filter frozen_to_iap_grant_rf
      (filter (\<lambda>f. \<not> fz_terminated f \<and> fz_pk f \<notin> set pks) local) @ peer_rfs en snap)"
    by (auto simp: allocation_grants_def peer_rfs_def rbind_eq_Inr simp del: mset_append)
  with iap that show thesis by metis
qed

lemma sum_list_le: "(\<And>x. x \<in> set xs \<Longrightarrow> f x \<le> (g x :: real)) \<Longrightarrow> sum_list (map f xs) \<le> sum_list (map g xs)"
  by (induction xs) (simp_all add: add_mono)

lemma sum_map_filter:
  "(\<Sum>y\<leftarrow>List.map_filter f (filter P xs). h y) = (\<Sum>x\<leftarrow>xs. if P x then (case f x of Some y \<Rightarrow> h y | None \<Rightarrow> 0) else (0 :: real))"
  by (induction xs) (auto simp: map_filter_simps split: option.split)

lemma sum_filter: "(\<Sum>y\<leftarrow>filter P xs. h y) = (\<Sum>y\<leftarrow>xs. if P y then h y else (0 :: real))"
  by (induction xs) auto

lemma managing_sum:
  assumes "mset grants = mset (L @ ps)" and "\<forall>g\<in>set L. rf_managing g" and "\<forall>g\<in>set ps. \<not> rf_managing g"
  shows "(\<Sum>g\<leftarrow>filter rf_managing (grants_in_neighborhood pt grants). h g)
     = (\<Sum>g\<leftarrow>L. if in_neighborhood pt g then h g else (0 :: real))"
proof -
  have "mset (filter rf_managing (grants_in_neighborhood pt grants))
      = mset (filter rf_managing (filter (in_neighborhood pt) (L @ ps)))"
    using assms(1) by (simp add: grants_in_neighborhood_def mset_filter)
  also have "filter rf_managing (filter (in_neighborhood pt) (L @ ps)) = filter (in_neighborhood pt) L"
    using assms(2,3) by (auto simp: filter_empty_conv filter_filter intro!: filter_cong)
  finally have "sum_mset (image_mset h (mset (filter rf_managing (grants_in_neighborhood pt grants))))
      = sum_mset (image_mset h (mset (filter (in_neighborhood pt) L)))" by simp
  then have "(\<Sum>g\<leftarrow>filter rf_managing (grants_in_neighborhood pt grants). h g) = (\<Sum>g\<leftarrow>filter (in_neighborhood pt) L. h g)"
    by (simp only: mset_map [symmetric] sum_mset_sum_list)
  then show ?thesis by (simp add: sum_filter)
qed

text \<open>The bound of one grant: what the allocation allows it, if the rules before left it.\<close>

definition share_mw :: "coupling \<Rightarrow> protection_point \<Rightarrow> frequency_channel \<Rightarrow> cpas_decision list \<Rightarrow> iap_decision list
    \<Rightarrow> frozen_grant \<Rightarrow> real" where
  "share_mw cpl pt ch peer M f =
     (if unresolved peer f
      then (case frozen_to_iap_grant_rf f of
              Some rf \<Rightarrow> if in_neighborhood pt rf then allowed_mw cpl pt ch rf (the (merged_for M (rf_grant_id rf))) else 0
            | None \<Rightarrow> 0) else 0)"

lemma on_air_within_share:
  assumes holds: "snapshot_holds snap d" and f: "f \<in> set (cs_local snap)"
    and ds: "ds = merge_constraint_decisions peer remain dpa"
    and ends: "\<forall>x\<in>set (peer @ dpa). terminates_one_of (cs_local snap) x"
    and part: "set remain \<subseteq> set iap" "\<forall>x\<in>set iap. x \<in> set remain \<or> cd_grant_id x \<in> cd_grant_id ` set dpa"
    and iap: "iap = List.map_filter cpas_of_iap M" "allocated en snap M"
    and ids: "distinct (map rf_grant_id (snapshot_rfs en snap))"
    and ap: "apply_cpas_decisions now d ds = (n, d2)"
    and coupling: "\<And>g pt ch e. 0 \<le> cpl g pt ch e" "\<And>g pt ch e e'. e \<le> e' \<Longrightarrow> cpl g pt ch e \<le> cpl g pt ch e'"
    and known: "\<And>rf. unresolved peer f \<Longrightarrow> frozen_to_iap_grant_rf f = Some rf \<Longrightarrow> in_neighborhood pt rf \<Longrightarrow>
      \<exists>m\<in>set M. merged_for M (rf_grant_id rf) = Some m \<and> id_grant_id m = rf_grant_id rf"
  shows "on_air_mw now cpl pt ch d2 f \<le> share_mw cpl pt ch peer M f"
proof (cases "on_air_mw now cpl pt ch d2 f = 0")
  case True
  then show ?thesis by (auto simp: share_mw_def allowed_mw_def coupling(1) split: option.split)
next
  case False
  then obtain rf g where on: "frozen_to_iap_grant_rf f = Some rf" "row_of d2 (fz_pk f) = Some g" "in_neighborhood pt rf"
    "grant_overlaps_channel (pp_kind pt) rf ch" "may_transmit now g"
    "on_air_mw now cpl pt ch d2 f = cpl rf pt ch (transmit_eirp g - 1 / 10 ^ 9)"
    by (auto simp: on_air_mw_def split: option.splits if_splits)
  with resolved_silent [OF holds f _ ds ends part(1) [unfolded iap(1)] iap(2) ap] have un: "unresolved peer f" by blast
  from known [OF un on(1,3)] obtain m where m: "m \<in> set M" "merged_for M (rf_grant_id rf) = Some m"
    "id_grant_id m = rf_grant_id rf" by blast
  from local_outcome [OF holds f on(1) ds ends part iap ids m(1,3) ap on(2,5)]
  have "id_action m \<noteq> Terminate_Grant" "transmit_eirp g - 1 / 10 ^ 9 \<le> id_authorized m" by auto
  with coupling(2) [OF this(2), of rf pt ch] on un m(2) show ?thesis by (simp add: share_mw_def allowed_mw_def)
qed

text \<open>What the allocation gives for the grants the rules before left.\<close>

lemma allocation_serves:
  assumes alloc: "if list_ex (unresolved peer) (cs_local snap)
         then allocation_decisions ce en snap (cs_local snap) (decided_pks peer) = Inr iap else iap = []"
    and ctx: "resolve_iap_context (iap_env_of ce) en (Frozen (frozen_peer_records snap ''esc_sensor'') (cs_protection snap))
      = Inr (points, Some made)" "ce_coupling ce = Inr cpl"
    and coupling: "\<And>g pt ch e. 0 \<le> cpl g pt ch e" "\<And>g pt ch e e'. e \<le> e' \<Longrightarrow> cpl g pt ch e \<le> cpl g pt ch e'"
    and ids: "distinct (map rf_grant_id (snapshot_rfs en snap))"
    and enough: "enough_rounds default_iap_config (snapshot_rfs en snap) K"
    and pt: "pt \<in> set points" "ch \<in> set (overlapping_iap_channels (ce_origin ce) IAPBW_HZ (pp_low pt) (pp_high pt))"
    and L: "L = List.map_filter frozen_to_iap_grant_rf (filter (unresolved peer) (cs_local snap))"
  obtains M where "iap = List.map_filter cpas_of_iap M" and "allocated en snap M"
    and "\<forall>rf\<in>set L. in_neighborhood pt rf
      \<longrightarrow> (\<exists>m\<in>set M. merged_for M (rf_grant_id rf) = Some m \<and> id_grant_id m = rf_grant_id rf)"
    and "(\<Sum>rf\<leftarrow>L. if in_neighborhood pt rf then allowed_mw cpl pt ch rf (the (merged_for M (rf_grant_id rf))) else 0)
      \<le> point_threshold_mw pt"
proof (cases "L = [] \<and> iap = []")
  case True
  then show thesis using that [of "[]"] less_imp_le [OF point_threshold_positive]
    by (simp add: allocated_def map_filter_simps)
next
  case False
  have "list_ex (unresolved peer) (cs_local snap)"
  proof (rule ccontr)
    assume "\<not> list_ex (unresolved peer) (cs_local snap)"
    then have "filter (unresolved peer) (cs_local snap) = []" by (auto simp: list_ex_iff filter_empty_conv)
    with False alloc L \<open>\<not> list_ex (unresolved peer) (cs_local snap)\<close> show False by (simp add: map_filter_simps)
  qed
  with alloc have ran: "allocation_decisions ce en snap (cs_local snap) (decided_pks peer) = Inr iap" by simp
  have some: "points \<noteq> []" using pt(1) by auto
  have un: "unresolved peer = (\<lambda>f. \<not> fz_terminated f \<and> fz_pk f \<notin> set (decided_pks peer))"
    by (simp add: fun_eq_iff unresolved_def)
  note made = allocation_made [OF ran ctx some, folded un, folded L]
  obtain grants where grants: "mset grants = mset (L @ peer_rfs en snap)"
    and iap: "iap = (if \<not> list_ex rf_managing grants then []
        else List.map_filter cpas_of_iap (snd (run_iap (ce_origin ce) points grants cpl default_iap_config)))"
    using made by blast
  have sets: "set grants = set L \<union> set (peer_rfs en snap)" using mset_eq_setD [OF grants] by simp
  have mine: "\<forall>g\<in>set L. rf_managing g" using frozen_rf(3) by (auto simp: L dest!: map_filter_mem)
  have theirs: "\<forall>g\<in>set (peer_rfs en snap). \<not> rf_managing g"
    by (cases "grant_rf_infos_from_frozen_peer_cbsds en (frozen_peer_cbsd_rows snap)")
      (auto simp: peer_rfs_def dest: peer_grants_shape)
  have "list_ex rf_managing grants"
    using False iap sets mine by (cases L) (auto simp: list_ex_iff split: if_splits)
  let ?M = "snd (run_iap (ce_origin ce) points grants cpl default_iap_config)"
  note sub = sublist_rfs [OF ids [unfolded snapshot_rfs_def], of "unresolved peer", folded L]
  have dist: "distinct (map rf_grant_id grants)"
    using sub(1) mset_eq_imp_distinct_iff [OF arg_cong [OF grants, of "image_mset rf_grant_id", simplified mset_map [symmetric]]]
    by simp
  have within: "set grants \<subseteq> set (snapshot_rfs en snap)" using sets sub(2) by (auto simp: snapshot_rfs_def)
  have "length grants \<le> length (snapshot_rfs en snap)"
    using arg_cong [OF grants, of size] sub(3) by (simp add: snapshot_rfs_def)
  with enough within have rounds: "enough_rounds default_iap_config grants K" by (auto simp: enough_rounds_def)
  show thesis
  proof (rule that)
    show "iap = List.map_filter cpas_of_iap ?M" using iap \<open>list_ex rf_managing grants\<close> by simp
    show "allocated en snap ?M"
      using run_iap_about [OF dist refl] within unfolding allocated_def decides_about_def by blast
    show "\<forall>rf\<in>set L. in_neighborhood pt rf
        \<longrightarrow> (\<exists>m\<in>set ?M. merged_for ?M (rf_grant_id rf) = Some m \<and> id_grant_id m = rf_grant_id rf)"
      using neighbour_decided [OF dist pt] sets mine by (metis UnI1)
    show "(\<Sum>rf\<leftarrow>L. if in_neighborhood pt rf then allowed_mw cpl pt ch rf (the (merged_for ?M (rf_grant_id rf))) else 0)
        \<le> point_threshold_mw pt"
      using merged_decisions_protect [OF rounds dist coupling pt] managing_sum [OF grants mine theirs] by simp
  qed
qed

text \<open>
  C1. The coordination protects the points of its snapshot. Once its decisions are applied, the local
  grants it saw that may still transmit, each at the power its row now holds (to a billionth of a dB), fit
  the threshold of every protection point on each of its channels: whatever the peer rules, the exclusions,
  the allocation and the move lists decided, however their decisions were merged, and whichever of them
  the rows refused. The propagation model is any coupling that is never negative and grows with the power.
\<close>

theorem coordination_protects_points:
  assumes "evaluate_cpas_protections ce en d snap = Inr (ds, d1)"
    and "apply_cpas_decisions (env_now en) d1 ds = (n, d2)" and "snapshot_holds snap d"
    and "resolve_iap_context (iap_env_of ce) en (Frozen (frozen_peer_records snap ''esc_sensor'') (cs_protection snap))
      = Inr (points, Some made)"
    and "ce_coupling ce = Inr cpl" and "\<And>g pt ch e. 0 \<le> cpl g pt ch e"
    and "\<And>g pt ch e e'. e \<le> e' \<Longrightarrow> cpl g pt ch e \<le> cpl g pt ch e'"
    and "distinct (map rf_grant_id (snapshot_rfs en snap))" and "enough_rounds default_iap_config (snapshot_rfs en snap) K"
    and "pt \<in> set points" and "ch \<in> set (overlapping_iap_channels (ce_origin ce) IAPBW_HZ (pp_low pt) (pp_high pt))"
  shows "(\<Sum>f\<leftarrow>cs_local snap. on_air_mw (env_now en) cpl pt ch d2 f) \<le> point_threshold_mw pt"
proof (cases "cs_local snap = []")
  case True
  then show ?thesis using less_imp_le [OF point_threshold_positive] by simp
next
  case False
  obtain peer iap remain dpa where ds: "ds = merge_constraint_decisions peer remain dpa"
    and ends: "\<forall>x\<in>set (peer @ dpa). terminates_one_of (cs_local snap) x"
    and part: "set remain \<subseteq> set iap" "\<forall>x\<in>set iap. x \<in> set remain \<or> cd_grant_id x \<in> cd_grant_id ` set dpa"
    and alloc: "if list_ex (unresolved peer) (cs_local snap)
         then allocation_decisions ce en snap (cs_local snap) (decided_pks peer) = Inr iap else iap = []"
    using evaluation_parts [OF assms(1) False] by metis
  have "db_grants d1 = db_grants d" using only_kinds_tables(1) [OF evaluation_only [OF assms(1)]] .
  then have holds: "snapshot_holds snap d1" using assms(3) by (simp add: snapshot_holds_def row_of_def)
  obtain M where M: "iap = List.map_filter cpas_of_iap M" "allocated en snap M"
    and known: "\<forall>rf\<in>set (List.map_filter frozen_to_iap_grant_rf (filter (unresolved peer) (cs_local snap))).
      in_neighborhood pt rf \<longrightarrow> (\<exists>m\<in>set M. merged_for M (rf_grant_id rf) = Some m \<and> id_grant_id m = rf_grant_id rf)"
    and total: "(\<Sum>rf\<leftarrow>List.map_filter frozen_to_iap_grant_rf (filter (unresolved peer) (cs_local snap)).
        if in_neighborhood pt rf then allowed_mw cpl pt ch rf (the (merged_for M (rf_grant_id rf))) else 0)
      \<le> point_threshold_mw pt"
    using allocation_serves [OF alloc assms(4-11) refl] by blast
  have "on_air_mw (env_now en) cpl pt ch d2 f \<le> share_mw cpl pt ch peer M f" if f: "f \<in> set (cs_local snap)" for f
  proof (rule on_air_within_share [OF holds f ds ends part M assms(8,2,6,7)])
    fix rf assume "unresolved peer f" "frozen_to_iap_grant_rf f = Some rf" "in_neighborhood pt rf"
    then show "\<exists>m\<in>set M. merged_for M (rf_grant_id rf) = Some m \<and> id_grant_id m = rf_grant_id rf"
      using known map_filter_in [of frozen_to_iap_grant_rf f rf "filter (unresolved peer) (cs_local snap)"] f by simp
  qed
  then have "(\<Sum>f\<leftarrow>cs_local snap. on_air_mw (env_now en) cpl pt ch d2 f)
      \<le> (\<Sum>f\<leftarrow>cs_local snap. share_mw cpl pt ch peer M f)" by (rule sum_list_le)
  with total show ?thesis by (simp add: share_mw_def sum_map_filter)
qed

text \<open>A snapshot holds for the state it was taken in.\<close>

lemma frozen_keys:
  assumes "distinct (map key gs)" and "\<And>g f. fz g = Some f \<Longrightarrow> out f = key g"
  shows "distinct (map out (List.map_filter fz gs))"
  using assms(1)
proof (induction gs)
  case (Cons g gs)
  then show ?case
    using assms(2) by (cases "fz g") (auto simp: map_filter_simps dest!: map_filter_mem)
qed (simp add: map_filter_simps)

lemma frozen_fields:
  "fz_pk (frozen_local_grant_from_orm en g c) = gr_pk g"
  "fz_grant_id (frozen_local_grant_from_orm en g c) = gr_id g"
  "frozen_eirp (frozen_local_grant_from_orm en g c) = transmit_eirp g"
  "fz_terminated (frozen_local_grant_from_orm en g c) = gr_term g"
  by (simp_all add: frozen_local_grant_from_orm_def frozen_eirp_def transmit_eirp_def Let_def case_prod_unfold)

lemma snapshot_just_taken:
  assumes "freeze_cpas_snapshot en d report = Inr snap" and "distinct (map gr_pk (db_grants d))"
    and "distinct (map gr_id (db_grants d))"
    and "\<forall>g\<in>set (db_grants d). addressable g \<and> \<not> prefix ''peer/'' (gr_id g)"
  shows "snapshot_holds snap d"
proof -
  let ?fz = "\<lambda>g. map_option (frozen_local_grant_from_orm en g) (lock_cbsd_row d (PStr (gr_cbsd_id g)))"
  let ?gs = "filter (\<lambda>g. \<not> gr_term g) (db_grants d)"
  from assms(1) have local: "cs_local snap = List.map_filter ?fz ?gs"
    by (auto simp: freeze_cpas_snapshot_def frozen_active_grants_def Let_def split: sum.splits)
  have fz: "fz_pk f = gr_pk g \<and> fz_grant_id f = gr_id g \<and> frozen_eirp f = transmit_eirp g \<and> fz_terminated f = gr_term g"
    if "?fz g = Some f" for g f
    using that by (auto simp: frozen_fields)
  have "distinct (map gr_pk ?gs)" "distinct (map gr_id ?gs)" using assms(2,3) by (simp_all add: distinct_map_filter)
  with fz have "distinct (map fz_pk (cs_local snap))" "distinct (map fz_grant_id (cs_local snap))"
    unfolding local by (auto intro!: frozen_keys)
  moreover have "\<not> prefix ''peer/'' (fz_grant_id f) \<and> (\<exists>g. row_of d (fz_pk f) = Some g \<and> addressable g
      \<and> transmit_eirp g \<le> frozen_eirp f \<and> (fz_terminated f \<longrightarrow> gr_term g))" if "f \<in> set (cs_local snap)" for f
  proof -
    from that obtain g where g: "g \<in> set (db_grants d)" "?fz g = Some f" by (auto simp: local dest!: map_filter_mem)
    with fz [OF g(2)] find_pk [OF assms(2) g(1)] assms(4) show ?thesis by (auto simp: row_of_def)
  qed
  ultimately show ?thesis using assms(2) by (auto simp: snapshot_holds_def)
qed

subsection \<open>One grant near a site\<close>

definition watched_db :: db where
  "watched_db = empty_db\<lparr>db_grants := [example_grant],
     db_injected := [(''quiet_zone_config'', JDoc (PDict [(''tableMountainEnabled'', PBool False),
        (''fccOfficesEnabled'', PBool False), (''configurableAreasEnabled'', PBool False)]))]\<rparr>"

definition watched_grant :: frozen_grant where
  "watched_grant = \<lparr>fz_pk = 0, fz_grant_id = ''grant/1'', fz_cbsd_id = ''F/S'', fz_fcc_id = ''F'', fz_serial = ''S'',
     fz_low = 3560000000, fz_high = 3570000000, fz_max_eirp = Some 20, fz_state = ''GRANTED'',
     fz_terminated = False, fz_lat = Some 40, fz_lon = Some (- 100), fz_height = Some 5, fz_height_type = ''AGL'',
     fz_indoor = False, fz_category = ''A'', fz_azimuth = None, fz_beamwidth = None, fz_gain = None\<rparr>"

definition watched_snapshot :: cpas_snapshot where
  "watched_snapshot = (idle_snapshot \<lparr>fp_peers = [], fp_injections = []\<rparr>)\<lparr>cs_pks := [0], cs_local := [watched_grant],
     cs_protection := [(''fss'', ''f1'', json_dumps (PDict example_fss))]\<rparr>"

definition watched_env :: cpas_env where
  "watched_env = \<lparr>ce_enabled = True, ce_coupling = Inr example_coupling, ce_band = cbrs_band,
     ce_origin = 3550000000, ce_thresholds = default_thresholds, ce_peer_esc = None, ce_peer_ppa = None,
     ce_path_loss = Inl RuntimeError\<rparr>"

lemma watched_holds: "snapshot_holds watched_snapshot watched_db"
  by (simp add: snapshot_holds_def watched_snapshot_def idle_snapshot_def watched_grant_def watched_db_def row_of_def
      example_grant_def addressable_def transmit_eirp_def frozen_eirp_def)

lemma watched_records:
  "frozen_dicts (cs_protection watched_snapshot) k = (if k = ''fss'' then [(''f1'', example_fss)] else [])"
  "frozen_peer_records watched_snapshot k = []" "frozen_peer_cbsd_rows watched_snapshot = []"
  by (simp_all add: frozen_dicts_def watched_snapshot_def idle_snapshot_def row_dict_def frozen_peer_records_def
      frozen_peer_cbsd_rows_def map_filter_simps)

lemma watched_points:
  "resolve_iap_context (iap_env_of watched_env) example_env
     (Frozen (frozen_peer_records watched_snapshot ''esc_sensor'') (cs_protection watched_snapshot))
   = Inr (fss_db_points, Some (\<lambda>g pt ch e. Inr (example_coupling g pt ch e)))"
proof -
  have "sort_key point_order (rev fss_db_points) = fss_db_points"
    by (simp add: fss_db_points_def point_order_def fss_point_def)
  moreover have "assert_frozen_esc_connectivity example_env (cs_protection watched_snapshot) = Inr ()"
    by (simp add: assert_frozen_esc_connectivity_def watched_snapshot_def)
  ultimately have "build_protection_points_from_frozen example_env cbrs_band default_thresholds [] (cs_protection watched_snapshot)
      = Inr fss_db_points"
    by (simp add: build_protection_points_from_frozen_def build_protection_points_from_payloads_def watched_records
        example_fss_points present_def index_pals_def)
  then show ?thesis
    by (simp add: resolve_iap_context_def iap_env_of_def watched_env_def resolve_iap_points_def watched_records)
      (simp add: fss_db_points_def)
qed

lemma watched_fields [simp]:
  "\<not> fz_terminated watched_grant" "fz_lat watched_grant = Some 40" "fz_lon watched_grant = Some (- 100)"
  "fz_low watched_grant = 3560000000" "fz_high watched_grant = 3570000000" "fz_category watched_grant = ''A''"
  "fz_pk watched_grant = 0"
  by (simp_all add: watched_grant_def)

lemma watched_clear:
  "peer_reason watched_env example_env watched_snapshot watched_grant = Inr None"
  "pre_iap_reason example_env watched_db (cs_protection watched_snapshot) watched_grant = Inr None"
proof -
  show "peer_reason watched_env example_env watched_snapshot watched_grant = Inr None"
    by (simp add: peer_reason_def frozen_peer_has_grant_for_cbsd_def watched_records frozen_conflicts_peer_ppa_def
        frozen_conflicts_peer_esc_def peer_esc_params_def peer_ppa_buffer_m_def watched_env_def cbrs_band_def)
  have "exclusion_payloads (cs_protection watched_snapshot) k = (if k = ''fss'' then [example_fss] else [])" for k
    by (simp add: exclusion_payloads_def watched_records)
  moreover have "quiet_excludes example_env watched_db watched_grant 40 (- 100) = Inr None"
    by (simp add: quiet_excludes_def Let_def quiet_zone_blocks_location_def in_nrao_nrro_quiet_zone_def NRQZ_WEST_def
        NRQZ_EAST_def get_qpr_config_def rows_of_kind_def watched_db_def bool_default_True_def)
  moreover have "parse_fss_ttc example_fss = Inr None" by (simp add: parse_fss_ttc_def example_fss_def)
  moreover have "\<exists>c. fss_lat_lon_freq example_fss = Inr c"
    by (simp add: fss_lat_lon_freq_def example_fss_def record_or_self_def por_def Let_def)
  ultimately show "pre_iap_reason example_env watched_db (cs_protection watched_snapshot) watched_grant = Inr None"
    by (auto simp: pre_iap_reason_def exz_excludes_def frozen_exz_records_def gwpz_excludes_def
        wisps_from_protection_records_def watched_records fss_gwbl_excludes_def gwbl_points_def fss_ttc_excludes_def
        map_filter_simps split: option.splits)
qed

lemma watched_evaluation:
  obtains ds d1 where "evaluate_cpas_protections watched_env example_env watched_db watched_snapshot = Inr (ds, d1)"
proof -
  have local: "snapshot_grants example_env watched_db watched_snapshot = [watched_grant]"
    "cs_local watched_snapshot = [watched_grant]"
    by (simp_all add: snapshot_grants_def watched_snapshot_def)
  have peer: "peer_rule_decisions watched_env example_env watched_snapshot [watched_grant] = Inr []"
    by (simp add: peer_rule_decisions_def watched_clear present_def map_filter_simps)
  have excluded: "pre_iap_decisions example_env watched_db watched_snapshot [watched_grant] [] = Inr []"
    by (simp add: pre_iap_decisions_def evaluate_pre_iap_exclusions_def watched_clear present_def map_filter_simps)
  have none: "grant_rf_infos_from_frozen_peer_cbsds example_env [] = Inr []"
    "dpa_grants_from_frozen_peer_cbsds example_env [] = Inr []"
    by (simp_all add: grant_rf_infos_from_frozen_peer_cbsds_def dpa_grants_from_frozen_peer_cbsds_def)
  have coupled: "ce_coupling watched_env = Inr example_coupling" by (simp add: watched_env_def)
  obtain iap where iap: "allocation_decisions watched_env example_env watched_snapshot [watched_grant] [] = Inr iap"
    using watched_points [unfolded watched_records(2)]
    by (auto simp: allocation_decisions_def evaluate_iap_decisions_from_frozen_def allocation_grants_def
        watched_records none coupled fss_db_points_def)
  have "list_active_activations watched_db = []"
    by (simp add: list_active_activations_def rows_of_kind_def watched_db_def map_filter_simps)
  then have "refresh_activation_movelists example_env pl watched_db grants = (Inr 0, watched_db)" for pl grants
    by (simp add: refresh_activation_movelists_def present_def map_filter_simps Let_def)
  then have "\<exists>r. dpa_stage watched_env example_env watched_db watched_snapshot [watched_grant] [] iap = Inr r"
    by (simp add: dpa_stage_def watched_records none Let_def cong: if_cong)
  then obtain ds d1 where "dpa_stage watched_env example_env watched_db watched_snapshot [watched_grant] [] iap = Inr (ds, d1)"
    by auto
  with that show thesis
    by (simp add: evaluate_cpas_protections_def local peer excluded iap decided_pks_def present_def map_filter_simps)
qed

theorem coordination_protects_points_witness:
  "\<exists>ds d1 d2. evaluate_cpas_protections watched_env example_env watched_db watched_snapshot = Inr (ds, d1)
     \<and> snd (apply_cpas_decisions (env_now example_env) d1 ds) = d2
     \<and> on_air_mw (env_now example_env) example_coupling (hd fss_db_points)
          \<lparr>ch_low = 3560000000, ch_high = 3565000000\<rparr> d2 watched_grant \<le> point_threshold_mw (hd fss_db_points)"
proof -
  let ?pt = "hd fss_db_points" and ?ch = "\<lparr>ch_low = 3560000000, ch_high = 3565000000\<rparr>"
  obtain ds d1 where ev: "evaluate_cpas_protections watched_env example_env watched_db watched_snapshot = Inr (ds, d1)"
    by (rule watched_evaluation)
  obtain n d2 where ap: "apply_cpas_decisions (env_now example_env) d1 ds = (n, d2)"
    by (cases "apply_cpas_decisions (env_now example_env) d1 ds")
  have rfs: "\<exists>rf. snapshot_rfs example_env watched_snapshot = [rf] \<and> rf_max_eirp rf = 20"
    by (simp add: snapshot_rfs_def peer_rfs_def watched_records grant_rf_infos_from_frozen_peer_cbsds_def)
      (simp add: watched_snapshot_def map_filter_simps frozen_to_iap_grant_rf_def watched_grant_def)
  then have rfs: "distinct (map rf_grant_id (snapshot_rfs example_env watched_snapshot))"
    "enough_rounds default_iap_config (snapshot_rfs example_env watched_snapshot) 168"
    by (auto simp: enough_rounds_def default_iap_config_def DEFAULT_EIRP_FLOOR_DBM_MHZ_def EIRP_STEP_DB_def)
  have pt: "?pt \<in> set fss_db_points" by (simp add: fss_db_points_def)
  have ch: "?ch \<in> set (overlapping_iap_channels (ce_origin watched_env) IAPBW_HZ (pp_low ?pt) (pp_high ?pt))"
    by (simp add: overlapping_iap_channels_def IAPBW_HZ_def channels_from.simps fss_db_points_def fss_point_def
        watched_env_def)
  have "ce_coupling watched_env = Inr example_coupling" by (simp add: watched_env_def)
  from coordination_protects_points [OF ev ap watched_holds watched_points this example_coupling_ok rfs pt ch]
  have "(\<Sum>f\<leftarrow>cs_local watched_snapshot. on_air_mw (env_now example_env) example_coupling ?pt ?ch d2 f)
      \<le> point_threshold_mw ?pt" .
  with ev ap show ?thesis by (auto simp: watched_snapshot_def)
qed

end
