(* ===== verification/FadClient.thy ===== *)
theory FadClient
  imports Urls Injected "HOL-Library.Sublist"
begin

text \<open>
  The client of the peers' full activity dumps (services/fad_client_service.py): which URLs it may
  ask for, the validation of the manifest and of the files, the snapshot of one generation, its
  application to the table of peer records, and the synchronisation of all peers.

  The network is an argument: for each peer, what the name of a host resolves to and what the
  answer to a GET is, by the number of the request in the synchronisation of that peer (0 is the
  manifest, \<open>k + 1\<close> the k-th file). So are \<open>ipaddress\<close> (the classes of an address), the check
  \<open>urlsplit\<close> makes of an authority, and \<open>json.loads\<close> of UTF-8 bytes (\<open>fc_decode\<close>,
  \<open>JBad\<close> when they are not). A failing call has no text, only its exception; the report gets the text from
  \<open>fc_error_text\<close>. The locks make an application one step.
\<close>

record ip_address =
  ip_text :: string
  ip_multicast :: bool
  ip_unspecified :: bool
  ip_link_local :: bool
  ip_loopback :: bool
  ip_private :: bool
  ip_reserved :: bool

datatype dns_reply = Dns_failed | Dns_raises exn | Dns_addresses "string list"

datatype peer_answer = Request_error | Http_raises exn | Answer nat string

record fad_client =
  fc_resolve :: "nat \<Rightarrow> nat \<Rightarrow> string \<Rightarrow> dns_reply"
  fc_fetch :: "nat \<Rightarrow> nat \<Rightarrow> string \<Rightarrow> peer_answer"
  fc_decode :: "string \<Rightarrow> jtext"
  fc_ip :: "string \<Rightarrow> ip_address option"
  fc_netloc_ok :: "string \<Rightarrow> bool"
  fc_version :: string
  fc_max_file_bytes :: int
  fc_error_text :: "exn \<Rightarrow> string"

definition CLIENT_RECORD_TYPES :: "string list" where
  "CLIENT_RECORD_TYPES = [''cbsd'', ''zone'', ''esc_sensor'', ''coordination'']"

definition BLOCKED_LITERAL_HOSTS :: "string list" where
  "BLOCKED_LITERAL_HOSTS = [''metadata.google.internal'', ''metadata'', ''instance-data'']"

subsection \<open>URLs\<close>

text \<open>\<open>urlparse\<close>, up to the query and the fragment. The port is read when it is asked for.\<close>

record url_parts =
  up_scheme :: string
  up_username :: "string option"
  up_password :: "string option"
  up_hostname :: "string option"
  up_port :: "string option"
  up_path :: string

definition host_and_port :: "string \<Rightarrow> string \<times> string" where
  "host_and_port hostinfo =
     (case partition_on (CHR ''['') hostinfo of
        (_, True, bracketed) \<Rightarrow>
          (case partition_on (CHR '']'') bracketed of
             (h, _, rest) \<Rightarrow> (case partition_on (CHR '':'') rest of (_, _, p) \<Rightarrow> (h, p)))
      | (_, False, _) \<Rightarrow> (case partition_on (CHR '':'') hostinfo of (h, _, p) \<Rightarrow> (h, p)))"

definition lower_host :: "string \<Rightarrow> string" where
  "lower_host h =
     (case partition_on (CHR ''%'') h of (a, found, zone) \<Rightarrow> py_lower a @ (if found then CHR ''%'' # zone else []))"

definition urlparse :: "fad_client \<Rightarrow> string \<Rightarrow> url_parts res" where
  "urlparse fc url =
     rbind (urlsplit (fc_netloc_ok fc) url) (\<lambda>(scheme, netloc, tail).
       case rpartition_on (CHR ''@'') netloc of
         (userinfo, have_info, hostinfo) \<Rightarrow>
           (case partition_on (CHR '':'') userinfo of
             (user, have_password, password) \<Rightarrow>
               (case host_and_port hostinfo of
                 (host, port) \<Rightarrow>
                   Inr \<lparr>up_scheme = scheme,
                        up_username = (if have_info then Some user else None),
                        up_password = (if have_info \<and> have_password then Some password else None),
                        up_hostname = (if host = [] then None else Some (lower_host host)),
                        up_port = (if port = [] then None else Some port),
                        up_path = path_of_url scheme tail\<rparr>)))"

text \<open>\<open>parsed.port or 443\<close>.\<close>

definition port_or_443 :: "url_parts \<Rightarrow> int res" where
  "port_or_443 u =
     (case up_port u of
        None \<Rightarrow> Inr 443
      | Some p \<Rightarrow>
          if \<not> list_all is_digit p then Inl ValueError
          else (case read_nat p of
                  None \<Rightarrow> Inl ValueError
                | Some n \<Rightarrow> if 65535 < n then Inl ValueError else Inr (if n = 0 then 443 else n)))"

definition parse_https_url :: "fad_client \<Rightarrow> string \<Rightarrow> (string \<times> string \<times> int \<times> string) res" where
  "parse_https_url fc url =
     rbind (urlparse fc url) (\<lambda>u.
       if up_scheme u \<noteq> ''https'' then Inl FadClientError
       else (let host = py_lower (py_strip (case up_hostname u of None \<Rightarrow> [] | Some h \<Rightarrow> h)) in
         if host = [] then Inl FadClientError
         else if host \<in> set BLOCKED_LITERAL_HOSTS then Inl FadClientError
         else rbind (port_or_443 u) (\<lambda>port.
           Inr (''https'', host, port, if up_path u = [] then ''/'' else up_path u))))"

definition url_origin :: "string \<Rightarrow> string \<Rightarrow> int \<Rightarrow> string" where
  "url_origin scheme host port =
     (if port = (if scheme = ''https'' then 443 else 80) then scheme @ ''://'' @ host
      else scheme @ ''://'' @ host @ '':'' @ show_int port)"

definition peer_base_origin :: "fad_client \<Rightarrow> string \<Rightarrow> string res" where
  "peer_base_origin fc peer_url =
     rbind (parse_https_url fc peer_url) (\<lambda>(scheme, host, port, _). Inr (url_origin scheme host port))"

subsection \<open>Addresses\<close>

definition host_allows_loopback_or_private :: "fad_client \<Rightarrow> string \<Rightarrow> bool" where
  "host_allows_loopback_or_private fc host =
     (case fc_ip fc host of
        Some ip \<Rightarrow> ip_loopback ip \<or> ip_private ip
      | None \<Rightarrow> host \<in> {''localhost'', ''localhost.localdomain''})"

definition ip_blocked :: "ip_address \<Rightarrow> bool \<Rightarrow> bool" where
  "ip_blocked ip allow_lab =
     (if ip_text ip \<in> {''169.254.169.254'', ''169.254.169.253''} then True
      else if ip_multicast ip \<or> ip_unspecified ip then True
      else if ip_link_local ip then \<not> allow_lab
      else if ip_loopback ip then \<not> allow_lab
      else if ip_private ip then \<not> allow_lab
      else ip_reserved ip)"

definition assert_resolved_host_allowed :: "fad_client \<Rightarrow> dns_reply \<Rightarrow> string \<Rightarrow> string \<Rightarrow> unit res" where
  "assert_resolved_host_allowed fc dns host peer_host =
     (let allow_lab = host_allows_loopback_or_private fc peer_host \<and> py_lower host = py_lower peer_host in
      case dns of
        Dns_failed \<Rightarrow> Inl FadClientError
      | Dns_raises e \<Rightarrow> Inl e
      | Dns_addresses infos \<Rightarrow>
          (let ips = List.map_filter (fc_ip fc) infos in
           if infos = [] then Inl FadClientError
           else if list_ex (\<lambda>ip. ip_blocked ip allow_lab) ips then Inl FadClientError
           else if ips = [] then Inl FadClientError else Inr ()))"

definition has_userinfo :: "url_parts \<Rightarrow> bool" where
  "has_userinfo u = (up_username u \<noteq> None \<or> up_password u \<noteq> None)"

text \<open>\<open>dns\<close> is the answer to the question for a host at that moment.\<close>

definition assert_url_allowed_for_peer ::
    "fad_client \<Rightarrow> (string \<Rightarrow> dns_reply) \<Rightarrow> string \<Rightarrow> string \<Rightarrow> unit res" where
  "assert_url_allowed_for_peer fc dns url peer_url =
     rbind (urlparse fc url) (\<lambda>u.
       if has_userinfo u then Inl FadClientError
       else rbind (urlparse fc peer_url) (\<lambda>v.
         if has_userinfo v then Inl FadClientError
         else rbind (parse_https_url fc peer_url) (\<lambda>(peer_scheme, peer_host, peer_port, _).
         rbind (parse_https_url fc url) (\<lambda>(scheme, host, port, _).
           if (scheme, host, port) \<noteq> (peer_scheme, peer_host, peer_port) then Inl FadClientError
           else assert_resolved_host_allowed fc (dns host) host peer_host))))"

text \<open>\<open>s.rstrip("/")\<close>.\<close>

definition rstrip_slash :: "string \<Rightarrow> string" where
  "rstrip_slash s = rev (dropWhile (\<lambda>c. c = CHR ''/'') (rev s))"

definition peer_dump_url :: "fad_client \<Rightarrow> string \<Rightarrow> string res" where
  "peer_dump_url fc peer_url =
     (let base = rstrip_slash (py_strip peer_url) in
      rbind (parse_https_url fc base) (\<lambda>_. Inr (base @ ''/dump'')))"

subsection \<open>Validation\<close>

record file_entry =
  fe_url :: string
  fe_checksum :: string
  fe_size :: int
  fe_version :: string
  fe_type :: string

text \<open>An entry of the manifest, checked and normalised.\<close>

definition normalized_entry :: "fad_client \<Rightarrow> env \<Rightarrow> pyval \<Rightarrow> file_entry res" where
  "normalized_entry fc en entry =
     (case entry of
        PDict e \<Rightarrow>
          if \<not> list_all (dhas e) [''url'', ''checksum'', ''size'', ''version'', ''recordType''] then Inl FadClientError
          else (let record_type = py_str en (dget e ''recordType''); version = py_str en (dget e ''version'');
                    checksum = py_lower (py_str en (dget e ''checksum'')) in
            if record_type \<notin> set CLIENT_RECORD_TYPES then Inl FadClientError
            else if version \<noteq> py_strip (fc_version fc) then Inl FadClientError
            else (case py_int (dget e ''size'') of
                    Inl _ \<Rightarrow> Inl FadClientError
                  | Inr n \<Rightarrow>
                      if n < 0 then Inl FadClientError
                      else if 0 < fc_max_file_bytes fc \<and> fc_max_file_bytes fc < n then Inl FadClientError
                      else if length checksum \<noteq> 40 \<or> \<not> list_all (\<lambda>c. c \<in> set ''0123456789abcdef'') checksum
                      then Inl FadClientError
                      else Inr \<lparr>fe_url = py_str en (dget e ''url''), fe_checksum = checksum, fe_size = n,
                                fe_version = version, fe_type = record_type\<rparr>))
      | _ \<Rightarrow> Inl FadClientError)"

definition validate_manifest :: "fad_client \<Rightarrow> env \<Rightarrow> pyval \<Rightarrow> (string \<times> string \<times> file_entry list) res" where
  "validate_manifest fc en manifest =
     (case manifest of
        PDict m \<Rightarrow>
          if \<not> list_all (dhas m) [''files'', ''generationDateTime'', ''description''] then Inl FadClientError
          else (case dget m ''files'' of
                  PList (f # fs) \<Rightarrow>
                    if 101 < length (f # fs) then Inl FadClientError
                    else rbind (rmap (normalized_entry fc en) (f # fs)) (\<lambda>entries.
                      Inr (py_str en (dget m ''generationDateTime''), py_str en (dget m ''description''), entries))
                | _ \<Rightarrow> Inl FadClientError)
      | _ \<Rightarrow> Inl FadClientError)"

definition checked_record :: "env \<Rightarrow> pyval \<Rightarrow> pydict res" where
  "checked_record en v =
     (case v of
        PDict r \<Rightarrow> if py_strip (py_str en (por (dget r ''id'') (PStr []))) = [] then Inl FadClientError else Inr r
      | _ \<Rightarrow> Inl FadClientError)"

definition validate_activity_envelope :: "env \<Rightarrow> pyval \<Rightarrow> string \<Rightarrow> pydict list res" where
  "validate_activity_envelope en envelope generation_datetime =
     (case envelope of
        PDict e \<Rightarrow>
          if \<not> list_all (dhas e) [''startTime'', ''endTime'', ''recordData''] then Inl FadClientError
          else if dget e ''startTime'' \<noteq> PStr generation_datetime \<or> dget e ''endTime'' \<noteq> PStr generation_datetime
          then Inl FadClientError
          else (case dget e ''recordData'' of
                  PList records \<Rightarrow> rmap (checked_record en) records
                | _ \<Rightarrow> Inl FadClientError)
      | _ \<Rightarrow> Inl FadClientError)"

subsection \<open>One generation\<close>

record fad_file_payload =
  fp_type :: string
  fp_url :: string
  fp_checksum :: string
  fp_size :: int
  fp_version :: string
  fp_content :: string
  fp_envelope :: pyval

record fad_generation =
  fg_peer :: nat
  fg_datetime :: string
  fg_description :: string
  fg_files :: "fad_file_payload list"
  fg_records :: "(string \<times> string \<times> pydict) list"

text \<open>Any answer outside 2xx is refused, redirections included.\<close>

definition http_get_bytes :: "peer_answer \<Rightarrow> string res" where
  "http_get_bytes answer =
     (case answer of
        Request_error \<Rightarrow> Inl FadClientError
      | Http_raises e \<Rightarrow> Inl e
      | Answer status body \<Rightarrow> if 200 \<le> status \<and> status \<le> 299 then Inr body else Inl FadClientError)"

definition load_bytes :: "fad_client \<Rightarrow> string \<Rightarrow> pyval res" where
  "load_bytes fc content = (case json_loads (fc_decode fc content) of Inl _ \<Rightarrow> Inl FadClientError | Inr v \<Rightarrow> Inr v)"

definition fetch_file ::
    "fad_client \<Rightarrow> env \<Rightarrow> nat \<Rightarrow> string \<Rightarrow> string \<Rightarrow> nat \<times> file_entry \<Rightarrow> (fad_file_payload \<times> pydict list) res" where
  "fetch_file fc en pk base generation entry =
     (case entry of (k, e) \<Rightarrow>
       rbind (assert_url_allowed_for_peer fc (fc_resolve fc pk (Suc k)) (fe_url e) base) (\<lambda>_.
       rbind (http_get_bytes (fc_fetch fc pk (Suc k) (fe_url e))) (\<lambda>content.
         if 0 < fc_max_file_bytes fc \<and> fc_max_file_bytes fc < int (length content) then Inl FadClientError
         else if env_sha1_hex en content \<noteq> fe_checksum e then Inl FadClientError
         else if int (length content) \<noteq> fe_size e then Inl FadClientError
         else rbind (load_bytes fc content) (\<lambda>envelope.
              rbind (validate_activity_envelope en envelope generation) (\<lambda>records.
                Inr (\<lparr>fp_type = fe_type e, fp_url = fe_url e, fp_checksum = fe_checksum e, fp_size = fe_size e,
                      fp_version = fe_version e, fp_content = content, fp_envelope = envelope\<rparr>, records))))))"

definition typed_records :: "env \<Rightarrow> fad_file_payload \<times> pydict list \<Rightarrow> (string \<times> string \<times> pydict) list" where
  "typed_records en file = map (\<lambda>r. (fp_type (fst file), py_str en (dget r ''id''), r)) (snd file)"

definition record_keys :: "(string \<times> string \<times> pydict) list \<Rightarrow> (string \<times> string) list" where
  "record_keys records = map (\<lambda>(t, i, _). (t, i)) records"

definition fetch_peer_generation :: "fad_client \<Rightarrow> env \<Rightarrow> peer_row \<Rightarrow> fad_generation res" where
  "fetch_peer_generation fc en peer =
     (let base = py_strip (pe_url peer); pk = pe_pk peer in
      if base = [] then Inl FadClientError
      else rbind (peer_dump_url fc base) (\<lambda>dump_url.
           rbind (assert_url_allowed_for_peer fc (fc_resolve fc pk 0) dump_url base) (\<lambda>_.
           rbind (http_get_bytes (fc_fetch fc pk 0 dump_url)) (\<lambda>raw_manifest.
           rbind (load_bytes fc raw_manifest) (\<lambda>manifesto.
           rbind (validate_manifest fc en manifesto) (\<lambda>(generation, description, entries).
           rbind (rmap (fetch_file fc en pk base generation) (List.enumerate 0 entries)) (\<lambda>files.
             let records = concat (map (typed_records en) files) in
             if \<not> distinct (record_keys records) then Inl FadClientError
             else Inr \<lparr>fg_peer = pk, fg_datetime = generation, fg_description = description,
                       fg_files = map fst files, fg_records = records\<rparr>)))))))"

subsection \<open>The peer's records\<close>

definition record_data_json :: "pydict \<Rightarrow> jtext" where
  "record_data_json r = json_dumps (PDict r)"

definition snapshot_record_fingerprint :: "fad_generation \<Rightarrow> (string \<times> string \<times> jtext) set" where
  "snapshot_record_fingerprint g = set (map (\<lambda>(t, i, r). (t, i, record_data_json r)) (fg_records g))"

definition local_peer_record_fingerprint :: "db \<Rightarrow> nat \<Rightarrow> (string \<times> string \<times> jtext) set" where
  "local_peer_record_fingerprint d pk =
     set (map (\<lambda>r. (pf_type r, pf_record_id r, pf_data r)) (filter (\<lambda>r. pf_peer r = pk) (db_peer_fad d)))"

definition peer_generation_already_applied :: "db \<Rightarrow> peer_row \<Rightarrow> fad_generation \<Rightarrow> bool" where
  "peer_generation_already_applied d peer g =
     (case pe_last_gen peer of
        None \<Rightarrow> False
      | Some lastg \<Rightarrow> lastg \<noteq> [] \<and> lastg = fg_datetime g
          \<and> local_peer_record_fingerprint d (pe_pk peer) = snapshot_record_fingerprint g)"

definition imported_row :: "nat \<Rightarrow> string \<times> string \<times> pydict \<Rightarrow> peer_fad_row" where
  "imported_row pk r =
     (case r of (t, i, v) \<Rightarrow> \<lparr>pf_peer = pk, pf_type = t, pf_record_id = i, pf_data = record_data_json v\<rparr>)"

text \<open>The table is unique in peer, type and identifier.\<close>

definition apply_peer_generation :: "db \<Rightarrow> fad_generation \<Rightarrow> db res" where
  "apply_peer_generation d g =
     (if \<not> distinct (record_keys (fg_records g)) then Inl IntegrityError
      else Inr (d\<lparr>db_peer_fad := filter (\<lambda>r. pf_peer r \<noteq> fg_peer g) (db_peer_fad d)
                                  @ map (imported_row (fg_peer g)) (fg_records g),
                  db_peers := map (\<lambda>p. if pe_pk p = fg_peer g then p\<lparr>pe_last_gen := Some (fg_datetime g)\<rparr> else p)
                                (db_peers d)\<rparr>))"

definition lock_peer_row :: "db \<Rightarrow> nat \<Rightarrow> peer_row option" where
  "lock_peer_row d pk = List.find (\<lambda>p. pe_pk p = pk) (db_peers d)"

text \<open>A failure rolls the session back.\<close>

definition sync_one_peer :: "fad_client \<Rightarrow> env \<Rightarrow> db \<Rightarrow> peer_row \<Rightarrow> fad_generation option res \<times> db" where
  "sync_one_peer fc en d peer =
     (if py_strip (pe_url peer) = [] then (Inr None, d)
      else (case fetch_peer_generation fc en peer of
              Inl e \<Rightarrow> (Inl e, d)
            | Inr g \<Rightarrow>
                (case lock_peer_row d (pe_pk peer) of
                   None \<Rightarrow> (Inl FadClientError, d)
                 | Some locked \<Rightarrow>
                     if peer_generation_already_applied d locked g then (Inr (Some g), d)
                     else (case apply_peer_generation d g of
                             Inl e \<Rightarrow> (Inl e, d)
                           | Inr d' \<Rightarrow> (Inr (Some g), d')))))"

record sync_report =
  sy_peers :: nat
  sy_ok :: nat
  sy_failed :: nat
  sy_skipped :: nat
  sy_errors :: "pyval list"

text \<open>Whether the synchronisation found what it had already.\<close>

definition same_generation :: "db \<Rightarrow> peer_row \<Rightarrow> fad_generation option \<Rightarrow> bool" where
  "same_generation d peer snapshot =
     (case snapshot of
        None \<Rightarrow> False
      | Some g \<Rightarrow> peer_generation_already_applied d peer g)"

definition sync_step :: "fad_client \<Rightarrow> env \<Rightarrow> sync_report \<times> db \<Rightarrow> peer_row \<Rightarrow> sync_report \<times> db" where
  "sync_step fc en st peer =
     (case st of (report, d) \<Rightarrow>
       (case sync_one_peer fc en d peer of
          (Inl e, d') \<Rightarrow>
            (report\<lparr>sy_failed := Suc (sy_failed report),
                    sy_errors := sy_errors report @ [PDict [(''peer_id'', PInt (int (pe_pk peer))),
                                                            (''error'', PStr (fc_error_text fc e))]]\<rparr>, d')
        | (Inr snapshot, d') \<Rightarrow>
            (report\<lparr>sy_ok := Suc (sy_ok report),
                    sy_skipped := (if same_generation d peer snapshot then Suc (sy_skipped report)
                                   else sy_skipped report)\<rparr>, d')))"

definition run_peer_fad_sync :: "fad_client \<Rightarrow> env \<Rightarrow> db \<Rightarrow> sync_report \<times> db" where
  "run_peer_fad_sync fc en d =
     foldl (sync_step fc en)
       (\<lparr>sy_peers = length (db_peers d), sy_ok = 0, sy_failed = 0, sy_skipped = 0, sy_errors = []\<rparr>, d)
       (sort_key pe_pk (db_peers d))"

definition sync_report_dict :: "sync_report \<Rightarrow> pydict" where
  "sync_report_dict r =
     [(''peers'', PInt (int (sy_peers r))), (''ok'', PInt (int (sy_ok r))), (''failed'', PInt (int (sy_failed r))),
      (''skipped_same_generation'', PInt (int (sy_skipped r))), (''errors'', PList (sy_errors r))]"

end
