(* ===== verification/PeerSync.thy ===== *)
theory PeerSync
  imports FadClient FadSafety "HOL-Library.Multiset"
begin

text \<open>
  What the synchronisation with the peers promises: a peer's records are replaced as a whole by a
  generation that passed every check, or stay as they were, whatever happens to the other peers, and
  a generation that passed holds only what allowed URLs served with the announced size and checksum.
\<close>

subsection \<open>One peer\<close>

abbreviation rows_of_peer :: "db \<Rightarrow> nat \<Rightarrow> peer_fad_row list" where
  "rows_of_peer d k \<equiv> filter (\<lambda>r. pf_peer r = k) (db_peer_fad d)"

definition record_key :: "peer_fad_row \<Rightarrow> nat \<times> string \<times> string" where
  "record_key r = (pf_peer r, pf_type r, pf_record_id r)"

definition peer_tables_wf :: "db \<Rightarrow> bool" where
  "peer_tables_wf d = (distinct (map pe_pk (db_peers d)) \<and> distinct (map record_key (db_peer_fad d)))"

text \<open>What the peer offers, if its URL is set and everything it serves is accepted.\<close>

definition offered :: "fad_client \<Rightarrow> env \<Rightarrow> peer_row \<Rightarrow> fad_generation option" where
  "offered fc en p =
     (if py_strip (pe_url p) = [] then None
      else (case fetch_peer_generation fc en p of Inl _ \<Rightarrow> None | Inr g \<Rightarrow> Some g))"

lemma fetched_peer: "fetch_peer_generation fc en p = Inr g \<Longrightarrow> fg_peer g = pe_pk p"
  by (auto simp: fetch_peer_generation_def Let_def rbind_eq_Inr split: if_splits)

lemma fetched_distinct: "fetch_peer_generation fc en p = Inr g \<Longrightarrow> distinct (record_keys (fg_records g))"
  by (auto simp: fetch_peer_generation_def Let_def rbind_eq_Inr split: if_splits)

lemma imported_row_peer [simp]: "pf_peer (imported_row k r) = k"
  by (cases r) (simp add: imported_row_def)

lemma imported_row_keys: "map record_key (map (imported_row k) rs) = map (Pair k) (record_keys rs)"
  by (auto simp: imported_row_def record_key_def record_keys_def)

lemma applied_wf:
  assumes "peer_tables_wf d" and "apply_peer_generation d g = Inr d'"
  shows "peer_tables_wf d'"
proof -
  let ?others = "filter (\<lambda>r. pf_peer r \<noteq> fg_peer g) (db_peer_fad d)"
  let ?new = "map (imported_row (fg_peer g)) (fg_records g)"
  from assms(2) have d': "db_peer_fad d' = ?others @ ?new" and dist: "distinct (record_keys (fg_records g))"
    and peers: "map pe_pk (db_peers d') = map pe_pk (db_peers d)"
    by (auto simp: apply_peer_generation_def comp_def split: if_splits)
  have "distinct (map record_key ?others)"
    using assms(1) by (simp add: peer_tables_wf_def distinct_map_filter)
  moreover have "distinct (map record_key ?new)"
    unfolding imported_row_keys using dist by (simp add: distinct_map inj_on_def)
  moreover have "set (map record_key ?others) \<inter> set (map record_key ?new) = {}"
    by (auto simp: record_key_def)
  ultimately show ?thesis
    using assms(1) peers unfolding peer_tables_wf_def d' map_append distinct_append by simp
qed

lemma applied_rows:
  assumes "apply_peer_generation d g = Inr d'"
  shows "k \<noteq> fg_peer g \<Longrightarrow> rows_of_peer d' k = rows_of_peer d k"
    and "local_peer_record_fingerprint d' (fg_peer g) = snapshot_record_fingerprint g"
    and "d' = d\<lparr>db_peer_fad := db_peer_fad d', db_peers := db_peers d'\<rparr>"
proof -
  let ?others = "filter (\<lambda>r. pf_peer r \<noteq> fg_peer g) (db_peer_fad d)"
  let ?new = "map (imported_row (fg_peer g)) (fg_records g)"
  from assms have d': "db_peer_fad d' = ?others @ ?new"
    and frame: "d' = d\<lparr>db_peer_fad := db_peer_fad d', db_peers := db_peers d'\<rparr>"
    by (auto simp: apply_peer_generation_def split: if_splits)
  show "d' = d\<lparr>db_peer_fad := db_peer_fad d', db_peers := db_peers d'\<rparr>" by (rule frame)
  show "rows_of_peer d' k = rows_of_peer d k" if "k \<noteq> fg_peer g"
  proof -
    have "filter (\<lambda>r. pf_peer r = k) ?new = []"
      using that by (auto simp: filter_empty_conv)
    moreover have "rows_of_peer d k = filter (\<lambda>r. pf_peer r = k) ?others"
      using that by (simp add: conj_commute) (metis (mono_tags, lifting))
    ultimately show ?thesis by (simp only: d' filter_append append_Nil2)
  qed
  have "rows_of_peer d' (fg_peer g) = ?new"
    by (auto simp: d' filter_empty_conv filter_id_conv)
  moreover have "map (\<lambda>r. (pf_type r, pf_record_id r, pf_data r)) ?new
      = map (\<lambda>(t, i, r). (t, i, record_data_json r)) (fg_records g)"
    by (auto simp: imported_row_def)
  ultimately show "local_peer_record_fingerprint d' (fg_peer g) = snapshot_record_fingerprint g"
    unfolding local_peer_record_fingerprint_def snapshot_record_fingerprint_def by simp
qed

lemma locked_row: "distinct (map pe_pk (db_peers d)) \<Longrightarrow> p \<in> set (db_peers d) \<Longrightarrow> lock_peer_row d (pe_pk p) = Some p"
  unfolding lock_peer_row_def by (rule find_sole)

lemma sync_outcomes:
  assumes "peer_tables_wf d" and "p \<in> set (db_peers d)" and "sync_one_peer fc en d p = (r, d')"
  obtains (kept) "offered fc en p = None" and "d' = d" and "is_ok r = (py_strip (pe_url p) = [])"
  | (held) g where "offered fc en p = Some g" and "r = Inr (Some g)" and "peer_generation_already_applied d p g" and "d' = d"
  | (new) g where "offered fc en p = Some g" and "r = Inr (Some g)" and "apply_peer_generation d g = Inr d'"
      and "fg_peer g = pe_pk p"
proof -
  have lock: "lock_peer_row d (pe_pk p) = Some p"
    using assms(1,2) by (auto simp: peer_tables_wf_def intro: locked_row)
  show thesis
  proof (cases "py_strip (pe_url p) = []")
    case True
    with assms(3) kept show ?thesis by (auto simp: sync_one_peer_def offered_def)
  next
    case False
    show ?thesis
    proof (cases "fetch_peer_generation fc en p")
      case (Inl e)
      with False assms(3) kept show ?thesis by (auto simp: sync_one_peer_def offered_def)
    next
      case (Inr g)
      with False have "offered fc en p = Some g" by (simp add: offered_def)
      from Inr False have sync: "sync_one_peer fc en d p =
          (if peer_generation_already_applied d p g then (Inr (Some g), d)
           else (case apply_peer_generation d g of Inl e \<Rightarrow> (Inl e, d) | Inr d' \<Rightarrow> (Inr (Some g), d')))"
        by (simp add: sync_one_peer_def lock)
      obtain d1 where d1: "apply_peer_generation d g = Inr d1"
        using fetched_distinct [OF Inr] by (simp add: apply_peer_generation_def)
      show ?thesis
      proof (cases "peer_generation_already_applied d p g")
        case True
        with assms(3) sync have "r = Inr (Some g)" "d' = d" by simp_all
        with True show ?thesis using held [OF \<open>offered fc en p = Some g\<close>] by simp
      next
        case False
        with assms(3) sync d1 have "r = Inr (Some g)" "d' = d1" by simp_all
        with d1 show ?thesis using new [OF \<open>offered fc en p = Some g\<close>] fetched_peer [OF Inr] by simp
      qed
    qed
  qed
qed

text \<open>
  What synchronising some peers makes of a database: their records and the generation noted for them
  are those they offer, or what they were; nothing else changes.
\<close>

definition peers_replaced_or_kept :: "fad_client \<Rightarrow> env \<Rightarrow> db \<Rightarrow> peer_row list \<Rightarrow> db \<Rightarrow> bool" where
  "peers_replaced_or_kept fc en d ps d' =
     (d' = d\<lparr>db_peer_fad := db_peer_fad d', db_peers := db_peers d'\<rparr>
      \<and> map (\<lambda>q. q\<lparr>pe_last_gen := None\<rparr>) (db_peers d') = map (\<lambda>q. q\<lparr>pe_last_gen := None\<rparr>) (db_peers d)
      \<and> (\<forall>k. k \<notin> pe_pk ` set ps \<longrightarrow> rows_of_peer d' k = rows_of_peer d k)
      \<and> (\<forall>q\<in>set (db_peers d). pe_pk q \<notin> pe_pk ` set ps \<longrightarrow> q \<in> set (db_peers d'))
      \<and> (\<forall>p\<in>set ps.
           case offered fc en p of
             None \<Rightarrow> rows_of_peer d' (pe_pk p) = rows_of_peer d (pe_pk p) \<and> p \<in> set (db_peers d')
           | Some g \<Rightarrow> local_peer_record_fingerprint d' (pe_pk p) = snapshot_record_fingerprint g
               \<and> p\<lparr>pe_last_gen := Some (fg_datetime g)\<rparr> \<in> set (db_peers d')))"

lemma held_generation:
  "peer_generation_already_applied d p g \<Longrightarrow>
     local_peer_record_fingerprint d (pe_pk p) = snapshot_record_fingerprint g
     \<and> p\<lparr>pe_last_gen := Some (fg_datetime g)\<rparr> = p"
  by (cases p) (auto simp: peer_generation_already_applied_def split: option.splits)

lemma sync_one_peer_effect:
  assumes "peer_tables_wf d" and "p \<in> set (db_peers d)" and "sync_one_peer fc en d p = (r, d')"
  shows "peer_tables_wf d' \<and> peers_replaced_or_kept fc en d [p] d'
     \<and> is_ok r = (py_strip (pe_url p) = [] \<or> offered fc en p \<noteq> None)"
  using assms
proof (cases rule: sync_outcomes)
  case kept
  with assms(1,2) show ?thesis by (simp add: peers_replaced_or_kept_def)
next
  case (held g)
  with assms(1,2) held_generation [OF held(3)] show ?thesis by (simp add: peers_replaced_or_kept_def)
next
  case (new g)
  have peers: "db_peers d' = map (\<lambda>p. if pe_pk p = fg_peer g then p\<lparr>pe_last_gen := Some (fg_datetime g)\<rparr> else p) (db_peers d)"
    using new(3) by (auto simp: apply_peer_generation_def split: if_splits)
  have "map (\<lambda>q. q\<lparr>pe_last_gen := None\<rparr>) (db_peers d') = map (\<lambda>q. q\<lparr>pe_last_gen := None\<rparr>) (db_peers d)"
    by (simp add: peers)
  moreover have "q \<in> set (db_peers d')" if "q \<in> set (db_peers d)" "pe_pk q \<noteq> pe_pk p" for q
    unfolding peers using that new(4) by (force simp: image_iff)
  moreover have "p\<lparr>pe_last_gen := Some (fg_datetime g)\<rparr> \<in> set (db_peers d')"
    unfolding peers using assms(2) new(4) by (force simp: image_iff)
  ultimately show ?thesis
    using new applied_rows [OF new(3)] applied_wf [OF assms(1) new(3)]
    by (auto simp: peers_replaced_or_kept_def)
qed
lemma replaced_then:
  assumes "peers_replaced_or_kept fc en d [p] d1" and "peers_replaced_or_kept fc en d1 ps d2"
    and "pe_pk p \<notin> pe_pk ` set ps" and "set ps \<subseteq> set (db_peers d)"
  shows "peers_replaced_or_kept fc en d (p # ps) d2"
proof -
  note one = assms(1) [unfolded peers_replaced_or_kept_def] and two = assms(2) [unfolded peers_replaced_or_kept_def]
  have "d2 = d\<lparr>db_peer_fad := db_peer_fad d2, db_peers := db_peers d2\<rparr>"
  proof -
    from two have "d2 = d1\<lparr>db_peer_fad := db_peer_fad d2, db_peers := db_peers d2\<rparr>" by (rule conjunct1)
    also from one have "d1 = d\<lparr>db_peer_fad := db_peer_fad d1, db_peers := db_peers d1\<rparr>" by (rule conjunct1)
    finally show ?thesis by simp
  qed
  moreover have "map (\<lambda>q. q\<lparr>pe_last_gen := None\<rparr>) (db_peers d2) = map (\<lambda>q. q\<lparr>pe_last_gen := None\<rparr>) (db_peers d)"
    using one two by metis
  moreover have "rows_of_peer d2 k = rows_of_peer d k" if "k \<notin> pe_pk ` set (p # ps)" for k
    using one two that by simp
  moreover have "q \<in> set (db_peers d2)" if "q \<in> set (db_peers d)" "pe_pk q \<notin> pe_pk ` set (p # ps)" for q
    using one two that by simp
  moreover have "case offered fc en p of
             None \<Rightarrow> rows_of_peer d2 (pe_pk p) = rows_of_peer d (pe_pk p) \<and> p \<in> set (db_peers d2)
           | Some g \<Rightarrow> local_peer_record_fingerprint d2 (pe_pk p) = snapshot_record_fingerprint g
               \<and> p\<lparr>pe_last_gen := Some (fg_datetime g)\<rparr> \<in> set (db_peers d2)"
  proof -
    have "rows_of_peer d2 (pe_pk p) = rows_of_peer d1 (pe_pk p)" using two assms(3) by blast
    moreover have "q \<in> set (db_peers d2)" if "q \<in> set (db_peers d1)" "pe_pk q = pe_pk p" for q
      using two that assms(3) by metis
    ultimately show ?thesis using one by (auto simp: local_peer_record_fingerprint_def split: option.splits)
  qed
  moreover have "case offered fc en q of
             None \<Rightarrow> rows_of_peer d2 (pe_pk q) = rows_of_peer d (pe_pk q) \<and> q \<in> set (db_peers d2)
           | Some g \<Rightarrow> local_peer_record_fingerprint d2 (pe_pk q) = snapshot_record_fingerprint g
               \<and> q\<lparr>pe_last_gen := Some (fg_datetime g)\<rparr> \<in> set (db_peers d2)" if "q \<in> set ps" for q
  proof -
    have "pe_pk q \<in> pe_pk ` set ps" using that by (rule imageI)
    with assms(3) have "pe_pk q \<noteq> pe_pk p" by metis
    then have "pe_pk q \<notin> pe_pk ` set [p]" by simp
    with one have "rows_of_peer d1 (pe_pk q) = rows_of_peer d (pe_pk q)" by blast
    with two that show ?thesis by (auto split: option.splits)
  qed
  ultimately show ?thesis unfolding peers_replaced_or_kept_def by simp
qed

abbreviation sync_fails :: "fad_client \<Rightarrow> env \<Rightarrow> peer_row \<Rightarrow> bool" where
  "sync_fails fc en p \<equiv> py_strip (pe_url p) \<noteq> [] \<and> offered fc en p = None"

lemma sync_step_counts:
  assumes "sync_step fc en (rep, d) p = (rep', d')" and "sync_one_peer fc en d p = (r, d1)"
  shows "d' = d1" and "sy_ok rep' = sy_ok rep + (if is_ok r then 1 else 0)"
    and "sy_failed rep' = sy_failed rep + (if is_ok r then 0 else 1)"
    and "length (sy_errors rep') = length (sy_errors rep) + (if is_ok r then 0 else 1)"
    and "sy_peers rep' = sy_peers rep"
  using assms by (auto simp: sync_step_def split: sum.splits)

lemma sync_fold:
  assumes "peer_tables_wf d" and "distinct (map pe_pk ps)" and "set ps \<subseteq> set (db_peers d)"
    and "foldl (sync_step fc en) (rep, d) ps = (rep', d')"
  shows "peer_tables_wf d' \<and> peers_replaced_or_kept fc en d ps d' \<and> sy_peers rep' = sy_peers rep
     \<and> sy_ok rep' + sy_failed rep' = sy_ok rep + sy_failed rep + length ps
     \<and> sy_failed rep' = sy_failed rep + length (filter (sync_fails fc en) ps)
     \<and> length (sy_errors rep') = length (sy_errors rep) + length (filter (sync_fails fc en) ps)"
  using assms
proof (induction ps arbitrary: rep d)
  case Nil
  then show ?case by (simp add: peers_replaced_or_kept_def)
next
  case (Cons p ps)
  obtain rep1 d1 where step: "sync_step fc en (rep, d) p = (rep1, d1)" by fastforce
  obtain r d1' where one: "sync_one_peer fc en d p = (r, d1')" by fastforce
  note counts = sync_step_counts [OF step one]
  from Cons.prems(3) have p: "p \<in> set (db_peers d)" by simp
  from sync_one_peer_effect [OF Cons.prems(1) p one] counts(1)
  have wf: "peer_tables_wf d1" and eff: "peers_replaced_or_kept fc en d [p] d1"
    and ok: "is_ok r = (\<not> sync_fails fc en p)" by auto
  have sub: "set ps \<subseteq> set (db_peers d1)"
  proof
    fix q assume q: "q \<in> set ps"
    then have "pe_pk q \<in> pe_pk ` set ps" by (rule imageI)
    with Cons.prems(2) have "pe_pk q \<noteq> pe_pk p" by (metis distinct.simps(2) list.map(2) set_map)
    then have "pe_pk q \<notin> pe_pk ` set [p]" by simp
    with q Cons.prems(3) eff show "q \<in> set (db_peers d1)" unfolding peers_replaced_or_kept_def by auto
  qed
  have dist: "distinct (map pe_pk ps)" and new: "pe_pk p \<notin> pe_pk ` set ps" using Cons.prems(2) by simp_all
  from Cons.prems(4) step have "foldl (sync_step fc en) (rep1, d1) ps = (rep', d')" by simp
  from Cons.IH [OF wf dist sub this] have rest: "peer_tables_wf d' \<and> peers_replaced_or_kept fc en d1 ps d'
     \<and> sy_peers rep' = sy_peers rep1 \<and> sy_ok rep' + sy_failed rep' = sy_ok rep1 + sy_failed rep1 + length ps
     \<and> sy_failed rep' = sy_failed rep1 + length (filter (sync_fails fc en) ps)
     \<and> length (sy_errors rep') = length (sy_errors rep1) + length (filter (sync_fails fc en) ps)" .
  have "peers_replaced_or_kept fc en d (p # ps) d'"
    by (rule replaced_then [OF eff _ new]) (use rest Cons.prems(3) in auto)
  moreover have "length (filter (sync_fails fc en) (p # ps))
      = (if is_ok r then 0 else 1) + length (filter (sync_fails fc en) ps)" using ok by simp
  moreover have "sy_ok rep' + sy_failed rep' = sy_ok rep + sy_failed rep + length (p # ps)"
    using rest counts(2,3) by (cases "is_ok r") simp_all
  moreover have "sy_peers rep' = sy_peers rep" "sy_failed rep' = sy_failed rep + ((if is_ok r then 0 else 1)
      + length (filter (sync_fails fc en) ps))" "length (sy_errors rep') = length (sy_errors rep)
      + ((if is_ok r then 0 else 1) + length (filter (sync_fails fc en) ps))"
    using rest counts(3-5) by simp_all
  ultimately show ?case using rest by (simp only:)
qed

text \<open>
  C13. Synchronising with the peers never mixes two generations of a peer and never lets one peer
  disturb another: when it is over, the records of each peer are those of the generation it offers,
  which passed every check, with its date noted, or, if the fetch or a check failed, exactly what they
  were; records of peers no longer known, all other tables and the keys stay as they were. Every peer is counted as
  served or as failed, with one error for each failure.
\<close>

theorem peer_sync_replaces_or_keeps:
  assumes "peer_tables_wf d" and "run_peer_fad_sync fc en d = (report, d')"
  shows "peer_tables_wf d' \<and> peers_replaced_or_kept fc en d (db_peers d) d'
     \<and> sy_peers report = length (db_peers d) \<and> sy_ok report + sy_failed report = length (db_peers d)
     \<and> sy_failed report = length (filter (\<lambda>p. py_strip (pe_url p) \<noteq> [] \<and> offered fc en p = None) (db_peers d))
     \<and> length (sy_errors report) = sy_failed report"
proof -
  let ?ps = "sort_key pe_pk (db_peers d)"
  have ps: "set ?ps = set (db_peers d)" "length ?ps = length (db_peers d)" by simp_all
  have "distinct (map pe_pk ?ps)"
    using assms(1) by (simp add: peer_tables_wf_def distinct_map)
  from sync_fold [OF assms(1) this _ assms(2) [unfolded run_peer_fad_sync_def]]
  have fold: "peer_tables_wf d' \<and> peers_replaced_or_kept fc en d ?ps d' \<and> sy_peers report = length (db_peers d)
     \<and> sy_ok report + sy_failed report = length ?ps
     \<and> sy_failed report = length (filter (sync_fails fc en) ?ps)
     \<and> length (sy_errors report) = length (filter (sync_fails fc en) ?ps)" by simp
  have "length (filter P ?ps) = length (filter P (db_peers d))" for P
    by (metis mset_filter mset_sort size_mset)
  moreover have "peers_replaced_or_kept fc en d (db_peers d) d' = peers_replaced_or_kept fc en d ?ps d'"
    by (simp add: peers_replaced_or_kept_def)
  ultimately show ?thesis using fold by simp
qed
subsection \<open>What an accepted generation is made of\<close>

text \<open>
  The server a URL leads to is the one the peer was registered with, over TLS, and none of the
  addresses its name resolves to is blocked; inner addresses are only for a peer registered at one.
\<close>

definition leads_to_peer :: "fad_client \<Rightarrow> (string \<Rightarrow> dns_reply) \<Rightarrow> string \<Rightarrow> string \<Rightarrow> bool" where
  "leads_to_peer fc dns url base =
     (\<exists>host port path base_path infos.
        parse_https_url fc url = Inr (''https'', host, port, path)
        \<and> parse_https_url fc base = Inr (''https'', host, port, base_path)
        \<and> host \<notin> set BLOCKED_LITERAL_HOSTS \<and> dns host = Dns_addresses infos
        \<and> (\<exists>i\<in>set infos. fc_ip fc i \<noteq> None)
        \<and> (\<forall>i\<in>set infos. \<forall>ip. fc_ip fc i = Some ip \<longrightarrow>
              ip_text ip \<noteq> ''169.254.169.254'' \<and> ip_text ip \<noteq> ''169.254.169.253''
              \<and> \<not> ip_multicast ip \<and> \<not> ip_unspecified ip
              \<and> (ip_link_local ip \<or> ip_loopback ip \<or> ip_private ip \<or> ip_reserved ip \<longrightarrow>
                   host_allows_loopback_or_private fc host)))"

lemma parsed_urlD:
  "parse_https_url fc url = Inr (scheme, host, port, path) \<Longrightarrow>
     scheme = ''https'' \<and> host \<noteq> [] \<and> host \<notin> set BLOCKED_LITERAL_HOSTS"
  by (auto simp: parse_https_url_def rbind_eq_Inr Let_def split: if_splits)

lemma resolvedD:
  assumes "assert_resolved_host_allowed fc dns host host' = Inr ()"
  obtains infos where "dns = Dns_addresses infos" and "\<exists>i\<in>set infos. fc_ip fc i \<noteq> None"
    and "\<And>i ip. i \<in> set infos \<Longrightarrow> fc_ip fc i = Some ip \<Longrightarrow>
      \<not> ip_blocked ip (host_allows_loopback_or_private fc host' \<and> py_lower host = py_lower host')"
proof -
  have found: "ip \<in> set (List.map_filter (fc_ip fc) infos) = (\<exists>i\<in>set infos. fc_ip fc i = Some ip)" for ip infos
    by (induction infos) (auto simp: List.map_filter_simps split: option.splits)
  from assms obtain infos where i: "dns = Dns_addresses infos" "List.map_filter (fc_ip fc) infos \<noteq> []"
    "\<not> list_ex (\<lambda>ip. ip_blocked ip (host_allows_loopback_or_private fc host' \<and> py_lower host = py_lower host'))
        (List.map_filter (fc_ip fc) infos)"
    by (auto simp: assert_resolved_host_allowed_def Let_def split: dns_reply.splits if_splits)
  from i(2) found have "\<exists>i\<in>set infos. fc_ip fc i \<noteq> None"
    by (metis last_in_set option.distinct(1))
  with i(1,3) found that show ?thesis by (auto simp: list_ex_iff)
qed

lemma url_allowedD:
  assumes "assert_url_allowed_for_peer fc dns url base = Inr ()"
  shows "leads_to_peer fc dns url base"
proof -
  from assms obtain ps h po bp s h' po' pa where
    b: "parse_https_url fc base = Inr (ps, h, po, bp)" and u: "parse_https_url fc url = Inr (s, h', po', pa)"
    and same: "(s, h', po') = (ps, h, po)" and r: "assert_resolved_host_allowed fc (dns h) h h = Inr ()"
    by (auto simp: assert_url_allowed_for_peer_def rbind_eq_Inr split: if_splits)
  from resolvedD [OF r] obtain infos where infos: "dns h = Dns_addresses infos"
    "\<exists>i\<in>set infos. fc_ip fc i \<noteq> None"
    "\<And>i ip. i \<in> set infos \<Longrightarrow> fc_ip fc i = Some ip \<Longrightarrow> \<not> ip_blocked ip (host_allows_loopback_or_private fc h)"
    by metis
  have "ip_text ip \<noteq> ''169.254.169.254'' \<and> ip_text ip \<noteq> ''169.254.169.253''
      \<and> \<not> ip_multicast ip \<and> \<not> ip_unspecified ip
      \<and> (ip_link_local ip \<or> ip_loopback ip \<or> ip_private ip \<or> ip_reserved ip \<longrightarrow> host_allows_loopback_or_private fc h)"
    if "i \<in> set infos" "fc_ip fc i = Some ip" for i ip
    using infos(3) [OF that] by (auto simp: ip_blocked_def split: if_splits)
  with parsed_urlD [OF b] b u same infos(1,2) show ?thesis
    unfolding leads_to_peer_def by blast
qed

text \<open>The records a file holds.\<close>

definition envelope_records :: "pyval \<Rightarrow> pyval list" where
  "envelope_records envelope =
     (case envelope of PDict e \<Rightarrow> (case dget e ''recordData'' of PList rs \<Rightarrow> rs | _ \<Rightarrow> []) | _ \<Rightarrow> [])"

text \<open>
  The manifest as it was fetched: from the peer's dump URL, which led to the peer, with the entries
  \<open>es\<close> and the date and description of the generation.
\<close>

definition served_manifest :: "fad_client \<Rightarrow> env \<Rightarrow> peer_row \<Rightarrow> fad_generation \<Rightarrow> pyval list \<Rightarrow> bool" where
  "served_manifest fc en p g es =
     (\<exists>dump_url status raw m.
        peer_dump_url fc (py_strip (pe_url p)) = Inr dump_url
        \<and> leads_to_peer fc (fc_resolve fc (pe_pk p) 0) dump_url (py_strip (pe_url p))
        \<and> fc_fetch fc (pe_pk p) 0 dump_url = Answer status raw \<and> 200 \<le> status \<and> status \<le> 299
        \<and> fc_decode fc raw = JDoc (PDict m) \<and> dget m ''files'' = PList es
        \<and> py_str en (dget m ''generationDateTime'') = fg_datetime g
        \<and> py_str en (dget m ''description'') = fg_description g)"

text \<open>
  The file of an entry of the manifest: fetched from the URL of the entry, which led to the peer, with
  the digest, the size, the version and the type of the entry and the date of the manifest.
\<close>

definition genuine_file :: "fad_client \<Rightarrow> env \<Rightarrow> peer_row \<Rightarrow> string \<Rightarrow> nat \<Rightarrow> pyval \<Rightarrow> fad_file_payload \<Rightarrow> bool" where
  "genuine_file fc en p generation k entry f =
     (\<exists>a. entry = PDict a
      \<and> fp_url f = py_str en (dget a ''url'')
      \<and> leads_to_peer fc (fc_resolve fc (pe_pk p) (Suc k)) (fp_url f) (py_strip (pe_url p))
      \<and> (\<exists>status. fc_fetch fc (pe_pk p) (Suc k) (fp_url f) = Answer status (fp_content f) \<and> 200 \<le> status \<and> status \<le> 299)
      \<and> env_sha1_hex en (fp_content f) = py_lower (py_str en (dget a ''checksum''))
      \<and> fp_checksum f = env_sha1_hex en (fp_content f) \<and> length (fp_checksum f) = 40
      \<and> py_int (dget a ''size'') = Inr (int (length (fp_content f)))
      \<and> fp_size f = int (length (fp_content f))
      \<and> (0 < fc_max_file_bytes fc \<longrightarrow> int (length (fp_content f)) \<le> fc_max_file_bytes fc)
      \<and> fp_version f = py_str en (dget a ''version'') \<and> fp_version f = py_strip (fc_version fc)
      \<and> fp_type f = py_str en (dget a ''recordType'') \<and> fp_type f \<in> set CLIENT_RECORD_TYPES
      \<and> fc_decode fc (fp_content f) = JDoc (fp_envelope f)
      \<and> (\<exists>e. fp_envelope f = PDict e \<and> dget e ''startTime'' = PStr generation \<and> dget e ''endTime'' = PStr generation)
      \<and> (\<forall>v\<in>set (envelope_records (fp_envelope f)).
           \<exists>r. v = PDict r \<and> py_strip (py_str en (por (dget r ''id'') (PStr []))) \<noteq> []))"

lemma checked_recordD:
  "checked_record en v = Inr r \<Longrightarrow> v = PDict r \<and> py_strip (py_str en (por (dget r ''id'') (PStr []))) \<noteq> []"
  by (cases v) (auto simp: checked_record_def split: if_splits)

lemma checked_records:
  "rmap (checked_record en) vs = Inr rs \<Longrightarrow>
     vs = map PDict rs \<and> (\<forall>r\<in>set rs. py_strip (py_str en (por (dget r ''id'') (PStr []))) \<noteq> [])"
  by (induction vs arbitrary: rs) (auto simp: rbind_eq_Inr dest!: checked_recordD)

lemma envelopeD:
  assumes "validate_activity_envelope en v generation = Inr rs"
  shows "\<exists>e. v = PDict e \<and> dget e ''startTime'' = PStr generation \<and> dget e ''endTime'' = PStr generation"
    and "envelope_records v = map PDict rs"
    and "\<forall>r\<in>set rs. py_strip (py_str en (por (dget r ''id'') (PStr []))) \<noteq> []"
proof -
  from assms obtain e vs where e: "v = PDict e" "dget e ''startTime'' = PStr generation"
    "dget e ''endTime'' = PStr generation" "dget e ''recordData'' = PList vs" "rmap (checked_record en) vs = Inr rs"
    by (auto simp: validate_activity_envelope_def split: pyval.splits if_splits)
  with checked_records [OF e(5)] show "\<exists>e. v = PDict e \<and> dget e ''startTime'' = PStr generation \<and> dget e ''endTime'' = PStr generation"
    "envelope_records v = map PDict rs" "\<forall>r\<in>set rs. py_strip (py_str en (por (dget r ''id'') (PStr []))) \<noteq> []"
    by (auto simp: envelope_records_def)
qed

lemma normalized_entryD:
  assumes "normalized_entry fc en v = Inr x"
  obtains a where "v = PDict a" and "fe_url x = py_str en (dget a ''url'')"
    and "fe_checksum x = py_lower (py_str en (dget a ''checksum''))" and "length (fe_checksum x) = 40"
    and "py_int (dget a ''size'') = Inr (fe_size x)"
    and "fe_version x = py_str en (dget a ''version'')" and "fe_version x = py_strip (fc_version fc)"
    and "fe_type x = py_str en (dget a ''recordType'')" and "fe_type x \<in> set CLIENT_RECORD_TYPES"
  using assms by (auto simp: normalized_entry_def Let_def split: pyval.splits if_splits sum.splits)

lemma ok_answer:
  "http_get_bytes answer = Inr body \<Longrightarrow> \<exists>status. answer = Answer status body \<and> 200 \<le> status \<and> status \<le> 299"
  by (auto simp: http_get_bytes_def split: peer_answer.splits if_splits)

lemma loaded_doc: "load_bytes fc content = Inr v \<Longrightarrow> fc_decode fc content = JDoc v"
  by (cases "fc_decode fc content") (auto simp: load_bytes_def)

lemma fetch_fileD:
  assumes "fetch_file fc en (pe_pk p) (py_strip (pe_url p)) generation (k, e) = Inr (f, rs)"
    and "normalized_entry fc en v = Inr e"
  shows "genuine_file fc en p generation k v f" and "envelope_records (fp_envelope f) = map PDict rs"
proof -
  from assms(1) obtain content envelope where
    u: "assert_url_allowed_for_peer fc (fc_resolve fc (pe_pk p) (Suc k)) (fe_url e) (py_strip (pe_url p)) = Inr ()"
    and c: "http_get_bytes (fc_fetch fc (pe_pk p) (Suc k) (fe_url e)) = Inr content"
    and sizes: "\<not> (0 < fc_max_file_bytes fc \<and> fc_max_file_bytes fc < int (length content))"
      "env_sha1_hex en content = fe_checksum e" "int (length content) = fe_size e"
    and l: "load_bytes fc content = Inr envelope" and v: "validate_activity_envelope en envelope generation = Inr rs"
    and f: "f = \<lparr>fp_type = fe_type e, fp_url = fe_url e, fp_checksum = fe_checksum e, fp_size = fe_size e,
                fp_version = fe_version e, fp_content = content, fp_envelope = envelope\<rparr>"
    by (auto simp: fetch_file_def rbind_eq_Inr split: if_splits)
  show records: "envelope_records (fp_envelope f) = map PDict rs" using envelopeD(2) [OF v] f by simp
  from normalized_entryD [OF assms(2)] obtain a where a: "v = PDict a" "fe_url e = py_str en (dget a ''url'')"
    "fe_checksum e = py_lower (py_str en (dget a ''checksum''))" "length (fe_checksum e) = 40"
    "py_int (dget a ''size'') = Inr (fe_size e)" "fe_version e = py_str en (dget a ''version'')"
    "fe_version e = py_strip (fc_version fc)" "fe_type e = py_str en (dget a ''recordType'')"
    "fe_type e \<in> set CLIENT_RECORD_TYPES" .
  show "genuine_file fc en p generation k v f"
    unfolding genuine_file_def records
    using url_allowedD [OF u] ok_answer [OF c] sizes a loaded_doc [OF l] envelopeD(1,3) [OF v]
    by (intro exI [of _ a]) (auto simp: f)
qed

text \<open>What the client has read of the manifest when a generation is accepted.\<close>

lemma fetched_manifest:
  assumes "fetch_peer_generation fc en p = Inr g"
  obtains es entries files where "served_manifest fc en p g es" and "1 \<le> length es" and "length es \<le> 101"
    and "rmap (normalized_entry fc en) es = Inr entries"
    and "rmap (fetch_file fc en (pe_pk p) (py_strip (pe_url p)) (fg_datetime g)) (List.enumerate 0 entries) = Inr files"
    and "fg_peer g = pe_pk p" and "fg_files g = map fst files"
    and "fg_records g = concat (map (typed_records en) files)" and "distinct (record_keys (fg_records g))"
proof -
  from assms obtain dump_url raw manifest entries files where
    dump: "peer_dump_url fc (py_strip (pe_url p)) = Inr dump_url"
    and url: "assert_url_allowed_for_peer fc (fc_resolve fc (pe_pk p) 0) dump_url (py_strip (pe_url p)) = Inr ()"
    and raw: "http_get_bytes (fc_fetch fc (pe_pk p) 0 dump_url) = Inr raw"
    and doc: "load_bytes fc raw = Inr manifest"
    and m: "validate_manifest fc en manifest = Inr (fg_datetime g, fg_description g, entries)"
    and fs: "rmap (fetch_file fc en (pe_pk p) (py_strip (pe_url p)) (fg_datetime g)) (List.enumerate 0 entries) = Inr files"
    and g: "fg_peer g = pe_pk p" "fg_files g = map fst files" "fg_records g = concat (map (typed_records en) files)"
      "distinct (record_keys (fg_records g))"
    by (auto simp: fetch_peer_generation_def Let_def rbind_eq_Inr split: if_splits)
  from m obtain d v vs where d: "manifest = PDict d" "dget d ''files'' = PList (v # vs)"
    "py_str en (dget d ''generationDateTime'') = fg_datetime g" "py_str en (dget d ''description'') = fg_description g"
    and e: "rmap (normalized_entry fc en) (v # vs) = Inr entries" and n: "length (v # vs) \<le> 101"
    by (auto simp: validate_manifest_def rbind_eq_Inr split: pyval.splits list.splits if_splits)
  have "served_manifest fc en p g (v # vs)"
    unfolding served_manifest_def using dump url_allowedD [OF url] ok_answer [OF raw] loaded_doc [OF doc] d by blast
  then show ?thesis using e n fs g by (intro that [of "v # vs" entries files]) simp_all
qed

text \<open>
  C14. A generation the client accepts is what its peer announced and served. Its manifest came from the
  dump URL of the registered server and names 1 to 101 files; the generation has exactly these, each
  fetched with a 2xx answer from the URL of its entry, over https from the registered server, with the
  SHA-1, the size, the version and the type of the entry and the date of the manifest, and within the
  configured limit. Before each of these requests, the manifest's included, the host's name was looked
  up and no address in the answer was blocked, inner addresses being for a peer registered at one (the
  connection resolves the name once more, which no check covers). The records are those of the files, under the type of their file, each with an
  identifier, no type holding an identifier twice.
\<close>

theorem accepted_generation_is_genuine:
  assumes "fetch_peer_generation fc en p = Inr g"
  shows "\<exists>es. served_manifest fc en p g es \<and> 1 \<le> length es \<and> length es \<le> 101
     \<and> fg_peer g = pe_pk p \<and> length (fg_files g) = length es
     \<and> (\<forall>k < length es. genuine_file fc en p (fg_datetime g) k (es ! k) (fg_files g ! k))
     \<and> map (\<lambda>(t, i, r). (t, PDict r)) (fg_records g)
         = concat (map (\<lambda>f. map (Pair (fp_type f)) (envelope_records (fp_envelope f))) (fg_files g))
     \<and> (\<forall>(t, i, r)\<in>set (fg_records g). i = py_str en (dget r ''id''))
     \<and> distinct (map (\<lambda>(t, i, r). (t, i)) (fg_records g))"
proof -
  from fetched_manifest [OF assms] obtain es entries files where es: "served_manifest fc en p g es" "1 \<le> length es" "length es \<le> 101"
    and e: "rmap (normalized_entry fc en) es = Inr entries"
    and fs: "rmap (fetch_file fc en (pe_pk p) (py_strip (pe_url p)) (fg_datetime g)) (List.enumerate 0 entries) = Inr files"
    and g: "fg_peer g = pe_pk p" "fg_files g = map fst files" "fg_records g = concat (map (typed_records en) files)"
    and d: "distinct (record_keys (fg_records g))" .
  have len: "length entries = length es" "length files = length es"
    using rmap_length [OF e] rmap_length [OF fs] by simp_all
  have each: "genuine_file fc en p (fg_datetime g) k (es ! k) (fst (files ! k))
      \<and> envelope_records (fp_envelope (fst (files ! k))) = map PDict (snd (files ! k))" if "k < length es" for k
  proof -
    have "fetch_file fc en (pe_pk p) (py_strip (pe_url p)) (fg_datetime g) (k, entries ! k)
        = Inr (fst (files ! k), snd (files ! k))"
      using rmap_nth [OF fs, of k] that len by (simp add: nth_enumerate_eq)
    from fetch_fileD [OF this rmap_nth [OF e that]] show ?thesis ..
  qed
  have recs: "map (\<lambda>(t, i, r). (t, PDict r)) (concat (map (typed_records en) xs))
      = concat (map (\<lambda>f. map (Pair (fp_type f)) (envelope_records (fp_envelope f))) (map fst xs))"
    if "\<forall>x\<in>set xs. envelope_records (fp_envelope (fst x)) = map PDict (snd x)" for xs
    using that by (induction xs) (auto simp: typed_records_def)
  have "\<forall>x\<in>set files. envelope_records (fp_envelope (fst x)) = map PDict (snd x)"
    using each len by (simp add: all_set_conv_all_nth)
  from recs [OF this] have "map (\<lambda>(t, i, r). (t, PDict r)) (fg_records g)
      = concat (map (\<lambda>f. map (Pair (fp_type f)) (envelope_records (fp_envelope f))) (fg_files g))"
    by (simp only: g)
  moreover have "\<forall>(t, i, r)\<in>set (fg_records g). i = py_str en (dget r ''id'')"
    by (auto simp: g(3) typed_records_def)
  ultimately show ?thesis
    using g(1,2) each len es d by (intro exI [of _ es]) (simp add: record_keys_def)
qed

end
