(* ===== verification/FadRoutes.thy ===== *)
theory FadRoutes
  imports Fad Certificates
begin

text \<open>
  The interface between SASs (routes/sas_sas_routes.py): the manifest of the published dump, the files
  of its record types, and the single records of ESC sensors. Every request first passes
  \<open>require_peer_sas\<close>. A request is its path as the server hands it to the routes; a reply is the
  text of a document or a status.
\<close>

datatype reply = Content jtext | Status nat

datatype sas_route =
    Dump_route
  | File_route string string
  | Esc_route string

text \<open>
  Which route a path takes: \<open>{filename}\<close> is one non-empty segment, \<open>{path:path}\<close> is whatever
  follows. The version is one segment.
\<close>

definition sas_route_of :: "string \<Rightarrow> string \<Rightarrow> sas_route option" where
  "sas_route_of version path =
     (case split_on (CHR ''/'') path of
        start # v # section # rest \<Rightarrow>
          if start \<noteq> [] \<or> v \<noteq> version then None
          else if section = ''dump'' \<and> rest = [] then Some Dump_route
          else if section \<in> {''cbsd'', ''zone'', ''coordination''}
          then (case rest of [f] \<Rightarrow> if f = [] then None else Some (File_route section f) | _ \<Rightarrow> None)
          else if section = ''esc_sensor'' \<and> rest \<noteq> [] then Some (Esc_route (join_with ''/'' rest))
          else None
      | _ \<Rightarrow> None)"

definition hex_value :: "char \<Rightarrow> nat" where
  "hex_value c =
     (let n = of_char (upper_char c) in if is_digit c then n - 48 else n - 55)"

text \<open>\<open>unquote\<close>: every \<open>%\<close> with two hexadecimal digits is the byte they name.\<close>

fun unquote :: "string \<Rightarrow> string" where
  "unquote (c # a # b # s) =
     (if c = CHR ''%'' \<and> hex_digit (upper_char a) \<and> hex_digit (upper_char b) then char_of (16 * hex_value a + hex_value b) # unquote s
      else c # unquote (a # b # s))"
| "unquote s = s"

definition download_dump_file :: "fad_ext \<Rightarrow> fad_state \<Rightarrow> string \<Rightarrow> string \<Rightarrow> reply" where
  "download_dump_file fx fs record_type filename =
     (case get_dump_file_by_path fs (''/'' @ fx_version fx @ ''/'' @ record_type @ ''/'' @ filename) of
        None \<Rightarrow> Status 404
      | Some f \<Rightarrow> Content (ff_content f))"

definition get_full_activity_dump :: "fad_state \<Rightarrow> reply" where
  "get_full_activity_dump fs =
     (case get_latest_ready_dump fs of None \<Rightarrow> Status 404 | Some dump \<Rightarrow> Content (fd_manifest dump))"

definition esc_row :: "db \<Rightarrow> string \<Rightarrow> (string \<times> jtext) option" where
  "esc_row d record_id =
     (case List.find (\<lambda>r. fst r = record_id) (db_esc d) of
        Some r \<Rightarrow> Some r
      | None \<Rightarrow> if prefix ''esc_sensor/'' record_id then None
                 else List.find (\<lambda>r. fst r = ''esc_sensor/'' @ record_id) (db_esc d))"

definition get_esc_sensor_or_dump_file :: "fad_ext \<Rightarrow> db \<Rightarrow> fad_state \<Rightarrow> string \<Rightarrow> reply" where
  "get_esc_sensor_or_dump_file fx d fs path =
     (let decoded = unquote path in
      if suffix ''.json'' decoded
      then download_dump_file fx fs ''esc_sensor'' (last (split_on (CHR ''/'') decoded))
      else (case esc_row d decoded of
              None \<Rightarrow> Content (json_dumps (PDict []))
            | Some r \<Rightarrow> (case json_loads_or_empty (snd r) of
                 Inl _ \<Rightarrow> Content (json_dumps (PDict []))
               | Inr v \<Rightarrow> Content (json_dumps v))))"

definition sas_sas_get ::
    "fad_ext \<Rightarrow> trust_context \<Rightarrow> time \<Rightarrow> db \<Rightarrow> fad_state \<Rightarrow> peer \<Rightarrow> string \<Rightarrow> reply" where
  "sas_sas_get fx tc now d fs peer path =
     (case sas_route_of (fx_version fx) path of
        None \<Rightarrow> Status 404
      | Some route \<Rightarrow>
          if require_peer_sas tc now d peer = None then Status 403
          else (case route of
                  Dump_route \<Rightarrow> get_full_activity_dump fs
                | File_route section filename \<Rightarrow> download_dump_file fx fs section filename
                | Esc_route p \<Rightarrow> get_esc_sensor_or_dump_file fx d fs p))"

end
