(* ===== verification/DumpRoundTrip.thy ===== *)
theory DumpRoundTrip
  imports PeerSync FadRoutes
begin

text \<open>
  The two ends of the exchange together: what one SAS publishes and serves over the routes is what the
  client of another SAS accepts and stores.
\<close>

subsection \<open>URLs of a plain host\<close>

text \<open>A host of lower-case letters, digits, dots and hyphens.\<close>

definition plain_char :: "char \<Rightarrow> bool" where
  "plain_char c =
     (let n = of_char c :: nat in (48 \<le> n \<and> n \<le> 57) \<or> (97 \<le> n \<and> n \<le> 122) \<or> c = CHR ''.'' \<or> c = CHR ''-'')"

definition plain_name :: "string \<Rightarrow> bool" where
  "plain_name s = (s \<noteq> [] \<and> list_all plain_char s)"

lemma plain_charD:
  assumes "plain_char c"
  shows "c \<notin> {CHR ''/'', CHR ''?'', CHR ''#'', CHR ''@'', CHR '':'', CHR ''['', CHR '']'', CHR ''%'', CHR '';'', CHR 0x5C,
           CHR 0x09, CHR 0x0A, CHR 0x0D}"
    and "\<not> is_space c" and "lower_char c = c" and "\<not> (of_char c :: nat) \<le> 32"
  using assms by (auto simp: plain_char_def Let_def is_space_def lower_char_def)

lemma lower_plain [simp]: "list_all plain_char s \<Longrightarrow> py_lower s = s"
  by (induction s) (simp_all add: py_lower_def plain_charD(3))

lemma strip_ends:
  assumes "s \<noteq> []" and "\<not> is_space (hd s)" and "\<not> is_space (last s)"
  shows "py_strip s = s"
proof -
  have h: "dropWhile is_space s = s" using assms(1,2) by (cases s) simp_all
  have "rev s \<noteq> []" "\<not> is_space (hd (rev s))" using assms by (simp_all add: hd_rev)
  then have "dropWhile is_space (rev s) = rev s" by (cases "rev s") simp_all
  with h show ?thesis by (simp add: py_strip_def)
qed

lemma strip_plain: "plain_name s \<Longrightarrow> py_strip s = s"
  by (rule strip_ends) (auto simp: plain_name_def list_all_iff plain_charD(2))

lemma partition_absent: "c \<notin> set s \<Longrightarrow> partition_on c s = (s, False, [])"
proof -
  assume c: "c \<notin> set s"
  then have "takeWhile (\<lambda>x. x \<noteq> c) s = s" "dropWhile (\<lambda>x. x \<noteq> c) s = []"
    by (auto simp: takeWhile_eq_all_conv dropWhile_eq_Nil_conv)
  with c show ?thesis by (simp add: partition_on_def del: dropWhile_eq_Nil_conv)
qed

lemma rpartition_absent: "c \<notin> set s \<Longrightarrow> rpartition_on c s = ([], False, s)"
  by (simp add: rpartition_on_def partition_absent)

definition plain_tail :: "string \<Rightarrow> bool" where
  "plain_tail s = (list_all (\<lambda>c. plain_char c \<or> c = CHR ''/'' \<or> c = CHR ''_'') s \<and> (s = [] \<or> hd s = CHR ''/''))"

definition site_url :: "string \<Rightarrow> string \<Rightarrow> string" where
  "site_url host path = ''https://'' @ host @ path"

lemma urlparse_plain:
  assumes "plain_name host" and "plain_tail path" and "fc_netloc_ok fc host"
  shows "urlparse fc (site_url host path) = Inr \<lparr>up_scheme = ''https'', up_username = None, up_password = None,
     up_hostname = Some host, up_port = None, up_path = hier_path path\<rparr>"
proof -
  have big: "c \<notin> {CHR ''/'', CHR ''?'', CHR ''#'', CHR ''@'', CHR '':'', CHR ''['', CHR '']'', CHR ''%'', CHR '';'', CHR 0x5C,
           CHR 0x09, CHR 0x0A, CHR 0x0D}" if "c \<in> set host" for c
    using assms(1) that by (intro plain_charD(1)) (simp add: plain_name_def list_all_iff)
  have absent: "CHR ''@'' \<notin> set host" "CHR '':'' \<notin> set host" "CHR ''['' \<notin> set host" "CHR '']'' \<notin> set host"
    "CHR ''%'' \<notin> set host"
    using big by blast+
  have "\<not> removed_char c" if "c \<in> set path" for c
  proof -
    from assms(2) that have "plain_char c \<or> c = CHR ''/'' \<or> c = CHR ''_''" by (simp add: plain_tail_def list_all_iff)
    then show ?thesis
    proof (elim disjE)
      assume "plain_char c"
      from plain_charD(4) [OF this] show ?thesis by (simp add: kept_code)
    qed simp_all
  qed
  then have kept: "list_all (\<lambda>c. \<not> removed_char c) path" by (simp add: list_all_iff)
  have net: "list_all (\<lambda>c. \<not> url_stop c \<and> \<not> removed_char c) host"
    unfolding list_all_iff
  proof
    fix c assume "c \<in> set host"
    from big [OF this] show "\<not> url_stop c \<and> \<not> removed_char c" by (simp add: url_stop_def removed_char_def)
  qed
  have "urlsplit (fc_netloc_ok fc) ((''https'' @ ''://'' @ host) @ path) = Inr (py_lower ''https'', host, path)"
    by (rule urlsplit_base [where ok = "fc_netloc_ok fc", OF _ net _ assms(3) kept])
      (use absent assms(2) in \<open>auto simp: plain_scheme_def is_digit_def scheme_char_def plain_tail_def url_stop_def\<close>)
  then have split: "urlsplit (fc_netloc_ok fc) (site_url host path) = Inr (''https'', host, path)"
    by (simp add: site_url_def py_lower_def lower_char_def)
  have parts: "rpartition_on (CHR ''@'') host = ([], False, host)" "partition_on (CHR '':'') [] = ([], False, [])"
    "partition_on (CHR ''['') host = (host, False, [])" "partition_on (CHR '':'') host = (host, False, [])"
    "partition_on (CHR ''%'') host = (host, False, [])"
    using absent by (simp_all add: partition_absent rpartition_absent)
  have "lower_host host = host" "host \<noteq> []" using assms(1) by (simp_all add: lower_host_def parts plain_name_def)
  then show ?thesis
    by (simp add: urlparse_def split parts host_and_port_def path_of_url_def USES_PARAMS_def)
qed

lemma parse_https_plain:
  assumes "plain_name host" and "plain_tail path" and "fc_netloc_ok fc host" and "host \<notin> set BLOCKED_LITERAL_HOSTS"
  shows "parse_https_url fc (site_url host path)
     = Inr (''https'', host, 443, if hier_path path = [] then ''/'' else hier_path path)"
  using assms(4) strip_plain [OF assms(1)] assms(1)
  by (simp add: parse_https_url_def urlparse_plain [OF assms(1-3)] Let_def port_or_443_def plain_name_def)

lemma same_origin_allowed:
  assumes "plain_name host" and "plain_tail path" and "plain_tail base_path" and "fc_netloc_ok fc host"
    and "host \<notin> set BLOCKED_LITERAL_HOSTS" and "assert_resolved_host_allowed fc (dns host) host host = Inr ()"
  shows "assert_url_allowed_for_peer fc dns (site_url host path) (site_url host base_path) = Inr ()"
  using assms(6)
  by (simp add: assert_url_allowed_for_peer_def urlparse_plain [OF assms(1,2,4)] urlparse_plain [OF assms(1,3,4)]
      parse_https_plain [OF assms(1,2,4,5)] parse_https_plain [OF assms(1,3,4,5)] has_userinfo_def)
subsection \<open>Paths and routes\<close>

lemma split_on_sep: "c \<notin> set xs \<Longrightarrow> split_on c (xs @ c # ys) = xs # split_on c ys"
  by (induction xs) auto

lemma split_on_none: "c \<notin> set xs \<Longrightarrow> split_on c xs = [xs]"
  by (induction xs) auto

text \<open>Names without a separator, a backslash or an escape that are no relative segment.\<close>

definition plain_segment :: "string \<Rightarrow> bool" where
  "plain_segment s = (s \<noteq> [] \<and> s \<noteq> ''..'' \<and> list_all (\<lambda>c. plain_char c \<or> c = CHR ''_'') s)"

lemma plain_segmentD:
  assumes "plain_segment s"
  shows "CHR ''/'' \<notin> set s" and "CHR 0x5C \<notin> set s" and "CHR ''%'' \<notin> set s" and "s \<noteq> ''..''" and "s \<noteq> []"
    and "c \<in> set s \<Longrightarrow> \<not> is_space c"
proof -
  have each: "c \<notin> {CHR ''/'', CHR ''%'', CHR 0x5C} \<and> \<not> is_space c" if "c \<in> set s" for c
  proof -
    from assms that have "plain_char c \<or> c = CHR ''_''" by (simp add: plain_segment_def list_all_iff)
    then show ?thesis
    proof (elim disjE)
      assume "plain_char c"
      with plain_charD(1,2) [OF this] show ?thesis by simp
    qed (simp add: is_space_def)
  qed
  then show "CHR ''/'' \<notin> set s" "CHR 0x5C \<notin> set s" "CHR ''%'' \<notin> set s" "c \<in> set s \<Longrightarrow> \<not> is_space c"
    by blast+
  show "s \<noteq> ''..''" "s \<noteq> []" using assms by (simp_all add: plain_segment_def)
qed

lemma digits_plain: "list_all plain_char (show_nat n)"
proof (induction n rule: less_induct)
  case (less n)
  have "plain_char (digit_char k)" if "k < 10" for k
    using that by (simp add: plain_char_def)
  with less show ?case
    by (cases "n < 10") (simp_all add: show_nat_small show_nat_large)
qed

lemma type_plain: "t \<in> set RECORD_TYPES \<Longrightarrow> plain_segment t"
  by (auto simp: RECORD_TYPES_def plain_segment_def plain_char_def)

lemma filename_plain:
  assumes "t \<in> set RECORD_TYPES"
  shows "plain_segment (dump_filename t k)" and "suffix ''.json'' (dump_filename t k)"
proof -
  have "list_all (\<lambda>c. plain_char c \<or> c = CHR ''_'') t" using type_plain [OF assms] by (simp add: plain_segment_def)
  moreover have "list_all (\<lambda>c. plain_char c \<or> c = CHR ''_'') (show_nat k)"
    using digits_plain [of k] by (simp add: list_all_iff)
  ultimately show "plain_segment (dump_filename t k)"
    by (simp add: dump_filename_def plain_segment_def plain_char_def)
  show "suffix ''.json'' (dump_filename t k)" by (simp add: dump_filename_def suffix_def)
qed

lemma unquote_plain: "CHR ''%'' \<notin> set s \<Longrightarrow> unquote s = s"
  by (induction s rule: unquote.induct) auto

lemma file_path_segments:
  assumes "plain_segment (fx_version fx)" and "t \<in> set RECORD_TYPES"
  shows "split_on (CHR ''/'') (file_path fx t k) = [[], fx_version fx, t, dump_filename t k]"
  using plain_segmentD(1) [OF assms(1)] plain_segmentD(1) [OF type_plain [OF assms(2)]]
    plain_segmentD(1) [OF filename_plain(1) [OF assms(2)]]
  by (simp add: file_path_def split_on_sep split_on_none)

lemma dump_route:
  assumes "plain_segment (fx_version fx)"
  shows "sas_route_of (fx_version fx) (''/'' @ fx_version fx @ ''/dump'') = Some Dump_route"
  using plain_segmentD(1) [OF assms] by (simp add: sas_route_of_def split_on_sep split_on_none)

text \<open>Whatever the type, the path of a file leads to the lookup of that path.\<close>

lemma file_request:
  assumes "plain_segment (fx_version fx)" and "t \<in> set RECORD_TYPES" and "require_peer_sas tc now d peer \<noteq> None"
  shows "sas_sas_get fx tc now d fs peer (file_path fx t k)
     = (case get_dump_file_by_path fs (file_path fx t k) of None \<Rightarrow> Status 404 | Some f \<Rightarrow> Content (ff_content f))"
proof -
  let ?name = "dump_filename t k"
  note name = plain_segmentD [OF filename_plain(1) [OF assms(2), of k]]
  from assms(3) obtain h where auth: "require_peer_sas tc now d peer = Some h" by blast
  have down: "download_dump_file fx fs t ?name = (case get_dump_file_by_path fs (file_path fx t k) of
      None \<Rightarrow> Status 404 | Some f \<Rightarrow> Content (ff_content f))"
    by (simp add: download_dump_file_def file_path_def)
  have json: "suffix ''.json'' ?name" by (rule filename_plain(2) [OF assms(2)])
  have ends: "last (split_on (CHR ''/'') ?name) = ?name" by (simp add: split_on_none name(1))
  show ?thesis
  proof (cases "t = ''esc_sensor''")
    case True
    then have "sas_route_of (fx_version fx) (file_path fx t k) = Some (Esc_route ?name)"
      unfolding sas_route_of_def file_path_segments [OF assms(1,2)] by simp
    moreover have "get_esc_sensor_or_dump_file fx d fs ?name = download_dump_file fx fs t ?name"
      unfolding get_esc_sensor_or_dump_file_def Let_def unquote_plain [OF name(3)] ends using json True by simp
    ultimately show ?thesis using auth down by (simp add: sas_sas_get_def)
  next
    case False
    with assms(2) have "t \<in> {''cbsd'', ''zone'', ''coordination''}" by (auto simp: RECORD_TYPES_def)
    with name(5) have "sas_route_of (fx_version fx) (file_path fx t k) = Some (File_route t ?name)"
      unfolding sas_route_of_def file_path_segments [OF assms(1,2)] by auto
    with auth down show ?thesis by (simp add: sas_sas_get_def)
  qed
qed

lemma file_lookup:
  assumes "plain_segment (fx_version fx)" and "t \<in> set RECORD_TYPES"
    and "get_published_dump fs = Some dump" and "dump_file_at fs (fd_pk dump) (file_path fx t k) = Some f"
  shows "get_dump_file_by_path fs (file_path fx t k) = Some f"
proof -
  note v = plain_segmentD [OF assms(1)] and ty = plain_segmentD [OF type_plain [OF assms(2)]]
    and name = plain_segmentD [OF filename_plain(1) [OF assms(2), of k]]
  let ?path = "file_path fx t k"
  have "last ?path = last (dump_filename t k)" using name(5) by (simp add: file_path_def)
  then have "\<not> is_space (last ?path)" using name(5,6) by simp
  moreover have "?path \<noteq> []" "hd ?path = CHR ''/''" "\<not> is_space (CHR ''/'')" "take 1 ?path = ''/''"
    by (simp_all add: file_path_def is_space_def)
  ultimately have strip: "py_strip ?path = ?path" by (intro strip_ends) simp_all
  have "CHR 0x5C \<notin> set ?path" using v(2) ty(2) name(2) by (simp add: file_path_def)
  moreover have "''..'' \<notin> set (split_on (CHR ''/'') ?path)"
    using v(4) ty(4) name(4) unfolding file_path_segments [OF assms(1,2)] by auto
  ultimately show ?thesis
    using assms(3,4) \<open>?path \<noteq> []\<close> \<open>take 1 ?path = ''/''\<close> unfolding get_dump_file_by_path_def Let_def strip by simp
qed
subsection \<open>The dump a publication serves\<close>

lemma rmap_values: "rmap f xs = Inr ys \<Longrightarrow> (\<And>x y. f x = Inr y \<Longrightarrow> y = g x) \<Longrightarrow> ys = map g xs"
  by (induction xs arbitrary: ys) (auto simp: rbind_eq_Inr)

lemma page_row_value: "page_row fx en ts t q = Inr r \<Longrightarrow> r = dump_row fx en ts t q"
  by (auto simp: page_row_def dump_row_def make_dump_file_def Let_def rbind_eq_Inr)

lemma pages_from_map: "pages_from n (map f xs) = map (map f) (pages_from n xs)"
proof (induction n xs rule: pages_from.induct)
  case (2 n x xs)
  show ?case
  proof (cases "n = 0")
    case False
    have "pages_from n (drop n (map f (x # xs))) = map (map f) (pages_from n (drop n (x # xs)))"
      unfolding drop_map by (rule "2.IH" [OF False])
    moreover have "pages_from n (map f (x # xs)) = take n (map f (x # xs)) # pages_from n (drop n (map f (x # xs)))"
      using False by (simp del: take.simps drop.simps)
    moreover have "pages_from n (x # xs) = take n (x # xs) # pages_from n (drop n (x # xs))"
      using False by (simp del: take.simps drop.simps)
    moreover have "take n (map f (x # xs)) = map f (take n (x # xs))" by (rule take_map)
    ultimately show ?thesis by (simp only: list.map)
  qed simp
qed simp

lemma chunk_records_map: "chunk_records (map f xs) n = map (map f) (chunk_records xs n)"
  by (simp add: chunk_records_def pages_from_map)

lemma numbered_map: "numbered (map f xs) = map (\<lambda>(k, x). (k, f x)) (numbered xs)"
  by (simp add: numbered_def zip_map2)

text \<open>The pages of a dump, by type and number, and the row of each.\<close>

definition dump_plan :: "fad_ext \<Rightarrow> (string \<Rightarrow> pydict list) \<Rightarrow> (string \<times> nat \<times> pydict list) list" where
  "dump_plan fx recs =
     concat (map (\<lambda>t. map (Pair t) (numbered (chunk_records (recs t) (max_records_per_file fx)))) RECORD_TYPES)"

definition plan_row :: "fad_ext \<Rightarrow> env \<Rightarrow> string \<Rightarrow> string \<times> nat \<times> pydict list \<Rightarrow> fad_row" where
  "plan_row fx en ts x = (case x of (t, k, page) \<Rightarrow> dump_row fx en ts t (k, map PDict page))"

lemma snapshot_rows_plan:
  "snapshot_rows fx en ts (\<lambda>t. map PDict (recs t)) = map (plan_row fx en ts) (dump_plan fx recs)"
  by (simp add: snapshot_rows_def dump_plan_def map_concat comp_def chunk_records_map numbered_map
      plan_row_def case_prod_unfold)

lemma planned_type: "(t, k, page) \<in> set (dump_plan fx recs) \<Longrightarrow> t \<in> set RECORD_TYPES"
  by (auto simp: dump_plan_def)

lemma planned_records:
  assumes "(t, k, page) \<in> set (dump_plan fx recs)"
  shows "set page \<subseteq> set (recs t)"
proof -
  from assms have "(k, page) \<in> set (numbered (chunk_records (recs t) (max_records_per_file fx)))"
    by (auto simp: dump_plan_def)
  then have "page \<in> set (map snd (numbered (chunk_records (recs t) (max_records_per_file fx))))"
    unfolding set_map by (rule image_eqI [rotated]) simp
  then have "set page \<subseteq> set (concat (chunk_records (recs t) (max_records_per_file fx)))" by auto
  with page_size_bounds(1) [of fx] show ?thesis by (simp add: concat_chunks)
qed

lemma planned_concat:
  "concat (map (\<lambda>(t, k, page). map (f t) page) (dump_plan fx recs))
     = concat (map (\<lambda>t. map (f t) (recs t)) RECORD_TYPES)"
proof -
  have one: "concat (map (\<lambda>(t, k, page). map (f t) page) (map (Pair u) ps)) = map (f u) (concat (map snd ps))"
    for u and ps :: "(nat \<times> pydict list) list"
    by (induction ps) auto
  have "concat (map (\<lambda>(t, k, page). map (f t) page) (concat (map (\<lambda>t. map (Pair t) (ps t)) ts)))
      = concat (map (\<lambda>t. map (f t) (concat (map snd (ps t)))) ts)" for ts and ps :: "string \<Rightarrow> (nat \<times> pydict list) list"
    by (induction ts) (simp_all only: list.map concat.simps map_append concat_append one)
  with page_size_bounds(1) [of fx] show ?thesis by (simp add: dump_plan_def concat_chunks)
qed

lemma published_rows:
  assumes "create_full_activity_dump fx en d fs = Inr (dump, fs')" and "fad_wf fs"
    and "\<forall>t\<in>set RECORD_TYPES. build_records fx en d t = Inr (map PDict (recs t))"
  obtains ts where "fd_generation dump = ts" and "ts = fmt_transmit_expire (env_now en)"
    and "filter (\<lambda>f. ff_dump f = fd_pk dump) (fs_files fs')
       = map (\<lambda>x. file_of_row (fd_pk dump) (plan_row fx en ts x)) (dump_plan fx recs)"
    and "get_published_dump fs' = Some dump"
    and "fd_manifest dump = json_dumps (PDict
        [(''files'', PList (map (\<lambda>x. PDict (fr_entry (plan_row fx en ts x))) (dump_plan fx recs))),
         (''generationDateTime'', PStr ts), (''description'', PStr FAD_DESCRIPTION)])"
    and "length (dump_plan fx recs) \<le> MANIFEST_MAX_FILES"
    and "\<And>x. x \<in> set (dump_plan fx recs) \<Longrightarrow>
      dump_file_at fs' (fd_pk dump) (fr_path (plan_row fx en ts x)) = Some (file_of_row (fd_pk dump) (plan_row fx en ts x))"
proof -
  from assms(1) obtain p where p: "build_snapshot_payload fx en d = Inr p" and pub: "publish_snapshot fx en fs p = Inr (dump, fs')"
    by (auto simp: create_full_activity_dump_def rbind_eq_Inr)
  let ?ts = "sn_timestamp p"
  have ts: "?ts = fmt_transmit_expire (env_now en)"
    using p by (auto simp: build_snapshot_payload_def Let_def rbind_eq_Inr split: if_splits)
  from snapshotD [OF p] obtain rowss where rowss: "rmap (type_rows fx en d ?ts) RECORD_TYPES = Inr rowss"
    "sn_rows p = concat rowss" "length (sn_rows p) \<le> MANIFEST_MAX_FILES"
    "sn_manifest p = json_dumps (PDict [(''files'', PList (map (\<lambda>r. PDict (fr_entry r)) (sn_rows p))),
           (''generationDateTime'', PStr ?ts), (''description'', PStr FAD_DESCRIPTION)])"
    unfolding ts by metis
  have "rowss = map (\<lambda>t. map (dump_row fx en ?ts t)
      (numbered (chunk_records (map PDict (recs t)) (max_records_per_file fx)))) RECORD_TYPES"
  proof (rule nth_equalityI)
    show len: "length rowss = length (map (\<lambda>t. map (dump_row fx en ?ts t)
      (numbered (chunk_records (map PDict (recs t)) (max_records_per_file fx)))) RECORD_TYPES)"
      using rmap_length [OF rowss(1)] by simp
    fix i assume "i < length rowss"
    with len have i: "i < length RECORD_TYPES" by simp
    from rmap_nth [OF rowss(1) i] assms(3) i
    have "rmap (page_row fx en ?ts (RECORD_TYPES ! i))
        (numbered (chunk_records (map PDict (recs (RECORD_TYPES ! i))) (max_records_per_file fx))) = Inr (rowss ! i)"
      by (simp add: type_rows_def)
    from rmap_values [OF this page_row_value] i
    show "rowss ! i = map (\<lambda>t. map (dump_row fx en ?ts t)
      (numbered (chunk_records (map PDict (recs t)) (max_records_per_file fx)))) RECORD_TYPES ! i" by simp
  qed
  then have rows: "sn_rows p = map (plan_row fx en ?ts) (dump_plan fx recs)"
    using rowss(2) snapshot_rows_plan [of fx en ?ts recs] by (simp add: snapshot_rows_def)
  note pd = publishedD [OF pub]
  have gen: "fd_generation dump = ?ts"
    using pub by (auto simp: publish_snapshot_def Let_def rbind_eq_Inr split: if_splits)
  have found: "dump_file_at fs' (fd_pk dump) (fr_path (plan_row fx en ?ts x))
      = Some (file_of_row (fd_pk dump) (plan_row fx en ?ts x))" if "x \<in> set (dump_plan fx recs)" for x
  proof (rule written_row_found)
    show "distinct (map fr_path (sn_rows p))"
      unfolding rows snapshot_rows_plan [symmetric] by (rule snapshot_paths_distinct)
    show "plan_row fx en ?ts x \<in> set (sn_rows p)" using that by (simp add: rows)
    show "\<forall>f\<in>set (fs_files fs). ff_dump f \<noteq> fd_pk dump" using assms(2) by (auto simp: fad_wf_def pd(1))
    show "fs_files fs' = fs_files fs @ map (file_of_row (fd_pk dump)) (sn_rows p)" using pd(1,4) by simp
  qed
  show thesis
  proof (rule that [OF gen ts _ _ _ _ found])
    have "filter (\<lambda>f. ff_dump f = fs_next fs) (fs_files fs) = []"
      using assms(2) by (auto simp: fad_wf_def filter_empty_conv)
    then show "filter (\<lambda>f. ff_dump f = fd_pk dump) (fs_files fs')
       = map (\<lambda>x. file_of_row (fd_pk dump) (plan_row fx en ?ts x)) (dump_plan fx recs)"
      by (simp add: pd(1,4) rows filter_map comp_def file_of_row_def)
    show "get_published_dump fs' = Some dump" using pd(2,5) by (simp add: get_published_dump_def)
    show "fd_manifest dump = json_dumps (PDict
        [(''files'', PList (map (\<lambda>x. PDict (fr_entry (plan_row fx en ?ts x))) (dump_plan fx recs))),
         (''generationDateTime'', PStr ?ts), (''description'', PStr FAD_DESCRIPTION)])"
      using pd(3) rowss(4) by (simp add: rows comp_def)
    show "length (dump_plan fx recs) \<le> MANIFEST_MAX_FILES" using rowss(3) by (simp add: rows)
  qed
qed
subsection \<open>The client on what the routes serve\<close>

text \<open>What the server sends for a reply of the routes.\<close>

definition http_answer :: "fad_ext \<Rightarrow> reply \<Rightarrow> peer_answer" where
  "http_answer fx r = (case r of Content t \<Rightarrow> Answer 200 (fx_bytes fx t) | Status n \<Rightarrow> Answer n [])"

text \<open>
  The client's settings fit the server: the peer is registered with the public address and the version
  of the server, both speak the same version, and the server's host is one the client may talk to.
\<close>

definition peers_linked :: "fad_client \<Rightarrow> fad_ext \<Rightarrow> string \<Rightarrow> peer_row \<Rightarrow> bool" where
  "peers_linked fc fx host p =
     (plain_name host \<and> host \<notin> set BLOCKED_LITERAL_HOSTS \<and> fc_netloc_ok fc host
      \<and> plain_segment (fx_version fx) \<and> fc_version fc = fx_version fx
      \<and> fx_public_base fx = site_url host [] \<and> pe_url p = site_url host (''/'' @ fx_version fx)
      \<and> (\<forall>n. assert_resolved_host_allowed fc (fc_resolve fc (pe_pk p) n host) host host = Inr ()))"

definition sha1_like :: "(string \<Rightarrow> string) \<Rightarrow> bool" where
  "sha1_like f = (\<forall>s. length (f s) = 40 \<and> list_all (\<lambda>c. c \<in> set ''0123456789abcdef'') (f s))"

lemma lower_hex: "list_all (\<lambda>c. c \<in> set ''0123456789abcdef'') s \<Longrightarrow> py_lower s = s"
proof (induction s)
  case (Cons c s)
  then have "c \<in> set ''0123456789abcdef''" by simp
  then have "lower_char c = c" by (auto simp: lower_char_def Let_def)
  with Cons show ?case by (simp add: py_lower_def)
qed (simp add: py_lower_def)

lemma segment_strip:
  assumes "plain_segment s"
  shows "py_strip s = s"
  using plain_segmentD(5) [OF assms] plain_segmentD(6) [OF assms] by (intro strip_ends) simp_all

lemma plain_tail_segment: "plain_segment v \<Longrightarrow> plain_tail (''/'' @ v)"
  by (auto simp: plain_tail_def plain_segment_def list_all_iff)

lemma plain_tail_file:
  assumes "plain_segment (fx_version fx)" and "t \<in> set RECORD_TYPES"
  shows "plain_tail (file_path fx t k)"
  using assms(1) type_plain [OF assms(2)] filename_plain(1) [OF assms(2), of k]
  by (auto simp: plain_tail_def plain_segment_def list_all_iff file_path_def)

lemma base_url:
  assumes "plain_segment v"
  shows "py_strip (site_url host (''/'' @ v)) = site_url host (''/'' @ v)"
    and "rstrip_slash (site_url host (''/'' @ v)) = site_url host (''/'' @ v)"
proof -
  let ?url = "site_url host (''/'' @ v)"
  have last: "last ?url = last v" "last v \<in> set v" using plain_segmentD(5) [OF assms] by (simp_all add: site_url_def)
  have "?url \<noteq> []" "hd ?url = CHR ''h''" by (simp_all add: site_url_def)
  then show "py_strip ?url = ?url"
    using last plain_segmentD(6) [OF assms last(2)] by (intro strip_ends) (simp_all add: is_space_def)
  have "last ?url \<noteq> CHR ''/''" using last plain_segmentD(1) [OF assms] by metis
  with \<open>?url \<noteq> []\<close> have "rev ?url \<noteq> []" "hd (rev ?url) \<noteq> CHR ''/''" by (simp_all add: hd_rev)
  then have "dropWhile (\<lambda>c. c = CHR ''/'') (rev ?url) = rev ?url" by (cases "rev ?url") simp_all
  then show "rstrip_slash ?url = ?url" by (simp add: rstrip_slash_def)
qed

definition plan_entry :: "fad_ext \<Rightarrow> env \<Rightarrow> string \<Rightarrow> string \<times> nat \<times> pydict list \<Rightarrow> file_entry" where
  "plan_entry fx en ts x =
     (let r = plan_row fx en ts x; body = fx_bytes fx (fr_content r) in
      \<lparr>fe_url = fx_public_base fx @ fr_path r, fe_checksum = env_sha1_hex en body, fe_size = int (length body),
       fe_version = fx_version fx, fe_type = fr_type r\<rparr>)"

lemma planned_entry_accepted:
  assumes "plain_segment (fx_version fx)" and "fc_version fc = fx_version fx" and "sha1_like (env_sha1_hex en)"
    and "fst x \<in> set RECORD_TYPES"
    and "0 < fc_max_file_bytes fc \<Longrightarrow> int (length (fx_bytes fx (fr_content (plan_row fx en ts x)))) \<le> fc_max_file_bytes fc"
  shows "normalized_entry fc en' (PDict (fr_entry (plan_row fx en ts x))) = Inr (plan_entry fx en ts x)"
proof -
  obtain t k page where x: "x = (t, k, page)" by (cases x)
  let ?r = "dump_row fx en ts t (k, map PDict page)" and ?body = "fx_bytes fx (fr_content (plan_row fx en ts x))"
  have r: "plan_row fx en ts x = ?r" by (simp add: x plan_row_def)
  have t: "t \<in> set CLIENT_RECORD_TYPES" using assms(4) by (simp add: x RECORD_TYPES_def CLIENT_RECORD_TYPES_def)
  have hex: "length (env_sha1_hex en ?body) = 40" "list_all (\<lambda>c. c \<in> set ''0123456789abcdef'') (env_sha1_hex en ?body)"
    using assms(3) by (auto simp: sha1_like_def)
  show ?thesis
    using t hex assms(5) unfolding r
    by (auto simp: normalized_entry_def dump_row_entry_type sha1_of_def byte_length_def Let_def assms(2)
        segment_strip [OF assms(1)] lower_hex plan_entry_def r dump_row_fields)
qed

lemma rmap_enumerate:
  "(\<And>i x. x \<in> set xs \<Longrightarrow> f (i, h x) = Inr (g x)) \<Longrightarrow> rmap f (List.enumerate n (map h xs)) = Inr (map g xs)"
  by (induction xs arbitrary: n) simp_all

lemma record_keys_planned:
  assumes "\<And>t. t \<in> set ts \<Longrightarrow> distinct (map ident (recs t))" and "distinct ts"
  shows "distinct (record_keys (concat (map (\<lambda>t. map (\<lambda>r. (t, ident r, r)) (recs t)) ts)))"
  using assms
proof (induction ts)
  case (Cons t ts)
  have keys: "record_keys (map (\<lambda>r. (t, ident r, r)) (recs t)) = map (Pair t) (map ident (recs t))"
    by (simp add: record_keys_def)
  have "distinct (map ident (recs t))" using Cons.prems(1) by simp
  then have "distinct (map (Pair t) (map ident (recs t)))" unfolding distinct_map [of "Pair t"] by (simp add: inj_on_def)
  moreover have "record_keys (xs @ ys) = record_keys xs @ record_keys ys" for xs ys by (simp add: record_keys_def)
  moreover have "set (record_keys (map (\<lambda>r. (t, ident r, r)) (recs t)))
      \<inter> set (record_keys (concat (map (\<lambda>t. map (\<lambda>r. (t, ident r, r)) (recs t)) ts))) = {}"
    using Cons.prems(2) by (auto simp: record_keys_def)
  moreover have "distinct (record_keys (concat (map (\<lambda>t. map (\<lambda>r. (t, ident r, r)) (recs t)) ts)))"
    using Cons by simp
  ultimately show ?case unfolding list.map concat.simps distinct_append keys [symmetric] by simp
qed (simp add: record_keys_def)
text \<open>The text a file request and a manifest request are answered with.\<close>

lemma planned_row_fields:
  "fr_path (plan_row fx en ts (t, k, page)) = file_path fx t k" "fr_type (plan_row fx en ts (t, k, page)) = t"
  "fr_content (plan_row fx en ts (t, k, page)) = json_dumps (PDict [(''startTime'', PStr ts), (''endTime'', PStr ts),
     (''recordData'', PList (map PDict page))])"
  by (simp_all add: plan_row_def dump_row_fields) (simp add: dump_row_def make_dump_file_def Let_def)

lemma planned_envelope_accepted:
  assumes "\<forall>r\<in>set page. py_strip (py_str en (por (dget r ''id'') (PStr []))) \<noteq> []"
  shows "validate_activity_envelope en (PDict [(''startTime'', PStr ts), (''endTime'', PStr ts),
     (''recordData'', PList (map PDict page))]) ts = Inr page"
proof -
  have "rmap (checked_record en) (map PDict page) = Inr page"
    using assms by (induction page) (simp_all add: checked_record_def)
  then show ?thesis by (simp add: validate_activity_envelope_def)
qed

definition dump_served :: "fad_client \<Rightarrow> fad_ext \<Rightarrow> fad_state \<Rightarrow> fad_dump \<Rightarrow> bool" where
  "dump_served fc fx fs dump =
     (\<forall>t. t = fd_manifest dump \<or> (\<exists>f\<in>set (fs_files fs). ff_dump f = fd_pk dump \<and> t = ff_content f) \<longrightarrow>
        fc_decode fc (fx_bytes fx t) = t
        \<and> (0 < fc_max_file_bytes fc \<longrightarrow> int (length (fx_bytes fx t)) \<le> fc_max_file_bytes fc))"

definition importable :: "env \<Rightarrow> pydict list \<Rightarrow> bool" where
  "importable en records =
     (distinct (map (\<lambda>r. py_str en (dget r ''id'')) records)
      \<and> (\<forall>r\<in>set records. py_strip (py_str en (por (dget r ''id'') (PStr []))) \<noteq> []))"

lemma served_generation:
  assumes "create_full_activity_dump fx en d fs = Inr (dump, fs')" and "fad_wf fs"
    and "\<forall>t\<in>set RECORD_TYPES. build_records fx en d t = Inr (map PDict (recs t)) \<and> importable en' (recs t)"
    and "peers_linked fc fx host p"
    and "\<forall>n path. fc_fetch fc (pe_pk p) n (site_url host path)
           = http_answer fx (sas_sas_get fx tc now d' fs' caller path)"
    and "require_peer_sas tc now d' caller \<noteq> None"
    and "dump_served fc fx fs' dump" and "sha1_like (env_sha1_hex en)" and "env_sha1_hex en' = env_sha1_hex en"
  shows "\<exists>g. fetch_peer_generation fc en' p = Inr g \<and> fg_datetime g = fd_generation dump
     \<and> fg_records g = concat (map (\<lambda>t. map (\<lambda>r. (t, py_str en' (dget r ''id''), r)) (recs t)) RECORD_TYPES)"
proof -
  let ?v = "fx_version fx" and ?ident = "\<lambda>r. py_str en' (dget r ''id'')"
  let ?base = "site_url host (''/'' @ ?v)" and ?plan = "dump_plan fx recs"
  from assms(4) have link: "plain_name host" "host \<notin> set BLOCKED_LITERAL_HOSTS" "fc_netloc_ok fc host"
    "plain_segment ?v" "fc_version fc = ?v" "fx_public_base fx = site_url host []" "pe_url p = ?base"
    "\<And>n. assert_resolved_host_allowed fc (fc_resolve fc (pe_pk p) n host) host host = Inr ()"
    by (auto simp: peers_linked_def)
  from published_rows [OF assms(1,2)] assms(3) obtain ts where ts: "fd_generation dump = ts"
    and pub: "get_published_dump fs' = Some dump"
    and man: "fd_manifest dump = json_dumps (PDict
        [(''files'', PList (map (\<lambda>x. PDict (fr_entry (plan_row fx en ts x))) ?plan)),
         (''generationDateTime'', PStr ts), (''description'', PStr FAD_DESCRIPTION)])"
    and len: "length ?plan \<le> MANIFEST_MAX_FILES"
    and found: "\<And>x. x \<in> set ?plan \<Longrightarrow>
      dump_file_at fs' (fd_pk dump) (fr_path (plan_row fx en ts x)) = Some (file_of_row (fd_pk dump) (plan_row fx en ts x))"
    by metis
  have tail: "plain_tail (''/'' @ ?v)" by (rule plain_tail_segment [OF link(4)])
  have url: "fx_public_base fx @ path = site_url host path" for path by (simp add: link(6) site_url_def)
  have served: "fc_decode fc (fx_bytes fx (fr_content (plan_row fx en ts x))) = fr_content (plan_row fx en ts x)
      \<and> (0 < fc_max_file_bytes fc \<longrightarrow> int (length (fx_bytes fx (fr_content (plan_row fx en ts x)))) \<le> fc_max_file_bytes fc)"
    if x: "x \<in> set ?plan" for x
  proof -
    have "file_of_row (fd_pk dump) (plan_row fx en ts x) \<in> set (fs_files fs')"
      using found [OF x] by (auto simp: dump_file_at_def find_Some_iff)
    with assms(7) show ?thesis unfolding dump_served_def by (force simp: file_of_row_def)
  qed
  have dump_url: "peer_dump_url fc ?base = Inr (site_url host (''/'' @ ?v @ ''/dump''))"
    unfolding peer_dump_url_def Let_def base_url [OF link(4)] parse_https_plain [OF link(1) tail link(3,2)] rbind_Inr
    by (simp add: site_url_def)
  have "plain_tail (''/'' @ ?v @ ''/dump'')" using tail by (simp add: plain_tail_def plain_char_def)
  from same_origin_allowed [OF link(1) this tail link(3,2)] link(8)
  have dump_ok: "assert_url_allowed_for_peer fc (fc_resolve fc (pe_pk p) 0) (site_url host (''/'' @ ?v @ ''/dump'')) ?base = Inr ()"
    by blast
  from assms(6) obtain h where auth: "require_peer_sas tc now d' caller = Some h" by blast
  have "sas_sas_get fx tc now d' fs' caller (''/'' @ ?v @ ''/dump'') = Content (fd_manifest dump)"
    by (simp only: sas_sas_get_def dump_route [OF link(4)] option.case auth option.simps if_False sas_route.case
        get_full_activity_dump_def get_latest_ready_dump_def pub)
  then have manifest: "http_get_bytes (fc_fetch fc (pe_pk p) 0 (site_url host (''/'' @ ?v @ ''/dump'')))
      = Inr (fx_bytes fx (fd_manifest dump))" using assms(5) by (simp add: http_answer_def http_get_bytes_def)
  have "fc_decode fc (fx_bytes fx (fd_manifest dump)) = fd_manifest dump"
    using assms(7) by (simp add: dump_served_def)
  then have manifesto: "load_bytes fc (fx_bytes fx (fd_manifest dump)) = Inr (PDict
        [(''files'', PList (map (\<lambda>x. PDict (fr_entry (plan_row fx en ts x))) ?plan)),
         (''generationDateTime'', PStr ts), (''description'', PStr FAD_DESCRIPTION)])"
    by (simp add: load_bytes_def man)
  have type: "fst x \<in> set RECORD_TYPES" if "x \<in> set ?plan" for x
    using that planned_type [of "fst x" "fst (snd x)" "snd (snd x)"] by simp
  have entries: "rmap (normalized_entry fc en') (map (\<lambda>x. PDict (fr_entry (plan_row fx en ts x))) ?plan)
      = Inr (map (plan_entry fx en ts) ?plan)"
  proof -
    have "rmap (normalized_entry fc en') (map (\<lambda>x. PDict (fr_entry (plan_row fx en ts x))) xs)
        = Inr (map (plan_entry fx en ts) xs)" if "set xs \<subseteq> set ?plan" for xs
      using that planned_entry_accepted [OF link(4,5) assms(8) type] served by (induction xs) auto
    then show ?thesis by simp
  qed
  have "chunk_records (recs ''cbsd'') (max_records_per_file fx) \<noteq> []"
    using page_size_bounds(1) [of fx] by (intro chunks_nonempty) simp
  then have "?plan \<noteq> []" by (auto simp: dump_plan_def RECORD_TYPES_def numbered_def)
  then have valid: "validate_manifest fc en' (PDict
        [(''files'', PList (map (\<lambda>x. PDict (fr_entry (plan_row fx en ts x))) ?plan)),
         (''generationDateTime'', PStr ts), (''description'', PStr FAD_DESCRIPTION)])
      = Inr (ts, FAD_DESCRIPTION, map (plan_entry fx en ts) ?plan)"
    using entries len by (cases ?plan) (simp_all add: validate_manifest_def MANIFEST_MAX_FILES_def)
  define payload where "payload = (\<lambda>x. case x of (t, k, page) \<Rightarrow>
      let body = fx_bytes fx (fr_content (plan_row fx en ts x)) in
      (\<lparr>fp_type = t, fp_url = fx_public_base fx @ file_path fx t k, fp_checksum = env_sha1_hex en body,
        fp_size = int (length body), fp_version = ?v, fp_content = body,
        fp_envelope = PDict [(''startTime'', PStr ts), (''endTime'', PStr ts), (''recordData'', PList (map PDict page))]\<rparr>, page))"
  have fetched: "fetch_file fc en' (pe_pk p) ?base ts (i, plan_entry fx en ts x) = Inr (payload x)" if x: "x \<in> set ?plan" for i x
  proof -
    obtain t k page where xt: "x = (t, k, page)" by (cases x)
    have t: "t \<in> set RECORD_TYPES" using type [OF x] by (simp add: xt)
    let ?url = "site_url host (file_path fx t k)" and ?body = "fx_bytes fx (fr_content (plan_row fx en ts x))"
    have entry: "plan_entry fx en ts x = \<lparr>fe_url = ?url, fe_checksum = env_sha1_hex en ?body,
        fe_size = int (length ?body), fe_version = ?v, fe_type = t\<rparr>"
      unfolding plan_entry_def Let_def xt planned_row_fields url ..
    have allowed: "assert_url_allowed_for_peer fc (fc_resolve fc (pe_pk p) (Suc i)) ?url ?base = Inr ()"
      using same_origin_allowed [OF link(1) plain_tail_file [OF link(4) t] tail link(3,2)] link(8) by blast
    have "dump_file_at fs' (fd_pk dump) (file_path fx t k) = Some (file_of_row (fd_pk dump) (plan_row fx en ts x))"
      using found [OF x] by (simp only: xt planned_row_fields)
    from file_lookup [OF link(4) t pub this]
    have "sas_sas_get fx tc now d' fs' caller (file_path fx t k) = Content (fr_content (plan_row fx en ts x))"
      using file_request [OF link(4) t assms(6)] by (simp add: file_of_row_def)
    then have got: "http_get_bytes (fc_fetch fc (pe_pk p) (Suc i) ?url) = Inr ?body"
      using assms(5) by (simp add: http_answer_def http_get_bytes_def)
    have load: "load_bytes fc ?body = Inr (PDict [(''startTime'', PStr ts), (''endTime'', PStr ts),
        (''recordData'', PList (map PDict page))])"
      using served [OF x] by (simp add: load_bytes_def xt planned_row_fields)
    have "\<forall>r\<in>set page. py_strip (py_str en' (por (dget r ''id'') (PStr []))) \<noteq> []"
      using planned_records [of t k page fx recs] x assms(3) t by (auto simp: xt importable_def)
    note valid = planned_envelope_accepted [OF this, of ts]
    have "\<not> (0 < fc_max_file_bytes fc \<and> fc_max_file_bytes fc < int (length ?body))" using served [OF x] by auto
    moreover have "payload x = (\<lparr>fp_type = t, fp_url = ?url, fp_checksum = env_sha1_hex en ?body,
        fp_size = int (length ?body), fp_version = ?v, fp_content = ?body,
        fp_envelope = PDict [(''startTime'', PStr ts), (''endTime'', PStr ts), (''recordData'', PList (map PDict page))]\<rparr>, page)"
      by (simp add: payload_def xt url Let_def)
    ultimately show ?thesis
      unfolding fetch_file_def prod.case entry file_entry.select_convs allowed got rbind_Inr assms(9) load valid by simp
  qed
  have files: "rmap (fetch_file fc en' (pe_pk p) ?base ts) (List.enumerate 0 (map (plan_entry fx en ts) ?plan))
      = Inr (map payload ?plan)"
    by (rule rmap_enumerate) (rule fetched)
  have "typed_records en' (payload x) = (case x of (t, k, page) \<Rightarrow> map (\<lambda>r. (t, ?ident r, r)) page)" for x
    by (cases x) (simp add: typed_records_def payload_def Let_def)
  then have "concat (map (typed_records en') (map payload ?plan))
      = concat (map (\<lambda>(t, k, page). map (\<lambda>r. (t, ?ident r, r)) page) ?plan)" by (simp add: comp_def)
  also have "\<dots> = concat (map (\<lambda>t. map (\<lambda>r. (t, ?ident r, r)) (recs t)) RECORD_TYPES)"
    by (rule planned_concat)
  finally have records: "concat (map (typed_records en') (map payload ?plan))
      = concat (map (\<lambda>t. map (\<lambda>r. (t, ?ident r, r)) (recs t)) RECORD_TYPES)" .
  have "distinct (record_keys (concat (map (\<lambda>t. map (\<lambda>r. (t, ?ident r, r)) (recs t)) RECORD_TYPES)))"
    by (rule record_keys_planned) (use assms(3) in \<open>auto simp: importable_def RECORD_TYPES_def\<close>)
  moreover have "?base \<noteq> []" by (simp add: site_url_def)
  ultimately show ?thesis
    by (simp only: fetch_peer_generation_def Let_def link(7) base_url(1) [OF link(4)] if_False dump_url rbind_Inr
        dump_ok manifest manifesto valid prod.case files records not_True_eq_False fad_generation.select_convs ts) simp
qed
text \<open>
  C12. What one SAS publishes is what its peer imports: if the client's settings fit the server (the
  peer is registered at its public address, the versions agree, the host is allowed), the caller is
  authorised, the served texts decode to what was encoded and are within the size limit, and the
  records of each type have different identifiers, then after a publication the synchronisation
  succeeds, and the client's table holds for that peer exactly the records the server built, of all four
  types and over however many pages, under the date of the dump.
\<close>

theorem published_dump_is_imported:
  assumes "create_full_activity_dump fx en d fs = Inr (dump, fs')" and "fad_wf fs"
    and "\<forall>t\<in>set RECORD_TYPES. build_records fx en d t = Inr (map PDict (recs t)) \<and> importable en' (recs t)"
    and "peers_linked fc fx host p"
    and "\<forall>n path. fc_fetch fc (pe_pk p) n (site_url host path)
           = http_answer fx (sas_sas_get fx tc now d' fs' caller path)"
    and "require_peer_sas tc now d' caller \<noteq> None"
    and "dump_served fc fx fs' dump" and "sha1_like (env_sha1_hex en)" and "env_sha1_hex en' = env_sha1_hex en"
    and "peer_tables_wf here" and "p \<in> set (db_peers here)"
  shows "\<exists>g here'. sync_one_peer fc en' here p = (Inr (Some g), here') \<and> fg_datetime g = fd_generation dump
     \<and> fg_records g = concat (map (\<lambda>t. map (\<lambda>r. (t, py_str en' (dget r ''id''), r)) (recs t)) RECORD_TYPES)
     \<and> local_peer_record_fingerprint here' (pe_pk p)
         = {(t, py_str en' (dget r ''id''), json_dumps (PDict r)) | t r. t \<in> set RECORD_TYPES \<and> r \<in> set (recs t)}"
proof -
  from served_generation [OF assms(1-9)] obtain g where g: "fetch_peer_generation fc en' p = Inr g"
    "fg_datetime g = fd_generation dump"
    "fg_records g = concat (map (\<lambda>t. map (\<lambda>r. (t, py_str en' (dget r ''id''), r)) (recs t)) RECORD_TYPES)" by blast
  have "pe_url p = site_url host (''/'' @ fx_version fx)" "plain_segment (fx_version fx)"
    using assms(4) by (simp_all add: peers_linked_def)
  then have "py_strip (pe_url p) \<noteq> []" using base_url(1) [of "fx_version fx" host] by (simp add: site_url_def)
  with g(1) have off: "offered fc en' p = Some g" by (simp add: offered_def)
  obtain r here' where s: "sync_one_peer fc en' here p = (r, here')" by fastforce
  from sync_outcomes [OF assms(10,11) s] off have "r = Inr (Some g)" by cases auto
  moreover from sync_one_peer_effect [OF assms(10,11) s] off
  have "local_peer_record_fingerprint here' (pe_pk p) = snapshot_record_fingerprint g"
    by (auto simp: peers_replaced_or_kept_def)
  moreover have "snapshot_record_fingerprint g
      = {(t, py_str en' (dget r ''id''), json_dumps (PDict r)) | t r. t \<in> set RECORD_TYPES \<and> r \<in> set (recs t)}"
    unfolding snapshot_record_fingerprint_def g(3) record_data_json_def by force
  ultimately show ?thesis using g(2,3) s by blast
qed

subsection \<open>Three sensors sent to a peer\<close>

definition sent_sensors :: "string \<Rightarrow> pydict list" where
  "sent_sensors t = (if t = ''esc_sensor'' then map (\<lambda>s. [(''id'', PStr s)]) [''s1'', ''s2'', ''s3''] else [])"

text \<open>A toy encoding: the manifest is \<open>m\<close>, a page is the number of its records.\<close>

definition trip_bytes :: "jtext \<Rightarrow> string" where
  "trip_bytes t =
     (case t of
        JDoc (PDict body) \<Rightarrow>
          if dhas body ''files'' then ''m''
          else (case dget body ''recordData'' of PList rs \<Rightarrow> if rs = [] then ''0'' else if length rs = 1 then ''1'' else ''2'' | _ \<Rightarrow> ''x'')
      | _ \<Rightarrow> ''x'')"

definition trip_fx :: fad_ext where "trip_fx = example_fx\<lparr>fx_bytes := trip_bytes\<rparr>"
definition trip_env :: env where "trip_env = fad_env\<lparr>env_sha1_hex := (\<lambda>s. replicate 40 (CHR ''a''))\<rparr>"

definition trip_page :: "pydict list \<Rightarrow> jtext" where
  "trip_page page = json_dumps (PDict [(''startTime'', PStr (fmt_transmit_expire 0)),
     (''endTime'', PStr (fmt_transmit_expire 0)), (''recordData'', PList (map PDict page))])"

definition trip_manifest :: jtext where
  "trip_manifest = json_dumps (PDict
     [(''files'', PList (map (\<lambda>x. PDict (fr_entry (plan_row trip_fx trip_env (fmt_transmit_expire 0) x)))
        (dump_plan trip_fx sent_sensors))),
      (''generationDateTime'', PStr (fmt_transmit_expire 0)), (''description'', PStr FAD_DESCRIPTION)])"

definition trip_decode :: "string \<Rightarrow> jtext" where
  "trip_decode s =
     (if s = ''m'' then trip_manifest else if s = ''0'' then trip_page []
      else if s = ''1'' then trip_page (drop 2 (sent_sensors ''esc_sensor''))
      else if s = ''2'' then trip_page (take 2 (sent_sensors ''esc_sensor'')) else JBad)"

definition peer_cert :: certificate where
  "peer_cert = \<lparr>ce_sha1_hex = ''0011'', ce_not_before = 0, ce_not_after = 10,
     ce_basic_constraints = Some False, ce_extended_usage = Some [''1.3.6.1.5.5.7.3.2''],
     ce_digital_signature = Some True, ce_key = RSA 2048, ce_policies = Some [OID_ROLE_SAS],
     ce_serial = 7, ce_issuer = ''CA'', ce_subject = ''SAS''\<rparr>"

definition trip_trust :: trust_context where
  "trip_trust = \<lparr>tc_verify = (\<lambda>_ _. True), tc_roots = None, tc_crls = []\<rparr>"

definition server_db :: db where
  "server_db = sensors_db\<lparr>db_peers := [\<lparr>pe_pk = 1, pe_cert = ''00:11'', pe_url = [], pe_last_gen = None\<rparr>]\<rparr>"

definition trip_peer :: peer_row where
  "trip_peer = \<lparr>pe_pk = 1, pe_cert = ''22:33'', pe_url = ''https://sas/v1.3'', pe_last_gen = None\<rparr>"

definition client_db :: db where "client_db = empty_db\<lparr>db_peers := [trip_peer]\<rparr>"

definition trip_ip :: ip_address where
  "trip_ip = \<lparr>ip_text = ''93.184.215.14'', ip_multicast = False, ip_unspecified = False, ip_link_local = False,
     ip_loopback = False, ip_private = False, ip_reserved = False\<rparr>"

definition trip_client :: "fad_state \<Rightarrow> fad_client" where
  "trip_client fs =
     \<lparr>fc_resolve = (\<lambda>_ _ _. Dns_addresses [''93.184.215.14'']),
      fc_fetch = (\<lambda>_ _ url. http_answer trip_fx
        (sas_sas_get trip_fx trip_trust 0 server_db fs (TLS (Some peer_cert)) (drop (length ''https://sas'') url))),
      fc_decode = trip_decode, fc_ip = (\<lambda>s. if s = ''93.184.215.14'' then Some trip_ip else None),
      fc_netloc_ok = (\<lambda>_. True), fc_version = ''v1.3'', fc_max_file_bytes = 0, fc_error_text = (\<lambda>_. [])\<rparr>"

lemma trip_peer_authorised: "require_peer_sas trip_trust 0 server_db (TLS (Some peer_cert)) \<noteq> None"
proof -
  have "sha1_fingerprint_colon peer_cert = ''00:11''"
    by (simp add: sha1_fingerprint_colon_def peer_cert_def py_upper_def upper_char_def)
  moreover have "validate_sas_certificate trip_trust 0 peer_cert = None"
    by (simp add: validate_sas_certificate_def validate_leaf_def Let_def check_temporal_def is_ca_def key_type_allowed_def
        has_client_auth_def has_digital_signature_def check_revoked_def certificate_policy_oids_def trip_trust_def)
      (simp add: peer_cert_def)
  ultimately show ?thesis by (simp add: require_peer_sas_def server_db_def)
qed

lemma trip_linked: "peers_linked (trip_client fs) trip_fx ''sas'' trip_peer"
  by (simp add: peers_linked_def trip_client_def trip_fx_def example_fx_def trip_peer_def plain_name_def plain_char_def
      BLOCKED_LITERAL_HOSTS_def plain_segment_def site_url_def assert_resolved_host_allowed_def trip_ip_def
      host_allows_loopback_or_private_def ip_blocked_def map_filter_simps Let_def)

lemma trip_served:
  "fc_fetch (trip_client fs) (pe_pk trip_peer) n (site_url ''sas'' path)
     = http_answer trip_fx (sas_sas_get trip_fx trip_trust 0 server_db fs (TLS (Some peer_cert)) path)"
  by (simp add: trip_client_def site_url_def)

lemma trip_records: "\<forall>t\<in>set RECORD_TYPES.
    build_records trip_fx trip_env sensors_db t = Inr (map PDict (sent_sensors t)) \<and> importable trip_env (sent_sensors t)"
proof -
  have "build_records trip_fx trip_env sensors_db t = Inr (map PDict (sent_sensors t))" if "t \<in> set RECORD_TYPES" for t
    using that by (auto simp: RECORD_TYPES_def build_records_def build_cbsd_records_def dumped_cbsds_def build_zone_records_def
      build_esc_records_def build_esc_record_def build_coordination_records_def sent_sensors_def sensors_db_def
      empty_db_def rows_of_kind_def numbered_def present_def map_filter_simps)
  moreover have "importable trip_env (sent_sensors t)" for t
    by (simp add: importable_def sent_sensors_def por_def py_strip_def is_space_def)
  ultimately show ?thesis by blast
qed

lemma trip_plan: "dump_plan trip_fx sent_sensors =
    [(''cbsd'', 0, []), (''zone'', 0, []), (''esc_sensor'', 0, take 2 (sent_sensors ''esc_sensor'')),
     (''esc_sensor'', 1, drop 2 (sent_sensors ''esc_sensor'')), (''coordination'', 0, [])]"
proof -
  have "max_records_per_file trip_fx = 2" using example_fx_plain(4) by (simp add: trip_fx_def max_records_per_file_def)
  then show ?thesis
    by (simp add: dump_plan_def RECORD_TYPES_def sent_sensors_def chunk_records_def numbered_def upt_rec)
qed
lemma trip_publication: "\<exists>dump fs. create_full_activity_dump trip_fx trip_env sensors_db no_dumps = Inr (dump, fs)"
proof (rule publication_returns)
  show "\<forall>t\<in>set RECORD_TYPES. build_records trip_fx trip_env sensors_db t = Inr (map PDict (sent_sensors t))"
    using trip_records by blast
  show "plain_base trip_fx"
    using example_fx_plain(1) by (simp add: plain_base_def trip_fx_def)
  show "\<forall>j. fx_bytes trip_fx j \<noteq> []"
    by (auto simp: trip_fx_def trip_bytes_def split: jtext.splits pyval.splits)
  have "max_records_per_file trip_fx = 2" using example_fx_plain(4) by (simp add: trip_fx_def max_records_per_file_def)
  then show "(\<Sum>t\<leftarrow>RECORD_TYPES. page_count (max_records_per_file trip_fx) (length (map PDict (sent_sensors t)))) \<le> MANIFEST_MAX_FILES"
    by (simp add: RECORD_TYPES_def sent_sensors_def page_count_def MANIFEST_MAX_FILES_def)
qed (rule example_fx_plain)

lemma trip_pages_decode:
  assumes "(t, k, page) \<in> set (dump_plan trip_fx sent_sensors)"
  shows "trip_decode (trip_bytes (trip_page page)) = trip_page page"
  using assms unfolding trip_plan
  by (auto simp: trip_bytes_def trip_page_def json_dumps_def trip_decode_def sent_sensors_def)

lemma trip_dump_served:
  assumes "create_full_activity_dump trip_fx trip_env sensors_db no_dumps = Inr (dump, fs)"
  shows "dump_served (trip_client fs) trip_fx fs dump"
proof -
  have built: "\<forall>t\<in>set RECORD_TYPES. build_records trip_fx trip_env sensors_db t = Inr (map PDict (sent_sensors t))"
    using trip_records by blast
  from published_rows [OF assms example_fx_plain(3) built] obtain ts where ts: "ts = fmt_transmit_expire (env_now trip_env)"
    and files: "filter (\<lambda>f. ff_dump f = fd_pk dump) (fs_files fs)
       = map (\<lambda>x. file_of_row (fd_pk dump) (plan_row trip_fx trip_env ts x)) (dump_plan trip_fx sent_sensors)"
    and man: "fd_manifest dump = json_dumps (PDict
        [(''files'', PList (map (\<lambda>x. PDict (fr_entry (plan_row trip_fx trip_env ts x))) (dump_plan trip_fx sent_sensors))),
         (''generationDateTime'', PStr ts), (''description'', PStr FAD_DESCRIPTION)])"
    by metis
  have now: "ts = fmt_transmit_expire 0" using ts by (simp add: trip_env_def fad_env_def)
  have "fd_manifest dump = trip_manifest" unfolding man now trip_manifest_def ..
  moreover have "trip_bytes trip_manifest = ''m''" by (simp add: trip_manifest_def trip_bytes_def json_dumps_def)
  moreover have "trip_decode (trip_bytes (ff_content f)) = ff_content f"
    if f: "f \<in> set (fs_files fs)" "ff_dump f = fd_pk dump" for f
  proof -
    from f have "f \<in> set (map (\<lambda>x. file_of_row (fd_pk dump) (plan_row trip_fx trip_env ts x)) (dump_plan trip_fx sent_sensors))"
      unfolding files [symmetric] by simp
    then obtain t k page where x: "(t, k, page) \<in> set (dump_plan trip_fx sent_sensors)"
      "ff_content f = fr_content (plan_row trip_fx trip_env ts (t, k, page))" by (auto simp: file_of_row_def)
    then have "ff_content f = trip_page page" by (simp add: planned_row_fields trip_page_def now)
    with trip_pages_decode [OF x(1)] show ?thesis by simp
  qed
  moreover have "trip_decode ''m'' = trip_manifest" by (simp add: trip_decode_def)
  ultimately show ?thesis
    by (auto simp: dump_served_def trip_client_def trip_fx_def)
qed

lemma trip_hashes: "sha1_like (env_sha1_hex trip_env)"
  by (simp add: sha1_like_def trip_env_def list_all_iff)

lemma client_db_wf: "peer_tables_wf client_db" "trip_peer \<in> set (db_peers client_db)"
  by (simp_all add: client_db_def peer_tables_wf_def empty_db_def)

theorem published_dump_is_imported_witness:
  "\<exists>dump fs g here. create_full_activity_dump trip_fx trip_env sensors_db no_dumps = Inr (dump, fs)
     \<and> sync_one_peer (trip_client fs) trip_env client_db trip_peer = (Inr (Some g), here)
     \<and> local_peer_record_fingerprint here 1
         = {(''esc_sensor'', s, json_dumps (PDict [(''id'', PStr s)])) | s. s \<in> {''s1'', ''s2'', ''s3''}}"
proof -
  from trip_publication obtain dump fs where
    p: "create_full_activity_dump trip_fx trip_env sensors_db no_dumps = Inr (dump, fs)" by blast
  from published_dump_is_imported [OF p example_fx_plain(3) trip_records trip_linked _ trip_peer_authorised
      trip_dump_served [OF p] trip_hashes _ client_db_wf] trip_served
  obtain g here where g: "sync_one_peer (trip_client fs) trip_env client_db trip_peer = (Inr (Some g), here)"
    "local_peer_record_fingerprint here (pe_pk trip_peer) = {(t, py_str trip_env (dget r ''id''), json_dumps (PDict r))
       | t r. t \<in> set RECORD_TYPES \<and> r \<in> set (sent_sensors t)}" by blast
  have "{(t, py_str trip_env (dget r ''id''), json_dumps (PDict r)) | t r. t \<in> set RECORD_TYPES \<and> r \<in> set (sent_sensors t)}
      = {(''esc_sensor'', s, json_dumps (PDict [(''id'', PStr s)])) | s. s \<in> {''s1'', ''s2'', ''s3''}}"
    by (auto simp: RECORD_TYPES_def sent_sensors_def json_dumps_def)
  with g p show ?thesis by (auto simp: trip_peer_def)
qed

theorem accepted_generation_is_genuine_witness:
  "\<exists>dump fs g es. create_full_activity_dump trip_fx trip_env sensors_db no_dumps = Inr (dump, fs)
     \<and> fetch_peer_generation (trip_client fs) trip_env trip_peer = Inr g
     \<and> served_manifest (trip_client fs) trip_env trip_peer g es
     \<and> genuine_file (trip_client fs) trip_env trip_peer (fg_datetime g) 0 (es ! 0) (fg_files g ! 0)
     \<and> distinct (map (\<lambda>(t, i, r). (t, i)) (fg_records g))"
proof -
  from trip_publication obtain dump fs where
    p: "create_full_activity_dump trip_fx trip_env sensors_db no_dumps = Inr (dump, fs)" by blast
  from served_generation [OF p example_fx_plain(3) trip_records trip_linked _ trip_peer_authorised
      trip_dump_served [OF p] trip_hashes] trip_served
  obtain g where g: "fetch_peer_generation (trip_client fs) trip_env trip_peer = Inr g" by blast
  from accepted_generation_is_genuine [OF g] obtain es where "served_manifest (trip_client fs) trip_env trip_peer g es"
    "1 \<le> length es" "\<forall>k < length es. genuine_file (trip_client fs) trip_env trip_peer (fg_datetime g) k (es ! k) (fg_files g ! k)"
    "distinct (map (\<lambda>(t, i, r). (t, i)) (fg_records g))" by blast
  moreover from this(2) have "0 < length es" by linarith
  ultimately show ?thesis using g p by blast
qed

text \<open>The peer answers nothing: it keeps its records and counts as failed.\<close>

definition silent_client :: fad_client where
  "silent_client = (trip_client no_dumps)\<lparr>fc_fetch := (\<lambda>_ _ _. Request_error)\<rparr>"

definition held_db :: db where
  "held_db = client_db\<lparr>db_peer_fad := [\<lparr>pf_peer = 1, pf_type = ''cbsd'', pf_record_id = ''cbsd/a'', pf_data = JEmpty\<rparr>]\<rparr>"

theorem peer_sync_replaces_or_keeps_witness:
  "\<exists>report d'. run_peer_fad_sync silent_client trip_env held_db = (report, d')
     \<and> sy_failed report = 1 \<and> rows_of_peer d' 1 = rows_of_peer held_db 1 \<and> rows_of_peer held_db 1 \<noteq> []"
proof -
  obtain report d' where run: "run_peer_fad_sync silent_client trip_env held_db = (report, d')" by fastforce
  have wf: "peer_tables_wf held_db"
    by (simp add: held_db_def client_db_def peer_tables_wf_def empty_db_def trip_peer_def)
  have "py_strip (pe_url trip_peer) \<noteq> []" by (simp add: trip_peer_def py_strip_def is_space_def)
  moreover have "offered silent_client trip_env trip_peer = None"
    by (simp add: offered_def fetch_peer_generation_def silent_client_def http_get_bytes_def rbind_def Let_def split: sum.splits)
  moreover have "db_peers held_db = [trip_peer]" by (simp add: held_db_def client_db_def)
  ultimately show ?thesis
    using peer_sync_replaces_or_keeps [OF wf run] run
    by (auto simp: peers_replaced_or_kept_def) (simp_all add: held_db_def trip_peer_def)
qed

end
