(* ===== verification/Coupling.thy ===== *)
theory Coupling
  imports IapSafety Admission
begin

text \<open>
  The interference a grant causes at a protection point (services/iap/coupling.py): an EIRP less a path
  loss for most entities, the effective EIRP less ITM loss and receiver mask for ESC sensors. The
  reference engines (ITM and antenna gains) are external: an argument, or the failure to load them.
\<close>

datatype iap_path_loss_model = Iap_itm | Iap_free_space

text \<open>What \<open>calc_itm\<close> returns: the loss in dB and, unless they are missing, the two horizontal angles.\<close>

record itm_result =
  it_db_loss :: real
  it_angles :: "(real \<times> real) option"

text \<open>
  \<open>cg_calc_itm\<close> takes the transmitter's latitude, longitude and height, the receiver's, whether the CBSD is
  indoor, the reliability, the frequency in MHz and whether the height is above sea level.
\<close>

record reference_engines =
  cg_calc_itm :: "real \<times> real \<times> real \<Rightarrow> real \<times> real \<times> real \<Rightarrow> bool \<Rightarrow> real \<Rightarrow> real \<Rightarrow> bool \<Rightarrow> itm_result res"
  cg_standard_gains :: "real \<Rightarrow> real \<Rightarrow> real \<Rightarrow> real \<Rightarrow> real res"
  cg_pattern_gains :: "(real \<Rightarrow> real \<Rightarrow> real list \<Rightarrow> real res) option"

record coupling_ext =
  cx_model :: string
  cx_engines :: "reference_engines res"

type_synonym itm_path_loss_fn = "grant_rf \<Rightarrow> protection_point \<Rightarrow> real \<Rightarrow> real res"

definition DEFAULT_RX_HEIGHT_M :: real where "DEFAULT_RX_HEIGHT_M = 15 / 10"
definition IAP_FREQ_MHZ_DEFAULT :: real where "IAP_FREQ_MHZ_DEFAULT = 3625"
definition ESC_MASK_EDGE_HZ :: int where "ESC_MASK_EDGE_HZ = 3650000000"
definition ESC_IN_BAND_INSERTION_LOSS_DB :: real where "ESC_IN_BAND_INSERTION_LOSS_DB = 1 / 2"
definition ESC_RBW_HZ :: real where "ESC_RBW_HZ = 5000000"
definition ESC_FREQ_PROP_MHZ :: real where "ESC_FREQ_PROP_MHZ = 3625"
definition MHZ_HZ :: real where "MHZ_HZ = 1000000"

definition configured_iap_path_loss_model :: "coupling_ext \<Rightarrow> iap_path_loss_model" where
  "configured_iap_path_loss_model cx =
     (let raw = (if cx_model cx = [] then ''itm'' else cx_model cx);
          normalized = map (\<lambda>c. if c = CHR ''-'' then CHR ''_'' else c) (py_lower (py_strip raw)) in
      if normalized \<in> {''free_space'', ''fs'', ''freespace''} then Iap_free_space else Iap_itm)"

subsection \<open>Path loss\<close>

definition iap_free_space_path_loss_db :: "grant_rf \<Rightarrow> protection_point \<Rightarrow> real \<Rightarrow> real \<Rightarrow> real" where
  "iap_free_space_path_loss_db g pt freq_mhz rx_height_m =
     (let dist_km = iap_haversine_km (rf_lat g) (rf_lon g) (pp_lat pt) (pp_lon pt);
          dh_km = \<bar>rf_height_m g - rx_height_m\<bar> / 1000;
          slant_km = max (sqrt (dist_km ^ 2 + dh_km ^ 2)) (1 / 10 ^ 6) in
      20 * log 10 slant_km + 20 * log 10 freq_mhz + 3244 / 100)"

text \<open>Errors of the engines come out as the unavailability of propagation.\<close>

definition propagation_errors :: "'a res \<Rightarrow> 'a res" where
  "propagation_errors r =
     (case r of
        Inl e \<Rightarrow> Inl (if e = IapCouplingUnavailable then e else PropagationUnavailableError)
      | Inr x \<Rightarrow> Inr x)"

definition calc_itm_at :: "reference_engines \<Rightarrow> grant_rf \<Rightarrow> protection_point \<Rightarrow> real \<Rightarrow> real \<Rightarrow> real \<Rightarrow> itm_result res" where
  "calc_itm_at en g pt rx_height_m reliability freq_mhz =
     propagation_errors (cg_calc_itm en (rf_lat g, rf_lon g, rf_height_m g) (pp_lat pt, pp_lon pt, rx_height_m)
       (rf_indoor g) reliability freq_mhz (\<not> rf_height_is_agl g))"

definition itm_path_loss_db :: "coupling_ext \<Rightarrow> grant_rf \<Rightarrow> protection_point \<Rightarrow> real \<Rightarrow> real \<Rightarrow> real res" where
  "itm_path_loss_db cx g pt rx_height_m freq_mhz =
     rbind (cx_engines cx) (\<lambda>en.
     rbind (calc_itm_at en g pt rx_height_m (1 / 2) freq_mhz) (\<lambda>r. Inr (it_db_loss r)))"

definition make_iap_coupling :: "(grant_rf \<Rightarrow> protection_point \<Rightarrow> frequency_channel \<Rightarrow> real res) \<Rightarrow> raising_coupling" where
  "make_iap_coupling path_loss_db_fn = (\<lambda>g pt ch eirp.
     rbind (path_loss_db_fn g pt ch) (\<lambda>pl_db. Inr (dbm_to_mw (eirp - pl_db))))"

subsection \<open>ESC sensors\<close>

definition linear_to_db :: "real \<Rightarrow> real" where "linear_to_db v = 10 * log 10 v"
definition db_to_linear :: "real \<Rightarrow> real" where "db_to_linear v = 10 powr (v / 10)"

definition effective_system_eirp_dbm :: "real \<Rightarrow> real \<Rightarrow> real \<Rightarrow> real" where
  "effective_system_eirp_dbm max_eirp cbsd_max_gain effective_gain =
     (max_eirp - cbsd_max_gain) + effective_gain + linear_to_db (ESC_RBW_HZ / MHZ_HZ)"

text \<open>The attenuations of the loop, one for each bin below the upper edge.\<close>

function mask_attens :: "real \<Rightarrow> real \<Rightarrow> real list" where
  "mask_attens freq_hz high_hz =
     (if freq_hz < high_hz
      then (freq_hz / MHZ_HZ - 3650 + ESC_IN_BAND_INSERTION_LOSS_DB) # mask_attens (freq_hz + MHZ_HZ) high_hz
      else [])"
  by pat_completeness auto
termination
proof (relation "measure (\<lambda>(f, h). nat \<lceil>(h - f) / MHZ_HZ\<rceil>)")
  fix f h :: real assume "f < h"
  then have "0 < (h - f) / MHZ_HZ" by (simp add: MHZ_HZ_def)
  moreover have "(h - (f + MHZ_HZ)) / MHZ_HZ = (h - f) / MHZ_HZ - 1" by (simp add: MHZ_HZ_def field_simps)
  ultimately show "((f + MHZ_HZ, h), f, h) \<in> measure (\<lambda>(f, h). nat \<lceil>(h - f) / MHZ_HZ\<rceil>)" by simp
qed simp

declare mask_attens.simps [simp del]

definition esc_mask_loss_db :: "frequency_channel \<Rightarrow> real res" where
  "esc_mask_loss_db ch =
     (if ch_high ch \<le> ESC_MASK_EDGE_HZ then Inr ESC_IN_BAND_INSERTION_LOSS_DB
      else if ch_low ch < ESC_MASK_EDGE_HZ then Inl IapCouplingUnavailable
      else (let attens = mask_attens (real_of_int (ch_low ch) + MHZ_HZ / 2) (real_of_int (ch_high ch)) in
        if attens = [] then Inl IapCouplingUnavailable
        else Inr (- linear_to_db (sum_list (map (\<lambda>a. db_to_linear (- a)) attens) / real (length attens)))))"

definition require_esc_point_rf :: "protection_point \<Rightarrow> (real \<times> real \<times> real list) res" where
  "require_esc_point_rf pt =
     (case (pp_rx_height_m pt, pp_rx_azimuth pt, pp_rx_gains pt) of
        (Some h, Some az, Some gains) \<Rightarrow> if gains = [] then Inl IapCouplingUnavailable else Inr (h, az, gains)
      | _ \<Rightarrow> Inl IapCouplingUnavailable)"

definition require_grant_antenna :: "grant_rf \<Rightarrow> (real \<times> real \<times> real) res" where
  "require_grant_antenna g =
     (case (rf_azimuth g, rf_beamwidth g, rf_gain g) of
        (Some az, Some bw, Some gain) \<Rightarrow> Inr (az, bw, gain)
      | _ \<Rightarrow> Inl IapCouplingUnavailable)"

definition default_itm_esc_result :: "coupling_ext \<Rightarrow> grant_rf \<Rightarrow> protection_point \<Rightarrow> real \<Rightarrow> itm_result res" where
  "default_itm_esc_result cx g pt rx_height_m =
     rbind (cx_engines cx) (\<lambda>en. calc_itm_at en g pt rx_height_m (- 1) ESC_FREQ_PROP_MHZ)"

definition default_cbsd_antenna_gain :: "coupling_ext \<Rightarrow> real \<Rightarrow> real \<Rightarrow> real \<Rightarrow> real \<Rightarrow> real res" where
  "default_cbsd_antenna_gain cx hor_cbsd az bw gain = rbind (cx_engines cx) (\<lambda>en. cg_standard_gains en hor_cbsd az bw gain)"

definition default_esc_antenna_gain :: "coupling_ext \<Rightarrow> real \<Rightarrow> real \<Rightarrow> real list \<Rightarrow> real res" where
  "default_esc_antenna_gain cx hor_rx az gains =
     rbind (cx_engines cx) (\<lambda>en. case cg_pattern_gains en of
        None \<Rightarrow> Inl IapCouplingUnavailable
      | Some f \<Rightarrow> f hor_rx az gains)"

definition make_esc_iap_coupling :: "coupling_ext \<Rightarrow> raising_coupling" where
  "make_esc_iap_coupling cx = (\<lambda>g pt ch eirp.
     if pp_kind pt \<noteq> ESC then Inl IapCouplingUnavailable
     else rbind (require_esc_point_rf pt) (\<lambda>(rx_h, esc_az, gains).
          rbind (require_grant_antenna g) (\<lambda>(cbsd_az, cbsd_bw, cbsd_peak).
          rbind (default_itm_esc_result cx g pt rx_h) (\<lambda>r.
            case it_angles r of
              None \<Rightarrow> Inl IapCouplingUnavailable
            | Some (hor_cbsd, hor_rx) \<Rightarrow>
                rbind (default_cbsd_antenna_gain cx hor_cbsd cbsd_az cbsd_bw cbsd_peak) (\<lambda>g_cbsd.
                rbind (default_esc_antenna_gain cx hor_rx esc_az gains) (\<lambda>g_esc.
                rbind (esc_mask_loss_db ch) (\<lambda>mask.
                  Inr (dbm_to_mw (effective_system_eirp_dbm eirp cbsd_peak (g_cbsd + g_esc) - it_db_loss r - mask)))))))))"

subsection \<open>The production coupling\<close>

definition generic_iap_coupling ::
    "coupling_ext \<Rightarrow> iap_path_loss_model \<Rightarrow> itm_path_loss_fn option \<Rightarrow> real \<Rightarrow> raising_coupling res" where
  "generic_iap_coupling cx model itm_fn rx_height_m =
     (if model = Iap_free_space
      then Inr (make_iap_coupling (\<lambda>g pt ch. Inr (iap_free_space_path_loss_db g pt IAP_FREQ_MHZ_DEFAULT rx_height_m)))
      else (case itm_fn of
              None \<Rightarrow> rbind (cx_engines cx) (\<lambda>_.
                Inr (make_iap_coupling (\<lambda>g pt ch. itm_path_loss_db cx g pt rx_height_m IAP_FREQ_MHZ_DEFAULT)))
            | Some f \<Rightarrow> Inr (make_iap_coupling (\<lambda>g pt ch. f g pt rx_height_m))))"

definition make_production_iap_coupling ::
    "coupling_ext \<Rightarrow> iap_path_loss_model option \<Rightarrow> itm_path_loss_fn option \<Rightarrow> real \<Rightarrow> raising_coupling res" where
  "make_production_iap_coupling cx model itm_fn rx_height_m =
     rbind (generic_iap_coupling cx (case model of Some m \<Rightarrow> m | None \<Rightarrow> configured_iap_path_loss_model cx) itm_fn rx_height_m)
       (\<lambda>generic. Inr (\<lambda>g pt ch eirp.
          if pp_kind pt = ESC then make_esc_iap_coupling cx g pt ch eirp else generic g pt ch eirp))"

end
