(* ===== verification/CouplingSafety.thy ===== *)
theory CouplingSafety
  imports Coupling
begin

text \<open>
  What the production coupling promises: the interference is the EIRP less a loss that does not depend on
  it, so it is positive, grows with the EIRP and fails for all EIRPs or none; the mask of an ESC
  receiver is bounded; and the allocation run with it protects every point.
\<close>

subsection \<open>A loss that does not depend on the EIRP\<close>

lemma make_iap_coupling_loss: "make_iap_coupling L g pt ch e = rbind (L g pt ch) (\<lambda>l. Inr (dbm_to_mw (e - l)))"
  by (simp add: make_iap_coupling_def)

lemma generic_is_loss:
  assumes "generic_iap_coupling cx model itm_fn h = Inr cpl"
  shows "\<exists>loss. \<forall>e. cpl g pt ch e = rbind loss (\<lambda>l. Inr (dbm_to_mw (e - l)))"
proof -
  from assms obtain L where "cpl = make_iap_coupling L"
    by (auto simp: generic_iap_coupling_def rbind_eq_Inr split: if_splits option.splits)
  then show ?thesis by (intro exI [of _ "L g pt ch"]) (simp add: make_iap_coupling_loss)
qed

lemma esc_is_loss: "\<exists>loss. \<forall>e. make_esc_iap_coupling cx g pt ch e = rbind loss (\<lambda>l. Inr (dbm_to_mw (e - l)))"
proof (cases "make_esc_iap_coupling cx g pt ch 0")
  case (Inl x)
  then have "make_esc_iap_coupling cx g pt ch e = Inl x" for e
    unfolding make_esc_iap_coupling_def
    by (auto simp: rbind_def split: sum.splits option.splits if_splits)
  then show ?thesis by (intro exI [of _ "Inl x"]) simp
next
  case (Inr v)
  then obtain rx_h esc_az gains cbsd_az cbsd_bw cbsd_peak r hor_cbsd hor_rx g_cbsd g_esc mask where
    parts: "pp_kind pt = ESC" "require_esc_point_rf pt = Inr (rx_h, esc_az, gains)"
      "require_grant_antenna g = Inr (cbsd_az, cbsd_bw, cbsd_peak)" "default_itm_esc_result cx g pt rx_h = Inr r"
      "it_angles r = Some (hor_cbsd, hor_rx)"
      "default_cbsd_antenna_gain cx hor_cbsd cbsd_az cbsd_bw cbsd_peak = Inr g_cbsd"
      "default_esc_antenna_gain cx hor_rx esc_az gains = Inr g_esc" "esc_mask_loss_db ch = Inr mask"
    by (auto simp: make_esc_iap_coupling_def rbind_eq_Inr split: if_splits option.splits)
  have "effective_system_eirp_dbm e p q - l - m = e - (p - q - linear_to_db (ESC_RBW_HZ / MHZ_HZ) + l + m)" for e p q l m
    by (simp add: effective_system_eirp_dbm_def)
  with parts show ?thesis
    by (intro exI [of _ "Inr (cbsd_peak - (g_cbsd + g_esc) - linear_to_db (ESC_RBW_HZ / MHZ_HZ) + it_db_loss r + mask)"])
      (simp only: make_esc_iap_coupling_def rbind_Inr prod.case option.case not_True_eq_False simp_thms if_False)
qed

lemma production_is_loss:
  assumes "make_production_iap_coupling cx model itm_fn h = Inr cpl"
  shows "\<exists>loss. \<forall>e. cpl g pt ch e = rbind loss (\<lambda>l. Inr (dbm_to_mw (e - l)))"
proof -
  from assms obtain generic where gen: "generic_iap_coupling cx (case model of Some m \<Rightarrow> m
      | None \<Rightarrow> configured_iap_path_loss_model cx) itm_fn h = Inr generic"
    and cpl: "cpl = (\<lambda>g pt ch eirp. if pp_kind pt = ESC then make_esc_iap_coupling cx g pt ch eirp else generic g pt ch eirp)"
    by (auto simp: make_production_iap_coupling_def rbind_eq_Inr)
  show ?thesis
    using generic_is_loss [OF gen, of g pt ch] esc_is_loss [of cx g pt ch] unfolding cpl by (cases "pp_kind pt = ESC") auto
qed

text \<open>The coupling as a total function; where it raises its value is never used.\<close>

definition answered :: "raising_coupling \<Rightarrow> coupling" where
  "answered cpl = (\<lambda>g pt ch e. case cpl g pt ch e of Inr v \<Rightarrow> v | Inl _ \<Rightarrow> 0)"

lemma dbm_to_mw_mono: "x \<le> y \<Longrightarrow> dbm_to_mw x \<le> dbm_to_mw y"
  by (simp add: dbm_to_mw_def)

lemma answered_ok:
  assumes "make_production_iap_coupling cx model itm_fn h = Inr cpl"
  shows "0 \<le> answered cpl g pt ch e" and "e \<le> e' \<Longrightarrow> answered cpl g pt ch e \<le> answered cpl g pt ch e'"
proof -
  from production_is_loss [OF assms, of g pt ch] obtain loss where
    loss: "\<And>e. cpl g pt ch e = rbind loss (\<lambda>l. Inr (dbm_to_mw (e - l)))" by blast
  show "0 \<le> answered cpl g pt ch e"
    by (cases loss) (simp_all add: answered_def loss dbm_to_mw_def)
  show "answered cpl g pt ch e \<le> answered cpl g pt ch e'" if "e \<le> e'"
    using that by (cases loss) (simp_all add: answered_def loss dbm_to_mw_mono)
qed

subsection \<open>The mask of an ESC receiver\<close>

lemma mask_attens_bounds:
  "a \<in> set (mask_attens f h) \<Longrightarrow>
     f / MHZ_HZ - 3650 + ESC_IN_BAND_INSERTION_LOSS_DB \<le> a \<and> a < h / MHZ_HZ - 3650 + ESC_IN_BAND_INSERTION_LOSS_DB"
proof (induction f h rule: mask_attens.induct)
  case (1 f h)
  have pos: "0 < MHZ_HZ" by (simp add: MHZ_HZ_def)
  from "1.prems" have lt: "f < h" by (subst (asm) mask_attens.simps) (simp split: if_splits)
  with "1.prems" have "a = f / MHZ_HZ - 3650 + ESC_IN_BAND_INSERTION_LOSS_DB \<or> a \<in> set (mask_attens (f + MHZ_HZ) h)"
    by (subst (asm) mask_attens.simps) simp
  moreover have "f / MHZ_HZ < h / MHZ_HZ" using lt pos by (simp add: divide_strict_right_mono)
  moreover have "f / MHZ_HZ < (f + MHZ_HZ) / MHZ_HZ" using pos by (simp add: divide_strict_right_mono)
  ultimately show ?case using "1.IH" [OF lt] by auto
qed

lemma mean_between:
  assumes "xs \<noteq> []" and "\<And>x. x \<in> set xs \<Longrightarrow> lo \<le> x \<and> x \<le> (hi::real)"
  shows "lo \<le> sum_list xs / real (length xs)" and "sum_list xs / real (length xs) \<le> hi"
proof -
  have "real (length ys) * lo \<le> sum_list ys \<and> sum_list ys \<le> real (length ys) * hi" if "set ys \<subseteq> set xs" for ys
    using that assms(2) by (induction ys) (auto simp: algebra_simps intro: add_mono)
  from this [of xs] assms(1) show "lo \<le> sum_list xs / real (length xs)" "sum_list xs / real (length xs) \<le> hi"
    by (simp_all add: pos_le_divide_eq pos_divide_le_eq mult.commute)
qed

lemma linear_to_db_powr: "linear_to_db (db_to_linear x) = x"
  by (simp add: linear_to_db_def db_to_linear_def log_powr)

lemma linear_to_db_mono: "0 < x \<Longrightarrow> x \<le> y \<Longrightarrow> linear_to_db x \<le> linear_to_db y"
  by (simp add: linear_to_db_def)

text \<open>
  The mask loss of an ESC receiver is defined exactly for the channels that end at 3650 MHz or
  below, where it is the insertion loss of half a decibel, and for those that start at 3650 MHz or
  above and have room for one bin; there it grows with the distance from the edge: it lies between the
  distances of the first bin and of the upper end, in MHz, with the insertion loss added. Any other channel is
  refused.
\<close>

theorem esc_mask_bounds:
  "case esc_mask_loss_db ch of
     Inl e \<Rightarrow> e = IapCouplingUnavailable \<and> 3650000000 < ch_high ch
       \<and> (ch_low ch < 3650000000 \<or> 2 * ch_high ch \<le> 2 * ch_low ch + 1000000)
   | Inr l \<Rightarrow>
       if ch_high ch \<le> 3650000000 then l = 1 / 2
       else 3650000000 \<le> ch_low ch \<and> 2 * ch_low ch + 1000000 < 2 * ch_high ch
         \<and> (real_of_int (ch_low ch) - 3650000000) / 1000000 + 1 \<le> l
         \<and> l \<le> (real_of_int (ch_high ch) - 3650000000) / 1000000 + 1 / 2"
proof (cases "ch_high ch \<le> 3650000000 \<or> ch_low ch < 3650000000")
  case True
  then show ?thesis
    by (auto simp: esc_mask_loss_db_def ESC_MASK_EDGE_HZ_def ESC_IN_BAND_INSERTION_LOSS_DB_def)
next
  case False
  let ?f = "real_of_int (ch_low ch) + MHZ_HZ / 2" and ?h = "real_of_int (ch_high ch)"
  let ?as = "mask_attens ?f ?h"
  have room: "?f < ?h \<longleftrightarrow> 2 * ch_low ch + 1000000 < 2 * ch_high ch" by (simp add: MHZ_HZ_def) linarith
  have empty: "?as = [] \<longleftrightarrow> \<not> ?f < ?h" by (subst mask_attens.simps) simp
  show ?thesis
  proof (cases "?f < ?h")
    case False
    with \<open>\<not> (ch_high ch \<le> 3650000000 \<or> ch_low ch < 3650000000)\<close> empty room show ?thesis
      by (simp add: esc_mask_loss_db_def ESC_MASK_EDGE_HZ_def Let_def)
  next
    case True
    let ?mean = "sum_list (map (\<lambda>a. db_to_linear (- a)) ?as) / real (length ?as)"
    let ?lo = "?f / MHZ_HZ - 3650 + ESC_IN_BAND_INSERTION_LOSS_DB" and ?hi = "?h / MHZ_HZ - 3650 + ESC_IN_BAND_INSERTION_LOSS_DB"
    from True empty have ne: "map (\<lambda>a. db_to_linear (- a)) ?as \<noteq> []" by simp
    have "db_to_linear (- ?hi) \<le> x \<and> x \<le> db_to_linear (- ?lo)" if "x \<in> set (map (\<lambda>a. db_to_linear (- a)) ?as)" for x
      using that by (auto simp: db_to_linear_def dest!: mask_attens_bounds)
    from mean_between [OF ne this] have mean: "db_to_linear (- ?hi) \<le> ?mean" "?mean \<le> db_to_linear (- ?lo)" by simp_all
    moreover have "0 < db_to_linear x" for x by (simp add: db_to_linear_def)
    ultimately have "0 < ?mean" by (metis less_le_trans)
    with linear_to_db_mono [OF _ mean(1)] linear_to_db_mono [OF _ mean(2)] \<open>\<And>x. 0 < db_to_linear x\<close>
    have "?lo \<le> - linear_to_db ?mean" "- linear_to_db ?mean \<le> ?hi" by (simp_all add: linear_to_db_powr)
    moreover have "esc_mask_loss_db ch = Inr (- linear_to_db ?mean)"
      using \<open>\<not> (ch_high ch \<le> 3650000000 \<or> ch_low ch < 3650000000)\<close> True empty
      by (simp add: esc_mask_loss_db_def ESC_MASK_EDGE_HZ_def Let_def)
    moreover have "?lo = (real_of_int (ch_low ch) - 3650000000) / 1000000 + 1"
      "?hi = (real_of_int (ch_high ch) - 3650000000) / 1000000 + 1 / 2"
      by (simp_all add: MHZ_HZ_def ESC_IN_BAND_INSERTION_LOSS_DB_def field_simps)
    ultimately show ?thesis
      using \<open>\<not> (ch_high ch \<le> 3650000000 \<or> ch_low ch < 3650000000)\<close> True room by simp
  qed
qed

subsection \<open>The allocation with the production coupling\<close>

text \<open>The interference a decision allows a grant to cause, as the coupling answers.\<close>

definition allowed_answer :: "raising_coupling \<Rightarrow> protection_point \<Rightarrow> frequency_channel \<Rightarrow> grant_rf \<Rightarrow> iap_decision \<Rightarrow> real res" where
  "allowed_answer cpl pt ch g d =
     (if grant_overlaps_channel (pp_kind pt) g ch \<and> id_action d \<noteq> Terminate_Grant
      then cpl g pt ch (id_authorized d) else Inr 0)"

lemma allowed_answers:
  assumes "\<And>g. g \<in> set gs \<Longrightarrow> \<exists>v. cpl g pt ch (id_authorized (D g)) = Inr v"
  shows "rmap (\<lambda>g. allowed_answer cpl pt ch g (D g)) gs = Inr (map (\<lambda>g. allowed_mw (answered cpl) pt ch g (D g)) gs)"
proof -
  have "allowed_answer cpl pt ch g (D g) = Inr (allowed_mw (answered cpl) pt ch g (D g))" if "g \<in> set gs" for g
    using assms [OF that] by (auto simp: allowed_answer_def allowed_mw_def answered_def)
  then show ?thesis by (induction gs) simp_all
qed

text \<open>
  C36. The allocation protects every point with the coupling of the production: whichever path loss
  model is configured, as long as the reference engines answer for the grants and points at hand, the
  managed neighbours of a point, each at the EIRP its merged decision authorises, stay within the
  threshold on each of its channels. Nothing is asked of the numbers the engines return.
\<close>

theorem production_allocation_protects:
  assumes "make_production_iap_coupling cx model itm_fn h = Inr cpl"
    and "enough_rounds cfg grants K" and "distinct (map rf_grant_id grants)"
    and "pt \<in> set points" and "ch \<in> set (overlapping_iap_channels origin IAPBW_HZ (pp_low pt) (pp_high pt))"
    and "\<And>g e. g \<in> set grants \<Longrightarrow> \<exists>v. cpl g pt ch e = Inr v"
  shows "\<exists>mws. rmap (\<lambda>g. allowed_answer cpl pt ch g
                 (the (merged_for (snd (run_iap origin points grants (answered cpl) cfg)) (rf_grant_id g))))
              (filter rf_managing (grants_in_neighborhood pt grants)) = Inr mws
     \<and> sum_list mws \<le> point_threshold_mw pt"
proof -
  let ?D = "\<lambda>g. the (merged_for (snd (run_iap origin points grants (answered cpl) cfg)) (rf_grant_id g))"
  let ?gs = "filter rf_managing (grants_in_neighborhood pt grants)"
  have "rmap (\<lambda>g. allowed_answer cpl pt ch g (?D g)) ?gs = Inr (map (\<lambda>g. allowed_mw (answered cpl) pt ch g (?D g)) ?gs)"
    by (rule allowed_answers) (auto simp: grants_in_neighborhood_def intro: assms(6))
  moreover have "(\<Sum>g\<leftarrow>?gs. allowed_mw (answered cpl) pt ch g (?D g)) \<le> point_threshold_mw pt"
    by (rule merged_decisions_protect [OF assms(2,3) answered_ok [OF assms(1)] assms(4,5)])
  ultimately show ?thesis by blast
qed

text \<open>Two grants and free space, as configured.\<close>

definition example_cx :: coupling_ext where
  "example_cx = \<lparr>cx_model = ''free-space'', cx_engines = Inl PropagationUnavailableError\<rparr>"

lemma example_production:
  obtains cpl where "make_production_iap_coupling example_cx None None DEFAULT_RX_HEIGHT_M = Inr cpl"
    and "\<And>g ch e. \<exists>v. cpl g example_point ch e = Inr v"
proof -
  have "configured_iap_path_loss_model example_cx = Iap_free_space"
    unfolding example_cx_def by code_simp
  then show thesis
    by (intro that [OF _ ]) (auto simp: make_production_iap_coupling_def generic_iap_coupling_def make_iap_coupling_def example_point_def)
qed

theorem production_allocation_protects_witness:
  "\<exists>cpl mws. make_production_iap_coupling example_cx None None DEFAULT_RX_HEIGHT_M = Inr cpl
     \<and> rmap (\<lambda>g. allowed_answer cpl example_point \<lparr>ch_low = 3560000000, ch_high = 3565000000\<rparr> g
          (the (merged_for (snd (run_iap 3550000000 [example_esc_point, example_point] [example_rf ''a'', example_rf ''b'']
             (answered cpl) default_iap_config)) (rf_grant_id g))))
        (filter rf_managing (grants_in_neighborhood example_point [example_rf ''a'', example_rf ''b''])) = Inr mws
     \<and> sum_list mws \<le> point_threshold_mw example_point"
proof -
  from example_production obtain cpl where cpl: "make_production_iap_coupling example_cx None None DEFAULT_RX_HEIGHT_M = Inr cpl"
    "\<And>g ch e. \<exists>v. cpl g example_point ch e = Inr v" by metis
  have "distinct (map rf_grant_id [example_rf ''a'', example_rf ''b''])" "example_point \<in> set [example_esc_point, example_point]"
    "\<lparr>ch_low = 3560000000, ch_high = 3565000000\<rparr> \<in> set (overlapping_iap_channels 3550000000 IAPBW_HZ (pp_low example_point) (pp_high example_point))"
    by (simp_all add: example_rf_def) (simp add: example_point_def example_iap_channels)
  from production_allocation_protects [OF cpl(1) example_rounds this cpl(2)] cpl(1) show ?thesis by blast
qed

end
