(* ===== verification/Border.thy ===== *)
theory Border
  imports Coupling GrantService Vincenty
begin

text \<open>
  The power flux density at the Canadian border (services/border_protection.py) and the sharing zone it
  applies in (services/border_geometry.py), which the Grant service asks before it admits a grant above
  3650 MHz. The texts of the border file, the ITM engine and the antenna gains are arguments: each may be
  missing.
\<close>

record border_ext =
  bd_model :: string
  bd_coordinates :: "string list res"
  bd_antenna :: "(real \<Rightarrow> pyval \<Rightarrow> pyval \<Rightarrow> real \<Rightarrow> real res) option"
  bd_itm :: "(real \<times> real \<times> real \<Rightarrow> real \<times> real \<times> real \<Rightarrow> bool \<Rightarrow> real \<Rightarrow> real \<Rightarrow> bool \<Rightarrow> itm_result res) option"

definition ARRANGEMENT_R_LOW_HZ :: int where "ARRANGEMENT_R_LOW_HZ = 3650000000"
definition ARRANGEMENT_R_HIGH_HZ :: int where "ARRANGEMENT_R_HIGH_HZ = 3700000000"
definition PFD_LIMIT_DBM_M2_MHZ :: real where "PFD_LIMIT_DBM_M2_MHZ = - 80"
definition BORDER_RX_HEIGHT_M :: real where "BORDER_RX_HEIGHT_M = 15 / 10"
definition ITM_FREQ_MHZ :: real where "ITM_FREQ_MHZ = 3625"
definition SHARING_ZONE_MAX_KM :: real where "SHARING_ZONE_MAX_KM = 56"
definition SHARING_ZONE_INNER_KM :: real where "SHARING_ZONE_INNER_KM = 8"

datatype border_pfd_outcome = Border_allow | Border_deny | Border_unavailable

subsection \<open>The sharing zone\<close>

definition initial_bearing_deg :: "real \<Rightarrow> real \<Rightarrow> real \<Rightarrow> real \<Rightarrow> real" where
  "initial_bearing_deg lat1 lon1 lat2 lon2 =
     (let phi1 = radians lat1; phi2 = radians lat2; dlon = radians (lon2 - lon1);
          x = sin dlon * cos phi2;
          y = cos phi1 * sin phi2 - sin phi1 * cos phi2 * cos dlon;
          b = atan2 x y * 180 / pi + 360 in
      b - 360 * real_of_int \<lfloor>b / 360\<rfloor>)"

text \<open>\<open>a % 360.0\<close>.\<close>

definition mod_360 :: "real \<Rightarrow> real" where
  "mod_360 a = a - 360 * real_of_int \<lfloor>a / 360\<rfloor>"

definition angle_between :: "real \<Rightarrow> real \<Rightarrow> real \<Rightarrow> bool" where
  "angle_between angle min_angle max_angle =
     (let a = mod_360 angle; lo = mod_360 min_angle; hi = mod_360 max_angle in
      if lo < hi then lo \<le> a \<and> a \<le> hi else lo \<le> a \<or> a \<le> hi)"

text \<open>\<open>text.split()\<close>.\<close>

definition split_words :: "string \<Rightarrow> string list" where
  "split_words s = filter (\<lambda>w. w \<noteq> []) (split_on (CHR '' '') (map (\<lambda>c. if is_space c then CHR '' '' else c) s))"

definition parse_coord_text :: "string \<Rightarrow> (real \<times> real) list" where
  "parse_coord_text text =
     List.map_filter (\<lambda>tok.
       case split_on (CHR '','') tok of
         lon # lat # _ \<Rightarrow>
           (case (read_real lon, read_real lat) of (Some x, Some y) \<Rightarrow> Some (x, y) | _ \<Rightarrow> None)
       | _ \<Rightarrow> None) (split_words text)"

text \<open>The pairs are longitude and latitude.\<close>

definition border_vertices :: "border_ext \<Rightarrow> (real \<times> real) list res" where
  "border_vertices bd =
     (case bd_coordinates bd of
        Inl _ \<Rightarrow> Inl BorderGeometryUnavailable
      | Inr texts \<Rightarrow>
          (let vertices = concat (map parse_coord_text texts) in
           if length vertices < 2 then Inl BorderGeometryUnavailable else Inr vertices))"

record border_point =
  bo_dist :: real
  bo_bearing :: real
  bo_lat :: real
  bo_lon :: real

definition nearer_vertex ::
    "real \<Rightarrow> real \<Rightarrow> real \<Rightarrow> real \<Rightarrow> border_point option \<Rightarrow> real \<times> real \<Rightarrow> border_point option" where
  "nearer_vertex latitude longitude max_dist_km max_delta best vertex =
     (case vertex of (lon, lat) \<Rightarrow>
        let dist = iap_haversine_km latitude longitude lat lon in
        if \<bar>lat - latitude\<bar> > max_delta \<or> \<bar>lon - longitude\<bar> > max_delta then best
        else if dist > max_dist_km then best
        else if (case best of None \<Rightarrow> True | Some b \<Rightarrow> dist < bo_dist b)
        then Some \<lparr>bo_dist = dist, bo_bearing = initial_bearing_deg latitude longitude lat lon, bo_lat = lat, bo_lon = lon\<rparr>
        else best)"

definition closest_canadian_border_point :: "border_ext \<Rightarrow> real \<Rightarrow> real \<Rightarrow> real \<Rightarrow> border_point option res" where
  "closest_canadian_border_point bd latitude longitude max_dist_km =
     (let cos_lat = max (2 / 10) \<bar>cos (radians latitude)\<bar>;
          max_delta = (max_dist_km / (11132 / 100 * cos_lat)) * (11 / 10) in
      rbind (border_vertices bd) (\<lambda>vertices.
        Inr (foldl (nearer_vertex latitude longitude max_dist_km max_delta) None vertices)))"

text \<open>The three directions of the beam against the cone of 200 degrees towards the border.\<close>

definition beam_meets_cone :: "real \<Rightarrow> real \<Rightarrow> real \<Rightarrow> bool" where
  "beam_meets_cone azi bw bearing =
     (angle_between (azi - bw / 2) (bearing - 100) (bearing + 100)
      \<or> angle_between (azi + bw / 2) (bearing - 100) (bearing + 100)
      \<or> angle_between azi (bearing - 100) (bearing + 100))"

definition in_sharing_zone :: "pyval \<Rightarrow> pyval \<Rightarrow> border_point \<Rightarrow> bool" where
  "in_sharing_zone ant_azimuth ant_beamwidth b =
     (if bo_dist b > SHARING_ZONE_MAX_KM then False
      else if bo_dist b \<le> SHARING_ZONE_INNER_KM then True
      else if ant_beamwidth = PNone \<or> ant_azimuth = PNone \<or> py_eq ant_beamwidth (PInt 0) \<or> py_eq ant_beamwidth (PInt 360)
      then True
      else (case (py_float ant_azimuth, py_float ant_beamwidth) of
              (Inr azi, Inr bw) \<Rightarrow> beam_meets_cone azi bw (bo_bearing b)
            | _ \<Rightarrow> True))"

definition check_cbsd_in_border_sharing_zone ::
    "border_ext \<Rightarrow> real \<Rightarrow> real \<Rightarrow> pyval \<Rightarrow> pyval \<Rightarrow> (real \<times> real) option res" where
  "check_cbsd_in_border_sharing_zone bd latitude longitude ant_azimuth ant_beamwidth =
     rbind (closest_canadian_border_point bd latitude longitude SHARING_ZONE_MAX_KM) (\<lambda>closest.
       Inr (case closest of
              None \<Rightarrow> None
            | Some b \<Rightarrow> if in_sharing_zone ant_azimuth ant_beamwidth b then Some (bo_lat b, bo_lon b) else None))"

subsection \<open>The power flux density\<close>

definition overlaps_arrangement_r :: "int \<Rightarrow> int \<Rightarrow> bool" where
  "overlaps_arrangement_r low_hz high_hz = (high_hz > ARRANGEMENT_R_LOW_HZ \<and> low_hz < ARRANGEMENT_R_HIGH_HZ)"

definition bpr_free_space :: "border_ext \<Rightarrow> bool" where
  "bpr_free_space bd =
     (py_lower (py_strip (if bd_model bd = [] then ''itm'' else bd_model bd)) \<in> {''free_space'', ''fs'', ''freespace''})"

definition border_free_space_loss_db :: "real \<Rightarrow> real \<Rightarrow> real \<Rightarrow> real \<Rightarrow> real \<Rightarrow> real \<Rightarrow> real" where
  "border_free_space_loss_db lat_tx lon_tx height_tx_m lat_rx lon_rx height_rx_m =
     (let dist_km = iap_haversine_km lat_tx lon_tx lat_rx lon_rx;
          dh_km = \<bar>height_tx_m - height_rx_m\<bar> / 1000;
          slant_km = max (sqrt (dist_km ^ 2 + dh_km ^ 2)) (1 / 10 ^ 6) in
      20 * log 10 slant_km + 20 * log 10 ITM_FREQ_MHZ + 3244 / 100)"

text \<open>Path loss and antenna gain towards the border; \<open>None\<close> when a reference model cannot be imported.\<close>

definition border_link ::
    "border_ext \<Rightarrow> bool \<Rightarrow> real \<times> real \<Rightarrow> real \<Rightarrow> bool \<Rightarrow> bool \<Rightarrow> pyval \<Rightarrow> pyval \<Rightarrow> real \<Rightarrow> real \<times> real
       \<Rightarrow> (real \<times> real) res option" where
  "border_link bd free_space site height indoor amsl ant_azi ant_bw max_ant_gain border =
     (if free_space
      then (let pl = border_free_space_loss_db (fst site) (snd site) height (fst border) (snd border) BORDER_RX_HEIGHT_M;
                gain = (case bd_antenna bd of
                          None \<Rightarrow> max_ant_gain
                        | Some f \<Rightarrow> (case f 0 ant_azi ant_bw max_ant_gain of Inl _ \<Rightarrow> max_ant_gain | Inr v \<Rightarrow> v)) in
            Some (Inr (pl, gain)))
      else (case (bd_antenna bd, bd_itm bd) of
              (Some f, Some itm) \<Rightarrow>
                Some (rbind (itm (fst site, snd site, height) (fst border, snd border, BORDER_RX_HEIGHT_M) indoor
                               (1 / 2) ITM_FREQ_MHZ amsl) (\<lambda>r.
                  case it_angles r of
                    None \<Rightarrow> Inl AttributeError
                  | Some (hor_cbsd, _) \<Rightarrow> rbind (f hor_cbsd ant_azi ant_bw max_ant_gain) (\<lambda>gain. Inr (it_db_loss r, gain))))
            | _ \<Rightarrow> None))"

definition border_pfd :: "real \<Rightarrow> real \<Rightarrow> real \<Rightarrow> real \<Rightarrow> real" where
  "border_pfd max_eirp max_ant_gain ant_gain pl = max_eirp - max_ant_gain + ant_gain - pl + 326 / 10"

definition max_antenna_gain :: "pyval \<Rightarrow> real" where
  "max_antenna_gain v = (case py_float (por v (PInt 0)) of Inl _ \<Rightarrow> 0 | Inr g \<Rightarrow> g)"

text \<open>Inside the zone, at a known border point.\<close>

definition pfd_outcome :: "border_ext \<Rightarrow> pydict \<Rightarrow> real \<Rightarrow> real \<times> real \<Rightarrow> real \<times> real \<Rightarrow> border_pfd_outcome res" where
  "pfd_outcome bd inst max_eirp site border =
     rbind (py_float (por (dget inst ''height'') (PInt 0))) (\<lambda>height.
       let max_ant_gain = max_antenna_gain (dget inst ''antennaGain'') in
       case border_link bd (bpr_free_space bd) site height (truthy (dget inst ''indoorDeployment''))
              (por (dget inst ''heightType'') (PStr ''AGL'') = PStr ''AMSL'')
              (dget inst ''antennaAzimuth'') (dget inst ''antennaBeamwidth'') max_ant_gain border of
         None \<Rightarrow> Inr Border_unavailable
       | Some (Inl _) \<Rightarrow> Inr Border_deny
       | Some (Inr (pl, gain)) \<Rightarrow>
           Inr (if border_pfd max_eirp max_ant_gain gain pl > PFD_LIMIT_DBM_M2_MHZ then Border_deny else Border_allow))"

definition installation_site :: "pyval \<Rightarrow> (real \<times> real) option" where
  "installation_site installation =
     (case (rbind (pykey installation ''latitude'') py_float, rbind (pykey installation ''longitude'') py_float) of
        (Inr lat, Inr lon) \<Rightarrow> Some (lat, lon)
      | _ \<Rightarrow> None)"

definition evaluate_canadian_border_pfd ::
    "border_ext \<Rightarrow> pyval \<Rightarrow> real \<Rightarrow> int \<Rightarrow> int \<Rightarrow> border_pfd_outcome res" where
  "evaluate_canadian_border_pfd bd installation max_eirp low_hz high_hz =
     (if \<not> overlaps_arrangement_r low_hz high_hz then Inr Border_allow
      else (case installation_site installation of
              None \<Rightarrow> Inr Border_unavailable
            | Some (lat, lon) \<Rightarrow>
                (let inst = or_empty_dict installation in
                 case check_cbsd_in_border_sharing_zone bd lat lon (dget inst ''antennaAzimuth'')
                        (dget inst ''antennaBeamwidth'') of
                   Inl _ \<Rightarrow> Inl BorderProtectionUnavailable
                 | Inr None \<Rightarrow> Inr Border_allow
                 | Inr (Some border) \<Rightarrow> pfd_outcome bd inst max_eirp (lat, lon) border)))"

definition violates_canadian_border_pfd :: "border_ext \<Rightarrow> pyval \<Rightarrow> real \<Rightarrow> int \<Rightarrow> int \<Rightarrow> bool res" where
  "violates_canadian_border_pfd bd installation max_eirp low_hz high_hz =
     (case evaluate_canadian_border_pfd bd installation max_eirp low_hz high_hz of
        Inl e \<Rightarrow> if e = BorderProtectionUnavailable then Inr True else Inl e
      | Inr outcome \<Rightarrow> Inr (outcome \<in> {Border_deny, Border_unavailable}))"

end
