(* ===== verification/BorderSafety.thy ===== *)
theory BorderSafety
imports Border
begin

text \<open>
  What the border test promises: the three directions it looks at decide whether any direction of the beam points
  towards the border, the vertex it uses is the nearest one within reach, and the Grant service, with this
  test, adds a grant above 3650 MHz only when the site is out of the sharing zone or a power flux density within the
  limit was computed.
\<close>

subsection \<open>The beam and the cone\<close>

lemma mod_360E:
  obtains n :: int where "mod_360 x = x - 360 * real_of_int n" and "0 \<le> mod_360 x" and "mod_360 x < 360"
proof (rule that)
  show "mod_360 x = x - 360 * real_of_int \<lfloor>x / 360\<rfloor>" by (simp add: mod_360_def)
  have "real_of_int \<lfloor>x / 360\<rfloor> \<le> x / 360" "x / 360 < real_of_int \<lfloor>x / 360\<rfloor> + 1" by linarith+
  then show "0 \<le> mod_360 x" "mod_360 x < 360" by (simp_all add: mod_360_def field_simps)
qed

lemma int_cases3: obtains "m = 0" | "1 \<le> real_of_int m" | "real_of_int m \<le> - 1"
  by (cases "m = 0"; cases "0 < m") auto

lemma angle_between_iff:
  "angle_between a (b - 100) (b + 100) \<longleftrightarrow> (\<exists>k :: int. \<bar>a - b - 360 * real_of_int k\<bar> \<le> 100)"
proof -
  obtain na where A: "mod_360 a = a - 360 * real_of_int na" "0 \<le> mod_360 a" "mod_360 a < 360" by (rule mod_360E)
  obtain nl where L: "mod_360 (b - 100) = b - 100 - 360 * real_of_int nl" "0 \<le> mod_360 (b - 100)" "mod_360 (b - 100) < 360"
    by (rule mod_360E)
  obtain nh where H: "mod_360 (b + 100) = b + 100 - 360 * real_of_int nh" "0 \<le> mod_360 (b + 100)" "mod_360 (b + 100) < 360"
    by (rule mod_360E)
  have near: "(\<exists>k :: int. \<bar>a - b - 360 * real_of_int k\<bar> \<le> 100)
      \<longleftrightarrow> (\<exists>m :: int. 0 \<le> mod_360 a - mod_360 (b - 100) - 360 * real_of_int m
              \<and> mod_360 a - mod_360 (b - 100) - 360 * real_of_int m \<le> 200)"
  proof
    assume "\<exists>k :: int. \<bar>a - b - 360 * real_of_int k\<bar> \<le> 100"
    then obtain k :: int where "\<bar>a - b - 360 * real_of_int k\<bar> \<le> 100" ..
    then show "\<exists>m :: int. 0 \<le> mod_360 a - mod_360 (b - 100) - 360 * real_of_int m
              \<and> mod_360 a - mod_360 (b - 100) - 360 * real_of_int m \<le> 200"
      using A(1) L(1) by (intro exI [of _ "k - na + nl"]) (simp add: abs_le_iff algebra_simps)
  next
    assume "\<exists>m :: int. 0 \<le> mod_360 a - mod_360 (b - 100) - 360 * real_of_int m
              \<and> mod_360 a - mod_360 (b - 100) - 360 * real_of_int m \<le> 200"
    then obtain m :: int where "0 \<le> mod_360 a - mod_360 (b - 100) - 360 * real_of_int m"
      "mod_360 a - mod_360 (b - 100) - 360 * real_of_int m \<le> 200" by blast
    then show "\<exists>k :: int. \<bar>a - b - 360 * real_of_int k\<bar> \<le> 100"
      using A(1) L(1) by (intro exI [of _ "m + na - nl"]) (simp add: abs_le_iff algebra_simps)
  qed
  let ?A = "mod_360 a" and ?L = "mod_360 (b - 100)" and ?H = "mod_360 (b + 100)"
  have gap: "?H = ?L + 200 \<or> ?H = ?L - 160"
  proof -
    have diff: "?H - ?L = 200 - 360 * real_of_int (nh - nl)" using L(1) H(1) by (simp add: algebra_simps)
    show ?thesis
    proof (cases "nh - nl = 0 \<or> nh - nl = 1")
      case True
      then show ?thesis using diff by auto
    next
      case False
      then have "2 \<le> nh - nl \<or> nh - nl \<le> - 1" by auto
      then have "2 \<le> real_of_int (nh - nl) \<or> real_of_int (nh - nl) \<le> - 1" by linarith
      then show ?thesis using diff L(2,3) H(2,3) by auto
    qed
  qed
  have cases: "(0 \<le> ?A - ?L - 360 * real_of_int m \<and> ?A - ?L - 360 * real_of_int m \<le> 200)
      \<longleftrightarrow> (m = 0 \<and> 0 \<le> ?A - ?L \<and> ?A - ?L \<le> 200) \<or> (m = - 1 \<and> ?A + 360 \<le> ?L + 200)" for m
  proof (cases "m = 0 \<or> m = - 1")
    case True
    then show ?thesis using A(2,3) L(2,3) by auto
  next
    case False
    then have "1 \<le> m \<or> m \<le> - 2" by auto
    then have "1 \<le> real_of_int m \<or> real_of_int m \<le> - 2" by linarith
    with False show ?thesis using A(2,3) L(2,3) by auto
  qed
  have "(\<exists>k :: int. \<bar>a - b - 360 * real_of_int k\<bar> \<le> 100)
      \<longleftrightarrow> (0 \<le> ?A - ?L \<and> ?A - ?L \<le> 200) \<or> ?A + 360 \<le> ?L + 200"
    unfolding near cases by auto
  also have "\<dots> \<longleftrightarrow> angle_between a (b - 100) (b + 100)"
    unfolding angle_between_def Let_def using gap A(2,3) L(2,3) H(2,3) by auto
  finally show ?thesis by blast
qed

text \<open>
  The test of the antenna against the border cone is exact: for a beam of at most 360 degrees, looking at its two
  edges and its axis finds out whether any direction of the beam lies within 100 degrees of the bearing
  of the border point, whole turns aside.
\<close>

theorem beam_test_is_exact:
  assumes "0 \<le> bw" and "bw \<le> 360"
  shows "beam_meets_cone azi bw bearing
     \<longleftrightarrow> (\<exists>direction. \<bar>direction - azi\<bar> \<le> bw / 2 \<and> (\<exists>k :: int. \<bar>direction - bearing - 360 * real_of_int k\<bar> \<le> 100))"
  (is "?test = ?spec")
proof
  assume ?test
  then consider (low) "\<exists>k :: int. \<bar>azi - bw / 2 - bearing - 360 * real_of_int k\<bar> \<le> 100"
    | (high) "\<exists>k :: int. \<bar>azi + bw / 2 - bearing - 360 * real_of_int k\<bar> \<le> 100"
    | (axis) "\<exists>k :: int. \<bar>azi - bearing - 360 * real_of_int k\<bar> \<le> 100"
    unfolding beam_meets_cone_def angle_between_iff by blast
  then show ?spec
  proof cases
    case low
    with assms(1) show ?thesis by (intro exI [of _ "azi - bw / 2"]) simp
  next
    case high
    with assms(1) show ?thesis by (intro exI [of _ "azi + bw / 2"]) simp
  next
    case axis
    with assms(1) show ?thesis by (intro exI [of _ azi]) simp
  qed
next
  assume ?spec
  then obtain t k where t: "\<bar>t - azi\<bar> \<le> bw / 2" "\<bar>t - bearing - 360 * real_of_int k\<bar> \<le> 100" by blast
  show ?test
  proof (rule ccontr)
    assume "\<not> ?test"
    then have out: "\<not> \<bar>azi - bearing - 360 * real_of_int j\<bar> \<le> 100"
      "\<not> \<bar>azi - bw / 2 - bearing - 360 * real_of_int j\<bar> \<le> 100"
      "\<not> \<bar>azi + bw / 2 - bearing - 360 * real_of_int j\<bar> \<le> 100" for j
      unfolding beam_meets_cone_def angle_between_iff by blast+
    show False using t out [of k] assms by (auto simp: abs_le_iff not_le)
  qed
qed

subsection \<open>The nearest point of the border\<close>

definition vertex_dist :: "real \<Rightarrow> real \<Rightarrow> real \<times> real \<Rightarrow> real" where
  "vertex_dist latitude longitude v = iap_haversine_km latitude longitude (snd v) (fst v)"

definition border_point_at :: "real \<Rightarrow> real \<Rightarrow> real \<times> real \<Rightarrow> border_point" where
  "border_point_at latitude longitude v =
     \<lparr>bo_dist = vertex_dist latitude longitude v,
      bo_bearing = initial_bearing_deg latitude longitude (snd v) (fst v), bo_lat = snd v, bo_lon = fst v\<rparr>"

text \<open>The vertices the search considers: in the box around the site and within the distance.\<close>

definition vertex_in_reach :: "real \<Rightarrow> real \<Rightarrow> real \<Rightarrow> real \<times> real \<Rightarrow> bool" where
  "vertex_in_reach latitude longitude max_dist_km v =
     (let max_delta = (max_dist_km / (11132 / 100 * max (2 / 10) \<bar>cos (radians latitude)\<bar>)) * (11 / 10) in
      \<bar>snd v - latitude\<bar> \<le> max_delta \<and> \<bar>fst v - longitude\<bar> \<le> max_delta
      \<and> vertex_dist latitude longitude v \<le> max_dist_km)"

lemma nearer_fold:
  assumes "\<And>v. P v = (\<bar>snd v - la\<bar> \<le> delta \<and> \<bar>fst v - lo\<bar> \<le> delta \<and> vertex_dist la lo v \<le> reach)"
  shows "(\<forall>v\<in>set vs. P v \<longrightarrow> (\<exists>b. foldl (nearer_vertex la lo reach delta) best vs = Some b \<and> bo_dist b \<le> vertex_dist la lo v))
    \<and> (\<forall>b0. best = Some b0 \<longrightarrow> (\<exists>b. foldl (nearer_vertex la lo reach delta) best vs = Some b \<and> bo_dist b \<le> bo_dist b0))
    \<and> (\<forall>b. foldl (nearer_vertex la lo reach delta) best vs = Some b \<longrightarrow>
         best = Some b \<or> (\<exists>v\<in>set vs. P v \<and> b = border_point_at la lo v))"
proof (induction vs arbitrary: best)
  case (Cons v vs)
  let ?best = "nearer_vertex la lo reach delta best v"
  have step: "?best = (if P v \<and> (\<forall>b. best = Some b \<longrightarrow> vertex_dist la lo v < bo_dist b)
      then Some (border_point_at la lo v) else best)"
    unfolding assms by (cases v; cases best) (auto simp: nearer_vertex_def vertex_dist_def border_point_at_def Let_def)
  have near_dist: "bo_dist (border_point_at la lo v) = vertex_dist la lo v" by (simp add: border_point_at_def)
  have new: "\<exists>b. ?best = Some b \<and> bo_dist b \<le> vertex_dist la lo v" if "P v"
    unfolding step using that near_dist by (cases best) (auto simp: not_less)
  have old: "\<exists>b. ?best = Some b \<and> bo_dist b \<le> bo_dist b0" if "best = Some b0" for b0
    unfolding step using that near_dist by (auto intro: less_imp_le)
  have made: "best = Some b \<or> P v \<and> b = border_point_at la lo v" if "?best = Some b" for b
    using that unfolding step by (auto split: if_splits)
  let ?r = "foldl (nearer_vertex la lo reach delta) ?best vs"
  note IH = Cons.IH [of ?best]
  have down: "\<exists>b. ?r = Some b \<and> bo_dist b \<le> x" if "\<exists>b. ?best = Some b \<and> bo_dist b \<le> x" for x
    using that IH by (metis order_trans)
  have "\<exists>b. ?r = Some b \<and> bo_dist b \<le> vertex_dist la lo w" if "w \<in> set (v # vs)" "P w" for w
    using that IH down [OF new] by auto
  moreover have "\<exists>b. ?r = Some b \<and> bo_dist b \<le> bo_dist b0" if "best = Some b0" for b0
    by (rule down [OF old [OF that]])
  moreover have "best = Some b \<or> (\<exists>w\<in>set (v # vs). P w \<and> b = border_point_at la lo w)" if "?r = Some b" for b
    using that IH made by auto
  ultimately show ?case by (simp only: foldl_Cons) blast
qed simp

lemma closest_point:
  assumes "closest_canadian_border_point bd la lo reach = Inr best"
  obtains vs where "border_vertices bd = Inr vs" and "best = None" and "\<forall>v\<in>set vs. \<not> vertex_in_reach la lo reach v"
  | vs v where "border_vertices bd = Inr vs" and "best = Some (border_point_at la lo v)" and "v \<in> set vs"
      and "vertex_in_reach la lo reach v"
      and "\<forall>w\<in>set vs. vertex_in_reach la lo reach w \<longrightarrow> vertex_dist la lo v \<le> vertex_dist la lo w"
proof -
  let ?delta = "(reach / (11132 / 100 * max (2 / 10) \<bar>cos (radians la)\<bar>)) * (11 / 10)"
  from assms obtain vs where vs: "border_vertices bd = Inr vs"
    "best = foldl (nearer_vertex la lo reach ?delta) None vs"
    by (auto simp: closest_canadian_border_point_def Let_def rbind_eq_Inr)
  have "vertex_in_reach la lo reach v = (\<bar>snd v - la\<bar> \<le> ?delta \<and> \<bar>fst v - lo\<bar> \<le> ?delta \<and> vertex_dist la lo v \<le> reach)" for v
    by (simp add: vertex_in_reach_def Let_def)
  from nearer_fold [of "vertex_in_reach la lo reach", OF this, of vs None]
  have fold: "\<forall>v\<in>set vs. vertex_in_reach la lo reach v \<longrightarrow> (\<exists>b. best = Some b \<and> bo_dist b \<le> vertex_dist la lo v)"
    "\<forall>b. best = Some b \<longrightarrow> (\<exists>v\<in>set vs. vertex_in_reach la lo reach v \<and> b = border_point_at la lo v)"
    unfolding vs(2) [symmetric] by auto
  show thesis
  proof (cases best)
    case None
    with fold(1) vs(1) that(1) show ?thesis by auto
  next
    case (Some b)
    with fold(2) obtain v where v: "v \<in> set vs" "vertex_in_reach la lo reach v" "b = border_point_at la lo v" by blast
    with fold(1) Some have "\<forall>w\<in>set vs. vertex_in_reach la lo reach w \<longrightarrow> vertex_dist la lo v \<le> vertex_dist la lo w"
      by (auto simp: border_point_at_def)
    with v Some vs(1) that(2) show ?thesis by blast
  qed
qed

subsection \<open>What passes the border test\<close>

text \<open>No direction of the antenna's beam lies within 100 degrees of the bearing of the border point.\<close>

definition beam_turned_away :: "pydict \<Rightarrow> real \<Rightarrow> real \<Rightarrow> real \<times> real \<Rightarrow> bool" where
  "beam_turned_away inst la lo v =
     (SHARING_ZONE_INNER_KM < vertex_dist la lo v
      \<and> (\<exists>azi bw. py_float (dget inst ''antennaAzimuth'') = Inr azi \<and> py_float (dget inst ''antennaBeamwidth'') = Inr bw
           \<and> (0 \<le> bw \<longrightarrow> bw \<le> 360 \<longrightarrow>
               (\<forall>t (k :: int). \<bar>t - azi\<bar> \<le> bw / 2 \<longrightarrow>
                  100 < \<bar>t - initial_bearing_deg la lo (snd v) (fst v) - 360 * real_of_int k\<bar>))))"

definition flux_within_limit :: "border_ext \<Rightarrow> pydict \<Rightarrow> real \<Rightarrow> real \<times> real \<Rightarrow> real \<times> real \<Rightarrow> bool" where
  "flux_within_limit bd inst eirp site v =
     (\<exists>h pl gain. py_float (por (dget inst ''height'') (PInt 0)) = Inr h
        \<and> border_link bd (bpr_free_space bd) site h (truthy (dget inst ''indoorDeployment''))
            (por (dget inst ''heightType'') (PStr ''AGL'') = PStr ''AMSL'') (dget inst ''antennaAzimuth'')
            (dget inst ''antennaBeamwidth'') (max_antenna_gain (dget inst ''antennaGain'')) (snd v, fst v)
            = Some (Inr (pl, gain))
        \<and> eirp - max_antenna_gain (dget inst ''antennaGain'') + gain - pl + 326 / 10 \<le> - 80)"

definition border_clear :: "border_ext \<Rightarrow> pyval \<Rightarrow> real \<Rightarrow> int \<Rightarrow> int \<Rightarrow> bool" where
  "border_clear bd inst eirp low high =
     (high \<le> 3650000000 \<or> 3700000000 \<le> low
      \<or> (\<exists>la lo vs. installation_site inst = Some (la, lo) \<and> border_vertices bd = Inr vs
           \<and> ((\<forall>v\<in>set vs. \<not> vertex_in_reach la lo 56 v)
              \<or> (\<exists>v\<in>set vs. vertex_in_reach la lo 56 v
                   \<and> (\<forall>w\<in>set vs. vertex_in_reach la lo 56 w \<longrightarrow> vertex_dist la lo v \<le> vertex_dist la lo w)
                   \<and> (beam_turned_away (or_empty_dict inst) la lo v
                      \<or> flux_within_limit bd (or_empty_dict inst) eirp (la, lo) v)))))"

lemma outside_zone:
  assumes "\<not> in_sharing_zone (dget inst ''antennaAzimuth'') (dget inst ''antennaBeamwidth'') (border_point_at la lo v)"
    and "vertex_in_reach la lo 56 v"
  shows "beam_turned_away inst la lo v"
proof -
  let ?b = "initial_bearing_deg la lo (snd v) (fst v)"
  from assms(2) have "vertex_dist la lo v \<le> 56" by (simp add: vertex_in_reach_def Let_def)
  with assms(1) obtain azi bw where zone: "SHARING_ZONE_INNER_KM < vertex_dist la lo v"
    "py_float (dget inst ''antennaAzimuth'') = Inr azi" "py_float (dget inst ''antennaBeamwidth'') = Inr bw"
    "\<not> beam_meets_cone azi bw ?b"
    by (auto simp: in_sharing_zone_def border_point_at_def SHARING_ZONE_MAX_KM_def split: if_splits sum.splits)
  have "100 < \<bar>t - ?b - 360 * real_of_int k\<bar>" if "0 \<le> bw" "bw \<le> 360" "\<bar>t - azi\<bar> \<le> bw / 2" for t and k :: int
    using zone(4) beam_test_is_exact [OF that(1,2), of azi ?b] that(3) by (meson not_le)
  with zone(1-3) show ?thesis unfolding beam_turned_away_def by blast
qed

lemma allowed_flux:
  assumes "pfd_outcome bd inst eirp site (snd v, fst v) = Inr Border_allow"
  shows "flux_within_limit bd inst eirp site v"
proof -
  from assms obtain h where h: "py_float (por (dget inst ''height'') (PInt 0)) = Inr h"
    by (auto simp: pfd_outcome_def rbind_eq_Inr)
  let ?link = "border_link bd (bpr_free_space bd) site h (truthy (dget inst ''indoorDeployment''))
      (por (dget inst ''heightType'') (PStr ''AGL'') = PStr ''AMSL'') (dget inst ''antennaAzimuth'')
      (dget inst ''antennaBeamwidth'') (max_antenna_gain (dget inst ''antennaGain'')) (snd v, fst v)"
  from assms h have out: "(case ?link of None \<Rightarrow> Inr Border_unavailable | Some (Inl e) \<Rightarrow> Inr Border_deny
      | Some (Inr (pl, gain)) \<Rightarrow> Inr (if border_pfd eirp (max_antenna_gain (dget inst ''antennaGain'')) gain pl
          > PFD_LIMIT_DBM_M2_MHZ then Border_deny else Border_allow)) = (Inr Border_allow :: border_pfd_outcome res)"
    by (simp add: pfd_outcome_def Let_def)
  then obtain pl gain where link: "?link = Some (Inr (pl, gain))" by (auto split: option.splits sum.splits)
  from out have "\<not> border_pfd eirp (max_antenna_gain (dget inst ''antennaGain'')) gain pl > PFD_LIMIT_DBM_M2_MHZ"
    unfolding link by (simp split: if_splits)
  with h link show ?thesis
    unfolding flux_within_limit_def by (auto simp: border_pfd_def PFD_LIMIT_DBM_M2_MHZ_def not_less)
qed

lemma border_test_clear:
  assumes "violates_canadian_border_pfd bd inst eirp low high = Inr False"
  shows "border_clear bd inst eirp low high"
proof (cases "overlaps_arrangement_r low high")
  case False
  then show ?thesis
    by (auto simp: border_clear_def overlaps_arrangement_r_def ARRANGEMENT_R_LOW_HZ_def ARRANGEMENT_R_HIGH_HZ_def)
next
  case True
  let ?inst = "or_empty_dict inst"
  from assms have eval: "evaluate_canadian_border_pfd bd inst eirp low high = Inr Border_allow"
    by (auto simp: violates_canadian_border_pfd_def split: sum.splits if_splits) (metis border_pfd_outcome.exhaust)
  with True obtain la lo zone where site: "installation_site inst = Some (la, lo)"
    and zone: "check_cbsd_in_border_sharing_zone bd la lo (dget ?inst ''antennaAzimuth'') (dget ?inst ''antennaBeamwidth'') = Inr zone"
    and allow: "zone = None \<or> (\<exists>border. zone = Some border \<and> pfd_outcome bd ?inst eirp (la, lo) border = Inr Border_allow)"
    by (auto simp: evaluate_canadian_border_pfd_def Let_def split: option.splits sum.splits)
  from zone obtain best where best: "closest_canadian_border_point bd la lo 56 = Inr best"
    and sz: "zone = (case best of None \<Rightarrow> None
        | Some b \<Rightarrow> if in_sharing_zone (dget ?inst ''antennaAzimuth'') (dget ?inst ''antennaBeamwidth'') b
                   then Some (bo_lat b, bo_lon b) else None)"
    by (auto simp: check_cbsd_in_border_sharing_zone_def rbind_eq_Inr SHARING_ZONE_MAX_KM_def)
  from best show ?thesis
  proof (cases rule: closest_point)
    case (1 vs)
    with site show ?thesis unfolding border_clear_def by blast
  next
    case (2 vs v)
    have "beam_turned_away ?inst la lo v \<or> flux_within_limit bd ?inst eirp (la, lo) v"
    proof (cases "in_sharing_zone (dget ?inst ''antennaAzimuth'') (dget ?inst ''antennaBeamwidth'') (border_point_at la lo v)")
      case True
      with sz 2(2) have "zone = Some (snd v, fst v)" by (simp add: border_point_at_def)
      with allow allowed_flux show ?thesis by blast
    next
      case False
      with outside_zone 2(4) show ?thesis by blast
    qed
    with site 2 show ?thesis unfolding border_clear_def by blast
  qed
qed

text \<open>
  C39. A grant above 3650 MHz passes the Canadian border test only with a reason: no vertex of the border is
  within 56 km of the site, or the nearest one is more than 8 km away and no direction of the antenna's beam comes
  within 100 degrees of its bearing, or the power flux density computed there is at most -80
  dBm/m2/MHz. A missing border file, position or propagation engine lets nothing pass.
\<close>

theorem border_test_protects:
  assumes "violates_canadian_border_pfd bd inst eirp low high = Inr False"
  shows "border_clear bd inst eirp low high"
  using assms by (rule border_test_clear)

text \<open>The Grant service, with this test, adds no other grant.\<close>

lemma granted_means_border_clear:
  assumes "grant_item ext en fin cert (d, pend) req = (Inr resp, (d', pend'))" and "d' \<noteq> d"
    and "ge_border ext = violates_canadian_border_pfd bd"
  shows "\<exists>c (g :: grant_row) eirp inst. lock_cbsd_row d (dget req ''cbsdId'') = Some c \<and> d' = add_grant d g
    \<and> gr_eirp g = Some eirp \<and> pget_or_empty (cbsd_reg c) ''installationParam'' = Inr inst
    \<and> (truthy inst \<longrightarrow> border_clear bd inst eirp (gr_low g) (gr_high g))"
proof (cases rule: grant_item_cases [of ext en fin cert d pend req])
  case (refused r)
  then show ?thesis using assms(1,2) by simp
next
  case (checked c pl)
  show ?thesis
  proof (cases rule: admit_grant_cases [of ext en cert d pend req pl])
    case (refused r)
    then show ?thesis using assms(1,2) checked(5) by simp
  next
    case (admitted c' tx stamp g)
    obtain cap where "plan_grant ext en d c (pl_low pl) (pl_high pl) (pl_eirp pl) = Inr (Inr pl)"
      by (rule check_operation_plan [OF checked(4)])
    then have "border_blocks ext c (pl_low pl) (pl_high pl) (pl_eirp pl) = Inr False"
      by (auto elim: plan_grantE)
    then obtain inst where inst: "pget_or_empty (cbsd_reg c) ''installationParam'' = Inr inst"
      "truthy inst \<Longrightarrow> violates_canadian_border_pfd bd inst (pl_eirp pl) (pl_low pl) (pl_high pl) = Inr False"
      by (auto simp: border_blocks_def rbind_eq_Inr assms(3) split: if_splits)
    moreover have "gr_low g = pl_low pl" "gr_high g = pl_high pl" "gr_eirp g = Some (pl_eirp pl)"
      by (simp_all add: admitted(7) new_grant_def)
    moreover have "d' = add_grant d g" using assms(1) checked(5) admitted(8) by simp
    ultimately show ?thesis using checked(1) border_test_clear by auto
  qed
qed

subsection \<open>A site at the border\<close>

definition example_bd :: border_ext where
  "example_bd = \<lparr>bd_model = ''free_space'', bd_coordinates = Inr [''-75,45 -65,45''], bd_antenna = None, bd_itm = None\<rparr>"

definition border_site :: pyval where
  "border_site = PDict [(''latitude'', PInt 45), (''longitude'', PInt (- 75))]"

lemma example_vertices: "border_vertices example_bd = Inr [(- 75, 45), (- 65, 45)]"
proof -
  have "read_real ''-75'' = Some (- 75)" "read_real ''-65'' = Some (- 65)" "read_real ''45'' = Some 45"
    by (simp_all add: read_real_def read_unsigned_real_def read_mantissa_def py_strip_def is_space_def
        read_nat_def is_digit_def digit_val_def)
  then have "parse_coord_text ''-75,45 -65,45'' = [(- 75, 45), (- 65, 45)]"
    by (simp add: parse_coord_text_def split_words_def is_space_def map_filter_simps)
  then show ?thesis by (simp add: border_vertices_def example_bd_def)
qed

lemma example_closest:
  "closest_canadian_border_point example_bd 45 (- 75) 56 = Inr (Some (border_point_at 45 (- 75) (- 75, 45)))"
proof -
  let ?c = "max (2 / 10) \<bar>cos (radians 45)\<bar>"
  have c: "2 / 10 \<le> ?c" by simp
  then have "56 / (11132 / 100 * ?c) * (11 / 10) \<le> 56 / (11132 / 100 * (2 / 10)) * (11 / 10)"
    by (intro mult_right_mono divide_left_mono) auto
  then have far: "56 / (11132 / 100 * ?c) * (11 / 10) < 10" by simp
  have near: "0 \<le> 56 / (11132 / 100 * ?c) * (11 / 10)" using c by simp
  have "iap_haversine_km 45 (- 75) 45 (- 75) = 0" by (simp add: iap_haversine_km_def radians_def Let_def)
  then show ?thesis
    using far near
    by (simp add: closest_canadian_border_point_def example_vertices nearer_vertex_def border_point_at_def vertex_dist_def Let_def)
qed

lemma example_flux:
  "pfd_outcome example_bd (or_empty_dict border_site) (- 81) (45, - 75) (45, - 75) = Inr Border_allow"
proof -
  have fs: "bpr_free_space example_bd"
    by (simp add: bpr_free_space_def example_bd_def py_lower_def lower_char_def py_strip_def is_space_def Let_def)
  have "iap_haversine_km 45 (- 75) 45 (- 75) = 0" by (simp add: iap_haversine_km_def radians_def Let_def)
  then have loss: "border_free_space_loss_db 45 (- 75) 0 45 (- 75) BORDER_RX_HEIGHT_M = 20 * log 10 (15 / 10 ^ 4) + 20 * log 10 3625 + 3244 / 100"
    by (simp add: border_free_space_loss_db_def BORDER_RX_HEIGHT_M_def ITM_FREQ_MHZ_def Let_def)
  have "- 3 \<le> log 10 (15 / 10 ^ 4 :: real)" "3 \<le> log 10 (3625 :: real)"
    by (simp_all add: le_log_iff powr_minus)
  with loss have quiet: "\<not> border_pfd (- 81) 0 0 (border_free_space_loss_db 45 (- 75) 0 45 (- 75) BORDER_RX_HEIGHT_M) > PFD_LIMIT_DBM_M2_MHZ"
    unfolding border_pfd_def PFD_LIMIT_DBM_M2_MHZ_def loss by linarith
  have "max_antenna_gain PNone = 0" by (simp add: max_antenna_gain_def por_def)
  then show ?thesis
    using fs quiet
    by (simp add: pfd_outcome_def border_link_def border_site_def or_empty_dict_def por_def Let_def) (simp add: example_bd_def)
qed

theorem border_test_protects_witness:
  "violates_canadian_border_pfd example_bd border_site (- 81) 3660000000 3670000000 = Inr False
   \<and> border_clear example_bd border_site (- 81) 3660000000 3670000000"
proof -
  have site: "installation_site border_site = Some (45, - 75)"
    by (simp add: installation_site_def border_site_def)
  have "bo_dist (border_point_at 45 (- 75) (- 75, 45)) = 0"
    by (simp add: border_point_at_def vertex_dist_def iap_haversine_km_def radians_def Let_def)
  then have "check_cbsd_in_border_sharing_zone example_bd 45 (- 75) a b = Inr (Some (45, - 75))" for a b
    using example_closest
    by (simp add: check_cbsd_in_border_sharing_zone_def SHARING_ZONE_MAX_KM_def in_sharing_zone_def
        SHARING_ZONE_INNER_KM_def) (simp add: border_point_at_def)
  then have "evaluate_canadian_border_pfd example_bd border_site (- 81) 3660000000 3670000000 = Inr Border_allow"
    using example_flux site
    by (simp add: evaluate_canadian_border_pfd_def overlaps_arrangement_r_def ARRANGEMENT_R_LOW_HZ_def
        ARRANGEMENT_R_HIGH_HZ_def Let_def)
  then have "violates_canadian_border_pfd example_bd border_site (- 81) 3660000000 3670000000 = Inr False"
    by (simp add: violates_canadian_border_pfd_def)
  with border_test_protects [OF this] show ?thesis by blast
qed

end
