(* ===== verification/Injections.thy ===== *)
theory Injections
  imports CpasSafety
begin

text \<open>
  The injections of the administrator as steps on the database, and what they do to the grant-time
  admission: every accepted one moves the generation the admission is held against, so it stays closed
  until a coordination that has evaluated the injected data stamps its generation.
\<close>

subsection \<open>An injected sensor\<close>




subsection \<open>Accepted injections\<close>

















subsection \<open>The generation moves\<close>







subsection \<open>The admission closes\<close>





subsection \<open>An ESC zone is injected\<close>










end
