(* ===== verification/Spec2Isabelle.thy ===== *)
theory Spec2Isabelle
  imports Reachable CpasProtects DumpRoundTrip CouplingSafety BorderSafety Injections
begin

text \<open>
  \<^bold>\<open>A Spectrum Access System\<close>

  The repository is a SAS for the CBRS band (3550 to 3700 MHz): devices (CBSDs) register and ask it for
  grants of spectrum, it protects incumbents and licensees, exchanges activity dumps with other SASs and
  coordinates with them once a day. The development models the services of \<open>src/services\<close> with the routes
  that call them and the tables of \<open>src/models/models.py\<close>; this theory states the properties that span all
  of it. File names below are relative to \<open>src/services\<close> unless they say otherwise.

  \<^bold>\<open>How the parts interact.\<close> A request of a device arrives at \<open>routes/cbsd_routes.py\<close>, which checks the
  caller's certificate, parses the batch and hands each item to the service of its procedure. A service reads
  and locks rows, decides, moves the grant's lifecycle by an event and answers. Grants are admitted against
  the protected areas, the dynamic protection areas and the interference headroom that the last coordination
  left. Administrators inject zones, sites and licences; each injection moves a generation that closes the
  admission until a coordination has seen it. A coordination freezes the grants and the injected data,
  evaluates peer rules, exclusions, the interference allocation and the move lists, applies the decisions,
  publishes the activity dump and stamps the generation it evaluated.

  \<^bold>\<open>Values, state, errors.\<close> \<open>Sas_Prelude\<close> has the Python values of JSON documents (\<open>pyval\<close>), the exceptions
  (\<open>exn\<close>) and fallible results (\<open>'a res\<close>, \<open>Inl\<close> an exception). \<open>Models\<close> has the database: a table is the list
  of its rows in key order, a row a record. A stored JSON text is either malformed, empty or a document
  (\<open>jtext\<close>): the services only ever see what \<open>json.loads\<close> makes of it. Times are microseconds since 1970
  (\<open>time\<close>); Python's integers are \<open>int\<close> and its floats \<open>real\<close>, so rounding, infinities and NaN are out of the
  model. The program has no machine integers. State is passed explicitly; a transaction, its row locks and the
  advisory locks appear as one atomic step, and where the code commits in the middle the model returns the
  state that survives a failure (\<open>HeartbeatService\<close>, \<open>DpaService\<close>, \<open>CpasPipeline\<close>).

  \<^bold>\<open>Theories and the code they model.\<close>
    \<^item> \<open>Lifecycle\<close>: lifecycle.py, the transition tables of CBSDs and grants, and the persistence of an event. The
      locale \<open>transition_table\<close> is the contract of a table, interpreted for both machines.
    \<^item> \<open>Timestamps\<close>, \<open>Intervals\<close>, \<open>Geometry\<close>, \<open>Vincenty\<close>: instants as text, frequency ranges, geometry.py, and
      terrain/vincenty.py. The locale \<open>half_open_overlap\<close> is the contract of the services' copies of the overlap test.
    \<^item> \<open>Injected\<close>, \<open>Protection\<close>, \<open>Neighborhood\<close>: injected rows and how they are read, exclusion_zone_service.py,
      gwpz_protection.py, quiet_zone_service.py, federal_db_service.py, esc_admin_service.py (connectivity),
      dpa_neighborhood.py.
    \<^item> \<open>Spectrum\<close>: meas_report.py and spectrum_inquiry_service.py. \<open>Registration\<close>: registration_service.py and
      blacklist_service.py. \<open>Renewal\<close>, \<open>GrantService\<close>, \<open>HeartbeatService\<close>, \<open>Teardown\<close>: grant_renewal.py,
      grant_service.py, heartbeat_service.py, relinquishment_service.py and deregistration_service.py, one
      definition per item and the batch over it.
      The locale \<open>batch_service\<close> lifts what an item keeps to its batch, for all five procedures, and \<open>keyed_table\<close>
      has the laws of writing a row to a table.
    \<^item> \<open>WellFormed\<close>, \<open>System\<close>, \<open>Reachable\<close>: the invariant of the database and its preservation, the procedures
      together, and the whole as a step relation with its reachable states.
    \<^item> \<open>Batch\<close>, \<open>Certificates\<close>, \<open>CbsdRoutes\<close>: cbsd_batch.py, cbsd_version.py, certificate_policy.py, mtls_auth.py,
      cbsd_auth.py, and the routes end to end.
    \<^item> \<open>AdminInjection\<close>: data_injection_service.py and fss_provenance.py. \<open>Injections\<close>: the accepted injections as steps,
      with the sensor handler of \<open>routes/admin_routes.py\<close>, and what they do to the admission. \<open>Urls\<close>: \<open>urlsplit\<close>.
    \<^item> \<open>Iap\<close>, \<open>IapRounds\<close>, \<open>IapSafety\<close>: iap/models.py, iap/aggregate.py and iap/engine.py, the invariant of the rounds
      and the safety of their result. \<open>Coupling\<close>, \<open>CouplingSafety\<close>: iap/coupling.py and the allocation run
      with it.
    \<^item> \<open>IapGrants\<close>, \<open>ProtectionPoints\<close>, \<open>FrozenPoints\<close>, \<open>Admission\<close>, \<open>AdmissionSafety\<close>: iap/peer_fad.py, the frozen
      grants, iap/protection_points.py, iap/admission.py and mcp_protection.py.
    \<^item> \<open>DpaProtection\<close>, \<open>DpaService\<close>, \<open>DpaSafety\<close>, \<open>DpaActivation\<close>: dpa_protection.py, propagation/rel1ext_dpa.py and
      dpa_service.py. \<open>Border\<close>, \<open>BorderSafety\<close>: border_protection.py and border_geometry.py.
    \<^item> \<open>Cpas\<close>, \<open>CpasEvaluate\<close>, \<open>CpasSchedule\<close>, \<open>CpasPipeline\<close>: mcp_protection.py, cpas_service.py,
      iap/pre_iap_exclusions.py, cpas_schedule_service.py. \<open>CpasSafety\<close> and \<open>CpasProtects\<close> have their theorems.
    \<^item> \<open>Fad\<close>, \<open>FadSafety\<close>: fad_service.py. \<open>FadRoutes\<close>: \<open>routes/sas_sas_routes.py\<close>. \<open>FadClient\<close>, \<open>PeerSync\<close>:
      fad_client_service.py and its theorems. \<open>DumpRoundTrip\<close> puts server, routes and client together.

  \<^bold>\<open>What the lemmas show.\<close> Each component has lemmas for every branch of its operations (the
  \<open>_cases\<close> rules), the rows an operation leaves (\<open>evolves\<close>, \<open>restricts\<close>,
  \<open>only_kinds\<close>) and the preservation of the database invariant. Above them: reachable states are sound and
  requests stay with their certificate; what a request must have met when it is granted, authorised, renewed, relinquished
  or deregistered; that the event evaluation refines the abstract grant machine; that the rounds of the allocation keep
  their books, end in the rounds allowed, and leave every point within its threshold; that an admitted proposal keeps the
  headroom and every accepted injection closes the admission until its generation is stamped; that move lists are the
  shortest ones and an activation is protected even when the path loss cannot be computed; that a grant passes the border
  test only with a reason; that a published dump holds exactly the records of the database, that an accepted generation
  agrees with the manifest its peer served, that a peer which fetches it stores exactly those, and that a failing peer
  leaves all others and its own earlier records alone; and that a coordination is all or nothing, opens the admission, and
  keeps the points it saw protected on the air, whatever its families decided.

  \<^bold>\<open>Parameters.\<close> Code outside \<open>src\<close> or outside the model enters as arguments:
  \<open>env\<close> (the clock, identifiers, a SHA-1 of text, ISO parsing of times, terrain elevations, the field offices),
  \<open>item_model\<close> (the pydantic model of a raw item), \<open>reg_ext\<close> (the verdict on an installer's
  signature and the height above average terrain), \<open>grant_ext\<close> (the border, DPA and headroom tests, which the
  safety theorems instantiate with the model's own), \<open>trust_context\<close> (the signature check of a certificate with
  its issuer's key), \<open>inject_ext\<close> and \<open>fad_ext\<close> (the administrator's identity, the text and bytes
  of a JSON document, the checks \<open>urlsplit\<close> makes of an authority), \<open>rf_engines\<close> (the terrain
  propagation engines), \<open>coupling_ext\<close> and \<open>border_ext\<close> (the reference engines, the configured
  loss model, the coordinates of the border file), the coupling of the allocation and of the admission where a theorem holds
  for any, the spectrum profile's band edges and rules, \<open>schedule_ext\<close> (the environment variables and time
  zones), \<open>fad_client\<close> (what names resolve to, what a GET answers, the classes of an address, the JSON behind
  bytes) and \<open>pipeline_ext\<close> (the two synchronisations a coordination starts with). Theorems about interference
  ask of a coupling that it is never negative and grows with the power; a witness instantiates every parameter by a concrete
  function.

  \<^bold>\<open>Bounds and termination.\<close> A batch holds at most \<open>sx_max_batch\<close> items (100 as shipped). The allocation's loop is bounded by
  \<open>max_iterations\<close> (10000) as in the code; \<open>enough_rounds\<close> says when that is enough, and the theorem that
  the allocation completes proves it: one round per grant and one per step of the power range suffice. A manifest names at most 101
  files and a page 1 to 10000 records. The iteration of \<open>geodesic_distance_km\<close> has no bound in the code: it is a partial
  function here, and not returning is an outcome of its callers. All other recursion is structural or has its measure proved.

  \<^bold>\<open>Not modelled.\<close> The propagation engines and terrain tiles (numerical code over external references),
  the reading of the border file, contours and polygon areas of PPA creation and quiet zone files (polygon libraries), the
  network client that fetches external databases, signatures of installers, the task queue and the scheduler's thread, the
  administrative handlers that only dispatch, the injection of licences (pal_service.py) and of priority areas, the loaders
  of shipped files, and the certification tools. Transactions are atomic: interleavings inside one are not modelled.
  Explanation texts of allocation decisions, log lines and metrics are left out.
\<close>

subsection \<open>A system with one registered CBSD\<close>

definition example_cert :: certificate where
  "example_cert = \<lparr>ce_sha1_hex = ''0011'', ce_not_before = 0, ce_not_after = 10,
     ce_basic_constraints = Some False, ce_extended_usage = Some [''1.3.6.1.5.5.7.3.2''],
     ce_digital_signature = Some True, ce_key = RSA 2048, ce_policies = Some [OID_ROLE_CBSD],
     ce_serial = 7, ce_issuer = ''CA'', ce_subject = ''CBSD''\<rparr>"

definition example_sas :: sas_ext where
  "example_sas = \<lparr>sx_reg = example_reg_ext,
     sx_grant = example_grant_ext,
     sx_models = (\<lambda>_ d. Inr d), sx_trust = \<lparr>tc_verify = (\<lambda>_ _. True), tc_roots = None, tc_crls = []\<rparr>,
     sx_max_batch = 100\<rparr>"

definition example_start_db :: db where
  "example_start_db = example_reg_db\<lparr>db_cbsds := [], db_grants := [], db_next_cbsd := 0, db_next_grant := 0\<rparr>"

definition example_served :: "http_reply res \<times> db" where
  "example_served = run_batch example_sas (example_env\<lparr>env_now := 0\<rparr>) Registration (TLS (Some example_cert))
     [(''registrationRequest'', PList [PDict example_registration])] example_start_db"

lemma example_env_at [simp]: "example_env\<lparr>env_now := 0\<rparr> = example_env"
  by (simp add: example_env_def)

lemma example_caller:
  "authorize_cbsd_operation (sx_trust example_sas) 0 (TLS (Some example_cert))
     = \<lparr>au_hash = Some ''00:11'', au_role = ROLE_CBSD, au_allowed = True, au_denial = None\<rparr>"
proof -
  have "sha1_fingerprint_colon example_cert = ''00:11''"
    by (simp add: sha1_fingerprint_colon_def example_cert_def py_upper_def upper_char_def)
  then show ?thesis
    by (simp add: authorize_cbsd_operation_def classify_cbsd_client_role_def certificate_policy_oids_def
        role_certificate_ok_def validate_cbsd_certificate_def validate_leaf_def Let_def
        check_temporal_def is_ca_def key_type_allowed_def has_client_auth_def has_digital_signature_def
        check_revoked_def example_sas_def)
      (simp add: example_cert_def)
qed

lemma example_payload:
  "parse_item_batch 100 (\<lambda>d. Inr d) (PList [PDict example_registration])
     = Inr \<lparr>bp_codes = [None], bp_items = [example_registration], bp_index = [0]\<rparr>"
proof -
  have "payload_for_service example_registration example_registration = example_registration"
    by (simp add: payload_for_service_def restore_nested_def example_registration_def dmerge_def)
  then show ?thesis by (simp add: parse_item_batch_def parse_item_def)
qed

lemma example_registers:
  "run_batch example_sas example_env Registration (TLS (Some example_cert))
     [(''registrationRequest'', PList [PDict example_registration])] example_start_db
   = (Inr (Http 200 [(''registrationResponse'', PList [PDict
        [(''cbsdId'', PStr ''F/S''), (''response'', PDict [(''responseCode'', PInt 0)])]])]),
      add_cbsd example_start_db (new_cbsd example_env (Some ''00:11'') example_registration example_registration))"
proof -
  let ?d = example_start_db
  have tables: "db_fcc_ids ?d = [(''F'', 47)]" "db_user_ids ?d = [''U'']" "db_conditionals ?d = []"
    "db_black_fcc ?d = []" "db_black_serial ?d = []" "db_injected ?d = db_injected example_reg_db"
    by (simp_all add: example_start_db_def example_reg_tables)
  have ids: "py_str example_env (dget example_registration ''fccId'') = ''F''"
    "py_str example_env (dget example_registration ''cbsdSerialNumber'') = ''S''"
    by (simp_all add: example_registration_def)
  have free: "lock_cbsd_row ?d v = None" "db_cbsds ?d = []" for v
    by (simp_all add: lock_cbsd_row_def example_start_db_def)
  have "to_ok (evaluate_cbsd_transition REGISTER UNREGISTERED example_registration)"
    by (simp add: evaluate_cbsd_transition_def Let_def missing_Nil complete_payload_def
        example_registration_def)
  then have item: "register_item example_reg_ext example_env (Some ''00:11'') ?d example_registration
      = (Inr (reg_resp SUCCESS (Some ''F/S'')),
         add_cbsd ?d (new_cbsd example_env (Some ''00:11'') example_registration example_registration))"
    by (simp add: register_item_def example_checks [OF tables] persist_registration_def Let_def ids
        make_cbsd_id_def free)
  have flag: "\<not> admin_flag_set (add_cbsd ?d c) FLAG_MEAS_REG" for c
    by (simp add: admin_flag_set_def add_cbsd_def rows_of_kind_def tables example_reg_db_def FLAG_MEAS_REG_def)
  have "run_service example_sas example_env Registration (Some ''00:11'') ?d [example_registration]
      = (Inr [[(''cbsdId'', PStr ''F/S''), code_entry 0]],
         add_cbsd ?d (new_cbsd example_env (Some ''00:11'') example_registration example_registration))"
    by (simp add: run_service_def dicts_def process_registration_def item flag example_sas_def
        reg_dict_def reg_resp_def)
  then show ?thesis
    using example_caller example_payload
    by (simp add: run_batch_def Let_def request_key_def response_key_def schema_slot_def
        merge_schema_and_service_responses_def example_sas_def example_env_def)
qed
definition example_state :: sas_state where
  "example_state = \<lparr>ss_now = 0, ss_db = add_cbsd example_start_db
     (new_cbsd example_env (Some ''00:11'') example_registration example_registration)\<rparr>"

lemma example_reachable: "reachable example_sas example_env example_state"
proof -
  have "reachable example_sas example_env \<lparr>ss_now = 0, ss_db = empty_db\<rparr>" by (rule reachable.start)
  moreover have "other_tables empty_db example_start_db"
    by (simp add: other_tables_def empty_db_def example_start_db_def)
  ultimately have "reachable example_sas example_env \<lparr>ss_now = 0, ss_db = example_start_db\<rparr>"
    by (rule reachable.step [OF _ administration])
  from reachable.step [OF this request, of Registration "TLS (Some example_cert)"
      "[(''registrationRequest'', PList [PDict example_registration])]"]
  show ?thesis by (simp add: example_registers example_state_def)
qed

subsection \<open>Properties of the whole system\<close>

text \<open>
  C2. In every reachable state, after any sequence of CBSD requests, coordination runs,
  administrative changes of the other tables and passing time: CBSD identifiers are unique,
  every grant belongs to a registered CBSD, lies in the 3550-3700 MHz band and has flags that
  agree with its lifecycle state, two grants of one CBSD that are not terminated never overlap
  in frequency, a grant marked expired has expired, and grant identifiers never repeat when the
  identifier generator does not.
\<close>

theorem reachable_states_are_sound:
  assumes "reachable sx en s"
  shows "distinct (map cb_id (db_cbsds (ss_db s)))
     \<and> (\<forall>g\<in>set (db_grants (ss_db s)).
          (\<exists>c\<in>set (db_cbsds (ss_db s)). cb_pk c = gr_cbsd_pk g \<and> cb_id c = gr_cbsd_id g
             \<and> cb_state c = cbsd_state_value REGISTERED)
          \<and> 3550000000 \<le> gr_low g \<and> gr_low g < gr_high g \<and> gr_high g \<le> 3700000000
          \<and> grant_in_sync g
          \<and> (gr_state g = grant_state_value EXPIRED \<longrightarrow> grant_expired (ss_now s) g)
          \<and> (\<forall>h\<in>set (db_grants (ss_db s)). gr_pk g \<noteq> gr_pk h \<longrightarrow> gr_cbsd_id g = gr_cbsd_id h \<longrightarrow>
               \<not> gr_term g \<longrightarrow> \<not> gr_term h \<longrightarrow>
               gr_high g \<le> gr_low h \<or> gr_high h \<le> gr_low g))
     \<and> (inj (env_uuid en) \<longrightarrow> distinct (map gr_id (db_grants (ss_db s))))"
proof -
  let ?d = "ss_db s"
  from reachable_ok [OF assms] have inv: "sas_inv (env_uuid en) ?d" and past: "expired_past (ss_now s) ?d"
    by (simp_all add: state_ok_def)
  note wf = sas_invD(1) [OF inv]
  have cw: "cbsds_wf ?d" and nc: "no_conflicts (db_grants ?d)"
    using wf by (simp_all add: db_wf_def grants_wf_def)
  have "\<exists>c\<in>set (db_cbsds ?d). cb_pk c = gr_cbsd_pk g \<and> cb_id c = gr_cbsd_id g
      \<and> cb_state c = cbsd_state_value REGISTERED" if "g \<in> set (db_grants ?d)" for g
    using grants_wfD(3) [OF wf that] cw by (auto simp: owned_def cbsds_wf_def)
  moreover have "3550000000 \<le> gr_low g \<and> gr_low g < gr_high g \<and> gr_high g \<le> 3700000000"
    if "g \<in> set (db_grants ?d)" for g
    using grants_wfD(2) [OF wf that] by (simp add: in_band_def band_defs)
  moreover have "gr_high g \<le> gr_low h \<or> gr_high h \<le> gr_low g"
    if "g \<in> set (db_grants ?d)" "h \<in> set (db_grants ?d)" "gr_pk g \<noteq> gr_pk h"
      "gr_cbsd_id g = gr_cbsd_id h" "\<not> gr_term g" "\<not> gr_term h" for g h
  proof -
    have "\<not> conflict g h" using nc that(1-3) by (simp add: no_conflicts_def)
    then show ?thesis using that(4-6) by (auto simp: conflict_def overlaps_def)
  qed
  moreover have "grant_in_sync g" "gr_state g = grant_state_value EXPIRED \<longrightarrow> grant_expired (ss_now s) g"
    if "g \<in> set (db_grants ?d)" for g
    using grants_wfD(1) [OF wf that] past that by (simp_all add: expired_past_def)
  moreover have "distinct (map cb_id (db_cbsds ?d))" using cw by (simp add: cbsds_wf_def)
  moreover have "inj (env_uuid en) \<longrightarrow> distinct (map gr_id (db_grants ?d))"
    using ids_distinct [OF sas_invD(2) [OF inv] _ locked_grants(3) [OF wf]] by blast
  ultimately show ?thesis by blast
qed

text \<open>The state after a CBSD has registered over TLS.\<close>

theorem reachable_states_are_sound_witness:
  "map cb_id (db_cbsds (ss_db example_state)) = [''F/S''] \<and> distinct (map cb_id (db_cbsds (ss_db example_state)))"
  using reachable_states_are_sound [OF example_reachable]
  by (simp add: example_state_def add_cbsd_def example_start_db_def example_registration_def make_cbsd_id_def)

text \<open>
  C3. A request, whatever procedure and body, changes nothing when its caller is refused, and
  in a reachable state it never touches a CBSD that is bound to another certificate than the
  caller's: the registration stays and so does every grant of it, in the same order.
\<close>

theorem requests_stay_with_their_certificate:
  assumes "reachable sx en s" and "c \<in> set (db_cbsds (ss_db s))"
    and "cbsd_certificate_mismatch c
       (au_hash (authorize_cbsd_operation (sx_trust sx) (ss_now s) peer))"
  shows "let auth = authorize_cbsd_operation (sx_trust sx) (ss_now s) peer;
             d' = snd (run_batch sx (en\<lparr>env_now := ss_now s\<rparr>) p peer body (ss_db s)) in
     (\<not> au_allowed auth \<longrightarrow> d' = ss_db s)
     \<and> c \<in> set (db_cbsds d')
     \<and> filter (\<lambda>g. gr_cbsd_id g = cb_id c) (db_grants d')
         = filter (\<lambda>g. gr_cbsd_id g = cb_id c) (db_grants (ss_db s))"
proof -
  let ?en = "en\<lparr>env_now := ss_now s\<rparr>"
  from reachable_ok [OF assms(1)] have "kept ?en (caller sx ?en peer) (ss_db s) (ss_db s)"
    by (intro kept_start) (simp_all add: state_ok_def)
  from run_batch_kept [OF this, of p body]
  have "isolates (caller sx ?en peer) (ss_db s) (snd (run_batch sx ?en p peer body (ss_db s)))"
    by (simp add: kept_def)
  moreover have "snd (run_batch sx ?en p peer body (ss_db s)) = ss_db s"
    if "\<not> au_allowed (authorize_cbsd_operation (sx_trust sx) (ss_now s) peer)"
    using that by (simp add: run_batch_def Let_def)
  ultimately show ?thesis using assms(2,3) by (simp add: isolates_def Let_def)
qed

text \<open>Someone without a certificate asks to deregister the CBSD of the example.\<close>

theorem requests_stay_with_their_certificate_witness:
  "map cb_id (db_cbsds (snd (run_batch example_sas (example_env\<lparr>env_now := 0\<rparr>) Deregistration No_TLS
      [(''deregistrationRequest'', PList [PDict [(''cbsdId'', PStr ''F/S'')]])] (ss_db example_state)))) \<noteq> []"
proof -
  let ?c = "new_cbsd example_env (Some ''00:11'') example_registration example_registration"
  have c: "?c \<in> set (db_cbsds (ss_db example_state))"
    by (simp add: example_state_def add_cbsd_def example_start_db_def)
  have "au_hash (authorize_cbsd_operation (sx_trust example_sas) (ss_now example_state) No_TLS) = None"
    by (simp add: authorize_cbsd_operation_def)
  then have "cbsd_certificate_mismatch ?c
      (au_hash (authorize_cbsd_operation (sx_trust example_sas) (ss_now example_state) No_TLS))"
    by (simp add: cbsd_certificate_mismatch_def)
  from requests_stay_with_their_certificate [OF example_reachable c this,
      where p = Deregistration and body = "[(''deregistrationRequest'', PList [PDict [(''cbsdId'', PStr ''F/S'')]])]"]
  show ?thesis by (auto simp: Let_def example_state_def)
qed

end
